(* ===== verification/Prelude.thy ===== *)
theory Prelude
  imports Main "HOL-Library.AList" "HOL-Library.Char_ord" "HOL-Library.List_Lexorder"
    "HOL-Library.Product_Lexorder" "HOL-Library.Multiset"
begin

text \<open>
  Shared vocabulary of the development.

  \<^item> Go maps.  A Go map that the code ranges over is an association list with the operations
    of the locale \<open>go_map\<close> below (lookup, assignment, \<open>delete\<close>, the ranged-over pairs); the list
    order stands for the iteration order, which Go leaves unspecified, so results that are
    meant to be deterministic are proved independent of it.
  \<^item> Go slices of rows are lists; \<open>sort.Slice\<close> with a key comparison is \<open>sort_key\<close>.  Strings
    are byte strings (\<open>char list\<close>) and compare bytewise, as in Go.
  \<^item> Folds.  A decoder is a loop over the ledger's changes; the locale \<open>owned_fold\<close> states what
    such a loop promises about changes of contracts the adapter does not own, and
    \<open>inv_fold\<close> lifts a one-step invariant to the loop.
\<close>

named_theorems row_simps \<open>equations of the small row builders and key functions\<close>
named_theorems frame \<open>what an operation leaves unchanged\<close>

section \<open>Go maps\<close>

type_synonym ('k, 'v) gmap = "('k \<times> 'v) list"

definition gm_get :: "('k, 'v) gmap \<Rightarrow> 'k \<Rightarrow> 'v option" where
  "gm_get m k = map_of m k"

definition gm_set :: "'k \<Rightarrow> 'v \<Rightarrow> ('k, 'v) gmap \<Rightarrow> ('k, 'v) gmap" where
  "gm_set k v m = AList.update k v m"

definition gm_del :: "'k \<Rightarrow> ('k, 'v) gmap \<Rightarrow> ('k, 'v) gmap" where
  "gm_del k m = AList.delete k m"

definition gm_ok :: "('k, 'v) gmap \<Rightarrow> bool" where
  "gm_ok m \<longleftrightarrow> distinct (map fst m)"

text \<open>The interface: what a Go map guarantees whatever its iteration order.\<close>

locale go_map =
  fixes nil :: "'m"
    and get :: "'m \<Rightarrow> 'k \<Rightarrow> 'v option"
    and upd :: "'k \<Rightarrow> 'v \<Rightarrow> 'm \<Rightarrow> 'm"
    and del :: "'k \<Rightarrow> 'm \<Rightarrow> 'm"
    and ok :: "'m \<Rightarrow> bool"
  assumes ok_nil: "ok nil"
    and ok_upd: "ok m \<Longrightarrow> ok (upd k v m)"
    and ok_del: "ok m \<Longrightarrow> ok (del k m)"
    and get_nil: "get nil k = None"
    and get_upd: "get (upd k v m) k' = (if k' = k then Some v else get m k')"
    and get_del: "ok m \<Longrightarrow> get (del k m) k' = (if k' = k then None else get m k')"
begin

text \<open>Loading a slice into a map: \<open>for _, x := range xs { m[key(x)] = x }\<close>.\<close>

definition load :: "('x \<Rightarrow> 'k) \<Rightarrow> ('x \<Rightarrow> 'v) \<Rightarrow> 'x list \<Rightarrow> 'm \<Rightarrow> 'm" where
  "load key val xs m = foldl (\<lambda>m x. upd (key x) (val x) m) m xs"

lemma load_Nil [simp]: "load key val [] m = m"
  by (simp add: load_def)

lemma load_Cons [simp]: "load key val (x # xs) m = load key val xs (upd (key x) (val x) m)"
  by (simp add: load_def)

lemma ok_load: "ok m \<Longrightarrow> ok (load key val xs m)"
  by (induction xs arbitrary: m) (auto intro: ok_upd)

lemma get_load_other: "k \<notin> key ` set xs \<Longrightarrow> get (load key val xs m) k = get m k"
  by (induction xs arbitrary: m) (auto simp: get_upd)

lemma get_load_in: "distinct (map key xs) \<Longrightarrow> x \<in> set xs \<Longrightarrow> get (load key val xs m) (key x) = Some (val x)"
proof (induction xs arbitrary: m)
  case Nil
  then show ?case by simp
next
  case (Cons y ys)
  then show ?case by (cases "x = y") (auto simp: get_load_other get_upd)
qed

text \<open>A value found in a loaded map was in the slice or was there before.\<close>

lemma get_load_Some:
  "get (load key val xs m) k = Some v \<Longrightarrow> (\<exists>x\<in>set xs. key x = k \<and> val x = v) \<or> get m k = Some v"
proof (induction xs arbitrary: m)
  case Nil
  then show ?case by simp
next
  case (Cons y ys)
  from Cons.IH [OF Cons.prems [unfolded load_Cons]] show ?case
    by (auto simp: get_upd split: if_splits)
qed

end

lemma map_of_alist_delete: "map_of (AList.delete k m) k' = (if k' = k then None else map_of m k')"
  by (simp add: delete_conv')

interpretation gm: go_map "[]" gm_get gm_set gm_del gm_ok
  by unfold_locales
    (auto simp: gm_ok_def gm_get_def gm_set_def gm_del_def distinct_update update_conv'
      map_of_alist_delete distinct_delete)

lemmas gm_simps = gm.get_nil gm.get_upd gm.get_del

lemma set_gm_set: "set (gm_set k v m) \<subseteq> insert (k, v) (set m)"
proof (induction m)
  case Nil
  then show ?case by (simp add: gm_set_def)
next
  case (Cons p m)
  then show ?case by (cases p) (auto simp: gm_set_def)
qed

lemma set_gm_del: "set (gm_del k m) \<subseteq> set m"
  by (auto simp: gm_del_def AList.delete_eq)

lemma gm_get_in: "gm_get m k = Some v \<Longrightarrow> (k, v) \<in> set m"
  by (simp add: gm_get_def map_of_SomeD)

lemma in_gm_get: "gm_ok m \<Longrightarrow> (k, v) \<in> set m \<Longrightarrow> gm_get m k = Some v"
  by (simp add: gm_get_def gm_ok_def)

text \<open>Every entry sits under the key its value computes: true of every map the decoders build.\<close>

definition keyed :: "('v \<Rightarrow> 'k) \<Rightarrow> ('k, 'v) gmap \<Rightarrow> bool" where
  "keyed key m \<longleftrightarrow> gm_ok m \<and> (\<forall>(k, v) \<in> set m. k = key v)"

lemma keyed_Nil [simp]: "keyed key []"
  by (simp add: keyed_def gm_ok_def)

lemma keyed_set [intro]: "keyed key m \<Longrightarrow> k = key v \<Longrightarrow> keyed key (gm_set k v m)"
  using set_gm_set [of k v m] by (fastforce simp: keyed_def gm.ok_upd)

lemma keyed_del [intro]: "keyed key m \<Longrightarrow> keyed key (gm_del k m)"
  using set_gm_del [of k m] by (fastforce simp: keyed_def gm.ok_del)

lemma keyed_load: "keyed key m \<Longrightarrow> keyed key (gm.load key (\<lambda>x. x) xs m)"
  by (induction xs arbitrary: m) auto

lemma keyed_get: "keyed key m \<Longrightarrow> gm_get m k = Some v \<Longrightarrow> k = key v"
  by (fastforce simp: keyed_def dest: gm_get_in)

lemma keyed_distinct: "keyed key m \<Longrightarrow> distinct (map key (map snd m))"
proof -
  assume a: "keyed key m"
  then have "map key (map snd m) = map fst m" by (auto simp: keyed_def)
  with a show ?thesis by (metis keyed_def gm_ok_def)
qed

section \<open>Sorted output\<close>

text \<open>
  \<open>sort.Slice\<close> is not a stable sort, so a sorted slice is determined only when the keys are
  distinct; then it does not depend on the order in which a map was ranged over.
\<close>

lemma sort_key_order_free:
  assumes "mset xs = mset ys" and "distinct (map key xs)"
  shows "sort_key key xs = sort_key key ys"
proof -
  have s: "set xs = set ys" using assms(1) by (rule mset_eq_setD)
  have d: "distinct (map key ys)"
    using assms by (metis mset_eq_imp_distinct_iff mset_map)
  have i: "inj_on key (set xs)" using assms(2) by (simp add: distinct_map)
  have "map key (sort_key key xs) = map key (sort_key key ys)"
    by (rule sorted_distinct_set_unique) (use assms(2) d s in \<open>simp_all add: distinct_map\<close>)
  then show ?thesis
    by (rule map_inj_on) (use i s in simp)
qed

text \<open>Searching a slice by key, in a sorted output and in a slice just loaded into a map.\<close>

lemma find_SomeD: "find P xs = Some x \<Longrightarrow> x \<in> set xs \<and> P x"
  by (induction xs) (auto split: if_splits)

lemma find_output:
  assumes "keyed key m"
  shows "find (\<lambda>v. key v = k) (sort_key f (map snd m)) = gm_get m k"
proof (cases "gm_get m k")
  case None
  have "key v \<noteq> k" if "v \<in> snd ` set m" for v
    using that assms None by (fastforce simp: keyed_def dest: in_gm_get)
  then show ?thesis using None by (simp add: find_None_iff)
next
  case (Some v)
  then have v: "v \<in> snd ` set m" "key v = k"
    using assms by (force dest: gm_get_in keyed_get)+
  then have "find (\<lambda>v. key v = k) (sort_key f (map snd m)) \<noteq> None"
    by (auto simp: find_None_iff)
  then obtain u where u: "find (\<lambda>v. key v = k) (sort_key f (map snd m)) = Some u" by auto
  then have "u \<in> snd ` set m" "key u = k" using find_SomeD [OF u] by simp_all
  then have "gm_get m k = Some u" using assms by (fastforce simp: keyed_def dest: in_gm_get)
  with u Some show ?thesis by simp
qed

lemma find_load:
  assumes "distinct (map key xs)"
  shows "gm_get (gm.load key (\<lambda>x. x) xs []) k = find (\<lambda>x. key x = k) xs"
proof (cases "find (\<lambda>x. key x = k) xs")
  case None
  then have "k \<notin> key ` set xs" by (auto simp: find_None_iff)
  then show ?thesis using None by (simp add: gm.get_load_other gm.get_nil)
next
  case (Some x)
  then have "x \<in> set xs" "key x = k" using find_SomeD [of "\<lambda>x. key x = k" xs x] by simp_all
  then show ?thesis using Some gm.get_load_in [OF assms, of x "\<lambda>x. x" "[]"] by simp
qed

definition sorted_by :: "('a \<Rightarrow> 'k::linorder) \<Rightarrow> 'a list \<Rightarrow> bool" where
  "sorted_by key xs \<longleftrightarrow> sorted (map key xs) \<and> distinct (map key xs)"

lemma sorted_by_output: "keyed key m \<Longrightarrow> sorted_by key (sort_key key (map snd m))"
  using keyed_distinct [of key m] by (simp only: sorted_by_def distinct_map sorted_sort_key
    distinct_sort set_sort simp_thms)

section \<open>Loops over changes\<close>

definition run :: "('c \<Rightarrow> 's \<Rightarrow> 's) \<Rightarrow> 'c list \<Rightarrow> 's \<Rightarrow> 's" where
  "run step cs s = foldl (\<lambda>s c. step c s) s cs"

lemma run_Nil [simp]: "run step [] s = s"
  by (simp add: run_def)

lemma run_Cons [simp]: "run step (c # cs) s = run step cs (step c s)"
  by (simp add: run_def)

lemma run_append: "run step (cs @ ds) s = run step ds (run step cs s)"
  by (simp add: run_def)

lemma run_inv:
  assumes "\<And>c s. c \<in> set cs \<Longrightarrow> P s \<Longrightarrow> P (step c s)" and "P s"
  shows "P (run step cs s)"
  using assms by (induction cs arbitrary: s) auto

lemma run_filter_idle:
  "(\<And>c s. \<not> P c \<Longrightarrow> step c s = s) \<Longrightarrow> run step (filter P cs) s = run step cs s"
  by (induction cs arbitrary: s) auto

locale inv_fold =
  fixes step :: "'c \<Rightarrow> 's \<Rightarrow> 's" and inv :: "'s \<Rightarrow> bool"
  assumes inv_step: "inv s \<Longrightarrow> inv (step c s)"
begin

lemma inv_run: "inv s \<Longrightarrow> inv (run step cs s)"
  by (rule run_inv) (auto intro: inv_step)

end

text \<open>
  The ownership contract of \<open>bindings.ProtocolAdapter\<close>: a change of a contract the adapter does
  not own leaves the decoder's working state alone.  Ownership may grow while the loop runs
  (a pool announces its share token), so it depends on the state.
\<close>

locale owned_fold = inv_fold +
  fixes owns :: "'s \<Rightarrow> 'c \<Rightarrow> bool"
  assumes unowned_step: "inv s \<Longrightarrow> \<not> owns s c \<Longrightarrow> step c s = s"
begin

fun owned_part :: "'c list \<Rightarrow> 's \<Rightarrow> 'c list" where
  "owned_part [] s = []"
| "owned_part (c # cs) s =
     (if owns s c then c # owned_part cs (step c s) else owned_part cs s)"

lemma run_owned_part: "inv s \<Longrightarrow> run step (owned_part cs s) s = run step cs s"
  by (induction cs arbitrary: s) (auto simp: unowned_step intro: inv_step)

lemma run_none_owned:
  "inv s \<Longrightarrow> \<forall>c\<in>set cs. \<not> owns s c \<Longrightarrow> run step cs s = s"
  by (induction cs) (auto simp: unowned_step)

end

section \<open>Rounding\<close>

lemma div_superadditive: "0 < t \<Longrightarrow> (a :: int) div t + b div t \<le> (a + b) div t"
proof -
  assume t: "0 < t"
  have "(a div t + b div t) * t = a + b - (a mod t + b mod t)"
    by (simp add: distrib_right minus_mod_eq_div_mult [symmetric])
  also have "\<dots> \<le> a + b" using pos_mod_sign [OF t, of a] pos_mod_sign [OF t, of b] by linarith
  finally have "(a div t + b div t) * t div t \<le> (a + b) div t" using t by (rule zdiv_mono1)
  with t show ?thesis by simp
qed

lemma sum_div_le:
  assumes "0 < (t :: int)"
  shows "sum_list (map (\<lambda>n. n div t) ns) \<le> sum_list ns div t"
proof (induction ns)
  case (Cons n ns)
  then show ?case using div_superadditive [OF assms, of n "sum_list ns"] by simp
qed simp

text \<open>Shares of a whole, each rounded down, never add up to more than the whole.\<close>

lemma shares_conserve:
  assumes "0 < (t :: int)" and "0 \<le> r" and "sum_list ns \<le> t"
  shows "sum_list (map (\<lambda>n. n * r div t) ns) \<le> r"
proof -
  have "sum_list (map (\<lambda>n. n * r div t) ns) \<le> sum_list (map (\<lambda>n. n * r) ns) div t"
    using sum_div_le [OF assms(1), of "map (\<lambda>n. n * r) ns"] by (simp add: comp_def)
  also have "sum_list (map (\<lambda>n. n * r) ns) = sum_list ns * r"
    by (simp add: sum_list_mult_const)
  also have "sum_list ns * r div t \<le> t * r div t"
    using assms by (intro zdiv_mono1 mult_right_mono) auto
  also have "t * r div t = r" using assms(1) by simp
  finally show ?thesis .
qed

section \<open>Two outcomes per input\<close>

definition lefts :: "('a + 'b) list \<Rightarrow> 'a list" where
  "lefts xs = concat (map (\<lambda>x. case x of Inl a \<Rightarrow> [a] | Inr _ \<Rightarrow> []) xs)"

definition rights :: "('a + 'b) list \<Rightarrow> 'b list" where
  "rights xs = concat (map (\<lambda>x. case x of Inl _ \<Rightarrow> [] | Inr b \<Rightarrow> [b]) xs)"

lemma in_map_filter: "y \<in> set (List.map_filter f xs) \<longleftrightarrow> (\<exists>x\<in>set xs. f x = Some y)"
  by (force simp: List.map_filter_def)

lemma in_lefts: "x \<in> set (lefts xs) \<longleftrightarrow> Inl x \<in> set xs"
  by (force simp: lefts_def split: sum.splits)

lemma in_rights: "x \<in> set (rights xs) \<longleftrightarrow> Inr x \<in> set xs"
  by (force simp: rights_def split: sum.splits)

lemmas in_outputs = in_map_filter in_lefts in_rights

section \<open>Errors\<close>

text \<open>\<open>if x, err = f(); err != nil { return err }\<close>.\<close>

definition and_then :: "'e + 'a \<Rightarrow> ('a \<Rightarrow> 'e + 'b) \<Rightarrow> 'e + 'b" where
  "and_then r f = (case r of Inl e \<Rightarrow> Inl e | Inr x \<Rightarrow> f x)"

lemma and_then_simps [simp]: "and_then (Inl e) f = Inl e" "and_then (Inr x) f = f x"
  by (simp_all add: and_then_def)

lemma and_then_Inr: "and_then r f = Inr y \<longleftrightarrow> (\<exists>x. r = Inr x \<and> f x = Inr y)"
  by (cases r) simp_all

text \<open>A loop whose body may return an error.\<close>

fun foldE :: "('a \<Rightarrow> 's \<Rightarrow> 'e + 's) \<Rightarrow> 'a list \<Rightarrow> 's \<Rightarrow> 'e + 's" where
  "foldE f [] s = Inr s"
| "foldE f (x # xs) s = and_then (f x s) (foldE f xs)"

lemma foldE_inv:
  assumes "foldE f xs s = Inr t" and "P s"
    and "\<And>x s t. x \<in> set xs \<Longrightarrow> P s \<Longrightarrow> f x s = Inr t \<Longrightarrow> P t"
  shows "P t"
  using assms
proof (induction xs arbitrary: s)
  case Nil
  then show ?case by simp
next
  case (Cons x xs)
  obtain u where u: "f x s = Inr u" "foldE f xs u = Inr t" using Cons.prems(1) by (auto simp: and_then_Inr)
  show ?case
  proof (rule Cons.IH [OF u(2)])
    show "P u" using Cons.prems(3) [OF _ Cons.prems(2) u(1)] by simp
  qed (use Cons.prems(3) in auto)
qed

lemma foldE_append: "foldE f (xs @ ys) s = and_then (foldE f xs s) (foldE f ys)"
proof (induction xs arbitrary: s)
  case (Cons x xs)
  show ?case by (cases "f x s") (simp_all add: Cons.IH)
qed simp

section \<open>Lookup tables\<close>

text \<open>\<open>for _, x := range xs { m[key(x)] = x }\<close> into a map that is only read by key.\<close>

definition index_by :: "('x \<Rightarrow> 'k) \<Rightarrow> 'x list \<Rightarrow> 'k \<rightharpoonup> 'x" where
  "index_by key xs = foldl (\<lambda>m x. m(key x \<mapsto> x)) Map.empty xs"

lemma index_by_snoc: "index_by key (xs @ [x]) = (index_by key xs)(key x \<mapsto> x)"
  by (simp add: index_by_def)

lemma index_by_Some: "index_by key xs k = Some x \<Longrightarrow> x \<in> set xs \<and> key x = k"
  by (induction xs rule: rev_induct) (auto simp: index_by_snoc index_by_def split: if_splits)

lemma index_by_None: "index_by key xs k = None \<longleftrightarrow> k \<notin> key ` set xs"
  by (induction xs rule: rev_induct) (auto simp: index_by_snoc index_by_def)

text \<open>A loop whose body may not return, or may fail.\<close>

fun foldO :: "('a \<Rightarrow> 's \<Rightarrow> 's option) \<Rightarrow> 'a list \<Rightarrow> 's \<Rightarrow> 's option" where
  "foldO f [] s = Some s"
| "foldO f (x # xs) s = Option.bind (f x s) (foldO f xs)"

lemma foldO_inv:
  assumes "foldO f xs s = Some t" and "P s" and "\<And>x s t. f x s = Some t \<Longrightarrow> P s \<Longrightarrow> P t"
  shows "P t"
  using assms(1,2)
proof (induction xs arbitrary: s)
  case (Cons x xs)
  then obtain u where "f x s = Some u" "foldO f xs u = Some t" by (auto simp: bind_eq_Some_conv)
  then show ?case using Cons.IH Cons.prems(2) assms(3) by blast
qed simp

text \<open>A loop returns if its body does on the states it meets.\<close>

lemma foldO_returns:
  assumes "P s" and "\<And>x s. x \<in> set xs \<Longrightarrow> P s \<Longrightarrow> \<exists>t. f x s = Some t \<and> P t"
  shows "\<exists>t. foldO f xs s = Some t \<and> P t"
  using assms
proof (induction xs arbitrary: s)
  case (Cons x xs)
  obtain t where "f x s = Some t" "P t" using Cons.prems(1) Cons.prems(2) [of x s] by auto
  moreover have "\<exists>u. foldO f xs t = Some u \<and> P u" using \<open>P t\<close> Cons.prems(2) by (intro Cons.IH) auto
  ultimately show ?case by simp
qed simp

end
