(* ===== verification/GoLib.thy ===== *)
theory GoLib
  imports Prelude "HOL-Library.Word"
begin

unbundle bit_operations_syntax

text \<open>
  What the adapters use of Go and its standard library: fixed-width conversions, decimal
  rendering and parsing (\<open>math/big\<close>, \<open>strconv\<close>, \<open>fmt\<close>), the string functions,
  \<open>encoding/base64\<close>, \<open>encoding/hex\<close> and \<open>crypto/sha256\<close>.  Byte slices are strings.
  \<open>strings.ToLower\<close> and \<open>strings.TrimSpace\<close> are given on ASCII, which is what contract ids,
  symbols and hashes consist of.
\<close>

section \<open>Integers at their width\<close>

text \<open>Converting to a signed type keeps the low bits and reads them as two's complement.\<close>

definition wrap_int :: "nat \<Rightarrow> int \<Rightarrow> int" where
  "wrap_int w n = (n + 2 ^ (w - 1)) mod 2 ^ w - 2 ^ (w - 1)"

definition to_int32 :: "int \<Rightarrow> int" where
  "to_int32 n = wrap_int 32 n"

definition to_uint32 :: "int \<Rightarrow> int" where
  "to_uint32 n = n mod 2 ^ 32"

definition in_int32 :: "int \<Rightarrow> bool" where
  "in_int32 n \<longleftrightarrow> - (2 ^ 31) \<le> n \<and> n < 2 ^ 31"

lemma to_int32_range: "in_int32 (to_int32 n)"
proof -
  have "0 \<le> (n + 2 ^ 31) mod 2 ^ 32" and "(n + 2 ^ 31) mod 2 ^ 32 < (2 ^ 32 :: int)"
    by simp_all
  then show ?thesis by (simp add: in_int32_def to_int32_def wrap_int_def)
qed

lemma to_int32_id: "in_int32 n \<Longrightarrow> to_int32 n = n"
  by (simp add: in_int32_def to_int32_def wrap_int_def)

text \<open>\<open>big.Int.Quo\<close> truncates towards zero; a zero divisor panics and is excluded by its callers.\<close>

definition quo :: "int \<Rightarrow> int \<Rightarrow> int" where
  "quo a b = sgn a * sgn b * (\<bar>a\<bar> div \<bar>b\<bar>)"

lemma quo_nonneg [simp]: "0 \<le> a \<Longrightarrow> 0 \<le> b \<Longrightarrow> quo a b = a div b"
  by (cases "a = 0"; cases "b = 0") (auto simp: quo_def sgn_if)

section \<open>Decimal strings\<close>

definition digit_char :: "int \<Rightarrow> char" where
  "digit_char d = (if d = 8 then CHR ''8'' else if d = 7 then CHR ''7'' else if d = 6 then CHR ''6''
     else if d = 5 then CHR ''5'' else if d = 4 then CHR ''4'' else if d = 3 then CHR ''3''
     else if d = 2 then CHR ''2'' else if d = 1 then CHR ''1'' else if d = 0 then CHR ''0'' else CHR ''9'')"

definition digit_val :: "char \<Rightarrow> int option" where
  "digit_val c = (if c = CHR ''9'' then Some 9 else if c = CHR ''8'' then Some 8 else if c = CHR ''7'' then Some 7
     else if c = CHR ''6'' then Some 6 else if c = CHR ''5'' then Some 5 else if c = CHR ''4'' then Some 4
     else if c = CHR ''3'' then Some 3 else if c = CHR ''2'' then Some 2 else if c = CHR ''1'' then Some 1
     else if c = CHR ''0'' then Some 0 else None)"

lemma digit_val_char: "0 \<le> d \<Longrightarrow> d < 10 \<Longrightarrow> digit_val (digit_char d) = Some d"
  by (auto simp: digit_val_def digit_char_def) presburger

function show_digits :: "int \<Rightarrow> string" where
  "show_digits n = (if n < 10 then [digit_char n] else show_digits (n div 10) @ [digit_char (n mod 10)])"
  by pat_completeness auto
termination
  by (relation "measure nat") auto

declare show_digits.simps [simp del]

definition show_int :: "int \<Rightarrow> string" where
  "show_int n = (if n < 0 then CHR ''-'' # show_digits (- n) else show_digits n)"

fun parse_digits :: "int \<Rightarrow> string \<Rightarrow> int option" where
  "parse_digits acc [] = Some acc"
| "parse_digits acc (c # cs) =
     (case digit_val c of None \<Rightarrow> None | Some d \<Rightarrow> parse_digits (10 * acc + d) cs)"

definition parse_nat :: "string \<Rightarrow> int option" where
  "parse_nat s = (if s = [] then None else parse_digits 0 s)"

text \<open>\<open>new(big.Int).SetString(s, 10)\<close>: an optional sign, then at least one digit, nothing else.\<close>

definition set_string :: "string \<Rightarrow> int option" where
  "set_string s =
     (case s of
        [] \<Rightarrow> None
      | c # cs \<Rightarrow>
          if c = CHR ''-'' then map_option uminus (parse_nat cs)
          else if c = CHR ''+'' then parse_nat cs
          else parse_nat s)"

lemma parse_digits_append:
  "parse_digits a (s @ t) = (case parse_digits a s of None \<Rightarrow> None | Some b \<Rightarrow> parse_digits b t)"
  by (induction s arbitrary: a) (auto split: option.splits)

lemma parse_show_digits: "0 \<le> n \<Longrightarrow> parse_digits 0 (show_digits n) = Some n"
proof (induction n rule: show_digits.induct)
  case (1 n)
  show ?case
  proof (cases "n < 10")
    case True
    with "1.prems" show ?thesis by (simp add: show_digits.simps [of n] digit_val_char)
  next
    case False
    with 1 have "parse_digits 0 (show_digits (n div 10)) = Some (n div 10)" by simp
    with False show ?thesis
      by (simp add: show_digits.simps [of n] parse_digits_append digit_val_char)
  qed
qed

lemma show_digits_nonempty [simp]: "show_digits n \<noteq> []"
  by (subst show_digits.simps) simp

lemma show_digits_chars: "0 \<le> n \<Longrightarrow> c \<in> set (show_digits n) \<Longrightarrow> digit_val c \<noteq> None"
proof (induction n rule: show_digits.induct)
  case (1 n)
  then show ?case
    by (cases "n < 10") (auto simp: show_digits.simps [of n] digit_val_char)
qed

lemma show_digits_hd:
  assumes "0 \<le> n"
  shows "hd (show_digits n) \<noteq> CHR ''-''" and "hd (show_digits n) \<noteq> CHR ''+''"
  using show_digits_chars [OF assms, of "hd (show_digits n)"]
  by (auto simp: digit_val_def split: if_splits)

lemma set_string_digits: "0 \<le> n \<Longrightarrow> set_string (show_digits n) = Some n"
  using show_digits_hd [of n] parse_show_digits [of n]
  by (cases "show_digits n") (auto simp: set_string_def parse_nat_def)

text \<open>Rendering and parsing are inverse, whatever the size and sign.\<close>

lemma set_string_show [simp]: "set_string (show_int n) = Some n"
proof (cases "n < 0")
  case True
  then show ?thesis
    using parse_show_digits [of "- n"] by (simp add: show_int_def set_string_def parse_nat_def)
next
  case False
  then show ?thesis by (simp add: show_int_def set_string_digits)
qed

lemma show_int_inj: "show_int a = show_int b \<longleftrightarrow> a = b"
  using set_string_show by (metis option.inject)

lemma show_int_nonempty [simp]: "show_int n \<noteq> []"
  by (simp add: show_int_def)

lemma show_int_0 [simp]: "show_int 0 = ''0''"
  by (simp add: show_int_def show_digits.simps digit_char_def)

lemma show_int_eq_0 [simp]: "show_int n = ''0'' \<longleftrightarrow> n = 0"
  using show_int_inj [of n 0] by simp

text \<open>
  \<open>fmt.Sscan\<close> into an \<open>int32\<close> of a canonical decimal string (the only strings the decoders
  hand it): the variable keeps its value when the text is not a number or does not fit.
\<close>

definition sscan_int32 :: "string \<Rightarrow> int \<Rightarrow> int" where
  "sscan_int32 s old =
     (case set_string s of None \<Rightarrow> old | Some n \<Rightarrow> if in_int32 n then n else old)"

lemma sscan_int32_range: "in_int32 old \<Longrightarrow> in_int32 (sscan_int32 s old)"
  by (auto simp: sscan_int32_def split: option.splits)

text \<open>\<open>strconv.ParseInt(s, 10, 64)\<close>.\<close>

definition parse_int64 :: "string \<Rightarrow> int option" where
  "parse_int64 s =
     (case set_string s of None \<Rightarrow> None
      | Some n \<Rightarrow> if - (2 ^ 63) \<le> n \<and> n < 2 ^ 63 then Some n else None)"

section \<open>Strings\<close>

definition lower_char :: "char \<Rightarrow> char" where
  "lower_char c =
     (let n = of_char c :: nat in if 65 \<le> n \<and> n \<le> 90 then char_of (n + 32) else c)"

definition to_lower :: "string \<Rightarrow> string" where
  "to_lower s = map lower_char s"

definition is_space :: "char \<Rightarrow> bool" where
  "is_space c \<longleftrightarrow> (let n = of_char c :: nat in n = 32 \<or> (9 \<le> n \<and> n \<le> 13))"

definition trim_space :: "string \<Rightarrow> string" where
  "trim_space s = rev (dropWhile is_space (rev (dropWhile is_space s)))"

lemma dropWhile_Nil_iff: "dropWhile P xs = [] \<longleftrightarrow> (\<forall>x\<in>set xs. P x)"
  by (induction xs) auto

lemma trim_space_Nil [simp]: "trim_space [] = []"
  by (simp add: trim_space_def)

lemma trim_space_empty: "trim_space s = [] \<longleftrightarrow> (\<forall>c\<in>set s. is_space c)"
proof (cases "dropWhile is_space s")
  case Nil
  then have "\<forall>c\<in>set s. is_space c" by (simp add: dropWhile_Nil_iff)
  then show ?thesis unfolding trim_space_def Nil by simp
next
  case (Cons c t)
  have c: "\<not> is_space c" using hd_dropWhile [of is_space s] Cons by simp
  have "c \<in> set s" using Cons by (metis list.set_intros(1) set_dropWhileD)
  moreover have "c \<in> set (rev (dropWhile is_space s))" using Cons by simp
  ultimately show ?thesis unfolding trim_space_def
    using c by (auto simp: dropWhile_Nil_iff dest: set_dropWhileD)
qed

section \<open>encoding/base64 and encoding/hex\<close>

definition b64_val :: "char \<Rightarrow> int option" where
  "b64_val c =
     (let n = int (of_char c :: nat) in
      if 65 \<le> n \<and> n \<le> 90 then Some (n - 65)
      else if 97 \<le> n \<and> n \<le> 122 then Some (n - 71)
      else if 48 \<le> n \<and> n \<le> 57 then Some (n + 4)
      else if n = 43 then Some 62 else if n = 47 then Some 63 else None)"

definition byte :: "int \<Rightarrow> char" where
  "byte n = char_of (nat (n mod 256))"

text \<open>
  Quantums of four characters; padding may only end the input, and the unused bits of a
  padded quantum are ignored (the decoder is not in strict mode).
\<close>

fun b64_quanta :: "string \<Rightarrow> string option" where
  "b64_quanta [] = Some []"
| "b64_quanta (a # b # c # d # s) =
     (case (b64_val a, b64_val b) of
        (Some x, Some y) \<Rightarrow>
          if c = CHR ''='' \<and> d = CHR ''='' \<and> s = [] then Some [byte (4 * x + y div 16)]
          else (case b64_val c of
              None \<Rightarrow> None
            | Some z \<Rightarrow>
                if d = CHR ''='' \<and> s = []
                then Some [byte (4 * x + y div 16), byte (16 * y + z div 4)]
                else (case b64_val d of
                    None \<Rightarrow> None
                  | Some w \<Rightarrow> map_option
                      (\<lambda>r. byte (4 * x + y div 16) # byte (16 * y + z div 4) # byte (64 * z + w) # r)
                      (b64_quanta s)))
      | _ \<Rightarrow> None)"
| "b64_quanta _ = None"

text \<open>\<open>base64.StdEncoding.DecodeString\<close>: line breaks are skipped.\<close>

definition b64_decode :: "string \<Rightarrow> string option" where
  "b64_decode s = b64_quanta (filter (\<lambda>c. c \<noteq> CHR 0x0A \<and> c \<noteq> CHR 0x0D) s)"

definition hex_char :: "nat \<Rightarrow> char" where
  "hex_char n = ''0123456789abcdef'' ! n"

definition hex_encode :: "string \<Rightarrow> string" where
  "hex_encode bs = concat (map (\<lambda>c. let n = of_char c :: nat in [hex_char (n div 16), hex_char (n mod 16)]) bs)"

lemma length_hex_encode: "length (hex_encode bs) = 2 * length bs"
  by (induction bs) (simp_all add: hex_encode_def Let_def)

lemma hex_char_inj: "m < 16 \<Longrightarrow> n < 16 \<Longrightarrow> hex_char m = hex_char n \<Longrightarrow> m = n"
proof -
  assume "m < 16" "n < 16" "hex_char m = hex_char n"
  moreover have "distinct ''0123456789abcdef''" by simp
  ultimately show "m = n" unfolding hex_char_def by (subst (asm) nth_eq_iff_index_eq) simp_all
qed

lemma hex_encode_Cons:
  "hex_encode (c # bs) = hex_char (of_char c div 16) # hex_char (of_char c mod 16) # hex_encode bs"
  by (simp add: hex_encode_def Let_def)

lemma hex_encode_inj: "hex_encode a = hex_encode b \<Longrightarrow> a = b"
proof (induction a arbitrary: b)
  case Nil
  then show ?case by (cases b) (simp_all add: hex_encode_def Let_def)
next
  case (Cons c a)
  then obtain d b' where b: "b = d # b'" by (cases b) (auto simp: hex_encode_def Let_def)
  have lt: "(of_char x :: nat) div 16 < 16" for x :: char
    using nat_of_char_less_256 [of x] by linarith
  have e: "hex_char (of_char c div 16) = hex_char (of_char d div 16)"
    "hex_char (of_char c mod 16) = hex_char (of_char d mod 16)" "hex_encode a = hex_encode b'"
    using Cons.prems unfolding b hex_encode_Cons by simp_all
  have "(of_char c :: nat) div 16 = of_char d div 16" by (rule hex_char_inj [OF lt lt e(1)])
  moreover have "(of_char c :: nat) mod 16 = of_char d mod 16" by (rule hex_char_inj [OF _ _ e(2)]) simp_all
  ultimately have "(of_char c :: nat) = of_char d" by (metis div_mult_mod_eq)
  then have "c = d" by simp
  then show ?case using Cons.IH [OF e(3)] b by simp
qed

lemma hex_encode_no_bar: "CHR ''|'' \<notin> set (hex_encode bs)"
proof (induction bs)
  case (Cons c bs)
  have n: "hex_char n \<noteq> CHR ''|''" if "n < 16" for n
  proof -
    have "hex_char n \<in> set ''0123456789abcdef''" unfolding hex_char_def using that by (intro nth_mem) simp
    then show ?thesis by auto
  qed
  have "(of_char c :: nat) div 16 < 16" using nat_of_char_less_256 [of c] by linarith
  then show ?case using Cons n [of "of_char c div 16"] n [of "of_char c mod 16"]
    by (auto simp: hex_encode_Cons)
qed (simp add: hex_encode_def)

section \<open>crypto/sha256\<close>

type_synonym w32 = "32 word"

definition rotr :: "nat \<Rightarrow> w32 \<Rightarrow> w32" where
  "rotr n w = drop_bit n w OR push_bit (32 - n) w"

definition sha_k :: "w32 list" where
  "sha_k = [
     1116352408, 1899447441, 3049323471, 3921009573, 961987163, 1508970993, 2453635748, 2870763221,
     3624381080, 310598401, 607225278, 1426881987, 1925078388, 2162078206, 2614888103, 3248222580,
     3835390401, 4022224774, 264347078, 604807628, 770255983, 1249150122, 1555081692, 1996064986,
     2554220882, 2821834349, 2952996808, 3210313671, 3336571891, 3584528711, 113926993, 338241895,
     666307205, 773529912, 1294757372, 1396182291, 1695183700, 1986661051, 2177026350, 2456956037,
     2730485921, 2820302411, 3259730800, 3345764771, 3516065817, 3600352804, 4094571909, 275423344,
     430227734, 506948616, 659060556, 883997877, 958139571, 1322822218, 1537002063, 1747873779,
     1955562222, 2024104815, 2227730452, 2361852424, 2428436474, 2756734187, 3204031479, 3329325298]"

definition sha_h0 :: "w32 list" where
  "sha_h0 = [
     1779033703, 3144134277, 1013904242, 2773480762, 1359893119, 2600822924, 528734635, 1541459225]"

text \<open>The message schedule, latest word first.\<close>

fun sha_extend :: "nat \<Rightarrow> w32 list \<Rightarrow> w32 list" where
  "sha_extend 0 r = r"
| "sha_extend (Suc n) r =
     (let a = r ! 1; b = r ! 14 in
      sha_extend n
        (((rotr 17 a XOR rotr 19 a XOR drop_bit 10 a) + r ! 6
          + (rotr 7 b XOR rotr 18 b XOR drop_bit 3 b) + r ! 15) # r))"

fun sha_round :: "w32 list \<Rightarrow> w32 \<times> w32 \<Rightarrow> w32 list" where
  "sha_round [a, b, c, d, e, f, g, h] (k, w) =
     (let t1 = h + (rotr 6 e XOR rotr 11 e XOR rotr 25 e) + ((e AND f) XOR (NOT e AND g)) + k + w;
          t2 = (rotr 2 a XOR rotr 13 a XOR rotr 22 a) + ((a AND b) XOR (a AND c) XOR (b AND c))
      in [t1 + t2, a, b, c, d + t1, e, f, g])"
| "sha_round st _ = st"

definition sha_compress :: "w32 list \<Rightarrow> w32 list \<Rightarrow> w32 list" where
  "sha_compress st block =
     map2 (+) st (foldl sha_round st (zip sha_k (rev (sha_extend 48 (rev block)))))"

fun words_of_bytes :: "int list \<Rightarrow> w32 list" where
  "words_of_bytes (a # b # c # d # s) =
     word_of_int (((a * 256 + b) * 256 + c) * 256 + d) # words_of_bytes s"
| "words_of_bytes _ = []"

fun sha_blocks :: "w32 list \<Rightarrow> w32 list \<Rightarrow> w32 list" where
  "sha_blocks st ws =
     (if length ws < 16 then st else sha_blocks (sha_compress st (take 16 ws)) (drop 16 ws))"

declare sha_blocks.simps [simp del]

definition sha_pad :: "string \<Rightarrow> int list" where
  "sha_pad s =
     (let n = int (length s) in
      map (\<lambda>c. int (of_char c)) s @ [128] @ replicate (nat ((55 - n) mod 64)) 0
      @ map (\<lambda>i. (8 * n) div 256 ^ i mod 256) [7, 6, 5, 4, 3, 2, 1, 0])"

definition bytes_of_word :: "w32 \<Rightarrow> string" where
  "bytes_of_word w = map (\<lambda>i. byte (uint w div 256 ^ i)) [3, 2, 1, 0]"

definition sha256 :: "string \<Rightarrow> string" where
  "sha256 s = concat (map bytes_of_word (sha_blocks sha_h0 (words_of_bytes (sha_pad s))))"

section \<open>Time\<close>

text \<open>A \<open>time.Time\<close> is its distance from the Unix epoch in nanoseconds.\<close>

type_synonym go_time = int

definition unix_sec :: "go_time \<Rightarrow> int" where
  "unix_sec t = t div 10 ^ 9"

definition time_of_unix :: "int \<Rightarrow> go_time" where
  "time_of_unix s = s * 10 ^ 9"

definition zero_time :: go_time where
  "zero_time = - 62135596800 * 10 ^ 9"

lemma unix_sec_of_unix [simp]: "unix_sec (time_of_unix s) = s"
  by (simp add: unix_sec_def time_of_unix_def)

end
