(* ===== verification/Blend_Types.thy ===== *)
theory Blend_Types
  imports GoLib
begin

text \<open>
  The Blend state types of \<open>blend/contracts/types.go\<close>, one record per struct with the struct's
  fields in order.  Field names carry a short prefix, since two structs often share a field
  name.  Integers are mathematical integers read at the field's width where it matters; the
  zero value of a struct, which Go gives to fields a literal leaves out, is \<open>zero_\<dots>\<close>.
\<close>

section \<open>Enumerations\<close>

datatype position_type = Supply | Collateral | Liability | Backstop

section \<open>State records\<close>

record pool_emission_entry =
  pe_ReserveTokenID :: "int"
  pe_ShareRaw :: "string"

definition zero_pool_emission_entry :: pool_emission_entry where
  "zero_pool_emission_entry = \<lparr>pe_ReserveTokenID = 0, pe_ShareRaw = ''''\<rparr>"

record reserve_state =
  rs_ReserveIndex :: "int"
  rs_ReserveIndexKnown :: "bool"
  rs_AssetID :: "string"
  rs_AssetDecimals :: "int"
  rs_BRateRaw :: "string"
  rs_DRateRaw :: "string"
  rs_BSupplyRaw :: "string"
  rs_DSupplyRaw :: "string"
  rs_PoolBalanceRaw :: "string"
  rs_CFactorRaw :: "string"
  rs_LFactorRaw :: "string"
  rs_UtilTargetRaw :: "string"
  rs_MaxUtilRaw :: "string"
  rs_RBaseRaw :: "string"
  rs_ROneRaw :: "string"
  rs_RTwoRaw :: "string"
  rs_RThreeRaw :: "string"
  rs_RateModifierRaw :: "string"
  rs_SupplyCapRaw :: "string"
  rs_OraclePriceRaw :: "string"
  rs_OracleDecimals :: "int"
  rs_Enabled :: "bool"
  rs_ReactivityRaw :: "string"
  rs_SupplyEmissionsAPR :: "string"
  rs_BorrowEmissionsAPR :: "string"
  rs_SupplyEmisEPSRaw :: "string"
  rs_SupplyEmisExpirationRaw :: "string"
  rs_SupplyEmisIndexRaw :: "string"
  rs_SupplyEmisLastTimeRaw :: "string"
  rs_BorrowEmisEPSRaw :: "string"
  rs_BorrowEmisExpirationRaw :: "string"
  rs_BorrowEmisIndexRaw :: "string"
  rs_BorrowEmisLastTimeRaw :: "string"
  rs_BackstopCreditRaw :: "string"
  rs_LastTimeRaw :: "string"
  rs_Archived :: "bool"
  rs_ArchivedLedgerSeq :: "int"

definition zero_reserve_state :: reserve_state where
  "zero_reserve_state = \<lparr>rs_ReserveIndex = 0, rs_ReserveIndexKnown = False, rs_AssetID =
     '''', rs_AssetDecimals = 0, rs_BRateRaw = '''', rs_DRateRaw = '''', rs_BSupplyRaw = '''',
     rs_DSupplyRaw = '''', rs_PoolBalanceRaw = '''', rs_CFactorRaw = '''', rs_LFactorRaw = '''',
     rs_UtilTargetRaw = '''', rs_MaxUtilRaw = '''', rs_RBaseRaw = '''', rs_ROneRaw = '''',
     rs_RTwoRaw = '''', rs_RThreeRaw = '''', rs_RateModifierRaw = '''', rs_SupplyCapRaw = '''',
     rs_OraclePriceRaw = '''', rs_OracleDecimals = 0, rs_Enabled = False, rs_ReactivityRaw = '''',
     rs_SupplyEmissionsAPR = '''', rs_BorrowEmissionsAPR = '''', rs_SupplyEmisEPSRaw = '''',
     rs_SupplyEmisExpirationRaw = '''', rs_SupplyEmisIndexRaw = '''', rs_SupplyEmisLastTimeRaw =
     '''', rs_BorrowEmisEPSRaw = '''', rs_BorrowEmisExpirationRaw = '''', rs_BorrowEmisIndexRaw =
     '''', rs_BorrowEmisLastTimeRaw = '''', rs_BackstopCreditRaw = '''', rs_LastTimeRaw = '''',
     rs_Archived = False, rs_ArchivedLedgerSeq = 0\<rparr>"

record blend_pool_state =
  bp_ContractID :: "string"
  bp_BackstopContract :: "string"
  bp_OracleContract :: "string"
  bp_WasmHash :: "string"
  bp_PoolStatus :: "string"
  bp_BackstopTakeRate :: "string"
  bp_Name :: "string"
  bp_Admin :: "string"
  bp_BLNDToken :: "string"
  bp_MaxPositionsRaw :: "string"
  bp_MinCollateralRaw :: "string"
  bp_PoolEmissions :: "pool_emission_entry list"
  bp_Reserves :: "reserve_state list"
  bp_BackstopSharesRaw :: "string"
  bp_BackstopTokensRaw :: "string"
  bp_BackstopQ4WSharesRaw :: "string"
  bp_BackstopEmisEPSRaw :: "string"
  bp_BackstopEmisExpirationRaw :: "string"
  bp_BackstopEmisIndexRaw :: "string"
  bp_BackstopEmisLastTimeRaw :: "string"

definition zero_blend_pool_state :: blend_pool_state where
  "zero_blend_pool_state = \<lparr>bp_ContractID = '''', bp_BackstopContract = '''',
     bp_OracleContract = '''', bp_WasmHash = '''', bp_PoolStatus = '''', bp_BackstopTakeRate =
     '''', bp_Name = '''', bp_Admin = '''', bp_BLNDToken = '''', bp_MaxPositionsRaw = '''',
     bp_MinCollateralRaw = '''', bp_PoolEmissions = [], bp_Reserves = [], bp_BackstopSharesRaw =
     '''', bp_BackstopTokensRaw = '''', bp_BackstopQ4WSharesRaw = '''', bp_BackstopEmisEPSRaw =
     '''', bp_BackstopEmisExpirationRaw = '''', bp_BackstopEmisIndexRaw = '''',
     bp_BackstopEmisLastTimeRaw = ''''\<rparr>"

record user_reserve_position =
  up_Address :: "string"
  up_PoolContractID :: "string"
  up_AssetID :: "string"
  up_PositionType :: "position_type"
  up_BTokensRaw :: "string"
  up_DTokensRaw :: "string"
  up_Archived :: "bool"
  up_ArchivedLedgerSeq :: "int"

definition zero_user_reserve_position :: user_reserve_position where
  "zero_user_reserve_position = \<lparr>up_Address = '''', up_PoolContractID = '''', up_AssetID =
     '''', up_PositionType = Supply, up_BTokensRaw = '''', up_DTokensRaw = '''', up_Archived =
     False, up_ArchivedLedgerSeq = 0\<rparr>"

record queued_reserve_config =
  qc_IndexRaw :: "string"
  qc_DecimalsRaw :: "string"
  qc_CFactorRaw :: "string"
  qc_LFactorRaw :: "string"
  qc_UtilRaw :: "string"
  qc_MaxUtilRaw :: "string"
  qc_RBaseRaw :: "string"
  qc_ROneRaw :: "string"
  qc_RTwoRaw :: "string"
  qc_RThreeRaw :: "string"
  qc_ReactivityRaw :: "string"
  qc_SupplyCapRaw :: "string"
  qc_Enabled :: "string"

definition zero_queued_reserve_config :: queued_reserve_config where
  "zero_queued_reserve_config = \<lparr>qc_IndexRaw = '''', qc_DecimalsRaw = '''', qc_CFactorRaw =
     '''', qc_LFactorRaw = '''', qc_UtilRaw = '''', qc_MaxUtilRaw = '''', qc_RBaseRaw = '''',
     qc_ROneRaw = '''', qc_RTwoRaw = '''', qc_RThreeRaw = '''', qc_ReactivityRaw = '''',
     qc_SupplyCapRaw = '''', qc_Enabled = ''''\<rparr>"

record queued_reserve_state =
  qs_PoolContractID :: "string"
  qs_AssetID :: "string"
  qs_UnlockTimeRaw :: "string"
  qs_NewConfig :: "queued_reserve_config"

definition zero_queued_reserve_state :: queued_reserve_state where
  "zero_queued_reserve_state = \<lparr>qs_PoolContractID = '''', qs_AssetID = '''',
     qs_UnlockTimeRaw = '''', qs_NewConfig = zero_queued_reserve_config\<rparr>"

record drop_list_entry =
  dl_Address :: "string"
  dl_AmountRaw :: "string"

definition zero_drop_list_entry :: drop_list_entry where
  "zero_drop_list_entry = \<lparr>dl_Address = '''', dl_AmountRaw = ''''\<rparr>"

record backstop_instance_state =
  bi_ContractID :: "string"
  bi_BackstopToken :: "string"
  bi_BLNDToken :: "string"
  bi_USDCToken :: "string"
  bi_Emitter :: "string"
  bi_PoolFactory :: "string"
  bi_RewardZone :: "string list"
  bi_DropList :: "drop_list_entry list"

definition zero_backstop_instance_state :: backstop_instance_state where
  "zero_backstop_instance_state = \<lparr>bi_ContractID = '''', bi_BackstopToken = '''',
     bi_BLNDToken = '''', bi_USDCToken = '''', bi_Emitter = '''', bi_PoolFactory = '''',
     bi_RewardZone = [], bi_DropList = []\<rparr>"

record auction_entry =
  ae_AssetID :: "string"
  ae_AmountRaw :: "string"

definition zero_auction_entry :: auction_entry where
  "zero_auction_entry = \<lparr>ae_AssetID = '''', ae_AmountRaw = ''''\<rparr>"

record auction_state =
  as_PoolContractID :: "string"
  as_UserAddress :: "string"
  as_AuctionType :: "int"
  as_Block :: "int"
  as_Lot :: "auction_entry list"
  as_Bid :: "auction_entry list"

definition zero_auction_state :: auction_state where
  "zero_auction_state = \<lparr>as_PoolContractID = '''', as_UserAddress = '''', as_AuctionType =
     0, as_Block = 0, as_Lot = [], as_Bid = []\<rparr>"

record user_emission_state =
  ue_Address :: "string"
  ue_PoolContractID :: "string"
  ue_ReserveTokenID :: "int"
  ue_IndexRaw :: "string"
  ue_AccruedRaw :: "string"

definition zero_user_emission_state :: user_emission_state where
  "zero_user_emission_state = \<lparr>ue_Address = '''', ue_PoolContractID = '''',
     ue_ReserveTokenID = 0, ue_IndexRaw = '''', ue_AccruedRaw = ''''\<rparr>"

record q4w_entry =
  qw_SharesRaw :: "string"
  qw_UnlockAt :: "go_time"

definition zero_q4w_entry :: q4w_entry where
  "zero_q4w_entry = \<lparr>qw_SharesRaw = '''', qw_UnlockAt = zero_time\<rparr>"

record backstop_position =
  bk_Address :: "string"
  bk_PoolContractID :: "string"
  bk_UserSharesRaw :: "string"
  bk_PoolSharesRaw :: "string"
  bk_PoolTokensRaw :: "string"
  bk_Q4W :: "q4w_entry list"
  bk_UnclaimedEmissionsRaw :: "string"
  bk_EmisIndexRaw :: "string"
  bk_LPTokenSupplyRaw :: "string"
  bk_LPBLNDReserveRaw :: "string"
  bk_LPUSDCReserveRaw :: "string"
  bk_BLNDDecimals :: "int"
  bk_USDCDecimals :: "int"
  bk_BLNDPriceUSD :: "string"
  bk_USDCPriceUSD :: "string"
  bk_BackstopInterestAPY :: "string"
  bk_BackstopEmissionsAPY :: "string"

definition zero_backstop_position :: backstop_position where
  "zero_backstop_position = \<lparr>bk_Address = '''', bk_PoolContractID = '''', bk_UserSharesRaw
     = '''', bk_PoolSharesRaw = '''', bk_PoolTokensRaw = '''', bk_Q4W = [],
     bk_UnclaimedEmissionsRaw = '''', bk_EmisIndexRaw = '''', bk_LPTokenSupplyRaw = '''',
     bk_LPBLNDReserveRaw = '''', bk_LPUSDCReserveRaw = '''', bk_BLNDDecimals = 0, bk_USDCDecimals
     = 0, bk_BLNDPriceUSD = '''', bk_USDCPriceUSD = '''', bk_BackstopInterestAPY = '''',
     bk_BackstopEmissionsAPY = ''''\<rparr>"

record oracle_asset_index =
  oa_AssetID :: "string"
  oa_Index :: "int"

definition zero_oracle_asset_index :: oracle_asset_index where
  "zero_oracle_asset_index = \<lparr>oa_AssetID = '''', oa_Index = 0\<rparr>"

record oracle_index_price =
  oi_Index :: "int"
  oi_PriceRaw :: "string"

definition zero_oracle_index_price :: oracle_index_price where
  "zero_oracle_index_price = \<lparr>oi_Index = 0, oi_PriceRaw = ''''\<rparr>"

record oracle_state =
  os_ContractID :: "string"
  os_Decimals :: "int"
  os_Assets :: "oracle_asset_index list"
  os_Prices :: "oracle_index_price list"
  os_BaseKey :: "string"
  os_ResolutionRaw :: "string"
  os_Admin :: "string"
  os_LastTimestampRaw :: "string"

definition zero_oracle_state :: oracle_state where
  "zero_oracle_state = \<lparr>os_ContractID = '''', os_Decimals = 0, os_Assets = [], os_Prices =
     [], os_BaseKey = '''', os_ResolutionRaw = '''', os_Admin = '''', os_LastTimestampRaw =
     ''''\<rparr>"

record feed_asset_index =
  fa_AssetKey :: "string"
  fa_Index :: "int"

definition zero_feed_asset_index :: feed_asset_index where
  "zero_feed_asset_index = \<lparr>fa_AssetKey = '''', fa_Index = 0\<rparr>"

record feed_round_price =
  fp_Index :: "int"
  fp_PriceRaw :: "string"

definition zero_feed_round_price :: feed_round_price where
  "zero_feed_round_price = \<lparr>fp_Index = 0, fp_PriceRaw = ''''\<rparr>"

record feed_round =
  fr_TimestampMs :: "int"
  fr_Prices :: "feed_round_price list"

definition zero_feed_round :: feed_round where
  "zero_feed_round = \<lparr>fr_TimestampMs = 0, fr_Prices = []\<rparr>"

record price_feed_state =
  pf_ContractID :: "string"
  pf_Decimals :: "int"
  pf_LastRoundMs :: "int"
  pf_Assets :: "feed_asset_index list"
  pf_Rounds :: "feed_round list"

definition zero_price_feed_state :: price_feed_state where
  "zero_price_feed_state = \<lparr>pf_ContractID = '''', pf_Decimals = 0, pf_LastRoundMs = 0,
     pf_Assets = [], pf_Rounds = []\<rparr>"

record aggregator_feed_ref =
  gf_Index :: "int"
  gf_ContractID :: "string"
  gf_Decimals :: "int"
  gf_ResolutionS :: "int"

definition zero_aggregator_feed_ref :: aggregator_feed_ref where
  "zero_aggregator_feed_ref = \<lparr>gf_Index = 0, gf_ContractID = '''', gf_Decimals = 0,
     gf_ResolutionS = 0\<rparr>"

record aggregator_asset_config =
  ga_AssetID :: "string"
  ga_FeedAssetKey :: "string"
  ga_OracleIndex :: "int"
  ga_MaxDev :: "int"

definition zero_aggregator_asset_config :: aggregator_asset_config where
  "zero_aggregator_asset_config = \<lparr>ga_AssetID = '''', ga_FeedAssetKey = '''',
     ga_OracleIndex = 0, ga_MaxDev = 0\<rparr>"

record oracle_aggregator_state =
  og_ContractID :: "string"
  og_Decimals :: "int"
  og_MaxAgeS :: "int"
  og_BaseKey :: "string"
  og_BaseAssets :: "string list"
  og_Feeds :: "aggregator_feed_ref list"
  og_Assets :: "aggregator_asset_config list"

definition zero_oracle_aggregator_state :: oracle_aggregator_state where
  "zero_oracle_aggregator_state = \<lparr>og_ContractID = '''', og_Decimals = 0, og_MaxAgeS = 0,
     og_BaseKey = '''', og_BaseAssets = [], og_Feeds = [], og_Assets = []\<rparr>"

record asset_metadata =
  am_ContractID :: "string"
  am_Symbol :: "string"
  am_Name :: "string"
  am_Decimals :: "int"

definition zero_asset_metadata :: asset_metadata where
  "zero_asset_metadata = \<lparr>am_ContractID = '''', am_Symbol = '''', am_Name = '''',
     am_Decimals = 0\<rparr>"

record pending_user_position =
  pu_Address :: "string"
  pu_PoolContractID :: "string"
  pu_PositionsXDR :: "string"
  pu_Archived :: "bool"
  pu_ArchivedLedgerSeq :: "int"

definition zero_pending_user_position :: pending_user_position where
  "zero_pending_user_position = \<lparr>pu_Address = '''', pu_PoolContractID = '''',
     pu_PositionsXDR = '''', pu_Archived = False, pu_ArchivedLedgerSeq = 0\<rparr>"

section \<open>Labels\<close>

definition auctionTypeLabel :: "int \<Rightarrow> string" where
  "auctionTypeLabel t = (if t = 0 then ''user_liquidation'' else if t = 1 then ''bad_debt''
     else if t = 2 then ''interest'' else show_int t)"

end
