(* ===== verification/Bindings.thy ===== *)
theory Bindings
  imports Blend_Types
begin

text \<open>
  The shared contract of every adapter (\<open>bindings/types.go\<close> and \<open>bindings/config.go\<close>): the
  input types, the state carrier \<open>ledger_state\<close> and the output rows, one record per struct.
  \<open>cloneState\<close>, which each package defines as a JSON round trip of the state, is here the deep
  copy it computes.
\<close>

section \<open>Enumerations\<close>

datatype dirty_kind = DirtyUpsert | DirtyRemoval

datatype temporary_state_kind = TemporaryAuction | TemporaryQueuedReserve

text \<open>The values of \<open>StructuredMetadata\<close>, a \<open>map[string]any\<close>.\<close>

datatype any_value = AnyString string | AnyBool bool | AnyMap "(string \<times> any_value) list"

text \<open>
  A removal outranks an upsert when two signals of one ledger concern the same entity.
\<close>

instantiation dirty_kind :: linorder
begin

definition less_eq_dirty_kind :: "dirty_kind \<Rightarrow> dirty_kind \<Rightarrow> bool" where
  "less_eq_dirty_kind a b \<longleftrightarrow> a = DirtyUpsert \<or> b = DirtyRemoval"

definition less_dirty_kind :: "dirty_kind \<Rightarrow> dirty_kind \<Rightarrow> bool" where
  "less_dirty_kind a b \<longleftrightarrow> a = DirtyUpsert \<and> b = DirtyRemoval"

instance
proof
  fix a b c :: dirty_kind
  show "(a < b) = (a \<le> b \<and> \<not> b \<le> a)"
    by (cases a; cases b) (auto simp: less_eq_dirty_kind_def less_dirty_kind_def)
  show "a \<le> a" by (cases a) (auto simp: less_eq_dirty_kind_def)
  show "a \<le> b \<Longrightarrow> b \<le> c \<Longrightarrow> a \<le> c" by (cases a; cases c) (auto simp: less_eq_dirty_kind_def)
  show "a \<le> b \<Longrightarrow> b \<le> a \<Longrightarrow> a = b" by (cases a; cases b) (auto simp: less_eq_dirty_kind_def)
  show "a \<le> b \<or> b \<le> a" by (cases a; cases b) (auto simp: less_eq_dirty_kind_def)
qed

end

section \<open>Records\<close>

record raw_event_envelope =
  ev_SchemaVersion :: "string"
  ev_MessageType :: "string"
  ev_Subject :: "string"
  ev_LedgerSeq :: "int"
  ev_TxHash :: "string"
  ev_EventIndex :: "int"
  ev_ContractID :: "string"
  ev_Topic :: "string"
  ev_RawEvent :: "string"
  ev_SourceName :: "string"
  ev_CloseTime :: "go_time"
  ev_Metadata :: "string \<rightharpoonup> string"

definition zero_raw_event_envelope :: raw_event_envelope where
  "zero_raw_event_envelope = \<lparr>ev_SchemaVersion = '''', ev_MessageType = '''', ev_Subject =
     '''', ev_LedgerSeq = 0, ev_TxHash = '''', ev_EventIndex = 0, ev_ContractID = '''', ev_Topic =
     '''', ev_RawEvent = '''', ev_SourceName = '''', ev_CloseTime = zero_time, ev_Metadata =
     Map.empty\<rparr>"

record amm_token_reserve =
  tr_AssetID :: "string"
  tr_Decimals :: "int"
  tr_ReserveRaw :: "string"

definition zero_amm_token_reserve :: amm_token_reserve where
  "zero_amm_token_reserve = \<lparr>tr_AssetID = '''', tr_Decimals = 0, tr_ReserveRaw =
     ''''\<rparr>"

record amm_pool_state =
  ps_Protocol :: "string"
  ps_RouterContract :: "string"
  ps_PoolHash :: "string"
  ps_ContractID :: "string"
  ps_WasmHash :: "string"
  ps_PoolType :: "string"
  ps_Tokens :: "amm_token_reserve list"
  ps_TotalSharesRaw :: "string"
  ps_FeeFractionRaw :: "string"
  ps_ProtocolFeeFractionRaw :: "string"
  ps_AmplificationRaw :: "string"
  ps_TickSpacing :: "int"
  ps_SqrtPriceX96 :: "string"
  ps_CurrentTick :: "int"
  ps_ActiveLiquidityRaw :: "string"
  ps_FeeGrowthGlobal0X128 :: "string"
  ps_FeeGrowthGlobal1X128 :: "string"
  ps_RewardTpsRaw :: "string"
  ps_RewardExpiredAtRaw :: "string"
  ps_RewardAccumulatedRaw :: "string"
  ps_RewardLastTimeRaw :: "string"
  ps_WorkingSupplyRaw :: "string"
  ps_RewardTokenID :: "string"

definition zero_amm_pool_state :: amm_pool_state where
  "zero_amm_pool_state = \<lparr>ps_Protocol = '''', ps_RouterContract = '''', ps_PoolHash = '''',
     ps_ContractID = '''', ps_WasmHash = '''', ps_PoolType = '''', ps_Tokens = [],
     ps_TotalSharesRaw = '''', ps_FeeFractionRaw = '''', ps_ProtocolFeeFractionRaw = '''',
     ps_AmplificationRaw = '''', ps_TickSpacing = 0, ps_SqrtPriceX96 = '''', ps_CurrentTick = 0,
     ps_ActiveLiquidityRaw = '''', ps_FeeGrowthGlobal0X128 = '''', ps_FeeGrowthGlobal1X128 = '''',
     ps_RewardTpsRaw = '''', ps_RewardExpiredAtRaw = '''', ps_RewardAccumulatedRaw = '''',
     ps_RewardLastTimeRaw = '''', ps_WorkingSupplyRaw = '''', ps_RewardTokenID = ''''\<rparr>"

record amm_position_state =
  po_Address :: "string"
  po_PoolContractID :: "string"
  po_SharesRaw :: "string"
  po_TickLower :: "int"
  po_TickUpper :: "int"
  po_LiquidityRaw :: "string"
  po_SqrtPriceLowerX96 :: "string"
  po_SqrtPriceUpperX96 :: "string"
  po_Principal0Raw :: "string"
  po_Principal1Raw :: "string"
  po_PendingFee0Raw :: "string"
  po_PendingFee1Raw :: "string"
  po_RewardTokenID :: "string"
  po_PendingRewardRaw :: "string"
  po_WeightedLiquidityRaw :: "string"
  po_RewardCheckpointEligible :: "bool"
  po_HadShares :: "bool"
  po_WorkingBalanceRaw :: "string"
  po_RewardPoolAccumulatedRaw :: "string"

definition zero_amm_position_state :: amm_position_state where
  "zero_amm_position_state = \<lparr>po_Address = '''', po_PoolContractID = '''', po_SharesRaw =
     '''', po_TickLower = 0, po_TickUpper = 0, po_LiquidityRaw = '''', po_SqrtPriceLowerX96 =
     '''', po_SqrtPriceUpperX96 = '''', po_Principal0Raw = '''', po_Principal1Raw = '''',
     po_PendingFee0Raw = '''', po_PendingFee1Raw = '''', po_RewardTokenID = '''',
     po_PendingRewardRaw = '''', po_WeightedLiquidityRaw = '''', po_RewardCheckpointEligible =
     False, po_HadShares = False, po_WorkingBalanceRaw = '''', po_RewardPoolAccumulatedRaw =
     ''''\<rparr>"

record amm_asset_metadata =
  aa_ContractID :: "string"
  aa_Symbol :: "string"
  aa_Name :: "string"
  aa_Decimals :: "int"

definition zero_amm_asset_metadata :: amm_asset_metadata where
  "zero_amm_asset_metadata = \<lparr>aa_ContractID = '''', aa_Symbol = '''', aa_Name = '''',
     aa_Decimals = 0\<rparr>"

record vault_state =
  vs_Protocol :: "string"
  vs_ContractID :: "string"
  vs_Account :: "string"
  vs_Denomination :: "string"
  vs_IndexRaw :: "string"
  vs_CollateralRaw :: "string"
  vs_DebtRaw :: "string"
  vs_HadVault :: "bool"
  vs_Closed :: "bool"
  vs_Restored :: "bool"

definition zero_vault_state :: vault_state where
  "zero_vault_state = \<lparr>vs_Protocol = '''', vs_ContractID = '''', vs_Account = '''',
     vs_Denomination = '''', vs_IndexRaw = '''', vs_CollateralRaw = '''', vs_DebtRaw = '''',
     vs_HadVault = False, vs_Closed = False, vs_Restored = False\<rparr>"

record vaults_info_state =
  vi_Protocol :: "string"
  vi_ContractID :: "string"
  vi_Denomination :: "string"
  vi_TotalVaultsRaw :: "string"
  vi_TotalDebtRaw :: "string"
  vi_TotalColRaw :: "string"
  vi_MinColRateRaw :: "string"
  vi_MinDebtCreationRaw :: "string"
  vi_OpeningColRateRaw :: "string"

definition zero_vaults_info_state :: vaults_info_state where
  "zero_vaults_info_state = \<lparr>vi_Protocol = '''', vi_ContractID = '''', vi_Denomination =
     '''', vi_TotalVaultsRaw = '''', vi_TotalDebtRaw = '''', vi_TotalColRaw = '''',
     vi_MinColRateRaw = '''', vi_MinDebtCreationRaw = '''', vi_OpeningColRateRaw = ''''\<rparr>"

record ledger_state =
  ls_Pools :: "blend_pool_state list"
  ls_Users :: "user_reserve_position list"
  ls_Backstops :: "backstop_position list"
  ls_PendingUserPositions :: "pending_user_position list"
  ls_Oracles :: "oracle_state list"
  ls_PriceFeeds :: "price_feed_state list"
  ls_OracleAggregators :: "oracle_aggregator_state list"
  ls_Assets :: "asset_metadata list"
  ls_Auctions :: "auction_state list"
  ls_UserEmissions :: "user_emission_state list"
  ls_QueuedReserves :: "queued_reserve_state list"
  ls_BackstopInstances :: "backstop_instance_state list"
  ls_AMMPools :: "amm_pool_state list"
  ls_AMMPositions :: "amm_position_state list"
  ls_AMMAssets :: "amm_asset_metadata list"
  ls_Vaults :: "vault_state list"
  ls_VaultsInfo :: "vaults_info_state list"

definition zero_ledger_state :: ledger_state where
  "zero_ledger_state = \<lparr>ls_Pools = [], ls_Users = [], ls_Backstops = [],
     ls_PendingUserPositions = [], ls_Oracles = [], ls_PriceFeeds = [], ls_OracleAggregators = [],
     ls_Assets = [], ls_Auctions = [], ls_UserEmissions = [], ls_QueuedReserves = [],
     ls_BackstopInstances = [], ls_AMMPools = [], ls_AMMPositions = [], ls_AMMAssets = [],
     ls_Vaults = [], ls_VaultsInfo = []\<rparr>"

record contract_data_change =
  cd_ContractID :: "string"
  cd_KeyXDR :: "string"
  cd_ValueXDR :: "string option"
  cd_Durability :: "string"
  cd_ChangeType :: "string"
  cd_Live :: "bool"
  cd_LiveUntilLedgerSeq :: "int option"
  cd_LastModifiedLedger :: "int"

definition zero_contract_data_change :: contract_data_change where
  "zero_contract_data_change = \<lparr>cd_ContractID = '''', cd_KeyXDR = '''', cd_ValueXDR = None,
     cd_Durability = '''', cd_ChangeType = '''', cd_Live = False, cd_LiveUntilLedgerSeq = None,
     cd_LastModifiedLedger = 0\<rparr>"

record dirty_position =
  dp_Address :: "string"
  dp_PoolContractID :: "string"
  dp_Kind :: "dirty_kind"

definition zero_dirty_position :: dirty_position where
  "zero_dirty_position = \<lparr>dp_Address = '''', dp_PoolContractID = '''', dp_Kind =
     DirtyUpsert\<rparr>"

record dirty_backstop =
  db_Address :: "string"
  db_PoolContractID :: "string"
  db_Kind :: "dirty_kind"

definition zero_dirty_backstop :: dirty_backstop where
  "zero_dirty_backstop = \<lparr>db_Address = '''', db_PoolContractID = '''', db_Kind =
     DirtyUpsert\<rparr>"

record decode_diagnostic =
  dd_Code :: "string"
  dd_LedgerSeq :: "int"
  dd_PoolContractID :: "string"
  dd_Address :: "string"
  dd_PositionType :: "string"
  dd_ReserveIndex :: "int"
  dd_AmountRaw :: "string"
  dd_CandidateAssetIDs :: "string list"

definition zero_decode_diagnostic :: decode_diagnostic where
  "zero_decode_diagnostic = \<lparr>dd_Code = '''', dd_LedgerSeq = 0, dd_PoolContractID = '''',
     dd_Address = '''', dd_PositionType = '''', dd_ReserveIndex = 0, dd_AmountRaw = '''',
     dd_CandidateAssetIDs = []\<rparr>"

record temporary_state_change =
  tc_Kind :: "temporary_state_kind"
  tc_Action :: "dirty_kind"
  tc_PoolContractID :: "string"
  tc_UserAddress :: "string"
  tc_AuctionType :: "int"
  tc_AssetID :: "string"

definition zero_temporary_state_change :: temporary_state_change where
  "zero_temporary_state_change = \<lparr>tc_Kind = TemporaryAuction, tc_Action = DirtyUpsert,
     tc_PoolContractID = '''', tc_UserAddress = '''', tc_AuctionType = 0, tc_AssetID =
     ''''\<rparr>"

record auction_amount =
  aam_AssetID :: "string"
  aam_AmountRaw :: "string"

definition zero_auction_amount :: auction_amount where
  "zero_auction_amount = \<lparr>aam_AssetID = '''', aam_AmountRaw = ''''\<rparr>"

record auction_row_t =
  au_ID :: "string"
  au_Protocol :: "string"
  au_ContractID :: "string"
  au_UserAddress :: "string"
  au_AuctionType :: "string"
  au_Block :: "int"
  au_Lot :: "auction_amount list"
  au_Bid :: "auction_amount list"
  au_LedgerSeq :: "int"
  au_Timestamp :: "go_time"
  au_Metadata :: "string \<rightharpoonup> string"

definition zero_auction_row_t :: auction_row_t where
  "zero_auction_row_t = \<lparr>au_ID = '''', au_Protocol = '''', au_ContractID = '''',
     au_UserAddress = '''', au_AuctionType = '''', au_Block = 0, au_Lot = [], au_Bid = [],
     au_LedgerSeq = 0, au_Timestamp = zero_time, au_Metadata = Map.empty\<rparr>"

record auction_lifecycle =
  acl_Auction :: "auction_row_t"
  acl_Active :: "bool"

definition zero_auction_lifecycle :: auction_lifecycle where
  "zero_auction_lifecycle = \<lparr>acl_Auction = zero_auction_row_t, acl_Active = False\<rparr>"

record queued_reserve_row_t =
  qr_ID :: "string"
  qr_Protocol :: "string"
  qr_ContractID :: "string"
  qr_AssetID :: "string"
  qr_UnlockTimeRaw :: "string"
  qr_UnlockTime :: "go_time"
  qr_NewConfig :: "string \<rightharpoonup> string"
  qr_LedgerSeq :: "int"
  qr_Timestamp :: "go_time"
  qr_Metadata :: "string \<rightharpoonup> string"

definition zero_queued_reserve_row_t :: queued_reserve_row_t where
  "zero_queued_reserve_row_t = \<lparr>qr_ID = '''', qr_Protocol = '''', qr_ContractID = '''',
     qr_AssetID = '''', qr_UnlockTimeRaw = '''', qr_UnlockTime = zero_time, qr_NewConfig =
     Map.empty, qr_LedgerSeq = 0, qr_Timestamp = zero_time, qr_Metadata = Map.empty\<rparr>"

record queued_reserve_lifecycle =
  qrl_QueuedReserve :: "queued_reserve_row_t"
  qrl_Active :: "bool"

definition zero_queued_reserve_lifecycle :: queued_reserve_lifecycle where
  "zero_queued_reserve_lifecycle = \<lparr>qrl_QueuedReserve = zero_queued_reserve_row_t,
     qrl_Active = False\<rparr>"

record backstop_queue_entry =
  bq_Amount :: "string"
  bq_UnlockAt :: "go_time"

definition zero_backstop_queue_entry :: backstop_queue_entry where
  "zero_backstop_queue_entry = \<lparr>bq_Amount = '''', bq_UnlockAt = zero_time\<rparr>"

record position_row =
  pn_ID :: "string"
  pn_Address :: "string"
  pn_Protocol :: "string"
  pn_ContractID :: "string"
  pn_AssetID :: "string"
  pn_PositionType :: "position_type"
  pn_ShareAmount :: "string"
  pn_AssetAmount :: "string"
  pn_USDValue :: "string"
  pn_APY :: "string"
  pn_LedgerSeq :: "int"
  pn_Timestamp :: "go_time"
  pn_Metadata :: "string \<rightharpoonup> string"
  pn_Q4WEntries :: "backstop_queue_entry list"

definition zero_position_row :: position_row where
  "zero_position_row = \<lparr>pn_ID = '''', pn_Address = '''', pn_Protocol = '''', pn_ContractID
     = '''', pn_AssetID = '''', pn_PositionType = Supply, pn_ShareAmount = '''', pn_AssetAmount =
     '''', pn_USDValue = '''', pn_APY = '''', pn_LedgerSeq = 0, pn_Timestamp = zero_time,
     pn_Metadata = Map.empty, pn_Q4WEntries = []\<rparr>"

record position_summary =
  sm_ID :: "string"
  sm_Address :: "string"
  sm_Protocol :: "string"
  sm_HealthFactor :: "string"
  sm_BorrowLimitPct :: "string"
  sm_BorrowCapUSD :: "string"
  sm_DepositedUSD :: "string"
  sm_BorrowedUSD :: "string"
  sm_EffectiveCollateralUSD :: "string"
  sm_EffectiveLiabilityUSD :: "string"
  sm_NetAPY :: "string"
  sm_NetAPYWeightUSD :: "string"
  sm_LiquidationPrice :: "string"
  sm_LedgerSeq :: "int"
  sm_Timestamp :: "go_time"
  sm_Metadata :: "string \<rightharpoonup> string"
  sm_StructuredMetadata :: "string \<rightharpoonup> any_value"

definition zero_position_summary :: position_summary where
  "zero_position_summary = \<lparr>sm_ID = '''', sm_Address = '''', sm_Protocol = '''',
     sm_HealthFactor = '''', sm_BorrowLimitPct = '''', sm_BorrowCapUSD = '''', sm_DepositedUSD =
     '''', sm_BorrowedUSD = '''', sm_EffectiveCollateralUSD = '''', sm_EffectiveLiabilityUSD =
     '''', sm_NetAPY = '''', sm_NetAPYWeightUSD = '''', sm_LiquidationPrice = '''', sm_LedgerSeq =
     0, sm_Timestamp = zero_time, sm_Metadata = Map.empty, sm_StructuredMetadata =
     Map.empty\<rparr>"

record transform_input =
  ti_LedgerSeq :: "int"
  ti_CloseTime :: "go_time"
  ti_Events :: "raw_event_envelope list"
  ti_State :: "ledger_state option"
  ti_PriorPositions :: "position_row list"
  ti_PriorSummaries :: "position_summary list"

definition zero_transform_input :: transform_input where
  "zero_transform_input = \<lparr>ti_LedgerSeq = 0, ti_CloseTime = zero_time, ti_Events = [],
     ti_State = None, ti_PriorPositions = [], ti_PriorSummaries = []\<rparr>"

record position_tombstone =
  pt_Address :: "string"
  pt_Protocol :: "string"
  pt_ContractID :: "string"
  pt_AssetID :: "string"
  pt_PositionType :: "string"
  pt_LedgerSeq :: "int"

definition zero_position_tombstone :: position_tombstone where
  "zero_position_tombstone = \<lparr>pt_Address = '''', pt_Protocol = '''', pt_ContractID = '''',
     pt_AssetID = '''', pt_PositionType = '''', pt_LedgerSeq = 0\<rparr>"

record summary_tombstone =
  st_Address :: "string"
  st_Protocol :: "string"
  st_LedgerSeq :: "int"

definition zero_summary_tombstone :: summary_tombstone where
  "zero_summary_tombstone = \<lparr>st_Address = '''', st_Protocol = '''', st_LedgerSeq = 0\<rparr>"

record activity_row =
  ac_ID :: "string"
  ac_LedgerSeq :: "int"
  ac_TxHash :: "string"
  ac_EventIndex :: "int"
  ac_ContractID :: "string"
  ac_Address :: "string"
  ac_Protocol :: "string"
  ac_ActivityType :: "string"
  ac_AssetID :: "string"
  ac_AmountRaw :: "string"
  ac_ShareAmount :: "string"
  ac_ShareType :: "string"
  ac_AssetSymbol :: "string"
  ac_Counterparty :: "string"
  ac_USDValue :: "string"
  ac_Direction :: "string"
  ac_Timestamp :: "go_time"
  ac_Metadata :: "string \<rightharpoonup> string"

definition zero_activity_row :: activity_row where
  "zero_activity_row = \<lparr>ac_ID = '''', ac_LedgerSeq = 0, ac_TxHash = '''', ac_EventIndex =
     0, ac_ContractID = '''', ac_Address = '''', ac_Protocol = '''', ac_ActivityType = '''',
     ac_AssetID = '''', ac_AmountRaw = '''', ac_ShareAmount = '''', ac_ShareType = '''',
     ac_AssetSymbol = '''', ac_Counterparty = '''', ac_USDValue = '''', ac_Direction = '''',
     ac_Timestamp = zero_time, ac_Metadata = Map.empty\<rparr>"

record reserve_row =
  re_ID :: "string"
  re_Protocol :: "string"
  re_ContractID :: "string"
  re_AssetID :: "string"
  re_TotalSupplied :: "string"
  re_TotalBorrowed :: "string"
  re_Utilization :: "string"
  re_SupplyAPY :: "string"
  re_BorrowAPY :: "string"
  re_SupplyCap :: "string"
  re_BorrowCap :: "string"
  re_CFactor :: "string"
  re_LFactor :: "string"
  re_OracleContract :: "string"
  re_LedgerSeq :: "int"
  re_Timestamp :: "go_time"
  re_Metadata :: "string \<rightharpoonup> string"

definition zero_reserve_row :: reserve_row where
  "zero_reserve_row = \<lparr>re_ID = '''', re_Protocol = '''', re_ContractID = '''', re_AssetID =
     '''', re_TotalSupplied = '''', re_TotalBorrowed = '''', re_Utilization = '''', re_SupplyAPY =
     '''', re_BorrowAPY = '''', re_SupplyCap = '''', re_BorrowCap = '''', re_CFactor = '''',
     re_LFactor = '''', re_OracleContract = '''', re_LedgerSeq = 0, re_Timestamp = zero_time,
     re_Metadata = Map.empty\<rparr>"

record backstop_row =
  bs_ID :: "string"
  bs_Protocol :: "string"
  bs_ContractID :: "string"
  bs_BackstopContract :: "string"
  bs_SharesRaw :: "string"
  bs_LPTokensRaw :: "string"
  bs_Q4WSharesRaw :: "string"
  bs_Q4WPct :: "string"
  bs_BLNDAmountRaw :: "string"
  bs_USDCAmountRaw :: "string"
  bs_USDValue :: "string"
  bs_LedgerSeq :: "int"
  bs_Timestamp :: "go_time"
  bs_Metadata :: "string \<rightharpoonup> string"

definition zero_backstop_row :: backstop_row where
  "zero_backstop_row = \<lparr>bs_ID = '''', bs_Protocol = '''', bs_ContractID = '''',
     bs_BackstopContract = '''', bs_SharesRaw = '''', bs_LPTokensRaw = '''', bs_Q4WSharesRaw =
     '''', bs_Q4WPct = '''', bs_BLNDAmountRaw = '''', bs_USDCAmountRaw = '''', bs_USDValue = '''',
     bs_LedgerSeq = 0, bs_Timestamp = zero_time, bs_Metadata = Map.empty\<rparr>"

record reserve_emission_row =
  em_ID :: "string"
  em_Protocol :: "string"
  em_ContractID :: "string"
  em_AssetID :: "string"
  em_Side :: "string"
  em_EPSRaw :: "string"
  em_Expiration :: "go_time"
  em_APY :: "string"
  em_IndexRaw :: "string"
  em_LastTimeRaw :: "string"
  em_LedgerSeq :: "int"
  em_Timestamp :: "go_time"
  em_Metadata :: "string \<rightharpoonup> string"

definition zero_reserve_emission_row :: reserve_emission_row where
  "zero_reserve_emission_row = \<lparr>em_ID = '''', em_Protocol = '''', em_ContractID = '''',
     em_AssetID = '''', em_Side = '''', em_EPSRaw = '''', em_Expiration = zero_time, em_APY =
     '''', em_IndexRaw = '''', em_LastTimeRaw = '''', em_LedgerSeq = 0, em_Timestamp = zero_time,
     em_Metadata = Map.empty\<rparr>"

record user_emission_row =
  uem_ID :: "string"
  uem_Protocol :: "string"
  uem_ContractID :: "string"
  uem_Address :: "string"
  uem_AssetID :: "string"
  uem_ReserveTokenID :: "int"
  uem_Side :: "string"
  uem_IndexRaw :: "string"
  uem_AccruedRaw :: "string"
  uem_LedgerSeq :: "int"
  uem_Timestamp :: "go_time"
  uem_Metadata :: "string \<rightharpoonup> string"

definition zero_user_emission_row :: user_emission_row where
  "zero_user_emission_row = \<lparr>uem_ID = '''', uem_Protocol = '''', uem_ContractID = '''',
     uem_Address = '''', uem_AssetID = '''', uem_ReserveTokenID = 0, uem_Side = '''', uem_IndexRaw
     = '''', uem_AccruedRaw = '''', uem_LedgerSeq = 0, uem_Timestamp = zero_time, uem_Metadata =
     Map.empty\<rparr>"

record contract_row =
  ct_ID :: "string"
  ct_Address :: "string"
  ct_Protocol :: "string"
  ct_ContractType :: "string"
  ct_Status :: "string"
  ct_WasmHash :: "string"
  ct_FirstSeenLedger :: "int"
  ct_LastSeenLedger :: "int"
  ct_Metadata :: "string \<rightharpoonup> string"

definition zero_contract_row :: contract_row where
  "zero_contract_row = \<lparr>ct_ID = '''', ct_Address = '''', ct_Protocol = '''',
     ct_ContractType = '''', ct_Status = '''', ct_WasmHash = '''', ct_FirstSeenLedger = 0,
     ct_LastSeenLedger = 0, ct_Metadata = Map.empty\<rparr>"

record quarantine_event =
  qe_ID :: "string"
  qe_AdapterID :: "string"
  qe_LedgerSeq :: "int"
  qe_TxHash :: "string"
  qe_EventIndex :: "int"
  qe_ContractID :: "string"
  qe_Reason :: "string"
  qe_RawEvent :: "string"
  qe_Metadata :: "string \<rightharpoonup> string"

definition zero_quarantine_event :: quarantine_event where
  "zero_quarantine_event = \<lparr>qe_ID = '''', qe_AdapterID = '''', qe_LedgerSeq = 0, qe_TxHash
     = '''', qe_EventIndex = 0, qe_ContractID = '''', qe_Reason = '''', qe_RawEvent = '''',
     qe_Metadata = Map.empty\<rparr>"

record amm_pool_row =
  ap_Protocol :: "string"
  ap_RouterContract :: "string"
  ap_PoolHash :: "string"
  ap_ContractID :: "string"
  ap_PoolType :: "string"
  ap_WasmHash :: "string"
  ap_Tokens :: "amm_token_reserve list"
  ap_TotalSharesRaw :: "string"
  ap_FeeFractionRaw :: "string"
  ap_ProtocolFeeFractionRaw :: "string"
  ap_AmplificationRaw :: "string"
  ap_TickSpacing :: "int"
  ap_SqrtPriceX96 :: "string"
  ap_CurrentTick :: "int"
  ap_ActiveLiquidityRaw :: "string"
  ap_LedgerSeq :: "int"
  ap_Timestamp :: "go_time"
  ap_Metadata :: "string \<rightharpoonup> string"

definition zero_amm_pool_row :: amm_pool_row where
  "zero_amm_pool_row = \<lparr>ap_Protocol = '''', ap_RouterContract = '''', ap_PoolHash = '''',
     ap_ContractID = '''', ap_PoolType = '''', ap_WasmHash = '''', ap_Tokens = [],
     ap_TotalSharesRaw = '''', ap_FeeFractionRaw = '''', ap_ProtocolFeeFractionRaw = '''',
     ap_AmplificationRaw = '''', ap_TickSpacing = 0, ap_SqrtPriceX96 = '''', ap_CurrentTick = 0,
     ap_ActiveLiquidityRaw = '''', ap_LedgerSeq = 0, ap_Timestamp = zero_time, ap_Metadata =
     Map.empty\<rparr>"

record amm_position_component =
  pc_ID :: "string"
  pc_PositionGroupID :: "string"
  pc_Address :: "string"
  pc_Protocol :: "string"
  pc_PoolContractID :: "string"
  pc_ComponentKind :: "string"
  pc_AssetID :: "string"
  pc_AmountRaw :: "string"
  pc_ShareAmountRaw :: "string"
  pc_TickLower :: "int option"
  pc_TickUpper :: "int option"
  pc_USDValue :: "string"
  pc_APR :: "string"
  pc_LedgerSeq :: "int"
  pc_Timestamp :: "go_time"
  pc_Metadata :: "string \<rightharpoonup> string"

definition zero_amm_position_component :: amm_position_component where
  "zero_amm_position_component = \<lparr>pc_ID = '''', pc_PositionGroupID = '''', pc_Address =
     '''', pc_Protocol = '''', pc_PoolContractID = '''', pc_ComponentKind = '''', pc_AssetID =
     '''', pc_AmountRaw = '''', pc_ShareAmountRaw = '''', pc_TickLower = None, pc_TickUpper =
     None, pc_USDValue = '''', pc_APR = '''', pc_LedgerSeq = 0, pc_Timestamp = zero_time,
     pc_Metadata = Map.empty\<rparr>"

record amm_reward_row =
  rw_ID :: "string"
  rw_PositionGroupID :: "string"
  rw_Address :: "string"
  rw_Protocol :: "string"
  rw_PoolContractID :: "string"
  rw_RewardContract :: "string"
  rw_RewardTokenID :: "string"
  rw_RewardKind :: "string"
  rw_AmountRaw :: "string"
  rw_USDValue :: "string"
  rw_LedgerSeq :: "int"
  rw_Timestamp :: "go_time"
  rw_Metadata :: "string \<rightharpoonup> string"

definition zero_amm_reward_row :: amm_reward_row where
  "zero_amm_reward_row = \<lparr>rw_ID = '''', rw_PositionGroupID = '''', rw_Address = '''',
     rw_Protocol = '''', rw_PoolContractID = '''', rw_RewardContract = '''', rw_RewardTokenID =
     '''', rw_RewardKind = '''', rw_AmountRaw = '''', rw_USDValue = '''', rw_LedgerSeq = 0,
     rw_Timestamp = zero_time, rw_Metadata = Map.empty\<rparr>"

record vault_row =
  va_ID :: "string"
  va_Address :: "string"
  va_Protocol :: "string"
  va_ContractID :: "string"
  va_Denomination :: "string"
  va_VaultIndexRaw :: "string"
  va_CollateralRaw :: "string"
  va_DebtRaw :: "string"
  va_RatioRaw :: "string"
  va_CollateralUSD :: "string"
  va_DebtUSD :: "string"
  va_Status :: "string"
  va_LedgerSeq :: "int"
  va_Timestamp :: "go_time"
  va_Metadata :: "string \<rightharpoonup> string"

definition zero_vault_row :: vault_row where
  "zero_vault_row = \<lparr>va_ID = '''', va_Address = '''', va_Protocol = '''', va_ContractID =
     '''', va_Denomination = '''', va_VaultIndexRaw = '''', va_CollateralRaw = '''', va_DebtRaw =
     '''', va_RatioRaw = '''', va_CollateralUSD = '''', va_DebtUSD = '''', va_Status = '''',
     va_LedgerSeq = 0, va_Timestamp = zero_time, va_Metadata = Map.empty\<rparr>"

record transform_output =
  to_LedgerSeq :: "int"
  to_Activities :: "activity_row list"
  to_Positions :: "position_row list"
  to_Summaries :: "position_summary list"
  to_Reserves :: "reserve_row list"
  to_ReserveEmissions :: "reserve_emission_row list"
  to_UserEmissions :: "user_emission_row list"
  to_Auctions :: "auction_row_t list"
  to_QueuedReserves :: "queued_reserve_row_t list"
  to_AuctionLifecycle :: "auction_lifecycle list"
  to_QueuedReserveLifecycle :: "queued_reserve_lifecycle list"
  to_Backstops :: "backstop_row list"
  to_Contracts :: "contract_row list"
  to_Quarantine :: "quarantine_event list"
  to_AMMPools :: "amm_pool_row list"
  to_AMMComponents :: "amm_position_component list"
  to_AMMRewards :: "amm_reward_row list"
  to_Vaults :: "vault_row list"
  to_PositionTombstones :: "position_tombstone list"
  to_SummaryTombstones :: "summary_tombstone list"

definition zero_transform_output :: transform_output where
  "zero_transform_output = \<lparr>to_LedgerSeq = 0, to_Activities = [], to_Positions = [],
     to_Summaries = [], to_Reserves = [], to_ReserveEmissions = [], to_UserEmissions = [],
     to_Auctions = [], to_QueuedReserves = [], to_AuctionLifecycle = [], to_QueuedReserveLifecycle
     = [], to_Backstops = [], to_Contracts = [], to_Quarantine = [], to_AMMPools = [],
     to_AMMComponents = [], to_AMMRewards = [], to_Vaults = [], to_PositionTombstones = [],
     to_SummaryTombstones = []\<rparr>"

section \<open>Configuration records\<close>

record config_record =
  cr_Kind :: "string"
  cr_EntityKey :: "string"
  cr_Ledger :: "int"
  cr_Payload :: "string"
  cr_Removed :: "bool"

definition zero_config_record :: config_record where
  "zero_config_record = \<lparr>cr_Kind = '''', cr_EntityKey = '''', cr_Ledger = 0, cr_Payload =
     '''', cr_Removed = False\<rparr>"

record config_generated_column =
  cg_Name :: "string"
  cg_SQLType :: "string"
  cg_Expr :: "string"

definition zero_config_generated_column :: config_generated_column where
  "zero_config_generated_column = \<lparr>cg_Name = '''', cg_SQLType = '''', cg_Expr = ''''\<rparr>"

record config_index =
  ci_Name :: "string"
  ci_Columns :: "string list"

definition zero_config_index :: config_index where
  "zero_config_index = \<lparr>ci_Name = '''', ci_Columns = []\<rparr>"

record config_view =
  cv_Name :: "string"
  cv_Body :: "string"

definition zero_config_view :: config_view where
  "zero_config_view = \<lparr>cv_Name = '''', cv_Body = ''''\<rparr>"

record config_table_schema =
  cs_Kind :: "string"
  cs_Table :: "string"
  cs_Generated :: "config_generated_column list"
  cs_Indexes :: "config_index list"
  cs_Views :: "config_view list"

definition zero_config_table_schema :: config_table_schema where
  "zero_config_table_schema = \<lparr>cs_Kind = '''', cs_Table = '''', cs_Generated = [],
     cs_Indexes = [], cs_Views = []\<rparr>"

section \<open>Copying the prior state\<close>

definition cloneState :: "ledger_state option \<Rightarrow> ledger_state" where
  "cloneState s = (case s of None \<Rightarrow> zero_ledger_state | Some s \<Rightarrow> s)"

lemma cloneState_Some [simp]: "cloneState (Some s) = s"
  by (simp add: cloneState_def)

record state_stats =
  ss_Pools :: int
  ss_Users :: int
  ss_Backstops :: int

definition zero_state_stats :: state_stats where
  "zero_state_stats = \<lparr>ss_Pools = 0, ss_Users = 0, ss_Backstops = 0\<rparr>"

section \<open>Token and asset slices\<close>

text \<open>Growing a token slice with zero entries until the index exists, then filling the columns given.\<close>

definition pad_tokens :: "nat \<Rightarrow> amm_token_reserve list \<Rightarrow> amm_token_reserve list" where
  "pad_tokens i ts = ts @ replicate (Suc i - length ts) zero_amm_token_reserve"

definition set_token :: "string \<Rightarrow> string \<Rightarrow> amm_token_reserve \<Rightarrow> amm_token_reserve" where
  "set_token assetID reserve t =
     (let t = (if assetID \<noteq> '''' then t\<lparr>tr_AssetID := assetID\<rparr> else t)
      in if reserve \<noteq> '''' then t\<lparr>tr_ReserveRaw := reserve\<rparr> else t)"

definition upsertToken :: "amm_token_reserve list \<Rightarrow> nat \<Rightarrow> string \<Rightarrow> string \<Rightarrow> amm_token_reserve list" where
  "upsertToken ts i assetID reserve =
     (let ts = pad_tokens i ts in ts[i := set_token assetID reserve (ts ! i)])"

fun upsertAsset :: "amm_asset_metadata list \<Rightarrow> amm_asset_metadata \<Rightarrow> amm_asset_metadata list" where
  "upsertAsset [] m = [m]"
| "upsertAsset (x # xs) m =
     (if aa_ContractID x = aa_ContractID m then m # xs else x # upsertAsset xs m)"

end
