(* ===== verification/Stellar.thy ===== *)
theory Stellar
  imports GoLib
begin

text \<open>
  Contract values as the adapters see them.  \<open>scval\<close> is the \<open>xdr.ScVal\<close> union, with one
  constructor per arm the adapters read and \<open>ScOther\<close> for the remaining arms; a getter
  \<open>v.GetX()\<close> succeeds exactly on its own arm.  Decoding XDR bytes and encoding strkey addresses
  belong to the Stellar SDK, which is not part of the repository: they are the fields of the
  record \<open>sdk\<close>, an argument of every definition that needs them.
\<close>

section \<open>The value union\<close>

type_synonym w64 = "64 word"

datatype sc_address = AddrContract string | AddrAccount string | AddrOther

datatype scval =
    ScBool bool
  | ScU32 w32
  | ScI32 w32
  | ScU64 w64
  | ScI64 w64
  | ScTimepoint w64
  | ScDuration w64
  | ScU128 w64 w64
  | ScI128 w64 w64
  | ScU256 w64 w64 w64 w64
  | ScBytes string
  | ScStr string
  | ScSym string
  | ScVec "scval list option"
  | ScMap "(scval \<times> scval) list option"
  | ScAddress sc_address
  | ScInstance "string option" "(scval \<times> scval) list option"
  | ScKeyInstance
  | ScOther

text \<open>
  The zero \<open>xdr.ScVal\<close> has discriminant 0, the boolean arm; \<open>v.Type != 0\<close> tests for it.
  A Go map lookup of a missing field yields this value.
\<close>

definition sc_zero :: scval where
  "sc_zero = ScBool False"

fun sc_type_nonzero :: "scval \<Rightarrow> bool" where
  "sc_type_nonzero (ScBool _) = False"
| "sc_type_nonzero _ = True"

fun get_sym :: "scval \<Rightarrow> string option" where
  "get_sym (ScSym s) = Some s"
| "get_sym _ = None"

fun get_str :: "scval \<Rightarrow> string option" where
  "get_str (ScStr s) = Some s"
| "get_str _ = None"

text \<open>A vector arm may hold a nil pointer; the code treats it like a missing vector.\<close>

fun get_vec :: "scval \<Rightarrow> scval list option" where
  "get_vec (ScVec v) = v"
| "get_vec _ = None"

fun get_map :: "scval \<Rightarrow> (scval \<times> scval) list option" where
  "get_map (ScMap m) = m"
| "get_map _ = None"

fun get_u32 :: "scval \<Rightarrow> w32 option" where
  "get_u32 (ScU32 u) = Some u"
| "get_u32 _ = None"

fun get_i32 :: "scval \<Rightarrow> int option" where
  "get_i32 (ScI32 u) = Some (sint u)"
| "get_i32 _ = None"

fun get_instance :: "scval \<Rightarrow> (string option \<times> (scval \<times> scval) list option) option" where
  "get_instance (ScInstance h st) = Some (h, st)"
| "get_instance _ = None"

record sdk =
  sdk_unmarshal_val :: "string \<Rightarrow> scval option"
  sdk_unmarshal_event :: "string \<Rightarrow> (scval list \<times> scval) option option"
  sdk_strkey_contract :: "string \<Rightarrow> string"
  sdk_strkey_account :: "string \<Rightarrow> string"
  sdk_encode_account :: "string \<Rightarrow> string option"
  sdk_valid_contract :: "string \<Rightarrow> bool"
  sdk_valid_account :: "string \<Rightarrow> bool"

text \<open>
  What the adapters rely on in a strkey: it is never empty, distinct keys have distinct
  encodings, contract keys start with C and account keys with G, and the base-32 alphabet
  contains no separator.
\<close>

definition strkey_ok :: "sdk \<Rightarrow> bool" where
  "strkey_ok S \<longleftrightarrow>
     (\<forall>b. \<exists>t. sdk_strkey_contract S b = CHR ''C'' # t \<and> CHR ''|'' \<notin> set t) \<and>
     (\<forall>b. \<exists>t. sdk_strkey_account S b = CHR ''G'' # t \<and> CHR ''|'' \<notin> set t) \<and>
     inj (sdk_strkey_contract S) \<and> inj (sdk_strkey_account S)"

text \<open>What the validators accept: the encodings, and nothing as both an account and a contract.\<close>

definition strkey_valid_ok :: "sdk \<Rightarrow> bool" where
  "strkey_valid_ok S \<longleftrightarrow> strkey_ok S \<and>
     (\<forall>b. sdk_valid_contract S (sdk_strkey_contract S b)) \<and> (\<forall>b. sdk_valid_account S (sdk_strkey_account S b)) \<and>
     (\<forall>s. \<not> (sdk_valid_contract S s \<and> sdk_valid_account S s)) \<and>
     \<not> sdk_valid_contract S '''' \<and> \<not> sdk_valid_account S ''''"

text \<open>
  A concrete SDK for the examples: values and events by table, addresses in hexadecimal.
\<close>

definition example_sdk :: "(string \<times> scval) list \<Rightarrow> (string \<times> (scval list \<times> scval) option) list \<Rightarrow> sdk" where
  "example_sdk vals events = \<lparr>sdk_unmarshal_val = map_of vals, sdk_unmarshal_event = map_of events,
     sdk_strkey_contract = (\<lambda>b. CHR ''C'' # hex_encode b), sdk_strkey_account = (\<lambda>b. CHR ''G'' # hex_encode b),
     sdk_encode_account = (\<lambda>b. Some (CHR ''G'' # hex_encode b)),
     sdk_valid_contract = (\<lambda>s. take 1 s = ''C''), sdk_valid_account = (\<lambda>s. take 1 s = ''G'')\<rparr>"

lemma example_sdk_ok: "strkey_ok (example_sdk vals events)"
  by (auto simp: strkey_ok_def example_sdk_def hex_encode_no_bar intro!: injI dest: hex_encode_inj)

lemma example_sdk_valid: "strkey_valid_ok (example_sdk vals events)"
  by (auto simp: strkey_valid_ok_def example_sdk_ok) (auto simp: example_sdk_def)

section \<open>Helpers every package repeats\<close>

definition decodeVal :: "sdk \<Rightarrow> string \<Rightarrow> scval option" where
  "decodeVal S s = (case b64_decode s of None \<Rightarrow> None | Some b \<Rightarrow> sdk_unmarshal_val S b)"

fun symbolOrFirst :: "scval \<Rightarrow> string" where
  "symbolOrFirst (ScSym s) = s"
| "symbolOrFirst (ScVec (Some (x # _))) = symbolOrFirst x"
| "symbolOrFirst _ = ''''"

fun addr :: "sdk \<Rightarrow> scval \<Rightarrow> string" where
  "addr S (ScAddress (AddrContract b)) = sdk_strkey_contract S b"
| "addr S (ScAddress (AddrAccount b)) = sdk_strkey_account S b"
| "addr S _ = ''''"

lemma addr_no_bar: "strkey_ok S \<Longrightarrow> CHR ''|'' \<notin> set (addr S v)"
proof (induction S v rule: addr.induct)
  case (1 S b)
  then obtain t where "sdk_strkey_contract S b = CHR ''C'' # t" "CHR ''|'' \<notin> set t"
    unfolding strkey_ok_def by blast
  then show ?case by simp
next
  case (2 S b)
  then obtain t where "sdk_strkey_account S b = CHR ''G'' # t" "CHR ''|'' \<notin> set t"
    unfolding strkey_ok_def by blast
  then show ?case by simp
qed simp_all

lemma addr_nonempty: "strkey_ok S \<Longrightarrow> addr S (ScAddress a) \<noteq> '''' \<longleftrightarrow> a \<noteq> AddrOther"
  unfolding strkey_ok_def by (cases a) (simp, metis list.distinct(1), simp, metis list.distinct(1), simp)

lemma addr_eq_empty_cases: "addr S v \<noteq> '''' \<Longrightarrow> \<exists>a. v = ScAddress a \<and> a \<noteq> AddrOther"
  by (induction S v rule: addr.induct) auto

text \<open>
  Two values with the same non-empty address string are the same address, so keying state by
  the string never merges two holders.
\<close>

lemma addr_inj:
  assumes "strkey_ok S" and "addr S v = addr S w" and "addr S v \<noteq> ''''"
  shows "v = w"
proof -
  have neq: "sdk_strkey_contract S b \<noteq> sdk_strkey_account S b'" for b b'
  proof -
    obtain t where "sdk_strkey_contract S b = CHR ''C'' # t"
      using assms(1) unfolding strkey_ok_def by blast
    moreover obtain u where "sdk_strkey_account S b' = CHR ''G'' # u"
      using assms(1) unfolding strkey_ok_def by blast
    ultimately show ?thesis by simp
  qed
  obtain a where a: "v = ScAddress a" "a \<noteq> AddrOther" using addr_eq_empty_cases [OF assms(3)] by blast
  obtain c where c: "w = ScAddress c" "c \<noteq> AddrOther"
    using addr_eq_empty_cases [of S w] assms(2,3) by auto
  show ?thesis
    using a c assms(1,2) neq neq [symmetric]
    by (cases a; cases c) (auto simp: strkey_ok_def dest: injD)
qed

section \<open>128-bit and 256-bit integers\<close>

text \<open>
  \<open>big.Int.Lsh\<close> and \<open>Or\<close> on the unsigned halves; negative values are brought down by
  \<open>2 ^ 128\<close>.
\<close>

definition join64 :: "int \<Rightarrow> w64 \<Rightarrow> int" where
  "join64 n w = push_bit 64 n OR uint w"

definition newBig :: "w64 \<Rightarrow> w64 \<Rightarrow> bool \<Rightarrow> string" where
  "newBig hi lo neg =
     (let n = join64 (uint hi) lo in show_int (if neg then n - push_bit 128 1 else n))"

lemma join64_eq: "join64 n w = n * 2 ^ 64 + uint w"
proof -
  have "\<not> bit (push_bit 64 n) k \<or> \<not> bit (uint w) k" for k
    by (cases "k < 64") (auto simp: bit_push_bit_iff bit_uint_iff)
  then have "push_bit 64 n + uint w = push_bit 64 n OR uint w"
    by (rule disjunctive_add)
  then show ?thesis by (simp add: join64_def push_bit_eq_mult)
qed

definition i128_value :: "w64 \<Rightarrow> w64 \<Rightarrow> int" where
  "i128_value hi lo = sint hi * 2 ^ 64 + uint lo"

lemma uint_sint_64: "uint (w :: w64) = (if sint w < 0 then sint w + 2 ^ 64 else sint w)"
proof -
  have u: "uint w = sint w mod 2 ^ 64" using uint_sint [of w] by (simp add: take_bit_eq_mod)
  have r: "- (2 ^ 63) \<le> sint w" "sint w < 2 ^ 63" using sint_range_size [of w] by (simp_all add: word_size)
  show ?thesis
  proof (cases "sint w < 0")
    case True
    then have "(sint w + 2 ^ 64) mod 2 ^ 64 = sint w + 2 ^ 64"
      using r by (intro mod_pos_pos_trivial) simp_all
    then show ?thesis using True u by simp
  next
    case False
    then show ?thesis using r u by (simp add: mod_pos_pos_trivial)
  qed
qed

text \<open>Reading the sign off the high half recovers the two's complement value.\<close>

lemma newBig_i128: "newBig hi lo (sint hi < 0) = show_int (i128_value hi lo)"
proof -
  have "join64 (uint hi) lo - (if sint hi < 0 then push_bit 128 1 else 0) = i128_value hi lo"
    using uint_sint_64 [of hi]
    by (simp add: join64_eq i128_value_def push_bit_eq_mult algebra_simps split: if_splits)
  then show ?thesis by (simp add: newBig_def Let_def split: if_splits)
qed

lemma newBig_u128: "newBig hi lo False = show_int (uint hi * 2 ^ 64 + uint lo)"
  by (simp add: newBig_def join64_eq)

lemma join_range:
  fixes h l :: int
  assumes "- (2 ^ 63) \<le> h" "h < 2 ^ 63" "0 \<le> l" "l < 2 ^ 64"
  shows "- (2 ^ 127) \<le> h * 2 ^ 64 + l \<and> h * 2 ^ 64 + l < 2 ^ 127"
  using assms by simp

lemma i128_value_range: "- (2 ^ 127) \<le> i128_value hi lo \<and> i128_value hi lo < 2 ^ 127"
  unfolding i128_value_def
  by (rule join_range) (use sint_range_size [of hi] uint_lt2p [of lo] in \<open>simp_all add: word_size\<close>)

text \<open>Every 128-bit value is represented, by exactly the halves the XDR carries.\<close>

lemma i128_value_split:
  assumes "- (2 ^ 127) \<le> n" and "n < 2 ^ 127"
  shows "i128_value (word_of_int (n div 2 ^ 64)) (word_of_int n) = n"
proof -
  have "- (2 ^ 63) \<le> n div 2 ^ 64" "n div 2 ^ 64 < 2 ^ 63" using assms by simp_all
  then have "sint (word_of_int (n div 2 ^ 64) :: w64) = n div 2 ^ 64"
    by (simp add: sint_sbintrunc' signed_take_bit_int_eq_self)
  moreover have "uint (word_of_int n :: w64) = n mod 2 ^ 64"
    by (simp add: uint_word_of_int)
  ultimately show ?thesis by (simp add: i128_value_def)
qed

section \<open>Sets of contract ids and row identities\<close>

text \<open>Copying a configured id set drops blank ids.\<close>

definition copySet :: "string set \<Rightarrow> string set" where
  "copySet ids = Set.filter (\<lambda>k. trim_space k \<noteq> '''') ids"

text \<open>Reading a Go map of values: a missing key yields the zero value.\<close>

definition field :: "(string \<rightharpoonup> scval) \<Rightarrow> string \<Rightarrow> scval" where
  "field f k = (case f k of None \<Rightarrow> sc_zero | Some v \<Rightarrow> v)"

text \<open>\<open>stableID\<close>: the parts joined with bars (none before the first non-empty part), hashed.\<close>

definition id_join :: "string list \<Rightarrow> string" where
  "id_join parts = foldl (\<lambda>b p. (if b \<noteq> '''' then b @ ''|'' else b) @ p) '''' parts"

definition stableID :: "string list \<Rightarrow> string" where
  "stableID parts = hex_encode (sha256 (id_join parts))"

end
