(* ===== verification/Soroswap.thy ===== *)
theory Soroswap
  imports Bindings Stellar
begin

text \<open>
  The Soroswap adapter (package \<open>soroswap\<close>): configuration and ownership (\<open>adapter.go\<close>), the
  two-pass ledger decoder (\<open>state.go\<close>), the pro-rata arithmetic (\<open>math.go\<close>) and the output rows
  (\<open>transform.go\<close>).  The adapter value is state: a decode returns the adapter with the pairs it
  discovered and its dirty set, next to the new ledger state.
\<close>

section \<open>Arithmetic (math.go)\<close>

definition parseUint :: "string \<Rightarrow> int option" where
  "parseUint s = (case set_string s of None \<Rightarrow> None | Some n \<Rightarrow> if n < 0 then None else Some n)"

datatype rata_error = InvalidUnsigned string | ZeroTotalShares

definition proRata :: "string \<Rightarrow> string \<Rightarrow> string \<Rightarrow> rata_error + string" where
  "proRata shares reserve totalShares =
     (case parseUint shares of
        None \<Rightarrow> Inl (InvalidUnsigned shares)
      | Some s \<Rightarrow> (case parseUint reserve of
            None \<Rightarrow> Inl (InvalidUnsigned reserve)
          | Some r \<Rightarrow> (case parseUint totalShares of
                None \<Rightarrow> Inl (InvalidUnsigned totalShares)
              | Some t \<Rightarrow>
                  if t = 0 then Inl ZeroTotalShares else Inr (show_int (quo (s * r) t)))))"

section \<open>Configuration and ownership (adapter.go)\<close>

record sw_config =
  swc_AdapterID :: string
  swc_Protocol :: string
  swc_Factories :: "string set"
  swc_Routers :: "string set"
  swc_PairWasmHashes :: "string set"

definition sw_DefaultConfig :: sw_config where
  "sw_DefaultConfig = \<lparr>swc_AdapterID = ''soroswap'', swc_Protocol = ''soroswap'',
     swc_Factories = {}, swc_Routers = {}, swc_PairWasmHashes = {}\<rparr>"

record sw_adapter =
  swa_cfg :: sw_config
  swa_factories :: "string set"
  swa_routers :: "string set"
  swa_pairs :: "string set"
  swa_assets :: "string set"
  swa_dirty :: "dirty_position list"

definition sw_NewWithConfig :: "sw_config \<Rightarrow> string + sw_adapter" where
  "sw_NewWithConfig config =
     (let cfg = sw_DefaultConfig;
          cfg = (if swc_AdapterID config \<noteq> '''' then cfg\<lparr>swc_AdapterID := swc_AdapterID config\<rparr> else cfg);
          cfg = (if swc_Protocol config \<noteq> '''' then cfg\<lparr>swc_Protocol := swc_Protocol config\<rparr> else cfg);
          cfg = cfg\<lparr>swc_Factories := copySet (swc_Factories config),
                    swc_Routers := copySet (swc_Routers config),
                    swc_PairWasmHashes :=
                      to_lower ` Set.filter (\<lambda>h. trim_space h \<noteq> '''') (swc_PairWasmHashes config)\<rparr>
      in if swc_AdapterID cfg = '''' \<or> swc_Protocol cfg = ''''
         then Inl ''soroswap: adapter id and protocol are required''
         else Inr \<lparr>swa_cfg = cfg, swa_factories = copySet (swc_Factories cfg),
                swa_routers = copySet (swc_Routers cfg), swa_pairs = {}, swa_assets = {},
                swa_dirty = []\<rparr>)"

definition sw_ID :: "sw_adapter \<Rightarrow> string" where
  "sw_ID a = swc_AdapterID (swa_cfg a)"

definition sw_Protocol :: "sw_adapter \<Rightarrow> string" where
  "sw_Protocol a = swc_Protocol (swa_cfg a)"

definition sw_OwnsContract :: "sw_adapter \<Rightarrow> string \<Rightarrow> bool" where
  "sw_OwnsContract a i \<longleftrightarrow>
     (if i \<in> swa_factories a then True
      else if i \<in> swa_routers a then True
      else if i \<in> swa_pairs a then True
      else i \<in> swa_assets a)"

definition sw_RegisterPairContracts :: "string list \<Rightarrow> sw_adapter \<Rightarrow> sw_adapter" where
  "sw_RegisterPairContracts ids a =
     foldl (\<lambda>a i. if trim_space i \<noteq> '''' then a\<lparr>swa_pairs := insert i (swa_pairs a)\<rparr> else a) a ids"

definition sw_RegisterAssetContracts :: "string list \<Rightarrow> sw_adapter \<Rightarrow> sw_adapter" where
  "sw_RegisterAssetContracts ids a =
     foldl (\<lambda>a i. if trim_space i \<noteq> '''' then a\<lparr>swa_assets := insert i (swa_assets a)\<rparr> else a) a ids"

definition sw_StateAssetContracts :: "sw_adapter \<Rightarrow> ledger_state option \<Rightarrow> string list" where
  "sw_StateAssetContracts a s =
     (case s of
        None \<Rightarrow> []
      | Some s \<Rightarrow>
          sort (remdups (concat (map (\<lambda>p. filter (\<lambda>i. i \<noteq> '''') (map tr_AssetID (ps_Tokens p)))
            (filter (\<lambda>p. ps_Protocol p = sw_Protocol a) (ls_AMMPools s))))))"

definition sw_StateStats :: "sw_adapter \<Rightarrow> ledger_state option \<Rightarrow> state_stats" where
  "sw_StateStats a s =
     (case s of
        None \<Rightarrow> zero_state_stats
      | Some s \<Rightarrow> zero_state_stats\<lparr>
          ss_Pools := int (length (filter (\<lambda>p. ps_Protocol p = sw_Protocol a) (ls_AMMPools s))),
          ss_Users := int (card (po_Address ` {p \<in> set (ls_AMMPositions s). po_PoolContractID p \<in> swa_pairs a}))\<rparr>)"

definition sw_LastDirtyPositions :: "sw_adapter \<Rightarrow> dirty_position list" where
  "sw_LastDirtyPositions a = swa_dirty a"

section \<open>Decoding values (state.go)\<close>

text \<open>The pair's u32 storage keys.\<close>

definition pairKeyToken0 :: int where "pairKeyToken0 = 0"
definition pairKeyToken1 :: int where "pairKeyToken1 = 1"
definition pairKeyReserve0 :: int where "pairKeyReserve0 = 2"
definition pairKeyReserve1 :: int where "pairKeyReserve1 = 3"
definition pairKeyFactory :: int where "pairKeyFactory = 4"
definition pairKeyKLast :: int where "pairKeyKLast = 5"

lemmas pair_keys = pairKeyToken0_def pairKeyToken1_def pairKeyReserve0_def pairKeyReserve1_def
  pairKeyFactory_def pairKeyKLast_def

definition int128String :: "w64 \<Rightarrow> w64 \<Rightarrow> string" where
  "int128String hi lo = newBig hi lo (sint hi < 0)"

fun i128String :: "scval \<Rightarrow> string" where
  "i128String (ScI128 hi lo) = int128String hi lo"
| "i128String (ScU128 hi lo) = newBig hi lo False"
| "i128String (ScU64 u) = show_int (uint u)"
| "i128String (ScU32 u) = show_int (uint u)"
| "i128String _ = ''''"

definition sw_fields :: "scval \<Rightarrow> string \<rightharpoonup> scval" where
  "sw_fields v =
     (case get_map v of
        None \<Rightarrow> Map.empty
      | Some es \<Rightarrow> foldl (\<lambda>m (k, x). m(symbolOrFirst k \<mapsto> x)) Map.empty es)"

fun stringOrSymbol :: "scval \<Rightarrow> string" where
  "stringOrSymbol (ScStr s) = s"
| "stringOrSymbol (ScSym s) = s"
| "stringOrSymbol _ = ''''"

definition balanceHolder :: "sdk \<Rightarrow> scval \<Rightarrow> string" where
  "balanceHolder S key =
     (case get_vec key of
        Some [x, y] \<Rightarrow> if get_sym x = Some ''Balance'' then addr S y else ''''
      | _ \<Rightarrow> '''')"

definition sw_positionKey :: "amm_position_state \<Rightarrow> string" where
  "sw_positionKey p = po_PoolContractID p @ ''|'' @ po_Address p"

definition sw_assetMetadata :: "string \<Rightarrow> scval \<Rightarrow> scval \<Rightarrow> amm_asset_metadata option" where
  "sw_assetMetadata i key val =
     (if symbolOrFirst key \<noteq> ''METADATA'' then None
      else let f = sw_fields val;
               m = zero_amm_asset_metadata\<lparr>aa_ContractID := i,
                     aa_Name := stringOrSymbol (field f ''name''),
                     aa_Symbol := stringOrSymbol (field f ''symbol'')\<rparr>;
               m = (case get_u32 (field f ''decimal'') of
                      None \<Rightarrow> m
                    | Some d \<Rightarrow> m\<lparr>aa_Decimals := to_int32 (uint d)\<rparr>)
           in if aa_Symbol m \<noteq> '''' then Some m else None)"

section \<open>DecodeState (state.go)\<close>

subsection \<open>The discovery pass\<close>

definition sw_discover :: "sdk \<Rightarrow> contract_data_change \<Rightarrow> sw_adapter \<Rightarrow> sw_adapter" where
  "sw_discover S c a =
     (if cd_ContractID c \<notin> swa_factories a then a
      else case cd_ValueXDR c of
        None \<Rightarrow> a
      | Some vx \<Rightarrow> (case decodeVal S (cd_KeyXDR c) of
            None \<Rightarrow> a
          | Some key \<Rightarrow>
              if symbolOrFirst key = ''PairAddressesNIndexed''
              then (case decodeVal S vx of
                  None \<Rightarrow> a
                | Some val \<Rightarrow>
                    (let pair = addr S val in
                     if pair \<noteq> '''' then a\<lparr>swa_pairs := insert pair (swa_pairs a)\<rparr> else a))
              else a))"

subsection \<open>The state pass\<close>

record sw_work =
  sww_pools :: "(string, amm_pool_state) gmap"
  sww_positions :: "(string, amm_position_state) gmap"
  sww_assets :: "amm_asset_metadata list"
  sww_dirty :: "dirty_position list"

definition sw_upsertPosition :: "string \<Rightarrow> string \<Rightarrow> string \<Rightarrow> sw_work \<Rightarrow> sw_work" where
  "sw_upsertPosition pair holder shares w =
     (let pos = zero_amm_position_state\<lparr>po_Address := holder, po_PoolContractID := pair, po_SharesRaw := shares\<rparr>;
          k = sw_positionKey pos;
          pos = (case gm_get (sww_positions w) k of
                   None \<Rightarrow> pos | Some cur \<Rightarrow> pos\<lparr>po_HadShares := po_HadShares cur\<rparr>);
          pos = (if shares \<noteq> ''0'' then pos\<lparr>po_HadShares := True\<rparr> else pos)
      in w\<lparr>sww_positions := gm_set k pos (sww_positions w),
           sww_dirty := sww_dirty w @ [\<lparr>dp_Address = holder, dp_PoolContractID = pair, dp_Kind = DirtyUpsert\<rparr>]\<rparr>)"

definition sw_tombstonePosition :: "string \<Rightarrow> string \<Rightarrow> sw_work \<Rightarrow> sw_work" where
  "sw_tombstonePosition pair holder w =
     (let pos = zero_amm_position_state\<lparr>po_Address := holder, po_PoolContractID := pair, po_SharesRaw := ''0''\<rparr>;
          k = sw_positionKey pos;
          pos = (case gm_get (sww_positions w) k of
                   None \<Rightarrow> pos | Some cur \<Rightarrow> pos\<lparr>po_HadShares := po_HadShares cur\<rparr>)
      in w\<lparr>sww_positions := gm_set k pos (sww_positions w),
           sww_dirty := sww_dirty w @ [\<lparr>dp_Address = holder, dp_PoolContractID = pair, dp_Kind = DirtyRemoval\<rparr>]\<rparr>)"

text \<open>One entry of a pair instance's storage: the pool, whether it was touched, the assets.\<close>

definition sw_instance_entry ::
  "sdk \<Rightarrow> string \<Rightarrow> amm_pool_state \<times> bool \<times> amm_asset_metadata list \<Rightarrow> scval \<times> scval
   \<Rightarrow> amm_pool_state \<times> bool \<times> amm_asset_metadata list" where
  "sw_instance_entry S cid st entry =
     (case st of (p, touched, assets) \<Rightarrow> (case entry of (k, v) \<Rightarrow>
       (case get_u32 k of
          Some u \<Rightarrow>
            (let n = uint u; ts = ps_Tokens p in
             (if n = pairKeyToken0 then p\<lparr>ps_Tokens := upsertToken ts 0 (addr S v) ''''\<rparr>
              else if n = pairKeyToken1 then p\<lparr>ps_Tokens := upsertToken ts 1 (addr S v) ''''\<rparr>
              else if n = pairKeyReserve0 then p\<lparr>ps_Tokens := upsertToken ts 0 '''' (i128String v)\<rparr>
              else if n = pairKeyReserve1 then p\<lparr>ps_Tokens := upsertToken ts 1 '''' (i128String v)\<rparr>
              else if n = pairKeyFactory then p\<lparr>ps_RouterContract := addr S v\<rparr>
              else p, True, assets))
        | None \<Rightarrow>
            if symbolOrFirst k = ''TotalSupply''
            then (p\<lparr>ps_TotalSharesRaw := i128String v\<rparr>, True, assets)
            else if symbolOrFirst k = ''METADATA''
            then (p, touched,
                  case sw_assetMetadata cid k v of None \<Rightarrow> assets | Some m \<Rightarrow> upsertAsset assets m)
            else (p, touched, assets))))"

text \<open>
  The instance part of a change: \<open>None\<close> when the executable is not on the allow-list, so that
  the change is skipped.
\<close>

definition sw_instance ::
  "sdk \<Rightarrow> sw_config \<Rightarrow> string \<Rightarrow> scval \<Rightarrow> amm_pool_state \<Rightarrow> amm_asset_metadata list
   \<Rightarrow> (amm_pool_state \<times> bool \<times> amm_asset_metadata list) option" where
  "sw_instance S cfg cid val p assets =
     (case get_instance val of
        None \<Rightarrow> Some (p, False, assets)
      | Some (hash, storage) \<Rightarrow>
          (let p = (case hash of None \<Rightarrow> p | Some h \<Rightarrow> p\<lparr>ps_WasmHash := hex_encode h\<rparr>) in
           if swc_PairWasmHashes cfg \<noteq> {} \<and> ps_WasmHash p \<noteq> ''''
              \<and> to_lower (ps_WasmHash p) \<notin> swc_PairWasmHashes cfg
           then None
           else Some (case storage of
               None \<Rightarrow> (p, False, assets)
             | Some es \<Rightarrow> foldl (sw_instance_entry S cid) (p, False, assets) es)))"

definition sw_live :: "sdk \<Rightarrow> sw_adapter \<Rightarrow> string \<Rightarrow> scval \<Rightarrow> scval \<Rightarrow> sw_work \<Rightarrow> sw_work" where
  "sw_live S a cid key val w =
     (let p = (case gm_get (sww_pools w) cid of None \<Rightarrow> zero_amm_pool_state | Some p \<Rightarrow> p);
          p = p\<lparr>ps_Protocol := sw_Protocol a, ps_ContractID := cid, ps_PoolType := ''constant_product''\<rparr>
      in case sw_instance S (swa_cfg a) cid val p (sww_assets w) of
           None \<Rightarrow> w
         | Some (p, touched, assets) \<Rightarrow>
             (let w = w\<lparr>sww_assets := assets\<rparr>;
                  holder = balanceHolder S key;
                  shares = i128String val;
                  w = (if holder \<noteq> '''' \<and> shares \<noteq> '''' then sw_upsertPosition cid holder shares w else w)
              in if touched then w\<lparr>sww_pools := gm_set cid p (sww_pools w)\<rparr> else w))"

definition sw_step :: "sdk \<Rightarrow> sw_adapter \<Rightarrow> contract_data_change \<Rightarrow> sw_work \<Rightarrow> sw_work" where
  "sw_step S a c w =
     (let cid = cd_ContractID c in
      if \<not> sw_OwnsContract a cid then w
      else if cid \<in> swa_assets a then
        (case cd_ValueXDR c of
           None \<Rightarrow> w
         | Some vx \<Rightarrow> (case (decodeVal S (cd_KeyXDR c), decodeVal S vx) of
               (Some key, Some val) \<Rightarrow>
                 (case sw_assetMetadata cid key val of
                    None \<Rightarrow> w | Some m \<Rightarrow> w\<lparr>sww_assets := upsertAsset (sww_assets w) m\<rparr>)
             | _ \<Rightarrow> w))
      else if cid \<notin> swa_pairs a then w
      else case decodeVal S (cd_KeyXDR c) of
          None \<Rightarrow> w
        | Some key \<Rightarrow>
            (case (cd_ValueXDR c, cd_ChangeType c = ''Removed'') of
               (Some vx, False) \<Rightarrow>
                 (case decodeVal S vx of None \<Rightarrow> w | Some val \<Rightarrow> sw_live S a cid key val w)
             | (_, removed) \<Rightarrow>
                 if removed \<and> balanceHolder S key \<noteq> ''''
                 then sw_tombstonePosition cid (balanceHolder S key) w else w))"

definition sw_start :: "ledger_state \<Rightarrow> sw_work" where
  "sw_start s = \<lparr>
     sww_pools = gm.load ps_ContractID (\<lambda>p. p) (ls_AMMPools s) [],
     sww_positions = gm.load sw_positionKey (\<lambda>p. p) (ls_AMMPositions s) [],
     sww_assets = ls_AMMAssets s,
     sww_dirty = []\<rparr>"

definition sw_finish :: "ledger_state \<Rightarrow> sw_work \<Rightarrow> ledger_state" where
  "sw_finish s w = s\<lparr>
     ls_AMMAssets := sww_assets w,
     ls_AMMPools := sort_key ps_ContractID (map snd (sww_pools w)),
     ls_AMMPositions := sort_key sw_positionKey (map snd (sww_positions w))\<rparr>"

definition sw_DecodeState ::
  "sdk \<Rightarrow> sw_adapter \<Rightarrow> ledger_state option \<Rightarrow> contract_data_change list \<Rightarrow> sw_adapter \<times> ledger_state" where
  "sw_DecodeState S a prior changes =
     (let next = cloneState prior;
          a = run (sw_discover S) changes (a\<lparr>swa_dirty := []\<rparr>);
          w = run (sw_step S a) changes (sw_start next)
      in (a\<lparr>swa_dirty := sort_key (\<lambda>d. (dp_PoolContractID d, dp_Address d)) (sww_dirty w)\<rparr>,
          sw_finish next w))"

section \<open>Output rows (transform.go)\<close>

definition pairActivityVocabulary :: "string set" where
  "pairActivityVocabulary = {''deposit'', ''swap'', ''withdraw'', ''sync'', ''skim''}"

definition factoryEventNames :: "string set" where
  "factoryEventNames = {''init'', ''new_pair'', ''fee_to'', ''setter'', ''fees''}"

definition routerEventNames :: "string set" where
  "routerEventNames = {''init'', ''add'', ''remove'', ''swap''}"

definition tokenEchoNames :: "string set" where
  "tokenEchoNames = {''mint'', ''burn'', ''transfer'', ''approve''}"

definition sw_component ::
  "sw_adapter \<Rightarrow> string \<Rightarrow> amm_position_state \<Rightarrow> string \<Rightarrow> string \<Rightarrow> string \<Rightarrow> transform_input \<Rightarrow> bool
   \<Rightarrow> amm_position_component" where
  "sw_component a grp p asset amount shares i closed =
     (let metadata = [''price_unavailable'' \<mapsto> ''true''];
          metadata = (if closed then metadata(''closed'' \<mapsto> ''true'') else metadata)
      in zero_amm_position_component\<lparr>
           pc_ID := stableID [grp, ''lp_principal'', asset], pc_PositionGroupID := grp,
           pc_Address := po_Address p, pc_Protocol := sw_Protocol a,
           pc_PoolContractID := po_PoolContractID p, pc_ComponentKind := ''lp_principal'',
           pc_AssetID := asset, pc_AmountRaw := amount, pc_ShareAmountRaw := shares,
           pc_LedgerSeq := ti_LedgerSeq i, pc_Timestamp := ti_CloseTime i,
           pc_Metadata := metadata\<rparr>)"

definition sw_pool_row :: "sw_adapter \<Rightarrow> transform_input \<Rightarrow> amm_pool_state \<Rightarrow> amm_pool_row" where
  "sw_pool_row a i p = zero_amm_pool_row\<lparr>
     ap_Protocol := sw_Protocol a, ap_RouterContract := ps_RouterContract p,
     ap_ContractID := ps_ContractID p, ap_PoolType := ps_PoolType p, ap_WasmHash := ps_WasmHash p,
     ap_Tokens := ps_Tokens p, ap_TotalSharesRaw := ps_TotalSharesRaw p,
     ap_LedgerSeq := ti_LedgerSeq i, ap_Timestamp := ti_CloseTime i\<rparr>"

text \<open>The rows of one position: its components, and the quarantine entries of undecodable state.\<close>

definition sw_position_rows ::
  "sw_adapter \<Rightarrow> transform_input \<Rightarrow> amm_pool_state \<Rightarrow> amm_position_state
   \<Rightarrow> (quarantine_event + amm_position_component) list" where
  "sw_position_rows a i pool pos =
     (let grp = stableID [sw_Protocol a, po_Address pos, po_PoolContractID pos] in
      if po_SharesRaw pos \<noteq> '''' \<and> po_SharesRaw pos \<noteq> ''0'' then
        map (\<lambda>t. case proRata (po_SharesRaw pos) (tr_ReserveRaw t) (ps_TotalSharesRaw pool) of
            Inl e \<Rightarrow> Inl (zero_quarantine_event\<lparr>
              qe_ID := stableID [grp, tr_AssetID t, show_int (ti_LedgerSeq i)],
              qe_AdapterID := sw_ID a, qe_LedgerSeq := ti_LedgerSeq i,
              qe_ContractID := ps_ContractID pool, qe_Reason := ''invalid_lp_share_state''\<rparr>)
          | Inr amount \<Rightarrow>
              Inr (sw_component a grp pos (tr_AssetID t) amount (po_SharesRaw pos) i False))
          (ps_Tokens pool)
      else if po_SharesRaw pos = ''0'' \<and> po_HadShares pos then
        map (\<lambda>t. Inr (sw_component a grp pos (tr_AssetID t) ''0'' ''0'' i True)) (ps_Tokens pool)
      else [])"

definition sw_quarantine :: "sw_adapter \<Rightarrow> raw_event_envelope \<Rightarrow> string \<Rightarrow> quarantine_event" where
  "sw_quarantine a evt reason = zero_quarantine_event\<lparr>
     qe_ID := stableID [sw_ID a, show_int (ev_LedgerSeq evt), ev_TxHash evt, show_int (ev_EventIndex evt), reason],
     qe_AdapterID := sw_ID a, qe_LedgerSeq := ev_LedgerSeq evt, qe_TxHash := ev_TxHash evt,
     qe_EventIndex := ev_EventIndex evt, qe_ContractID := ev_ContractID evt,
     qe_Reason := reason, qe_RawEvent := ev_RawEvent evt\<rparr>"

definition pair_amount_fields :: "string list" where
  "pair_amount_fields = [''amount_0'', ''amount_1'', ''liquidity'',
     ''amount_0_in'', ''amount_1_in'', ''amount_0_out'', ''amount_1_out'',
     ''new_reserve_0'', ''new_reserve_1'', ''skimmed_0'', ''skimmed_1'']"

definition sw_pairActivity ::
  "sdk \<Rightarrow> sw_adapter \<Rightarrow> raw_event_envelope \<Rightarrow> string \<Rightarrow> scval \<Rightarrow> activity_row" where
  "sw_pairActivity S a evt name data =
     (let f = sw_fields data;
          metadata = foldl (\<lambda>m k. case f k of
              None \<Rightarrow> m
            | Some v \<Rightarrow> if i128String v \<noteq> '''' then m(k \<mapsto> i128String v) else m)
            Map.empty pair_amount_fields;
          address = (case f ''to'' of None \<Rightarrow> '''' | Some v \<Rightarrow> addr S v);
          address = (if address = '''' then ev_ContractID evt else address);
          share = (case f ''liquidity'' of None \<Rightarrow> '''' | Some v \<Rightarrow> i128String v)
      in zero_activity_row\<lparr>
           ac_ID := stableID [sw_Protocol a, show_int (ev_LedgerSeq evt), ev_TxHash evt,
                      show_int (ev_EventIndex evt), name],
           ac_LedgerSeq := ev_LedgerSeq evt, ac_TxHash := ev_TxHash evt,
           ac_EventIndex := ev_EventIndex evt, ac_ContractID := ev_ContractID evt,
           ac_Address := address, ac_Protocol := sw_Protocol a, ac_ActivityType := name,
           ac_ShareAmount := share, ac_Timestamp := ev_CloseTime evt, ac_Metadata := metadata\<rparr>)"

definition sw_classifyEvent ::
  "sdk \<Rightarrow> sw_adapter \<Rightarrow> raw_event_envelope \<Rightarrow> activity_row option \<times> quarantine_event option" where
  "sw_classifyEvent S a evt =
     (if \<not> sw_OwnsContract a (ev_ContractID evt) then (None, None)
      else case sdk_unmarshal_event S (ev_RawEvent evt) of
        None \<Rightarrow> (None, Some (sw_quarantine a evt ''soroswap_event_undecodable''))
      | Some None \<Rightarrow> (None, Some (sw_quarantine a evt ''soroswap_event_empty_topics''))
      | Some (Some (topics, data)) \<Rightarrow> (case topics of
          [] \<Rightarrow> (None, Some (sw_quarantine a evt ''soroswap_event_empty_topics''))
        | t0 # ts \<Rightarrow> (case get_str t0 of
            Some label \<Rightarrow>
              (let name = (case ts of
                     [] \<Rightarrow> ''''
                   | t1 # _ \<Rightarrow> (case get_sym t1 of None \<Rightarrow> '''' | Some s \<Rightarrow> s))
               in if label = ''SoroswapPair'' then
                    (if name \<in> pairActivityVocabulary
                     then (Some (sw_pairActivity S a evt name data), None)
                     else (None, Some (sw_quarantine a evt ''soroswap_unknown_pair_event'')))
                  else if label = ''SoroswapFactory'' then
                    (if name \<in> factoryEventNames then (None, None)
                     else (None, Some (sw_quarantine a evt ''soroswap_unknown_factory_event'')))
                  else if label = ''SoroswapRouter'' then
                    (if name \<in> routerEventNames then (None, None)
                     else (None, Some (sw_quarantine a evt ''soroswap_unknown_router_event'')))
                  else (None, Some (sw_quarantine a evt ''soroswap_unknown_event_label'')))
          | None \<Rightarrow>
              (case get_sym t0 of
                 Some s \<Rightarrow> if s \<in> tokenEchoNames then (None, None)
                           else (None, Some (sw_quarantine a evt ''soroswap_unknown_event''))
               | None \<Rightarrow> (None, Some (sw_quarantine a evt ''soroswap_unknown_event''))))))"

definition sw_Transform :: "sdk \<Rightarrow> sw_adapter \<Rightarrow> transform_input \<Rightarrow> transform_output" where
  "sw_Transform S a i =
     (let mine = (case ti_State i of
            None \<Rightarrow> [] | Some s \<Rightarrow> filter (\<lambda>p. ps_Protocol p = sw_Protocol a) (ls_AMMPools s));
          pools = gm.load ps_ContractID (\<lambda>p. p) mine [];
          rows = concat (map (\<lambda>pos. case gm_get pools (po_PoolContractID pos) of
              None \<Rightarrow> [] | Some pool \<Rightarrow> sw_position_rows a i pool pos)
            (case ti_State i of None \<Rightarrow> [] | Some s \<Rightarrow> ls_AMMPositions s));
          events = map (sw_classifyEvent S a) (ti_Events i)
      in zero_transform_output\<lparr>
           to_LedgerSeq := ti_LedgerSeq i,
           to_AMMPools := sort_key ap_ContractID (map (sw_pool_row a i) mine),
           to_AMMComponents := sort_key pc_ID (rights rows),
           to_Activities := List.map_filter fst events,
           to_Quarantine := lefts rows @ List.map_filter snd events\<rparr>)"

section \<open>The decoder's invariant\<close>

text \<open>Every map entry sits under the key of its value.\<close>

definition sw_inv :: "sw_work \<Rightarrow> bool" where
  "sw_inv w \<longleftrightarrow> keyed ps_ContractID (sww_pools w) \<and> keyed sw_positionKey (sww_positions w)"

lemma sw_instance_entry_id [frame]:
  "ps_ContractID (fst (sw_instance_entry S cid st e)) = ps_ContractID (fst st)"
  by (cases st; cases e) (auto simp: sw_instance_entry_def Let_def split: option.splits)

lemma sw_instance_entries_id [frame]:
  "ps_ContractID (fst (foldl (sw_instance_entry S cid) st es)) = ps_ContractID (fst st)"
  by (induction es arbitrary: st) (simp_all add: frame)

lemma sw_instance_id:
  assumes "sw_instance S cfg cid val p assets = Some (q, touched, assets')"
  shows "ps_ContractID q = ps_ContractID p"
proof (cases "get_instance val")
  case None
  then show ?thesis using assms by (simp add: sw_instance_def)
next
  case (Some hs)
  obtain h st where hs: "hs = (h, st)" by (cases hs)
  define p1 where "p1 = (case h of None \<Rightarrow> p | Some h \<Rightarrow> p\<lparr>ps_WasmHash := hex_encode h\<rparr>)"
  have p1: "ps_ContractID p1 = ps_ContractID p" by (simp add: p1_def split: option.splits)
  have "(q, touched, assets') = (case st of None \<Rightarrow> (p1, False, assets)
      | Some es \<Rightarrow> foldl (sw_instance_entry S cid) (p1, False, assets) es)"
    using assms unfolding sw_instance_def Some hs Let_def p1_def [symmetric] option.case prod.case
    by (auto split: if_splits option.splits)
  then have "ps_ContractID q = ps_ContractID p1"
    using sw_instance_entries_id [of S cid "(p1, False, assets)"]
    by (cases st) (simp, metis fst_conv option.simps(5))
  then show ?thesis using p1 by simp
qed

lemma sw_upsertPosition_inv: "sw_inv w \<Longrightarrow> sw_inv (sw_upsertPosition pair h sh w)"
  by (auto simp: sw_inv_def sw_upsertPosition_def Let_def sw_positionKey_def split: option.splits)

lemma sw_tombstonePosition_inv: "sw_inv w \<Longrightarrow> sw_inv (sw_tombstonePosition pair h w)"
  by (auto simp: sw_inv_def sw_tombstonePosition_def Let_def sw_positionKey_def split: option.splits)

lemma sw_inv_frame [simp]:
  "sw_inv (w\<lparr>sww_assets := xs\<rparr>) = sw_inv w" "sw_inv (w\<lparr>sww_dirty := ds\<rparr>) = sw_inv w"
  by (simp_all add: sw_inv_def)

lemma sw_inv_pool: "sw_inv w \<Longrightarrow> ps_ContractID p = cid \<Longrightarrow> sw_inv (w\<lparr>sww_pools := gm_set cid p (sww_pools w)\<rparr>)"
  by (auto simp: sw_inv_def)

lemma sw_live_inv: "sw_inv w \<Longrightarrow> sw_inv (sw_live S a cid key val w)"
proof -
  assume w: "sw_inv w"
  define p where "p = (case gm_get (sww_pools w) cid of None \<Rightarrow> zero_amm_pool_state | Some p \<Rightarrow> p)
    \<lparr>ps_Protocol := sw_Protocol a, ps_ContractID := cid, ps_PoolType := ''constant_product''\<rparr>"
  show ?thesis
  proof (cases "sw_instance S (swa_cfg a) cid val p (sww_assets w)")
    case None
    then show ?thesis using w by (simp add: sw_live_def p_def Let_def)
  next
    case (Some r)
    obtain q t xs where r: "r = (q, t, xs)" by (cases r)
    then have "ps_ContractID q = cid" using sw_instance_id [of S "swa_cfg a" cid val p] Some
      by (auto simp: p_def)
    define w2 where "w2 = (if balanceHolder S key \<noteq> '''' \<and> i128String val \<noteq> ''''
      then sw_upsertPosition cid (balanceHolder S key) (i128String val) (w\<lparr>sww_assets := xs\<rparr>)
      else w\<lparr>sww_assets := xs\<rparr>)"
    have "sw_inv w2" using w by (simp add: w2_def sw_upsertPosition_inv)
    moreover have "sw_live S a cid key val w = (if t then w2\<lparr>sww_pools := gm_set cid q (sww_pools w2)\<rparr> else w2)"
      using Some r by (simp add: sw_live_def p_def w2_def Let_def)
    ultimately show ?thesis using \<open>ps_ContractID q = cid\<close> by (simp add: sw_inv_pool)
  qed
qed

lemma sw_step_inv: "sw_inv w \<Longrightarrow> sw_inv (sw_step S a c w)"
  by (simp add: sw_step_def Let_def sw_live_inv sw_tombstonePosition_inv split: option.splits bool.splits)

lemma sw_start_inv: "sw_inv (sw_start s)"
  by (simp add: sw_inv_def sw_start_def keyed_load)

interpretation sw: owned_fold "sw_step S a" sw_inv "\<lambda>w c. sw_OwnsContract a (cd_ContractID c)"
  for S a
  by unfold_locales (simp_all add: sw_step_inv, simp add: sw_step_def Let_def)

lemma sw_run_inv: "sw_inv (run (sw_step S a) cs (sw_start s))"
  by (rule sw.inv_run [OF sw_start_inv])

text \<open>The adapter and working state a decode ends with.\<close>

definition sw_found :: "sdk \<Rightarrow> sw_adapter \<Rightarrow> contract_data_change list \<Rightarrow> sw_adapter" where
  "sw_found S a cs = run (sw_discover S) cs (a\<lparr>swa_dirty := []\<rparr>)"

definition sw_result :: "sdk \<Rightarrow> sw_adapter \<Rightarrow> ledger_state option \<Rightarrow> contract_data_change list \<Rightarrow> sw_work" where
  "sw_result S a prior cs = run (sw_step S (sw_found S a cs)) cs (sw_start (cloneState prior))"

lemma sw_decode_state: "snd (sw_DecodeState S a prior cs) = sw_finish (cloneState prior) (sw_result S a prior cs)"
  by (simp add: sw_DecodeState_def sw_result_def sw_found_def Let_def)

lemma sw_result_inv: "sw_inv (sw_result S a prior cs)"
  by (simp add: sw_result_def sw_run_inv)

lemma sw_decode_sorted:
  "sorted_by ps_ContractID (ls_AMMPools (snd (sw_DecodeState S a prior cs)))"
  "sorted_by sw_positionKey (ls_AMMPositions (snd (sw_DecodeState S a prior cs)))"
  using sw_result_inv [of S a prior cs]
  by (simp_all add: sw_decode_state sw_finish_def sw_inv_def sorted_by_output)

section \<open>Properties of the decoder\<close>

text \<open>
  The decoded state is canonical: pools sorted by contract id and positions by key, without
  duplicates, and the sorted slices are the same whatever order Go ranges over the working
  maps in.
\<close>

theorem sw_decode_canonical:
  "sorted_by ps_ContractID (ls_AMMPools (snd (sw_DecodeState S a prior cs)))
   \<and> sorted_by sw_positionKey (ls_AMMPositions (snd (sw_DecodeState S a prior cs)))
   \<and> (\<forall>xs. mset xs = mset (map snd (sww_pools (sw_result S a prior cs))) \<longrightarrow>
        ls_AMMPools (snd (sw_DecodeState S a prior cs)) = sort_key ps_ContractID xs)
   \<and> (\<forall>xs. mset xs = mset (map snd (sww_positions (sw_result S a prior cs))) \<longrightarrow>
        ls_AMMPositions (snd (sw_DecodeState S a prior cs)) = sort_key sw_positionKey xs)"
  using sw_result_inv [of S a prior cs]
  by (auto simp: sw_decode_state sw_finish_def sw_inv_def intro: sorted_by_output
      intro!: sort_key_order_free keyed_distinct)

subsection \<open>Evictions\<close>

text \<open>
  A change without a value that is not a removal: a TTL lapse or a network eviction, after which
  the entry can be restored.
\<close>

definition sw_evicted :: "contract_data_change \<Rightarrow> bool" where
  "sw_evicted c \<longleftrightarrow> cd_ValueXDR c = None \<and> cd_ChangeType c \<noteq> ''Removed''"

lemma sw_step_evicted: "sw_evicted c \<Longrightarrow> sw_step S a c w = w"
  by (simp add: sw_evicted_def sw_step_def Let_def split: option.splits)

lemma sw_discover_evicted: "sw_evicted c \<Longrightarrow> sw_discover S c a = a"
  by (simp add: sw_evicted_def sw_discover_def)

text \<open>
  Evictions are invisible: decoding a ledger gives the same adapter and the same state as
  decoding it without its TTL lapses and evictions, so an archived balance or pool keeps its
  last decoded value.
\<close>

theorem sw_decode_ignores_evictions:
  "sw_DecodeState S a prior (filter (\<lambda>c. \<not> sw_evicted c) cs) = sw_DecodeState S a prior cs"
proof -
  have "run (sw_discover S) (filter (\<lambda>c. \<not> sw_evicted c) cs) b = run (sw_discover S) cs b" for b
    by (rule run_filter_idle) (simp add: sw_discover_evicted)
  moreover have "run (sw_step S b) (filter (\<lambda>c. \<not> sw_evicted c) cs) w = run (sw_step S b) cs w" for b w
    by (rule run_filter_idle) (simp add: sw_step_evicted)
  ultimately show ?thesis by (simp add: sw_DecodeState_def)
qed

subsection \<open>Discovery\<close>

text \<open>The pair address a factory registry write announces, if the change is one.\<close>

definition sw_announced :: "sdk \<Rightarrow> sw_adapter \<Rightarrow> contract_data_change \<Rightarrow> string option" where
  "sw_announced S a c =
     (case cd_ValueXDR c of
        None \<Rightarrow> None
      | Some vx \<Rightarrow> (case (decodeVal S (cd_KeyXDR c), decodeVal S vx) of
            (Some key, Some val) \<Rightarrow>
              if cd_ContractID c \<in> swa_factories a \<and> symbolOrFirst key = ''PairAddressesNIndexed''
                 \<and> addr S val \<noteq> '''' then Some (addr S val) else None
          | _ \<Rightarrow> None))"

lemma sw_discover_eq:
  "sw_discover S c a = (case sw_announced S a c of None \<Rightarrow> a | Some p \<Rightarrow> a\<lparr>swa_pairs := insert p (swa_pairs a)\<rparr>)"
  by (simp add: sw_discover_def sw_announced_def Let_def split: option.splits)

lemma sw_announced_frame [simp]: "sw_announced S (a\<lparr>swa_pairs := ps\<rparr>) c = sw_announced S a c"
  "sw_announced S (a\<lparr>swa_dirty := ds\<rparr>) c = sw_announced S a c"
  by (simp_all add: sw_announced_def split: option.splits)

lemma sw_discover_run:
  "run (sw_discover S) cs a = a\<lparr>swa_pairs := swa_pairs a \<union> {p. \<exists>c\<in>set cs. sw_announced S a c = Some p}\<rparr>"
proof (induction cs arbitrary: a)
  case Nil
  then show ?case by simp
next
  case (Cons c cs)
  show ?case
  proof (cases "sw_announced S a c")
    case None
    then show ?thesis by (simp add: sw_discover_eq [of S c a] Cons)
  next
    case (Some p)
    have "insert p (swa_pairs a) \<union> {q. \<exists>x\<in>set cs. sw_announced S a x = Some q} =
      swa_pairs a \<union> {q. \<exists>x\<in>set (c # cs). sw_announced S a x = Some q}"
      using Some by auto
    then show ?thesis by (simp add: sw_discover_eq [of S c a] Cons Some)
  qed
qed

text \<open>
  Discovery covers the whole ledger: after a decode the adapter's pairs are the ones it had
  and every pair a factory write of this ledger announces, wherever the write stands among the
  changes; nothing else of the adapter but its dirty set changes, and the decoded state is the
  one a decoder that knew all these pairs beforehand computes.
\<close>

theorem sw_decode_discovers:
  "let pairs = swa_pairs a \<union> {p. \<exists>c\<in>set cs. sw_announced S a c = Some p} in
   (\<exists>d. fst (sw_DecodeState S a prior cs) = a\<lparr>swa_pairs := pairs, swa_dirty := d\<rparr>) \<and>
   snd (sw_DecodeState S a prior cs) = snd (sw_DecodeState S (a\<lparr>swa_pairs := pairs\<rparr>) prior cs)"
proof -
  let ?p = "swa_pairs a \<union> {p. \<exists>c\<in>set cs. sw_announced S a c = Some p}"
  have f: "sw_found S a cs = a\<lparr>swa_dirty := [], swa_pairs := ?p\<rparr>"
    by (simp add: sw_found_def sw_discover_run)
  have g: "sw_found S (a\<lparr>swa_pairs := ?p\<rparr>) cs = a\<lparr>swa_dirty := [], swa_pairs := ?p\<rparr>"
    by (auto simp: sw_found_def sw_discover_run)
  have "fst (sw_DecodeState S a prior cs) = (sw_found S a cs)
      \<lparr>swa_dirty := sort_key (\<lambda>d. (dp_PoolContractID d, dp_Address d)) (sww_dirty (sw_result S a prior cs))\<rparr>"
    by (simp add: sw_DecodeState_def sw_found_def sw_result_def Let_def)
  then have "\<exists>d. fst (sw_DecodeState S a prior cs) = a\<lparr>swa_pairs := ?p, swa_dirty := d\<rparr>"
    unfolding f by auto
  moreover have "snd (sw_DecodeState S a prior cs) = snd (sw_DecodeState S (a\<lparr>swa_pairs := ?p\<rparr>) prior cs)"
    unfolding sw_decode_state sw_result_def f g by (rule refl)
  ultimately show ?thesis by (simp add: Let_def)
qed

subsection \<open>Positions\<close>

text \<open>The position of a holder in a pair, as the working map and the state hold it.\<close>

definition sw_key :: "string \<Rightarrow> string \<Rightarrow> string" where
  "sw_key pair h = pair @ ''|'' @ h"

lemma sw_key_inj:
  assumes "CHR ''|'' \<notin> set h" and "CHR ''|'' \<notin> set h'"
  shows "sw_key p h = sw_key p' h' \<longleftrightarrow> p = p' \<and> h = h'"
proof
  assume e: "sw_key p h = sw_key p' h'"
  have r: "takeWhile (\<lambda>c. c \<noteq> CHR ''|'') (rev (sw_key p h)) = rev h" if "CHR ''|'' \<notin> set h" for p h
  proof -
    have "\<forall>c\<in>set (rev h). c \<noteq> CHR ''|''" using that by auto
    then show ?thesis by (simp add: sw_key_def takeWhile_append)
  qed
  have "h = h'" using r [OF assms(1)] r [OF assms(2)] e by (metis rev_rev_ident)
  then show "p = p' \<and> h = h'" using e by (simp add: sw_key_def)
qed simp

lemma sw_positions_upsert:
  "sww_positions (sw_upsertPosition pair h sh w) =
     gm_set (sw_key pair h) (zero_amm_position_state\<lparr>po_Address := h, po_PoolContractID := pair, po_SharesRaw := sh,
       po_HadShares := (sh \<noteq> ''0'' \<or> (\<exists>cur. gm_get (sww_positions w) (sw_key pair h) = Some cur \<and> po_HadShares cur))\<rparr>)
       (sww_positions w)"
  by (simp add: sw_upsertPosition_def Let_def sw_positionKey_def sw_key_def zero_amm_position_state_def
      split: option.splits)

lemma sw_positions_tombstone:
  "sww_positions (sw_tombstonePosition pair h w) =
     gm_set (sw_key pair h) (zero_amm_position_state\<lparr>po_Address := h, po_PoolContractID := pair, po_SharesRaw := ''0'',
       po_HadShares := (\<exists>cur. gm_get (sww_positions w) (sw_key pair h) = Some cur \<and> po_HadShares cur)\<rparr>)
       (sww_positions w)"
  by (simp add: sw_tombstonePosition_def Let_def sw_positionKey_def sw_key_def zero_amm_position_state_def
      split: option.splits)

text \<open>What a live pair entry does to the positions: nothing, or an upsert of its holder.\<close>

lemma sw_live_positions:
  "sww_positions (sw_live S a cid key val w) = sww_positions w \<or>
   (balanceHolder S key \<noteq> '''' \<and> i128String val \<noteq> '''' \<and>
    sww_positions (sw_live S a cid key val w) =
      sww_positions (sw_upsertPosition cid (balanceHolder S key) (i128String val) w))"
  by (auto simp: sw_live_def Let_def sw_positions_upsert split: option.splits)

lemma sw_step_undecoded:
  "decodeVal S (cd_KeyXDR c) = None \<Longrightarrow> sww_positions (sw_step S a c w) = sww_positions w"
  by (simp add: sw_step_def Let_def split: option.splits)

lemma sw_step_positions:
  assumes key: "decodeVal S (cd_KeyXDR c) = Some key"
  obtains (same) "sww_positions (sw_step S a c w) = sww_positions w"
  | (upsert) sh where "balanceHolder S key \<noteq> ''''" "sh \<noteq> ''''"
      "sww_positions (sw_step S a c w) =
         sww_positions (sw_upsertPosition (cd_ContractID c) (balanceHolder S key) sh w)"
  | (tombstone) "balanceHolder S key \<noteq> ''''"
      "sww_positions (sw_step S a c w) =
         sww_positions (sw_tombstonePosition (cd_ContractID c) (balanceHolder S key) w)"
proof -
  let ?cid = "cd_ContractID c"
  consider (skip) "\<not> sw_OwnsContract a ?cid \<or> ?cid \<in> swa_assets a \<or> ?cid \<notin> swa_pairs a"
    | (pair) "sw_OwnsContract a ?cid" "?cid \<notin> swa_assets a" "?cid \<in> swa_pairs a"
    by blast
  then show ?thesis
  proof cases
    case skip
    then have "sww_positions (sw_step S a c w) = sww_positions w"
      by (auto simp: sw_step_def Let_def split: option.splits)
    then show ?thesis by (rule same)
  next
    case pair
    show ?thesis
    proof (cases "cd_ChangeType c = ''Removed'' \<or> cd_ValueXDR c = None")
      case True
      have "sw_step S a c w =
          (if cd_ChangeType c = ''Removed'' \<and> balanceHolder S key \<noteq> ''''
           then sw_tombstonePosition ?cid (balanceHolder S key) w else w)"
        using True pair key by (cases "cd_ValueXDR c") (auto simp: sw_step_def)
      then show ?thesis using same tombstone by (auto split: if_splits)
    next
      case False
      then obtain vx where vx: "cd_ValueXDR c = Some vx" by auto
      show ?thesis
      proof (cases "decodeVal S vx")
        case None
        with False pair key vx show ?thesis by (intro same) (simp add: sw_step_def)
      next
        case (Some val)
        with False pair key vx have "sw_step S a c w = sw_live S a ?cid key val w"
          by (simp add: sw_step_def)
        with sw_live_positions [of S a ?cid key val w] show ?thesis
          by (auto intro: same upsert)
      qed
    qed
  qed
qed

lemma balanceHolder_no_bar: "strkey_ok S \<Longrightarrow> CHR ''|'' \<notin> set (balanceHolder S key)"
  by (auto simp: balanceHolder_def addr_no_bar split: option.splits list.splits)

text \<open>A change that is a Balance entry of the given pair and holder.\<close>

definition sw_touches :: "sdk \<Rightarrow> string \<Rightarrow> string \<Rightarrow> contract_data_change \<Rightarrow> bool" where
  "sw_touches S pair h c \<longleftrightarrow> cd_ContractID c = pair \<and>
     (case decodeVal S (cd_KeyXDR c) of None \<Rightarrow> False | Some key \<Rightarrow> balanceHolder S key = h)"

lemma sw_step_other:
  assumes "strkey_ok S" and "\<not> sw_touches S pair h c" and "CHR ''|'' \<notin> set h"
  shows "gm_get (sww_positions (sw_step S a c w)) (sw_key pair h) = gm_get (sww_positions w) (sw_key pair h)"
proof (cases "decodeVal S (cd_KeyXDR c)")
  case None
  then show ?thesis by (simp add: sw_step_undecoded)
next
  case (Some key)
  have k: "sw_key pair h \<noteq> sw_key (cd_ContractID c) (balanceHolder S key)"
    using assms Some balanceHolder_no_bar [OF assms(1), of key]
    by (simp add: sw_key_inj sw_touches_def) metis
  from Some show ?thesis
    by (rule sw_step_positions [where a = a and w = w])
      (simp_all add: sw_positions_upsert sw_positions_tombstone gm.get_upd k)
qed

lemma sw_run_other:
  assumes "strkey_ok S" and "\<forall>c\<in>set cs. \<not> sw_touches S pair h c" and "CHR ''|'' \<notin> set h"
  shows "gm_get (sww_positions (run (sw_step S a) cs w)) (sw_key pair h) = gm_get (sww_positions w) (sw_key pair h)"
  using assms by (induction cs arbitrary: w) (simp_all add: sw_step_other)

text \<open>Looking a position up in the output slice.\<close>

definition sw_position_in :: "ledger_state \<Rightarrow> string \<Rightarrow> string \<Rightarrow> amm_position_state option" where
  "sw_position_in s pair h = find (\<lambda>p. sw_positionKey p = sw_key pair h) (ls_AMMPositions s)"

lemma sw_position_in_decode:
  "sw_position_in (snd (sw_DecodeState S a prior cs)) pair h =
     gm_get (sww_positions (sw_result S a prior cs)) (sw_key pair h)"
  using sw_result_inv [of S a prior cs]
  by (simp add: sw_position_in_def sw_decode_state sw_finish_def sw_inv_def find_output)

lemma sw_position_in_prior:
  "distinct (map sw_positionKey (ls_AMMPositions s)) \<Longrightarrow>
   gm_get (sww_positions (sw_start s)) (sw_key pair h) = sw_position_in s pair h"
  by (simp add: sw_start_def find_load sw_position_in_def)

text \<open>
  A holder's position in a pair changes only through that holder's own Balance entry of that
  pair: if no change of the ledger carries one, the position decoded before is the position
  after, or is still absent.
\<close>

theorem sw_decode_frame:
  assumes "strkey_ok S" and "CHR ''|'' \<notin> set h"
    and "distinct (map sw_positionKey (ls_AMMPositions s))"
    and "\<forall>c\<in>set cs. \<not> sw_touches S pair h c"
  shows "sw_position_in (snd (sw_DecodeState S a (Some s) cs)) pair h = sw_position_in s pair h"
  using assms by (simp add: sw_position_in_decode sw_result_def sw_run_other sw_position_in_prior)

subsection \<open>The history flag\<close>

definition sw_held :: "amm_position_state \<Rightarrow> bool" where
  "sw_held p \<longleftrightarrow> (po_SharesRaw p \<noteq> ''0'' \<longrightarrow> po_HadShares p)"

definition sw_all_held :: "sw_work \<Rightarrow> bool" where
  "sw_all_held w \<longleftrightarrow> (\<forall>k p. gm_get (sww_positions w) k = Some p \<longrightarrow> sw_held p)"

lemma sw_step_held: "sw_all_held w \<Longrightarrow> sw_all_held (sw_step S a c w)"
proof (cases "decodeVal S (cd_KeyXDR c)")
  case (Some key)
  assume "sw_all_held w"
  with Some show ?thesis
    by (elim sw_step_positions [where a = a and w = w])
      (simp_all add: sw_all_held_def sw_positions_upsert sw_positions_tombstone gm.get_upd sw_held_def)
qed (simp add: sw_all_held_def sw_step_undecoded)

interpretation sw_held: inv_fold "sw_step S a" sw_all_held for S a
  by unfold_locales (rule sw_step_held)

lemma sw_step_history:
  "\<exists>p. gm_get (sww_positions w) k = Some p \<and> po_HadShares p \<Longrightarrow>
   \<exists>p. gm_get (sww_positions (sw_step S a c w)) k = Some p \<and> po_HadShares p"
proof (cases "decodeVal S (cd_KeyXDR c)")
  case (Some key)
  assume "\<exists>p. gm_get (sww_positions w) k = Some p \<and> po_HadShares p"
  with Some show ?thesis
    by (elim sw_step_positions [where a = a and w = w])
      (auto simp: sw_positions_upsert sw_positions_tombstone gm.get_upd)
qed (simp add: sw_step_undecoded)

interpretation sw_history: inv_fold "sw_step S a"
  "\<lambda>w. \<exists>p. gm_get (sww_positions w) k = Some p \<and> po_HadShares p" for S a k
  by unfold_locales (rule sw_step_history)

lemma sw_all_held_start:
  assumes "\<forall>p\<in>set (ls_AMMPositions s). sw_held p"
  shows "sw_all_held (sw_start s)"
  unfolding sw_all_held_def
proof (intro allI impI)
  fix k p assume "gm_get (sww_positions (sw_start s)) k = Some p"
  then show "sw_held p"
    using gm.get_load_Some [of sw_positionKey "\<lambda>p. p" "ls_AMMPositions s" "[]" k p] assms
    by (auto simp: sw_start_def gm.get_nil)
qed

text \<open>
  \<open>HadShares\<close> is the history of a position: after any ledger every position whose share
  balance is not zero has the flag, and a position that had it keeps it, whatever happens to
  the balance; so a zero balance with the flag is a real close and never a position that was
  always empty.
\<close>

theorem sw_decode_history:
  assumes "\<forall>p\<in>set (ls_AMMPositions s). sw_held p"
    and "distinct (map sw_positionKey (ls_AMMPositions s))"
  shows "(\<forall>p\<in>set (ls_AMMPositions (snd (sw_DecodeState S a (Some s) cs))). sw_held p) \<and>
    (\<forall>pair h. (\<exists>p. sw_position_in s pair h = Some p \<and> po_HadShares p) \<longrightarrow>
      (\<exists>p. sw_position_in (snd (sw_DecodeState S a (Some s) cs)) pair h = Some p \<and> po_HadShares p))"
proof (intro conjI allI impI ballI)
  fix p assume "p \<in> set (ls_AMMPositions (snd (sw_DecodeState S a (Some s) cs)))"
  then obtain k where "(k, p) \<in> set (sww_positions (sw_result S a (Some s) cs))"
    by (auto simp: sw_decode_state sw_finish_def)
  then have "gm_get (sww_positions (sw_result S a (Some s) cs)) k = Some p"
    using sw_result_inv [of S a "Some s" cs] by (simp add: sw_inv_def keyed_def in_gm_get)
  moreover have "sw_all_held (sw_result S a (Some s) cs)"
    unfolding sw_result_def using sw_held.inv_run [OF sw_all_held_start [OF assms(1)]] by simp
  ultimately show "sw_held p" by (simp add: sw_all_held_def)
next
  fix pair h assume "\<exists>p. sw_position_in s pair h = Some p \<and> po_HadShares p"
  then have "\<exists>p. gm_get (sww_positions (sw_start s)) (sw_key pair h) = Some p \<and> po_HadShares p"
    by (simp add: sw_position_in_prior assms(2))
  then show "\<exists>p. sw_position_in (snd (sw_DecodeState S a (Some s) cs)) pair h = Some p \<and> po_HadShares p"
    unfolding sw_position_in_decode sw_result_def cloneState_Some by (rule sw_history.inv_run)
qed

section \<open>Properties of the output\<close>

text \<open>The event is one the protocol emits but that is not an activity of a pair.\<close>

definition sw_plumbing_topics :: "scval list \<Rightarrow> bool" where
  "sw_plumbing_topics topics =
     (case topics of
        [] \<Rightarrow> False
      | t0 # ts \<Rightarrow> (case get_str t0 of
          Some label \<Rightarrow> (case ts of
              [] \<Rightarrow> False
            | t1 # _ \<Rightarrow> (case get_sym t1 of
                None \<Rightarrow> False
              | Some name \<Rightarrow> label = ''SoroswapFactory'' \<and> name \<in> factoryEventNames
                  \<or> label = ''SoroswapRouter'' \<and> name \<in> routerEventNames))
        | None \<Rightarrow> (case get_sym t0 of None \<Rightarrow> False | Some s \<Rightarrow> s \<in> tokenEchoNames)))"

definition sw_plumbing :: "sdk \<Rightarrow> raw_event_envelope \<Rightarrow> bool" where
  "sw_plumbing S evt \<longleftrightarrow>
     (\<exists>topics data. sdk_unmarshal_event S (ev_RawEvent evt) = Some (Some (topics, data)) \<and> sw_plumbing_topics topics)"

lemma vocab_no_empty: "'''' \<notin> factoryEventNames" "'''' \<notin> routerEventNames" "'''' \<notin> pairActivityVocabulary"
  by (simp_all add: factoryEventNames_def routerEventNames_def pairActivityVocabulary_def)

text \<open>The three outcomes of classifying an event of an owned contract.\<close>

lemma sw_classify_cases:
  assumes "sw_OwnsContract a (ev_ContractID evt)"
  obtains (activity) name data where "name \<in> pairActivityVocabulary"
      "sw_classifyEvent S a evt = (Some (sw_pairActivity S a evt name data), None)"
  | (silent) "sw_plumbing S evt" "sw_classifyEvent S a evt = (None, None)"
  | (quarantine) reason where "\<not> sw_plumbing S evt"
      "sw_classifyEvent S a evt = (None, Some (sw_quarantine a evt reason))"
proof -
  consider (bad) "sdk_unmarshal_event S (ev_RawEvent evt) = None \<or> sdk_unmarshal_event S (ev_RawEvent evt) = Some None
        \<or> (\<exists>data. sdk_unmarshal_event S (ev_RawEvent evt) = Some (Some ([], data)))"
    | (topics) t0 ts data where "sdk_unmarshal_event S (ev_RawEvent evt) = Some (Some (t0 # ts, data))"
    by (metis list.exhaust option.exhaust surj_pair)
  then show ?thesis
  proof cases
    case bad
    then show ?thesis using assms
      by (intro quarantine [where reason = "if sdk_unmarshal_event S (ev_RawEvent evt) = None
            then ''soroswap_event_undecodable'' else ''soroswap_event_empty_topics''"])
        (auto simp: sw_plumbing_def sw_plumbing_topics_def sw_classifyEvent_def)
  next
    case topics
    have p: "sw_plumbing S evt = sw_plumbing_topics (t0 # ts)" using topics by (simp add: sw_plumbing_def)
    show ?thesis
    proof (cases "get_str t0")
      case (Some label)
      define name where "name = (case ts of [] \<Rightarrow> '''' | t1 # _ \<Rightarrow> (case get_sym t1 of None \<Rightarrow> '''' | Some s \<Rightarrow> s))"
      have pl: "sw_plumbing S evt \<longleftrightarrow>
          label = ''SoroswapFactory'' \<and> name \<in> factoryEventNames \<or> label = ''SoroswapRouter'' \<and> name \<in> routerEventNames"
        using Some vocab_no_empty unfolding p
        by (simp add: sw_plumbing_topics_def name_def split: list.splits option.splits)
      have cl: "sw_classifyEvent S a evt =
          (if label = ''SoroswapPair'' then
             (if name \<in> pairActivityVocabulary then (Some (sw_pairActivity S a evt name data), None)
              else (None, Some (sw_quarantine a evt ''soroswap_unknown_pair_event'')))
           else if sw_plumbing S evt then (None, None)
           else (None, Some (sw_quarantine a evt (if label = ''SoroswapFactory'' then ''soroswap_unknown_factory_event''
              else if label = ''SoroswapRouter'' then ''soroswap_unknown_router_event''
              else ''soroswap_unknown_event_label''))))"
        using assms topics Some unfolding pl
        by (simp add: sw_classifyEvent_def name_def [symmetric])
      have "\<not> sw_plumbing S evt" if "label = ''SoroswapPair''" using that pl by simp
      then show ?thesis using cl activity silent quarantine by (auto split: if_splits)
    next
      case None
      then show ?thesis using assms topics p
        by (cases "get_sym t0")
          (auto simp: sw_classifyEvent_def sw_plumbing_topics_def split: if_splits intro: silent quarantine)
    qed
  qed
qed

lemma sw_transform_activities:
  "set (to_Activities (sw_Transform S a i)) = {act. \<exists>evt\<in>set (ti_Events i). fst (sw_classifyEvent S a evt) = Some act}"
  by (auto simp: sw_Transform_def Let_def in_map_filter)

lemma sw_transform_quarantine:
  "snd (sw_classifyEvent S a evt) = Some q \<Longrightarrow> evt \<in> set (ti_Events i) \<Longrightarrow> q \<in> set (to_Quarantine (sw_Transform S a i))"
  by (auto simp: sw_Transform_def Let_def in_map_filter)

lemma sw_activity_of_event:
  "ac_TxHash (sw_pairActivity S a evt name data) = ev_TxHash evt"
  "ac_EventIndex (sw_pairActivity S a evt name data) = ev_EventIndex evt"
  "ac_ContractID (sw_pairActivity S a evt name data) = ev_ContractID evt"
  "ac_ActivityType (sw_pairActivity S a evt name data) = name"
  "ev_ContractID evt \<noteq> '''' \<Longrightarrow> ac_Address (sw_pairActivity S a evt name data) \<noteq> ''''"
  by (simp_all add: sw_pairActivity_def Let_def)

lemma sw_quarantine_of_event:
  "qe_RawEvent (sw_quarantine a evt reason) = ev_RawEvent evt"
  "qe_TxHash (sw_quarantine a evt reason) = ev_TxHash evt"
  "qe_EventIndex (sw_quarantine a evt reason) = ev_EventIndex evt"
  "qe_AdapterID (sw_quarantine a evt reason) = sw_ID a"
  by (simp_all add: sw_quarantine_def)

text \<open>
  Quarantine, don't drop: an event of an owned contract that is not protocol plumbing leaves
  the transform either as an activity under its exact on-chain name or as a quarantine entry
  that carries its raw bytes.
\<close>

theorem sw_transform_keeps_events:
  assumes "evt \<in> set (ti_Events i)" and "sw_OwnsContract a (ev_ContractID evt)" and "\<not> sw_plumbing S evt"
  shows "(\<exists>act\<in>set (to_Activities (sw_Transform S a i)).
      ac_TxHash act = ev_TxHash evt \<and> ac_EventIndex act = ev_EventIndex evt \<and>
      ac_ContractID act = ev_ContractID evt \<and> ac_ActivityType act \<in> pairActivityVocabulary) \<or>
    (\<exists>q\<in>set (to_Quarantine (sw_Transform S a i)). qe_RawEvent q = ev_RawEvent evt \<and>
      qe_TxHash q = ev_TxHash evt \<and> qe_EventIndex q = ev_EventIndex evt \<and> qe_AdapterID q = sw_ID a)"
  using assms(2)
proof (cases rule: sw_classify_cases [where S = S])
  case (activity name data)
  then show ?thesis using assms(1)
    by (intro disjI1 bexI [of _ "sw_pairActivity S a evt name data"])
      (auto simp: sw_activity_of_event sw_transform_activities intro!: bexI [of _ evt])
next
  case silent
  then show ?thesis using assms(3) by simp
next
  case (quarantine reason)
  then show ?thesis using assms(1)
    by (intro disjI2 bexI [of _ "sw_quarantine a evt reason"])
      (auto simp: sw_quarantine_of_event intro: sw_transform_quarantine [of S a evt])
qed

text \<open>Conversely, every activity row comes from a non-plumbing event of an owned contract.\<close>

lemma sw_transform_activity_owned:
  "act \<in> set (to_Activities (sw_Transform S a i)) \<Longrightarrow>
     \<exists>evt\<in>set (ti_Events i). sw_OwnsContract a (ev_ContractID evt) \<and> \<not> sw_plumbing S evt \<and>
       ac_ContractID act = ev_ContractID evt"
proof -
  assume "act \<in> set (to_Activities (sw_Transform S a i))"
  then obtain evt where evt: "evt \<in> set (ti_Events i)" "fst (sw_classifyEvent S a evt) = Some act"
    by (auto simp: sw_transform_activities)
  then have o: "sw_OwnsContract a (ev_ContractID evt)"
    by (auto simp: sw_classifyEvent_def split: if_splits)
  from o show ?thesis
  proof (cases rule: sw_classify_cases [where S = S])
    case (activity name data)
    have "\<not> sw_plumbing S evt"
    proof
      assume "sw_plumbing S evt"
      with activity evt o show False
        by (cases rule: sw_classify_cases [where S = S, OF o])
          (auto simp: sw_classifyEvent_def sw_plumbing_def sw_plumbing_topics_def
            split: option.splits list.splits if_splits)
    qed
    then show ?thesis using activity evt o by (auto simp: sw_activity_of_event)
  qed (use evt in simp_all)
qed

section \<open>Closing a position, from the ledger to the rows\<close>

lemma sw_step_removed:
  assumes "cd_ContractID c \<in> swa_pairs a" and "cd_ContractID c \<notin> swa_assets a"
    and "cd_ChangeType c = ''Removed''" and "decodeVal S (cd_KeyXDR c) = Some key"
    and "balanceHolder S key \<noteq> ''''"
  shows "sw_step S a c w = sw_tombstonePosition (cd_ContractID c) (balanceHolder S key) w"
  using assms by (cases "cd_ValueXDR c") (simp_all add: sw_step_def sw_OwnsContract_def Let_def)

lemma sw_found_frame:
  "swa_cfg (sw_found S a cs) = swa_cfg a" "swa_assets (sw_found S a cs) = swa_assets a"
  "swa_pairs a \<subseteq> swa_pairs (sw_found S a cs)"
  by (simp_all add: sw_found_def sw_discover_run)

lemma sw_closed_rows:
  assumes "po_SharesRaw pos = ''0''" and "po_HadShares pos" and "t \<in> set (ps_Tokens pool)"
  shows "Inr (sw_component a (stableID [sw_Protocol a, po_Address pos, po_PoolContractID pos]) pos (tr_AssetID t) ''0'' ''0'' i True)
    \<in> set (sw_position_rows a i pool pos)"
  using assms by (simp add: sw_position_rows_def Let_def)

lemma sw_transform_rows:
  assumes "ti_State i = Some s" and "pos \<in> set (ls_AMMPositions s)" and "pool \<in> set (ls_AMMPools s)"
    and "distinct (map ps_ContractID (ls_AMMPools s))" and "ps_Protocol pool = sw_Protocol a"
    and "ps_ContractID pool = po_PoolContractID pos" and "Inr row \<in> set (sw_position_rows a i pool pos)"
  shows "row \<in> set (to_AMMComponents (sw_Transform S a i))"
proof -
  define mine where "mine = filter (\<lambda>p. ps_Protocol p = sw_Protocol a) (ls_AMMPools s)"
  have "distinct (map ps_ContractID mine)" using assms(4) by (simp add: mine_def distinct_map_filter)
  moreover have "pool \<in> set mine" using assms by (simp add: mine_def)
  ultimately have "gm_get (gm.load ps_ContractID (\<lambda>p. p) mine []) (po_PoolContractID pos) = Some pool"
    using gm.get_load_in [of ps_ContractID mine pool "\<lambda>p. p"] assms(6) by simp
  then show ?thesis using assms(1,2,7)
    by (auto simp: sw_Transform_def Let_def mine_def [symmetric] in_rights intro!: bexI [of _ pos])
qed

text \<open>
  C34: A closed position surfaces as explicit zeros: when a ledger ends with the removal of a
  holder's Balance entry, and the holder had shares before it, the next transform writes for
  every token of the pair a row of that holder with amount and shares 0, marked closed.
\<close>

theorem sw_removal_closes:
  fixes S a s cs c i
  defines "d \<equiv> sw_DecodeState S a (Some s) (cs @ [c])"
  assumes "cd_ContractID c \<in> swa_pairs a" and "cd_ContractID c \<notin> swa_assets a"
    and "cd_ChangeType c = ''Removed''" and "decodeVal S (cd_KeyXDR c) = Some key"
    and "balanceHolder S key = h" and "h \<noteq> ''''"
    and "distinct (map sw_positionKey (ls_AMMPositions s))"
    and "sw_position_in s (cd_ContractID c) h = Some p" and "po_HadShares p"
    and "pool \<in> set (ls_AMMPools (snd d))" and "ps_ContractID pool = cd_ContractID c"
    and "ps_Protocol pool = sw_Protocol a" and "t \<in> set (ps_Tokens pool)"
  shows "\<exists>row\<in>set (to_AMMComponents (sw_Transform S (fst d) (i\<lparr>ti_State := Some (snd d)\<rparr>))).
     pc_Address row = h \<and> pc_PoolContractID row = cd_ContractID c \<and> pc_AssetID row = tr_AssetID t \<and>
     pc_AmountRaw row = ''0'' \<and> pc_ShareAmountRaw row = ''0'' \<and> pc_Metadata row ''closed'' = Some ''true''"
proof -
  let ?k = "sw_key (cd_ContractID c) h"
  let ?a = "sw_found S a (cs @ [c])"
  define w where "w = run (sw_step S ?a) cs (sw_start s)"
  define pos where "pos = zero_amm_position_state\<lparr>po_Address := h, po_PoolContractID := cd_ContractID c,
    po_SharesRaw := ''0'', po_HadShares := True\<rparr>"
  have "\<exists>p. gm_get (sww_positions w) ?k = Some p \<and> po_HadShares p"
    unfolding w_def by (rule sw_history.inv_run) (simp add: sw_position_in_prior assms)
  moreover have "sw_result S a (Some s) (cs @ [c]) = sw_tombstonePosition (cd_ContractID c) h w"
    using assms sw_found_frame [where S = S and a = a and cs = "cs @ [c]"]
    by (auto simp: sw_result_def run_append w_def sw_step_removed)
  ultimately have "sw_position_in (snd d) (cd_ContractID c) h = Some pos"
    unfolding d_def sw_position_in_decode by (auto simp: sw_positions_tombstone gm.get_upd pos_def)
  then have pos: "pos \<in> set (ls_AMMPositions (snd d))"
    using find_SomeD by (fastforce simp: sw_position_in_def)
  have P: "sw_Protocol (fst d) = sw_Protocol a"
    unfolding d_def
    by (simp add: sw_DecodeState_def Let_def sw_Protocol_def sw_found_frame sw_found_def [symmetric])
  have "distinct (map ps_ContractID (ls_AMMPools (snd d)))"
    using sw_decode_sorted(1) unfolding d_def sorted_by_def by blast
  then have "sw_component (fst d) (stableID [sw_Protocol (fst d), h, cd_ContractID c]) pos (tr_AssetID t) ''0'' ''0''
      (i\<lparr>ti_State := Some (snd d)\<rparr>) True \<in> set (to_AMMComponents (sw_Transform S (fst d) (i\<lparr>ti_State := Some (snd d)\<rparr>)))"
    using assms P pos sw_closed_rows [where pos = pos and t = t and pool = pool and a = "fst d" and i = "i\<lparr>ti_State := Some (snd d)\<rparr>"]
    by (intro sw_transform_rows [where pos = pos and pool = pool and s = "snd d"]) (simp_all add: pos_def)
  then show ?thesis
    by (rule bexI [rotated]) (simp add: sw_component_def pos_def)
qed

section \<open>Properties of the arithmetic\<close>

lemma proRata_ok:
  assumes "parseUint shares = Some n" "parseUint reserve = Some r" "parseUint tot = Some t" "t \<noteq> 0"
  shows "proRata shares reserve tot = Inr (show_int (n * r div t))"
proof -
  have "0 \<le> n" "0 \<le> r" "0 \<le> t" using assms(1-3) by (auto simp: parseUint_def split: option.splits if_splits)
  then show ?thesis using assms by (simp add: proRata_def)
qed

text \<open>
  C35: LP principal conserves the reserve: for holders whose shares add up to at most the supply,
  the decomposition succeeds for each of them, no amount is negative, and the amounts together
  never exceed the pool's reserve of the token.
\<close>

theorem proRata_conserves:
  assumes "list_all2 (\<lambda>s n. parseUint s = Some n) shares ns"
    and "parseUint reserve = Some r" and "parseUint tot = Some t" and "t \<noteq> 0" and "sum_list ns \<le> t"
  shows "\<exists>ms. list_all2 (\<lambda>s m. proRata s reserve tot = Inr (show_int m)) shares ms
     \<and> (\<forall>m\<in>set ms. 0 \<le> m) \<and> sum_list ms \<le> r"
proof -
  have rt: "0 \<le> r" "0 < t" using assms(2-4) by (auto simp: parseUint_def split: option.splits if_splits)
  have ns: "0 \<le> n" if n: "n \<in> set ns" for n
  proof -
    obtain k where "k < length ns" "n = ns ! k" using n unfolding in_set_conv_nth by blast
    then have "parseUint (shares ! k) = Some n" using list_all2_nthD2 [OF assms(1)] by simp
    then show ?thesis by (auto simp: parseUint_def split: option.splits if_splits)
  qed
  have "list_all2 (\<lambda>s m. proRata s reserve tot = Inr (show_int m)) shares (map (\<lambda>n. n * r div t) ns)"
    using assms(1) by (auto simp: list_all2_conv_all_nth intro!: proRata_ok assms(2-4))
  moreover have "0 \<le> m" if "m \<in> set (map (\<lambda>n. n * r div t) ns)" for m
    using that ns rt by (auto simp: pos_imp_zdiv_nonneg_iff)
  ultimately show ?thesis using shares_conserve [OF rt(2) rt(1) assms(5)] by blast
qed

text \<open>
  128-bit amounts survive decoding: every signed 128-bit integer, sent as the high and low
  halves of an i128 value, is rendered as its own decimal numeral, and reading the numeral back
  gives the integer.
\<close>

theorem i128String_roundtrip:
  assumes "- (2 ^ 127) \<le> n" and "n < 2 ^ 127"
  shows "i128String (ScI128 (word_of_int (n div 2 ^ 64)) (word_of_int n)) = show_int n \<and>
     set_string (i128String (ScI128 (word_of_int (n div 2 ^ 64)) (word_of_int n))) = Some n"
  using i128_value_split [OF assms] by (simp add: int128String_def newBig_i128)

section \<open>Examples\<close>

text \<open>
  A pair \<open>P\<close> with one decoded token, a holder (account key \<open>h\<close>) with five shares, and the removal
  of the holder's Balance entry.
\<close>

definition sw_ex_sdk :: sdk where
  "sw_ex_sdk = example_sdk
     [(''a'', ScVec (Some [ScSym ''Balance'', ScAddress (AddrAccount ''h'')])),
      (''b'', ScVec (Some [ScSym ''Balance'', ScAddress (AddrAccount ''z'')]))]
     [(''e'', Some ([ScStr ''SoroswapPair'', ScSym ''sync''], ScMap (Some [])))]"

definition sw_ex_adapter :: sw_adapter where
  "sw_ex_adapter = \<lparr>swa_cfg = sw_DefaultConfig, swa_factories = {''F''}, swa_routers = {},
     swa_pairs = {''P''}, swa_assets = {}, swa_dirty = []\<rparr>"

definition sw_ex_pool :: amm_pool_state where
  "sw_ex_pool = zero_amm_pool_state\<lparr>ps_Protocol := ''soroswap'', ps_ContractID := ''P'',
     ps_Tokens := [zero_amm_token_reserve\<lparr>tr_AssetID := ''X'', tr_ReserveRaw := ''10''\<rparr>],
     ps_TotalSharesRaw := ''5''\<rparr>"

definition sw_ex_position :: amm_position_state where
  "sw_ex_position = zero_amm_position_state\<lparr>po_Address := ''G68'', po_PoolContractID := ''P'',
     po_SharesRaw := ''5'', po_HadShares := True\<rparr>"

definition sw_ex_state :: ledger_state where
  "sw_ex_state = zero_ledger_state\<lparr>ls_AMMPools := [sw_ex_pool], ls_AMMPositions := [sw_ex_position]\<rparr>"

definition sw_ex_removed :: contract_data_change where
  "sw_ex_removed = zero_contract_data_change\<lparr>cd_ContractID := ''P'', cd_KeyXDR := ''YQ=='', cd_ChangeType := ''Removed''\<rparr>"

definition sw_ex_other :: contract_data_change where
  "sw_ex_other = zero_contract_data_change\<lparr>cd_ContractID := ''P'', cd_KeyXDR := ''Yg=='', cd_ChangeType := ''Removed''\<rparr>"

definition sw_ex_event :: raw_event_envelope where
  "sw_ex_event = zero_raw_event_envelope\<lparr>ev_ContractID := ''P'', ev_RawEvent := ''e''\<rparr>"

definition sw_ex_input :: transform_input where
  "sw_ex_input = zero_transform_input\<lparr>ti_Events := [sw_ex_event]\<rparr>"

lemma sw_ex_bytes: "b64_decode ''YQ=='' = Some ''a''" "b64_decode ''Yg=='' = Some ''b''"
  by code_simp+

lemma sw_ex_holders: "hex_encode ''h'' = ''68''" "hex_encode ''z'' = ''7a''"
  by code_simp+

lemma sw_ex_keys:
  "decodeVal sw_ex_sdk (cd_KeyXDR sw_ex_removed) = Some (ScVec (Some [ScSym ''Balance'', ScAddress (AddrAccount ''h'')]))"
  "decodeVal sw_ex_sdk (cd_KeyXDR sw_ex_other) = Some (ScVec (Some [ScSym ''Balance'', ScAddress (AddrAccount ''z'')]))"
  by (simp_all add: decodeVal_def sw_ex_removed_def sw_ex_other_def sw_ex_bytes sw_ex_sdk_def example_sdk_def)

lemma sw_ex_balance:
  "balanceHolder sw_ex_sdk (ScVec (Some [ScSym ''Balance'', ScAddress (AddrAccount ''h'')])) = ''G68''"
  "balanceHolder sw_ex_sdk (ScVec (Some [ScSym ''Balance'', ScAddress (AddrAccount ''z'')])) = ''G7a''"
  by (simp_all add: balanceHolder_def sw_ex_sdk_def example_sdk_def sw_ex_holders)

lemma sw_ex_distinct: "distinct (map sw_positionKey (ls_AMMPositions sw_ex_state))"
  by (simp add: sw_ex_state_def)

lemma sw_ex_found: "sw_position_in sw_ex_state ''P'' ''G68'' = Some sw_ex_position"
  by (simp add: sw_position_in_def sw_ex_state_def sw_ex_position_def sw_positionKey_def sw_key_def)

lemma sw_ex_fields:
  "cd_ContractID sw_ex_removed = ''P''" "cd_ChangeType sw_ex_removed = ''Removed''"
  "swa_pairs sw_ex_adapter = {''P''}" "swa_assets sw_ex_adapter = {}" "swa_factories sw_ex_adapter = {''F''}"
  "sw_Protocol sw_ex_adapter = ''soroswap''"
  "ps_ContractID sw_ex_pool = ''P''" "ps_Protocol sw_ex_pool = ''soroswap''" "po_HadShares sw_ex_position"
  by (simp_all add: sw_ex_removed_def sw_ex_adapter_def sw_ex_pool_def sw_ex_position_def sw_Protocol_def
      sw_DefaultConfig_def)

lemma sw_ex_pools: "sw_ex_pool \<in> set (ls_AMMPools (snd (sw_DecodeState sw_ex_sdk sw_ex_adapter (Some sw_ex_state) ([] @ [sw_ex_removed]))))"
proof -
  have f: "sw_found sw_ex_sdk sw_ex_adapter [sw_ex_removed] = sw_ex_adapter\<lparr>swa_dirty := []\<rparr>"
    by (simp add: sw_found_def sw_discover_def sw_ex_fields)
  have "sw_step sw_ex_sdk (sw_ex_adapter\<lparr>swa_dirty := []\<rparr>) sw_ex_removed w = sw_tombstonePosition ''P'' ''G68'' w" for w
    using sw_step_removed [of sw_ex_removed "sw_ex_adapter\<lparr>swa_dirty := []\<rparr>", OF _ _ _ sw_ex_keys(1)]
    by (simp add: sw_ex_fields sw_ex_balance)
  moreover have "sww_pools (sw_start sw_ex_state) = [(''P'', sw_ex_pool)]"
    by (simp add: sw_start_def sw_ex_state_def sw_ex_fields gm_set_def)
  ultimately show ?thesis
    by (simp add: sw_decode_state sw_result_def sw_finish_def f sw_tombstonePosition_def Let_def)
qed

theorem sw_decode_canonical_witness:
  "ls_AMMPools (snd (sw_DecodeState sw_ex_sdk sw_ex_adapter (Some sw_ex_state) [sw_ex_removed])) =
     sort_key ps_ContractID (rev (map snd (sww_pools (sw_result sw_ex_sdk sw_ex_adapter (Some sw_ex_state) [sw_ex_removed]))))"
  using sw_decode_canonical [of sw_ex_sdk sw_ex_adapter "Some sw_ex_state" "[sw_ex_removed]"] by (metis mset_rev)

theorem sw_decode_frame_witness:
  "sw_position_in (snd (sw_DecodeState sw_ex_sdk sw_ex_adapter (Some sw_ex_state) [sw_ex_other])) ''P'' ''G68''
     = Some sw_ex_position"
proof -
  have "strkey_ok sw_ex_sdk" by (simp add: sw_ex_sdk_def example_sdk_ok)
  moreover have "CHR ''|'' \<notin> set ''G68''" by simp
  moreover have "\<forall>c\<in>set [sw_ex_other]. \<not> sw_touches sw_ex_sdk ''P'' ''G68'' c"
    by (simp add: sw_touches_def sw_ex_keys sw_ex_balance)
  ultimately show ?thesis
    using sw_decode_frame [of sw_ex_sdk "''G68''" sw_ex_state "[sw_ex_other]" "''P''" sw_ex_adapter]
    by (simp only: sw_ex_distinct sw_ex_found simp_thms)
qed

theorem sw_decode_history_witness:
  "\<exists>p. sw_position_in (snd (sw_DecodeState sw_ex_sdk sw_ex_adapter (Some sw_ex_state) [sw_ex_removed])) ''P'' ''G68''
     = Some p \<and> po_HadShares p"
proof -
  have "\<forall>p\<in>set (ls_AMMPositions sw_ex_state). sw_held p"
    by (simp add: sw_ex_state_def sw_ex_position_def sw_held_def)
  from sw_decode_history [OF this sw_ex_distinct, of sw_ex_sdk sw_ex_adapter "[sw_ex_removed]"]
  have "(\<exists>p. sw_position_in sw_ex_state ''P'' ''G68'' = Some p \<and> po_HadShares p) \<longrightarrow>
    (\<exists>p. sw_position_in (snd (sw_DecodeState sw_ex_sdk sw_ex_adapter (Some sw_ex_state) [sw_ex_removed])) ''P'' ''G68''
     = Some p \<and> po_HadShares p)" by blast
  then show ?thesis using sw_ex_found sw_ex_fields(9) by blast
qed

theorem sw_transform_keeps_events_witness:
  "\<exists>act\<in>set (to_Activities (sw_Transform sw_ex_sdk sw_ex_adapter sw_ex_input)). ac_ActivityType act \<in> pairActivityVocabulary"
proof -
  have o: "sw_OwnsContract sw_ex_adapter (ev_ContractID sw_ex_event)"
    by (simp add: sw_OwnsContract_def sw_ex_adapter_def sw_ex_event_def)
  have p: "\<not> sw_plumbing sw_ex_sdk sw_ex_event"
    by (simp add: sw_plumbing_def sw_plumbing_topics_def sw_ex_sdk_def example_sdk_def sw_ex_event_def)
  have m: "sw_ex_event \<in> set (ti_Events sw_ex_input)" by (simp add: sw_ex_input_def)
  have u: "sdk_unmarshal_event sw_ex_sdk (ev_RawEvent sw_ex_event) = Some (Some ([ScStr ''SoroswapPair'', ScSym ''sync''], ScMap (Some [])))"
    by (simp add: sw_ex_sdk_def example_sdk_def sw_ex_event_def)
  have "snd (sw_classifyEvent sw_ex_sdk sw_ex_adapter sw_ex_event) = None"
    using o by (simp add: sw_classifyEvent_def u pairActivityVocabulary_def Let_def)
  then have "to_Quarantine (sw_Transform sw_ex_sdk sw_ex_adapter sw_ex_input) = []"
    by (simp add: sw_Transform_def Let_def sw_ex_input_def zero_transform_input_def lefts_def List.map_filter_def)
  with sw_transform_keeps_events [OF m o p] show ?thesis by auto
qed

theorem sw_removal_closes_witness:
  "\<exists>row\<in>set (to_AMMComponents (sw_Transform sw_ex_sdk
      (fst (sw_DecodeState sw_ex_sdk sw_ex_adapter (Some sw_ex_state) ([] @ [sw_ex_removed])))
      (zero_transform_input\<lparr>ti_State := Some (snd (sw_DecodeState sw_ex_sdk sw_ex_adapter (Some sw_ex_state) ([] @ [sw_ex_removed])))\<rparr>))).
     pc_Address row = ''G68'' \<and> pc_AssetID row = ''X'' \<and> pc_AmountRaw row = ''0''"
proof -
  have t: "zero_amm_token_reserve\<lparr>tr_AssetID := ''X'', tr_ReserveRaw := ''10''\<rparr> \<in> set (ps_Tokens sw_ex_pool)"
    by (simp add: sw_ex_pool_def)
  have f: "sw_position_in sw_ex_state (cd_ContractID sw_ex_removed) ''G68'' = Some sw_ex_position"
    using sw_ex_found by (simp add: sw_ex_fields)
  show ?thesis
    using sw_removal_closes [OF _ _ _ sw_ex_keys(1) sw_ex_balance(1) _ sw_ex_distinct f _ sw_ex_pools _ _ t, of zero_transform_input]
    by (simp add: sw_ex_fields) blast
qed

theorem proRata_conserves_witness:
  "\<exists>ms. list_all2 (\<lambda>s m. proRata s ''100'' ''3'' = Inr (show_int m)) [''1'', ''2''] ms \<and> sum_list ms \<le> 100"
proof -
  have p: "parseUint ''1'' = Some 1" "parseUint ''2'' = Some 2" "parseUint ''3'' = Some 3" "parseUint ''100'' = Some 100"
    by code_simp+
  show ?thesis
    using proRata_conserves [of "[''1'', ''2'']" "[1, 2]" "''100''" 100 "''3''" 3] p by auto
qed

theorem i128String_roundtrip_witness:
  "set_string (i128String (ScI128 (word_of_int (- 5 div 2 ^ 64)) (word_of_int (- 5)))) = Some (- 5)"
  using i128String_roundtrip [of "- 5"] by simp

end
