(* ===== verification/Fxdao.thy ===== *)
theory Fxdao
  imports Bindings Stellar
begin

text \<open>
  The FxDAO adapter (package \<open>fxdao\<close>): configuration and ownership (\<open>adapter.go\<close>), the vault
  decoder (\<open>state.go\<close>) and the snapshot rows (\<open>transform.go\<close>).  The vaults contract emits no
  events, so the state comes from contract data alone and every event of an owned contract is
  quarantined.
\<close>

section \<open>Configuration and ownership (adapter.go)\<close>

record fx_config =
  fxc_AdapterID :: string
  fxc_Protocol :: string
  fxc_VaultsContracts :: "string set"

definition fx_DefaultConfig :: fx_config where
  "fx_DefaultConfig = \<lparr>fxc_AdapterID = ''fxdao'', fxc_Protocol = ''fxdao'', fxc_VaultsContracts = {}\<rparr>"

record dirty_vault =
  dv_ContractID :: string
  dv_Account :: string
  dv_Denomination :: string
  dv_Kind :: dirty_kind

record fx_adapter =
  fxa_cfg :: fx_config
  fxa_contracts :: "string set"
  fxa_dirty :: "dirty_vault list"

definition fx_NewWithConfig :: "fx_config \<Rightarrow> string + fx_adapter" where
  "fx_NewWithConfig config =
     (let cfg = fx_DefaultConfig;
          cfg = (if fxc_AdapterID config \<noteq> '''' then cfg\<lparr>fxc_AdapterID := fxc_AdapterID config\<rparr> else cfg);
          cfg = (if fxc_Protocol config \<noteq> '''' then cfg\<lparr>fxc_Protocol := fxc_Protocol config\<rparr> else cfg);
          cfg = cfg\<lparr>fxc_VaultsContracts := Set.filter (\<lambda>i. trim_space i \<noteq> '''') (fxc_VaultsContracts config)\<rparr>
      in if fxc_AdapterID cfg = '''' \<or> fxc_Protocol cfg = ''''
         then Inl ''fxdao: adapter id and protocol are required''
         else Inr \<lparr>fxa_cfg = cfg, fxa_contracts = fxc_VaultsContracts cfg, fxa_dirty = []\<rparr>)"

definition fx_ID :: "fx_adapter \<Rightarrow> string" where
  "fx_ID a = fxc_AdapterID (fxa_cfg a)"

definition fx_Protocol :: "fx_adapter \<Rightarrow> string" where
  "fx_Protocol a = fxc_Protocol (fxa_cfg a)"

definition fx_OwnsContract :: "fx_adapter \<Rightarrow> string \<Rightarrow> bool" where
  "fx_OwnsContract a i \<longleftrightarrow> i \<in> fxa_contracts a"

definition fx_RegisterContracts :: "string list \<Rightarrow> fx_adapter \<Rightarrow> fx_adapter" where
  "fx_RegisterContracts ids a =
     foldl (\<lambda>a i. if trim_space i \<noteq> '''' then a\<lparr>fxa_contracts := insert i (fxa_contracts a)\<rparr> else a) a ids"

definition fx_LastDirtyVaults :: "fx_adapter \<Rightarrow> dirty_vault list" where
  "fx_LastDirtyVaults a = fxa_dirty a"

definition fx_StateStats :: "fx_adapter \<Rightarrow> ledger_state option \<Rightarrow> state_stats" where
  "fx_StateStats a s =
     (case s of
        None \<Rightarrow> zero_state_stats
      | Some s \<Rightarrow>
          (let mine = filter (\<lambda>v. vs_Protocol v = fx_Protocol a) (ls_Vaults s) in
           zero_state_stats\<lparr>
             ss_Pools := int (card (vs_ContractID ` set mine)),
             ss_Users := int (card (vs_Account ` {v \<in> set mine. \<not> vs_Closed v}))\<rparr>))"

definition dv_key :: "dirty_vault \<Rightarrow> string \<times> string \<times> string" where
  "dv_key d = (dv_ContractID d, dv_Account d, dv_Denomination d)"

definition sortDirty :: "dirty_vault list \<Rightarrow> dirty_vault list" where
  "sortDirty ds = sort_key dv_key ds"

section \<open>Decoding values (state.go)\<close>

fun uintString :: "scval \<Rightarrow> string" where
  "uintString (ScU128 hi lo) = newBig hi lo False"
| "uintString (ScU64 u) = show_int (uint u)"
| "uintString (ScU32 u) = show_int (uint u)"
| "uintString _ = ''''"

definition fx_fields :: "scval \<Rightarrow> string \<rightharpoonup> scval" where
  "fx_fields v =
     (case get_map v of
        None \<Rightarrow> Map.empty
      | Some es \<Rightarrow> foldl (\<lambda>m (k, x). case get_sym k of None \<Rightarrow> m | Some s \<Rightarrow> m(s \<mapsto> x)) Map.empty es)"

definition vaultKey :: "string \<Rightarrow> string \<Rightarrow> string \<Rightarrow> string" where
  "vaultKey contractID account denom = contractID @ ''|'' @ account @ ''|'' @ denom"

definition vaultEntryKey :: "sdk \<Rightarrow> scval \<Rightarrow> (string \<times> string) option" where
  "vaultEntryKey S key =
     (case get_vec key of
        Some [x, y] \<Rightarrow>
          if get_sym x \<noteq> Some ''Vault'' then None
          else (case get_vec y of
              Some [u, v] \<Rightarrow>
                (let account = addr S u in
                 case get_sym v of
                   None \<Rightarrow> None
                 | Some s \<Rightarrow> if account = '''' then None else Some (account, s))
            | _ \<Rightarrow> None)
      | _ \<Rightarrow> None)"

definition vaultIndexEntryKey :: "sdk \<Rightarrow> scval \<Rightarrow> (string \<times> string) option" where
  "vaultIndexEntryKey S key =
     (case get_vec key of
        Some [x, y] \<Rightarrow>
          if get_sym x \<noteq> Some ''VaultIndex'' then None
          else (let f = fx_fields y; account = addr S (field f ''user'') in
                case get_sym (field f ''denomination'') of
                  None \<Rightarrow> None
                | Some s \<Rightarrow> if account = '''' then None else Some (account, s))
      | _ \<Rightarrow> None)"

definition vaultsInfoEntryKey :: "scval \<Rightarrow> string option" where
  "vaultsInfoEntryKey key =
     (case get_vec key of
        Some [x, y] \<Rightarrow> if get_sym x \<noteq> Some ''VaultsInfo'' then None else get_sym y
      | _ \<Rightarrow> None)"

section \<open>DecodeState (state.go)\<close>

record fx_work =
  fxw_vaults :: "(string, vault_state) gmap"
  fxw_infos :: "(string, vaults_info_state) gmap"
  fxw_dirty :: "dirty_vault list"

definition vault_key_of :: "vault_state \<Rightarrow> string" where
  "vault_key_of v = vaultKey (vs_ContractID v) (vs_Account v) (vs_Denomination v)"

definition info_key_of :: "vaults_info_state \<Rightarrow> string" where
  "info_key_of v = vi_ContractID v @ ''|'' @ vi_Denomination v"

definition fx_old :: "string \<Rightarrow> fx_work \<Rightarrow> vault_state" where
  "fx_old k w = (case gm_get (fxw_vaults w) k of None \<Rightarrow> zero_vault_state | Some v \<Rightarrow> v)"

text \<open>A genuine removal closes the vault: the amounts are gone, the vault is known to have existed.\<close>

definition fx_close :: "fx_adapter \<Rightarrow> string \<Rightarrow> string \<times> string \<Rightarrow> fx_work \<Rightarrow> fx_work" where
  "fx_close a cid who w =
     (case who of (account, denom) \<Rightarrow>
       let k = vaultKey cid account denom;
           v = (fx_old k w)\<lparr>vs_Protocol := fx_Protocol a, vs_ContractID := cid, vs_Account := account,
             vs_Denomination := denom, vs_HadVault := True, vs_Closed := True, vs_Restored := False,
             vs_IndexRaw := '''', vs_CollateralRaw := '''', vs_DebtRaw := ''''\<rparr>
       in w\<lparr>fxw_vaults := gm_set k v (fxw_vaults w),
            fxw_dirty := fxw_dirty w @ [\<lparr>dv_ContractID = cid, dv_Account = account, dv_Denomination = denom,
              dv_Kind = DirtyRemoval\<rparr>]\<rparr>)"

definition fx_info :: "fx_adapter \<Rightarrow> string \<Rightarrow> fx_work \<Rightarrow> scval \<times> scval \<Rightarrow> fx_work" where
  "fx_info a cid w entry =
     (case entry of (k, x) \<Rightarrow> (case vaultsInfoEntryKey k of
        None \<Rightarrow> w
      | Some denom \<Rightarrow>
          (let f = fx_fields x in
           w\<lparr>fxw_infos := gm_set (cid @ ''|'' @ denom) \<lparr>
             vi_Protocol = fx_Protocol a, vi_ContractID = cid, vi_Denomination = denom,
             vi_TotalVaultsRaw = uintString (field f ''total_vaults''),
             vi_TotalDebtRaw = uintString (field f ''total_debt''),
             vi_TotalColRaw = uintString (field f ''total_col''),
             vi_MinColRateRaw = uintString (field f ''min_col_rate''),
             vi_MinDebtCreationRaw = uintString (field f ''min_debt_creation''),
             vi_OpeningColRateRaw = uintString (field f ''opening_col_rate'')\<rparr> (fxw_infos w)\<rparr>)))"

definition fx_write :: "fx_adapter \<Rightarrow> string \<Rightarrow> string \<times> string \<Rightarrow> scval \<Rightarrow> bool \<Rightarrow> fx_work \<Rightarrow> fx_work" where
  "fx_write a cid who val restored w =
     (case who of (account, denom) \<Rightarrow>
       let f = fx_fields val;
           k = vaultKey cid account denom;
           v = (fx_old k w)\<lparr>vs_Protocol := fx_Protocol a, vs_ContractID := cid, vs_Account := account,
             vs_Denomination := denom, vs_IndexRaw := uintString (field f ''index''),
             vs_CollateralRaw := uintString (field f ''total_collateral''),
             vs_DebtRaw := uintString (field f ''total_debt''),
             vs_HadVault := True, vs_Closed := False, vs_Restored := restored\<rparr>
       in w\<lparr>fxw_vaults := gm_set k v (fxw_vaults w),
            fxw_dirty := fxw_dirty w @ [\<lparr>dv_ContractID = cid, dv_Account = account, dv_Denomination = denom,
              dv_Kind = DirtyUpsert\<rparr>]\<rparr>)"

definition fx_step :: "sdk \<Rightarrow> fx_adapter \<Rightarrow> contract_data_change \<Rightarrow> fx_work \<Rightarrow> fx_work" where
  "fx_step S a c w =
     (let cid = cd_ContractID c in
      if \<not> fx_OwnsContract a cid then w
      else case decodeVal S (cd_KeyXDR c) of
        None \<Rightarrow> w
      | Some key \<Rightarrow>
          (case (cd_ValueXDR c, cd_ChangeType c = ''Removed'') of
             (Some vx, False) \<Rightarrow> (case decodeVal S vx of
                None \<Rightarrow> w
              | Some val \<Rightarrow> (case get_instance val of
                  Some (_, storage) \<Rightarrow>
                    (case storage of None \<Rightarrow> w | Some es \<Rightarrow> foldl (fx_info a cid) w es)
                | None \<Rightarrow> (case vaultEntryKey S key of
                    Some who \<Rightarrow> fx_write a cid who val (cd_ChangeType c = ''Restored'') w
                  | None \<Rightarrow> (case vaultIndexEntryKey S key of
                      Some (account, denom) \<Rightarrow> w\<lparr>fxw_dirty := fxw_dirty w @ [\<lparr>dv_ContractID = cid,
                        dv_Account = account, dv_Denomination = denom, dv_Kind = DirtyUpsert\<rparr>]\<rparr>
                    | None \<Rightarrow> w))))
           | (_, removed) \<Rightarrow>
               if \<not> removed then w
               else (case vaultEntryKey S key of None \<Rightarrow> w | Some who \<Rightarrow> fx_close a cid who w)))"

text \<open>
  Runs of signals about one vault collapse into one, which is a removal when any of them is.
  The in-place rewrite of the slice only overwrites entries already read.
\<close>

definition dedupe_step :: "dirty_vault list \<Rightarrow> dirty_vault \<Rightarrow> dirty_vault list" where
  "dedupe_step out d =
     (if out \<noteq> [] \<and> dv_ContractID (last out) = dv_ContractID d
         \<and> dv_Account (last out) = dv_Account d \<and> dv_Denomination (last out) = dv_Denomination d
      then (if dv_Kind d = DirtyRemoval then butlast out @ [(last out)\<lparr>dv_Kind := DirtyRemoval\<rparr>] else out)
      else out @ [d])"

definition dedupeDirty :: "dirty_vault list \<Rightarrow> dirty_vault list" where
  "dedupeDirty ds = foldl dedupe_step [] ds"

definition fx_start :: "ledger_state \<Rightarrow> fx_work" where
  "fx_start s = \<lparr>
     fxw_vaults = gm.load vault_key_of (\<lambda>v. v) (ls_Vaults s) [],
     fxw_infos = gm.load info_key_of (\<lambda>v. v) (ls_VaultsInfo s) [],
     fxw_dirty = []\<rparr>"

definition fx_finish :: "ledger_state \<Rightarrow> fx_work \<Rightarrow> ledger_state" where
  "fx_finish s w = s\<lparr>
     ls_Vaults := sort_key vault_key_of (map snd (fxw_vaults w)),
     ls_VaultsInfo := sort_key info_key_of (map snd (fxw_infos w))\<rparr>"

definition fx_DecodeState ::
  "sdk \<Rightarrow> fx_adapter \<Rightarrow> ledger_state option \<Rightarrow> contract_data_change list \<Rightarrow> fx_adapter \<times> ledger_state" where
  "fx_DecodeState S a prior changes =
     (let next = cloneState prior;
          w = run (fx_step S a) changes (fx_start next)
      in (a\<lparr>fxa_dirty := dedupeDirty (sortDirty (fxw_dirty w))\<rparr>, fx_finish next w))"

section \<open>Transform (transform.go)\<close>

definition fx_vault_row :: "fx_adapter \<Rightarrow> transform_input \<Rightarrow> vault_state \<Rightarrow> vault_row" where
  "fx_vault_row a i v =
     (let status = (if vs_Closed v then ''closed'' else ''active'');
          metadata = (if vs_Restored v then [''restored'' \<mapsto> ''true''] else Map.empty)
      in zero_vault_row\<lparr>
           va_ID := stableID [fx_Protocol a, vs_ContractID v, vs_Account v, vs_Denomination v],
           va_Address := vs_Account v, va_Protocol := fx_Protocol a, va_ContractID := vs_ContractID v,
           va_Denomination := vs_Denomination v, va_VaultIndexRaw := vs_IndexRaw v,
           va_CollateralRaw := vs_CollateralRaw v, va_DebtRaw := vs_DebtRaw v, va_Status := status,
           va_LedgerSeq := ti_LedgerSeq i, va_Timestamp := ti_CloseTime i, va_Metadata := metadata\<rparr>)"

definition fx_quarantine :: "fx_adapter \<Rightarrow> raw_event_envelope \<Rightarrow> quarantine_event" where
  "fx_quarantine a evt = zero_quarantine_event\<lparr>
     qe_ID := stableID [fx_ID a, show_int (ev_LedgerSeq evt), ev_TxHash evt, show_int (ev_EventIndex evt)],
     qe_AdapterID := fx_ID a, qe_LedgerSeq := ev_LedgerSeq evt, qe_TxHash := ev_TxHash evt,
     qe_EventIndex := ev_EventIndex evt, qe_ContractID := ev_ContractID evt,
     qe_Reason := ''fxdao_unexpected_event'', qe_RawEvent := ev_RawEvent evt\<rparr>"

definition fx_Transform :: "fx_adapter \<Rightarrow> transform_input \<Rightarrow> transform_output" where
  "fx_Transform a i =
     (let vaults = (case ti_State i of None \<Rightarrow> [] | Some s \<Rightarrow>
            filter (\<lambda>v. \<not> (vs_Protocol v \<noteq> fx_Protocol a \<or> \<not> vs_HadVault v)) (ls_Vaults s))
      in zero_transform_output\<lparr>
           to_LedgerSeq := ti_LedgerSeq i,
           to_Vaults := sort_key (\<lambda>v. (va_ContractID v, va_Address v, va_Denomination v))
             (map (fx_vault_row a i) vaults),
           to_Quarantine := map (fx_quarantine a) (filter (\<lambda>e. fx_OwnsContract a (ev_ContractID e)) (ti_Events i))\<rparr>)"

section \<open>The decoder's invariant\<close>

definition fx_inv :: "fx_work \<Rightarrow> bool" where
  "fx_inv w \<longleftrightarrow> keyed vault_key_of (fxw_vaults w) \<and> keyed info_key_of (fxw_infos w)"

lemma fx_inv_dirty [simp]: "fx_inv (w\<lparr>fxw_dirty := ds\<rparr>) = fx_inv w"
  by (simp add: fx_inv_def)

lemma fx_close_inv: "fx_inv w \<Longrightarrow> fx_inv (fx_close a cid who w)"
  by (cases who) (auto simp: fx_inv_def fx_close_def Let_def vault_key_of_def)

lemma fx_write_inv: "fx_inv w \<Longrightarrow> fx_inv (fx_write a cid who val r w)"
  by (cases who) (auto simp: fx_inv_def fx_write_def Let_def vault_key_of_def)

lemma fx_info_inv: "fx_inv w \<Longrightarrow> fx_inv (fx_info a cid w e)"
  by (cases e) (auto simp: fx_inv_def fx_info_def Let_def info_key_of_def split: option.splits)

lemma fx_infos_inv: "fx_inv w \<Longrightarrow> fx_inv (foldl (fx_info a cid) w es)"
  by (induction es arbitrary: w) (simp_all add: fx_info_inv)

lemma fx_step_inv: "fx_inv w \<Longrightarrow> fx_inv (fx_step S a c w)"
  by (simp add: fx_step_def Let_def fx_close_inv fx_write_inv fx_infos_inv split: option.splits bool.splits prod.splits)

lemma fx_start_inv: "fx_inv (fx_start s)"
  by (simp add: fx_inv_def fx_start_def keyed_load)

interpretation fx: owned_fold "fx_step S a" fx_inv "\<lambda>w c. fx_OwnsContract a (cd_ContractID c)"
  for S a
  by unfold_locales (simp_all add: fx_step_inv, simp add: fx_step_def Let_def)

section \<open>What a ledger does to a vault\<close>

definition fx_closed :: "fx_adapter \<Rightarrow> string \<Rightarrow> string \<times> string \<Rightarrow> vault_state" where
  "fx_closed a cid who = \<lparr>vs_Protocol = fx_Protocol a, vs_ContractID = cid, vs_Account = fst who,
     vs_Denomination = snd who, vs_IndexRaw = '''', vs_CollateralRaw = '''', vs_DebtRaw = '''',
     vs_HadVault = True, vs_Closed = True, vs_Restored = False\<rparr>"

definition fx_live :: "fx_adapter \<Rightarrow> string \<Rightarrow> string \<times> string \<Rightarrow> scval \<Rightarrow> bool \<Rightarrow> vault_state" where
  "fx_live a cid who val restored = \<lparr>vs_Protocol = fx_Protocol a, vs_ContractID = cid, vs_Account = fst who,
     vs_Denomination = snd who, vs_IndexRaw = uintString (field (fx_fields val) ''index''),
     vs_CollateralRaw = uintString (field (fx_fields val) ''total_collateral''),
     vs_DebtRaw = uintString (field (fx_fields val) ''total_debt''),
     vs_HadVault = True, vs_Closed = False, vs_Restored = restored\<rparr>"

text \<open>The live vault value a change carries, and the vault a change stores, if any.\<close>

definition fx_value :: "sdk \<Rightarrow> contract_data_change \<Rightarrow> scval option" where
  "fx_value S c = (if cd_ChangeType c = ''Removed'' then None
     else case cd_ValueXDR c of None \<Rightarrow> None | Some vx \<Rightarrow> decodeVal S vx)"

definition fx_stored :: "sdk \<Rightarrow> fx_adapter \<Rightarrow> contract_data_change \<Rightarrow> vault_state option" where
  "fx_stored S a c =
     (if \<not> fx_OwnsContract a (cd_ContractID c) then None
      else case decodeVal S (cd_KeyXDR c) of
        None \<Rightarrow> None
      | Some key \<Rightarrow> (case vaultEntryKey S key of
          None \<Rightarrow> None
        | Some who \<Rightarrow>
            if cd_ChangeType c = ''Removed'' then Some (fx_closed a (cd_ContractID c) who)
            else (case fx_value S c of
                None \<Rightarrow> None
              | Some val \<Rightarrow> if get_instance val = None
                  then Some (fx_live a (cd_ContractID c) who val (cd_ChangeType c = ''Restored'')) else None)))"

lemma fx_close_vaults:
  "fxw_vaults (fx_close a cid who w) = gm_set (vault_key_of (fx_closed a cid who)) (fx_closed a cid who) (fxw_vaults w)"
  by (cases who; cases "fx_old (vaultKey cid (fst who) (snd who)) w")
    (simp add: fx_close_def fx_closed_def vault_key_of_def Let_def)

lemma fx_write_vaults:
  "fxw_vaults (fx_write a cid who val r w) =
     gm_set (vault_key_of (fx_live a cid who val r)) (fx_live a cid who val r) (fxw_vaults w)"
  by (cases who; cases "fx_old (vaultKey cid (fst who) (snd who)) w")
    (simp add: fx_write_def fx_live_def vault_key_of_def Let_def)

lemma fx_info_frame [frame]:
  "fxw_vaults (fx_info a cid w e) = fxw_vaults w" "fxw_dirty (fx_info a cid w e) = fxw_dirty w"
  by (simp_all add: fx_info_def Let_def split: prod.splits option.splits)

lemma fx_infos_frame [frame]:
  "fxw_vaults (foldl (fx_info a cid) w es) = fxw_vaults w" "fxw_dirty (foldl (fx_info a cid) w es) = fxw_dirty w"
  by (induction es arbitrary: w) (simp_all add: frame)

lemma fx_step_vaults:
  "fxw_vaults (fx_step S a c w) =
     (case fx_stored S a c of None \<Rightarrow> fxw_vaults w | Some v \<Rightarrow> gm_set (vault_key_of v) v (fxw_vaults w))"
  by (auto simp: fx_step_def fx_stored_def fx_value_def Let_def fx_close_vaults fx_write_vaults frame
      split: option.splits bool.splits prod.splits)

lemma map_filter_Cons:
  "List.map_filter f (x # xs) = (case f x of None \<Rightarrow> List.map_filter f xs | Some y \<Rightarrow> y # List.map_filter f xs)"
  by (simp add: List.map_filter_def split: option.splits)

lemma fx_run_vaults:
  "gm_get (fxw_vaults (run (fx_step S a) cs w)) k =
     (let vs = filter (\<lambda>v. vault_key_of v = k) (List.map_filter (fx_stored S a) cs)
      in if vs = [] then gm_get (fxw_vaults w) k else Some (last vs))"
proof (induction cs arbitrary: w)
  case Nil
  then show ?case by (simp add: List.map_filter_def)
next
  case (Cons c cs)
  then show ?case
    by (cases "fx_stored S a c") (auto simp: map_filter_Cons fx_step_vaults gm.get_upd Let_def)
qed

definition fx_vault_in :: "ledger_state \<Rightarrow> string \<Rightarrow> vault_state option" where
  "fx_vault_in s k = find (\<lambda>v. vault_key_of v = k) (ls_Vaults s)"

lemma fx_vault_in_decode:
  "fx_vault_in (snd (fx_DecodeState S a prior cs)) k =
     gm_get (fxw_vaults (run (fx_step S a) cs (fx_start (cloneState prior)))) k"
  using fx.inv_run [OF fx_start_inv, of S a cs "cloneState prior"]
  by (simp add: fx_vault_in_def fx_DecodeState_def Let_def fx_finish_def fx_inv_def find_output)

text \<open>
  The last write wins: after a ledger the vault under a key is what the ledger's last vault
  write or removal for that key says - a closed vault with its amounts blank, or the decoded
  amounts with the restore marker of that very change - and a vault the ledger does not write
  keeps its decoded state.
\<close>

theorem fx_last_write_wins:
  assumes "distinct (map vault_key_of (ls_Vaults s))"
  shows "fx_vault_in (snd (fx_DecodeState S a (Some s) cs)) k =
     (let vs = filter (\<lambda>v. vault_key_of v = k) (List.map_filter (fx_stored S a) cs)
      in if vs = [] then fx_vault_in s k else Some (last vs))"
proof -
  have "gm_get (fxw_vaults (fx_start s)) k = fx_vault_in s k"
    using assms by (simp add: fx_start_def fx_vault_in_def find_load)
  then show ?thesis unfolding fx_vault_in_decode fx_run_vaults by (simp add: Let_def)
qed

lemma fx_decode_protocol: "fx_Protocol (fst (fx_DecodeState S a prior cs)) = fx_Protocol a"
  by (simp add: fx_DecodeState_def Let_def fx_Protocol_def)

lemma fx_row_frame: "fx_Protocol a = fx_Protocol b \<Longrightarrow> fx_vault_row a i v = fx_vault_row b i v"
  by (simp add: fx_vault_row_def)

lemma fx_stored_cases:
  assumes "fx_stored S a c = Some v"
  obtains (closed) who where "v = fx_closed a (cd_ContractID c) who" "cd_ChangeType c = ''Removed''"
  | (live) who val where "v = fx_live a (cd_ContractID c) who val (cd_ChangeType c = ''Restored'')"
      "cd_ChangeType c \<noteq> ''Removed''" "fx_value S c = Some val"
  using assms by (auto simp: fx_stored_def split: if_splits option.splits)

text \<open>
  C36: From the ledger to the snapshot: the vault a ledger wrote last under a key has a row in
  the next transform. When that write was a removal the row is 'closed' and shows no amounts;
  otherwise the row is 'active' and its index, collateral and debt are the fields of those names
  in the value written. It carries the restored mark exactly when the write was a restore.
\<close>

theorem fx_snapshot_row:
  fixes S a prior cs i k
  defines "d \<equiv> fx_DecodeState S a prior cs"
  assumes "filter (\<lambda>(c, v). vault_key_of v = k) (List.map_filter (\<lambda>c. map_option (Pair c) (fx_stored S a c)) cs)
      = cvs @ [(c, v)]"
  shows "\<exists>row\<in>set (to_Vaults (fx_Transform (fst d) (i\<lparr>ti_State := Some (snd d)\<rparr>))).
     va_Address row = vs_Account v \<and> va_ContractID row = cd_ContractID c \<and> va_Denomination row = vs_Denomination v \<and>
     (va_Status row = ''closed'' \<longleftrightarrow> cd_ChangeType c = ''Removed'') \<and>
     (cd_ChangeType c = ''Removed'' \<longrightarrow> va_VaultIndexRaw row = '''' \<and> va_CollateralRaw row = '''' \<and> va_DebtRaw row = '''') \<and>
     (cd_ChangeType c \<noteq> ''Removed'' \<longrightarrow> va_Status row = ''active'' \<and> (\<exists>val. fx_value S c = Some val \<and>
        va_VaultIndexRaw row = uintString (field (fx_fields val) ''index'') \<and>
        va_CollateralRaw row = uintString (field (fx_fields val) ''total_collateral'') \<and>
        va_DebtRaw row = uintString (field (fx_fields val) ''total_debt''))) \<and>
     (va_Metadata row ''restored'' = Some ''true'' \<longleftrightarrow> cd_ChangeType c = ''Restored'')"
proof -
  have pairs: "map snd (List.map_filter (\<lambda>c. map_option (Pair c) (fx_stored S a c)) xs) = List.map_filter (fx_stored S a) xs"
    for xs
  proof (induction xs)
    case Nil
    then show ?case by (simp add: List.map_filter_def)
  next
    case (Cons x xs)
    then show ?case by (simp add: map_filter_Cons split: option.splits)
  qed
  have "filter (\<lambda>v. vault_key_of v = k) (List.map_filter (fx_stored S a) cs) = map snd (cvs @ [(c, v)])"
    unfolding assms(2) [symmetric] pairs [symmetric] by (simp add: filter_map comp_def split_def)
  then have "fx_vault_in (snd d) k = Some v"
    unfolding d_def fx_vault_in_decode fx_run_vaults by simp
  then have v: "v \<in> set (ls_Vaults (snd d))" using find_SomeD by (fastforce simp: fx_vault_in_def)
  have "(c, v) \<in> set (filter (\<lambda>(c, v). vault_key_of v = k) (List.map_filter (\<lambda>c. map_option (Pair c) (fx_stored S a c)) cs))"
    unfolding assms(2) by simp
  then have "fx_stored S a c = Some v" by (auto simp: in_map_filter)
  then show ?thesis
  proof (cases rule: fx_stored_cases)
    case (closed who)
    then have "fx_vault_row (fst d) (i\<lparr>ti_State := Some (snd d)\<rparr>) v
        \<in> set (to_Vaults (fx_Transform (fst d) (i\<lparr>ti_State := Some (snd d)\<rparr>)))"
      using v by (simp add: fx_Transform_def Let_def fx_closed_def d_def fx_decode_protocol)
    then show ?thesis
      by (rule bexI [rotated]) (use closed in \<open>simp add: fx_vault_row_def fx_closed_def zero_vault_row_def\<close>)
  next
    case (live who val)
    then have "fx_vault_row (fst d) (i\<lparr>ti_State := Some (snd d)\<rparr>) v
        \<in> set (to_Vaults (fx_Transform (fst d) (i\<lparr>ti_State := Some (snd d)\<rparr>)))"
      using v by (simp add: fx_Transform_def Let_def fx_live_def d_def fx_decode_protocol)
    then show ?thesis
      by (rule bexI [rotated]) (use live in \<open>simp add: fx_vault_row_def fx_live_def zero_vault_row_def\<close>)
  qed
qed

section \<open>What cannot change a vault\<close>

definition fx_relevant :: "fx_adapter \<Rightarrow> contract_data_change \<Rightarrow> bool" where
  "fx_relevant a c \<longleftrightarrow> fx_OwnsContract a (cd_ContractID c) \<and> (cd_ValueXDR c \<noteq> None \<or> cd_ChangeType c = ''Removed'')"

text \<open>
  Only the vaults contracts' own changes count, and archival is invisible: dropping the
  changes of other contracts, TTL lapses and evictions from a ledger changes neither the
  decoded state nor the dirty set.
\<close>

theorem fx_decode_relevant:
  "fx_DecodeState S a prior (filter (fx_relevant a) cs) = fx_DecodeState S a prior cs"
proof -
  have "run (fx_step S a) (filter (fx_relevant a) cs) w = run (fx_step S a) cs w" for w
    by (rule run_filter_idle) (auto simp: fx_relevant_def fx_step_def Let_def split: option.splits)
  then show ?thesis by (simp add: fx_DecodeState_def)
qed

section \<open>The dirty set\<close>

definition fx_signal :: "sdk \<Rightarrow> fx_adapter \<Rightarrow> contract_data_change \<Rightarrow> dirty_vault option" where
  "fx_signal S a c =
     (if \<not> fx_OwnsContract a (cd_ContractID c) then None
      else case decodeVal S (cd_KeyXDR c) of
        None \<Rightarrow> None
      | Some key \<Rightarrow>
          if cd_ChangeType c = ''Removed''
          then map_option (\<lambda>(acc, den). \<lparr>dv_ContractID = cd_ContractID c, dv_Account = acc,
                 dv_Denomination = den, dv_Kind = DirtyRemoval\<rparr>) (vaultEntryKey S key)
          else (case fx_value S c of
              None \<Rightarrow> None
            | Some val \<Rightarrow> if get_instance val \<noteq> None then None
                else map_option (\<lambda>(acc, den). \<lparr>dv_ContractID = cd_ContractID c, dv_Account = acc,
                       dv_Denomination = den, dv_Kind = DirtyUpsert\<rparr>)
                     (if vaultEntryKey S key \<noteq> None then vaultEntryKey S key else vaultIndexEntryKey S key)))"

lemma fx_step_dirty:
  "fxw_dirty (fx_step S a c w) = fxw_dirty w @ (case fx_signal S a c of None \<Rightarrow> [] | Some d \<Rightarrow> [d])"
  by (auto simp: fx_step_def fx_signal_def fx_value_def fx_close_def fx_write_def Let_def frame
      split: option.splits bool.splits prod.splits)

lemma fx_run_dirty: "fxw_dirty (run (fx_step S a) cs w) = fxw_dirty w @ List.map_filter (fx_signal S a) cs"
proof (induction cs arbitrary: w)
  case Nil
  then show ?case by (simp add: List.map_filter_def)
next
  case (Cons c cs)
  then show ?case by (simp add: fx_step_dirty map_filter_Cons split: option.splits)
qed

text \<open>
  The specification: one entry per signalled vault, in key order, whose kind is the greatest of
  its signals' kinds (a removal outranks an upsert).
\<close>

definition dv_of :: "string \<times> string \<times> string \<Rightarrow> dirty_kind \<Rightarrow> dirty_vault" where
  "dv_of k kind = \<lparr>dv_ContractID = fst k, dv_Account = fst (snd k), dv_Denomination = snd (snd k), dv_Kind = kind\<rparr>"

definition vault_kind_of :: "dirty_vault set \<Rightarrow> string \<times> string \<times> string \<Rightarrow> dirty_kind" where
  "vault_kind_of D k = Max (dv_Kind ` {d \<in> D. dv_key d = k})"

definition dirty_spec :: "dirty_vault set \<Rightarrow> dirty_vault list" where
  "dirty_spec D = map (\<lambda>k. dv_of k (vault_kind_of D k)) (sorted_list_of_set (dv_key ` D))"

lemma dv_of_key: "dv_of (dv_key d) (dv_Kind d) = d"
  by (simp add: dv_of_def dv_key_def)

lemma dv_key_of [simp]: "dv_key (dv_of k kind) = k"
  by (simp add: dv_of_def dv_key_def)

lemma dedupe_snoc: "dedupeDirty (ds @ [d]) = dedupe_step (dedupeDirty ds) d"
  by (simp add: dedupeDirty_def)

lemma dedupe_step_key:
  "dedupe_step out d = (if out \<noteq> [] \<and> dv_key (last out) = dv_key d
     then butlast out @ [dv_of (dv_key d) (max (dv_Kind (last out)) (dv_Kind d))] else out @ [d])"
proof (cases "out \<noteq> [] \<and> dv_key (last out) = dv_key d")
  case True
  then have l: "butlast out @ [last out] = out" by simp
  have "last out = dv_of (dv_key d) (dv_Kind (last out))" using True dv_of_key [of "last out"] by simp
  then show ?thesis using True l
    by (cases "dv_Kind d"; cases "dv_Kind (last out)")
      (auto simp: dedupe_step_def dv_key_def dv_of_def max_def less_eq_dirty_kind_def)
next
  case False
  then show ?thesis by (auto simp: dedupe_step_def dv_key_def)
qed

lemma dirty_kind_other: "k \<noteq> dv_key d \<Longrightarrow> vault_kind_of (insert d D) k = vault_kind_of D k"
proof -
  assume "k \<noteq> dv_key d"
  then have "{e \<in> insert d D. dv_key e = k} = {e \<in> D. dv_key e = k}" by auto
  then show ?thesis by (simp add: vault_kind_of_def)
qed

lemma dirty_kind_new: "dv_key d \<notin> dv_key ` D \<Longrightarrow> vault_kind_of (insert d D) (dv_key d) = dv_Kind d"
proof -
  assume "dv_key d \<notin> dv_key ` D"
  then have "{e \<in> insert d D. dv_key e = dv_key d} = {d}" by (auto simp: image_iff)
  then show ?thesis by (simp add: vault_kind_of_def)
qed

lemma dirty_kind_more:
  assumes "finite D" "dv_key d \<in> dv_key ` D"
  shows "vault_kind_of (insert d D) (dv_key d) = max (vault_kind_of D (dv_key d)) (dv_Kind d)"
proof -
  let ?E = "{e \<in> D. dv_key e = dv_key d}"
  have "{e \<in> insert d D. dv_key e = dv_key d} = insert d ?E" by auto
  moreover have "finite ?E" "?E \<noteq> {}" using assms by auto
  ultimately show ?thesis by (simp add: vault_kind_of_def Max_insert max.commute)
qed

lemma sorted_list_of_set_snoc:
  assumes "finite K" and "\<forall>x\<in>K. x \<le> k" and "k \<notin> K"
  shows "sorted_list_of_set (insert k K) = sorted_list_of_set K @ [k]"
proof -
  let ?l = "sorted_list_of_set K @ [k]"
  have "sorted ?l" "distinct ?l" using assms by (auto simp: sorted_append)
  then have "sorted_list_of_set (set ?l) = ?l" by (rule sorted_list_of_set.idem_if_sorted_distinct)
  then show ?thesis using assms(1) by simp
qed

lemma last_sorted_list_of_set:
  assumes "finite K" and "\<forall>x\<in>K. x \<le> k" and "k \<in> K"
  shows "sorted_list_of_set K = sorted_list_of_set (K - {k}) @ [k]"
  using sorted_list_of_set_snoc [of "K - {k}" k] assms by (simp add: insert_absorb)

lemma dirty_spec_keys: "finite D \<Longrightarrow> map dv_key (dirty_spec D) = sorted_list_of_set (dv_key ` D)"
  by (simp add: dirty_spec_def comp_def)

lemma dedupe_spec: "sorted (map dv_key ds) \<Longrightarrow> dedupeDirty ds = dirty_spec (set ds)"
proof (induction ds rule: rev_induct)
  case Nil
  then show ?case by (simp add: dedupeDirty_def dirty_spec_def)
next
  case (snoc d ds)
  let ?K = "dv_key ` set ds"
  let ?k = "dv_key d"
  have le: "\<forall>x\<in>?K. x \<le> ?k" and IH: "dedupeDirty ds = dirty_spec (set ds)"
    using snoc by (auto simp: sorted_append)
  show ?case
  proof (cases "?k \<in> ?K")
    case False
    have ne: "dv_key (last (dirty_spec (set ds))) \<noteq> ?k" if "dirty_spec (set ds) \<noteq> []"
    proof -
      have "last (dirty_spec (set ds)) \<in> set (dirty_spec (set ds))" using that by simp
      then show ?thesis using False by (metis List.finite_set dirty_spec_keys finite_imageI image_eqI list.set_map set_sorted_list_of_set)
    qed
    have kind: "vault_kind_of (insert d (set ds)) k = vault_kind_of (set ds) k" if "k \<in> ?K" for k
      by (rule dirty_kind_other) (metis that False)
    have l: "sorted_list_of_set (insert ?k ?K) = sorted_list_of_set ?K @ [?k]"
      by (rule sorted_list_of_set_snoc [OF _ le False]) simp
    have "dirty_spec (set (ds @ [d])) = map (\<lambda>k. dv_of k (vault_kind_of (insert d (set ds)) k)) (sorted_list_of_set ?K @ [?k])"
      unfolding dirty_spec_def by (simp add: l del: sorted_list_of_set_insert_remove)
    also have "\<dots> = dirty_spec (set ds) @ [d]"
      using False by (simp add: dirty_spec_def dirty_kind_new dv_of_key kind)
    finally have "dirty_spec (set (ds @ [d])) = dirty_spec (set ds) @ [d]" .
    then show ?thesis using ne by (auto simp: dedupe_snoc IH dedupe_step_key)
  next
    case True
    have l: "sorted_list_of_set ?K = sorted_list_of_set (?K - {?k}) @ [?k]"
      by (rule last_sorted_list_of_set [OF _ le True]) simp
    have i: "insert ?k ?K = ?K" using True by auto
    have a: "dirty_spec (set ds) = map (\<lambda>k. dv_of k (vault_kind_of (set ds) k)) (sorted_list_of_set (?K - {?k}))
        @ [dv_of ?k (vault_kind_of (set ds) ?k)]"
      unfolding dirty_spec_def l by simp
    have b: "dirty_spec (set (ds @ [d])) = map (\<lambda>k. dv_of k (vault_kind_of (set ds) k)) (sorted_list_of_set (?K - {?k}))
        @ [dv_of ?k (max (vault_kind_of (set ds) ?k) (dv_Kind d))]"
      using True by (auto simp: dirty_spec_def i l dirty_kind_more dirty_kind_other intro!: map_cong)
    show ?thesis unfolding dedupe_snoc IH b unfolding dedupe_step_key a by simp (simp add: dv_of_def)
  qed
qed

text \<open>
  C37: The dirty set reports each vault the ledger touched once, in key order, as a removal when
  any of its changes was one and as an upsert otherwise; the report does not depend on the
  order in which the unstable sort leaves signals of the same vault.
\<close>

theorem fx_dirty_report:
  "fxa_dirty (fst (fx_DecodeState S a prior cs)) = dirty_spec (set (List.map_filter (fx_signal S a) cs)) \<and>
   (\<forall>ds. mset ds = mset (List.map_filter (fx_signal S a) cs) \<and> sorted (map dv_key ds) \<longrightarrow>
      dedupeDirty ds = fxa_dirty (fst (fx_DecodeState S a prior cs)))"
proof -
  have "fxa_dirty (fst (fx_DecodeState S a prior cs)) = dirty_spec (set (List.map_filter (fx_signal S a) cs))"
    by (simp add: fx_DecodeState_def Let_def fx_run_dirty fx_start_def sortDirty_def dedupe_spec)
  then show ?thesis using dedupe_spec by (metis mset_eq_setD)
qed

section \<open>Examples\<close>

text \<open>
  A vault of the account with key \<open>h\<close> in denomination USD at the contract \<open>V\<close>: its entry is
  removed in the ledger.
\<close>

definition fx_ex_sdk :: sdk where
  "fx_ex_sdk = example_sdk
     [(''a'', ScVec (Some [ScSym ''Vault'', ScVec (Some [ScAddress (AddrAccount ''h''), ScSym ''USD''])]))] []"

definition fx_ex_adapter :: fx_adapter where
  "fx_ex_adapter = \<lparr>fxa_cfg = fx_DefaultConfig, fxa_contracts = {''V''}, fxa_dirty = []\<rparr>"

definition fx_ex_removed :: contract_data_change where
  "fx_ex_removed = zero_contract_data_change\<lparr>cd_ContractID := ''V'', cd_KeyXDR := ''YQ=='', cd_ChangeType := ''Removed''\<rparr>"

lemma fx_ex_key:
  "decodeVal fx_ex_sdk (cd_KeyXDR fx_ex_removed) =
     Some (ScVec (Some [ScSym ''Vault'', ScVec (Some [ScAddress (AddrAccount ''h''), ScSym ''USD''])]))"
proof -
  have "b64_decode ''YQ=='' = Some ''a''" by code_simp
  then show ?thesis by (simp add: decodeVal_def fx_ex_removed_def fx_ex_sdk_def example_sdk_def)
qed

lemma fx_ex_who:
  "vaultEntryKey fx_ex_sdk (ScVec (Some [ScSym ''Vault'', ScVec (Some [ScAddress (AddrAccount ''h''), ScSym ''USD''])]))
     = Some (''G68'', ''USD'')"
proof -
  have "hex_encode ''h'' = ''68''" by code_simp
  then show ?thesis by (simp add: vaultEntryKey_def fx_ex_sdk_def example_sdk_def Let_def)
qed

lemma fx_ex_stored: "fx_stored fx_ex_sdk fx_ex_adapter fx_ex_removed = Some (fx_closed fx_ex_adapter ''V'' (''G68'', ''USD''))"
  by (simp add: fx_stored_def fx_ex_key fx_ex_who)
    (simp add: fx_OwnsContract_def fx_ex_adapter_def fx_ex_removed_def)

lemma fx_ex_signal: "fx_signal fx_ex_sdk fx_ex_adapter fx_ex_removed =
  Some \<lparr>dv_ContractID = ''V'', dv_Account = ''G68'', dv_Denomination = ''USD'', dv_Kind = DirtyRemoval\<rparr>"
  by (simp add: fx_signal_def fx_ex_key fx_ex_who)
    (simp add: fx_OwnsContract_def fx_ex_adapter_def fx_ex_removed_def)

theorem fx_last_write_wins_witness:
  "fx_vault_in (snd (fx_DecodeState fx_ex_sdk fx_ex_adapter (Some zero_ledger_state) [fx_ex_removed])) ''V|G68|USD''
     = Some (fx_closed fx_ex_adapter ''V'' (''G68'', ''USD''))"
proof -
  have d: "distinct (map vault_key_of (ls_Vaults zero_ledger_state))" by (simp add: zero_ledger_state_def)
  have k: "vault_key_of (fx_closed fx_ex_adapter ''V'' (''G68'', ''USD'')) = ''V|G68|USD''"
    by (simp add: vault_key_of_def fx_closed_def vaultKey_def)
  show ?thesis
    unfolding fx_last_write_wins [OF d] by (simp add: List.map_filter_def fx_ex_stored k Let_def)
qed

text \<open>The vault is written, with a collateral of 9 and a debt of 4, after it was removed.\<close>

definition fx_ex_val :: scval where
  "fx_ex_val = ScMap (Some [(ScSym ''index'', ScU64 3), (ScSym ''total_collateral'', ScU64 9), (ScSym ''total_debt'', ScU64 4)])"

definition fx_ex_live_sdk :: sdk where
  "fx_ex_live_sdk = fx_ex_sdk\<lparr>sdk_unmarshal_val := (sdk_unmarshal_val fx_ex_sdk)(''b'' \<mapsto> fx_ex_val)\<rparr>"

definition fx_ex_written :: contract_data_change where
  "fx_ex_written = fx_ex_removed\<lparr>cd_ChangeType := ''Updated'', cd_ValueXDR := Some ''Yg==''\<rparr>"

theorem fx_snapshot_row_witness:
  "\<exists>row\<in>set (to_Vaults (fx_Transform (fst (fx_DecodeState fx_ex_live_sdk fx_ex_adapter None [fx_ex_removed, fx_ex_written]))
      (zero_transform_input\<lparr>ti_State := Some (snd (fx_DecodeState fx_ex_live_sdk fx_ex_adapter None [fx_ex_removed, fx_ex_written]))\<rparr>))).
     va_Address row = ''G68'' \<and> va_Status row = ''active'' \<and> va_VaultIndexRaw row = ''3'' \<and> va_CollateralRaw row = ''9'' \<and> va_DebtRaw row = ''4''"
proof -
  let ?live = "fx_live fx_ex_adapter ''V'' (''G68'', ''USD'') fx_ex_val False"
  have stored: "fx_stored fx_ex_live_sdk fx_ex_adapter fx_ex_removed = Some (fx_closed fx_ex_adapter ''V'' (''G68'', ''USD''))"
    "fx_stored fx_ex_live_sdk fx_ex_adapter fx_ex_written = Some ?live" and
    val: "fx_value fx_ex_live_sdk fx_ex_written = Some fx_ex_val" "cd_ChangeType fx_ex_written = ''Updated''" by code_simp+
  have amounts: "uintString (field (fx_fields fx_ex_val) ''index'') = ''3''" "uintString (field (fx_fields fx_ex_val) ''total_collateral'') = ''9''"
    "uintString (field (fx_fields fx_ex_val) ''total_debt'') = ''4''" by code_simp+
  have "filter (\<lambda>(c, v). vault_key_of v = ''V|G68|USD'')
      (List.map_filter (\<lambda>c. map_option (Pair c) (fx_stored fx_ex_live_sdk fx_ex_adapter c)) [fx_ex_removed, fx_ex_written])
    = [(fx_ex_removed, fx_closed fx_ex_adapter ''V'' (''G68'', ''USD''))] @ [(fx_ex_written, ?live)]"
    by (simp add: List.map_filter_def stored vault_key_of_def fx_closed_def fx_live_def vaultKey_def)
  from fx_snapshot_row [OF this, of None zero_transform_input] show ?thesis
    by (rule bexE) (auto intro!: bexI simp: fx_live_def val amounts)
qed

theorem fx_dirty_report_witness:
  "dedupeDirty [\<lparr>dv_ContractID = ''V'', dv_Account = ''G68'', dv_Denomination = ''USD'', dv_Kind = DirtyRemoval\<rparr>]
     = fxa_dirty (fst (fx_DecodeState fx_ex_sdk fx_ex_adapter None [fx_ex_removed]))"
  using fx_dirty_report [of fx_ex_sdk fx_ex_adapter None "[fx_ex_removed]"]
  by (auto simp: List.map_filter_def fx_ex_signal)

end
