(* ===== verification/Aquarius_Math.thy ===== *)
theory Aquarius_Math
  imports Bindings Stellar
begin

text \<open>
  src/aquarius/math.go: the square-root price of a tick, the principal of a concentrated range, the
  pro-rata share of a classic pool and the reward accrued since a checkpoint.
\<close>

section \<open>The tick ladder\<close>

definition q96 :: int where
  "q96 = push_bit 96 1"

definition q128 :: int where
  "q128 = push_bit 128 1"

definition q256 :: int where
  "q256 = push_bit 256 1"

definition tickMagicLadder :: "int list" where
  "tickMagicLadder =
     [0xfff97272373d413259a46990580e213a, 0xfff2e50f5f656932ef12357cf3c7fdcc, 0xffe5caca7e10e4e61c3624eaa0941cd0,
      0xffcb9843d60f6159c9db58835c926644, 0xff973b41fa98c081472e6896dfb254c0, 0xff2ea16466c96a3843ec78b326b52861,
      0xfe5dee046a99a2a811c461f1969c3053, 0xfcbe86c7900a88aedcffc83b479aa3a4, 0xf987a7253ac413176f2b074cf7815e54,
      0xf3392b0822b70005940c7a398e4b70f3, 0xe7159475a2c29b7443b29c7fa6e889d9, 0xd097f3bdfd2022b8845ad8f792aa5825,
      0xa9f746462d870fdf8a65dc1f90e061e5, 0x70d869a156d2a1b890bb3df62baf32f7, 0x31be135f97d08fd981231505542fcfa6,
      0x9aa508b5b7a84e1c677de54f3e99bc9, 0x5d6af8dedb81196699c329225ee604, 0x2216e584f5fa1ea926041bedfe98,
      0x48a170391f7dc42444e8fa2]"

definition tickOddMagic :: int where
  "tickOddMagic = 0xfffcb933bd6fad37aa2d162d1a594001"

definition maxTick :: int where
  "maxTick = 887272"

text \<open>The ratio of a tick's magnitude: one ladder step per set bit, kept to 128 fractional bits.\<close>

definition ladder_ratio :: "int \<Rightarrow> int" where
  "ladder_ratio n = foldl (\<lambda>ratio (i, magic). if bit n (Suc i) then drop_bit 128 (ratio * magic) else ratio)
     (if bit n 0 then tickOddMagic else q128) (List.enumerate 0 tickMagicLadder)"

text \<open>The unsigned magnitude of a 32-bit tick; the minimum is its own two's complement.\<close>

definition tick_magnitude :: "int \<Rightarrow> int" where
  "tick_magnitude tick = (if tick < 0 then (- tick) mod 2 ^ 32 else tick mod 2 ^ 32)"

definition tickSqrtPriceX96 :: "int \<Rightarrow> string option" where
  "tickSqrtPriceX96 tick =
     (if tick_magnitude tick > maxTick then None
      else let ratio = ladder_ratio (tick_magnitude tick);
               ratio = (if tick > 0 then q256 div ratio else ratio)
           in Some (show_int (ratio div 2 ^ 32 + (if ratio mod 2 ^ 32 \<noteq> 0 then 1 else 0))))"

section \<open>Unsigned arithmetic\<close>

definition aq_parseUint :: "string \<Rightarrow> int option" where
  "aq_parseUint s = (case set_string s of None \<Rightarrow> None | Some n \<Rightarrow> if n < 0 then None else Some n)"

definition mulDivFloor :: "int \<Rightarrow> int \<Rightarrow> int \<Rightarrow> int" where
  "mulDivFloor a b d = quo (a * b) d"

datatype aq_error = AqInvalidUnsigned string | AqZeroTotalShares | AqInvalidBounds

definition aq_uint :: "string \<Rightarrow> aq_error + int" where
  "aq_uint s = (case aq_parseUint s of None \<Rightarrow> Inl (AqInvalidUnsigned s) | Some n \<Rightarrow> Inr n)"

definition aq_proRata :: "string \<Rightarrow> string \<Rightarrow> string \<Rightarrow> aq_error + string" where
  "aq_proRata shares reserve tot =
     and_then (aq_uint shares) (\<lambda>s. and_then (aq_uint reserve) (\<lambda>r. and_then (aq_uint tot) (\<lambda>t.
       if t = 0 then Inl AqZeroTotalShares else Inr (show_int (mulDivFloor s r t)))))"

text \<open>The two token amounts of liquidity \<open>L\<close> between square-root prices.\<close>

definition range_amount0 :: "int \<Rightarrow> int \<Rightarrow> int \<Rightarrow> int" where
  "range_amount0 L x y = quo (quo (push_bit 96 L * (y - x)) y) x"

definition range_amount1 :: "int \<Rightarrow> int \<Rightarrow> int \<Rightarrow> int" where
  "range_amount1 L x y = mulDivFloor L (y - x) q96"

definition range_amounts :: "int \<Rightarrow> int \<Rightarrow> int \<Rightarrow> int \<Rightarrow> int \<times> int" where
  "range_amounts L P A B =
     (if P \<le> A then (range_amount0 L A B, 0)
      else if P < B then (range_amount0 L P B, range_amount1 L A P)
      else (0, range_amount1 L A B))"

definition rangePrincipal :: "string \<Rightarrow> string \<Rightarrow> string \<Rightarrow> string \<Rightarrow> aq_error + string \<times> string" where
  "rangePrincipal liquidity p pa pb =
     and_then (aq_uint liquidity) (\<lambda>L. and_then (aq_uint p) (\<lambda>P. and_then (aq_uint pa) (\<lambda>A. and_then (aq_uint pb) (\<lambda>B.
       if A \<le> 0 \<or> A \<ge> B then Inl AqInvalidBounds
       else Inr (map_prod show_int show_int (range_amounts L P A B))))))"

section \<open>Rewards\<close>

text \<open>The pool's accumulated total per the checkpoint, advanced to the given second.\<close>

definition accumulated_at :: "int \<Rightarrow> int \<Rightarrow> int \<Rightarrow> int \<Rightarrow> int" where
  "accumulated_at acc tps lastTime now = (if now - lastTime > 0 then acc + tps * (now - lastTime) else acc)"

definition reward_now :: "string \<Rightarrow> go_time \<Rightarrow> int" where
  "reward_now expiredRaw closeTime =
     (let now = unix_sec closeTime in
      if expiredRaw = '''' then now
      else (case aq_parseUint expiredRaw of None \<Rightarrow> now | Some e \<Rightarrow> if now > e then e else now))"

definition or_text :: "string \<Rightarrow> string \<Rightarrow> string" where
  "or_text s d = (if s = '''' then d else s)"

definition pendingReward :: "amm_pool_state \<Rightarrow> amm_position_state \<Rightarrow> go_time \<Rightarrow> string" where
  "pendingReward pool pos closeTime =
     (let toClaim = or_text (po_PendingRewardRaw pos) ''0'';
          wbRaw = or_text (po_WorkingBalanceRaw pos) (po_SharesRaw pos)
      in if wbRaw = '''' \<or> wbRaw = ''0'' \<or> po_RewardPoolAccumulatedRaw pos = '''' then toClaim
      else if ps_RewardTpsRaw pool = '''' \<or> ps_RewardAccumulatedRaw pool = '''' \<or> ps_RewardLastTimeRaw pool = ''''
        \<or> ps_WorkingSupplyRaw pool = '''' \<or> ps_WorkingSupplyRaw pool = ''0'' then toClaim
      else (case (aq_parseUint wbRaw, aq_parseUint (ps_RewardTpsRaw pool), aq_parseUint (ps_RewardAccumulatedRaw pool),
              aq_parseUint (po_RewardPoolAccumulatedRaw pos), aq_parseUint (ps_WorkingSupplyRaw pool),
              aq_parseUint (ps_RewardLastTimeRaw pool)) of
          (Some wb, Some tps, Some accStored, Some accUser, Some ws, Some lastTime) \<Rightarrow>
            if ws = 0 then toClaim
            else (let deltaAcc = accumulated_at accStored tps lastTime (reward_now (ps_RewardExpiredAtRaw pool) closeTime) - accUser
              in if deltaAcc \<le> 0 then toClaim
              else (case aq_parseUint toClaim of
                  None \<Rightarrow> toClaim
                | Some claim \<Rightarrow> show_int (claim + mulDivFloor wb deltaAcc ws)))
        | _ \<Rightarrow> toClaim))"

section \<open>Prices of ticks\<close>

lemma ladder_positive: "m \<in> set tickMagicLadder \<Longrightarrow> 0 \<le> m \<and> m < q128"
proof -
  have "list_all (\<lambda>m. 0 \<le> m \<and> m < q128) tickMagicLadder" by code_simp
  then show "m \<in> set tickMagicLadder \<Longrightarrow> 0 \<le> m \<and> m < q128" by (auto simp: list_all_iff)
qed

text \<open>Skipping ladder steps only raises the ratio, so that of all bits together bounds every other.\<close>

lemma ladder_mono:
  assumes "0 \<le> r" "r \<le> r'" and "\<And>i m. (i, m) \<in> set ims \<Longrightarrow> 0 \<le> m \<and> m < q128"
  shows "foldl (\<lambda>ratio (i, magic). drop_bit 128 (ratio * magic)) r ims
      \<le> foldl (\<lambda>ratio (i, magic). if bit n (Suc i) then drop_bit 128 (ratio * magic) else ratio) r' ims"
  using assms
proof (induction ims arbitrary: r r')
  case (Cons im ims)
  obtain i m where im: "im = (i, m)" by (cases im)
  then have m: "0 \<le> m" "m < q128" using Cons.prems(3) by auto
  have p: "drop_bit 128 (x * m) = x * m div q128" for x by (simp add: drop_bit_eq_div q128_def push_bit_eq_mult)
  have le: "r * m div q128 \<le> r' * m div q128" using Cons.prems(2) m(1)
    by (intro zdiv_mono1 mult_right_mono) (simp_all add: q128_def)
  have "r * m div q128 \<le> r * q128 div q128" using Cons.prems(1) m
    by (intro zdiv_mono1 mult_left_mono) (simp_all add: q128_def)
  then have lt: "r * m div q128 \<le> r" by (simp add: q128_def)
  have "0 \<le> r * m div q128" using Cons.prems(1) m(1) by (simp add: q128_def pos_imp_zdiv_nonneg_iff)
  then show ?case unfolding im using Cons.prems(2,3) le lt
    by (auto simp: p intro!: Cons.IH)
qed simp

lemma ladder_le:
  "0 \<le> r \<Longrightarrow> r \<le> q128 \<Longrightarrow> (\<And>i m. (i, m) \<in> set ims \<Longrightarrow> 0 \<le> m \<and> m < q128) \<Longrightarrow>
     foldl (\<lambda>ratio (i, magic). if bit n (Suc i) then drop_bit 128 (ratio * magic) else ratio) r ims \<le> q128"
proof (induction ims arbitrary: r)
  case (Cons im ims)
  obtain i m where im: "im = (i, m)" by (cases im)
  then have m: "0 \<le> m" "m < q128" using Cons.prems(3) by auto
  have p: "drop_bit 128 (r * m) = r * m div q128" by (simp add: drop_bit_eq_div q128_def push_bit_eq_mult)
  have "r * m div q128 \<le> r * q128 div q128" using Cons.prems(1) m
    by (intro zdiv_mono1 mult_left_mono) (simp_all add: q128_def)
  then have "0 \<le> drop_bit 128 (r * m)" "drop_bit 128 (r * m) \<le> q128"
    using Cons.prems(1,2) m(1) by (simp_all add: p q128_def pos_imp_zdiv_nonneg_iff)
  then show ?case using Cons.prems im by (auto intro!: Cons.IH)
qed simp

lemma ladder_ratio_bounds: "0 < ladder_ratio n \<and> ladder_ratio n \<le> q128"
proof -
  have pos: "(i, m) \<in> set (List.enumerate 0 tickMagicLadder) \<Longrightarrow> 0 \<le> m \<and> m < q128" for i m
    using ladder_positive by (auto simp: in_set_enumerate_eq)
  have start: "0 \<le> tickOddMagic" "tickOddMagic \<le> (if bit n 0 then tickOddMagic else q128)"
    "0 \<le> (if bit n 0 then tickOddMagic else q128)" "(if bit n 0 then tickOddMagic else q128) \<le> q128"
    by (simp_all add: tickOddMagic_def q128_def)
  have "0 < foldl (\<lambda>ratio (i, magic). drop_bit 128 (ratio * magic)) tickOddMagic (List.enumerate 0 tickMagicLadder)" by code_simp
  also have "\<dots> \<le> ladder_ratio n"
    unfolding ladder_ratio_def using start(1,2) pos by (rule ladder_mono)
  finally have "0 < ladder_ratio n" .
  moreover have "ladder_ratio n \<le> q128"
    unfolding ladder_ratio_def by (rule ladder_le [OF start(3,4)]) (rule pos)
  ultimately show ?thesis ..
qed

lemma ceil_div:
  fixes x d :: int
  assumes "0 < d"
  shows "x \<le> (x div d + (if x mod d \<noteq> 0 then 1 else 0)) * d" "(x div d + (if x mod d \<noteq> 0 then 1 else 0)) * d < x + d"
proof -
  define q m where "q = x div d" and "m = x mod d"
  have "x = q * d + m" "0 \<le> m" "m < d" using assms by (simp_all add: q_def m_def)
  then show "x \<le> (x div d + (if x mod d \<noteq> 0 then 1 else 0)) * d" "(x div d + (if x mod d \<noteq> 0 then 1 else 0)) * d < x + d"
    unfolding q_def [symmetric] m_def [symmetric] by (simp_all add: distrib_right)
qed

text \<open>
  A tick has a price exactly in the range of the protocol: \<open>tickSqrtPriceX96\<close> fails for a 32-bit
  tick exactly when its magnitude exceeds 887272 - the minimal integer, which is its own negative,
  included - and otherwise yields a positive integer, at most 2^96 for ticks up to zero and at
  least 2^96 from zero on; the anchor tick has the price the source states.
\<close>

theorem tick_price_bounds:
  assumes "- (2 ^ 31) \<le> t" and "t < 2 ^ 31"
  shows "(tickSqrtPriceX96 t = None \<longleftrightarrow> 887272 < \<bar>t\<bar>)
    \<and> (\<bar>t\<bar> \<le> 887272 \<longrightarrow> (\<exists>n. tickSqrtPriceX96 t = Some (show_int n) \<and> 0 < n
      \<and> (t \<le> 0 \<longrightarrow> n \<le> 2 ^ 96) \<and> (0 \<le> t \<longrightarrow> 2 ^ 96 \<le> n)))
    \<and> tickSqrtPriceX96 (- 17652) = Some ''32778602836627082880087502758''"
proof -
  have m: "tick_magnitude t = \<bar>t\<bar>" using assms by (simp add: tick_magnitude_def)
  define r where "r = ladder_ratio \<bar>t\<bar>"
  have r: "0 < r" "r \<le> q128" using ladder_ratio_bounds [of "\<bar>t\<bar>"] by (simp_all add: r_def)
  define x where "x = (if t > 0 then q256 div r else r)"
  define n where "n = x div 2 ^ 32 + (if x mod 2 ^ 32 \<noteq> 0 then 1 else 0)"
  have up: "q128 \<le> q256 div r"
  proof -
    have "q128 * r \<le> q128 * q128" using r by (intro mult_left_mono) (simp_all add: q128_def)
    also have "\<dots> = q256" by (simp add: q128_def q256_def)
    finally have "q128 * r div r \<le> q256 div r" using r(1) by (rule zdiv_mono1)
    then show ?thesis using r(1) by simp
  qed
  have ceil: "x \<le> n * 2 ^ 32" "n * 2 ^ 32 < x + 2 ^ 32"
    unfolding n_def by (rule ceil_div, simp)+
  have x: "0 < x" using r up by (simp add: x_def q128_def)
  have 0: "ladder_ratio 0 = q128" by code_simp
  have "0 < n" using ceil(1) x by (smt (verit) zero_less_mult_iff zero_less_numeral zero_less_power)
  moreover have "n \<le> 2 ^ 96" if "t \<le> 0" using ceil(2) r(2) that by (simp add: x_def q128_def)
  moreover have "2 ^ 96 \<le> n" if "0 \<le> t"
  proof -
    have "q128 \<le> x" using that up 0 by (cases "t = 0") (simp_all add: x_def r_def)
    then show ?thesis using ceil(1) by (simp add: q128_def)
  qed
  moreover have "tickSqrtPriceX96 t = (if 887272 < \<bar>t\<bar> then None else Some (show_int n))"
    by (simp add: tickSqrtPriceX96_def m maxTick_def Let_def n_def x_def r_def)
  moreover have "tickSqrtPriceX96 (- 17652) = Some ''32778602836627082880087502758''" by code_simp
  ultimately show ?thesis by auto
qed

theorem tick_price_bounds_witness:
  "tickSqrtPriceX96 (- (2 ^ 31)) = None \<and> (\<exists>n. tickSqrtPriceX96 887272 = Some (show_int n) \<and> 2 ^ 96 \<le> n)"
  using tick_price_bounds [of "- (2 ^ 31)"] tick_price_bounds [of 887272] by auto

section \<open>Principal of ranges\<close>

lemma aq_uint_Inr: "aq_uint s = Inr n \<longleftrightarrow> set_string s = Some n \<and> 0 \<le> n"
  by (auto simp: aq_uint_def aq_parseUint_def split: option.splits)

text \<open>Both amounts in closed form.\<close>

lemma range_amount0_eq: "0 \<le> L \<Longrightarrow> 0 < x \<Longrightarrow> x \<le> y \<Longrightarrow> range_amount0 L x y = L * (2 ^ 96 * (y - x)) div (y * x)"
  by (simp add: range_amount0_def push_bit_eq_mult zdiv_zmult2_eq pos_imp_zdiv_nonneg_iff mult.assoc)

lemma range_amount1_eq: "0 \<le> L \<Longrightarrow> x \<le> y \<Longrightarrow> range_amount1 L x y = L * (y - x) div 2 ^ 96"
  by (simp add: range_amount1_def mulDivFloor_def q96_def)

lemma sum_floor_le:
  fixes c d :: int
  assumes "0 < d"
  shows "sum_list (map (\<lambda>n. n * c div d) ns) \<le> sum_list ns * c div d"
  using sum_div_le [OF assms, of "map (\<lambda>n. n * c) ns"] by (simp add: comp_def sum_list_mult_const)

lemma sum_nonneg: "(\<And>L. L \<in> set Ls \<Longrightarrow> 0 \<le> L) \<Longrightarrow> 0 \<le> sum_list (Ls :: int list)"
  by (rule sum_list_nonneg) auto

text \<open>
  C28: Range principal conserves liquidity: for a price and bounds the decomposition accepts, each
  part of a pool's liquidity gets non-negative amounts, and however the liquidity is split over
  positions, the amounts of the parts together exceed in neither token those of the whole.
\<close>

theorem range_principal_conserves:
  assumes "aq_uint p = Inr P" and "aq_uint pa = Inr A" and "aq_uint pb = Inr B" and "0 < A" and "A < B"
    and "list_all2 (\<lambda>s L. aq_uint s = Inr L) parts Ls" and "aq_uint whole = Inr (sum_list Ls)"
  shows "\<exists>xs x y. list_all2 (\<lambda>s (x, y). rangePrincipal s p pa pb = Inr (show_int x, show_int y) \<and> 0 \<le> x \<and> 0 \<le> y) parts xs
    \<and> rangePrincipal whole p pa pb = Inr (show_int x, show_int y) \<and> sum_list (map fst xs) \<le> x \<and> sum_list (map snd xs) \<le> y"
proof -
  let ?f = "\<lambda>L. range_amounts L P A B"
  have run: "rangePrincipal s p pa pb = Inr (show_int (fst (?f L)), show_int (snd (?f L)))" if "aq_uint s = Inr L" for s L
    using assms(1-5) that by (cases "?f L") (simp add: rangePrincipal_def)
  have nn: "0 \<le> L" if "L \<in> set Ls" for L
    using assms(6) that by (auto simp: list_all2_conv_all_nth in_set_conv_nth aq_uint_Inr)
  have all: "0 \<le> sum_list Ls" by (rule sum_nonneg) (rule nn)
  have P: "0 \<le> P" using assms(1) by (simp add: aq_uint_Inr)
  have ge: "0 \<le> fst (?f L) \<and> 0 \<le> snd (?f L)" if "0 \<le> L" for L
    using that assms(4,5) P by (auto simp: range_amounts_def range_amount0_eq range_amount1_eq pos_imp_zdiv_nonneg_iff)
  have fsts: "sum_list (map (\<lambda>L. range_amount0 L x y) Ls) \<le> range_amount0 (sum_list Ls) x y" if "0 < x" "x \<le> y" for x y
  proof -
    have e: "map (\<lambda>L. range_amount0 L x y) Ls = map (\<lambda>L. L * (2 ^ 96 * (y - x)) div (y * x)) Ls"
      by (rule map_cong) (use nn that in \<open>simp_all only: range_amount0_eq\<close>)
    show ?thesis
      unfolding e range_amount0_eq [OF all that] by (rule sum_floor_le) (use that in simp)
  qed
  have snds: "sum_list (map (\<lambda>L. range_amount1 L x y) Ls) \<le> range_amount1 (sum_list Ls) x y" if "x \<le> y" for x y
  proof -
    have e: "map (\<lambda>L. range_amount1 L x y) Ls = map (\<lambda>L. L * (y - x) div (2 ^ 96)) Ls"
      by (rule map_cong) (use nn that in \<open>simp_all only: range_amount1_eq\<close>)
    show ?thesis
      unfolding e range_amount1_eq [OF all that] by (rule sum_floor_le) (use that in simp)
  qed
  have "list_all2 (\<lambda>s (x, y). rangePrincipal s p pa pb = Inr (show_int x, show_int y) \<and> 0 \<le> x \<and> 0 \<le> y) parts (map ?f Ls)"
    unfolding list_all2_map2
    by (rule list_all2_mono [OF assms(6)]) (use run ge in \<open>auto simp: split_def aq_uint_Inr\<close>)
  moreover have "sum_list (map fst (map ?f Ls)) \<le> fst (?f (sum_list Ls))"
    using fsts assms(4,5) by (auto simp: range_amounts_def comp_def)
  moreover have "sum_list (map snd (map ?f Ls)) \<le> snd (?f (sum_list Ls))"
    using snds assms(4,5) by (auto simp: range_amounts_def comp_def)
  ultimately show ?thesis using run [OF assms(7)] by blast
qed

theorem range_principal_conserves_witness:
  "\<exists>x y. rangePrincipal ''1000000'' (show_int (2 ^ 96)) (show_int (2 ^ 95)) (show_int (2 ^ 97)) = Inr (show_int x, show_int y)"
proof -
  have p: "aq_uint (show_int n) = Inr n" if "0 \<le> n" for n using that by (simp add: aq_uint_Inr)
  have "aq_uint ''1000000'' = Inr 1000000" "aq_uint ''400000'' = Inr 400000" "aq_uint ''600000'' = Inr 600000" by code_simp+
  then show ?thesis
    using range_principal_conserves [of "show_int (2 ^ 96)" "2 ^ 96" "show_int (2 ^ 95)" "2 ^ 95" "show_int (2 ^ 97)" "2 ^ 97"
        "[''400000'', ''600000'']" "[400000, 600000]" "''1000000''"] p by auto
qed

section \<open>Accrued rewards\<close>

text \<open>What is owed at a given second, on numbers.\<close>

definition owed_at :: "int \<Rightarrow> int \<Rightarrow> int \<Rightarrow> int \<Rightarrow> int \<Rightarrow> int \<Rightarrow> int \<Rightarrow> int \<Rightarrow> int" where
  "owed_at claim wb tps acc accUser ws lastTime now =
     (let delta = accumulated_at acc tps lastTime now - accUser in if delta \<le> 0 then claim else claim + wb * delta div ws)"

lemma accumulated_mono: "0 \<le> tps \<Longrightarrow> s \<le> t \<Longrightarrow> accumulated_at acc tps lastTime s \<le> accumulated_at acc tps lastTime t"
proof -
  assume a: "0 \<le> tps" "s \<le> t"
  then have "tps * (s - lastTime) \<le> tps * (t - lastTime)" by (intro mult_left_mono) simp_all
  moreover have "0 \<le> tps * (t - lastTime)" if "lastTime < t" using a(1) that by simp
  ultimately show ?thesis using a(2) by (simp add: accumulated_at_def)
qed

lemma owed_mono:
  assumes "0 \<le> tps" "0 \<le> wb" "0 < ws" "s \<le> t"
  shows "owed_at claim wb tps acc accUser ws lastTime s \<le> owed_at claim wb tps acc accUser ws lastTime t"
    and "claim \<le> owed_at claim wb tps acc accUser ws lastTime s"
proof -
  have d: "0 \<le> wb * d div ws" if "0 \<le> d" for d using assms that by (simp add: pos_imp_zdiv_nonneg_iff)
  have m: "wb * d div ws \<le> wb * e div ws" if "d \<le> e" for d e
    using assms that by (intro zdiv_mono1 mult_left_mono) simp_all
  show "owed_at claim wb tps acc accUser ws lastTime s \<le> owed_at claim wb tps acc accUser ws lastTime t"
    using accumulated_mono [OF assms(1,4), of acc lastTime] d m by (auto simp: owed_at_def Let_def)
  show "claim \<le> owed_at claim wb tps acc accUser ws lastTime s" using d by (auto simp: owed_at_def Let_def)
qed

lemma pendingReward_cases:
  assumes "aq_parseUint (or_text (po_PendingRewardRaw pos) ''0'') = Some claim"
  obtains "\<And>t. pendingReward pool pos t = or_text (po_PendingRewardRaw pos) ''0''"
  | wb tps acc accUser ws lastTime where "0 \<le> tps" "0 \<le> wb" "0 < ws"
    "\<And>t. set_string (pendingReward pool pos t) =
       Some (owed_at claim wb tps acc accUser ws lastTime (reward_now (ps_RewardExpiredAtRaw pool) t))"
proof -
  have nn: "aq_parseUint s = Some n \<Longrightarrow> 0 \<le> n" for s n by (auto simp: aq_parseUint_def split: option.splits if_splits)
  have claim: "set_string (or_text (po_PendingRewardRaw pos) ''0'') = Some claim"
    using assms by (auto simp: aq_parseUint_def split: option.splits if_splits)
  let ?wb = "or_text (po_WorkingBalanceRaw pos) (po_SharesRaw pos)"
  show ?thesis
  proof (cases "(?wb = '''' \<or> ?wb = ''0'' \<or> po_RewardPoolAccumulatedRaw pos = '''')
      \<or> (ps_RewardTpsRaw pool = '''' \<or> ps_RewardAccumulatedRaw pool = '''' \<or> ps_RewardLastTimeRaw pool = ''''
        \<or> ps_WorkingSupplyRaw pool = '''' \<or> ps_WorkingSupplyRaw pool = ''0'')")
    case True
    then show ?thesis by (intro that(1)) (auto simp: pendingReward_def Let_def)
  next
    case False
    show ?thesis
    proof (cases "\<exists>wb tps acc accUser ws lastTime. aq_parseUint ?wb = Some wb \<and> aq_parseUint (ps_RewardTpsRaw pool) = Some tps
        \<and> aq_parseUint (ps_RewardAccumulatedRaw pool) = Some acc \<and> aq_parseUint (po_RewardPoolAccumulatedRaw pos) = Some accUser
        \<and> aq_parseUint (ps_WorkingSupplyRaw pool) = Some ws \<and> aq_parseUint (ps_RewardLastTimeRaw pool) = Some lastTime \<and> ws \<noteq> 0")
      case True
      then obtain wb tps acc accUser ws lastTime where p: "aq_parseUint ?wb = Some wb" "aq_parseUint (ps_RewardTpsRaw pool) = Some tps"
        "aq_parseUint (ps_RewardAccumulatedRaw pool) = Some acc" "aq_parseUint (po_RewardPoolAccumulatedRaw pos) = Some accUser"
        "aq_parseUint (ps_WorkingSupplyRaw pool) = Some ws" "aq_parseUint (ps_RewardLastTimeRaw pool) = Some lastTime" "ws \<noteq> 0" by blast
      have g: "0 \<le> tps" "0 \<le> wb" "0 < ws" using p(2,1,5,7) nn by (fastforce simp: less_le)+
      show ?thesis
        using g by (intro that(2) [of tps wb ws acc accUser lastTime])
          (use False p claim assms g in \<open>auto simp: pendingReward_def owed_at_def mulDivFloor_def Let_def\<close>)
    next
      case bad: False
      show ?thesis
        using False bad by (intro that(1)) (auto simp: pendingReward_def Let_def split: option.splits)
    qed
  qed
qed

lemma reward_now_mono: "s \<le> t \<Longrightarrow> reward_now e s \<le> reward_now e t"
  by (auto simp: reward_now_def unix_sec_def Let_def zdiv_mono1 split: option.splits)

text \<open>
  C30: Rewards accrue forward and stop: the reward owed at a later close time is at least the one
  owed before and at least the checkpointed claim, and after the emission expires it no longer
  grows, whichever of the other checkpoint fields are missing or malformed.
\<close>

theorem reward_accrual:
  assumes "aq_parseUint (or_text (po_PendingRewardRaw pos) ''0'') = Some claim" and "s \<le> t"
  shows "\<exists>v w. set_string (pendingReward pool pos s) = Some v \<and> set_string (pendingReward pool pos t) = Some w
    \<and> claim \<le> v \<and> v \<le> w
    \<and> (\<forall>e. aq_parseUint (ps_RewardExpiredAtRaw pool) = Some e \<and> e \<le> unix_sec s \<longrightarrow> v = w)"
  using assms(1)
proof (rule pendingReward_cases [where pool = pool])
  assume "\<And>t. pendingReward pool pos t = or_text (po_PendingRewardRaw pos) ''0''"
  moreover have "set_string (or_text (po_PendingRewardRaw pos) ''0'') = Some claim"
    using assms(1) by (auto simp: aq_parseUint_def split: option.splits if_splits)
  ultimately show ?thesis by simp
next
  fix wb tps acc accUser ws lastTime
  let ?now = "reward_now (ps_RewardExpiredAtRaw pool)"
  assume g: "0 \<le> tps" "0 \<le> wb" "0 < ws" and v: "\<And>t. set_string (pendingReward pool pos t) =
       Some (owed_at claim wb tps acc accUser ws lastTime (?now t))"
  have stop: "?now s = ?now t" if "aq_parseUint (ps_RewardExpiredAtRaw pool) = Some e" "e \<le> unix_sec s" for e
  proof -
    have "unix_sec s \<le> unix_sec t" using assms(2) by (simp add: unix_sec_def zdiv_mono1)
    moreover have "ps_RewardExpiredAtRaw pool \<noteq> ''''" using that(1) by (auto simp: aq_parseUint_def set_string_def)
    ultimately show ?thesis using that by (simp add: reward_now_def Let_def)
  qed
  show ?thesis
    unfolding v using owed_mono [OF g reward_now_mono [OF assms(2)]] stop by auto
qed

theorem reward_accrual_witness:
  "\<exists>w. set_string (pendingReward (zero_amm_pool_state\<lparr>ps_RewardTpsRaw := ''5'', ps_RewardAccumulatedRaw := ''100'',
       ps_RewardLastTimeRaw := ''10'', ps_WorkingSupplyRaw := ''4''\<rparr>)
     (zero_amm_position_state\<lparr>po_SharesRaw := ''2'', po_RewardPoolAccumulatedRaw := ''60'', po_PendingRewardRaw := ''7''\<rparr>)
     (time_of_unix 30)) = Some w \<and> 7 \<le> w"
proof -
  let ?pos = "zero_amm_position_state\<lparr>po_SharesRaw := ''2'', po_RewardPoolAccumulatedRaw := ''60'', po_PendingRewardRaw := ''7''\<rparr>"
  have "aq_parseUint (or_text (po_PendingRewardRaw ?pos) ''0'') = Some 7" by code_simp
  from reward_accrual [OF this, of 0 "time_of_unix 30"] show ?thesis by (fastforce simp: time_of_unix_def)
qed

end
