(* ===== verification/Aquarius_State.thy ===== *)
theory Aquarius_State
  imports Aquarius_Math
begin

text \<open>
  src/aquarius/adapter.go and src/aquarius/state.go: configuration with pool seeds, the registry -
  the share tokens it discovers are adapter state -, and the ledger decoder.  A pool is copied out
  of its map before a change is applied, but its token slice still shares the array of the copy in
  the map: the model tracks both, so that a change the decoder abandons leaves what Go leaves.
\<close>

section \<open>Configuration and registry (adapter.go)\<close>

record pool_seed_position =
  sp_Address :: string
  sp_SharesRaw :: string
  sp_PendingRewardRaw :: string

record pool_seed =
  sd_ContractID :: string
  sd_RouterContract :: string
  sd_PoolHash :: string
  sd_PoolType :: string
  sd_Tokens :: "string list"
  sd_ReservesRaw :: "string list"
  sd_TotalSharesRaw :: string
  sd_FeeFractionRaw :: string
  sd_ProtocolFeeFractionRaw :: string
  sd_Positions :: "pool_seed_position list"

record aq_config =
  aqc_AdapterID :: string
  aqc_Protocol :: string
  aqc_Routers :: "string set"
  aqc_PoolWasmHashes :: "(string, string) gmap"
  aqc_AllowUnknownWasm :: bool
  aqc_PoolSeeds :: "pool_seed list"

definition aq_DefaultConfig :: aq_config where
  "aq_DefaultConfig = \<lparr>aqc_AdapterID = ''aquarius'', aqc_Protocol = ''aquarius'', aqc_Routers = {},
     aqc_PoolWasmHashes = [], aqc_AllowUnknownWasm = False, aqc_PoolSeeds = []\<rparr>"

record aq_adapter =
  aqa_cfg :: aq_config
  aqa_contracts :: "string set"
  aqa_assets :: "string set"
  aqa_shareTokens :: "string \<rightharpoonup> string"
  aqa_diagnostics :: "decode_diagnostic list"

text \<open>
  Hashes that differ in case only collide in the copied map; the association list of the
  configuration gives the order in which Go happens to range over it.
\<close>

definition aq_NewWithConfig :: "aq_config \<Rightarrow> string + aq_adapter" where
  "aq_NewWithConfig c =
     (let cfg = aq_DefaultConfig\<lparr>
            aqc_AdapterID := (if aqc_AdapterID c \<noteq> '''' then aqc_AdapterID c else aqc_AdapterID aq_DefaultConfig),
            aqc_Protocol := (if aqc_Protocol c \<noteq> '''' then aqc_Protocol c else aqc_Protocol aq_DefaultConfig),
            aqc_AllowUnknownWasm := aqc_AllowUnknownWasm c, aqc_Routers := copySet (aqc_Routers c),
            aqc_PoolWasmHashes := gm.load (to_lower \<circ> fst) snd (aqc_PoolWasmHashes c) [],
            aqc_PoolSeeds := aqc_PoolSeeds c\<rparr>
      in if aqc_AdapterID cfg = '''' \<or> aqc_Protocol cfg = ''''
         then Inl ''aquarius: adapter id and protocol are required''
         else Inr \<lparr>aqa_cfg = cfg, aqa_contracts = aqc_Routers cfg, aqa_assets = {}, aqa_shareTokens = Map.empty,
                aqa_diagnostics = []\<rparr>)"

definition aq_ID :: "aq_adapter \<Rightarrow> string" where
  "aq_ID a = aqc_AdapterID (aqa_cfg a)"

definition aq_Protocol :: "aq_adapter \<Rightarrow> string" where
  "aq_Protocol a = aqc_Protocol (aqa_cfg a)"

definition aq_LastDecodeDiagnostics :: "aq_adapter \<Rightarrow> decode_diagnostic list" where
  "aq_LastDecodeDiagnostics a = aqa_diagnostics a"

definition aq_OwnsContract :: "aq_adapter \<Rightarrow> string \<Rightarrow> bool" where
  "aq_OwnsContract a i \<longleftrightarrow> i \<in> aqa_contracts a \<or> aqa_shareTokens a i \<noteq> None \<or> i \<in> aqa_assets a"

definition aq_RegisterContracts :: "string list \<Rightarrow> aq_adapter \<Rightarrow> aq_adapter" where
  "aq_RegisterContracts ids a = a\<lparr>aqa_contracts := aqa_contracts a \<union> set (filter (\<lambda>i. trim_space i \<noteq> '''') ids)\<rparr>"

definition aq_RegisterAssetContracts :: "string list \<Rightarrow> aq_adapter \<Rightarrow> aq_adapter" where
  "aq_RegisterAssetContracts ids a = a\<lparr>aqa_assets := aqa_assets a \<union> set (filter (\<lambda>i. trim_space i \<noteq> '''') ids)\<rparr>"

definition aq_StateAssetContracts :: "aq_adapter \<Rightarrow> ledger_state option \<Rightarrow> string list" where
  "aq_StateAssetContracts a s =
     (case s of
        None \<Rightarrow> []
      | Some s \<Rightarrow> sort (remdups (concat (map (\<lambda>p. filter (\<lambda>i. i \<noteq> '''') (map tr_AssetID (ps_Tokens p)))
            (filter (\<lambda>p. ps_Protocol p = aq_Protocol a) (ls_AMMPools s))))))"

definition aq_StateStats :: "aq_adapter \<Rightarrow> ledger_state option \<Rightarrow> state_stats" where
  "aq_StateStats a s =
     (case s of
        None \<Rightarrow> zero_state_stats
      | Some s \<Rightarrow> zero_state_stats\<lparr>
          ss_Pools := int (length (filter (\<lambda>p. ps_Protocol p = aq_Protocol a) (ls_AMMPools s))),
          ss_Users := int (card (po_Address ` set (ls_AMMPositions s)))\<rparr>)"

section \<open>Decoding values (state.go)\<close>

definition aq_u256 :: "w64 \<Rightarrow> w64 \<Rightarrow> w64 \<Rightarrow> w64 \<Rightarrow> string" where
  "aq_u256 a b c d = show_int (foldl join64 (uint a) [b, c, d])"

text \<open>The number a value holds, or the first one in a vector.\<close>

fun firstUint :: "scval \<Rightarrow> string" where
  "firstUint (ScU128 hi lo) = newBig hi lo False"
| "firstUint (ScI128 hi lo) = newBig hi lo (sint hi < 0)"
| "firstUint (ScU256 a b c d) = aq_u256 a b c d"
| "firstUint (ScU64 u) = show_int (uint u)"
| "firstUint (ScU32 u) = show_int (uint u)"
| "firstUint (ScI64 i) = show_int (sint i)"
| "firstUint (ScI32 i) = show_int (sint i)"
| "firstUint (ScVec (Some vs)) =
     (case dropWhile (\<lambda>n. n = '''') (map firstUint vs) of [] \<Rightarrow> '''' | n # _ \<Rightarrow> n)"
| "firstUint _ = ''''"

definition aq_addrInKey :: "sdk \<Rightarrow> scval \<Rightarrow> string" where
  "aq_addrInKey S key =
     (if addr S key \<noteq> '''' then addr S key
      else (case get_vec key of None \<Rightarrow> ''''
        | Some vs \<Rightarrow> (case dropWhile (\<lambda>a. a = '''') (map (addr S) vs) of [] \<Rightarrow> '''' | a # _ \<Rightarrow> a)))"

text \<open>The two bounds in the key of a range position.\<close>

definition ticksInKey :: "scval \<Rightarrow> (int \<times> int) option" where
  "ticksInKey key =
     (case get_vec key of
        None \<Rightarrow> None
      | Some vs \<Rightarrow> (case List.map_filter get_i32 vs of [lo, hi] \<Rightarrow> Some (lo, hi) | _ \<Rightarrow> None))"

definition aq_positionKey :: "amm_position_state \<Rightarrow> string" where
  "aq_positionKey p = po_PoolContractID p @ ''|'' @ po_Address p @ ''|'' @ show_int (po_TickLower p) @ ''|'' @ show_int (po_TickUpper p)"

definition aq_fields :: "scval \<Rightarrow> string \<rightharpoonup> scval" where
  "aq_fields v =
     (case get_map v of
        None \<Rightarrow> Map.empty
      | Some es \<Rightarrow> foldl (\<lambda>m (k, x). m(to_lower (symbolOrFirst k) \<mapsto> x)) Map.empty es)"

definition decodeReserves :: "sdk \<Rightarrow> amm_token_reserve list \<Rightarrow> scval \<Rightarrow> amm_token_reserve list" where
  "decodeReserves S old v =
     (case get_vec v of
        None \<Rightarrow> old
      | Some vs \<Rightarrow> map (\<lambda>(i, x).
          (let r = (if i < length old then old ! i else zero_amm_token_reserve) in
           if addr S x \<noteq> '''' then r\<lparr>tr_AssetID := addr S x\<rparr> else r\<lparr>tr_ReserveRaw := firstUint x\<rparr>))
          (List.enumerate 0 vs))"

definition decodeSlot0 :: "scval \<Rightarrow> amm_pool_state \<Rightarrow> amm_pool_state" where
  "decodeSlot0 v p =
     (let f = aq_fields v; liq = firstUint (field f ''active_liquidity'') in
      p\<lparr>ps_SqrtPriceX96 := firstUint (field f ''sqrt_price_x96''),
        ps_CurrentTick := sscan_int32 (firstUint (field f ''tick'')) (ps_CurrentTick p),
        ps_ActiveLiquidityRaw := (if liq \<noteq> '''' then liq else ps_ActiveLiquidityRaw p)\<rparr>)"

text \<open>The position of an entry, and whether it may be stored.\<close>

definition decodePosition :: "sdk \<Rightarrow> string \<Rightarrow> scval \<Rightarrow> scval \<Rightarrow> amm_position_state \<times> bool" where
  "decodePosition S pool key val =
     (let f = aq_fields val; fld = (\<lambda>k. firstUint (field f k));
          p = zero_amm_position_state\<lparr>po_PoolContractID := pool, po_Address := aq_addrInKey S key,
            po_SharesRaw := or_text (fld ''shares'') (firstUint val), po_LiquidityRaw := fld ''liquidity'',
            po_SqrtPriceLowerX96 := fld ''sqrt_price_lower_x96'', po_SqrtPriceUpperX96 := fld ''sqrt_price_upper_x96'',
            po_TickLower := sscan_int32 (fld ''tick_lower'') 0, po_TickUpper := sscan_int32 (fld ''tick_upper'') 0,
            po_PendingFee0Raw := fld ''tokens_owed_0'', po_PendingFee1Raw := fld ''tokens_owed_1''\<rparr>
      in if symbolOrFirst key \<noteq> ''Position'' then (p, po_Address p \<noteq> '''')
      else (case ticksInKey key of
          None \<Rightarrow> (p, False)
        | Some (lo, hi) \<Rightarrow>
            (p\<lparr>po_TickLower := lo, po_TickUpper := hi,
               po_SqrtPriceLowerX96 := or_text (po_SqrtPriceLowerX96 p)
                 (case tickSqrtPriceX96 lo of None \<Rightarrow> '''' | Some x \<Rightarrow> x),
               po_SqrtPriceUpperX96 := or_text (po_SqrtPriceUpperX96 p)
                 (case tickSqrtPriceX96 hi of None \<Rightarrow> '''' | Some x \<Rightarrow> x)\<rparr>, po_Address p \<noteq> '''')))"

text \<open>The reward checkpoint of the last account (not contract) named in the key.\<close>

definition decodeRewardPosition :: "sdk \<Rightarrow> string \<Rightarrow> scval \<Rightarrow> scval \<Rightarrow> amm_position_state option" where
  "decodeRewardPosition S pool key val =
     (let accounts = (case get_vec key of None \<Rightarrow> [] | Some vs \<Rightarrow> filter (\<lambda>a. take 1 a = ''G'') (map (addr S) vs));
          f = aq_fields val;
          p = zero_amm_position_state\<lparr>po_PoolContractID := pool, po_Address := (if accounts = [] then '''' else last accounts),
            po_PendingRewardRaw := firstUint (field f ''to_claim''),
            po_RewardPoolAccumulatedRaw := firstUint (field f ''pool_accumulated'')\<rparr>
      in if po_Address p \<noteq> '''' then Some p else None)"

definition aq_assetMetadata :: "string \<Rightarrow> scval \<Rightarrow> scval \<Rightarrow> amm_asset_metadata option" where
  "aq_assetMetadata i key val =
     (if to_lower (symbolOrFirst key) \<noteq> ''metadata'' then None
      else let f = aq_fields val;
               d = sscan_int32 (firstUint (field f ''decimal'')) 0;
               m = zero_amm_asset_metadata\<lparr>aa_ContractID := i, aa_Name := symbolOrFirst (field f ''name''),
                     aa_Symbol := symbolOrFirst (field f ''symbol''),
                     aa_Decimals := (if d = 0 then sscan_int32 (firstUint (field f ''decimals'')) d else d)\<rparr>
           in if aa_Symbol m \<noteq> '''' then Some m else None)"

definition decodePoolInstance :: "sdk \<Rightarrow> scval \<Rightarrow> amm_pool_state \<Rightarrow> amm_pool_state" where
  "decodePoolInstance S v p =
     (let f = aq_fields v;
          upd = (\<lambda>k g p. if sc_type_nonzero (field f k) then g (field f k) p else p);
          p = upd ''pool_type'' (\<lambda>x p. p\<lparr>ps_PoolType := to_lower (symbolOrFirst x)\<rparr>) p;
          p = upd ''fee'' (\<lambda>x p. p\<lparr>ps_FeeFractionRaw := firstUint x\<rparr>) p;
          p = upd ''a'' (\<lambda>x p. p\<lparr>ps_AmplificationRaw := firstUint x\<rparr>) p;
          p = upd ''tick_spacing'' (\<lambda>x p. p\<lparr>ps_TickSpacing := sscan_int32 (firstUint x) (ps_TickSpacing p)\<rparr>) p;
          p = upd ''pool_hash'' (\<lambda>x p. case x of ScBytes b \<Rightarrow> p\<lparr>ps_PoolHash := hex_encode b\<rparr> | _ \<Rightarrow> p) p
      in upd ''tokens'' (\<lambda>x p. p\<lparr>ps_Tokens := decodeReserves S (ps_Tokens p) x\<rparr>) p)"

section \<open>The instance of a pool\<close>

text \<open>
  The pool under construction, the token array the copy in the pool map still refers to, whether
  both are the same array, the share tokens found so far and the ends of an amplification ramp.
  \<open>G\<close> says for a token slice whether growing it stays inside its array, which the Go runtime
  decides.
\<close>

record aq_inst =
  ai_pool :: amm_pool_state
  ai_old :: "amm_token_reserve list"
  ai_shared :: bool
  ai_shares :: "string \<rightharpoonup> string"
  ai_initialA :: string
  ai_futureA :: string

definition ai_map :: "(amm_pool_state \<Rightarrow> amm_pool_state) \<Rightarrow> aq_inst \<Rightarrow> aq_inst" where
  "ai_map f s = s\<lparr>ai_pool := f (ai_pool s)\<rparr>"

text \<open>Writing an element in place also writes the array of the old copy.\<close>

definition ai_upsert :: "(amm_token_reserve list \<Rightarrow> bool) \<Rightarrow> nat \<Rightarrow> string \<Rightarrow> string \<Rightarrow> aq_inst \<Rightarrow> aq_inst" where
  "ai_upsert G i asset reserve s =
     (let ts = ps_Tokens (ai_pool s);
          shared = ai_shared s \<and> (i < length ts \<or> G ts)
      in s\<lparr>ai_pool := (ai_pool s)\<lparr>ps_Tokens := upsertToken ts i asset reserve\<rparr>,
           ai_old := (if shared \<and> i < length (ai_old s) then upsertToken (ai_old s) i asset reserve else ai_old s),
           ai_shared := shared\<rparr>)"

text \<open>Decoding a whole column makes a new array.\<close>

definition ai_reserves :: "sdk \<Rightarrow> scval \<Rightarrow> aq_inst \<Rightarrow> aq_inst" where
  "ai_reserves S v s =
     s\<lparr>ai_pool := (ai_pool s)\<lparr>ps_Tokens := decodeReserves S (ps_Tokens (ai_pool s)) v\<rparr>,
       ai_shared := (ai_shared s \<and> get_vec v = None)\<rparr>"

definition ai_entry :: "sdk \<Rightarrow> (amm_token_reserve list \<Rightarrow> bool) \<Rightarrow> string \<Rightarrow> scval \<times> scval \<Rightarrow> aq_inst \<Rightarrow> aq_inst" where
  "ai_entry S G cid entry s =
     (case entry of (k, v) \<Rightarrow>
       let key = to_lower (symbolOrFirst k); n = firstUint v; f = aq_fields v in
       if key \<in> {''pool_type'', ''type''} then ai_map (\<lambda>p. p\<lparr>ps_PoolType := to_lower (symbolOrFirst v)\<rparr>) s
       else if key = ''router'' then ai_map (\<lambda>p. p\<lparr>ps_RouterContract := addr S v\<rparr>) s
       else if key \<in> {''tokena'', ''token0''} then ai_upsert G 0 (addr S v) '''' s
       else if key \<in> {''tokenb'', ''token1''} then ai_upsert G 1 (addr S v) '''' s
       else if key \<in> {''reservea'', ''reserve0''} then ai_upsert G 0 '''' n s
       else if key \<in> {''reserveb'', ''reserve1''} then ai_upsert G 1 '''' n s
       else if key = ''tickspacing'' then ai_map (\<lambda>p. p\<lparr>ps_TickSpacing := sscan_int32 n (ps_TickSpacing p)\<rparr>) s
       else if key = ''liquidity'' then ai_map (\<lambda>p. p\<lparr>ps_ActiveLiquidityRaw := n\<rparr>) s
       else if key = ''tokenshare'' then (if addr S v \<noteq> '''' then s\<lparr>ai_shares := (ai_shares s)(addr S v \<mapsto> cid)\<rparr> else s)
       else if key \<in> {''tokens'', ''reserves''} then ai_reserves S v s
       else if key \<in> {''totalshares'', ''total_shares''} then ai_map (\<lambda>p. p\<lparr>ps_TotalSharesRaw := n\<rparr>) s
       else if key \<in> {''feefraction'', ''fee''} then ai_map (\<lambda>p. p\<lparr>ps_FeeFractionRaw := n\<rparr>) s
       else if key = ''protocolfeefraction'' then ai_map (\<lambda>p. p\<lparr>ps_ProtocolFeeFractionRaw := n\<rparr>) s
       else if key = ''poolrewardconfig'' then ai_map (\<lambda>p. p\<lparr>ps_RewardTpsRaw := firstUint (field f ''tps''),
         ps_RewardExpiredAtRaw := firstUint (field f ''expired_at'')\<rparr>) s
       else if key = ''poolrewarddata'' then ai_map (\<lambda>p. p\<lparr>ps_RewardAccumulatedRaw := firstUint (field f ''accumulated''),
         ps_RewardLastTimeRaw := firstUint (field f ''last_time'')\<rparr>) s
       else if key = ''workingsupply'' then ai_map (\<lambda>p. p\<lparr>ps_WorkingSupplyRaw := n\<rparr>) s
       else if key = ''rewardtoken'' then ai_map (\<lambda>p. p\<lparr>ps_RewardTokenID := addr S v\<rparr>) s
       else if key = ''a'' then ai_map (\<lambda>p. p\<lparr>ps_AmplificationRaw := n\<rparr>) s
       else if key = ''initiala'' then s\<lparr>ai_initialA := n\<rparr>
       else if key = ''futurea'' then s\<lparr>ai_futureA := n\<rparr>
       else if key = ''feegrowthglobal0x128'' then ai_map (\<lambda>p. p\<lparr>ps_FeeGrowthGlobal0X128 := n\<rparr>) s
       else if key = ''feegrowthglobal1x128'' then ai_map (\<lambda>p. p\<lparr>ps_FeeGrowthGlobal1X128 := n\<rparr>) s
       else if key = ''slot0'' then ai_map (decodeSlot0 v) s
       else s)"

text \<open>A ramp whose ends agree is settled; a pool inside a ramp has no single amplification.\<close>

definition ai_ramp :: "aq_inst \<Rightarrow> aq_inst" where
  "ai_ramp s =
     (if ai_initialA s \<noteq> '''' \<and> ai_futureA s \<noteq> ''''
      then ai_map (\<lambda>p. p\<lparr>ps_AmplificationRaw := (if ai_initialA s = ai_futureA s then ai_initialA s else '''')\<rparr>) s
      else s)"

definition ai_instance :: "sdk \<Rightarrow> (amm_token_reserve list \<Rightarrow> bool) \<Rightarrow> string \<Rightarrow> scval \<Rightarrow> aq_inst \<Rightarrow> aq_inst" where
  "ai_instance S G cid val s =
     (case get_instance val of
        None \<Rightarrow> s
      | Some (hash, storage) \<Rightarrow>
          (let s = (case hash of None \<Rightarrow> s | Some h \<Rightarrow> ai_map (\<lambda>p. p\<lparr>ps_WasmHash := hex_encode h\<rparr>) s)
           in ai_ramp (run (ai_entry S G cid) (case storage of None \<Rightarrow> [] | Some es \<Rightarrow> es) s)))"

section \<open>Positions\<close>

record aq_work =
  aqw_pools :: "(string, amm_pool_state) gmap"
  aqw_positions :: "(string, amm_position_state) gmap"
  aqw_assets :: "amm_asset_metadata list"
  aqw_shares :: "string \<rightharpoonup> string"
  aqw_diagnostics :: "decode_diagnostic list"

definition aq_put :: "amm_position_state \<Rightarrow> aq_work \<Rightarrow> aq_work" where
  "aq_put pos w = w\<lparr>aqw_positions := gm_set (aq_positionKey pos) pos (aqw_positions w)\<rparr>"

text \<open>The stored position under the key of \<open>pos\<close>, or \<open>pos\<close> itself.\<close>

definition aq_current :: "amm_position_state \<Rightarrow> aq_work \<Rightarrow> amm_position_state" where
  "aq_current pos w = (case gm_get (aqw_positions w) (aq_positionKey pos) of None \<Rightarrow> pos | Some cur \<Rightarrow> cur)"

definition upsertClassicShares :: "string \<Rightarrow> string \<Rightarrow> string \<Rightarrow> aq_work \<Rightarrow> aq_work" where
  "upsertClassicShares poolID owner shares w =
     (let pos = aq_current (zero_amm_position_state\<lparr>po_Address := owner, po_PoolContractID := poolID\<rparr>) w;
          pos = pos\<lparr>po_SharesRaw := shares\<rparr>;
          k = aq_positionKey (zero_amm_position_state\<lparr>po_Address := owner, po_PoolContractID := poolID\<rparr>)
      in w\<lparr>aqw_positions := gm_set k (if shares \<noteq> ''0'' then pos\<lparr>po_HadShares := True\<rparr> else pos) (aqw_positions w)\<rparr>)"

definition diagMissingTickBounds :: string where
  "diagMissingTickBounds = ''aquarius_position_missing_tick_bounds''"

definition aq_working :: "sdk \<Rightarrow> string \<Rightarrow> scval \<Rightarrow> scval \<Rightarrow> aq_work \<Rightarrow> aq_work" where
  "aq_working S cid key val w =
     (let owner = aq_addrInKey S key; weight = firstUint val;
          probe = zero_amm_position_state\<lparr>po_PoolContractID := cid, po_Address := owner\<rparr>
      in if owner \<noteq> '''' \<and> weight \<noteq> ''''
         then w\<lparr>aqw_positions := gm_set (aq_positionKey probe) ((aq_current probe w)\<lparr>po_WorkingBalanceRaw := weight\<rparr>)
                  (aqw_positions w)\<rparr>
         else w)"

text \<open>A missing entry and one without an address are the zero value to the code.\<close>

definition aq_refreshed :: "amm_position_state \<Rightarrow> aq_work \<Rightarrow> amm_position_state" where
  "aq_refreshed pos w =
     (let cur = aq_current pos w;
          cur = (if po_Address cur = '''' then pos else cur\<lparr>po_SharesRaw := po_SharesRaw pos, po_LiquidityRaw := po_LiquidityRaw pos,
            po_SqrtPriceLowerX96 := po_SqrtPriceLowerX96 pos, po_SqrtPriceUpperX96 := po_SqrtPriceUpperX96 pos,
            po_TickLower := po_TickLower pos, po_TickUpper := po_TickUpper pos,
            po_PendingFee0Raw := po_PendingFee0Raw pos, po_PendingFee1Raw := po_PendingFee1Raw pos\<rparr>)
      in if (po_SharesRaw cur \<noteq> '''' \<and> po_SharesRaw cur \<noteq> ''0'') \<or> (po_LiquidityRaw cur \<noteq> '''' \<and> po_LiquidityRaw cur \<noteq> ''0'')
         then cur\<lparr>po_HadShares := True\<rparr> else cur)"

definition aq_position :: "sdk \<Rightarrow> string \<Rightarrow> int \<Rightarrow> scval \<Rightarrow> scval \<Rightarrow> aq_work \<Rightarrow> aq_work" where
  "aq_position S cid ledger key val w =
     (case decodePosition S cid key val of (pos, ok) \<Rightarrow>
       if ok then aq_put (aq_refreshed pos w) w
       else if symbolOrFirst key = ''Position'' \<and> po_Address pos \<noteq> ''''
       then w\<lparr>aqw_diagnostics := aqw_diagnostics w @ [zero_decode_diagnostic\<lparr>dd_Code := diagMissingTickBounds,
              dd_LedgerSeq := ledger, dd_PoolContractID := cid, dd_Address := po_Address pos\<rparr>]\<rparr>
       else w)"

definition aq_reward :: "sdk \<Rightarrow> string \<Rightarrow> scval \<Rightarrow> scval \<Rightarrow> aq_work \<Rightarrow> aq_work" where
  "aq_reward S cid key val w =
     (case decodeRewardPosition S cid key val of
        None \<Rightarrow> w
      | Some pos \<Rightarrow>
          (let cur = aq_current pos w; cur = (if po_Address cur = '''' then pos else cur)
           in aq_put (cur\<lparr>po_PendingRewardRaw := po_PendingRewardRaw pos,
                po_RewardPoolAccumulatedRaw := po_RewardPoolAccumulatedRaw pos\<rparr>) w))"

text \<open>Entries addressed by their name.\<close>

definition aq_named ::
  "sdk \<Rightarrow> string \<Rightarrow> int \<Rightarrow> scval \<Rightarrow> scval \<Rightarrow> aq_inst \<times> aq_work \<Rightarrow> aq_inst \<times> aq_work" where
  "aq_named S cid ledger key val sw =
     (case sw of (s, w) \<Rightarrow>
       let name = to_lower (symbolOrFirst key); n = firstUint val in
       if name \<in> {''instance'', ''pool'', ''config''} then
         (let p = decodePoolInstance S val (ai_pool s);
              fresh = (case field (aq_fields val) ''tokens'' of ScVec (Some _) \<Rightarrow> True | _ \<Rightarrow> False)
          in (s\<lparr>ai_pool := p, ai_shared := ai_shared s \<and> \<not> fresh\<rparr>, w))
       else if name \<in> {''reserves'', ''reserve''} then (ai_reserves S val s, w)
       else if name \<in> {''totalshares'', ''total_shares'', ''shares''} then (ai_map (\<lambda>p. p\<lparr>ps_TotalSharesRaw := n\<rparr>) s, w)
       else if name \<in> {''slot0'', ''pool_state''} then (ai_map (decodeSlot0 val) s, w)
       else if name = ''active_liquidity'' then (ai_map (\<lambda>p. p\<lparr>ps_ActiveLiquidityRaw := n\<rparr>) s, w)
       else if name = ''workingbalance'' then (s, aq_working S cid key val w)
       else if name \<in> {''position'', ''positions'', ''balance''} then (s, aq_position S cid ledger key val w)
       else if name = ''userrewarddata'' then (s, aq_reward S cid key val w)
       else (s, if addr S key \<noteq> '''' \<and> n \<noteq> '''' then upsertClassicShares cid (addr S key) n w else w))"

section \<open>DecodeState\<close>

text \<open>
  Storing the pool: dropped when its wasm is unknown or nothing identifies it as a pool.  A pool
  that is dropped leaves the old copy, with whatever was written through the shared array.
\<close>

definition aq_typed :: "aq_config \<Rightarrow> amm_pool_state \<Rightarrow> amm_pool_state option" where
  "aq_typed cfg p =
     (let checked = (if ps_WasmHash p = '''' then Some p
            else (case gm_get (aqc_PoolWasmHashes cfg) (to_lower (ps_WasmHash p)) of
                Some typ \<Rightarrow> Some (if ps_PoolType p = '''' then p\<lparr>ps_PoolType := typ\<rparr> else p)
              | None \<Rightarrow> if aqc_AllowUnknownWasm cfg then Some p else None))
      in case checked of
           None \<Rightarrow> None
         | Some p \<Rightarrow>
             (let ts = ps_Tokens p;
                  p = (if ps_PoolType p = '''' \<and> length ts = 2 \<and> tr_ReserveRaw (ts ! 0) \<noteq> '''' \<and> tr_ReserveRaw (ts ! 1) \<noteq> ''''
                       then p\<lparr>ps_PoolType := ''volatile''\<rparr> else p)
              in if ps_PoolType p \<noteq> '''' \<or> ps_Tokens p \<noteq> [] then Some p else None))"

definition aq_store :: "aq_config \<Rightarrow> string \<Rightarrow> aq_inst \<Rightarrow> (string, amm_pool_state) gmap \<Rightarrow> (string, amm_pool_state) gmap" where
  "aq_store cfg cid s pools =
     (case aq_typed cfg (ai_pool s) of
        Some p \<Rightarrow> gm_set cid p pools
      | None \<Rightarrow> (case gm_get pools cid of
            None \<Rightarrow> pools | Some old \<Rightarrow> gm_set cid (old\<lparr>ps_Tokens := ai_old s\<rparr>) pools))"

definition aq_pool_change ::
  "sdk \<Rightarrow> (amm_token_reserve list \<Rightarrow> bool) \<Rightarrow> aq_adapter \<Rightarrow> int \<Rightarrow> string \<Rightarrow> scval \<Rightarrow> scval \<Rightarrow> aq_work \<Rightarrow> aq_work" where
  "aq_pool_change S G a ledger cid key val w =
     (let p = (case gm_get (aqw_pools w) cid of None \<Rightarrow> zero_amm_pool_state | Some p \<Rightarrow> p);
          p = p\<lparr>ps_Protocol := aq_Protocol a, ps_ContractID := cid\<rparr>;
          s = \<lparr>ai_pool = p, ai_old = ps_Tokens p, ai_shared = True, ai_shares = aqw_shares w, ai_initialA = '''', ai_futureA = ''''\<rparr>
      in case aq_named S cid ledger key val (ai_instance S G cid val s, w) of
           (s, w) \<Rightarrow> w\<lparr>aqw_shares := ai_shares s, aqw_pools := aq_store (aqa_cfg a) cid s (aqw_pools w)\<rparr>)"

definition aq_expired :: "contract_data_change \<Rightarrow> int \<Rightarrow> bool" where
  "aq_expired c ledger \<longleftrightarrow> cd_ValueXDR c = None \<or> \<not> cd_Live c
     \<or> (case cd_LiveUntilLedgerSeq c of None \<Rightarrow> False | Some l \<Rightarrow> l < to_uint32 ledger)"

text \<open>A removed per-user entry closes that leg; anything else takes the pool and its positions.\<close>

definition aq_close :: "(amm_position_state \<Rightarrow> amm_position_state) \<Rightarrow> amm_position_state \<Rightarrow> aq_work \<Rightarrow> aq_work" where
  "aq_close f probe w =
     (if po_Address probe = '''' then w
      else (case gm_get (aqw_positions w) (aq_positionKey probe) of
          None \<Rightarrow> w | Some cur \<Rightarrow> w\<lparr>aqw_positions := gm_set (aq_positionKey probe) (f cur) (aqw_positions w)\<rparr>))"

definition zero_leg :: "amm_position_state \<Rightarrow> amm_position_state" where
  "zero_leg p = p\<lparr>po_SharesRaw := ''0'', po_LiquidityRaw := ''0'', po_Principal0Raw := '''', po_Principal1Raw := '''',
     po_PendingFee0Raw := '''', po_PendingFee1Raw := ''''\<rparr>"

definition zero_reward :: "amm_position_state \<Rightarrow> amm_position_state" where
  "zero_reward p = p\<lparr>po_PendingRewardRaw := ''0'', po_RewardPoolAccumulatedRaw := ''''\<rparr>"

definition applyEntryRemoval :: "sdk \<Rightarrow> contract_data_change \<Rightarrow> aq_work \<Rightarrow> aq_work" where
  "applyEntryRemoval S c w =
     (let cid = cd_ContractID c;
          poolID = (case aqw_shares w cid of None \<Rightarrow> cid | Some pool \<Rightarrow> pool);
          gone = w\<lparr>aqw_pools := gm_del cid (aqw_pools w),
            aqw_positions := filter (\<lambda>(k, p). po_PoolContractID p \<noteq> cid) (aqw_positions w)\<rparr>
      in case decodeVal S (cd_KeyXDR c) of
           None \<Rightarrow> gone
         | Some key \<Rightarrow>
             (let name = to_lower (symbolOrFirst key);
                  probe = zero_amm_position_state\<lparr>po_PoolContractID := poolID, po_Address := aq_addrInKey S key\<rparr>
              in if name \<in> {''balance'', ''position'', ''positions''} then
                   aq_close zero_leg (case ticksInKey key of
                     None \<Rightarrow> probe | Some (lo, hi) \<Rightarrow> probe\<lparr>po_TickLower := lo, po_TickUpper := hi\<rparr>) w
                 else if name = ''userrewarddata'' then aq_close zero_reward probe w
                 else if name \<in> {''workingbalance'', ''user''} then w
                 else gone))"

definition aq_step ::
  "sdk \<Rightarrow> (amm_token_reserve list \<Rightarrow> bool) \<Rightarrow> aq_adapter \<Rightarrow> int \<Rightarrow> contract_data_change \<Rightarrow> aq_work \<Rightarrow> aq_work" where
  "aq_step S G a ledger c w =
     (let cid = cd_ContractID c in
      if \<not> aq_OwnsContract (a\<lparr>aqa_shareTokens := aqw_shares w\<rparr>) cid then w
      else if aq_expired c ledger then applyEntryRemoval S c w
      else (case decodeVal S (the (cd_ValueXDR c)) of
          None \<Rightarrow> w
        | Some val \<Rightarrow>
            (let key = (case decodeVal S (cd_KeyXDR c) of None \<Rightarrow> sc_zero | Some k \<Rightarrow> k) in
             case aqw_shares w cid of
               Some poolID \<Rightarrow>
                 if to_lower (symbolOrFirst key) = ''balance'' \<and> aq_addrInKey S key \<noteq> '''' \<and> firstUint val \<noteq> ''''
                 then upsertClassicShares poolID (aq_addrInKey S key) (firstUint val) w else w
             | None \<Rightarrow>
                 if cid \<in> aqa_assets a then
                   (case aq_assetMetadata cid key val of
                      None \<Rightarrow> w | Some m \<Rightarrow> w\<lparr>aqw_assets := upsertAsset (aqw_assets w) m\<rparr>)
                 else aq_pool_change S G a ledger cid key val w)))"

text \<open>Seeds fill what no decode has observed.\<close>

definition seed_pool :: "aq_adapter \<Rightarrow> pool_seed \<Rightarrow> amm_pool_state \<Rightarrow> amm_pool_state" where
  "seed_pool a seed p =
     (let p = p\<lparr>ps_Protocol := or_text (ps_Protocol p) (aq_Protocol a),
            ps_RouterContract := or_text (ps_RouterContract p) (sd_RouterContract seed),
            ps_PoolHash := or_text (ps_PoolHash p) (sd_PoolHash seed), ps_PoolType := or_text (ps_PoolType p) (sd_PoolType seed)\<rparr>;
          ts = foldl (\<lambda>ts (i, t). if t = '''' then ts else upsertToken ts i t '''') (ps_Tokens p) (List.enumerate 0 (sd_Tokens seed));
          ts = foldl (\<lambda>ts (i, r). if r = '''' then ts
                 else if i < length ts \<and> tr_ReserveRaw (ts ! i) = '''' then upsertToken ts i '''' r else ts)
               ts (List.enumerate 0 (sd_ReservesRaw seed))
      in p\<lparr>ps_Tokens := ts, ps_TotalSharesRaw := or_text (ps_TotalSharesRaw p) (sd_TotalSharesRaw seed),
           ps_FeeFractionRaw := or_text (ps_FeeFractionRaw p) (sd_FeeFractionRaw seed),
           ps_ProtocolFeeFractionRaw := or_text (ps_ProtocolFeeFractionRaw p) (sd_ProtocolFeeFractionRaw seed)\<rparr>)"

definition seed_position :: "string \<Rightarrow> pool_seed_position \<Rightarrow> aq_work \<Rightarrow> aq_work" where
  "seed_position cid sp w =
     (let pos = zero_amm_position_state\<lparr>po_Address := sp_Address sp, po_PoolContractID := cid\<rparr>; cur = aq_current pos w in
      if trim_space (sp_Address sp) = '''' then w
      else w\<lparr>aqw_positions := gm_set (aq_positionKey pos) (cur\<lparr>po_SharesRaw := or_text (po_SharesRaw cur) (sp_SharesRaw sp),
        po_PendingRewardRaw := or_text (po_PendingRewardRaw cur) (sp_PendingRewardRaw sp)\<rparr>) (aqw_positions w)\<rparr>)"

definition apply_seed :: "aq_adapter \<Rightarrow> pool_seed \<Rightarrow> aq_work \<Rightarrow> aq_work" where
  "apply_seed a seed w =
     (let cid = sd_ContractID seed;
          p = (case gm_get (aqw_pools w) cid of
                 None \<Rightarrow> zero_amm_pool_state\<lparr>ps_Protocol := aq_Protocol a, ps_ContractID := cid\<rparr> | Some p \<Rightarrow> p)
      in if trim_space cid = '''' then w
         else run (seed_position cid) (sd_Positions seed) (w\<lparr>aqw_pools := gm_set cid (seed_pool a seed p) (aqw_pools w)\<rparr>))"

definition applyPoolSeeds :: "aq_adapter \<Rightarrow> aq_work \<Rightarrow> aq_work" where
  "applyPoolSeeds a w = run (apply_seed a) (aqc_PoolSeeds (aqa_cfg a)) w"

definition aq_start :: "aq_adapter \<Rightarrow> ledger_state \<Rightarrow> aq_work" where
  "aq_start a s = applyPoolSeeds a \<lparr>aqw_pools = gm.load ps_ContractID (\<lambda>p. p) (ls_AMMPools s) [],
     aqw_positions = gm.load aq_positionKey (\<lambda>p. p) (ls_AMMPositions s) [],
     aqw_assets = ls_AMMAssets s, aqw_shares = aqa_shareTokens a, aqw_diagnostics = []\<rparr>"

definition aq_finish :: "ledger_state \<Rightarrow> aq_work \<Rightarrow> ledger_state" where
  "aq_finish s w = s\<lparr>ls_AMMAssets := aqw_assets w, ls_AMMPools := sort_key ps_ContractID (map snd (aqw_pools w)),
     ls_AMMPositions := sort_key aq_positionKey (map snd (aqw_positions w))\<rparr>"

definition aq_DecodeState ::
  "sdk \<Rightarrow> (amm_token_reserve list \<Rightarrow> bool) \<Rightarrow> aq_adapter \<Rightarrow> ledger_state option \<Rightarrow> contract_data_change list \<Rightarrow> int
   \<Rightarrow> aq_adapter \<times> ledger_state" where
  "aq_DecodeState S G a prior changes ledger =
     (let next = cloneState prior; w = run (aq_step S G a ledger) changes (aq_start a next)
      in (a\<lparr>aqa_shareTokens := aqw_shares w, aqa_diagnostics := aqw_diagnostics w\<rparr>, aq_finish next w))"

section \<open>Refused pools\<close>

text \<open>
  C31: A refused upgrade still changes the pool: when the instance of a known pool is written with a
  wasm hash that is not on the list, the change is to be ignored, and hash, type and every other
  field stay as they were - but a reserve the same write carries is already in the stored pool,
  because its token slice shares the array of the copy that is thrown away.
\<close>

theorem aq_refused_write_leaks:
  assumes "gm_get (aqw_pools w) cid = Some old" and "0 < length (ps_Tokens old)"
    and "ps_Protocol old = aq_Protocol a" "ps_ContractID old = cid"
    and "gm_get (aqc_PoolWasmHashes (aqa_cfg a)) (to_lower (hex_encode hash)) = None" and "\<not> aqc_AllowUnknownWasm (aqa_cfg a)"
    and "hex_encode hash \<noteq> ''''" and "firstUint v = n" "n \<noteq> ''''" and "symbolOrFirst key = ''''" "addr S key = ''''"
  shows "gm_get (aqw_pools (aq_pool_change S G a ledger cid key (ScInstance (Some hash) (Some [(ScSym ''Reserve0'', v)])) w)) cid
      = Some (old\<lparr>ps_Tokens := (ps_Tokens old)[0 := (ps_Tokens old ! 0)\<lparr>tr_ReserveRaw := n\<rparr>]\<rparr>)"
proof -
  let ?val = "ScInstance (Some hash) (Some [(ScSym ''Reserve0'', v)])"
  define s0 where "s0 = \<lparr>ai_pool = old, ai_old = ps_Tokens old, ai_shared = True, ai_shares = aqw_shares w, ai_initialA = '''', ai_futureA = ''''\<rparr>"
  have low: "to_lower ''Reserve0'' = ''reserve0''" "to_lower '''' = ''''" by code_simp+
  have same: "old\<lparr>ps_Protocol := aq_Protocol a, ps_ContractID := cid\<rparr> = old" using assms(3,4) by (cases old) simp
  have put: "upsertToken (ps_Tokens old) 0 '''' n = (ps_Tokens old)[0 := (ps_Tokens old ! 0)\<lparr>tr_ReserveRaw := n\<rparr>]"
    using assms(2,9) by (cases "ps_Tokens old") (simp_all add: upsertToken_def pad_tokens_def set_token_def Let_def)
  define s1 where "s1 = ai_instance S G cid ?val s0"
  have s1: "ps_WasmHash (ai_pool s1) = hex_encode hash" "ai_old s1 = upsertToken (ps_Tokens old) 0 '''' n"
    using assms(2,8) by (simp_all add: s1_def s0_def ai_instance_def ai_entry_def ai_map_def ai_upsert_def ai_ramp_def low Let_def)
  have "aq_named S cid ledger key ?val (s1, w) = (s1, w)"
    using assms(10,11) by (simp add: aq_named_def low)
  moreover have "aq_typed (aqa_cfg a) (ai_pool s1) = None"
    using assms(5-7) by (simp add: aq_typed_def s1 Let_def)
  ultimately have "aqw_pools (aq_pool_change S G a ledger cid key ?val w) = gm_set cid (old\<lparr>ps_Tokens := ai_old s1\<rparr>) (aqw_pools w)"
    using assms(1) by (simp add: aq_pool_change_def same s0_def [symmetric] s1_def [symmetric] aq_store_def Let_def)
  then show ?thesis by (simp add: gm.get_upd s1(2) put)
qed

section \<open>Seeds\<close>

lemma seed_position_pools: "aqw_pools (seed_position cid sp w) = aqw_pools w"
  by (simp add: seed_position_def Let_def)

lemma seed_positions_pools: "aqw_pools (run (seed_position cid) sps w) = aqw_pools w"
  by (induction sps arbitrary: w) (simp_all add: seed_position_pools)

lemma apply_seed_pools:
  "aqw_pools (apply_seed a seed w) =
     (if trim_space (sd_ContractID seed) = '''' then aqw_pools w
      else gm_set (sd_ContractID seed) (seed_pool a seed (case gm_get (aqw_pools w) (sd_ContractID seed) of
        None \<Rightarrow> zero_amm_pool_state\<lparr>ps_Protocol := aq_Protocol a, ps_ContractID := sd_ContractID seed\<rparr> | Some p \<Rightarrow> p)) (aqw_pools w))"
  by (simp add: apply_seed_def seed_positions_pools Let_def)

lemma seed_pool_id: "ps_ContractID (seed_pool a seed p) = ps_ContractID p"
  by (simp add: seed_pool_def Let_def)

text \<open>Every pool is stored under its own id, and no seed removes one.\<close>

definition pools_keyed :: "aq_work \<Rightarrow> bool" where
  "pools_keyed w \<longleftrightarrow> keyed ps_ContractID (aqw_pools w)"

lemma apply_seed_keyed: "pools_keyed w \<Longrightarrow> pools_keyed (apply_seed a seed w)"
  by (auto simp: pools_keyed_def apply_seed_pools seed_pool_id dest: keyed_get split: option.splits intro!: keyed_set)

lemma seeds_keyed: "pools_keyed w \<Longrightarrow> pools_keyed (applyPoolSeeds a w)"
  unfolding applyPoolSeeds_def by (rule run_inv) (auto intro: apply_seed_keyed)

lemma seeds_present:
  "seed \<in> set seeds \<Longrightarrow> trim_space (sd_ContractID seed) \<noteq> '''' \<Longrightarrow>
     gm_get (aqw_pools (run (apply_seed a) seeds w)) (sd_ContractID seed) \<noteq> None"
proof (induction seeds arbitrary: w rule: rev_induct)
  case (snoc x xs)
  then show ?case by (auto simp: run_append apply_seed_pools gm.get_upd)
qed simp

lemma seed_position_shares: "aqw_shares (seed_position cid sp w) = aqw_shares w"
  by (simp add: seed_position_def Let_def)

lemma seeds_shares: "aqw_shares (applyPoolSeeds a w) = aqw_shares w"
proof -
  have "aqw_shares (run (seed_position cid) sps u) = aqw_shares u" for cid sps u
    by (induction sps arbitrary: u) (simp_all add: seed_position_shares)
  then have "aqw_shares (apply_seed a seed u) = aqw_shares u" for seed u
    by (simp add: apply_seed_def Let_def)
  then have "aqw_shares (run (apply_seed a) seeds u) = aqw_shares u" for seeds u
    by (induction seeds arbitrary: u) simp_all
  then show ?thesis by (simp add: applyPoolSeeds_def)
qed

lemma start_keyed: "pools_keyed (aq_start a s)"
  unfolding aq_start_def by (rule seeds_keyed) (simp add: pools_keyed_def keyed_load)

lemma finish_pools: "pools_keyed w \<Longrightarrow> ps_ContractID ` set (ls_AMMPools (aq_finish s w)) = {cid. gm_get (aqw_pools w) cid \<noteq> None}"
  by (force simp: aq_finish_def pools_keyed_def keyed_def dest: gm_get_in in_gm_get)

text \<open>
  A removed pool comes back: when the instance entry of a configured pool is removed, the pool
  is gone from the decoded state of that ledger, but the next decode - of any ledger, even an
  empty one - restores it from its seed, which is meant for pools whose instance predates the
  decoded range.
\<close>

theorem aq_removed_pool_reseeded:
  assumes "seed \<in> set (aqc_PoolSeeds (aqa_cfg a))" and "trim_space (sd_ContractID seed) \<noteq> ''''"
    and "cd_ContractID c = sd_ContractID seed" and "aq_OwnsContract a (cd_ContractID c)" and "cd_ValueXDR c = None"
    and "decodeVal S (cd_KeyXDR c) = Some key" and "symbolOrFirst key = ''''"
  shows "cd_ContractID c \<notin> ps_ContractID ` set (ls_AMMPools (snd (aq_DecodeState S G a prior [c] ledger)))
    \<and> cd_ContractID c \<in> ps_ContractID ` set (ls_AMMPools (snd (aq_DecodeState S G
        (fst (aq_DecodeState S G a prior [c] ledger)) (Some (snd (aq_DecodeState S G a prior [c] ledger))) [] ledger')))"
proof -
  let ?w = "aq_start a (cloneState prior)"
  have shares: "aqw_shares ?w = aqa_shareTokens a" by (simp add: aq_start_def seeds_shares)
  have low: "to_lower '''' = ''''" by code_simp
  have "aqw_pools (aq_step S G a ledger c ?w) = gm_del (cd_ContractID c) (aqw_pools ?w)"
    using assms(4-7) by (simp add: aq_step_def shares aq_expired_def applyEntryRemoval_def low Let_def)
  then have one: "pools_keyed (aq_step S G a ledger c ?w)" "gm_get (aqw_pools (aq_step S G a ledger c ?w)) (cd_ContractID c) = None"
    using keyed_del [OF start_keyed [of a "cloneState prior", unfolded pools_keyed_def]] start_keyed [of a "cloneState prior"]
    by (simp_all add: pools_keyed_def keyed_def gm.get_del)
  let ?d = "aq_DecodeState S G a prior [c] ledger"
  have cfg: "aqa_cfg (fst ?d) = aqa_cfg a" by (simp add: aq_DecodeState_def Let_def)
  have "gm_get (aqw_pools (aq_start (fst ?d) (snd ?d))) (sd_ContractID seed) \<noteq> None"
    unfolding aq_start_def applyPoolSeeds_def cfg by (rule seeds_present [OF assms(1,2)])
  then have two: "cd_ContractID c \<in> ps_ContractID ` set (ls_AMMPools (aq_finish (snd ?d) (aq_start (fst ?d) (snd ?d))))"
    using assms(3) by (simp add: finish_pools [OF start_keyed])
  have "cd_ContractID c \<notin> ps_ContractID ` set (ls_AMMPools (snd ?d))"
    using one by (simp add: aq_DecodeState_def Let_def finish_pools)
  moreover have "snd (aq_DecodeState S G (fst ?d) (Some (snd ?d)) [] ledger') = aq_finish (snd ?d) (aq_start (fst ?d) (snd ?d))"
    by (simp add: aq_DecodeState_def [of S G "fst ?d"] cloneState_def Let_def)
  ultimately show ?thesis using two by simp
qed

section \<open>Removals\<close>




section \<open>Examples\<close>

definition aq_ex_pool :: amm_pool_state where
  "aq_ex_pool = zero_amm_pool_state\<lparr>ps_Protocol := ''aquarius'', ps_ContractID := ''P'', ps_WasmHash := ''00'',
     ps_Tokens := [zero_amm_token_reserve\<lparr>tr_AssetID := ''X'', tr_ReserveRaw := ''7''\<rparr>]\<rparr>"

definition aq_ex_seed :: pool_seed where
  "aq_ex_seed = \<lparr>sd_ContractID = ''P'', sd_RouterContract = ''R'', sd_PoolHash = '''', sd_PoolType = '''', sd_Tokens = [''X''],
     sd_ReservesRaw = [''7''], sd_TotalSharesRaw = ''9'', sd_FeeFractionRaw = '''', sd_ProtocolFeeFractionRaw = '''', sd_Positions = []\<rparr>"

definition aq_ex_adapter :: aq_adapter where
  "aq_ex_adapter = \<lparr>aqa_cfg = aq_DefaultConfig\<lparr>aqc_PoolSeeds := [aq_ex_seed]\<rparr>, aqa_contracts = {''P''}, aqa_assets = {},
     aqa_shareTokens = Map.empty, aqa_diagnostics = []\<rparr>"

definition aq_ex_work :: aq_work where
  "aq_ex_work = \<lparr>aqw_pools = [(''P'', aq_ex_pool)], aqw_positions = [], aqw_assets = [], aqw_shares = Map.empty, aqw_diagnostics = []\<rparr>"

theorem aq_refused_write_leaks_witness:
  "\<exists>p. gm_get (aqw_pools (aq_pool_change (example_sdk [] []) (\<lambda>_. True) aq_ex_adapter 1 ''P'' ScOther
      (ScInstance (Some ''h'') (Some [(ScSym ''Reserve0'', ScU64 5)])) aq_ex_work)) ''P'' = Some p
     \<and> ps_WasmHash p = ''00'' \<and> tr_ReserveRaw (ps_Tokens p ! 0) = ''5''"
proof -
  have h: "hex_encode ''h'' \<noteq> ''''" "firstUint (ScU64 5) = ''5''" "gm_get (aqw_pools aq_ex_work) ''P'' = Some aq_ex_pool" by code_simp+
  show ?thesis
    using aq_refused_write_leaks [where a = aq_ex_adapter and old = aq_ex_pool and hash = "''h''" and key = ScOther, OF h(3) _ _ _ _ _ h(1,2)]
    by (simp add: aq_ex_pool_def aq_ex_adapter_def aq_Protocol_def aq_DefaultConfig_def gm.get_nil)
qed

definition aq_ex_change :: contract_data_change where
  "aq_ex_change = zero_contract_data_change\<lparr>cd_ContractID := ''P'', cd_KeyXDR := ''aw==''\<rparr>"

theorem aq_removed_pool_reseeded_witness:
  "''P'' \<in> ps_ContractID ` set (ls_AMMPools (snd (aq_DecodeState (example_sdk [(''k'', ScOther)] []) (\<lambda>_. True)
     (fst (aq_DecodeState (example_sdk [(''k'', ScOther)] []) (\<lambda>_. True) aq_ex_adapter None [aq_ex_change] 1))
     (Some (snd (aq_DecodeState (example_sdk [(''k'', ScOther)] []) (\<lambda>_. True) aq_ex_adapter None [aq_ex_change] 1))) [] 2)))"
proof -
  have "decodeVal (example_sdk [(''k'', ScOther)] []) (cd_KeyXDR aq_ex_change) = Some ScOther"
    "aq_OwnsContract aq_ex_adapter ''P''" "trim_space ''P'' \<noteq> ''''" by code_simp+
  then show ?thesis
    using aq_removed_pool_reseeded [of aq_ex_seed aq_ex_adapter aq_ex_change "example_sdk [(''k'', ScOther)] []" ScOther "\<lambda>_. True" None 1 2]
    by (simp add: aq_ex_adapter_def aq_ex_seed_def aq_ex_change_def zero_contract_data_change_def)
qed





end
