(* ===== verification/Aquarius_Transform.thy ===== *)
theory Aquarius_Transform
  imports Aquarius_State
begin

text \<open>
  src/aquarius/transform.go: the rows of a decoded ledger - pools, position components, rewards -
  and the activities of its events, admitted by exact name and era.
\<close>

section \<open>Components\<close>

definition aq_component ::
  "string \<Rightarrow> amm_position_state \<Rightarrow> string \<Rightarrow> string \<Rightarrow> string \<Rightarrow> string \<Rightarrow> string \<Rightarrow> int option \<Rightarrow> int option
   \<Rightarrow> transform_input \<Rightarrow> bool \<Rightarrow> amm_position_component" where
  "aq_component grp p protocol asset kind amount shares lower upper i closed =
     (let metadata = [''price_unavailable'' \<mapsto> ''true'', ''apr_partial'' \<mapsto> ''true''];
          metadata = (if closed then metadata(''closed'' \<mapsto> ''true'') else metadata)
      in zero_amm_position_component\<lparr>pc_ID := stableID [grp, kind, asset], pc_PositionGroupID := grp,
           pc_Address := po_Address p, pc_Protocol := protocol, pc_PoolContractID := po_PoolContractID p,
           pc_ComponentKind := kind, pc_AssetID := asset, pc_AmountRaw := amount, pc_ShareAmountRaw := shares,
           pc_TickLower := lower, pc_TickUpper := upper, pc_LedgerSeq := ti_LedgerSeq i, pc_Timestamp := ti_CloseTime i,
           pc_Metadata := metadata\<rparr>)"

text \<open>The two principal amounts of a range: stored, or derived from its liquidity.\<close>

definition range_principals :: "amm_position_state \<Rightarrow> amm_pool_state \<Rightarrow> string \<times> string" where
  "range_principals p pool =
     (if po_Principal0Raw p = '''' \<and> po_Principal1Raw p = '''' \<and> po_LiquidityRaw p \<noteq> '''' \<and> ps_SqrtPriceX96 pool \<noteq> ''''
         \<and> po_SqrtPriceLowerX96 p \<noteq> '''' \<and> po_SqrtPriceUpperX96 p \<noteq> ''''
      then (case rangePrincipal (po_LiquidityRaw p) (ps_SqrtPriceX96 pool) (po_SqrtPriceLowerX96 p) (po_SqrtPriceUpperX96 p) of
          Inl _ \<Rightarrow> (po_Principal0Raw p, po_Principal1Raw p) | Inr xy \<Rightarrow> xy)
      else (po_Principal0Raw p, po_Principal1Raw p))"

definition nonzero_text :: "string \<Rightarrow> bool" where
  "nonzero_text x \<longleftrightarrow> x \<noteq> '''' \<and> x \<noteq> ''0''"

definition appendRangeComponents ::
  "string \<Rightarrow> amm_position_state \<Rightarrow> amm_pool_state \<Rightarrow> transform_input \<Rightarrow> amm_position_component list" where
  "appendRangeComponents grp p pool i =
     (let row = (\<lambda>k kind x shares closed. aq_component grp p (ps_Protocol pool) (tr_AssetID (ps_Tokens pool ! k)) kind x shares
            (Some (po_TickLower p)) (Some (po_TickUpper p)) i closed)
      in if length (ps_Tokens pool) < 2 then []
      else if po_LiquidityRaw p = ''0'' \<and> po_HadShares p
        then [row 0 ''range_principal'' ''0'' ''0'' True, row 1 ''range_principal'' ''0'' ''0'' True]
      else (case range_principals p pool of (x, y) \<Rightarrow>
        map (\<lambda>(k, v). row k ''range_principal'' v (po_LiquidityRaw p) False) (filter (\<lambda>(k, v). nonzero_text v) [(0, x), (1, y)]) @
        map (\<lambda>(k, v). row k ''unclaimed_fee'' v '''' False)
          (filter (\<lambda>(k, v). nonzero_text v) [(0, po_PendingFee0Raw p), (1, po_PendingFee1Raw p)])))"

definition aq_group :: "aq_adapter \<Rightarrow> amm_position_state \<Rightarrow> string" where
  "aq_group a pos = stableID [aq_Protocol a, po_Address pos, po_PoolContractID pos, show_int (po_TickLower pos), show_int (po_TickUpper pos)]"

text \<open>The shares of a classic position, one row or one quarantine entry per token.\<close>

definition classic_rows ::
  "aq_adapter \<Rightarrow> amm_position_state \<Rightarrow> amm_pool_state \<Rightarrow> transform_input \<Rightarrow> (quarantine_event + amm_position_component) list" where
  "classic_rows a pos pool i =
     (let grp = aq_group a pos in
      if nonzero_text (po_SharesRaw pos) then
        map (\<lambda>t. case aq_proRata (po_SharesRaw pos) (tr_ReserveRaw t) (ps_TotalSharesRaw pool) of
            Inl _ \<Rightarrow> Inl (zero_quarantine_event\<lparr>qe_ID := stableID [grp, tr_AssetID t, show_int (ti_LedgerSeq i)],
              qe_AdapterID := aq_ID a, qe_LedgerSeq := ti_LedgerSeq i, qe_ContractID := ps_ContractID pool,
              qe_Reason := ''invalid_lp_share_state''\<rparr>)
          | Inr amount \<Rightarrow> Inr (aq_component grp pos (aq_Protocol a) (tr_AssetID t) ''lp_principal'' amount (po_SharesRaw pos)
              None None i False)) (ps_Tokens pool)
      else if po_SharesRaw pos = ''0'' \<and> po_HadShares pos then
        map (\<lambda>t. Inr (aq_component grp pos (aq_Protocol a) (tr_AssetID t) ''lp_principal'' ''0'' ''0'' None None i True)) (ps_Tokens pool)
      else [])"

definition aq_reward_row :: "aq_adapter \<Rightarrow> amm_position_state \<Rightarrow> amm_pool_state \<Rightarrow> transform_input \<Rightarrow> amm_reward_row list" where
  "aq_reward_row a pos pool i =
     (let grp = aq_group a pos; pending = pendingReward pool pos (ti_CloseTime i) in
      if nonzero_text pending then
        [zero_amm_reward_row\<lparr>rw_ID := stableID [grp, ''aqua'', po_RewardTokenID pos], rw_PositionGroupID := grp,
           rw_Address := po_Address pos, rw_Protocol := aq_Protocol a, rw_PoolContractID := po_PoolContractID pos,
           rw_RewardTokenID := po_RewardTokenID pos, rw_RewardKind := ''aqua'', rw_AmountRaw := pending,
           rw_LedgerSeq := ti_LedgerSeq i, rw_Timestamp := ti_CloseTime i, rw_Metadata := [''price_unavailable'' \<mapsto> ''true'']\<rparr>]
      else [])"

text \<open>What one position adds: rows and rewards, or a quarantine entry when its pool is unknown.\<close>

definition aq_position_rows ::
  "aq_adapter \<Rightarrow> (string \<rightharpoonup> amm_pool_state) \<Rightarrow> transform_input \<Rightarrow> amm_position_state
   \<Rightarrow> (quarantine_event + amm_position_component) list \<times> amm_reward_row list" where
  "aq_position_rows a pools i pos =
     (case pools (po_PoolContractID pos) of
        None \<Rightarrow> ([Inl (zero_quarantine_event\<lparr>
            qe_ID := stableID [aq_ID a, po_PoolContractID pos, po_Address pos, show_int (ti_LedgerSeq i)],
            qe_AdapterID := aq_ID a, qe_LedgerSeq := ti_LedgerSeq i, qe_ContractID := po_PoolContractID pos,
            qe_Reason := ''aquarius_position_unknown_pool''\<rparr>)], [])
      | Some pool \<Rightarrow>
          (if ps_PoolType pool = ''concentrated'' then map Inr (appendRangeComponents (aq_group a pos) pos pool i)
           else classic_rows a pos pool i, aq_reward_row a pos pool i))"

definition aq_pool_row :: "aq_adapter \<Rightarrow> transform_input \<Rightarrow> amm_pool_state \<Rightarrow> amm_pool_row" where
  "aq_pool_row a i p = zero_amm_pool_row\<lparr>ap_Protocol := aq_Protocol a, ap_RouterContract := ps_RouterContract p,
     ap_PoolHash := ps_PoolHash p, ap_ContractID := ps_ContractID p, ap_PoolType := ps_PoolType p,
     ap_WasmHash := ps_WasmHash p, ap_Tokens := ps_Tokens p, ap_TotalSharesRaw := ps_TotalSharesRaw p,
     ap_FeeFractionRaw := ps_FeeFractionRaw p, ap_ProtocolFeeFractionRaw := ps_ProtocolFeeFractionRaw p,
     ap_AmplificationRaw := ps_AmplificationRaw p, ap_TickSpacing := ps_TickSpacing p,
     ap_SqrtPriceX96 := ps_SqrtPriceX96 p, ap_CurrentTick := ps_CurrentTick p,
     ap_ActiveLiquidityRaw := ps_ActiveLiquidityRaw p, ap_LedgerSeq := ti_LedgerSeq i, ap_Timestamp := ti_CloseTime i\<rparr>"

section \<open>The vocabulary of events\<close>

datatype event_class = Router | PoolCP | PoolStable | PoolConcentrated | ShareToken

fun class_name :: "event_class \<Rightarrow> string" where
  "class_name Router = ''router''"
| "class_name PoolCP = ''pool_cp''"
| "class_name PoolStable = ''pool_stable''"
| "class_name PoolConcentrated = ''pool_concentrated''"
| "class_name ShareToken = ''share_token''"

text \<open>Per class: each name with whether it is an activity and the first ledger it was seen in.\<close>

fun eventErasByClass :: "event_class \<Rightarrow> (string \<times> bool \<times> int) list" where
  "eventErasByClass Router =
     [(''add_pool'', True, 52728530), (''deposit'', True, 52728548), (''swap'', True, 52728694), (''withdraw'', True, 52728753),
      (''claim'', True, 53554212), (''config_rewards'', True, 53788765), (''commit_transfer_ownership'', False, 55363698),
      (''apply_transfer_ownership'', False, 55363729), (''set_privileged_addrs'', False, 55363632),
      (''commit_upgrade'', False, 56429464), (''apply_upgrade'', False, 56505099), (''set_protocol_fee'', False, 57711843),
      (''pool_gauge_switch_token'', False, 58787667)]"
| "eventErasByClass PoolCP =
     [(''deposit_liquidity'', True, 52728548), (''trade'', True, 52728694), (''withdraw_liquidity'', True, 52728753),
      (''claim_reward'', True, 55364200), (''update_reserves'', True, 57724992), (''kill_claim'', False, 53446148),
      (''unkill_claim'', False, 53553379), (''set_privileged_addrs'', False, 55363632),
      (''commit_transfer_ownership'', False, 55363698), (''apply_transfer_ownership'', False, 55363729),
      (''set_rewards_config'', False, 55363850), (''commit_upgrade'', False, 56429489), (''apply_upgrade'', False, 56505152),
      (''set_protocol_fee'', False, 57725741), (''claim_protocol_fee'', False, 57812875), (''rewards_gauge_add'', False, 58961340),
      (''rewards_gauge_schedule_reward'', False, 58961340), (''rewards_gauge_claim'', False, 58961606),
      (''reserves_sync'', False, 62338454), (''set_rewards_state'', False, 62460053)]"
| "eventErasByClass PoolStable =
     [(''deposit_liquidity'', True, 53721288), (''trade'', True, 53752457), (''withdraw_liquidity'', True, 54357611),
      (''claim_reward'', True, 55364553), (''update_reserves'', True, 57711655), (''set_privileged_addrs'', False, 55363632),
      (''commit_transfer_ownership'', False, 55363698), (''apply_transfer_ownership'', False, 55363729),
      (''set_rewards_config'', False, 55363874), (''commit_upgrade'', False, 56429464), (''apply_upgrade'', False, 56505116),
      (''set_protocol_fee'', False, 57711843), (''claim_protocol_fee'', False, 58023965)]"
| "eventErasByClass PoolConcentrated =
     [(''deposit_liquidity'', True, 62341770), (''pool_state'', True, 62341770), (''position_update'', True, 62341770),
      (''update_reserves'', True, 62341770), (''trade'', True, 62341787), (''withdraw_liquidity'', True, 62342165),
      (''claim_fees'', True, 62343467), (''claim_reward'', True, 62350500), (''commit_upgrade'', False, 62429301),
      (''claim_protocol_fee'', False, 62440492), (''apply_upgrade'', False, 62475394),
      (''enable_emergency_mode'', False, 62877434), (''disable_emergency_mode'', False, 62877804),
      (''set_rewards_state'', False, 63082253)]"
| "eventErasByClass ShareToken =
     [(''mint'', False, 53553264), (''burn'', False, 53555897), (''transfer'', False, 53738883), (''approve'', False, 60433173)]"

definition poolTypeEventClass :: "string \<Rightarrow> event_class option" where
  "poolTypeEventClass t =
     (if t = ''constant_product'' then Some PoolCP else if t = ''stable'' then Some PoolStable
      else if t = ''concentrated'' then Some PoolConcentrated else None)"

definition eventClass :: "aq_adapter \<Rightarrow> (string \<rightharpoonup> amm_pool_state) \<Rightarrow> string \<Rightarrow> event_class option" where
  "eventClass a pools cid =
     (if cid \<in> aqc_Routers (aqa_cfg a) then Some Router
      else if aqa_shareTokens a cid \<noteq> None then Some ShareToken
      else if cid \<in> aqa_assets a then Some ShareToken
      else (case pools cid of None \<Rightarrow> None | Some p \<Rightarrow> poolTypeEventClass (ps_PoolType p)))"

section \<open>Activities\<close>

definition eventAmount :: "scval \<Rightarrow> string" where
  "eventAmount v = (case v of
       ScI128 hi lo \<Rightarrow> newBig hi lo (sint hi < 0)
     | ScU128 hi lo \<Rightarrow> if drop_bit 63 hi \<noteq> 0 then '''' else newBig hi lo False
     | _ \<Rightarrow> '''')"

text \<open>Wallet, asset and amount from the fixed slots of an event's name.\<close>

definition attributeActivity :: "sdk \<Rightarrow> event_class \<Rightarrow> string \<Rightarrow> scval list \<Rightarrow> scval \<Rightarrow> string \<times> string \<times> string" where
  "attributeActivity S cls name topics data =
     (let topicAddr = (\<lambda>i. if i < length topics then addr S (topics ! i) else '''');
          ds = (case get_vec data of None \<Rightarrow> [] | Some vs \<Rightarrow> vs);
          dataAddr = (\<lambda>i. if i < length ds then addr S (ds ! i) else '''');
          dataAmount = (\<lambda>i. if i < length ds then eventAmount (ds ! i) else '''')
      in if name = ''trade'' then (topicAddr 3, topicAddr 1, dataAmount 0)
      else if name = ''claim_reward'' then (topicAddr 2, topicAddr 1, dataAmount 0)
      else if name = ''position_update'' \<or> name = ''claim_fees'' then (topicAddr 1, '''', '''')
      else if cls = Router \<and> (name = ''deposit'' \<or> name = ''withdraw'') then (topicAddr 2, '''', '''')
      else if cls = Router \<and> name = ''swap'' then (topicAddr 2, dataAddr 1, dataAmount 3)
      else if cls = Router \<and> name = ''claim'' then (topicAddr 2, dataAddr 1, dataAmount 2)
      else ('''', '''', ''''))"

definition quarantineEvent :: "aq_adapter \<Rightarrow> raw_event_envelope \<Rightarrow> string \<Rightarrow> (string \<rightharpoonup> string) \<Rightarrow> quarantine_event" where
  "quarantineEvent a evt reason metadata = zero_quarantine_event\<lparr>
     qe_ID := stableID [aq_ID a, show_int (ev_LedgerSeq evt), ev_TxHash evt, show_int (ev_EventIndex evt)],
     qe_AdapterID := aq_ID a, qe_LedgerSeq := ev_LedgerSeq evt, qe_TxHash := ev_TxHash evt,
     qe_EventIndex := ev_EventIndex evt, qe_ContractID := ev_ContractID evt, qe_Reason := reason,
     qe_RawEvent := ev_RawEvent evt, qe_Metadata := metadata\<rparr>"

text \<open>An event is dropped, quarantined or an activity.\<close>

definition decodeActivities :: "sdk \<Rightarrow> aq_adapter \<Rightarrow> raw_event_envelope \<Rightarrow> event_class option \<Rightarrow> (quarantine_event + activity_row) option" where
  "decodeActivities S a evt cls =
     (case sdk_unmarshal_event S (ev_RawEvent evt) of
        Some (Some (t0 # ts, data)) \<Rightarrow>
          (let name = symbolOrFirst t0 in
           case cls of
             None \<Rightarrow> Some (Inl (quarantineEvent a evt ''aquarius_event_unclassified_contract'' [''aquarius_event'' \<mapsto> name]))
           | Some k \<Rightarrow>
               (let meta = [''aquarius_event'' \<mapsto> name, ''event_class'' \<mapsto> class_name k] in
                case map_of (eventErasByClass k) name of
                  None \<Rightarrow> Some (Inl (quarantineEvent a evt ''aquarius_event_unknown_name'' meta))
                | Some (activity, fromLedger) \<Rightarrow>
                    if ev_LedgerSeq evt < fromLedger
                    then Some (Inl (quarantineEvent a evt ''aquarius_event_before_era_floor'' meta))
                    else if \<not> activity then None
                    else (case attributeActivity S k name (t0 # ts) data of (wallet, asset, amount) \<Rightarrow>
                      Some (Inr (zero_activity_row\<lparr>
                        ac_ID := stableID [aq_Protocol a, show_int (ev_LedgerSeq evt), ev_TxHash evt, show_int (ev_EventIndex evt), name],
                        ac_LedgerSeq := ev_LedgerSeq evt, ac_TxHash := ev_TxHash evt, ac_EventIndex := ev_EventIndex evt,
                        ac_ContractID := ev_ContractID evt, ac_Address := or_text wallet (ev_ContractID evt),
                        ac_Protocol := aq_Protocol a, ac_ActivityType := name, ac_AssetID := asset, ac_AmountRaw := amount,
                        ac_Timestamp := ev_CloseTime evt, ac_Metadata := meta\<rparr>)))))
      | _ \<Rightarrow> None)"

section \<open>Transform\<close>

definition aq_Transform :: "sdk \<Rightarrow> aq_adapter \<Rightarrow> transform_input \<Rightarrow> transform_output" where
  "aq_Transform S a i =
     (let out = zero_transform_output\<lparr>to_LedgerSeq := ti_LedgerSeq i\<rparr> in
      case ti_State i of
        None \<Rightarrow> out
      | Some st \<Rightarrow>
          (let mine = filter (\<lambda>p. ps_Protocol p = aq_Protocol a) (ls_AMMPools st);
               pools = index_by ps_ContractID mine;
               rows = map (aq_position_rows a pools i) (ls_AMMPositions st);
               cells = concat (map fst rows);
               events = List.map_filter (\<lambda>evt. decodeActivities S a evt (eventClass a pools (ev_ContractID evt))) (ti_Events i)
           in out\<lparr>to_AMMPools := sort_key ap_ContractID (map (aq_pool_row a i) mine),
                  to_AMMComponents := sort_key pc_ID (rights cells), to_AMMRewards := concat (map snd rows),
                  to_Activities := rights events, to_Quarantine := lefts cells @ lefts events\<rparr>))"

section \<open>What the vocabulary admits\<close>

lemma eras_distinct: "distinct (map fst (eventErasByClass k))"
  by (cases k) simp_all

lemma era_iff: "map_of (eventErasByClass k) name = Some x \<longleftrightarrow> (name, x) \<in> set (eventErasByClass k)"
  using eras_distinct by (metis map_of_eq_Some_iff)

text \<open>
  C33: The gate of the event vocabulary: a decodable event becomes an activity exactly when its
  contract's class lists its exact name as an activity at or before the event's ledger; it is
  dropped exactly when the name is listed as a recognized non-activity of such an era; anything
  else - unclassified contract, unknown name, too early a ledger - is quarantined with the raw
  event. An activity and a quarantine entry both carry the event's own identity.
\<close>

theorem aq_event_vocabulary:
  assumes "sdk_unmarshal_event S (ev_RawEvent evt) = Some (Some (t0 # ts, data))"
  shows "((\<exists>row. decodeActivities S a evt cls = Some (Inr row)) \<longleftrightarrow>
      (\<exists>k floor. cls = Some k \<and> (symbolOrFirst t0, True, floor) \<in> set (eventErasByClass k) \<and> floor \<le> ev_LedgerSeq evt)) \<and>
    (decodeActivities S a evt cls = None \<longleftrightarrow>
      (\<exists>k floor. cls = Some k \<and> (symbolOrFirst t0, False, floor) \<in> set (eventErasByClass k) \<and> floor \<le> ev_LedgerSeq evt)) \<and>
    (\<forall>q. decodeActivities S a evt cls = Some (Inl q) \<longrightarrow> qe_RawEvent q = ev_RawEvent evt \<and>
      (qe_LedgerSeq q, qe_TxHash q, qe_EventIndex q, qe_ContractID q)
        = (ev_LedgerSeq evt, ev_TxHash evt, ev_EventIndex evt, ev_ContractID evt)) \<and>
    (\<forall>row. decodeActivities S a evt cls = Some (Inr row) \<longrightarrow> ac_ActivityType row = symbolOrFirst t0 \<and>
      (ac_LedgerSeq row, ac_TxHash row, ac_EventIndex row, ac_ContractID row)
        = (ev_LedgerSeq evt, ev_TxHash evt, ev_EventIndex evt, ev_ContractID evt))"
proof (cases "\<exists>k x. cls = Some k \<and> map_of (eventErasByClass k) (symbolOrFirst t0) = Some x")
  case True
  then obtain k act floor where k: "cls = Some k" and e: "map_of (eventErasByClass k) (symbolOrFirst t0) = Some (act, floor)"
    by (metis surj_pair)
  have only: "(symbolOrFirst t0, b, f) \<in> set (eventErasByClass k) \<longleftrightarrow> b = act \<and> f = floor" for b f
    using e by (auto simp flip: era_iff)
  show ?thesis
    using assms k e by (cases "attributeActivity S k (symbolOrFirst t0) (t0 # ts) data")
      (simp add: decodeActivities_def only quarantineEvent_def Let_def linorder_not_less)
next
  case False
  show ?thesis
  proof (cases cls)
    case None
    then show ?thesis using assms by (simp add: decodeActivities_def quarantineEvent_def Let_def)
  next
    case (Some k)
    then have e: "map_of (eventErasByClass k) (symbolOrFirst t0) = None" using False by (metis not_Some_eq)
    then have "(symbolOrFirst t0, b, f) \<notin> set (eventErasByClass k)" for b f
      by (simp flip: era_iff)
    then show ?thesis
      using assms Some e by (simp add: decodeActivities_def quarantineEvent_def Let_def)
  qed
qed

section \<open>Examples\<close>

definition aq_ex_event :: raw_event_envelope where
  "aq_ex_event = zero_raw_event_envelope\<lparr>ev_LedgerSeq := 62341787, ev_ContractID := ''P'', ev_TxHash := ''t'', ev_RawEvent := ''raw''\<rparr>"

theorem aq_event_vocabulary_witness:
  "\<exists>row. decodeActivities (example_sdk [] [(''raw'', Some ([ScSym ''trade''], ScOther))]) aq_ex_adapter aq_ex_event
      (Some PoolConcentrated) = Some (Inr row) \<and> ac_ActivityType row = ''trade''"
proof -
  have "sdk_unmarshal_event (example_sdk [] [(''raw'', Some ([ScSym ''trade''], ScOther))]) (ev_RawEvent aq_ex_event)
      = Some (Some ([ScSym ''trade''], ScOther))" "symbolOrFirst (ScSym ''trade'') = ''trade''" by code_simp+
  moreover have "(''trade'', True, 62341787) \<in> set (eventErasByClass PoolConcentrated)" by simp
  ultimately show ?thesis
    using aq_event_vocabulary [of "example_sdk [] [(''raw'', Some ([ScSym ''trade''], ScOther))]" aq_ex_event "ScSym ''trade''" "[]" ScOther
      aq_ex_adapter "Some PoolConcentrated"]
    by (auto simp: aq_ex_event_def zero_raw_event_envelope_def)
qed

end
