(* ===== verification/GoJson.thy ===== *)
theory GoJson
  imports GoLib
begin

text \<open>
  \<open>encoding/json.Unmarshal\<close> into an untyped map, as src/blend/decode.go uses it on fixture
  payloads and JSON topics: the scanner's grammar, the string escapes with the replacement of
  invalid UTF-8, the nesting limit, and duplicate keys (the last one wins).  Numbers become
  \<open>float64\<close> values that the adapter renders again; the rendered text of a literal is a function
  the decoder is given, None when the literal overflows.
\<close>

datatype json = JNull | JBool bool | JNum string | JStr string | JArr "json list" | JObj "(string \<times> json) list"

section \<open>Strings\<close>

definition utf8 :: "nat \<Rightarrow> string" where
  "utf8 n =
     (if n < 128 then [char_of n]
      else if n < 2048 then [char_of (192 + n div 64), char_of (128 + n mod 64)]
      else if n < 65536 then [char_of (224 + n div 4096), char_of (128 + n div 64 mod 64), char_of (128 + n mod 64)]
      else [char_of (240 + n div 262144), char_of (128 + n div 4096 mod 64), char_of (128 + n div 64 mod 64),
            char_of (128 + n mod 64)])"

text \<open>The length of the well-formed UTF-8 sequence a text starts with, 0 when there is none.\<close>

definition byte_in :: "nat list \<Rightarrow> nat \<Rightarrow> nat \<Rightarrow> nat \<Rightarrow> bool" where
  "byte_in b i lo hi \<longleftrightarrow> i < length b \<and> lo \<le> b ! i \<and> b ! i \<le> hi"

definition utf8_two :: "nat list \<Rightarrow> bool" where
  "utf8_two b \<longleftrightarrow> byte_in b 0 194 223 \<and> byte_in b 1 128 191"

definition utf8_three :: "nat list \<Rightarrow> bool" where
  "utf8_three b \<longleftrightarrow> (byte_in b 0 224 224 \<and> byte_in b 1 160 191 \<or> byte_in b 0 225 236 \<and> byte_in b 1 128 191
     \<or> byte_in b 0 237 237 \<and> byte_in b 1 128 159 \<or> byte_in b 0 238 239 \<and> byte_in b 1 128 191) \<and> byte_in b 2 128 191"

definition utf8_four :: "nat list \<Rightarrow> bool" where
  "utf8_four b \<longleftrightarrow> (byte_in b 0 240 240 \<and> byte_in b 1 144 191 \<or> byte_in b 0 241 243 \<and> byte_in b 1 128 191
     \<or> byte_in b 0 244 244 \<and> byte_in b 1 128 143) \<and> byte_in b 2 128 191 \<and> byte_in b 3 128 191"

definition utf8_length :: "string \<Rightarrow> nat" where
  "utf8_length s =
     (let b = map of_char s in
      if byte_in b 0 0 127 then 1 else if utf8_two b then 2 else if utf8_three b then 3 else if utf8_four b then 4 else 0)"

definition replacement :: string where
  "replacement = utf8 65533"

definition hex_digit :: "char \<Rightarrow> nat option" where
  "hex_digit c =
     (let n = of_char c :: nat in
      if 48 \<le> n \<and> n \<le> 57 then Some (n - 48)
      else if 97 \<le> n \<and> n \<le> 102 then Some (n - 87)
      else if 65 \<le> n \<and> n \<le> 70 then Some (n - 55) else None)"

fun hex4 :: "string \<Rightarrow> (nat \<times> string) option" where
  "hex4 (a # b # c # d # s) =
     (case (hex_digit a, hex_digit b, hex_digit c, hex_digit d) of
        (Some w, Some x, Some y, Some z) \<Rightarrow> Some (4096 * w + 256 * x + 16 * y + z, s)
      | _ \<Rightarrow> None)"
| "hex4 _ = None"

text \<open>A \<open>\u\<close> escape after its four digits: a surrogate pair is one rune, a lone half is replaced.\<close>

definition json_rune :: "nat \<Rightarrow> string \<Rightarrow> string \<times> string" where
  "json_rune u s =
     (if u < 55296 \<or> 57343 < u then (utf8 u, s)
      else if u < 56320 \<and> take 2 s = [CHR 0x5C, CHR ''u''] then
        (case hex4 (drop 2 s) of
           Some (v, t) \<Rightarrow> if 56320 \<le> v \<and> v \<le> 57343
             then (utf8 ((u - 55296) * 1024 + (v - 56320) + 65536), t) else (replacement, s)
         | None \<Rightarrow> (replacement, s))
      else (replacement, s))"

definition simple_escape :: "char \<Rightarrow> char option" where
  "simple_escape e = map_of [(CHR 0x22, CHR 0x22), (CHR 0x5C, CHR 0x5C), (CHR ''/'', CHR ''/''),
     (CHR ''b'', CHR 0x08), (CHR ''f'', CHR 0x0C), (CHR ''n'', CHR 0x0A), (CHR ''r'', CHR 0x0D), (CHR ''t'', CHR 0x09)] e"

text \<open>The text of a string up to its closing quote, and what follows.\<close>

fun json_chars :: "nat \<Rightarrow> string \<Rightarrow> (string \<times> string) option" where
  "json_chars 0 s = None"
| "json_chars (Suc n) [] = None"
| "json_chars (Suc n) (c # s) =
     (let k = of_char c :: nat; more = (\<lambda>p t. map_option (\<lambda>(q, r). (p @ q, r)) (json_chars n t)) in
      if k = 34 then Some ('''', s)
      else if k < 32 then None
      else if k = 92 then
        (case s of
           [] \<Rightarrow> None
         | e # t \<Rightarrow>
             if e = CHR ''u'' then (case hex4 t of None \<Rightarrow> None | Some (u, t) \<Rightarrow> (case json_rune u t of (p, t) \<Rightarrow> more p t))
             else (case simple_escape e of None \<Rightarrow> None | Some x \<Rightarrow> more [x] t))
      else (case utf8_length (c # s) of
           0 \<Rightarrow> more replacement s
         | Suc m \<Rightarrow> more (c # take m s) (drop m s)))"

section \<open>Values\<close>

definition json_space :: "char \<Rightarrow> bool" where
  "json_space c \<longleftrightarrow> (let n = of_char c :: nat in n = 32 \<or> n = 9 \<or> n = 10 \<or> n = 13)"

definition skip_space :: "string \<Rightarrow> string" where
  "skip_space s = dropWhile json_space s"

definition is_digit :: "char \<Rightarrow> bool" where
  "is_digit c \<longleftrightarrow> (let n = of_char c :: nat in 48 \<le> n \<and> n \<le> 57)"

definition digits1 :: "string \<Rightarrow> (string \<times> string) option" where
  "digits1 s = (if takeWhile is_digit s = '''' then None else Some (takeWhile is_digit s, dropWhile is_digit s))"

definition json_whole :: "string \<Rightarrow> (string \<times> string) option" where
  "json_whole s = (if take 1 s = ''0'' then Some (''0'', drop 1 s) else digits1 s)"

definition json_fraction :: "string \<Rightarrow> (string \<times> string) option" where
  "json_fraction s = (case s of [] \<Rightarrow> Some ('''', [])
     | c # t \<Rightarrow> if c = CHR ''.'' then map_option (\<lambda>(d, r). (c # d, r)) (digits1 t) else Some ('''', s))"

definition json_exponent :: "string \<Rightarrow> (string \<times> string) option" where
  "json_exponent s = (case s of [] \<Rightarrow> Some ('''', [])
     | c # t \<Rightarrow> if c = CHR ''e'' \<or> c = CHR ''E'' then
         (let sign = (if take 1 t = ''+'' \<or> take 1 t = ''-'' then take 1 t else '''')
          in map_option (\<lambda>(d, r). (c # sign @ d, r)) (digits1 (drop (length sign) t)))
       else Some ('''', s))"

definition json_number :: "string \<Rightarrow> (string \<times> string) option" where
  "json_number s =
     (let sign = (if take 1 s = ''-'' then ''-'' else ''''); t = drop (length sign) s in
      case json_whole t of None \<Rightarrow> None | Some (w, r) \<Rightarrow>
        (case json_fraction r of None \<Rightarrow> None | Some (f, r) \<Rightarrow>
          map_option (\<lambda>(e, r). (sign @ w @ f @ e, r)) (json_exponent r)))"

text \<open>Fuel bounds the number of tokens, depth the open containers (10000 in the library).\<close>

fun json_value :: "nat \<Rightarrow> nat \<Rightarrow> string \<Rightarrow> (json \<times> string) option"
and json_elems :: "nat \<Rightarrow> nat \<Rightarrow> string \<Rightarrow> (json list \<times> string) option"
and json_members :: "nat \<Rightarrow> nat \<Rightarrow> string \<Rightarrow> ((string, json) gmap \<times> string) option" where
  "json_value 0 d s = None"
| "json_value (Suc n) d s =
     (case skip_space s of
        [] \<Rightarrow> None
      | c # t \<Rightarrow>
          if c = CHR ''{'' then
            (if d = 0 then None
             else if take 1 (skip_space t) = ''}'' then Some (JObj [], drop 1 (skip_space t))
             else map_option (\<lambda>(ms, r). (JObj ms, r)) (json_members n (d - 1) t))
          else if c = CHR ''['' then
            (if d = 0 then None
             else if take 1 (skip_space t) = '']'' then Some (JArr [], drop 1 (skip_space t))
             else map_option (\<lambda>(xs, r). (JArr xs, r)) (json_elems n (d - 1) t))
          else if c = CHR 0x22 then map_option (\<lambda>(p, r). (JStr p, r)) (json_chars (length t) t)
          else if take 4 (c # t) = ''true'' then Some (JBool True, drop 3 t)
          else if take 5 (c # t) = ''false'' then Some (JBool False, drop 4 t)
          else if take 4 (c # t) = ''null'' then Some (JNull, drop 3 t)
          else map_option (\<lambda>(l, r). (JNum l, r)) (json_number (c # t)))"
| "json_elems 0 d s = None"
| "json_elems (Suc n) d s =
     (case json_value n d s of
        None \<Rightarrow> None
      | Some (v, r) \<Rightarrow>
          if take 1 (skip_space r) = '','' then
            map_option (\<lambda>(vs, r). (v # vs, r)) (json_elems n d (drop 1 (skip_space r)))
          else if take 1 (skip_space r) = '']'' then Some ([v], drop 1 (skip_space r))
          else None)"
| "json_members 0 d s = None"
| "json_members (Suc n) d s =
     (case skip_space s of
        [] \<Rightarrow> None
      | q # t \<Rightarrow>
          if q \<noteq> CHR 0x22 then None
          else (case json_chars (length t) t of
              None \<Rightarrow> None
            | Some (key, r) \<Rightarrow>
                if take 1 (skip_space r) \<noteq> '':'' then None
                else (case json_value n d (drop 1 (skip_space r)) of
                    None \<Rightarrow> None
                  | Some (v, r) \<Rightarrow>
                      if take 1 (skip_space r) = '','' then
                        map_option (\<lambda>(ms, r). (if key \<in> fst ` set ms then ms else (key, v) # ms, r))
                          (json_members n d (drop 1 (skip_space r)))
                      else if take 1 (skip_space r) = ''}'' then Some ([(key, v)], drop 1 (skip_space r))
                      else None)))"

text \<open>Every number literal of a value has a \<open>float64\<close>.\<close>

primrec json_finite :: "(string \<Rightarrow> string option) \<Rightarrow> json \<Rightarrow> bool" where
  "json_finite float JNull = True"
| "json_finite float (JBool b) = True"
| "json_finite float (JNum l) = (float l \<noteq> None)"
| "json_finite float (JStr s) = True"
| "json_finite float (JArr xs) = list_all id (map (json_finite float) xs)"
| "json_finite float (JObj ms) = list_all snd (map (map_prod id (json_finite float)) ms)"

text \<open>\<open>json.Unmarshal\<close> into a \<open>map[string]any\<close>: an object, or null for the nil map.\<close>

definition json_unmarshal :: "(string \<Rightarrow> string option) \<Rightarrow> string \<Rightarrow> (string, json) gmap option" where
  "json_unmarshal float s =
     (case json_value (2 * length s) 10000 s of
        None \<Rightarrow> None
      | Some (v, r) \<Rightarrow>
          if skip_space r \<noteq> '''' \<or> \<not> json_finite float v then None
          else (case v of JObj ms \<Rightarrow> Some ms | JNull \<Rightarrow> Some [] | _ \<Rightarrow> None))"

end
