(* ===== verification/GoText.thy ===== *)
theory GoText
  imports GoJson
begin

text \<open>
  Text the Blend adapter builds with the standard library: \<open>encoding/json\<close> on the maps and
  structs it marshals (object keys of a map come out sorted; a struct's fields in order, the
  \<open>omitempty\<close> ones only when present) and \<open>time.RFC3339\<close>.  Text that is not UTF-8 is replaced
  byte by byte, as the encoder does.
\<close>

section \<open>encoding/json\<close>

definition json_char :: "char \<Rightarrow> string" where
  "json_char c =
     (let n = of_char c :: nat in
      if n = 34 then [CHR 0x5C, CHR 0x22]
      else if n = 92 then [CHR 0x5C, CHR 0x5C]
      else if n = 8 then CHR 0x5C # ''b''
      else if n = 12 then CHR 0x5C # ''f''
      else if n = 10 then CHR 0x5C # ''n''
      else if n = 13 then CHR 0x5C # ''r''
      else if n = 9 then CHR 0x5C # ''t''
      else if n < 32 \<or> n = 60 \<or> n = 62 \<or> n = 38
        then CHR 0x5C # ''u00'' @ [hex_char (n div 16), hex_char (n mod 16)]
      else [c])"

text \<open>The two line separators are escaped, like the characters HTML gives a meaning.\<close>

definition json_rune_text :: "string \<Rightarrow> string" where
  "json_rune_text r =
     (if r = utf8 8232 then CHR 0x5C # ''u2028'' else if r = utf8 8233 then CHR 0x5C # ''u2029'' else r)"

function json_escape :: "string \<Rightarrow> string" where
  "json_escape [] = []"
| "json_escape (c # s) =
     (if (of_char c :: nat) < 128 then json_char c @ json_escape s
      else case utf8_length (c # s) of
          0 \<Rightarrow> CHR 0x5C # ''ufffd'' @ json_escape s
        | Suc m \<Rightarrow> json_rune_text (c # take m s) @ json_escape (drop m s))"
  by pat_completeness auto
termination
  by (relation "measure length") auto

definition json_string :: "string \<Rightarrow> string" where
  "json_string s = [CHR 0x22] @ json_escape s @ [CHR 0x22]"

fun comma_sep :: "string list \<Rightarrow> string" where
  "comma_sep [] = []"
| "comma_sep [x] = x"
| "comma_sep (x # y # zs) = x @ '','' @ comma_sep (y # zs)"

text \<open>An object from its members, in the order given; the values are already JSON.\<close>

definition json_object :: "(string \<times> string) list \<Rightarrow> string" where
  "json_object ms = ''{'' @ comma_sep (map (\<lambda>(k, v). json_string k @ '':'' @ v) ms) @ ''}''"

definition json_array :: "string list \<Rightarrow> string" where
  "json_array xs = ''['' @ comma_sep xs @ '']''"

text \<open>\<open>json.Marshal\<close> of a map with string keys.\<close>

definition json_map :: "('v \<Rightarrow> string) \<Rightarrow> (string, 'v) gmap \<Rightarrow> string" where
  "json_map render m = json_object (map (\<lambda>(k, v). (k, render v)) (sort_key fst m))"

definition json_bool :: "bool \<Rightarrow> string" where
  "json_bool b = (if b then ''true'' else ''false'')"

text \<open>A marshalled map does not show the order in which the map was ranged over.\<close>

lemma json_map_order_free:
  assumes "mset m = mset m'" and "gm_ok m"
  shows "json_map render m = json_map render m'"
  using sort_key_order_free [OF assms(1), of fst] assms(2) by (simp add: json_map_def gm_ok_def)

section \<open>time.RFC3339\<close>

text \<open>The proleptic Gregorian date of a day counted from 1970-01-01.\<close>

definition civil :: "int \<Rightarrow> int \<times> int \<times> int" where
  "civil days =
     (let z = days + 719468;
          era = z div 146097;
          doe = z - era * 146097;
          yoe = (doe - doe div 1460 + doe div 36524 - doe div 146096) div 365;
          doy = doe - (365 * yoe + yoe div 4 - yoe div 100);
          mp = (5 * doy + 2) div 153;
          d = doy - (153 * mp + 2) div 5 + 1;
          m = (if mp < 10 then mp + 3 else mp - 9);
          y = yoe + era * 400 + (if m \<le> 2 then 1 else 0)
      in (y, m, d))"

definition pad_int :: "nat \<Rightarrow> int \<Rightarrow> string" where
  "pad_int w n = replicate (w - length (show_int n)) CHR ''0'' @ show_int n"

definition rfc3339 :: "go_time \<Rightarrow> string" where
  "rfc3339 t =
     (let s = unix_sec t; r = s mod 86400 in
      case civil (s div 86400) of (y, m, d) \<Rightarrow>
        pad_int 4 y @ ''-'' @ pad_int 2 m @ ''-'' @ pad_int 2 d @ ''T'' @
        pad_int 2 (r div 3600) @ '':'' @ pad_int 2 (r div 60 mod 60) @ '':'' @ pad_int 2 (r mod 60) @ ''Z'')"

lemma rfc3339_epoch: "rfc3339 0 = ''1970-01-01T00:00:00Z''"
  by code_simp

lemma rfc3339_leap: "rfc3339 (time_of_unix 951782399) = ''2000-02-28T23:59:59Z''"
  by code_simp

lemma rfc3339_leap_day: "rfc3339 (time_of_unix 951868799) = ''2000-02-29T23:59:59Z''"
  by code_simp

end
