(* ===== verification/GoMarshal.thy ===== *)
theory GoMarshal
  imports GoText
begin

text \<open>
  \<open>encoding/json\<close> on the structs the adapters persist: a struct is marshalled as an object with its
  fields in order, and unmarshalled by setting the fields its members name.  A text that was
  marshalled is read back as the value it was made from, if its strings are UTF-8.
\<close>

section \<open>Marshalling\<close>

primrec json_text :: "json \<Rightarrow> string" where
  "json_text JNull = ''null''"
| "json_text (JBool b) = json_bool b"
| "json_text (JNum l) = l"
| "json_text (JStr s) = json_string s"
| "json_text (JArr xs) = json_array (map json_text xs)"
| "json_text (JObj ms) = json_object (map (map_prod id json_text) ms)"

definition text_int :: "int \<Rightarrow> json" where
  "text_int n = JNum (show_int n)"

definition text_slice :: "('a \<Rightarrow> json) \<Rightarrow> 'a list option \<Rightarrow> json" where
  "text_slice f xs = (case xs of None \<Rightarrow> JNull | Some xs \<Rightarrow> JArr (map f xs))"

definition elements :: "'a list option \<Rightarrow> 'a list" where
  "elements xs = (case xs of None \<Rightarrow> [] | Some xs \<Rightarrow> xs)"

text \<open>A member with \<open>omitempty\<close>: an empty slice and a nil pointer are left out.\<close>

definition text_filled :: "string \<Rightarrow> ('a \<Rightarrow> json) \<Rightarrow> 'a list option \<Rightarrow> (string \<times> json) list" where
  "text_filled name f xs = (if elements xs = [] then [] else [(name, JArr (map f (elements xs)))])"

definition text_present :: "string \<Rightarrow> ('a \<Rightarrow> json) \<Rightarrow> 'a option \<Rightarrow> (string \<times> json) list" where
  "text_present name f x = (case x of None \<Rightarrow> [] | Some x \<Rightarrow> [(name, f x)])"

text \<open>A slice that was appended to: nil as long as nothing was.\<close>

definition appended :: "'a list \<Rightarrow> 'a list option" where
  "appended xs = (if xs = [] then None else Some xs)"

section \<open>Unmarshalling\<close>

text \<open>
  A member sets the field of its name; letters match in either case, and the two letters outside ASCII
  that fold to one of them match it too.  Of members with the same name the last one counts.
\<close>

fun fold_name :: "string \<Rightarrow> string" where
  "fold_name [] = []"
| "fold_name (c # s) =
     (if c # take 2 s = utf8 8490 then CHR ''k'' # fold_name (drop 2 s)
      else if c # take 1 s = utf8 383 then CHR ''s'' # fold_name (drop 1 s)
      else lower_char c # fold_name s)"

text \<open>
  A field is read into the value it has: null leaves it, and a value of another type is an error.
  The readers of the fields return the changed struct.
\<close>

type_synonym 'a json_reader = "json \<Rightarrow> 'a \<Rightarrow> 'a option"

definition read_string :: "string json_reader" where
  "read_string v old = (case v of JStr s \<Rightarrow> Some s | JNull \<Rightarrow> Some old | _ \<Rightarrow> None)"

definition read_bool :: "bool json_reader" where
  "read_bool v old = (case v of JBool b \<Rightarrow> Some b | JNull \<Rightarrow> Some old | _ \<Rightarrow> None)"

text \<open>An integer of the given number of bits, sign included.\<close>

definition read_int :: "nat \<Rightarrow> int json_reader" where
  "read_int bits v old =
     (case v of
        JNum l \<Rightarrow> Option.bind (set_string l) (\<lambda>n. if - (2 ^ (bits - 1)) \<le> n \<and> n < 2 ^ (bits - 1) then Some n else None)
      | JNull \<Rightarrow> Some old | _ \<Rightarrow> None)"

fun read_all :: "'a json_reader \<Rightarrow> 'a \<Rightarrow> json list \<Rightarrow> 'a list option" where
  "read_all R z [] = Some []"
| "read_all R z (v # vs) =
     (case (R v z, read_all R z vs) of (Some x, Some xs) \<Rightarrow> Some (x # xs) | _ \<Rightarrow> None)"

text \<open>A slice is None when it is nil; a null makes it so.\<close>

definition read_slice :: "'a json_reader \<Rightarrow> 'a \<Rightarrow> 'a list option json_reader" where
  "read_slice R z v old = (case v of JArr vs \<Rightarrow> map_option Some (read_all R z vs) | JNull \<Rightarrow> Some None | _ \<Rightarrow> None)"

definition read_pointer :: "'a json_reader \<Rightarrow> 'a \<Rightarrow> 'a option json_reader" where
  "read_pointer R z v old =
     (if v = JNull then Some None else map_option Some (R v (case old of None \<Rightarrow> z | Some x \<Rightarrow> x)))"

text \<open>A struct is the list of its fields: the name, and how its value changes the struct.\<close>

definition read_member :: "(string \<times> 'a json_reader) list \<Rightarrow> string \<times> json \<Rightarrow> 'a \<Rightarrow> 'a option" where
  "read_member fields m a =
     (case m of (k, v) \<Rightarrow>
      (case find (\<lambda>(name, _). fold_name name = fold_name k) fields of
         None \<Rightarrow> Some a | Some (_, R) \<Rightarrow> R v a))"

definition read_struct :: "(string \<times> 'a json_reader) list \<Rightarrow> 'a json_reader" where
  "read_struct fields v a =
     (case v of JObj ms \<Rightarrow> foldO (read_member fields) ms a | JNull \<Rightarrow> Some a | _ \<Rightarrow> None)"

text \<open>The field of a record, from the reader of its type.\<close>

definition via :: "('a \<Rightarrow> 'b) \<Rightarrow> (('b \<Rightarrow> 'b) \<Rightarrow> 'a \<Rightarrow> 'a) \<Rightarrow> 'b json_reader \<Rightarrow> 'a json_reader" where
  "via get upd R v a = map_option (\<lambda>x. upd (\<lambda>_. x) a) (R v (get a))"

text \<open>\<open>json.Unmarshal\<close> into a struct.\<close>

definition json_parse :: "string \<Rightarrow> json option" where
  "json_parse s =
     (case json_value (2 * length s) 10000 s of
        None \<Rightarrow> None | Some (v, r) \<Rightarrow> if skip_space r = '''' then Some v else None)"

definition unmarshal :: "'a json_reader \<Rightarrow> 'a \<Rightarrow> string \<Rightarrow> 'a option" where
  "unmarshal R z s = Option.bind (json_parse s) (\<lambda>v. R v z)"

section \<open>Strings are read back\<close>

text \<open>The texts that are UTF-8.\<close>

function utf8_text :: "string \<Rightarrow> bool" where
  "utf8_text [] = True"
| "utf8_text (c # s) = (case utf8_length (c # s) of 0 \<Rightarrow> False | Suc m \<Rightarrow> utf8_text (drop m s))"
  by pat_completeness auto
termination
  by (relation "measure length") auto

lemma utf8_length_ascii: "(of_char c :: nat) < 128 \<Longrightarrow> utf8_length (c # s) = 1"
  by (simp add: utf8_length_def byte_in_def)

lemma byte_in_length: "byte_in b i lo hi \<Longrightarrow> i < length b"
  by (simp add: byte_in_def)

lemma utf8_length_bounds: "utf8_length s \<le> length s" "utf8_length s \<le> 4"
proof -
  have "byte_in b 0 0 127 \<Longrightarrow> 0 < length b" "utf8_two b \<Longrightarrow> 1 < length b" "utf8_three b \<Longrightarrow> 2 < length b" "utf8_four b \<Longrightarrow> 3 < length b"
    for b by (auto simp: utf8_two_def utf8_three_def utf8_four_def dest: byte_in_length)
  from this [of "map of_char s"] show "utf8_length s \<le> length s" by (auto simp: utf8_length_def Let_def Suc_le_eq)
qed (simp add: utf8_length_def Let_def)

lemma utf8_length_prefix:
  assumes "utf8_length s = Suc m"
  shows "utf8_length (take (Suc m) s @ t) = Suc m"
proof -
  define b :: "nat list" where "b = map of_char s"
  define p :: "nat list" where "p = map of_char (take (Suc m) s @ t)"
  have len: "Suc m \<le> length s" using utf8_length_bounds(1) [of s] assms by simp
  have same: "byte_in p i lo hi = byte_in b i lo hi" if "i < Suc m" for i lo hi
    using that len by (simp add: b_def p_def byte_in_def nth_append)
  have "m = 0 \<or> m = 1 \<or> m = 2 \<or> m = 3" using utf8_length_bounds(2) [of s] assms by auto
  moreover have "0 < m \<Longrightarrow> utf8_two p = utf8_two b" by (simp add: utf8_two_def same)
  moreover have "1 < m \<Longrightarrow> utf8_three p = utf8_three b" by (simp add: utf8_three_def same)
  moreover have "2 < m \<Longrightarrow> utf8_four p = utf8_four b" by (simp add: utf8_four_def same)
  ultimately show ?thesis
    using assms same [of 0] unfolding utf8_length_def Let_def b_def [symmetric] p_def [symmetric] by (elim disjE) (simp_all split: if_splits)
qed

lemma hex_digit_char:
  assumes "n < 16"
  shows "hex_digit (hex_char n) = Some n"
proof -
  have "\<forall>n<16. hex_digit (hex_char n) = Some n" by code_simp
  with assms show ?thesis by blast
qed

lemma utf8_ascii: "n < 128 \<Longrightarrow> utf8 n = [char_of n]"
  by (simp add: utf8_def)

definition prepend :: "string \<Rightarrow> string \<times> string \<Rightarrow> string \<times> string" where
  "prepend p qr = (p @ fst qr, snd qr)"

lemma json_chars_escaped:
  "simple_escape e = Some x \<Longrightarrow> e \<noteq> CHR ''u'' \<Longrightarrow>
    json_chars (Suc n) (CHR 0x5C # e # t) = map_option (prepend [x]) (json_chars n t)"
  by (simp add: Let_def prepend_def [abs_def] split_def)

lemma json_chars_unicode:
  "hex4 (a # b # c # d # t) = Some (u, t) \<Longrightarrow> u < 55296 \<or> 57343 < u \<Longrightarrow>
    json_chars (Suc n) (CHR 0x5C # CHR ''u'' # a # b # c # d # t) = map_option (prepend (utf8 u)) (json_chars n t)"
  by (simp add: Let_def json_rune_def prepend_def [abs_def] split_def del: hex4.simps)

lemma json_chars_plain:
  assumes "utf8_length (c # s) = Suc m" and "(of_char c :: nat) \<noteq> 34" and "(of_char c :: nat) \<noteq> 92" and "\<not> (of_char c :: nat) < 32"
  shows "json_chars (Suc n) (c # s) = map_option (prepend (c # take m s)) (json_chars n (drop m s))"
  using assms by (simp add: Let_def prepend_def [abs_def] split_def)

lemma short_escapes:
  "\<forall>(x, e)\<in>set [(CHR 0x22, CHR 0x22), (CHR 0x5C, CHR 0x5C), (CHR 0x08, CHR ''b''), (CHR 0x0C, CHR ''f''), (CHR 0x0A, CHR ''n''),
     (CHR 0x0D, CHR ''r''), (CHR 0x09, CHR ''t'')]. json_char x = [CHR 0x5C, e] \<and> simple_escape e = Some x \<and> e \<noteq> CHR ''u''"
  by code_simp

lemma json_chars_char:
  assumes "(of_char c :: nat) < 128"
  shows "json_chars (Suc n) (json_char c @ t) = map_option (prepend [c]) (json_chars n t)"
proof -
  let ?k = "of_char c :: nat"
  have two: ?thesis if "?k = of_char x" "json_char x = [CHR 0x5C, e]" "simple_escape e = Some x" "e \<noteq> CHR ''u''" for x e
    using that json_chars_escaped [of e c n t] by (auto simp only: of_char_eq_iff append.simps)
  have escape: "?k \<in> {34, 92, 8, 12, 10, 13, 9} \<Longrightarrow> ?thesis"
    using two [of "CHR 0x22" "CHR 0x22"] two [of "CHR 0x5C" "CHR 0x5C"] two [of "CHR 0x08" "CHR ''b''"] two [of "CHR 0x0C" "CHR ''f''"]
      two [of "CHR 0x0A" "CHR ''n''"] two [of "CHR 0x0D" "CHR ''r''"] two [of "CHR 0x09" "CHR ''t''"] short_escapes by auto
  consider "?k = 34" | "?k = 92" | "?k = 8" | "?k = 12" | "?k = 10" | "?k = 13" | "?k = 9"
    | "?k \<notin> {34, 92, 8, 12, 10, 13, 9}" "?k < 32 \<or> ?k = 60 \<or> ?k = 62 \<or> ?k = 38"
    | "?k \<notin> {34, 92, 8, 12, 10, 13, 9, 60, 62, 38}" "\<not> ?k < 32" by auto
  then show ?thesis
  proof cases
    case 8
    have "hex_digit CHR ''0'' = Some 0" by code_simp
    moreover have "?k div 16 < 16" using assms by simp
    ultimately have "hex4 (CHR ''0'' # CHR ''0'' # hex_char (?k div 16) # hex_char (?k mod 16) # t) = Some (?k, t)"
      by (simp add: hex_digit_char)
    moreover have "utf8 ?k = [c]" using assms by (simp add: utf8_ascii)
    moreover have "json_char c = CHR 0x5C # CHR ''u'' # CHR ''0'' # CHR ''0'' # hex_char (?k div 16) # hex_char (?k mod 16) # []"
      using 8 by (auto simp: json_char_def Let_def)
    ultimately show ?thesis using json_chars_unicode [of _ _ _ _ t ?k n] assms by simp
  next
    case 9
    then have "json_char c = [c]" by (simp add: json_char_def Let_def)
    then show ?thesis using json_chars_plain [of c t 0 n] utf8_length_ascii [OF assms] 9 by simp
  qed (use escape in blast)+
qed

lemma json_chars_rune:
  assumes "utf8_length (c # s) = Suc m" and "128 \<le> (of_char c :: nat)"
  shows "json_chars (Suc n) (json_rune_text (c # take m s) @ t) = map_option (prepend (c # take m s)) (json_chars n t)"
proof -
  have "m \<le> length s" using utf8_length_bounds(1) [of "c # s"] assms(1) by simp
  have "utf8_length (c # take m s @ t) = Suc m" using utf8_length_prefix [OF assms(1), of t] by simp
  then have plain: "json_chars (Suc n) (c # take m s @ t) = map_option (prepend (c # take m s)) (json_chars n t)"
    using json_chars_plain [of c "take m s @ t" m n] assms(2) \<open>m \<le> length s\<close> by (simp add: min_absorb2)
  have digits: "hex4 (CHR ''2'' # CHR ''0'' # CHR ''2'' # CHR ''8'' # t) = Some (8232, t)"
    "hex4 (CHR ''2'' # CHR ''0'' # CHR ''2'' # CHR ''9'' # t) = Some (8233, t)"
    by (simp_all add: hex_digit_def Let_def)
  show ?thesis
    using plain json_chars_unicode [OF digits(1), of n] json_chars_unicode [OF digits(2), of n]
    by (auto simp: json_rune_text_def)
qed

lemma json_char_nonempty: "json_char c \<noteq> []"
  by (simp add: json_char_def Let_def)

lemma json_chars_escape:
  "utf8_text s \<Longrightarrow> length (json_escape s) < n \<Longrightarrow> json_chars n (json_escape s @ CHR 0x22 # rest) = Some (s, rest)"
proof (induction s arbitrary: n rule: json_escape.induct)
  case 1
  then show ?case by (cases n) (simp_all add: Let_def)
next
  case (2 c s)
  obtain n' where n: "n = Suc n'" using "2.prems"(2) by (cases n) simp_all
  show ?case
  proof (cases "(of_char c :: nat) < 128")
    case True
    have "utf8_text s" using "2.prems"(1) by (simp add: utf8_length_ascii [OF True])
    moreover have "length (json_escape s) < n'"
      using "2.prems"(2) True json_char_nonempty [of c] by (cases "json_char c") (simp_all add: n)
    ultimately have "json_chars n' (json_escape s @ CHR 0x22 # rest) = Some (s, rest)" using "2.IH"(1) True by blast
    then show ?thesis using True by (simp add: n json_chars_char prepend_def)
  next
    case False
    then obtain m where m: "utf8_length (c # s) = Suc m" "utf8_text (drop m s)"
      using "2.prems"(1) by (auto split: nat.splits)
    have split: "json_escape (c # s) = json_rune_text (c # take m s) @ json_escape (drop m s)" using False m(1) by simp
    have "json_rune_text (c # take m s) \<noteq> []" by (simp add: json_rune_text_def)
    then have "length (json_escape (drop m s)) < n'"
      using "2.prems"(2) unfolding split by (cases "json_rune_text (c # take m s)") (simp_all add: n)
    then have "json_chars n' (json_escape (drop m s) @ CHR 0x22 # rest) = Some (drop m s, rest)"
      using "2.IH"(3) [OF False m(1)] m(2) by blast
    then show ?thesis using json_chars_rune [OF m(1), of n'] False unfolding split by (simp add: n prepend_def)
  qed
qed

lemma json_string_read:
  assumes "utf8_text s"
  shows "json_chars (length (json_escape s @ CHR 0x22 # rest)) (json_escape s @ CHR 0x22 # rest) = Some (s, rest)"
  by (rule json_chars_escape [OF assms]) simp

section \<open>Values are read back\<close>

definition whole_number :: "string \<Rightarrow> bool" where
  "whole_number l \<longleftrightarrow> (case set_string l of None \<Rightarrow> False | Some n \<Rightarrow> show_int n = l)"

primrec json_clean :: "json \<Rightarrow> bool" where
  "json_clean JNull = True"
| "json_clean (JBool b) = True"
| "json_clean (JNum l) = whole_number l"
| "json_clean (JStr s) = utf8_text s"
| "json_clean (JArr xs) = list_all id (map json_clean xs)"
| "json_clean (JObj ms) = (distinct (map fst ms) \<and> list_all (\<lambda>m. utf8_text (fst m) \<and> snd m) (map (map_prod id json_clean) ms))"

primrec json_depth :: "json \<Rightarrow> nat" where
  "json_depth JNull = 0"
| "json_depth (JBool b) = 0"
| "json_depth (JNum l) = 0"
| "json_depth (JStr s) = 0"
| "json_depth (JArr xs) = Suc (Max (insert 0 (set (map json_depth xs))))"
| "json_depth (JObj ms) = Suc (Max (insert 0 (snd ` set (map (map_prod id json_depth) ms))))"

text \<open>What follows a value in a marshalled text.\<close>

definition json_end :: "string \<Rightarrow> bool" where
  "json_end rest \<longleftrightarrow> rest = '''' \<or> hd rest = CHR '','' \<or> hd rest = CHR '']'' \<or> hd rest = CHR ''}''"

lemma digit_is_digit: "digit_val c \<noteq> None \<Longrightarrow> is_digit c"
  by (auto simp: digit_val_def is_digit_def Let_def split: if_splits)

lemma show_digits_first: "0 < n \<Longrightarrow> hd (show_digits n) \<noteq> CHR ''0''"
proof (induction n rule: show_digits.induct)
  case (1 n)
  show ?case
  proof (cases "n < 10")
    case True
    have "digit_val (digit_char n) = Some n" using True 1 by (intro digit_val_char) simp_all
    then have "digit_char n \<noteq> CHR ''0''" using 1 by (auto simp: digit_val_def)
    then show ?thesis using True by (simp add: show_digits.simps)
  next
    case False
    then show ?thesis using 1 by (subst show_digits.simps) simp
  qed
qed

lemma digits_end: "json_end rest \<Longrightarrow> 0 \<le> n \<Longrightarrow>
  takeWhile is_digit (show_digits n @ rest) = show_digits n \<and> dropWhile is_digit (show_digits n @ rest) = rest"
proof -
  assume "json_end rest" "0 \<le> n"
  then have "\<forall>c\<in>set (show_digits n). is_digit c" using show_digits_chars digit_is_digit by blast
  moreover have "rest = [] \<or> \<not> is_digit (hd rest)" using \<open>json_end rest\<close> by (auto simp: json_end_def is_digit_def)
  ultimately show ?thesis by (cases rest) (simp_all add: takeWhile_append2 dropWhile_append2)
qed

lemma json_number_digits:
  assumes "json_end rest" and "0 \<le> n"
  shows "json_whole (show_digits n @ rest) = Some (show_digits n, rest)"
proof (cases "n = 0")
  case True
  have "show_digits 0 = ''0''" by (simp add: show_digits.simps digit_char_def)
  then show ?thesis using True by (simp add: json_whole_def)
next
  case False
  then have "hd (show_digits n) \<noteq> CHR ''0''" using assms(2) by (intro show_digits_first) simp
  moreover obtain c cs where "show_digits n = c # cs" by (metis show_digits_nonempty neq_Nil_conv)
  ultimately show ?thesis using digits_end [OF assms] by (simp add: json_whole_def digits1_def)
qed

lemma json_number_show:
  assumes "json_end rest"
  shows "json_number (show_int i @ rest) = Some (show_int i, rest)"
proof -
  have ends: "json_fraction rest = Some ('''', rest)" "json_exponent rest = Some ('''', rest)"
    using assms by (auto simp: json_end_def json_fraction_def json_exponent_def split: list.split)
  show ?thesis
  proof (cases "i < 0")
    case True
    then have "show_int i @ rest = CHR ''-'' # show_digits (- i) @ rest" by (simp add: show_int_def)
    then show ?thesis using json_number_digits [OF assms, of "- i"] True ends
      by (simp add: json_number_def Let_def show_int_def)
  next
    case False
    then have "hd (show_digits i) \<noteq> CHR ''-''" by (intro show_digits_hd) simp
    then have "take 1 (show_digits i @ rest) \<noteq> ''-''" by (cases "show_digits i") simp_all
    then show ?thesis using json_number_digits [OF assms, of i] False ends
      by (simp add: json_number_def Let_def show_int_def)
  qed
qed

lemma whole_number_show: "whole_number l \<longleftrightarrow> (\<exists>i. l = show_int i)"
  by (auto simp: whole_number_def split: option.split)

lemma number_head:
  assumes "whole_number l"
  obtains c t where "l = c # t" and "is_digit c \<or> c = CHR ''-''"
proof -
  obtain i where i: "l = show_int i" using assms by (auto simp: whole_number_show)
  show ?thesis
  proof (cases "i < 0")
    case True
    then show ?thesis using that i by (simp add: show_int_def)
  next
    case False
    obtain c t where "show_digits i = c # t" by (metis show_digits_nonempty neq_Nil_conv)
    moreover from this have "is_digit c" using False show_digits_chars [of i c] by (intro digit_is_digit) auto
    ultimately show ?thesis using that i False by (simp add: show_int_def)
  qed
qed

definition value_head :: "char \<Rightarrow> bool" where
  "value_head c \<longleftrightarrow> \<not> json_space c \<and> c \<noteq> CHR '']'' \<and> c \<noteq> CHR ''}''"

lemma json_text_head:
  assumes "json_clean v"
  obtains c t where "json_text v = c # t" and "value_head c"
proof (cases v)
  case (JNum l)
  then have "whole_number l" using assms by simp
  then obtain c t where l: "l = c # t" and c: "is_digit c \<or> c = CHR ''-''" by (rule number_head)
  have "value_head c"
  proof -
    have "is_digit x \<Longrightarrow> value_head x" for x by (auto simp: is_digit_def value_head_def json_space_def Let_def)
    moreover have "value_head CHR ''-''" by code_simp
    ultimately show ?thesis using c by blast
  qed
  then show ?thesis using that JNum l by simp
next
  case (JBool b)
  then show ?thesis using that by (cases b) (simp_all add: json_bool_def value_head_def json_space_def)
qed (use that in \<open>simp_all add: json_bool_def json_string_def json_array_def json_object_def value_head_def json_space_def\<close>)

lemma skip_space_head: "value_head c \<Longrightarrow> skip_space (c # t) = c # t"
  by (simp add: skip_space_def value_head_def)

lemma skip_space_text: "json_clean v \<Longrightarrow> skip_space (json_text v @ t) = json_text v @ t"
  using json_text_head [of v] by (metis append_Cons skip_space_head)

lemma skip_space_mark: "\<not> json_space c \<Longrightarrow> skip_space (c # t) = c # t"
  by (simp add: skip_space_def)

lemma not_space [simp]: "\<not> json_space CHR '',''" "\<not> json_space CHR '']''" "\<not> json_space CHR ''}''" "\<not> json_space CHR '':''"
    "\<not> json_space CHR ''{''" "\<not> json_space CHR ''[''" "\<not> json_space CHR 0x22"
  by (simp_all add: json_space_def)

definition reads :: "json \<Rightarrow> bool" where
  "reads v \<longleftrightarrow> (\<forall>n d rest. 2 * length (json_text v) \<le> Suc n \<longrightarrow> json_depth v \<le> d \<longrightarrow> json_end rest \<longrightarrow>
     json_value n d (json_text v @ rest) = Some (v, rest))"

lemma text_length: "json_clean v \<Longrightarrow> 0 < length (json_text v)"
  using json_text_head [of v] by (metis length_greater_0_conv list.distinct(1))

lemma elems_read:
  assumes "xs \<noteq> []" and "\<forall>v\<in>set xs. reads v \<and> json_clean v \<and> json_depth v \<le> d" and "2 * length (comma_sep (map json_text xs)) \<le> n"
  shows "json_elems n d (comma_sep (map json_text xs) @ CHR '']'' # rest) = Some (xs, rest)"
  using assms
proof (induction xs arbitrary: n)
  case (Cons v vs)
  then have v: "reads v" "json_clean v" "json_depth v \<le> d" by simp_all
  let ?t = "if vs = [] then [] else CHR '','' # comma_sep (map json_text vs)"
  have list: "comma_sep (map json_text (v # vs)) = json_text v @ ?t" by (cases vs) simp_all
  have len: "0 < length (json_text v)" using v(2) by (rule text_length)
  then obtain n' where n: "n = Suc n'" using Cons.prems(3) unfolding list by (cases n) simp_all
  have "json_end (?t @ CHR '']'' # rest)" by (simp add: json_end_def)
  moreover have "2 * length (json_text v) \<le> Suc n'" using Cons.prems(3) unfolding list n by simp
  ultimately have first: "json_value n' d (json_text v @ ?t @ CHR '']'' # rest) = Some (v, ?t @ CHR '']'' # rest)"
    using v unfolding reads_def by blast
  show ?case
  proof (cases "vs = []")
    case True
    then show ?thesis using first unfolding list n by (simp add: skip_space_mark)
  next
    case False
    have "2 * length (comma_sep (map json_text vs)) \<le> n'" using Cons.prems(3) len False unfolding list n by simp
    then have "json_elems n' d (comma_sep (map json_text vs) @ CHR '']'' # rest) = Some (vs, rest)"
      using Cons.IH Cons.prems(2) False by simp
    then show ?thesis using first False unfolding list n by (simp add: skip_space_mark)
  qed
qed simp

definition member_text :: "string \<times> json \<Rightarrow> string" where
  "member_text m = json_string (fst m) @ '':'' @ json_text (snd m)"

lemma members_read:
  assumes "ms \<noteq> []" and "\<forall>m\<in>set ms. reads (snd m) \<and> json_clean (snd m) \<and> json_depth (snd m) \<le> d \<and> utf8_text (fst m)"
    and "distinct (map fst ms)" and "2 * length (comma_sep (map member_text ms)) \<le> n"
  shows "json_members n d (comma_sep (map member_text ms) @ CHR ''}'' # rest) = Some (ms, rest)"
  using assms
proof (induction ms arbitrary: n)
  case (Cons m ms)
  obtain k v where m: "m = (k, v)" by (cases m)
  have v: "reads v" "json_clean v" "json_depth v \<le> d" "utf8_text k" using Cons.prems(2) by (simp_all add: m)
  let ?t = "if ms = [] then [] else CHR '','' # comma_sep (map member_text ms)"
  have list: "comma_sep (map member_text (m # ms)) = CHR 0x22 # json_escape k @ CHR 0x22 # CHR '':'' # json_text v @ ?t"
    by (cases ms) (simp_all add: member_text_def m json_string_def)
  obtain n' where n: "n = Suc n'" using Cons.prems(4) unfolding list by (cases n) simp_all
  have "json_end (?t @ CHR ''}'' # rest)" by (simp add: json_end_def)
  moreover have "2 * length (json_text v) \<le> Suc n'" using Cons.prems(4) unfolding list n by simp
  ultimately have first: "json_value n' d (json_text v @ ?t @ CHR ''}'' # rest) = Some (v, ?t @ CHR ''}'' # rest)"
    using v unfolding reads_def by blast
  have key: "json_chars (length (json_escape k @ CHR 0x22 # CHR '':'' # json_text v @ ?t @ CHR ''}'' # rest))
      (json_escape k @ CHR 0x22 # CHR '':'' # json_text v @ ?t @ CHR ''}'' # rest) = Some (k, CHR '':'' # json_text v @ ?t @ CHR ''}'' # rest)"
    using v(4) by (rule json_string_read)
  show ?case
  proof (cases "ms = []")
    case True
    then show ?thesis using first key unfolding list n by (simp add: skip_space_mark m)
  next
    case False
    have "2 * length (comma_sep (map member_text ms)) \<le> n'" using Cons.prems(4) False unfolding list n by simp
    then have "json_members n' d (comma_sep (map member_text ms) @ CHR ''}'' # rest) = Some (ms, rest)"
      using Cons.IH Cons.prems(2,3) False by simp
    moreover have "k \<notin> fst ` set ms" using Cons.prems(3) by (simp add: m)
    ultimately show ?thesis using first key False unfolding list n by (simp add: skip_space_mark m)
  qed
qed simp

lemma depth_elem: "v \<in> set xs \<Longrightarrow> json_depth v < json_depth (JArr xs)"
  by (simp add: less_Suc_eq_le)

lemma depth_member: "m \<in> set ms \<Longrightarrow> json_depth (snd m) < json_depth (JObj ms)"
  by (cases m) (force simp: less_Suc_eq_le intro: Max_ge)

lemma readsI:
  assumes "json_clean v"
    and "\<And>n d rest. 2 * length (json_text v) \<le> Suc (Suc n) \<Longrightarrow> json_depth v \<le> d \<Longrightarrow> json_end rest \<Longrightarrow>
      json_value (Suc n) d (json_text v @ rest) = Some (v, rest)"
  shows "reads v"
  unfolding reads_def
proof (intro allI impI)
  fix n d :: nat and rest
  assume "2 * length (json_text v) \<le> Suc n" "json_depth v \<le> d" "json_end rest"
  moreover from this text_length [OF assms(1)] obtain m where "n = Suc m" by (cases n) simp_all
  ultimately show "json_value n d (json_text v @ rest) = Some (v, rest)" using assms(2) by simp
qed

lemma number_reads:
  assumes "whole_number l"
  shows "reads (JNum l)"
proof -
  obtain c t where l: "l = c # t" and c: "is_digit c \<or> c = CHR ''-''" using assms by (rule number_head)
  have marks: "\<not> json_space c" "c \<noteq> CHR ''{''" "c \<noteq> CHR ''[''" "c \<noteq> CHR 0x22" "c \<noteq> CHR ''t''" "c \<noteq> CHR ''f''" "c \<noteq> CHR ''n''"
    using c by (auto simp: is_digit_def json_space_def Let_def)
  have "json_number (l @ rest) = Some (l, rest)" if "json_end rest" for rest
    using assms json_number_show [OF that] by (auto simp: whole_number_show)
  then show ?thesis using assms marks l by (intro readsI) (auto simp: skip_space_mark)
qed

lemma clean_reads: "json_clean v \<Longrightarrow> reads v"
proof (induction v)
  case (JNum l)
  then show ?case by (simp add: number_reads)
next
  case (JStr s)
  then show ?case using json_string_read [of s] by (intro readsI) (simp_all add: json_string_def skip_space_mark)
next
  case (JArr xs)
  have xs: "\<forall>v\<in>set xs. reads v \<and> json_clean v" using JArr by (auto simp: list_all_iff)
  show ?case
  proof (rule readsI)
    fix n d :: nat and rest
    assume n: "2 * length (json_text (JArr xs)) \<le> Suc (Suc n)" and d: "json_depth (JArr xs) \<le> d"
    have d': "d \<noteq> 0" using d by (cases d) simp_all
    have whole: "json_text (JArr xs) @ rest = CHR ''['' # comma_sep (map json_text xs) @ CHR '']'' # rest" by (simp add: json_array_def)
    show "json_value (Suc n) d (json_text (JArr xs) @ rest) = Some (JArr xs, rest)"
    proof (cases "xs = []")
      case True
      then show ?thesis unfolding whole using d' by (simp add: skip_space_mark)
    next
      case False
      have "\<forall>v\<in>set xs. json_depth v \<le> d - 1" using depth_elem d by fastforce
      moreover have "2 * length (comma_sep (map json_text xs)) \<le> n" using n by (simp add: json_array_def)
      ultimately have elems: "json_elems n (d - 1) (comma_sep (map json_text xs) @ CHR '']'' # rest) = Some (xs, rest)"
        using False xs by (intro elems_read) simp_all
      obtain v vs where "xs = v # vs" using False by (cases xs) simp_all
      moreover obtain c t where "json_text v = c # t" "value_head c" using json_text_head xs \<open>xs = v # vs\<close> by (metis list.set_intros(1))
      ultimately obtain t' where "comma_sep (map json_text xs) = c # t'" by (cases vs) simp_all
      then have "take 1 (skip_space (comma_sep (map json_text xs) @ CHR '']'' # rest)) \<noteq> '']''"
        using skip_space_head [OF \<open>value_head c\<close>] \<open>value_head c\<close> by (simp add: value_head_def)
      then show ?thesis unfolding whole using d' elems by (simp add: skip_space_mark)
    qed
  qed (use JArr in simp)
next
  case (JObj ms)
  have ms: "\<forall>m\<in>set ms. reads (snd m) \<and> json_clean (snd m) \<and> utf8_text (fst m)" "distinct (map fst ms)"
    using JObj by (force simp: list_all_iff)+
  have texts: "map member_text ms = map (\<lambda>(k, v). json_string k @ '':'' @ v) (map (map_prod id json_text) ms)"
    by (auto simp: member_text_def)
  show ?case
  proof (rule readsI)
    fix n d :: nat and rest
    assume n: "2 * length (json_text (JObj ms)) \<le> Suc (Suc n)" and d: "json_depth (JObj ms) \<le> d"
    have d': "d \<noteq> 0" using d by (cases d) simp_all
    have whole: "json_text (JObj ms) @ rest = CHR ''{'' # comma_sep (map member_text ms) @ CHR ''}'' # rest"
      by (simp add: json_object_def texts)
    show "json_value (Suc n) d (json_text (JObj ms) @ rest) = Some (JObj ms, rest)"
    proof (cases "ms = []")
      case True
      then show ?thesis unfolding whole using d' by (simp add: skip_space_mark)
    next
      case False
      have "\<forall>m\<in>set ms. json_depth (snd m) \<le> d - 1" using depth_member d by fastforce
      moreover have "2 * length (comma_sep (map member_text ms)) \<le> n" using n by (simp add: json_object_def texts)
      ultimately have members: "json_members n (d - 1) (comma_sep (map member_text ms) @ CHR ''}'' # rest) = Some (ms, rest)"
        using False ms by (intro members_read) simp_all
      obtain m ms' where "ms = m # ms'" using False by (cases ms) simp_all
      then obtain t' where "comma_sep (map member_text ms) = CHR 0x22 # t'" by (cases ms') (simp_all add: member_text_def json_string_def)
      then have "take 1 (skip_space (comma_sep (map member_text ms) @ CHR ''}'' # rest)) \<noteq> ''}''"
        by (simp add: skip_space_mark)
      then show ?thesis unfolding whole using d' members by (simp add: skip_space_mark)
    qed
  qed (use JObj in simp)
qed (rule readsI; simp add: json_bool_def skip_space_mark json_space_def)+

text \<open>A marshalled value is parsed as itself.\<close>

theorem json_parse_text:
  assumes "json_clean v" and "json_depth v \<le> 10000"
  shows "json_parse (json_text v) = Some v"
proof -
  have "json_end []" by (simp add: json_end_def)
  then have "json_value (2 * length (json_text v)) 10000 (json_text v) = Some (v, [])"
    using clean_reads [OF assms(1)] assms(2) unfolding reads_def by (metis append_Nil2 le_SucI order_refl)
  then show ?thesis by (simp add: json_parse_def skip_space_def)
qed

section \<open>Structs and their texts\<close>

definition in_bits :: "nat \<Rightarrow> int \<Rightarrow> bool" where
  "in_bits bits n \<longleftrightarrow> - (2 ^ (bits - 1)) \<le> n \<and> n < 2 ^ (bits - 1)"

lemma read_int_text [simp]: "in_bits bits n \<Longrightarrow> read_int bits (text_int n) old = Some n"
  by (simp add: read_int_def text_int_def in_bits_def)

lemma read_scalar_text [simp]: "read_string (JStr s) old = Some s" "read_bool (JBool b) old' = Some b"
  by (simp_all add: read_string_def read_bool_def)

lemma text_int_clean [simp]: "json_clean (text_int n)" "json_depth (text_int n) = 0"
  by (auto simp: text_int_def whole_number_show)

declare utf8_text.simps(2) [simp del]

lemma utf8_ascii_text: "list_all (\<lambda>c. (of_char c :: nat) < 128) s \<Longrightarrow> utf8_text s"
  by (induction s) (simp_all add: utf8_text.simps(2) utf8_length_ascii)

text \<open>A member is read into the field it names exactly, when no two fields differ only in case.\<close>

definition plain_fields :: "(string \<times> 'a) list \<Rightarrow> bool" where
  "plain_fields fs \<longleftrightarrow> distinct (map (\<lambda>f. fold_name (fst f)) fs)"

definition ascii_name :: "string \<Rightarrow> bool" where
  "ascii_name s \<longleftrightarrow> list_all (\<lambda>c. (of_char c :: nat) < 128) s"

lemma fold_ascii_name: "ascii_name s \<Longrightarrow> fold_name s = map lower_char s"
proof (induction s rule: fold_name.induct)
  case (2 c s)
  then have "ascii_name s" "(of_char c :: nat) < 128" by (simp_all add: ascii_name_def)
  moreover have "hd (utf8 8490) \<noteq> c" "hd (utf8 383) \<noteq> c" using \<open>(of_char c :: nat) < 128\<close> by (auto simp: utf8_def)
  ultimately show ?case using 2 by (auto dest: arg_cong [where f = hd])
qed simp

lemma plain_ascii_fields:
  assumes "list_all ascii_name (map fst fs)" and "distinct (map (map lower_char) (map fst fs))"
  shows "plain_fields fs"
proof -
  have "map (\<lambda>f. fold_name (fst f)) fs = map (map lower_char) (map fst fs)"
    using assms(1) by (auto simp: list_all_iff fold_ascii_name)
  with assms(2) show ?thesis unfolding plain_fields_def by (simp only:)
qed

lemma read_member_exact:
  assumes fs: "plain_fields fs" and "map_of fs k = Some R"
  shows "read_member fs (k, v) a = R v a"
proof -
  have "find (\<lambda>f. fold_name (fst f) = fold_name k) fs = Some (k, R)"
    using fs [unfolded plain_fields_def] assms(2)
  proof (induction fs)
    case (Cons f fs)
    show ?case
    proof (cases "fst f = k")
      case True
      then show ?thesis using Cons.prems by (cases f) simp
    next
      case False
      then have "map_of fs k = Some R" using Cons.prems by (cases f) simp
      moreover from this have "fold_name k \<in> (\<lambda>f. fold_name (fst f)) ` set fs" by (force dest: map_of_SomeD)
      moreover have "fold_name (fst f) \<notin> (\<lambda>f. fold_name (fst f)) ` set fs" using Cons.prems(1) by simp
      ultimately have "fold_name (fst f) \<noteq> fold_name k" by metis
      then show ?thesis using \<open>map_of fs k = Some R\<close> Cons by simp
    qed
  qed simp
  then show ?thesis by (simp add: read_member_def split_def)
qed

lemma depth_array: "(\<And>x. x \<in> set xs \<Longrightarrow> json_depth x \<le> d) \<Longrightarrow> json_depth (JArr xs) \<le> Suc d"
  by simp

lemma depth_object: "(\<And>m. m \<in> set ms \<Longrightarrow> json_depth (snd m) \<le> d) \<Longrightarrow> json_depth (JObj ms) \<le> Suc d"
  by force

lemma foldO_append: "foldO f (xs @ ys) s = Option.bind (foldO f xs s) (foldO f ys)"
proof (induction xs arbitrary: s)
  case (Cons x xs)
  then show ?case by (cases "f x s") simp_all
qed simp

lemma foldO_single: "foldO f [x] s = f x s"
  by (cases "f x s") simp_all

locale json_codec =
  fixes enc :: "'a \<Rightarrow> json" and dec :: "'a json_reader" and zero :: 'a and ok :: "'a \<Rightarrow> bool" and depth :: nat
  assumes clean: "ok b \<Longrightarrow> json_clean (enc b)"
    and shallow: "ok b \<Longrightarrow> json_depth (enc b) \<le> depth"
    and read: "ok b \<Longrightarrow> dec (enc b) zero = Some b"
    and object: "enc b \<noteq> JNull"
begin

lemma unmarshal_text: "ok b \<Longrightarrow> depth \<le> 10000 \<Longrightarrow> unmarshal dec zero (json_text (enc b)) = Some b"
  using json_parse_text [OF clean, of b] shallow [of b] by (simp add: unmarshal_def read)

lemma array_clean: "list_all ok bs \<Longrightarrow> json_clean (JArr (map enc bs))"
  by (induction bs) (simp_all add: clean)

lemma array_shallow: "list_all ok bs \<Longrightarrow> json_depth (JArr (map enc bs)) \<le> Suc depth"
  using shallow by (intro depth_array) (auto simp: list_all_iff)

lemma array_read: "list_all ok bs \<Longrightarrow> read_slice dec zero (JArr (map enc bs)) old = Some (Some bs)"
proof -
  assume "list_all ok bs"
  then have "read_all dec zero (map enc bs) = Some bs" by (induction bs) (simp_all add: read)
  then show ?thesis by (simp add: read_slice_def)
qed

lemma slice:
  assumes "list_all ok (elements xs)"
  shows "json_clean (text_slice enc xs)" and "json_depth (text_slice enc xs) \<le> Suc depth"
    and "read_slice dec zero (text_slice enc xs) None = Some xs"
  using assms array_clean array_shallow array_read [where old = None]
  by (auto simp: text_slice_def elements_def read_slice_def simp del: json_depth.simps json_clean.simps split: option.splits)
    (simp_all)

lemma pointer_read: "(\<And>x. p = Some x \<Longrightarrow> ok x) \<Longrightarrow> p = Some x \<Longrightarrow> read_pointer dec zero (enc x) None = Some p"
  using object by (simp add: read_pointer_def read)

lemma filled_member:
  assumes "plain_fields fs" and "map_of fs k = Some (via get upd (read_slice dec zero))" and "list_all ok (elements xs)" and "xs \<noteq> Some []"
  shows "foldO (read_member fs) (text_filled k enc xs) a = Some (if xs = None then a else upd (\<lambda>_. xs) a)"
proof (cases xs)
  case (Some ys)
  then have "foldO (read_member fs) (text_filled k enc xs) a = read_member fs (k, JArr (map enc ys)) a"
    using assms(4) by (simp add: text_filled_def elements_def foldO_single del: foldO.simps)
  then show ?thesis
    using assms(3) by (simp add: read_member_exact [OF assms(1,2)] via_def array_read Some elements_def)
qed (simp add: text_filled_def elements_def)

lemma present_member:
  assumes "plain_fields fs" and "map_of fs k = Some (via get upd (read_pointer dec zero))" and "\<And>x. p = Some x \<Longrightarrow> ok x" and "get a = None"
  shows "foldO (read_member fs) (text_present k enc p) a = Some (if p = None then a else upd (\<lambda>_. p) a)"
proof (cases p)
  case (Some x)
  have "foldO (read_member fs) (text_present k enc p) a = read_member fs (k, enc x) a" by (simp add: text_present_def Some foldO_single del: foldO.simps)
  then show ?thesis
    using assms(3,4) pointer_read [of p x] by (simp add: read_member_exact [OF assms(1,2)] via_def Some)
qed (simp add: text_present_def)

lemma filled_clean:
  assumes "list_all ok (elements xs)" and "utf8_text k"
  shows "list_all (\<lambda>m. utf8_text (fst m) \<and> json_clean (snd m) \<and> json_depth (snd m) \<le> Suc depth) (text_filled k enc xs)"
  using assms array_clean array_shallow
  by (simp add: text_filled_def del: json_depth.simps json_clean.simps)

lemma present_clean:
  assumes "\<And>x. p = Some x \<Longrightarrow> ok x" and "utf8_text k"
  shows "list_all (\<lambda>m. utf8_text (fst m) \<and> json_clean (snd m) \<and> json_depth (snd m) \<le> depth) (text_present k enc p)"
  using assms clean shallow by (auto simp: text_present_def split: option.split)

end

text \<open>An object from members that are.\<close>

lemma object_clean:
  assumes "list_all (\<lambda>m. utf8_text (fst m) \<and> json_clean (snd m) \<and> json_depth (snd m) \<le> d) ms" and "distinct (map fst ms)"
  shows "json_clean (JObj ms)" and "json_depth (JObj ms) \<le> Suc d"
proof -
  show "json_clean (JObj ms)" using assms by (auto simp: list_all_iff)
  show "json_depth (JObj ms) \<le> Suc d" using assms(1) by (intro depth_object) (auto simp: list_all_iff)
qed

lemma filled_names [simp]: "map fst (text_filled k f xs) = (if elements xs = [] then [] else [k])"
  by (simp add: text_filled_def)

lemma present_names [simp]: "map fst (text_present k f p) = (case p of None \<Rightarrow> [] | Some x \<Rightarrow> [k])"
  by (simp add: text_present_def split: option.split)

end
