(* ===== verification/Aquarius_Config.thy ===== *)
theory Aquarius_Config
  imports GoMarshal Aquarius_State
begin

text \<open>
  What Aquarius persists and restores (src/aquarius/config_state.go): a record for every pool of the
  protocol a change of the ledger touches, with the whole pool as JSON.
\<close>

section \<open>Pools as JSON\<close>

text \<open>The structs have no tags: the members have the names of the fields.\<close>

definition amm_token_text :: "amm_token_reserve \<Rightarrow> json" where
  "amm_token_text t = JObj [(''AssetID'', JStr (tr_AssetID t)), (''Decimals'', text_int (tr_Decimals t)), (''ReserveRaw'', JStr (tr_ReserveRaw t))]"

definition amm_token_fields :: "(string \<times> amm_token_reserve json_reader) list" where
  "amm_token_fields = [(''AssetID'', via tr_AssetID tr_AssetID_update read_string), (''Decimals'', via tr_Decimals tr_Decimals_update (read_int 32)),
     (''ReserveRaw'', via tr_ReserveRaw tr_ReserveRaw_update read_string)]"

text \<open>
  A slice without tokens is nil or empty, null or \<open>[]\<close> in the text: \<open>unset\<close> says of which pools it is nil.
\<close>

definition amm_tokens :: "(amm_pool_state \<Rightarrow> bool) \<Rightarrow> amm_pool_state \<Rightarrow> amm_token_reserve list option" where
  "amm_tokens unset p = (if ps_Tokens p = [] \<and> unset p then None else Some (ps_Tokens p))"

definition amm_pool_text :: "(amm_pool_state \<Rightarrow> bool) \<Rightarrow> amm_pool_state \<Rightarrow> json" where
  "amm_pool_text unset p = JObj
    [(''Protocol'', JStr (ps_Protocol p)),
     (''RouterContract'', JStr (ps_RouterContract p)),
     (''PoolHash'', JStr (ps_PoolHash p)),
     (''ContractID'', JStr (ps_ContractID p)),
     (''WasmHash'', JStr (ps_WasmHash p)),
     (''PoolType'', JStr (ps_PoolType p)),
     (''Tokens'', text_slice amm_token_text (amm_tokens unset p)),
     (''TotalSharesRaw'', JStr (ps_TotalSharesRaw p)),
     (''FeeFractionRaw'', JStr (ps_FeeFractionRaw p)),
     (''ProtocolFeeFractionRaw'', JStr (ps_ProtocolFeeFractionRaw p)),
     (''AmplificationRaw'', JStr (ps_AmplificationRaw p)),
     (''TickSpacing'', text_int (ps_TickSpacing p)),
     (''SqrtPriceX96'', JStr (ps_SqrtPriceX96 p)),
     (''CurrentTick'', text_int (ps_CurrentTick p)),
     (''ActiveLiquidityRaw'', JStr (ps_ActiveLiquidityRaw p)),
     (''FeeGrowthGlobal0X128'', JStr (ps_FeeGrowthGlobal0X128 p)),
     (''FeeGrowthGlobal1X128'', JStr (ps_FeeGrowthGlobal1X128 p)),
     (''RewardTpsRaw'', JStr (ps_RewardTpsRaw p)),
     (''RewardExpiredAtRaw'', JStr (ps_RewardExpiredAtRaw p)),
     (''RewardAccumulatedRaw'', JStr (ps_RewardAccumulatedRaw p)),
     (''RewardLastTimeRaw'', JStr (ps_RewardLastTimeRaw p)),
     (''WorkingSupplyRaw'', JStr (ps_WorkingSupplyRaw p)),
     (''RewardTokenID'', JStr (ps_RewardTokenID p))]"

definition amm_pool_fields :: "(string \<times> amm_pool_state json_reader) list" where
  "amm_pool_fields =
    [(''Protocol'', via ps_Protocol ps_Protocol_update read_string),
     (''RouterContract'', via ps_RouterContract ps_RouterContract_update read_string),
     (''PoolHash'', via ps_PoolHash ps_PoolHash_update read_string),
     (''ContractID'', via ps_ContractID ps_ContractID_update read_string),
     (''WasmHash'', via ps_WasmHash ps_WasmHash_update read_string),
     (''PoolType'', via ps_PoolType ps_PoolType_update read_string),
     (''Tokens'', \<lambda>v p. map_option (\<lambda>xs. p\<lparr>ps_Tokens := elements xs\<rparr>) (read_slice (read_struct amm_token_fields) zero_amm_token_reserve v None)),
     (''TotalSharesRaw'', via ps_TotalSharesRaw ps_TotalSharesRaw_update read_string),
     (''FeeFractionRaw'', via ps_FeeFractionRaw ps_FeeFractionRaw_update read_string),
     (''ProtocolFeeFractionRaw'', via ps_ProtocolFeeFractionRaw ps_ProtocolFeeFractionRaw_update read_string),
     (''AmplificationRaw'', via ps_AmplificationRaw ps_AmplificationRaw_update read_string),
     (''TickSpacing'', via ps_TickSpacing ps_TickSpacing_update (read_int 32)),
     (''SqrtPriceX96'', via ps_SqrtPriceX96 ps_SqrtPriceX96_update read_string),
     (''CurrentTick'', via ps_CurrentTick ps_CurrentTick_update (read_int 32)),
     (''ActiveLiquidityRaw'', via ps_ActiveLiquidityRaw ps_ActiveLiquidityRaw_update read_string),
     (''FeeGrowthGlobal0X128'', via ps_FeeGrowthGlobal0X128 ps_FeeGrowthGlobal0X128_update read_string),
     (''FeeGrowthGlobal1X128'', via ps_FeeGrowthGlobal1X128 ps_FeeGrowthGlobal1X128_update read_string),
     (''RewardTpsRaw'', via ps_RewardTpsRaw ps_RewardTpsRaw_update read_string),
     (''RewardExpiredAtRaw'', via ps_RewardExpiredAtRaw ps_RewardExpiredAtRaw_update read_string),
     (''RewardAccumulatedRaw'', via ps_RewardAccumulatedRaw ps_RewardAccumulatedRaw_update read_string),
     (''RewardLastTimeRaw'', via ps_RewardLastTimeRaw ps_RewardLastTimeRaw_update read_string),
     (''WorkingSupplyRaw'', via ps_WorkingSupplyRaw ps_WorkingSupplyRaw_update read_string),
     (''RewardTokenID'', via ps_RewardTokenID ps_RewardTokenID_update read_string)]"

section \<open>Schema, records, hydration\<close>

definition kind_amm_pool :: string where
  "kind_amm_pool = ''aquarius.pool''"

definition aq_ConfigSchema :: "config_table_schema list" where
  "aq_ConfigSchema = [zero_config_table_schema\<lparr>cs_Kind := kind_amm_pool, cs_Table := ''aquarius_pool_config'',
     cs_Generated := [\<lparr>cg_Name = ''pool_type'', cg_SQLType = ''text'', cg_Expr = ''payload->>'' @ [CHR 0x27] @ ''PoolType'' @ [CHR 0x27]\<rparr>,
       \<lparr>cg_Name = ''wasm_hash'', cg_SQLType = ''text'', cg_Expr = ''payload->>'' @ [CHR 0x27] @ ''WasmHash'' @ [CHR 0x27]\<rparr>]\<rparr>]"

definition aq_ConfigRecords :: "(amm_pool_state \<Rightarrow> bool) \<Rightarrow> aq_adapter \<Rightarrow> ledger_state option \<Rightarrow> contract_data_change list \<Rightarrow> int \<Rightarrow> config_record list" where
  "aq_ConfigRecords unset a next changes ledgerSeq =
     (case next of
        None \<Rightarrow> []
      | Some st \<Rightarrow>
          map (\<lambda>p. zero_config_record\<lparr>cr_Kind := kind_amm_pool, cr_EntityKey := ps_ContractID p, cr_Ledger := to_uint32 ledgerSeq,
                 cr_Payload := json_text (amm_pool_text unset p)\<rparr>)
            (filter (\<lambda>p. ps_Protocol p = aq_Protocol a \<and> ps_ContractID p \<in> cd_ContractID ` set changes) (ls_AMMPools st)))"

text \<open>
  A payload that cannot be read is an error that names its record; the pools before it stay registered.
\<close>

fun hydrate_pools :: "config_record list \<Rightarrow> amm_pool_state list \<Rightarrow> aq_adapter \<Rightarrow> (string + amm_pool_state list) \<times> aq_adapter" where
  "hydrate_pools [] ps a = (Inr ps, a)"
| "hydrate_pools (r # rs) ps a =
     (if cr_Kind r \<noteq> kind_amm_pool \<or> cr_Removed r then hydrate_pools rs ps a
      else (case unmarshal (read_struct amm_pool_fields) zero_amm_pool_state (cr_Payload r) of
          None \<Rightarrow> (Inl (cr_EntityKey r), a)
        | Some p \<Rightarrow> hydrate_pools rs (ps @ [p]) (aq_RegisterContracts [ps_ContractID p] a)))"

definition aq_HydrateConfig :: "config_record list \<Rightarrow> aq_adapter \<Rightarrow> (string + ledger_state) \<times> aq_adapter" where
  "aq_HydrateConfig rs a =
     (case hydrate_pools rs [] a of
        (Inl e, a') \<Rightarrow> (Inl e, a')
      | (Inr ps, a') \<Rightarrow> (Inr (zero_ledger_state\<lparr>ls_AMMPools := ps\<rparr>), a'))"

section \<open>Pools are restored\<close>

definition amm_token_ok :: "amm_token_reserve \<Rightarrow> bool" where
  "amm_token_ok t \<longleftrightarrow> utf8_text (tr_AssetID t) \<and> in_bits 32 (tr_Decimals t) \<and> utf8_text (tr_ReserveRaw t)"

text \<open>Texts are UTF-8 and integers fit.\<close>

definition amm_pool_ok :: "amm_pool_state \<Rightarrow> bool" where
  "amm_pool_ok p \<longleftrightarrow> list_all utf8_text [ps_Protocol p, ps_RouterContract p, ps_PoolHash p, ps_ContractID p, ps_WasmHash p, ps_PoolType p, ps_TotalSharesRaw p, ps_FeeFractionRaw p, ps_ProtocolFeeFractionRaw p, ps_AmplificationRaw p, ps_SqrtPriceX96 p, ps_ActiveLiquidityRaw p, ps_FeeGrowthGlobal0X128 p, ps_FeeGrowthGlobal1X128 p, ps_RewardTpsRaw p, ps_RewardExpiredAtRaw p, ps_RewardAccumulatedRaw p, ps_RewardLastTimeRaw p, ps_WorkingSupplyRaw p, ps_RewardTokenID p]
     \<and> in_bits 32 (ps_TickSpacing p) \<and> in_bits 32 (ps_CurrentTick p) \<and> list_all amm_token_ok (ps_Tokens p)"

lemma amm_field_names: "plain_fields amm_token_fields" "plain_fields amm_pool_fields"
  by (rule plain_ascii_fields, simp_all add: ascii_name_def lower_char_def amm_token_fields_def amm_pool_fields_def)+

interpretation token: json_codec amm_token_text "read_struct amm_token_fields" zero_amm_token_reserve amm_token_ok 1
  by unfold_locales
    (simp_all add: amm_token_text_def amm_token_ok_def utf8_ascii_text read_struct_def amm_token_fields_def
      read_member_exact [OF amm_field_names(1) [unfolded amm_token_fields_def]] via_def zero_amm_token_reserve_def)

lemma amm_tokens_ok: "amm_pool_ok p \<Longrightarrow> list_all amm_token_ok (elements (amm_tokens unset p))"
  by (simp add: amm_pool_ok_def amm_tokens_def elements_def)

lemma elements_tokens [simp]: "elements (amm_tokens unset p) = ps_Tokens p"
  by (simp add: amm_tokens_def elements_def)

interpretation amm_pool: json_codec "amm_pool_text unset" "read_struct amm_pool_fields" zero_amm_pool_state amm_pool_ok 3 for unset
proof
  fix p
  assume ok: "amm_pool_ok p"
  note tokens = token.slice [OF amm_tokens_ok [OF ok, of unset]]
  show "json_clean (amm_pool_text unset p)" "json_depth (amm_pool_text unset p) \<le> 3"
    using ok tokens(1,2) by (simp_all add: amm_pool_text_def amm_pool_ok_def utf8_ascii_text)
  show "read_struct amm_pool_fields (amm_pool_text unset p) zero_amm_pool_state = Some p"
    using ok tokens(3) by (cases p) (simp add: amm_pool_text_def amm_pool_ok_def read_struct_def amm_pool_fields_def
      read_member_exact [OF amm_field_names(2) [unfolded amm_pool_fields_def]] via_def zero_amm_pool_state_def)
qed (simp add: amm_pool_text_def)

lemma register_append: "aq_RegisterContracts js (aq_RegisterContracts is a) = aq_RegisterContracts (is @ js) a"
  by (simp add: aq_RegisterContracts_def Un_assoc)

lemma hydrate_records:
  assumes "list_all amm_pool_ok ps"
  shows "hydrate_pools (map (\<lambda>p. zero_config_record\<lparr>cr_Kind := kind_amm_pool, cr_EntityKey := ps_ContractID p, cr_Ledger := l,
       cr_Payload := json_text (amm_pool_text unset p)\<rparr>) ps) qs a
    = (Inr (qs @ ps), aq_RegisterContracts (map ps_ContractID ps) a)"
  using assms
proof (induction ps arbitrary: qs a)
  case Nil
  then show ?case by (simp add: aq_RegisterContracts_def)
next
  case (Cons p ps)
  then show ?case by (simp add: amm_pool.unmarshal_text zero_config_record_def register_append)
qed

text \<open>
  C29: The records of a ledger restore the pools: hydrating what was persisted of a state gives back
  exactly its pools of the protocol that the changes touch, every field and token of them and in their
  order, and the adapter owns their contracts.
\<close>

theorem aq_config_restores:
  assumes "list_all amm_pool_ok (ls_AMMPools st)"
  shows "aq_HydrateConfig (aq_ConfigRecords unset a (Some st) changes ledger) b =
    (let ps = filter (\<lambda>p. ps_Protocol p = aq_Protocol a \<and> ps_ContractID p \<in> cd_ContractID ` set changes) (ls_AMMPools st)
     in (Inr (zero_ledger_state\<lparr>ls_AMMPools := ps\<rparr>), aq_RegisterContracts (map ps_ContractID ps) b))"
proof -
  let ?touched = "\<lambda>p. ps_Protocol p = aq_Protocol a \<and> ps_ContractID p \<in> cd_ContractID ` set changes"
  have "list_all amm_pool_ok (filter ?touched (ls_AMMPools st))" using assms by (simp add: list_all_iff)
  from hydrate_records [OF this] show ?thesis by (simp add: aq_HydrateConfig_def aq_ConfigRecords_def Let_def)
qed

definition ac_pool :: "string \<Rightarrow> amm_pool_state" where
  "ac_pool cid = zero_amm_pool_state\<lparr>ps_Protocol := ''aquarius'', ps_ContractID := cid, ps_PoolType := ''concentrated'', ps_TickSpacing := 20,
     ps_CurrentTick := - 7, ps_Tokens := [\<lparr>tr_AssetID = ''CA'', tr_Decimals = 7, tr_ReserveRaw = ''10''\<rparr>]\<rparr>"

definition ac_state :: ledger_state where
  "ac_state = zero_ledger_state\<lparr>ls_AMMPools := [ac_pool ''CP'', ac_pool ''CQ'']\<rparr>"

definition ac_adapter :: aq_adapter where
  "ac_adapter = \<lparr>aqa_cfg = aq_DefaultConfig, aqa_contracts = {}, aqa_assets = {}, aqa_shareTokens = Map.empty, aqa_diagnostics = []\<rparr>"

definition ac_changes :: "contract_data_change list" where
  "ac_changes = [zero_contract_data_change\<lparr>cd_ContractID := ''CQ''\<rparr>]"

lemma ac_ok: "list_all amm_pool_ok (ls_AMMPools ac_state)"
  by code_simp

lemma aq_config_restores_witness:
  "aq_HydrateConfig (aq_ConfigRecords (\<lambda>_. True) ac_adapter (Some ac_state) ac_changes 5) ac_adapter
    = (Inr (zero_ledger_state\<lparr>ls_AMMPools := [ac_pool ''CQ'']\<rparr>), aq_RegisterContracts [''CQ''] ac_adapter)"
  using aq_config_restores [OF ac_ok, of "\<lambda>_. True" ac_adapter ac_changes 5 ac_adapter]
  by (simp add: ac_state_def ac_changes_def ac_adapter_def aq_Protocol_def aq_DefaultConfig_def ac_pool_def)

end
