(* ===== verification/Blend_Decimal.thy ===== *)
theory Blend_Decimal
  imports Complex_Main Stellar
begin

text \<open>
  Decimal arithmetic of the Blend adapter (\<open>blend/decimal.go\<close>).

  The type \<open>decimal.Decimal\<close> and its methods belong to the shopspring/decimal package, which is
  not part of the repository: they are the fields of the record \<open>decimal_ops\<close>, an argument of
  every definition that computes with decimals.  What the code relies on is \<open>decimal_ok\<close>, the
  documented behaviour of the package: exact addition, subtraction and multiplication; division
  rounded half away from zero at 48 digits (\<open>DivisionPrecision\<close>, set by \<open>init\<close>); exact
  comparisons; \<open>Floor\<close>, \<open>Ceil\<close>, \<open>Truncate\<close> and \<open>RoundCeil\<close>; \<open>String\<close> prints a value without
  trailing zeros and \<open>NewFromString\<close> reads it back.  The field \<open>dval\<close>, the number a decimal
  denotes, occurs in statements only, in no definition that models code.

  The main lemmas: dividing integers and rounding to an integer through the 48-digit quotient is
  exact as long as the divisor is below \<open>2 * 10 ^ 48\<close>, which covers every 128-bit value.
\<close>

section \<open>The decimal package\<close>

record 'd decimal_ops =
  d_new :: "int \<Rightarrow> int \<Rightarrow> 'd"
  d_parse :: "string \<Rightarrow> 'd option"
  d_str :: "'d \<Rightarrow> string"
  d_add :: "'d \<Rightarrow> 'd \<Rightarrow> 'd"
  d_sub :: "'d \<Rightarrow> 'd \<Rightarrow> 'd"
  d_mul :: "'d \<Rightarrow> 'd \<Rightarrow> 'd"
  d_div :: "'d \<Rightarrow> 'd \<Rightarrow> 'd"
  d_neg :: "'d \<Rightarrow> 'd"
  d_abs :: "'d \<Rightarrow> 'd"
  d_floor :: "'d \<Rightarrow> 'd"
  d_ceil :: "'d \<Rightarrow> 'd"
  d_trunc :: "nat \<Rightarrow> 'd \<Rightarrow> 'd"
  d_round_ceil :: "nat \<Rightarrow> 'd \<Rightarrow> 'd"
  d_cmp :: "'d \<Rightarrow> 'd \<Rightarrow> int"
  dval :: "'d \<Rightarrow> rat"

definition DivisionPrecision :: nat where
  "DivisionPrecision = 48"

definition round_away :: "rat \<Rightarrow> int" where
  "round_away x = (if 0 \<le> x then \<lfloor>x + 1 / 2\<rfloor> else - \<lfloor>- x + 1 / 2\<rfloor>)"

definition round_div :: "rat \<Rightarrow> rat" where
  "round_div x = of_int (round_away (x * 10 ^ DivisionPrecision)) / 10 ^ DivisionPrecision"

definition trunc_to :: "nat \<Rightarrow> rat \<Rightarrow> rat" where
  "trunc_to n x = (if 0 \<le> x then of_int \<lfloor>x * 10 ^ n\<rfloor> else - of_int \<lfloor>- x * 10 ^ n\<rfloor>) / 10 ^ n"

definition ceil_to :: "nat \<Rightarrow> rat \<Rightarrow> rat" where
  "ceil_to n x = of_int \<lceil>x * 10 ^ n\<rceil> / 10 ^ n"

definition pow10 :: "int \<Rightarrow> rat" where
  "pow10 e = (if 0 \<le> e then 10 ^ nat e else 1 / 10 ^ nat (- e))"

definition decimal_arith_ok :: "'d decimal_ops \<Rightarrow> bool" where
  "decimal_arith_ok D \<longleftrightarrow>
     (\<forall>m e. dval D (d_new D m e) = of_int m * pow10 e) \<and>
     (\<forall>a b. dval D (d_add D a b) = dval D a + dval D b) \<and>
     (\<forall>a b. dval D (d_sub D a b) = dval D a - dval D b) \<and>
     (\<forall>a b. dval D (d_mul D a b) = dval D a * dval D b) \<and>
     (\<forall>a b. dval D b \<noteq> 0 \<longrightarrow> dval D (d_div D a b) = round_div (dval D a / dval D b)) \<and>
     (\<forall>a. dval D (d_neg D a) = - dval D a) \<and>
     (\<forall>a. dval D (d_abs D a) = \<bar>dval D a\<bar>) \<and>
     (\<forall>a. dval D (d_floor D a) = of_int \<lfloor>dval D a\<rfloor>) \<and>
     (\<forall>a. dval D (d_ceil D a) = of_int \<lceil>dval D a\<rceil>) \<and>
     (\<forall>n a. dval D (d_trunc D n a) = trunc_to n (dval D a)) \<and>
     (\<forall>n a. dval D (d_round_ceil D n a) = ceil_to n (dval D a)) \<and>
     (\<forall>a b. (d_cmp D a b < 0 \<longleftrightarrow> dval D a < dval D b) \<and> (d_cmp D a b = 0 \<longleftrightarrow> dval D a = dval D b))"

definition decimal_text_ok :: "'d decimal_ops \<Rightarrow> bool" where
  "decimal_text_ok D \<longleftrightarrow>
     (\<forall>n. \<exists>d. d_parse D (show_int n) = Some d \<and> dval D d = of_int n) \<and>
     d_parse D '''' = None \<and>
     (\<forall>a. \<exists>b. d_parse D (d_str D a) = Some b \<and> dval D b = dval D a) \<and>
     (\<forall>a n. dval D a = of_int n \<longrightarrow> d_str D a = show_int n) \<and>
     (\<forall>a b. dval D a = dval D b \<longrightarrow> d_str D a = d_str D b)"

definition decimal_ok :: "'d decimal_ops \<Rightarrow> bool" where
  "decimal_ok D \<longleftrightarrow> decimal_arith_ok D \<and> decimal_text_ok D"

text \<open>The comparison methods are defined by \<open>Cmp\<close>.\<close>

definition d_is_zero :: "'d decimal_ops \<Rightarrow> 'd \<Rightarrow> bool" where
  "d_is_zero D a \<longleftrightarrow> d_cmp D a (d_new D 0 0) = 0"

definition d_lt :: "'d decimal_ops \<Rightarrow> 'd \<Rightarrow> 'd \<Rightarrow> bool" where
  "d_lt D a b \<longleftrightarrow> d_cmp D a b < 0"

definition d_le :: "'d decimal_ops \<Rightarrow> 'd \<Rightarrow> 'd \<Rightarrow> bool" where
  "d_le D a b \<longleftrightarrow> d_cmp D a b \<le> 0"

definition d_eq :: "'d decimal_ops \<Rightarrow> 'd \<Rightarrow> 'd \<Rightarrow> bool" where
  "d_eq D a b \<longleftrightarrow> d_cmp D a b = 0"

text \<open>\<open>RequireFromString\<close> panics on text that is not a number; the code calls it on literals only.\<close>

definition d_require :: "'d decimal_ops \<Rightarrow> string \<Rightarrow> 'd" where
  "d_require D s = the (d_parse D s)"

lemma pow10_pos [simp]: "0 < pow10 e"
  by (simp add: pow10_def)

lemma pow10_0 [simp]: "pow10 0 = 1"
  by (simp add: pow10_def)

lemma pow10_nat: "pow10 (int n) = 10 ^ n"
  by (simp add: pow10_def)

lemma dval_new: "decimal_ok D \<Longrightarrow> dval D (d_new D m e) = of_int m * pow10 e"
  by (simp add: decimal_ok_def decimal_arith_ok_def)

lemma dval_add: "decimal_ok D \<Longrightarrow> dval D (d_add D a b) = dval D a + dval D b"
  by (simp add: decimal_ok_def decimal_arith_ok_def)

lemma dval_sub: "decimal_ok D \<Longrightarrow> dval D (d_sub D a b) = dval D a - dval D b"
  by (simp add: decimal_ok_def decimal_arith_ok_def)

lemma dval_mul: "decimal_ok D \<Longrightarrow> dval D (d_mul D a b) = dval D a * dval D b"
  by (simp add: decimal_ok_def decimal_arith_ok_def)

lemma dval_div: "decimal_ok D \<Longrightarrow> dval D b \<noteq> 0 \<Longrightarrow> dval D (d_div D a b) = round_div (dval D a / dval D b)"
  by (simp add: decimal_ok_def decimal_arith_ok_def)

lemma dval_neg: "decimal_ok D \<Longrightarrow> dval D (d_neg D a) = - dval D a"
  by (simp add: decimal_ok_def decimal_arith_ok_def)

lemma dval_abs: "decimal_ok D \<Longrightarrow> dval D (d_abs D a) = \<bar>dval D a\<bar>"
  by (simp add: decimal_ok_def decimal_arith_ok_def)

lemma dval_floor: "decimal_ok D \<Longrightarrow> dval D (d_floor D a) = of_int \<lfloor>dval D a\<rfloor>"
  by (simp add: decimal_ok_def decimal_arith_ok_def)

lemma dval_ceil: "decimal_ok D \<Longrightarrow> dval D (d_ceil D a) = of_int \<lceil>dval D a\<rceil>"
  by (simp add: decimal_ok_def decimal_arith_ok_def)

lemma dval_trunc: "decimal_ok D \<Longrightarrow> dval D (d_trunc D n a) = trunc_to n (dval D a)"
  by (simp add: decimal_ok_def decimal_arith_ok_def)

lemma dval_round_ceil: "decimal_ok D \<Longrightarrow> dval D (d_round_ceil D n a) = ceil_to n (dval D a)"
  by (simp add: decimal_ok_def decimal_arith_ok_def)

lemma d_cmp_lt: "decimal_ok D \<Longrightarrow> d_cmp D a b < 0 \<longleftrightarrow> dval D a < dval D b"
  by (simp add: decimal_ok_def decimal_arith_ok_def)

lemma d_cmp_eq: "decimal_ok D \<Longrightarrow> d_cmp D a b = 0 \<longleftrightarrow> dval D a = dval D b"
  by (simp add: decimal_ok_def decimal_arith_ok_def)

lemma d_lt_val: "decimal_ok D \<Longrightarrow> d_lt D a b \<longleftrightarrow> dval D a < dval D b"
  by (simp add: d_lt_def d_cmp_lt)

lemma d_eq_val: "decimal_ok D \<Longrightarrow> d_eq D a b \<longleftrightarrow> dval D a = dval D b"
  by (simp add: d_eq_def d_cmp_eq)

lemma d_le_val: "decimal_ok D \<Longrightarrow> d_le D a b \<longleftrightarrow> dval D a \<le> dval D b"
  using d_cmp_lt [of D a b] d_cmp_eq [of D a b] unfolding d_le_def by linarith

lemma d_is_zero_val: "decimal_ok D \<Longrightarrow> d_is_zero D a \<longleftrightarrow> dval D a = 0"
  by (simp add: d_is_zero_def d_cmp_eq dval_new)

lemma decimal_okD:
  assumes "decimal_ok D"
  shows "\<forall>n. \<exists>d. d_parse D (show_int n) = Some d \<and> dval D d = of_int n"
    and "d_parse D '''' = None"
    and "\<forall>a. \<exists>b. d_parse D (d_str D a) = Some b \<and> dval D b = dval D a"
    and "\<forall>a n. dval D a = of_int n \<longrightarrow> d_str D a = show_int n"
    and "\<forall>a b. dval D a = dval D b \<longrightarrow> d_str D a = d_str D b"
proof -
  note a = assms [unfolded decimal_ok_def decimal_text_ok_def, THEN conjunct2]
  show "\<forall>n. \<exists>d. d_parse D (show_int n) = Some d \<and> dval D d = of_int n" by (rule a [THEN conjunct1])
  show "d_parse D '''' = None" by (rule a [THEN conjunct2, THEN conjunct1])
  show "\<forall>a. \<exists>b. d_parse D (d_str D a) = Some b \<and> dval D b = dval D a"
    by (rule a [THEN conjunct2, THEN conjunct2, THEN conjunct1])
  show "\<forall>a n. dval D a = of_int n \<longrightarrow> d_str D a = show_int n"
    by (rule a [THEN conjunct2, THEN conjunct2, THEN conjunct2, THEN conjunct1])
  show "\<forall>a b. dval D a = dval D b \<longrightarrow> d_str D a = d_str D b"
    by (rule a [THEN conjunct2, THEN conjunct2, THEN conjunct2, THEN conjunct2])
qed

lemma d_parse_int: "decimal_ok D \<Longrightarrow> \<exists>d. d_parse D (show_int n) = Some d \<and> dval D d = of_int n"
  by (rule decimal_okD(1) [THEN spec])

lemma d_parse_empty: "decimal_ok D \<Longrightarrow> d_parse D '''' = None"
  by (rule decimal_okD(2))

lemma d_parse_str: "decimal_ok D \<Longrightarrow> \<exists>b. d_parse D (d_str D a) = Some b \<and> dval D b = dval D a"
  by (rule decimal_okD(3) [THEN spec])

lemma d_str_int: "decimal_ok D \<Longrightarrow> dval D a = of_int n \<Longrightarrow> d_str D a = show_int n"
  by (rule decimal_okD(4) [THEN spec, THEN spec, THEN mp])

lemma d_str_val: "decimal_ok D \<Longrightarrow> dval D a = dval D b \<Longrightarrow> d_str D a = d_str D b"
  by (rule decimal_okD(5) [THEN spec, THEN spec, THEN mp])

lemma d_str_nonempty: "decimal_ok D \<Longrightarrow> d_str D a \<noteq> ''''"
  using d_parse_str [of D a] d_parse_empty [of D] by fastforce

lemma d_require_int: "decimal_ok D \<Longrightarrow> dval D (d_require D (show_int n)) = of_int n"
  using d_parse_int [of D n] by (auto simp: d_require_def)

lemmas dval_simps = dval_new dval_add dval_sub dval_mul dval_neg dval_abs dval_floor dval_ceil
  dval_trunc dval_round_ceil d_lt_val d_eq_val d_le_val d_is_zero_val

section \<open>decimal.go\<close>

definition factorScale :: string where "factorScale = ''10000000''"
definition rateModifierScaleV2 :: string where "rateModifierScaleV2 = ''10000000''"

definition decZero :: "'d decimal_ops \<Rightarrow> 'd" where
  "decZero D = d_new D 0 1"

definition decOne :: "'d decimal_ops \<Rightarrow> 'd" where
  "decOne D = d_new D 1 0"

definition factorScaleDecimal :: "'d decimal_ops \<Rightarrow> 'd" where
  "factorScaleDecimal D = d_require D factorScale"

definition mustParseDecimal :: "'d decimal_ops \<Rightarrow> string \<Rightarrow> string + 'd" where
  "mustParseDecimal D v =
     (if v = '''' then Inr (decZero D)
      else case d_parse D v of None \<Rightarrow> Inl (''parse decimal '' @ v) | Some d \<Rightarrow> Inr d)"

definition parseDecimalOrZero :: "'d decimal_ops \<Rightarrow> string \<Rightarrow> 'd" where
  "parseDecimalOrZero D v = (case d_parse D v of None \<Rightarrow> decZero D | Some d \<Rightarrow> d)"

definition normalizedRateModifier :: "'d decimal_ops \<Rightarrow> string \<Rightarrow> 'd \<Rightarrow> string + 'd" where
  "normalizedRateModifier D raw scalar =
     (case mustParseDecimal D raw of
        Inl e \<Rightarrow> Inl e
      | Inr v \<Rightarrow> if d_is_zero D scalar then Inr (decZero D) else Inr (d_div D v scalar))"

definition numString :: "'d decimal_ops \<Rightarrow> 'd \<Rightarrow> string" where
  "numString D d = d_str D d"

definition maxDecimal :: "'d decimal_ops \<Rightarrow> 'd \<Rightarrow> 'd \<Rightarrow> 'd" where
  "maxDecimal D a b = (if d_lt D b a then a else b)"

definition minDecimal :: "'d decimal_ops \<Rightarrow> 'd \<Rightarrow> 'd \<Rightarrow> 'd" where
  "minDecimal D a b = (if d_lt D a b then a else b)"

definition floorDiv :: "'d decimal_ops \<Rightarrow> 'd \<Rightarrow> 'd \<Rightarrow> 'd" where
  "floorDiv D n d = (if d_is_zero D d then decZero D else d_floor D (d_div D n d))"

definition ceilDiv :: "'d decimal_ops \<Rightarrow> 'd \<Rightarrow> 'd \<Rightarrow> 'd" where
  "ceilDiv D n d = (if d_is_zero D d then decZero D else d_ceil D (d_div D n d))"

definition fixedMulFloor :: "'d decimal_ops \<Rightarrow> 'd \<Rightarrow> 'd \<Rightarrow> 'd \<Rightarrow> 'd" where
  "fixedMulFloor D x y scalar = floorDiv D (d_mul D x y) scalar"

definition fixedMulCeil :: "'d decimal_ops \<Rightarrow> 'd \<Rightarrow> 'd \<Rightarrow> 'd \<Rightarrow> 'd" where
  "fixedMulCeil D x y scalar = ceilDiv D (d_mul D x y) scalar"

definition fixedDivCeil :: "'d decimal_ops \<Rightarrow> 'd \<Rightarrow> 'd \<Rightarrow> 'd \<Rightarrow> 'd" where
  "fixedDivCeil D x y scalar = ceilDiv D (d_mul D x scalar) y"

lemma dval_zero: "decimal_ok D \<Longrightarrow> dval D (decZero D) = 0"
  by (simp add: decZero_def dval_new)

lemma dval_one: "decimal_ok D \<Longrightarrow> dval D (decOne D) = 1"
  by (simp add: decOne_def dval_new)

lemma show_int_const: "show_int 10000000 = ''10000000''" "show_int 9500000 = ''9500000''" "show_int 500000 = ''500000''"
  by code_simp+

lemma dval_scale: "decimal_ok D \<Longrightarrow> dval D (factorScaleDecimal D) = 10000000"
  using d_require_int [of D 10000000] by (simp add: factorScaleDecimal_def factorScale_def show_int_const)

lemma dval_max: "decimal_ok D \<Longrightarrow> dval D (maxDecimal D a b) = max (dval D a) (dval D b)"
  by (simp add: maxDecimal_def d_lt_val)

lemma dval_min: "decimal_ok D \<Longrightarrow> dval D (minDecimal D a b) = min (dval D a) (dval D b)"
  by (simp add: minDecimal_def d_lt_val)

lemmas dec_simps = dval_simps dval_zero dval_one dval_scale dval_max dval_min

lemma parseDecimalOrZero_int: "decimal_ok D \<Longrightarrow> dval D (parseDecimalOrZero D (show_int n)) = of_int n"
  using d_parse_int [of D n] by (auto simp: parseDecimalOrZero_def)

lemma parseDecimalOrZero_empty: "decimal_ok D \<Longrightarrow> dval D (parseDecimalOrZero D '''') = 0"
  by (simp add: parseDecimalOrZero_def d_parse_empty dval_zero)

lemma parse_numString: "decimal_ok D \<Longrightarrow> dval D (parseDecimalOrZero D (numString D d)) = dval D d"
  using d_parse_str [of D d] by (auto simp: parseDecimalOrZero_def numString_def)

section \<open>Rounding to integers through the 48-digit quotient\<close>

lemma round_away_ge: "of_int k \<le> x \<Longrightarrow> k \<le> round_away x"
proof (cases "0 \<le> x")
  case True
  assume "of_int k \<le> x"
  then have "of_int k \<le> x + 1 / 2" by linarith
  then show ?thesis using True by (simp add: round_away_def le_floor_iff)
next
  case False
  assume k: "of_int k \<le> x"
  then have "- x + 1 / 2 < of_int (- k) + 1" by simp
  then have "\<lfloor>- x + 1 / 2\<rfloor> \<le> - k" by (simp add: floor_le_iff)
  then show ?thesis using False by (simp add: round_away_def)
qed

lemma round_away_minus: "round_away (- x) = - round_away x"
proof (cases "x = 0")
  case True
  have "\<lfloor>1 / 2 :: rat\<rfloor> = 0" by (rule floor_unique) simp_all
  then show ?thesis using True by (simp add: round_away_def)
next
  case False
  then show ?thesis by (simp add: round_away_def)
qed

lemma round_away_le: "x \<le> of_int k \<Longrightarrow> round_away x \<le> k"
  using round_away_ge [of "- k" "- x"] by (simp add: round_away_minus)

lemma round_half_err: "\<bar>of_int \<lfloor>x + 1 / 2\<rfloor> - x\<bar> \<le> (1 / 2 :: rat)"
  using of_int_floor_le [of "x + 1 / 2"] floor_correct [of "x + 1 / 2"] by linarith

lemma round_away_err: "\<bar>of_int (round_away x) - x\<bar> \<le> 1 / 2"
proof (cases "0 \<le> x")
  case True
  then show ?thesis using round_half_err [of x] by (simp only: round_away_def if_True)
next
  case False
  have "\<bar>of_int (- \<lfloor>- x + 1 / 2\<rfloor>) - x\<bar> = \<bar>of_int \<lfloor>- x + 1 / 2\<rfloor> - (- x)\<bar>" by simp
  then show ?thesis using False round_half_err [of "- x"] by (simp only: round_away_def if_False)
qed

lemma round_div_ge: "of_int k \<le> x \<Longrightarrow> of_int k \<le> round_div x"
proof -
  assume "of_int k \<le> x"
  then have "of_int (k * 10 ^ DivisionPrecision) \<le> x * 10 ^ DivisionPrecision" by simp
  then have "k * 10 ^ DivisionPrecision \<le> round_away (x * 10 ^ DivisionPrecision)" by (rule round_away_ge)
  then have "of_int (k * 10 ^ DivisionPrecision) \<le> (of_int (round_away (x * 10 ^ DivisionPrecision)) :: rat)"
    by (simp only: of_int_le_iff)
  then show ?thesis by (simp add: round_div_def pos_le_divide_eq)
qed

lemma round_div_le: "x \<le> of_int k \<Longrightarrow> round_div x \<le> of_int k"
proof -
  assume "x \<le> of_int k"
  then have "x * 10 ^ DivisionPrecision \<le> of_int (k * 10 ^ DivisionPrecision)" by simp
  then have "round_away (x * 10 ^ DivisionPrecision) \<le> k * 10 ^ DivisionPrecision" by (rule round_away_le)
  then have "(of_int (round_away (x * 10 ^ DivisionPrecision)) :: rat) \<le> of_int (k * 10 ^ DivisionPrecision)"
    by (simp only: of_int_le_iff)
  then show ?thesis by (simp add: round_div_def pos_divide_le_eq)
qed

lemma round_div_int [simp]: "round_div (of_int k) = of_int k"
  using round_div_ge [of k "of_int k"] round_div_le [of "of_int k" k] by simp

lemma round_div_0 [simp]: "round_div 0 = 0"
  using round_div_int [of 0] by simp

lemma round_div_err: "\<bar>round_div x - x\<bar> \<le> 1 / (2 * 10 ^ DivisionPrecision)"
proof -
  let ?p = "10 ^ DivisionPrecision :: rat"
  have "round_div x - x = (of_int (round_away (x * ?p)) - x * ?p) / ?p"
    by (simp add: round_div_def diff_divide_distrib)
  then have "\<bar>round_div x - x\<bar> = \<bar>of_int (round_away (x * ?p)) - x * ?p\<bar> / ?p" by simp
  also have "\<dots> \<le> (1 / 2) / ?p" by (intro divide_right_mono round_away_err) simp
  finally show ?thesis by simp
qed

lemma round_div_mono: "x \<le> y \<Longrightarrow> round_div x \<le> round_div y"
proof -
  assume "x \<le> y"
  then have le: "x * 10 ^ DivisionPrecision \<le> y * 10 ^ DivisionPrecision" by simp
  have "round_away a \<le> round_away b" if "a \<le> b" for a b
  proof (cases "0 \<le> a \<or> b < 0")
    case True
    then show ?thesis using that by (auto simp: round_away_def intro!: floor_mono)
  next
    case False
    then have "a \<le> of_int 0" "of_int 0 \<le> b" by auto
    then show ?thesis using round_away_le [of a 0] round_away_ge [of 0 b] by linarith
  qed
  from this [OF le] show ?thesis by (simp add: round_div_def divide_right_mono)
qed

lemma round_div_nonneg: "0 \<le> x \<Longrightarrow> 0 \<le> round_div x"
  using round_div_ge [of 0 x] by simp

text \<open>An integer quotient keeps a distance of at least one over the divisor from the next integer.\<close>

lemma quotient_gap:
  assumes "0 < b"
  shows "of_int a / of_int b \<le> (of_int (a div b) + 1 - 1 / of_int b :: rat)"
proof -
  have "a \<le> a div b * b + (b - 1)" using assms pos_mod_bound [of b a] by (simp add: minus_mod_eq_div_mult [symmetric])
  then have "(of_int a :: rat) \<le> of_int (a div b * b + (b - 1))" by (simp only: of_int_le_iff)
  then show ?thesis using assms by (simp add: field_simps)
qed

lemma floor_round_div:
  assumes "0 < b" and "b < 2 * 10 ^ DivisionPrecision"
  shows "\<lfloor>round_div (of_int a / of_int b)\<rfloor> = a div b"
proof (rule floor_unique)
  have "of_int (a div b) \<le> (of_int a / of_int b :: rat)"
    using floor_divide_of_int_eq [of a b, where ?'a = rat] of_int_floor_le by metis
  then show "of_int (a div b) \<le> round_div (of_int a / of_int b)" by (rule round_div_ge)
  have "(of_int b :: rat) < of_int (2 * 10 ^ DivisionPrecision)" using assms(2) by (simp only: of_int_less_iff)
  then have "1 / (2 * 10 ^ DivisionPrecision) < (1 / of_int b :: rat)"
    using assms(1) by (simp add: frac_less2)
  moreover have "round_div (of_int a / of_int b) \<le> of_int a / of_int b + 1 / (2 * 10 ^ DivisionPrecision)"
    using round_div_err [of "of_int a / of_int b"] by linarith
  ultimately show "round_div (of_int a / of_int b) < of_int (a div b) + 1"
    using quotient_gap [OF assms(1), of a] by linarith
qed

lemma round_div_minus: "round_div (- x) = - round_div x"
  by (simp add: round_div_def round_away_minus)

lemma ceil_round_div:
  assumes "0 < b" and "b < 2 * 10 ^ DivisionPrecision"
  shows "\<lceil>round_div (of_int a / of_int b)\<rceil> = - ((- a) div b)"
  using floor_round_div [OF assms, of "- a"] by (simp add: ceiling_def round_div_minus)

section \<open>Fixed-point operations on integers\<close>

definition ceil_div :: "int \<Rightarrow> int \<Rightarrow> int" where
  "ceil_div a b = - ((- a) div b)"

text \<open>\<open>is_int D x n\<close>: the decimal denotes the integer.\<close>

definition is_int :: "'d decimal_ops \<Rightarrow> 'd \<Rightarrow> int \<Rightarrow> bool" where
  "is_int D x n \<longleftrightarrow> dval D x = of_int n"

definition small :: "int \<Rightarrow> bool" where
  "small b \<longleftrightarrow> 0 < b \<and> b < 2 * 10 ^ DivisionPrecision"

lemma is_int_floorDiv:
  "decimal_ok D \<Longrightarrow> is_int D x a \<Longrightarrow> is_int D y b \<Longrightarrow> small b \<Longrightarrow> is_int D (floorDiv D x y) (a div b)"
  using floor_round_div [of b a] by (simp add: is_int_def floorDiv_def d_is_zero_val dval_floor dval_div small_def)

lemma is_int_ceilDiv:
  "decimal_ok D \<Longrightarrow> is_int D x a \<Longrightarrow> is_int D y b \<Longrightarrow> small b \<Longrightarrow> is_int D (ceilDiv D x y) (ceil_div a b)"
  using ceil_round_div [of b a]
  by (simp add: is_int_def ceilDiv_def d_is_zero_val dval_ceil dval_div small_def ceil_div_def)

lemma is_int_mul: "decimal_ok D \<Longrightarrow> is_int D x a \<Longrightarrow> is_int D y b \<Longrightarrow> is_int D (d_mul D x y) (a * b)"
  by (simp add: is_int_def dval_mul)

lemma is_int_add: "decimal_ok D \<Longrightarrow> is_int D x a \<Longrightarrow> is_int D y b \<Longrightarrow> is_int D (d_add D x y) (a + b)"
  by (simp add: is_int_def dval_add)

lemma is_int_sub: "decimal_ok D \<Longrightarrow> is_int D x a \<Longrightarrow> is_int D y b \<Longrightarrow> is_int D (d_sub D x y) (a - b)"
  by (simp add: is_int_def dval_sub)

lemma is_int_fixedMulFloor:
  "decimal_ok D \<Longrightarrow> is_int D x a \<Longrightarrow> is_int D y b \<Longrightarrow> is_int D s c \<Longrightarrow> small c
   \<Longrightarrow> is_int D (fixedMulFloor D x y s) (a * b div c)"
  by (simp add: fixedMulFloor_def is_int_floorDiv is_int_mul)

lemma is_int_fixedMulCeil:
  "decimal_ok D \<Longrightarrow> is_int D x a \<Longrightarrow> is_int D y b \<Longrightarrow> is_int D s c \<Longrightarrow> small c
   \<Longrightarrow> is_int D (fixedMulCeil D x y s) (ceil_div (a * b) c)"
  by (simp add: fixedMulCeil_def is_int_ceilDiv is_int_mul)

lemma is_int_fixedDivCeil:
  "decimal_ok D \<Longrightarrow> is_int D x a \<Longrightarrow> is_int D y b \<Longrightarrow> is_int D s c \<Longrightarrow> small b
   \<Longrightarrow> is_int D (fixedDivCeil D x y s) (ceil_div (a * c) b)"
  by (simp add: fixedDivCeil_def is_int_ceilDiv is_int_mul)

lemma is_int_zero: "decimal_ok D \<Longrightarrow> is_int D (decZero D) 0"
  by (simp add: is_int_def dval_zero)

lemma is_int_scale: "decimal_ok D \<Longrightarrow> is_int D (factorScaleDecimal D) 10000000"
  by (simp add: is_int_def dval_scale)

lemma is_int_require: "decimal_ok D \<Longrightarrow> is_int D (d_require D (show_int n)) n"
  by (simp add: is_int_def d_require_int)

lemma is_int_max: "decimal_ok D \<Longrightarrow> is_int D x a \<Longrightarrow> is_int D y b \<Longrightarrow> is_int D (maxDecimal D x y) (max a b)"
  by (simp add: is_int_def dval_max of_int_max)

lemma is_int_min: "decimal_ok D \<Longrightarrow> is_int D x a \<Longrightarrow> is_int D y b \<Longrightarrow> is_int D (minDecimal D x y) (min a b)"
  by (simp add: is_int_def dval_min of_int_min)

lemma is_int_parse: "decimal_ok D \<Longrightarrow> is_int D (parseDecimalOrZero D (show_int n)) n"
  by (simp add: is_int_def parseDecimalOrZero_int)

lemma is_int_str: "decimal_ok D \<Longrightarrow> is_int D x n \<Longrightarrow> numString D x = show_int n"
  by (simp add: is_int_def numString_def d_str_int)

lemma is_int_zero_iff: "decimal_ok D \<Longrightarrow> is_int D x n \<Longrightarrow> d_is_zero D x \<longleftrightarrow> n = 0"
  by (simp add: is_int_def d_is_zero_val)

lemma is_int_le_iff: "decimal_ok D \<Longrightarrow> is_int D x a \<Longrightarrow> is_int D y b \<Longrightarrow> d_le D x y \<longleftrightarrow> a \<le> b"
  by (simp add: is_int_def d_le_val)

lemma is_int_lt_iff: "decimal_ok D \<Longrightarrow> is_int D x a \<Longrightarrow> is_int D y b \<Longrightarrow> d_lt D x y \<longleftrightarrow> a < b"
  by (simp add: is_int_def d_lt_val)

lemma is_int_eq_iff: "decimal_ok D \<Longrightarrow> is_int D x a \<Longrightarrow> is_int D y b \<Longrightarrow> d_eq D x y \<longleftrightarrow> a = b"
  by (simp add: is_int_def d_eq_val)

lemmas is_int_intros = is_int_floorDiv is_int_ceilDiv is_int_mul is_int_add is_int_sub
  is_int_fixedMulFloor is_int_fixedMulCeil is_int_fixedDivCeil is_int_zero is_int_scale
  is_int_require is_int_max is_int_min is_int_parse

text \<open>Rounding up on integers.\<close>

lemma ceil_div_mono: "0 < b \<Longrightarrow> x \<le> y \<Longrightarrow> ceil_div x b \<le> ceil_div y b"
  by (simp add: ceil_div_def zdiv_mono1)

lemma ceil_div_nonneg: "0 < b \<Longrightarrow> 0 \<le> x \<Longrightarrow> 0 \<le> ceil_div x b"
  using ceil_div_mono [of b 0 x] by (simp add: ceil_div_def)

lemma ceil_div_le: "0 < b \<Longrightarrow> x \<le> k * b \<Longrightarrow> ceil_div x b \<le> k"
  using ceil_div_mono [of b x "k * b"] by (simp add: ceil_div_def flip: mult_minus_left)

lemma ceil_div_ge: "0 < b \<Longrightarrow> x \<le> ceil_div x b * b"
proof -
  assume b: "0 < b"
  have "(- x) div b * b \<le> - x" using pos_mod_sign [OF b, of "- x"] minus_mod_eq_div_mult [of "- x" b] by linarith
  then show ?thesis by (simp add: ceil_div_def)
qed

lemma ceil_div_self: "0 < b \<Longrightarrow> ceil_div (k * b) b = k"
  by (simp add: ceil_div_def flip: mult_minus_left)

section \<open>An instance\<close>

text \<open>Exact rationals, printed as fractions when they are not integers.\<close>

definition parse_fraction :: "string \<Rightarrow> rat option" where
  "parse_fraction s =
     (let num = takeWhile (\<lambda>c. c \<noteq> CHR ''/'') s; rest = dropWhile (\<lambda>c. c \<noteq> CHR ''/'') s in
      case set_string num of
        None \<Rightarrow> None
      | Some p \<Rightarrow> if rest = [] then Some (of_int p)
          else (case set_string (tl rest) of None \<Rightarrow> None | Some q \<Rightarrow> Some (Fract p q)))"

definition show_fraction :: "rat \<Rightarrow> string" where
  "show_fraction r = (case quotient_of r of (p, q) \<Rightarrow>
     if q = 1 then show_int p else show_int p @ ''/'' @ show_int q)"

definition rat_decimal :: "rat decimal_ops" where
  "rat_decimal = \<lparr>d_new = (\<lambda>m e. of_int m * pow10 e), d_parse = parse_fraction, d_str = show_fraction,
     d_add = (+), d_sub = (-), d_mul = (*), d_div = (\<lambda>a b. round_div (a / b)),
     d_neg = uminus, d_abs = abs, d_floor = (\<lambda>a. of_int \<lfloor>a\<rfloor>), d_ceil = (\<lambda>a. of_int \<lceil>a\<rceil>),
     d_trunc = trunc_to, d_round_ceil = ceil_to, d_cmp = (\<lambda>a b. if a < b then - 1 else if a = b then 0 else 1),
     dval = (\<lambda>a. a)\<rparr>"

lemma show_int_no_slash: "CHR ''/'' \<notin> set (show_int n)"
proof -
  have "CHR ''/'' \<notin> set (show_digits k)" if "0 \<le> k" for k
    using show_digits_chars [OF that, of "CHR ''/''"] by (auto simp: digit_val_def)
  from this [of n] this [of "- n"] show ?thesis by (auto simp: show_int_def)
qed

lemma parse_show_fraction: "parse_fraction (show_fraction r) = Some r"
proof -
  obtain p q where q: "quotient_of r = (p, q)" by (cases "quotient_of r")
  have r: "r = Fract p q" using quotient_of_div [OF q] by (simp add: Fract_of_int_quotient)
  have n: "takeWhile (\<lambda>c. c \<noteq> CHR ''/'') (show_int p) = show_int p"
    "dropWhile (\<lambda>c. c \<noteq> CHR ''/'') (show_int p) = []"
    "takeWhile (\<lambda>c. c \<noteq> CHR ''/'') (show_int p @ CHR ''/'' # t) = show_int p"
    "dropWhile (\<lambda>c. c \<noteq> CHR ''/'') (show_int p @ CHR ''/'' # t) = CHR ''/'' # t" for t
    using show_int_no_slash [of p]
    by (auto simp: takeWhile_eq_all_conv dropWhile_eq_Nil_conv takeWhile_append dropWhile_append)
  have f: "show_fraction r = (if q = 1 then show_int p else show_int p @ ''/'' @ show_int q)"
    by (simp add: show_fraction_def q)
  show ?thesis
  proof (cases "q = 1")
    case True
    then show ?thesis unfolding f parse_fraction_def using r by (simp add: n of_int_rat)
  next
    case False
    then show ?thesis unfolding f parse_fraction_def using r by (simp add: n)
  qed
qed

lemma show_fraction_int: "show_fraction (of_int n) = show_int n"
  by (simp add: show_fraction_def)

lemma rat_decimal_ok: "decimal_ok rat_decimal"
proof -
  have "decimal_arith_ok rat_decimal" by (simp add: decimal_arith_ok_def rat_decimal_def)
  moreover have "parse_fraction (show_int n) = Some (of_int n)" for n
    using parse_show_fraction [of "of_int n"] by (simp only: show_fraction_int)
  moreover have "parse_fraction '''' = None" by (simp add: parse_fraction_def set_string_def)
  ultimately show ?thesis
    by (simp add: decimal_ok_def decimal_text_ok_def rat_decimal_def parse_show_fraction show_fraction_int)
qed

end
