(* ===== verification/Blend_Rates.thy ===== *)
theory Blend_Rates
  imports Bindings Blend_Decimal
begin

text \<open>
  Reserve valuation of the Blend adapter (\<open>blend/math.go\<close>): the adapter's configuration, the
  identity of a pool, the interest-rate curve and the normalization of one reserve.  The raw
  fields are integers in the contract's fixed point (seven digits for factors, the pool's rate
  scalar for the share rates); \<open>rate_curve\<close> and \<open>reserve_spec\<close> state on mathematical integers
  what the contract computes, and the theorems show that the decimal computation agrees.
\<close>

section \<open>Configuration (config.go)\<close>

datatype state_mode = StateModeUnset | StateModeParanoid | StateModeIncremental | StateModeUnknown string

record blend_config =
  bc_AdapterID :: string
  bc_Protocol :: string
  bc_V2Scalar :: string
  bc_V2WasmHashes :: "string set"
  bc_AllowUnknownV2 :: bool
  bc_StateMode :: state_mode

definition bl_DefaultConfig :: blend_config where
  "bl_DefaultConfig = \<lparr>bc_AdapterID = ''blend'', bc_Protocol = ''blend'', bc_V2Scalar = ''1000000000000'',
     bc_V2WasmHashes = {}, bc_AllowUnknownV2 = False, bc_StateMode = StateModeUnset\<rparr>"

section \<open>Pools\<close>

record 'd normalized_pool =
  np_rateScalar :: 'd
  np_rateModifierScalar :: 'd
  np_scalarVersion :: string
  np_version :: string
  np_backstopTakeRaw :: 'd
  np_backstopTakeAvailable :: bool

definition parseFactorRaw :: "'d decimal_ops \<Rightarrow> string \<Rightarrow> 'd \<times> bool" where
  "parseFactorRaw D raw =
     (let trimmed = trim_space raw in
      if trimmed = '''' then (decZero D, False)
      else let d = parseDecimalOrZero D trimmed in
        if d_is_zero D d then (decZero D, True)
        else if d_le D (d_abs D d) (decOne D) then (d_floor D (d_mul D d (factorScaleDecimal D)), True)
        else (d, True))"

definition newV2Pool :: "'d decimal_ops \<Rightarrow> string \<Rightarrow> string \<Rightarrow> 'd normalized_pool" where
  "newV2Pool D v2Scalar backstopTakeRate =
     (case parseFactorRaw D backstopTakeRate of (takeRaw, available) \<Rightarrow>
       \<lparr>np_rateScalar = parseDecimalOrZero D v2Scalar,
        np_rateModifierScalar = parseDecimalOrZero D rateModifierScaleV2,
        np_scalarVersion = ''v2'', np_version = ''v2'',
        np_backstopTakeRaw = minDecimal D (maxDecimal D takeRaw (decZero D)) (factorScaleDecimal D),
        np_backstopTakeAvailable = available\<rparr>)"

definition poolHasBlendState :: "blend_pool_state \<Rightarrow> bool" where
  "poolHasBlendState pool \<longleftrightarrow>
     \<not> (bp_ContractID pool = '''' \<or> bp_Reserves pool = []) \<and>
     (\<exists>r\<in>set (bp_Reserves pool). rs_AssetID r \<noteq> '''' \<and> rs_BRateRaw r \<noteq> '''' \<and> rs_DRateRaw r \<noteq> '''')"

definition enrichPoolIdentity :: "blend_config \<Rightarrow> blend_pool_state \<Rightarrow> blend_pool_state \<times> string" where
  "enrichPoolIdentity cfg pool =
     (if trim_space (bp_WasmHash pool) \<noteq> '''' then (pool, ''contract_instance'')
      else if \<not> poolHasBlendState pool \<or> card (bc_V2WasmHashes cfg) \<noteq> 1 then (pool, '''')
      else (pool\<lparr>bp_WasmHash := the_elem (bc_V2WasmHashes cfg)\<rparr>, ''configured_single_v2_hash''))"

definition resolvePool :: "'d decimal_ops \<Rightarrow> blend_config \<Rightarrow> blend_pool_state \<Rightarrow> 'd normalized_pool option" where
  "resolvePool D cfg pool =
     (if bp_WasmHash pool = '''' then
        (if bc_AllowUnknownV2 cfg then Some (newV2Pool D (bc_V2Scalar cfg) (bp_BackstopTakeRate pool)) else None)
      else if bp_WasmHash pool \<in> bc_V2WasmHashes cfg
        then Some (newV2Pool D (bc_V2Scalar cfg) (bp_BackstopTakeRate pool))
      else if bc_AllowUnknownV2 cfg then Some (newV2Pool D (bc_V2Scalar cfg) (bp_BackstopTakeRate pool))
      else None)"

section \<open>Reserves\<close>

record 'd normalized_reserve =
  nr_poolContract :: string
  nr_assetID :: string
  nr_assetDecimals :: int
  nr_bRateRaw :: 'd
  nr_dRateRaw :: 'd
  nr_cFactorRaw :: 'd
  nr_lFactorRaw :: 'd
  nr_utilTargetRaw :: 'd
  nr_maxUtilRaw :: 'd
  nr_rBaseRaw :: 'd
  nr_rOneRaw :: 'd
  nr_rTwoRaw :: 'd
  nr_rThreeRaw :: 'd
  nr_rateModifierRaw :: 'd
  nr_reactivityRaw :: 'd
  nr_usdPrice :: 'd
  nr_priceAvailable :: bool
  nr_totalSuppliedRaw :: 'd
  nr_totalBorrowedRaw :: 'd
  nr_utilizationRaw :: 'd
  nr_borrowAPRRaw :: "'d option"
  nr_supplyAPRRaw :: "'d option"
  nr_aprPartial :: bool
  nr_supplyCapRaw :: string
  nr_borrowCapRaw :: 'd
  nr_remainingBorrowableRaw :: 'd
  nr_utilizationSource :: string
  nr_rateModifierNormalized :: 'd
  nr_cFactorNormalized :: 'd
  nr_lFactorNormalized :: 'd
  nr_utilTargetNormalized :: 'd
  nr_maxUtilNormalized :: 'd
  nr_rBaseNormalized :: 'd
  nr_rOneNormalized :: 'd
  nr_rTwoNormalized :: 'd
  nr_rThreeNormalized :: 'd
  nr_reactivityNormalized :: 'd
  nr_borrowAPRNormalized :: 'd
  nr_supplyAPRNormalized :: 'd
  nr_borrowAPRNormalizedValid :: bool
  nr_supplyAPRNormalizedValid :: bool
  nr_raw :: reserve_state

definition zero_normalized_reserve :: "'d decimal_ops \<Rightarrow> 'd normalized_reserve" where
  "zero_normalized_reserve D =
     (let z = d_new D 0 0 in
      \<lparr>nr_poolContract = '''', nr_assetID = '''', nr_assetDecimals = 0, nr_bRateRaw = z, nr_dRateRaw = z,
       nr_cFactorRaw = z, nr_lFactorRaw = z, nr_utilTargetRaw = z, nr_maxUtilRaw = z, nr_rBaseRaw = z,
       nr_rOneRaw = z, nr_rTwoRaw = z, nr_rThreeRaw = z, nr_rateModifierRaw = z, nr_reactivityRaw = z,
       nr_usdPrice = z, nr_priceAvailable = False, nr_totalSuppliedRaw = z, nr_totalBorrowedRaw = z,
       nr_utilizationRaw = z, nr_borrowAPRRaw = None, nr_supplyAPRRaw = None, nr_aprPartial = False,
       nr_supplyCapRaw = '''', nr_borrowCapRaw = z, nr_remainingBorrowableRaw = z, nr_utilizationSource = '''',
       nr_rateModifierNormalized = z, nr_cFactorNormalized = z, nr_lFactorNormalized = z,
       nr_utilTargetNormalized = z, nr_maxUtilNormalized = z, nr_rBaseNormalized = z, nr_rOneNormalized = z,
       nr_rTwoNormalized = z, nr_rThreeNormalized = z, nr_reactivityNormalized = z, nr_borrowAPRNormalized = z,
       nr_supplyAPRNormalized = z, nr_borrowAPRNormalizedValid = False, nr_supplyAPRNormalizedValid = False,
       nr_raw = zero_reserve_state\<rparr>)"

text \<open>Config decoded but no rate and no supply: the reserve's data half has not been decoded yet.\<close>

definition reserveHasFoldedData :: "reserve_state \<Rightarrow> bool" where
  "reserveHasFoldedData r \<longleftrightarrow>
     rs_BRateRaw r \<noteq> '''' \<or> rs_DRateRaw r \<noteq> '''' \<or> rs_BSupplyRaw r \<noteq> '''' \<or> rs_DSupplyRaw r \<noteq> ''''"

definition computeBorrowAPRRaw ::
  "'d decimal_ops \<Rightarrow> 'd \<Rightarrow> 'd \<Rightarrow> 'd \<Rightarrow> 'd \<Rightarrow> 'd \<Rightarrow> 'd \<Rightarrow> 'd \<Rightarrow> 'd \<Rightarrow> 'd \<Rightarrow> 'd \<times> bool \<times> bool" where
  "computeBorrowAPRRaw D utilization utilTarget rateModifier rateModifierScalar rBase rOne rTwo rThree dSupply =
     (let S = factorScaleDecimal D; u95 = d_require D ''9500000'' in
      if d_is_zero D utilization \<or> d_is_zero D dSupply then (decZero D, True, False)
      else if d_is_zero D utilTarget then (decZero D, False, True)
      else if d_le D utilization utilTarget then
        (let utilScalar = fixedDivCeil D utilization utilTarget S;
             baseRate = d_add D rBase (fixedMulCeil D utilScalar rOne S)
         in (fixedMulCeil D baseRate rateModifier rateModifierScalar, True, False))
      else if d_le D utilization u95 then
        (let den = d_sub D u95 utilTarget in
         if d_is_zero D den then
           (let baseRate = d_add D (d_add D rBase rOne) rTwo
            in (fixedMulCeil D baseRate rateModifier rateModifierScalar, True, False))
         else
           (let utilScalar = fixedDivCeil D (d_sub D utilization utilTarget) den S;
                baseRate = d_add D (d_add D rBase rOne) (fixedMulCeil D utilScalar rTwo S)
            in (fixedMulCeil D baseRate rateModifier rateModifierScalar, True, False)))
      else
        (let utilScalar = fixedDivCeil D (d_sub D utilization u95) (d_require D ''500000'') S;
             extraRate = fixedMulCeil D utilScalar rThree S;
             intersection = fixedMulCeil D (d_add D (d_add D rBase rOne) rTwo) rateModifier rateModifierScalar
         in (d_add D intersection extraRate, True, False)))"

text \<open>The chain of \<open>mustParseDecimal\<close> calls: the first failure ends the normalization.\<close>

fun parse_fields :: "'d decimal_ops \<Rightarrow> (string \<times> ('d \<Rightarrow> 'n \<Rightarrow> 'n)) list \<Rightarrow> 'n \<Rightarrow> string + 'n" where
  "parse_fields D [] out = Inr out"
| "parse_fields D ((raw, setter) # fs) out =
     and_then (mustParseDecimal D raw) (\<lambda>v. parse_fields D fs (setter v out))"

definition reserve_fields :: "reserve_state \<Rightarrow> (string \<times> ('d \<Rightarrow> 'd normalized_reserve \<Rightarrow> 'd normalized_reserve)) list" where
  "reserve_fields r = [
     (rs_BRateRaw r, \<lambda>v out. out\<lparr>nr_bRateRaw := v\<rparr>),
     (rs_DRateRaw r, \<lambda>v out. out\<lparr>nr_dRateRaw := v\<rparr>),
     (rs_CFactorRaw r, \<lambda>v out. out\<lparr>nr_cFactorRaw := v\<rparr>),
     (rs_LFactorRaw r, \<lambda>v out. out\<lparr>nr_lFactorRaw := v\<rparr>),
     (rs_UtilTargetRaw r, \<lambda>v out. out\<lparr>nr_utilTargetRaw := v\<rparr>),
     (rs_MaxUtilRaw r, \<lambda>v out. out\<lparr>nr_maxUtilRaw := v\<rparr>),
     (rs_RBaseRaw r, \<lambda>v out. out\<lparr>nr_rBaseRaw := v\<rparr>),
     (rs_ROneRaw r, \<lambda>v out. out\<lparr>nr_rOneRaw := v\<rparr>),
     (rs_RTwoRaw r, \<lambda>v out. out\<lparr>nr_rTwoRaw := v\<rparr>),
     (rs_RThreeRaw r, \<lambda>v out. out\<lparr>nr_rThreeRaw := v\<rparr>),
     (rs_RateModifierRaw r, \<lambda>v out. out\<lparr>nr_rateModifierRaw := v\<rparr>),
     (rs_ReactivityRaw r, \<lambda>v out. out\<lparr>nr_reactivityRaw := v\<rparr>)]"

definition fill_factors :: "'d decimal_ops \<Rightarrow> 'd normalized_reserve \<Rightarrow> 'd normalized_reserve" where
  "fill_factors D out =
     (let n = (\<lambda>x. d_div D x (factorScaleDecimal D)) in
      out\<lparr>nr_cFactorNormalized := n (nr_cFactorRaw out), nr_lFactorNormalized := n (nr_lFactorRaw out),
          nr_utilTargetNormalized := n (nr_utilTargetRaw out), nr_maxUtilNormalized := n (nr_maxUtilRaw out),
          nr_rBaseNormalized := n (nr_rBaseRaw out), nr_rOneNormalized := n (nr_rOneRaw out),
          nr_rTwoNormalized := n (nr_rTwoRaw out), nr_rThreeNormalized := n (nr_rThreeRaw out),
          nr_reactivityNormalized := n (nr_reactivityRaw out)\<rparr>)"

definition fill_price :: "'d decimal_ops \<Rightarrow> reserve_state \<Rightarrow> 'd normalized_reserve \<Rightarrow> 'd normalized_reserve" where
  "fill_price D r out =
     (let priceRaw = parseDecimalOrZero D (rs_OraclePriceRaw r) in
      if \<not> d_is_zero D priceRaw
      then out\<lparr>nr_usdPrice := d_div D priceRaw (d_new D 1 (rs_OracleDecimals r)), nr_priceAvailable := True\<rparr>
      else out)"

definition fill_utilization ::
  "'d decimal_ops \<Rightarrow> 'd normalized_pool \<Rightarrow> reserve_state \<Rightarrow> 'd normalized_reserve \<Rightarrow> 'd normalized_reserve" where
  "fill_utilization D pool r out =
     (let bSupply = parseDecimalOrZero D (rs_BSupplyRaw r);
          dSupply = parseDecimalOrZero D (rs_DSupplyRaw r);
          supplied = fixedMulFloor D bSupply (nr_bRateRaw out) (np_rateScalar pool);
          borrowed = fixedMulCeil D dSupply (nr_dRateRaw out) (np_rateScalar pool);
          S = factorScaleDecimal D;
          u = (if d_is_zero D borrowed then decZero D
               else if d_is_zero D supplied then S
               else fixedDivCeil D borrowed supplied S);
          u = (if np_version pool = ''v2'' \<and> d_lt D S u then S else u)
      in out\<lparr>nr_totalSuppliedRaw := supplied, nr_totalBorrowedRaw := borrowed, nr_utilizationRaw := u\<rparr>)"

definition fill_rates ::
  "'d decimal_ops \<Rightarrow> 'd normalized_pool \<Rightarrow> reserve_state \<Rightarrow> 'd normalized_reserve \<Rightarrow> 'd normalized_reserve" where
  "fill_rates D pool r out =
     (let S = factorScaleDecimal D in
      case computeBorrowAPRRaw D (nr_utilizationRaw out) (nr_utilTargetRaw out) (nr_rateModifierRaw out)
          (np_rateModifierScalar pool) (nr_rBaseRaw out) (nr_rOneRaw out) (nr_rTwoRaw out) (nr_rThreeRaw out)
          (parseDecimalOrZero D (rs_DSupplyRaw r)) of
        (borrow, valid, partial) \<Rightarrow>
          (let out = out\<lparr>nr_aprPartial := partial\<rparr>;
               out = (if valid then out\<lparr>nr_borrowAPRRaw := Some borrow, nr_borrowAPRNormalized := d_div D borrow S,
                        nr_borrowAPRNormalizedValid := True\<rparr> else out)
           in if \<not> np_backstopTakeAvailable pool \<or> \<not> valid
              then out\<lparr>nr_supplyAPRRaw := None, nr_supplyAPRNormalizedValid := False, nr_aprPartial := True\<rparr>
              else (let tmp = fixedMulFloor D borrow (nr_utilizationRaw out) S;
                        supply = fixedMulFloor D tmp (d_sub D S (np_backstopTakeRaw pool)) S
                    in out\<lparr>nr_supplyAPRRaw := Some supply, nr_supplyAPRNormalized := d_div D supply S,
                          nr_supplyAPRNormalizedValid := True\<rparr>)))"

definition fill_caps :: "'d decimal_ops \<Rightarrow> reserve_state \<Rightarrow> 'd normalized_reserve \<Rightarrow> 'd normalized_reserve" where
  "fill_caps D r out =
     (let cap = fixedMulFloor D (nr_totalSuppliedRaw out) (nr_maxUtilRaw out) (factorScaleDecimal D)
      in out\<lparr>nr_supplyCapRaw := rs_SupplyCapRaw r, nr_borrowCapRaw := cap,
             nr_remainingBorrowableRaw := maxDecimal D (d_sub D cap (nr_totalBorrowedRaw out)) (decZero D)\<rparr>)"

definition normalizeReserve ::
  "'d decimal_ops \<Rightarrow> string \<Rightarrow> 'd normalized_pool \<Rightarrow> reserve_state \<Rightarrow> string + 'd normalized_reserve" where
  "normalizeReserve D poolContract pool r =
     (let out = (zero_normalized_reserve D)\<lparr>nr_poolContract := poolContract, nr_assetID := rs_AssetID r,
            nr_assetDecimals := rs_AssetDecimals r, nr_raw := r, nr_utilizationSource := ''contract_parity''\<rparr>
      in if d_is_zero D (np_rateScalar pool) then Inl (''scalar cannot be zero for pool '' @ poolContract)
      else and_then (parse_fields D (reserve_fields r) out) (\<lambda>out.
        let out = fill_factors D out in
        and_then (normalizedRateModifier D (rs_RateModifierRaw r) (np_rateModifierScalar pool)) (\<lambda>rm.
          let out = out\<lparr>nr_rateModifierNormalized := rm\<rparr> in
          Inr (fill_caps D r (fill_rates D pool r (fill_utilization D pool r (fill_price D r out)))))))"

definition reserveKey :: "string \<Rightarrow> string \<Rightarrow> string" where
  "reserveKey poolContract assetID = poolContract @ ''|'' @ assetID"

definition convertBackstopSharesToTokens :: "'d decimal_ops \<Rightarrow> 'd \<Rightarrow> 'd \<Rightarrow> 'd \<Rightarrow> 'd" where
  "convertBackstopSharesToTokens D shares poolShares poolTokens =
     (if d_is_zero D poolShares then decZero D
      else if d_eq D shares poolShares then poolTokens
      else fixedMulFloor D shares poolTokens poolShares)"

section \<open>The interest curve on integers\<close>

definition S7 :: int where
  "S7 = 10000000"

definition u95 :: int where
  "u95 = 9500000"

lemma S7_pos [simp]: "0 < S7" "0 \<le> S7" "S7 \<noteq> 0"
  by (simp_all add: S7_def)

text \<open>
  The contract's three-leg curve: up to the target the first leg's slope, from the target to
  95 percent the second's, above it the third's, which the rate modifier does not scale.  Every
  product and quotient is rounded up to the seventh digit.
\<close>

definition rate_curve :: "int \<Rightarrow> int \<Rightarrow> int \<Rightarrow> int \<Rightarrow> int \<Rightarrow> int \<Rightarrow> int \<Rightarrow> int" where
  "rate_curve u t base one two three rm =
     (if u \<le> t then ceil_div ((base + ceil_div (ceil_div (u * S7) t * one) S7) * rm) S7
      else if u \<le> u95
        then ceil_div ((base + one + ceil_div (ceil_div ((u - t) * S7) (u95 - t) * two) S7) * rm) S7
      else ceil_div ((base + one + two) * rm) S7
         + ceil_div (ceil_div ((u - u95) * S7) 500000 * three) S7)"

lemma small_consts [simp]: "small S7" "small 500000" "small 10000000"
  by (simp_all add: small_def S7_def DivisionPrecision_def)

lemma is_int_S7: "decimal_ok D \<Longrightarrow> is_int D (factorScaleDecimal D) S7"
  using is_int_scale [of D] by (simp add: S7_def)

lemma is_int_u95: "decimal_ok D \<Longrightarrow> is_int D (d_require D ''9500000'') u95"
  using is_int_require [of D 9500000] by (simp add: show_int_const u95_def)

lemma is_int_500000: "decimal_ok D \<Longrightarrow> is_int D (d_require D ''500000'') 500000"
  using is_int_require [of D 500000] by (simp add: show_int_const)

lemma borrow_rate_curve:
  assumes ok: "decimal_ok D" and t: "0 < t" "small t" and u: "u \<noteq> 0" and ds: "s \<noteq> 0"
    and i: "is_int D du u" "is_int D dt t" "is_int D drm rm" "is_int D dsc S7" "is_int D db base"
      "is_int D d1 one" "is_int D d2 two" "is_int D d3 three" "is_int D dd s"
  shows "\<exists>x. computeBorrowAPRRaw D du dt drm dsc db d1 d2 d3 dd = (x, True, False) \<and>
           is_int D x (rate_curve u t base one two three rm)"
proof -
  note [intro] = is_int_intros [OF ok] is_int_S7 [OF ok] is_int_u95 [OF ok] is_int_500000 [OF ok] i
  have z: "\<not> d_is_zero D du" "\<not> d_is_zero D dd" "\<not> d_is_zero D dt"
    using is_int_zero_iff [OF ok] i u ds t by auto
  show ?thesis
  proof (cases "u \<le> t")
    case True
    then have "d_le D du dt" using is_int_le_iff [OF ok i(1,2)] by simp
    moreover have "is_int D (fixedMulCeil D (d_add D db (fixedMulCeil D (fixedDivCeil D du dt (factorScaleDecimal D)) d1
        (factorScaleDecimal D))) drm dsc) (rate_curve u t base one two three rm)"
      unfolding rate_curve_def using True t by (auto intro!: is_int_fixedMulCeil [OF ok] is_int_add [OF ok] is_int_fixedDivCeil [OF ok])
    ultimately show ?thesis using z by (simp add: computeBorrowAPRRaw_def Let_def)
  next
    case above: False
    then have l1: "\<not> d_le D du dt" using is_int_le_iff [OF ok i(1,2)] by simp
    show ?thesis
    proof (cases "u \<le> u95")
      case True
      have l2: "d_le D du (d_require D ''9500000'')"
        using is_int_le_iff [OF ok i(1) is_int_u95 [OF ok]] True by simp
      have den: "is_int D (d_sub D (d_require D ''9500000'') dt) (u95 - t)"
        by (intro is_int_sub [OF ok] is_int_u95 [OF ok] i)
      have gap: "0 < u95 - t" "small (u95 - t)"
        using above True t by (simp_all add: small_def u95_def DivisionPrecision_def)
      have "\<not> d_is_zero D (d_sub D (d_require D ''9500000'') dt)"
        using is_int_zero_iff [OF ok den] gap by simp
      moreover have "is_int D (fixedMulCeil D (d_add D (d_add D db d1) (fixedMulCeil D (fixedDivCeil D (d_sub D du dt)
          (d_sub D (d_require D ''9500000'') dt) (factorScaleDecimal D)) d2 (factorScaleDecimal D))) drm dsc)
          (rate_curve u t base one two three rm)"
        unfolding rate_curve_def using above True gap den
        by (auto intro!: is_int_fixedMulCeil [OF ok] is_int_add [OF ok] is_int_fixedDivCeil [OF ok] is_int_sub [OF ok])
      ultimately show ?thesis using z l1 l2 by (simp add: computeBorrowAPRRaw_def Let_def)
    next
      case False
      have l2: "\<not> d_le D du (d_require D ''9500000'')"
        using is_int_le_iff [OF ok i(1) is_int_u95 [OF ok]] False by simp
      have "is_int D (d_add D (fixedMulCeil D (d_add D (d_add D db d1) d2) drm dsc)
          (fixedMulCeil D (fixedDivCeil D (d_sub D du (d_require D ''9500000'')) (d_require D ''500000'')
             (factorScaleDecimal D)) d3 (factorScaleDecimal D)))
          (rate_curve u t base one two three rm)"
        unfolding rate_curve_def using above False
        by (auto intro!: is_int_fixedMulCeil [OF ok] is_int_add [OF ok] is_int_fixedDivCeil [OF ok] is_int_sub [OF ok])
      then show ?thesis using z l1 l2 by (simp add: computeBorrowAPRRaw_def Let_def)
    qed
  qed
qed

text \<open>The curve is monotone, across its kinks too.\<close>

lemma leg_mono:
  assumes "0 < d" "x \<le> y" "0 \<le> slope"
  shows "ceil_div (ceil_div (x * S7) d * slope) S7 \<le> ceil_div (ceil_div (y * S7) d * slope) S7"
  using assms by (intro ceil_div_mono mult_right_mono) auto

lemma leg_full: "0 < d \<Longrightarrow> 0 \<le> slope \<Longrightarrow> x \<le> d \<Longrightarrow> ceil_div (ceil_div (x * S7) d * slope) S7 \<le> slope"
proof -
  assume a: "0 < d" "0 \<le> slope" "x \<le> d"
  have "x * S7 \<le> S7 * d" using a(3) by simp
  then have "ceil_div (x * S7) d \<le> S7" using a(1) by (intro ceil_div_le)
  then have "ceil_div (x * S7) d * slope \<le> slope * S7"
    using a(2) mult_right_mono [of "ceil_div (x * S7) d" S7 slope] by (simp add: mult.commute)
  then show ?thesis by (intro ceil_div_le) simp_all
qed

lemma leg_nonneg: "0 < d \<Longrightarrow> 0 \<le> slope \<Longrightarrow> 0 \<le> x \<Longrightarrow> 0 \<le> ceil_div (ceil_div (x * S7) d * slope) S7"
  by (intro ceil_div_nonneg mult_nonneg_nonneg) auto

lemma modified_mono: "0 \<le> rm \<Longrightarrow> x \<le> y \<Longrightarrow> ceil_div (x * rm) S7 \<le> ceil_div (y * rm) S7"
  by (intro ceil_div_mono mult_right_mono) auto

lemma rate_curve_mono:
  assumes "0 < t" "0 \<le> one" "0 \<le> two" "0 \<le> three" "0 \<le> rm" "u \<le> v"
  shows "rate_curve u t base one two three rm \<le> rate_curve v t base one two three rm"
proof -
  let ?A = "ceil_div ((base + one) * rm) S7" and ?B = "ceil_div ((base + one + two) * rm) S7"
  have first: "rate_curve x t base one two three rm \<le> ?A" if "x \<le> t" for x
    using that leg_full [OF assms(1,2) that] by (auto simp: rate_curve_def intro!: modified_mono [OF assms(5)])
  have AB: "?A \<le> ?B" using assms(3,5) by (intro modified_mono) auto
  have second: "?A \<le> rate_curve x t base one two three rm" "rate_curve x t base one two three rm \<le> ?B"
    if "t < x" "x \<le> u95" for x
    using that leg_nonneg [of "u95 - t" two "x - t"] leg_full [of "u95 - t" two "x - t"] assms(3)
    by (auto simp: rate_curve_def intro!: modified_mono [OF assms(5)])
  have third: "?B \<le> rate_curve x t base one two three rm" if "t < x" "u95 < x" for x
    using that leg_nonneg [of 500000 three "x - u95"] assms(4) by (auto simp: rate_curve_def)
  consider "v \<le> t" | "u \<le> t" "t < v" | "t < u" "v \<le> u95" | "t < u" "u \<le> u95" "u95 < v" | "t < u" "u95 < u"
    by linarith
  then show ?thesis
  proof cases
    case 1
    then show ?thesis using assms leg_mono [OF assms(1) assms(6) assms(2)]
      by (auto simp: rate_curve_def intro!: modified_mono)
  next
    case 2
    then show ?thesis using first [of u] second [of v] third [of v] AB by (cases "v \<le> u95") auto
  next
    case 3
    then show ?thesis using assms leg_mono [of "u95 - t" "u - t" "v - t" two]
      by (auto simp: rate_curve_def intro!: modified_mono)
  next
    case 4
    then show ?thesis using second [of u] third [of v] by auto
  next
    case 5
    then show ?thesis using assms by (auto simp: rate_curve_def intro!: leg_mono)
  qed
qed

lemma rate_curve_nonneg:
  assumes "0 < t" "0 \<le> u" "0 \<le> base" "0 \<le> one" "0 \<le> two" "0 \<le> three" "0 \<le> rm"
  shows "0 \<le> rate_curve u t base one two three rm"
proof -
  have "0 \<le> base + ceil_div (ceil_div (0 * S7) t * one) S7"
    using assms leg_nonneg [of t one 0] by simp
  then have "0 \<le> rate_curve 0 t base one two three rm"
    using assms by (simp add: rate_curve_def ceil_div_nonneg)
  also have "\<dots> \<le> rate_curve u t base one two three rm" using assms by (intro rate_curve_mono)
  finally show ?thesis .
qed

section \<open>The valuation on integers\<close>

record reserve_spec =
  sp_bRate :: int
  sp_dRate :: int
  sp_bSupply :: int
  sp_dSupply :: int
  sp_target :: int
  sp_maxUtil :: int
  sp_base :: int
  sp_one :: int
  sp_two :: int
  sp_three :: int
  sp_modifier :: int
  sp_cFactor :: int
  sp_lFactor :: int
  sp_reactivity :: int

definition reserve_denotes :: "reserve_state \<Rightarrow> reserve_spec \<Rightarrow> bool" where
  "reserve_denotes r n \<longleftrightarrow>
     rs_BRateRaw r = show_int (sp_bRate n) \<and> rs_DRateRaw r = show_int (sp_dRate n) \<and>
     rs_BSupplyRaw r = show_int (sp_bSupply n) \<and> rs_DSupplyRaw r = show_int (sp_dSupply n) \<and>
     rs_UtilTargetRaw r = show_int (sp_target n) \<and> rs_MaxUtilRaw r = show_int (sp_maxUtil n) \<and>
     rs_RBaseRaw r = show_int (sp_base n) \<and> rs_ROneRaw r = show_int (sp_one n) \<and>
     rs_RTwoRaw r = show_int (sp_two n) \<and> rs_RThreeRaw r = show_int (sp_three n) \<and>
     rs_RateModifierRaw r = show_int (sp_modifier n) \<and> rs_CFactorRaw r = show_int (sp_cFactor n) \<and>
     rs_LFactorRaw r = show_int (sp_lFactor n) \<and> rs_ReactivityRaw r = show_int (sp_reactivity n)"

definition sp_supplied :: "reserve_spec \<Rightarrow> int \<Rightarrow> int" where
  "sp_supplied n sc = sp_bSupply n * sp_bRate n div sc"

definition sp_borrowed :: "reserve_spec \<Rightarrow> int \<Rightarrow> int" where
  "sp_borrowed n sc = ceil_div (sp_dSupply n * sp_dRate n) sc"

definition sp_util :: "reserve_spec \<Rightarrow> int \<Rightarrow> int" where
  "sp_util n sc =
     (if sp_borrowed n sc = 0 then 0
      else if sp_supplied n sc = 0 then S7
      else min S7 (ceil_div (sp_borrowed n sc * S7) (sp_supplied n sc)))"

definition sp_borrow_apr :: "reserve_spec \<Rightarrow> int \<Rightarrow> int option" where
  "sp_borrow_apr n sc =
     (if sp_util n sc = 0 \<or> sp_dSupply n = 0 then Some 0
      else if sp_target n = 0 then None
      else Some (rate_curve (sp_util n sc) (sp_target n) (sp_base n) (sp_one n) (sp_two n) (sp_three n) (sp_modifier n)))"

definition sp_take :: "int \<Rightarrow> int" where
  "sp_take k = (if k = 1 then S7 else max 0 (min k S7))"

definition sp_supply_apr :: "reserve_spec \<Rightarrow> int \<Rightarrow> int \<Rightarrow> int option" where
  "sp_supply_apr n sc k =
     map_option (\<lambda>b. b * sp_util n sc div S7 * (S7 - sp_take k) div S7) (sp_borrow_apr n sc)"

definition sp_cap :: "reserve_spec \<Rightarrow> int \<Rightarrow> int" where
  "sp_cap n sc = sp_supplied n sc * sp_maxUtil n div S7"

text \<open>Quantities a pool can hold: no negative amount, and the totals and the target below the bound of exactness.\<close>

definition spec_ok :: "reserve_spec \<Rightarrow> int \<Rightarrow> bool" where
  "spec_ok n sc \<longleftrightarrow> small sc \<and> 0 \<le> sp_bRate n \<and> 0 \<le> sp_dRate n \<and> 0 \<le> sp_bSupply n \<and> 0 \<le> sp_dSupply n \<and>
     0 \<le> sp_target n \<and> sp_target n < 2 * 10 ^ DivisionPrecision \<and> 0 \<le> sp_maxUtil n \<and>
     0 \<le> sp_base n \<and> 0 \<le> sp_one n \<and> 0 \<le> sp_two n \<and> 0 \<le> sp_three n \<and> 0 \<le> sp_modifier n \<and>
     sp_supplied n sc < 2 * 10 ^ DivisionPrecision"

lemma sp_supplied_nonneg: "spec_ok n sc \<Longrightarrow> 0 \<le> sp_supplied n sc"
  by (simp add: spec_ok_def sp_supplied_def small_def pos_imp_zdiv_nonneg_iff)

lemma sp_borrowed_nonneg: "spec_ok n sc \<Longrightarrow> 0 \<le> sp_borrowed n sc"
  by (simp add: spec_ok_def sp_borrowed_def small_def ceil_div_nonneg)

lemma sp_util_bounds: "spec_ok n sc \<Longrightarrow> 0 \<le> sp_util n sc \<and> sp_util n sc \<le> S7"
  using sp_supplied_nonneg [of n sc] sp_borrowed_nonneg [of n sc]
  by (auto simp: sp_util_def intro!: ceil_div_nonneg)

lemma sp_borrow_apr_nonneg: "spec_ok n sc \<Longrightarrow> sp_borrow_apr n sc = Some b \<Longrightarrow> 0 \<le> b"
  using sp_util_bounds [of n sc] rate_curve_nonneg [of "sp_target n" "sp_util n sc"]
  by (auto simp: sp_borrow_apr_def spec_ok_def split: if_splits)

lemma sp_take_bounds: "0 \<le> sp_take k \<and> sp_take k \<le> S7"
  by (simp add: sp_take_def)

lemma fraction_le: "0 \<le> x \<Longrightarrow> 0 \<le> f \<Longrightarrow> f \<le> S7 \<Longrightarrow> 0 \<le> x * f div S7 \<and> x * f div S7 \<le> x"
proof -
  assume a: "0 \<le> x" "0 \<le> f" "f \<le> S7"
  have "x * f div S7 \<le> x * S7 div S7" using a by (intro zdiv_mono1 mult_left_mono) auto
  then show ?thesis using a by (simp add: pos_imp_zdiv_nonneg_iff)
qed

text \<open>Suppliers never earn more than borrowers pay.\<close>

lemma sp_supply_le_borrow:
  assumes "spec_ok n sc" "sp_supply_apr n sc k = Some p"
  shows "\<exists>b. sp_borrow_apr n sc = Some b \<and> 0 \<le> p \<and> p \<le> b"
proof -
  obtain b where b: "sp_borrow_apr n sc = Some b" "p = b * sp_util n sc div S7 * (S7 - sp_take k) div S7"
    using assms(2) by (auto simp: sp_supply_apr_def)
  have "0 \<le> b" using sp_borrow_apr_nonneg [OF assms(1) b(1)] .
  then have u: "0 \<le> b * sp_util n sc div S7" "b * sp_util n sc div S7 \<le> b"
    using fraction_le [of b "sp_util n sc"] sp_util_bounds [OF assms(1)] by auto
  then show ?thesis using b sp_take_bounds [of k] fraction_le [of "b * sp_util n sc div S7" "S7 - sp_take k"] by auto
qed

section \<open>The decimal valuation computes the integer valuation\<close>

lemma is_space_digits: "c \<in> set (show_int n) \<Longrightarrow> \<not> is_space c"
proof -
  have d: "\<not> is_space c" if "digit_val c \<noteq> None" for c
    using that by (auto simp: digit_val_def is_space_def split: if_splits)
  have e: "\<not> is_space c" if "0 \<le> k" "c \<in> set (show_digits k)" for k using d show_digits_chars [OF that] by blast
  have m: "\<not> is_space CHR ''-''" by (simp add: is_space_def)
  assume c: "c \<in> set (show_int n)"
  show ?thesis
  proof (cases "n < 0")
    case True
    then show ?thesis using c e [of "- n"] m by (auto simp: show_int_def)
  next
    case False
    then show ?thesis using c e [of n] by (simp add: show_int_def)
  qed
qed

lemma trim_show_int: "trim_space (show_int n) = show_int n"
proof -
  have d: "dropWhile is_space xs = xs" if "\<forall>c\<in>set xs. \<not> is_space c" for xs
    using that by (cases xs) auto
  have "dropWhile is_space (show_int n) = show_int n" "dropWhile is_space (rev (show_int n)) = rev (show_int n)"
    using is_space_digits [of _ n] by (auto intro!: d)
  then show ?thesis by (simp add: trim_space_def)
qed

lemma parseFactorRaw_int:
  assumes ok: "decimal_ok D"
  shows "\<exists>d. parseFactorRaw D (show_int k) = (d, True) \<and> is_int D d (if \<bar>k\<bar> = 1 then k * S7 else k)"
proof -
  let ?d = "parseDecimalOrZero D (show_int k)"
  have d: "dval D ?d = of_int k" using parseDecimalOrZero_int [OF ok] .
  have "d_le D (d_abs D ?d) (decOne D) \<longleftrightarrow> \<bar>of_int k :: rat\<bar> \<le> 1"
    by (simp add: d_le_val [OF ok] dval_abs [OF ok] dval_one [OF ok] d)
  also have "\<dots> \<longleftrightarrow> of_int \<bar>k\<bar> \<le> (of_int 1 :: rat)" by simp
  also have "\<dots> \<longleftrightarrow> \<bar>k\<bar> \<le> 1" by (simp only: of_int_le_iff)
  finally have le: "d_le D (d_abs D ?d) (decOne D) \<longleftrightarrow> \<bar>k\<bar> \<le> 1" .
  have fl: "is_int D (d_floor D (d_mul D ?d (factorScaleDecimal D))) (k * S7)"
    using is_int_mul [OF ok is_int_parse [OF ok, of k] is_int_S7 [OF ok]] by (simp add: is_int_def dval_floor [OF ok])
  have z: "d_is_zero D ?d \<longleftrightarrow> k = 0" by (rule is_int_zero_iff [OF ok is_int_parse [OF ok]])
  have p: "parseFactorRaw D (show_int k) =
      (if d_is_zero D ?d then (decZero D, True)
       else if \<bar>k\<bar> \<le> 1 then (d_floor D (d_mul D ?d (factorScaleDecimal D)), True) else (?d, True))"
    by (simp add: parseFactorRaw_def trim_show_int le Let_def)
  show ?thesis unfolding p z using is_int_zero [OF ok] fl is_int_parse [OF ok, of k] by auto
qed

lemma newV2Pool_int:
  assumes ok: "decimal_ok D"
  shows "is_int D (np_rateScalar (newV2Pool D (show_int sc) (show_int k))) sc"
    and "is_int D (np_rateModifierScalar (newV2Pool D (show_int sc) (show_int k))) S7"
    and "np_version (newV2Pool D (show_int sc) (show_int k)) = ''v2''"
    and "is_int D (np_backstopTakeRaw (newV2Pool D (show_int sc) (show_int k))) (sp_take k)"
    and "np_backstopTakeAvailable (newV2Pool D (show_int sc) (show_int k))"
proof -
  obtain d where d: "parseFactorRaw D (show_int k) = (d, True)" "is_int D d (if \<bar>k\<bar> = 1 then k * S7 else k)"
    using parseFactorRaw_int [OF ok] by blast
  show "is_int D (np_rateScalar (newV2Pool D (show_int sc) (show_int k))) sc"
    by (simp add: newV2Pool_def d is_int_parse [OF ok])
  show "is_int D (np_rateModifierScalar (newV2Pool D (show_int sc) (show_int k))) S7"
    using is_int_parse [OF ok, of S7] by (simp add: newV2Pool_def d rateModifierScaleV2_def S7_def show_int_const)
  show "np_version (newV2Pool D (show_int sc) (show_int k)) = ''v2''"
    "np_backstopTakeAvailable (newV2Pool D (show_int sc) (show_int k))"
    by (simp_all add: newV2Pool_def d)
  have "is_int D (minDecimal D (maxDecimal D d (decZero D)) (factorScaleDecimal D))
      (min (max (if \<bar>k\<bar> = 1 then k * S7 else k) 0) S7)"
    by (intro is_int_min [OF ok] is_int_max [OF ok] d is_int_zero [OF ok] is_int_S7 [OF ok])
  moreover have "min (max (if \<bar>k\<bar> = 1 then k * S7 else k) 0) S7 = sp_take k"
    by (auto simp: sp_take_def S7_def)
  ultimately show "is_int D (np_backstopTakeRaw (newV2Pool D (show_int sc) (show_int k))) (sp_take k)"
    by (simp add: newV2Pool_def d)
qed

lemma mustParse_int: "decimal_ok D \<Longrightarrow> \<exists>d. mustParseDecimal D (show_int n) = Inr d \<and> is_int D d n"
  using d_parse_int [of D n] by (auto simp: mustParseDecimal_def is_int_def)

text \<open>The record after the parsing chain.\<close>

definition parsed_ok :: "'d decimal_ops \<Rightarrow> reserve_spec \<Rightarrow> 'd normalized_reserve \<Rightarrow> bool" where
  "parsed_ok D n out \<longleftrightarrow>
     is_int D (nr_bRateRaw out) (sp_bRate n) \<and> is_int D (nr_dRateRaw out) (sp_dRate n) \<and>
     is_int D (nr_utilTargetRaw out) (sp_target n) \<and> is_int D (nr_maxUtilRaw out) (sp_maxUtil n) \<and>
     is_int D (nr_rBaseRaw out) (sp_base n) \<and> is_int D (nr_rOneRaw out) (sp_one n) \<and>
     is_int D (nr_rTwoRaw out) (sp_two n) \<and> is_int D (nr_rThreeRaw out) (sp_three n) \<and>
     is_int D (nr_rateModifierRaw out) (sp_modifier n) \<and> is_int D (nr_cFactorRaw out) (sp_cFactor n) \<and>
     is_int D (nr_lFactorRaw out) (sp_lFactor n)"

lemma parse_reserve_fields:
  assumes ok: "decimal_ok D" and r: "reserve_denotes r n"
  shows "\<exists>out. parse_fields D (reserve_fields r) o0 = Inr out \<and> parsed_ok D n out"
proof -
  obtain f where f: "\<And>k. mustParseDecimal D (show_int k) = Inr (f k) \<and> is_int D (f k) k"
    using mustParse_int [OF ok] by metis
  then have f1: "\<And>k. mustParseDecimal D (show_int k) = Inr (f k)" and f2: "\<And>k. is_int D (f k) k" by auto
  have "parse_fields D (reserve_fields r) o0 = Inr (o0\<lparr>nr_bRateRaw := f (sp_bRate n), nr_dRateRaw := f (sp_dRate n),
      nr_cFactorRaw := f (sp_cFactor n), nr_lFactorRaw := f (sp_lFactor n), nr_utilTargetRaw := f (sp_target n),
      nr_maxUtilRaw := f (sp_maxUtil n), nr_rBaseRaw := f (sp_base n), nr_rOneRaw := f (sp_one n),
      nr_rTwoRaw := f (sp_two n), nr_rThreeRaw := f (sp_three n), nr_rateModifierRaw := f (sp_modifier n),
      nr_reactivityRaw := f (sp_reactivity n)\<rparr>)"
    using r by (simp add: reserve_fields_def reserve_denotes_def f1)
  then show ?thesis by (simp add: parsed_ok_def f2)
qed

lemma fill_factors_frame [frame]:
  "parsed_ok D n (fill_factors D out) = parsed_ok D n out"
  by (simp add: fill_factors_def parsed_ok_def Let_def)

lemma fill_price_frame [frame]: "parsed_ok D n (fill_price D r out) = parsed_ok D n out"
  by (simp add: fill_price_def parsed_ok_def Let_def)

lemma fill_utilization_frame [frame]: "parsed_ok D n (fill_utilization D pool r out) = parsed_ok D n out"
  by (simp add: fill_utilization_def parsed_ok_def Let_def)

lemma fill_rates_frame [frame]:
  "parsed_ok D n (fill_rates D pool r out) = parsed_ok D n out"
  "nr_totalSuppliedRaw (fill_rates D pool r out) = nr_totalSuppliedRaw out"
  "nr_totalBorrowedRaw (fill_rates D pool r out) = nr_totalBorrowedRaw out"
  "nr_utilizationRaw (fill_rates D pool r out) = nr_utilizationRaw out"
  by (simp_all add: fill_rates_def parsed_ok_def Let_def split: prod.splits)

lemma fill_caps_frame [frame]:
  "nr_totalSuppliedRaw (fill_caps D r out) = nr_totalSuppliedRaw out"
  "nr_totalBorrowedRaw (fill_caps D r out) = nr_totalBorrowedRaw out"
  "nr_utilizationRaw (fill_caps D r out) = nr_utilizationRaw out"
  "nr_borrowAPRRaw (fill_caps D r out) = nr_borrowAPRRaw out"
  "nr_supplyAPRRaw (fill_caps D r out) = nr_supplyAPRRaw out"
  by (simp_all add: fill_caps_def Let_def)

lemma fill_utilization_int:
  assumes ok: "decimal_ok D" and r: "reserve_denotes r n" and s: "spec_ok n sc" and out: "parsed_ok D n out"
    and sc: "is_int D (np_rateScalar pool) sc" and v: "np_version pool = ''v2''"
  shows "is_int D (nr_totalSuppliedRaw (fill_utilization D pool r out)) (sp_supplied n sc)"
    and "is_int D (nr_totalBorrowedRaw (fill_utilization D pool r out)) (sp_borrowed n sc)"
    and "is_int D (nr_utilizationRaw (fill_utilization D pool r out)) (sp_util n sc)"
proof -
  let ?b = "fixedMulFloor D (parseDecimalOrZero D (rs_BSupplyRaw r)) (nr_bRateRaw out) (np_rateScalar pool)"
  let ?d = "fixedMulCeil D (parseDecimalOrZero D (rs_DSupplyRaw r)) (nr_dRateRaw out) (np_rateScalar pool)"
  let ?S = "factorScaleDecimal D"
  have small: "small sc" using s by (simp add: spec_ok_def)
  have b: "is_int D ?b (sp_supplied n sc)"
    using r out sc small unfolding reserve_denotes_def parsed_ok_def sp_supplied_def
    by (auto intro!: is_int_fixedMulFloor [OF ok] is_int_parse [OF ok])
  have d: "is_int D ?d (sp_borrowed n sc)"
    using r out sc small unfolding reserve_denotes_def parsed_ok_def sp_borrowed_def
    by (auto intro!: is_int_fixedMulCeil [OF ok] is_int_parse [OF ok])
  show "is_int D (nr_totalSuppliedRaw (fill_utilization D pool r out)) (sp_supplied n sc)"
    "is_int D (nr_totalBorrowedRaw (fill_utilization D pool r out)) (sp_borrowed n sc)"
    using b d by (simp_all add: fill_utilization_def Let_def)
  have z: "d_is_zero D ?d \<longleftrightarrow> sp_borrowed n sc = 0" "d_is_zero D ?b \<longleftrightarrow> sp_supplied n sc = 0"
    using is_int_zero_iff [OF ok] b d by blast+
  let ?k = "if sp_borrowed n sc = 0 then 0 else if sp_supplied n sc = 0 then S7
    else ceil_div (sp_borrowed n sc * S7) (sp_supplied n sc)"
  let ?u = "if d_is_zero D ?d then decZero D else if d_is_zero D ?b then ?S else fixedDivCeil D ?d ?b ?S"
  have q: "sp_supplied n sc \<noteq> 0 \<Longrightarrow> small (sp_supplied n sc)"
    using sp_supplied_nonneg [OF s] s by (auto simp: small_def spec_ok_def)
  have u: "is_int D ?u ?k"
    unfolding z using q by (auto intro!: is_int_fixedDivCeil [OF ok] is_int_zero [OF ok] is_int_S7 [OF ok] b d)
  have lt: "d_lt D ?S ?u \<longleftrightarrow> S7 < ?k" by (rule is_int_lt_iff [OF ok is_int_S7 [OF ok] u])
  have "is_int D (if d_lt D ?S ?u then ?S else ?u) (if S7 < ?k then S7 else ?k)"
    unfolding lt using u is_int_S7 [OF ok] by simp
  moreover have "(if S7 < ?k then S7 else ?k) = sp_util n sc"
    using S7_pos(1) by (auto simp: sp_util_def simp del: S7_pos)
  moreover have "nr_utilizationRaw (fill_utilization D pool r out) = (if d_lt D ?S ?u then ?S else ?u)"
    using v by (simp add: fill_utilization_def Let_def)
  ultimately show "is_int D (nr_utilizationRaw (fill_utilization D pool r out)) (sp_util n sc)" by simp
qed

lemma fill_rates_int:
  assumes ok: "decimal_ok D" and r: "reserve_denotes r n" and s: "spec_ok n sc" and out: "parsed_ok D n out"
    and u: "is_int D (nr_utilizationRaw out) (sp_util n sc)"
    and m: "is_int D (np_rateModifierScalar pool) S7"
    and k: "is_int D (np_backstopTakeRaw pool) (sp_take k)" and a: "np_backstopTakeAvailable pool"
    and none: "nr_borrowAPRRaw out = None"
  shows "rel_option (is_int D) (nr_borrowAPRRaw (fill_rates D pool r out)) (sp_borrow_apr n sc)"
    and "rel_option (is_int D) (nr_supplyAPRRaw (fill_rates D pool r out)) (sp_supply_apr n sc k)"
proof -
  let ?c = "computeBorrowAPRRaw D (nr_utilizationRaw out) (nr_utilTargetRaw out) (nr_rateModifierRaw out)
          (np_rateModifierScalar pool) (nr_rBaseRaw out) (nr_rOneRaw out) (nr_rTwoRaw out) (nr_rThreeRaw out)
          (parseDecimalOrZero D (rs_DSupplyRaw r))"
  have ds: "is_int D (parseDecimalOrZero D (rs_DSupplyRaw r)) (sp_dSupply n)"
    using r is_int_parse [OF ok] by (simp add: reserve_denotes_def)
  have p: "is_int D (nr_utilTargetRaw out) (sp_target n)" "is_int D (nr_rateModifierRaw out) (sp_modifier n)"
    "is_int D (nr_rBaseRaw out) (sp_base n)" "is_int D (nr_rOneRaw out) (sp_one n)"
    "is_int D (nr_rTwoRaw out) (sp_two n)" "is_int D (nr_rThreeRaw out) (sp_three n)"
    using out by (simp_all add: parsed_ok_def)
  have z: "d_is_zero D (nr_utilizationRaw out) \<longleftrightarrow> sp_util n sc = 0"
    "d_is_zero D (parseDecimalOrZero D (rs_DSupplyRaw r)) \<longleftrightarrow> sp_dSupply n = 0"
    "d_is_zero D (nr_utilTargetRaw out) \<longleftrightarrow> sp_target n = 0"
    using is_int_zero_iff [OF ok] u ds p by blast+
  have "(\<exists>x b. ?c = (x, True, False) \<and> is_int D x b \<and> sp_borrow_apr n sc = Some b) \<or>
      (\<exists>x. ?c = (x, False, True) \<and> sp_borrow_apr n sc = None)"
  proof (cases "sp_util n sc = 0 \<or> sp_dSupply n = 0")
    case True
    then show ?thesis using z is_int_zero [OF ok] by (auto simp: computeBorrowAPRRaw_def Let_def sp_borrow_apr_def)
  next
    case idle: False
    show ?thesis
    proof (cases "sp_target n = 0")
      case True
      then show ?thesis using z idle by (auto simp: computeBorrowAPRRaw_def Let_def sp_borrow_apr_def)
    next
      case False
      then have "0 < sp_target n" "small (sp_target n)" using s by (auto simp: spec_ok_def small_def)
      from borrow_rate_curve [OF ok this _ _ u p(1,2) m p(3,4,5,6) ds] show ?thesis
        using idle False by (auto simp: sp_borrow_apr_def)
    qed
  qed
  then show "rel_option (is_int D) (nr_borrowAPRRaw (fill_rates D pool r out)) (sp_borrow_apr n sc)"
    and "rel_option (is_int D) (nr_supplyAPRRaw (fill_rates D pool r out)) (sp_supply_apr n sc k)"
    using a u k none by (auto simp: fill_rates_def Let_def sp_supply_apr_def
        intro!: is_int_fixedMulFloor [OF ok] is_int_sub [OF ok] is_int_S7 [OF ok])
qed

lemma fill_caps_int:
  assumes ok: "decimal_ok D" and out: "parsed_ok D n out"
    and t: "is_int D (nr_totalSuppliedRaw out) (sp_supplied n sc)" "is_int D (nr_totalBorrowedRaw out) (sp_borrowed n sc)"
  shows "is_int D (nr_borrowCapRaw (fill_caps D r out)) (sp_cap n sc)"
    and "is_int D (nr_remainingBorrowableRaw (fill_caps D r out)) (max (sp_cap n sc - sp_borrowed n sc) 0)"
proof -
  have c: "is_int D (fixedMulFloor D (nr_totalSuppliedRaw out) (nr_maxUtilRaw out) (factorScaleDecimal D)) (sp_cap n sc)"
    unfolding sp_cap_def using out t
    by (auto simp: parsed_ok_def intro!: is_int_fixedMulFloor [OF ok] is_int_S7 [OF ok])
  show "is_int D (nr_borrowCapRaw (fill_caps D r out)) (sp_cap n sc)"
    using c by (simp add: fill_caps_def Let_def)
  have "is_int D (maxDecimal D (d_sub D (fixedMulFloor D (nr_totalSuppliedRaw out) (nr_maxUtilRaw out)
      (factorScaleDecimal D)) (nr_totalBorrowedRaw out)) (decZero D)) (max (sp_cap n sc - sp_borrowed n sc) 0)"
    by (intro is_int_max [OF ok] is_int_sub [OF ok] is_int_zero [OF ok] c t)
  then show "is_int D (nr_remainingBorrowableRaw (fill_caps D r out)) (max (sp_cap n sc - sp_borrowed n sc) 0)"
    by (simp add: fill_caps_def Let_def)
qed

lemma parse_fields_frame:
  assumes "parse_fields D fs o0 = Inr out" and "\<And>raw setter v q. (raw, setter) \<in> set fs \<Longrightarrow> f (setter v q) = f q"
  shows "f out = f o0"
  using assms
proof (induction fs arbitrary: o0)
  case Nil
  then show ?case by simp
next
  case (Cons p fs)
  obtain raw setter where p: "p = (raw, setter)" by (cases p)
  obtain v where "parse_fields D fs (setter v o0) = Inr out"
    using Cons.prems(1) by (auto simp: p and_then_Inr)
  then have "f out = f (setter v o0)" using Cons.prems(2) by (intro Cons.IH) auto
  then show ?case using Cons.prems(2) [of raw setter v o0] by (simp add: p)
qed

lemma reserve_fields_frame:
  assumes "parse_fields D (reserve_fields r) o0 = Inr out"
  shows "nr_borrowAPRRaw out = nr_borrowAPRRaw o0" "nr_poolContract out = nr_poolContract o0"
    "nr_assetID out = nr_assetID o0" "nr_assetDecimals out = nr_assetDecimals o0" "nr_raw out = nr_raw o0"
    "nr_priceAvailable out = nr_priceAvailable o0"
  by (rule parse_fields_frame [OF assms]; auto simp: reserve_fields_def)+

lemma borrowAPR_frame [frame]:
  "nr_borrowAPRRaw (fill_factors D out) = nr_borrowAPRRaw out"
  "nr_borrowAPRRaw (fill_price D r out) = nr_borrowAPRRaw out"
  "nr_borrowAPRRaw (fill_utilization D pool r out) = nr_borrowAPRRaw out"
  by (simp_all add: fill_factors_def fill_price_def fill_utilization_def Let_def)

text \<open>What a normalized reserve holds, in integers.\<close>

definition values_ok :: "'d decimal_ops \<Rightarrow> reserve_spec \<Rightarrow> int \<Rightarrow> int \<Rightarrow> 'd normalized_reserve \<Rightarrow> bool" where
  "values_ok D n sc k nr \<longleftrightarrow>
     is_int D (nr_totalSuppliedRaw nr) (sp_supplied n sc) \<and>
     is_int D (nr_totalBorrowedRaw nr) (sp_borrowed n sc) \<and>
     is_int D (nr_utilizationRaw nr) (sp_util n sc) \<and>
     rel_option (is_int D) (nr_borrowAPRRaw nr) (sp_borrow_apr n sc) \<and>
     rel_option (is_int D) (nr_supplyAPRRaw nr) (sp_supply_apr n sc k) \<and>
     is_int D (nr_borrowCapRaw nr) (sp_cap n sc) \<and>
     is_int D (nr_remainingBorrowableRaw nr) (max (sp_cap n sc - sp_borrowed n sc) 0)"

lemma normalize_values:
  assumes ok: "decimal_ok D" and r: "reserve_denotes r n" and s: "spec_ok n sc"
  shows "\<exists>nr. normalizeReserve D pc (newV2Pool D (show_int sc) (show_int k)) r = Inr nr \<and> values_ok D n sc k nr"
proof -
  let ?pool = "newV2Pool D (show_int sc) (show_int k)"
  note pool = newV2Pool_int [OF ok, of sc k]
  let ?o0 = "(zero_normalized_reserve D)\<lparr>nr_poolContract := pc, nr_assetID := rs_AssetID r,
            nr_assetDecimals := rs_AssetDecimals r, nr_raw := r, nr_utilizationSource := ''contract_parity''\<rparr>"
  have nz: "\<not> d_is_zero D (np_rateScalar ?pool)"
    using is_int_zero_iff [OF ok pool(1)] s by (simp add: spec_ok_def small_def)
  obtain out where out: "parse_fields D (reserve_fields r) ?o0 = Inr out" "parsed_ok D n out"
    using parse_reserve_fields [OF ok r] by blast
  have none: "nr_borrowAPRRaw out = None"
    using reserve_fields_frame(1) [OF out(1)] by (simp add: zero_normalized_reserve_def Let_def)
  have "\<exists>rm. normalizedRateModifier D (rs_RateModifierRaw r) (np_rateModifierScalar ?pool) = Inr rm"
    using mustParse_int [OF ok, of "sp_modifier n"] r
    by (auto simp: normalizedRateModifier_def reserve_denotes_def)
  then obtain rm where rm: "normalizedRateModifier D (rs_RateModifierRaw r) (np_rateModifierScalar ?pool) = Inr rm" by blast
  define a where "a = fill_price D r ((fill_factors D out)\<lparr>nr_rateModifierNormalized := rm\<rparr>)"
  define b where "b = fill_utilization D ?pool r a"
  define c where "c = fill_rates D ?pool r b"
  have mod: "parsed_ok D n (q\<lparr>nr_rateModifierNormalized := rm\<rparr>) = parsed_ok D n q"
    "nr_borrowAPRRaw (q\<lparr>nr_rateModifierNormalized := rm\<rparr>) = nr_borrowAPRRaw q" for q :: "'a normalized_reserve"
    by (simp_all add: parsed_ok_def)
  have pa: "parsed_ok D n a" "parsed_ok D n b" "parsed_ok D n c" and nb: "nr_borrowAPRRaw b = None"
    using out(2) none by (simp_all add: a_def b_def c_def frame mod)
  note u = fill_utilization_int [OF ok r s pa(1) pool(1,3), folded b_def]
  note q = fill_rates_int [OF ok r s pa(2) u(3) pool(2,4,5) nb, folded c_def]
  have t: "is_int D (nr_totalSuppliedRaw c) (sp_supplied n sc)" "is_int D (nr_totalBorrowedRaw c) (sp_borrowed n sc)"
    "is_int D (nr_utilizationRaw c) (sp_util n sc)"
    using u by (simp_all add: c_def frame)
  note w = fill_caps_int [OF ok pa(3) t(1,2), of r]
  have "normalizeReserve D pc ?pool r = Inr (fill_caps D r c)"
    using nz by (simp add: normalizeReserve_def Let_def out(1) rm a_def b_def c_def)
  moreover have "values_ok D n sc k (fill_caps D r c)"
    using t q w by (simp add: values_ok_def frame)
  ultimately show ?thesis by blast
qed

section \<open>Properties\<close>

text \<open>
  C21: The decimal valuation of a decoded reserve computes the contract's integer arithmetic: for
  every reserve whose raw fields are integers in range, on a version-2 pool, normalization
  succeeds; the supplied total is rounded down and the borrowed total rounded up to whole units,
  utilization is the seven-digit ratio rounded up and capped at one, the borrow rate lies on the
  three-leg curve, the supply rate is what remains of it after utilization and the backstop's
  take, and the borrowable remainder never goes below zero.
\<close>

theorem normalize_refines:
  assumes "decimal_ok D" and "reserve_denotes r n" and "spec_ok n sc"
  shows "\<exists>nr. normalizeReserve D pc (newV2Pool D (show_int sc) (show_int k)) r = Inr nr \<and> values_ok D n sc k nr"
  by (rule normalize_values [OF assms])

text \<open>
  C22: A normalized reserve is sane: utilization lies between zero and one, the supply rate is
  between zero and the borrow rate, and the borrowable remainder is between zero and the cap.
\<close>

theorem normalize_sane:
  assumes ok: "decimal_ok D" and r: "reserve_denotes r n" and s: "spec_ok n sc"
    and nr: "normalizeReserve D pc (newV2Pool D (show_int sc) (show_int k)) r = Inr nr"
  shows "0 \<le> dval D (nr_utilizationRaw nr) \<and> dval D (nr_utilizationRaw nr) \<le> dval D (factorScaleDecimal D) \<and>
    (\<forall>p b. nr_supplyAPRRaw nr = Some p \<and> nr_borrowAPRRaw nr = Some b \<longrightarrow> 0 \<le> dval D p \<and> dval D p \<le> dval D b) \<and>
    0 \<le> dval D (nr_remainingBorrowableRaw nr) \<and>
    dval D (nr_remainingBorrowableRaw nr) \<le> dval D (nr_borrowCapRaw nr)"
proof -
  have v: "values_ok D n sc k nr" using normalize_values [OF ok r s, of pc k] nr by auto
  have u: "dval D (nr_utilizationRaw nr) = of_int (sp_util n sc)" "dval D (factorScaleDecimal D) = of_int S7"
    "dval D (nr_borrowCapRaw nr) = of_int (sp_cap n sc)"
    "dval D (nr_remainingBorrowableRaw nr) = of_int (max (sp_cap n sc - sp_borrowed n sc) 0)"
    using v is_int_S7 [OF ok] unfolding values_ok_def is_int_def by blast+
  have cap: "0 \<le> sp_cap n sc"
    using sp_supplied_nonneg [OF s] s by (simp add: sp_cap_def spec_ok_def pos_imp_zdiv_nonneg_iff)
  have m: "max (sp_cap n sc - sp_borrowed n sc) 0 \<le> sp_cap n sc" "0 \<le> max (sp_cap n sc - sp_borrowed n sc) 0"
    using cap sp_borrowed_nonneg [OF s] by auto
  have apr: "0 \<le> dval D p \<and> dval D p \<le> dval D b" if ap: "nr_supplyAPRRaw nr = Some p" "nr_borrowAPRRaw nr = Some b" for p b
  proof -
    obtain p' b' where pb: "sp_supply_apr n sc k = Some p'" "is_int D p p'" "sp_borrow_apr n sc = Some b'" "is_int D b b'"
      using v ap by (auto simp: values_ok_def option_rel_Some1)
    then show ?thesis using sp_supply_le_borrow [OF s pb(1)] by (auto simp: is_int_def)
  qed
  show ?thesis
    unfolding u using apr m sp_util_bounds [OF s] by (simp only: of_int_le_iff of_int_0_le_iff) blast
qed

text \<open>
  The borrow rate never falls when utilization rises, whatever leg of the curve the two
  utilizations lie on.
\<close>

theorem borrow_rate_monotone:
  assumes ok: "decimal_ok D" and d: "d = (\<lambda>m. parseDecimalOrZero D (show_int m))"
    and t: "0 < t" "t < 2 * 10 ^ DivisionPrecision" and s: "s \<noteq> 0" and u: "0 < u" "u \<le> v"
    and p: "0 \<le> one" "0 \<le> two" "0 \<le> three" "0 \<le> rm"
  shows "\<exists>x y. computeBorrowAPRRaw D (d u) (d t) (d rm) (factorScaleDecimal D) (d base) (d one) (d two) (d three) (d s)
        = (x, True, False) \<and>
      computeBorrowAPRRaw D (d v) (d t) (d rm) (factorScaleDecimal D) (d base) (d one) (d two) (d three) (d s)
        = (y, True, False) \<and> dval D x \<le> dval D y"
proof -
  have i: "is_int D (d m) m" for m unfolding d by (rule is_int_parse [OF ok])
  have st: "small t" using t by (simp add: small_def)
  have c: "\<exists>x. computeBorrowAPRRaw D (d w) (d t) (d rm) (factorScaleDecimal D) (d base) (d one) (d two) (d three) (d s)
      = (x, True, False) \<and> is_int D x (rate_curve w t base one two three rm)" if "w \<noteq> 0" for w
    by (rule borrow_rate_curve [OF ok t(1) st that s i i i is_int_S7 [OF ok] i i i i i])
  have "u \<noteq> 0" "v \<noteq> 0" using u by auto
  then obtain x y where x: "computeBorrowAPRRaw D (d u) (d t) (d rm) (factorScaleDecimal D) (d base) (d one) (d two) (d three) (d s)
        = (x, True, False)" "is_int D x (rate_curve u t base one two three rm)"
    and y: "computeBorrowAPRRaw D (d v) (d t) (d rm) (factorScaleDecimal D) (d base) (d one) (d two) (d three) (d s)
        = (y, True, False)" "is_int D y (rate_curve v t base one two three rm)" using c by blast
  have "rate_curve u t base one two three rm \<le> rate_curve v t base one two three rm"
    by (rule rate_curve_mono [OF t(1) p u(2)])
  then show ?thesis using x y by (auto simp: is_int_def)
qed

text \<open>
  C23: Converting the depositors' shares of a backstop pool to tokens never hands out more tokens
  than the pool holds, however the shares are split.
\<close>

theorem backstop_conserves:
  assumes ok: "decimal_ok D" and d: "d = (\<lambda>m. parseDecimalOrZero D (show_int m))"
    and t: "0 < whole" "whole < 2 * 10 ^ DivisionPrecision" and tok: "0 \<le> tokens"
    and shares: "sum_list shares \<le> whole" "\<forall>n\<in>set shares. 0 \<le> n"
  shows "sum_list (map (\<lambda>n. dval D (convertBackstopSharesToTokens D (d n) (d whole) (d tokens))) shares)
      \<le> dval D (d tokens)"
proof -
  have i: "is_int D (d m) m" for m unfolding d by (rule is_int_parse [OF ok])
  have st: "small whole" using t by (simp add: small_def)
  have z: "\<not> d_is_zero D (d whole)" using is_int_zero_iff [OF ok i] t by simp
  have e: "d_eq D (d n) (d whole) \<longleftrightarrow> n = whole" for n by (rule is_int_eq_iff [OF ok i i])
  have c: "dval D (convertBackstopSharesToTokens D (d n) (d whole) (d tokens)) = of_int (n * tokens div whole)" for n
  proof (cases "n = whole")
    case True
    then show ?thesis using z e i [of tokens] t by (simp add: convertBackstopSharesToTokens_def is_int_def)
  next
    case False
    then show ?thesis using z e is_int_fixedMulFloor [OF ok i i i st, of n tokens]
      by (simp add: convertBackstopSharesToTokens_def is_int_def)
  qed
  have "sum_list (map (\<lambda>n. dval D (convertBackstopSharesToTokens D (d n) (d whole) (d tokens))) shares)
      = of_int (sum_list (map (\<lambda>n. n * tokens div whole) shares))"
    unfolding c by (induction shares) simp_all
  also have "\<dots> \<le> of_int tokens"
    using shares_conserve [OF t(1) tok shares(1)] by (simp only: of_int_le_iff)
  also have "\<dots> = dval D (d tokens)" using i [of tokens] by (simp add: is_int_def)
  finally show ?thesis .
qed

lemma parse_fields_fails:
  "(\<exists>e. parse_fields D fs o0 = Inl e) \<longleftrightarrow> (\<exists>f\<in>set fs. fst f \<noteq> '''' \<and> d_parse D (fst f) = None)"
proof (induction fs arbitrary: o0)
  case Nil
  then show ?case by simp
next
  case (Cons p fs)
  obtain raw setter where p: "p = (raw, setter)" by (cases p)
  show ?case
  proof (cases "mustParseDecimal D raw")
    case (Inl e)
    then show ?thesis by (auto simp: p mustParseDecimal_def split: if_splits option.splits)
  next
    case (Inr v)
    then have "raw = '''' \<or> d_parse D raw \<noteq> None"
      by (auto simp: mustParseDecimal_def split: if_splits option.splits)
    then show ?thesis using Inr Cons.IH [of "setter v o0"] by (auto simp: p)
  qed
qed

text \<open>The twelve raw fields whose text must be a number.\<close>

definition checked_fields :: "reserve_state \<Rightarrow> string set" where
  "checked_fields r = {rs_BRateRaw r, rs_DRateRaw r, rs_CFactorRaw r, rs_LFactorRaw r, rs_UtilTargetRaw r,
     rs_MaxUtilRaw r, rs_RBaseRaw r, rs_ROneRaw r, rs_RTwoRaw r, rs_RThreeRaw r, rs_RateModifierRaw r,
     rs_ReactivityRaw r}"

lemma normalize_fails_iff:
  "(\<exists>e. normalizeReserve D pc pool r = Inl e) \<longleftrightarrow>
     d_is_zero D (np_rateScalar pool) \<or> (\<exists>v\<in>checked_fields r. v \<noteq> '''' \<and> d_parse D v = None)"
proof (cases "d_is_zero D (np_rateScalar pool)")
  case True
  then show ?thesis by (simp add: normalizeReserve_def Let_def)
next
  case False
  let ?o0 = "(zero_normalized_reserve D)\<lparr>nr_poolContract := pc, nr_assetID := rs_AssetID r,
            nr_assetDecimals := rs_AssetDecimals r, nr_raw := r, nr_utilizationSource := ''contract_parity''\<rparr>"
  have f: "fst ` set (reserve_fields r :: (string \<times> ('a \<Rightarrow> 'a normalized_reserve \<Rightarrow> 'a normalized_reserve)) list) = checked_fields r"
    by (simp add: reserve_fields_def checked_fields_def)
  have p: "(\<exists>e. parse_fields D (reserve_fields r) ?o0 = Inl e) \<longleftrightarrow> (\<exists>v\<in>checked_fields r. v \<noteq> '''' \<and> d_parse D v = None)"
    unfolding parse_fields_fails f [symmetric] by blast
  show ?thesis
  proof (cases "parse_fields D (reserve_fields r) ?o0")
    case (Inl e)
    then have "\<exists>v\<in>checked_fields r. v \<noteq> '''' \<and> d_parse D v = None" using p by blast
    then show ?thesis using False Inl by (simp add: normalizeReserve_def Let_def)
  next
    case (Inr out)
    then have n: "\<not> (\<exists>v\<in>checked_fields r. v \<noteq> '''' \<and> d_parse D v = None)" using p by simp
    then have "\<not> (rs_RateModifierRaw r \<noteq> '''' \<and> d_parse D (rs_RateModifierRaw r) = None)"
      by (auto simp: checked_fields_def)
    then have "\<exists>rm. normalizedRateModifier D (rs_RateModifierRaw r) (np_rateModifierScalar pool) = Inr rm"
      by (auto simp: normalizedRateModifier_def mustParseDecimal_def)
    then show ?thesis using False Inr n by (auto simp: normalizeReserve_def Let_def)
  qed
qed

text \<open>
  Normalization fails exactly when the pool has no rate scalar or one of the checked fields
  holds text that is not a number; an absent field counts as zero and never fails.
\<close>

theorem normalize_errors:
  "(\<exists>e. normalizeReserve D pc pool r = Inl e) \<longleftrightarrow>
     d_is_zero D (np_rateScalar pool) \<or> (\<exists>v\<in>checked_fields r. v \<noteq> '''' \<and> d_parse D v = None)"
  by (rule normalize_fails_iff)

text \<open>
  A pool is valued only under a recognized identity: without the opt-in for unknown pools,
  its decoded wasm hash is configured, or it decoded no hash, holds decoded Blend reserves and
  exactly one hash is configured.
\<close>

theorem pool_recognized:
  assumes "\<not> bc_AllowUnknownV2 cfg"
    and "resolvePool D cfg (fst (enrichPoolIdentity cfg pool)) \<noteq> None"
  shows "bp_WasmHash pool \<in> bc_V2WasmHashes cfg \<and> bp_WasmHash pool \<noteq> '''' \<or>
     trim_space (bp_WasmHash pool) = '''' \<and> poolHasBlendState pool \<and> (\<exists>h. bc_V2WasmHashes cfg = {h} \<and> h \<noteq> '''')"
proof -
  let ?p = "fst (enrichPoolIdentity cfg pool)"
  have r: "bp_WasmHash ?p \<noteq> ''''" "bp_WasmHash ?p \<in> bc_V2WasmHashes cfg"
    using assms by (auto simp: resolvePool_def split: if_splits)
  show ?thesis
  proof (cases "trim_space (bp_WasmHash pool) \<noteq> '''' \<or> \<not> poolHasBlendState pool \<or> card (bc_V2WasmHashes cfg) \<noteq> 1")
    case True
    then have "?p = pool" by (auto simp: enrichPoolIdentity_def)
    then show ?thesis using r by simp
  next
    case False
    then obtain h where "bc_V2WasmHashes cfg = {h}" using card_1_singletonE by blast
    then show ?thesis using False r by (auto simp: enrichPoolIdentity_def)
  qed
qed

text \<open>
  An integer factor is read as itself, except that one is read as the whole (and minus one
  as minus the whole): the raw value 1, one ten-millionth on chain, becomes 100 percent.
\<close>

theorem factor_of_one:
  assumes "decimal_ok D"
  shows "dval D (fst (parseFactorRaw D (show_int k))) = of_int (if k = 1 then 10000000 else if k = - 1 then - 10000000 else k)
    \<and> snd (parseFactorRaw D (show_int k))"
  using parseFactorRaw_int [OF assms, of k] by (auto simp: is_int_def S7_def abs_if split: if_splits)

section \<open>Examples\<close>

text \<open>
  A reserve with 2000 share units supplied at rate 1.05 and 1000 borrowed at rate 1.1, target
  utilization 75 percent, and a pool taking ten percent.
\<close>

definition ex_spec :: reserve_spec where
  "ex_spec = \<lparr>sp_bRate = 1050000000000, sp_dRate = 1100000000000, sp_bSupply = 20000000000, sp_dSupply = 10000000000,
     sp_target = 7500000, sp_maxUtil = 9500000, sp_base = 100000, sp_one = 400000, sp_two = 2000000,
     sp_three = 7500000, sp_modifier = 10000000, sp_cFactor = 9000000, sp_lFactor = 9500000, sp_reactivity = 20\<rparr>"

definition ex_reserve :: reserve_state where
  "ex_reserve = zero_reserve_state\<lparr>rs_AssetID := ''A'', rs_AssetDecimals := 7,
     rs_BRateRaw := show_int 1050000000000, rs_DRateRaw := show_int 1100000000000,
     rs_BSupplyRaw := show_int 20000000000, rs_DSupplyRaw := show_int 10000000000,
     rs_UtilTargetRaw := show_int 7500000, rs_MaxUtilRaw := show_int 9500000, rs_RBaseRaw := show_int 100000,
     rs_ROneRaw := show_int 400000, rs_RTwoRaw := show_int 2000000, rs_RThreeRaw := show_int 7500000,
     rs_RateModifierRaw := show_int 10000000, rs_CFactorRaw := show_int 9000000, rs_LFactorRaw := show_int 9500000,
     rs_ReactivityRaw := show_int 20\<rparr>"

lemma ex_denotes: "reserve_denotes ex_reserve ex_spec"
  by (simp add: reserve_denotes_def ex_reserve_def ex_spec_def)

lemma ex_spec_ok: "spec_ok ex_spec 1000000000000"
  by (simp add: spec_ok_def ex_spec_def sp_supplied_def small_def DivisionPrecision_def)

lemma ex_values:
  "sp_supplied ex_spec 1000000000000 = 21000000000" "sp_borrowed ex_spec 1000000000000 = 11000000000"
  "sp_util ex_spec 1000000000000 = 5238096" "sp_borrow_apr ex_spec 1000000000000 = Some 379366"
  by (simp_all add: ex_spec_def sp_supplied_def sp_borrowed_def sp_util_def sp_borrow_apr_def rate_curve_def
      ceil_div_def S7_def)

theorem normalize_refines_witness:
  "\<exists>nr. normalizeReserve rat_decimal ''P'' (newV2Pool rat_decimal (show_int 1000000000000) (show_int 1000000)) ex_reserve = Inr nr \<and>
     nr_totalSuppliedRaw nr = 21000000000 \<and> nr_totalBorrowedRaw nr = 11000000000 \<and> nr_utilizationRaw nr = 5238096 \<and>
     nr_borrowAPRRaw nr = Some 379366"
  using normalize_refines [OF rat_decimal_ok ex_denotes ex_spec_ok, of "''P''" 1000000]
  by (auto simp: values_ok_def is_int_def ex_values rat_decimal_def option_rel_Some2)

theorem normalize_sane_witness:
  "\<exists>nr. normalizeReserve rat_decimal ''P'' (newV2Pool rat_decimal (show_int 1000000000000) (show_int 1000000)) ex_reserve = Inr nr
     \<and> 0 \<le> dval rat_decimal (nr_remainingBorrowableRaw nr)
     \<and> dval rat_decimal (nr_remainingBorrowableRaw nr) \<le> dval rat_decimal (nr_borrowCapRaw nr)"
proof -
  obtain nr where "normalizeReserve rat_decimal ''P'' (newV2Pool rat_decimal (show_int 1000000000000) (show_int 1000000)) ex_reserve = Inr nr"
    using normalize_values [OF rat_decimal_ok ex_denotes ex_spec_ok, of "''P''" 1000000] by blast
  with normalize_sane [OF rat_decimal_ok ex_denotes ex_spec_ok this] show ?thesis by blast
qed

theorem borrow_rate_monotone_witness:
  "\<exists>x y. computeBorrowAPRRaw rat_decimal 5 7500000 10000000 (factorScaleDecimal rat_decimal) 100000 400000 2000000 7500000 9
        = (x, True, False) \<and>
      computeBorrowAPRRaw rat_decimal 9900000 7500000 10000000 (factorScaleDecimal rat_decimal) 100000 400000 2000000 7500000 9
        = (y, True, False) \<and> x \<le> y"
proof -
  have p: "parseDecimalOrZero rat_decimal (show_int m) = of_int m" for m
    using parseDecimalOrZero_int [OF rat_decimal_ok, of m] by (simp add: rat_decimal_def)
  show ?thesis
    using borrow_rate_monotone [OF rat_decimal_ok refl, of 7500000 9 5 9900000 400000 2000000 7500000 10000000 100000]
    by (simp add: p) (simp add: rat_decimal_def DivisionPrecision_def)
qed

theorem backstop_conserves_witness:
  "sum_list (map (\<lambda>n. dval rat_decimal (convertBackstopSharesToTokens rat_decimal (parseDecimalOrZero rat_decimal (show_int n))
      (parseDecimalOrZero rat_decimal (show_int 3)) (parseDecimalOrZero rat_decimal (show_int 100)))) [1, 2])
    \<le> dval rat_decimal (parseDecimalOrZero rat_decimal (show_int 100))"
  using backstop_conserves [OF rat_decimal_ok refl, of 3 100 "[1, 2]"] by (simp add: DivisionPrecision_def)

theorem pool_recognized_witness:
  "bp_WasmHash (zero_blend_pool_state\<lparr>bp_WasmHash := ''ab''\<rparr>) \<in> {''ab''}"
proof -
  let ?cfg = "bl_DefaultConfig\<lparr>bc_V2WasmHashes := {''ab''}\<rparr>" and ?p = "zero_blend_pool_state\<lparr>bp_WasmHash := ''ab''\<rparr>"
  have t: "trim_space ''ab'' \<noteq> ''''" by code_simp
  have "resolvePool rat_decimal ?cfg (fst (enrichPoolIdentity ?cfg ?p)) \<noteq> None"
    using t by (simp add: enrichPoolIdentity_def resolvePool_def)
  from pool_recognized [OF _ this] show ?thesis using t by (simp add: bl_DefaultConfig_def)
qed

theorem factor_of_one_witness: "dval rat_decimal (fst (parseFactorRaw rat_decimal (show_int 1))) = 10000000"
  using factor_of_one [OF rat_decimal_ok, of 1] by simp

end
