(* ===== verification/Blend_Valuation.thy ===== *)
theory Blend_Valuation
  imports Blend_Rates GoText
begin

text \<open>
  The state half of the Blend adapter's transform (\<open>computeState\<close> in \<open>blend/math.go\<close>): pool and
  reserve rows, the valuation of every user leg and backstop deposit, and the per-account risk
  summary with its health factor, borrow limit and liquidation prices.

  The pass over the state is split into the loops of the code: \<open>cs_pool\<close> (one pool and its
  reserves), \<open>cs_leg\<close> (one user leg), \<open>cs_backstop\<close> (one backstop deposit) and \<open>cs_address\<close> (the
  summary of one account), over the working records \<open>cs_work\<close> and \<open>cs_sums\<close>.
\<close>

section \<open>Identifiers and labels (ids.go, state.go, math.go)\<close>

fun join_bar :: "string list \<Rightarrow> string" where
  "join_bar [] = []"
| "join_bar [x] = x"
| "join_bar (x # y # zs) = x @ ''|'' @ join_bar (y # zs)"

definition bl_stableID :: "string list \<Rightarrow> string" where
  "bl_stableID parts = hex_encode (sha256 (join_bar parts))"

definition boolString :: "bool \<Rightarrow> string" where
  "boolString v = (if v then ''true'' else ''false'')"

definition parseDecimalsInt :: "int \<Rightarrow> string" where
  "parseDecimalsInt v = show_int v"

definition parseUnixSeconds :: "string \<Rightarrow> go_time option" where
  "parseUnixSeconds raw =
     (if raw = '''' then None else map_option time_of_unix (parse_int64 raw))"

definition typedReserveEntityKey :: "string \<Rightarrow> string \<Rightarrow> string" where
  "typedReserveEntityKey poolID assetID = poolID @ ''|'' @ assetID"

definition typedAuctionEntityKey :: "string \<Rightarrow> string \<Rightarrow> int \<Rightarrow> string" where
  "typedAuctionEntityKey poolID user t = poolID @ ''|'' @ user @ ''|'' @ show_int t"

fun position_type_string :: "position_type \<Rightarrow> string" where
  "position_type_string Supply = ''supply''"
| "position_type_string Collateral = ''collateral''"
| "position_type_string Liability = ''liability''"
| "position_type_string Backstop = ''backstop''"

definition normalizedDecimalInput :: "'d decimal_ops \<Rightarrow> string \<Rightarrow> 'd option" where
  "normalizedDecimalInput D raw =
     (let trimmed = trim_space raw in if trimmed = '''' then None else d_parse D trimmed)"

definition normalizedAPRInput :: "'d decimal_ops \<Rightarrow> string \<Rightarrow> 'd option" where
  "normalizedAPRInput D raw = normalizedDecimalInput D raw"

text \<open>Only the reserve that alone claims a decoded index is the reserve at that index.\<close>

definition reserveByIndex :: "blend_pool_state \<Rightarrow> int \<Rightarrow> reserve_state option" where
  "reserveByIndex pool i =
     (case filter (\<lambda>r. rs_ReserveIndexKnown r \<and> rs_ReserveIndex r = i) (bp_Reserves pool) of
        [r] \<Rightarrow> Some r | _ \<Rightarrow> None)"

text \<open>\<open>r, _ := decimal.NewFromString(s)\<close>: the zero decimal when the text is not a number.\<close>

definition d_read :: "'d decimal_ops \<Rightarrow> string \<Rightarrow> 'd" where
  "d_read D s = (case d_parse D s of None \<Rightarrow> d_new D 0 0 | Some d \<Rightarrow> d)"

definition add_present :: "(string \<times> string) list \<Rightarrow> (string \<rightharpoonup> string) \<Rightarrow> string \<rightharpoonup> string" where
  "add_present kvs m = foldl (\<lambda>m (k, v). if v \<noteq> '''' then m(k \<mapsto> v) else m) m kvs"

section \<open>Auction and queued-reserve rows\<close>

definition auctionRow :: "blend_config \<Rightarrow> auction_state \<Rightarrow> int \<Rightarrow> go_time \<Rightarrow> auction_row_t" where
  "auctionRow cfg au ledgerSeq closeTime =
     (let typeLabel = auctionTypeLabel (as_AuctionType au);
          amounts = map (\<lambda>e. \<lparr>aam_AssetID = ae_AssetID e, aam_AmountRaw = ae_AmountRaw e\<rparr>)
      in zero_auction_row_t\<lparr>
           au_ID := bl_stableID [bc_Protocol cfg, as_PoolContractID au, as_UserAddress au, typeLabel, ''auction''],
           au_Protocol := bc_Protocol cfg, au_ContractID := as_PoolContractID au,
           au_UserAddress := as_UserAddress au, au_AuctionType := typeLabel, au_Block := as_Block au,
           au_Lot := amounts (as_Lot au), au_Bid := amounts (as_Bid au),
           au_LedgerSeq := ledgerSeq, au_Timestamp := closeTime\<rparr>)"

definition queuedReserveRow :: "blend_config \<Rightarrow> queued_reserve_state \<Rightarrow> int \<Rightarrow> go_time \<Rightarrow> queued_reserve_row_t" where
  "queuedReserveRow cfg q ledgerSeq closeTime =
     (let c = qs_NewConfig q;
          unlockTime = (case parseUnixSeconds (qs_UnlockTimeRaw q) of None \<Rightarrow> zero_time | Some t \<Rightarrow> t);
          newConfig = add_present [
            (''index'', qc_IndexRaw c), (''decimals'', qc_DecimalsRaw c), (''c_factor'', qc_CFactorRaw c),
            (''l_factor'', qc_LFactorRaw c), (''util'', qc_UtilRaw c), (''max_util'', qc_MaxUtilRaw c),
            (''r_base'', qc_RBaseRaw c), (''r_one'', qc_ROneRaw c), (''r_two'', qc_RTwoRaw c),
            (''r_three'', qc_RThreeRaw c), (''reactivity'', qc_ReactivityRaw c),
            (''supply_cap'', qc_SupplyCapRaw c), (''enabled'', qc_Enabled c)] Map.empty
      in zero_queued_reserve_row_t\<lparr>
           qr_ID := bl_stableID [bc_Protocol cfg, qs_PoolContractID q, qs_AssetID q, ''queued_reserve''],
           qr_Protocol := bc_Protocol cfg, qr_ContractID := qs_PoolContractID q, qr_AssetID := qs_AssetID q,
           qr_UnlockTimeRaw := qs_UnlockTimeRaw q, qr_UnlockTime := unlockTime, qr_NewConfig := newConfig,
           qr_LedgerSeq := ledgerSeq, qr_Timestamp := closeTime\<rparr>)"

definition project_temporary ::
  "blend_config \<Rightarrow> (string \<rightharpoonup> auction_state) \<Rightarrow> (string \<rightharpoonup> queued_reserve_state) \<Rightarrow> int \<Rightarrow> go_time
   \<Rightarrow> transform_output \<Rightarrow> temporary_state_change \<Rightarrow> transform_output" where
  "project_temporary cfg auctions queued ledgerSeq closeTime out ch =
     (case tc_Kind ch of
        TemporaryAuction \<Rightarrow>
          if tc_Action ch = DirtyRemoval then
            out\<lparr>to_AuctionLifecycle := to_AuctionLifecycle out @ [\<lparr>
              acl_Auction = zero_auction_row_t\<lparr>
                au_ID := bl_stableID [bc_Protocol cfg, tc_PoolContractID ch, tc_UserAddress ch,
                  auctionTypeLabel (tc_AuctionType ch), ''auction''],
                au_Protocol := bc_Protocol cfg, au_ContractID := tc_PoolContractID ch,
                au_UserAddress := tc_UserAddress ch, au_AuctionType := auctionTypeLabel (tc_AuctionType ch),
                au_LedgerSeq := ledgerSeq, au_Timestamp := closeTime\<rparr>,
              acl_Active = False\<rparr>]\<rparr>
          else (case auctions (typedAuctionEntityKey (tc_PoolContractID ch) (tc_UserAddress ch) (tc_AuctionType ch)) of
              None \<Rightarrow> out
            | Some au \<Rightarrow> out\<lparr>to_AuctionLifecycle := to_AuctionLifecycle out @
                [\<lparr>acl_Auction = auctionRow cfg au ledgerSeq closeTime, acl_Active = True\<rparr>]\<rparr>)
      | TemporaryQueuedReserve \<Rightarrow>
          if tc_Action ch = DirtyRemoval then
            out\<lparr>to_QueuedReserveLifecycle := to_QueuedReserveLifecycle out @ [\<lparr>
              qrl_QueuedReserve = zero_queued_reserve_row_t\<lparr>
                qr_ID := bl_stableID [bc_Protocol cfg, tc_PoolContractID ch, tc_AssetID ch, ''queued_reserve''],
                qr_Protocol := bc_Protocol cfg, qr_ContractID := tc_PoolContractID ch,
                qr_AssetID := tc_AssetID ch, qr_LedgerSeq := ledgerSeq, qr_Timestamp := closeTime\<rparr>,
              qrl_Active = False\<rparr>]\<rparr>
          else (case queued (typedReserveEntityKey (tc_PoolContractID ch) (tc_AssetID ch)) of
              None \<Rightarrow> out
            | Some q \<Rightarrow> out\<lparr>to_QueuedReserveLifecycle := to_QueuedReserveLifecycle out @
                [\<lparr>qrl_QueuedReserve = queuedReserveRow cfg q ledgerSeq closeTime, qrl_Active = True\<rparr>]\<rparr>))"

definition ProjectTemporaryStateChanges ::
  "blend_config \<Rightarrow> ledger_state option \<Rightarrow> temporary_state_change list \<Rightarrow> int \<Rightarrow> go_time \<Rightarrow> transform_output" where
  "ProjectTemporaryStateChanges cfg st changes ledgerSeq closeTime =
     (let out = zero_transform_output\<lparr>to_LedgerSeq := ledgerSeq\<rparr> in
      case st of
        None \<Rightarrow> out
      | Some s \<Rightarrow>
          if changes = [] then out
          else foldl (project_temporary cfg
              (index_by (\<lambda>a. typedAuctionEntityKey (as_PoolContractID a) (as_UserAddress a) (as_AuctionType a)) (ls_Auctions s))
              (index_by (\<lambda>q. typedReserveEntityKey (qs_PoolContractID q) (qs_AssetID q)) (ls_QueuedReserves s))
              ledgerSeq closeTime) out changes)"

section \<open>Pools and reserves (computeState, first loop)\<close>

record 'd cs_work =
  cw_pools :: "string \<rightharpoonup> 'd normalized_pool"
  cw_reserves :: "(string, 'd normalized_reserve) gmap"
  cw_out :: transform_output

text \<open>What the pass reads: configuration, ledger, close time, asset and oracle tables.\<close>

record cs_env =
  ce_cfg :: blend_config
  ce_ledger :: int
  ce_close :: go_time
  ce_assets :: "string \<rightharpoonup> asset_metadata"
  ce_oracles :: "string \<rightharpoonup> oracle_state"

definition asset_symbol :: "cs_env \<Rightarrow> string \<Rightarrow> string" where
  "asset_symbol E i = (case ce_assets E i of None \<Rightarrow> '''' | Some m \<Rightarrow> am_Symbol m)"

definition asset_name :: "cs_env \<Rightarrow> string \<Rightarrow> string" where
  "asset_name E i = (case ce_assets E i of None \<Rightarrow> '''' | Some m \<Rightarrow> am_Name m)"

definition cs_unknown_pool :: "cs_env \<Rightarrow> blend_pool_state \<Rightarrow> quarantine_event" where
  "cs_unknown_pool E pool = zero_quarantine_event\<lparr>
     qe_ID := bl_stableID [bc_AdapterID (ce_cfg E), ''pool'', bp_ContractID pool, ''unknown_wasm_hash''],
     qe_AdapterID := bc_AdapterID (ce_cfg E), qe_LedgerSeq := ce_ledger E, qe_ContractID := bp_ContractID pool,
     qe_Reason := ''unknown_wasm_hash'', qe_Metadata := [''wasm_hash'' \<mapsto> bp_WasmHash pool]\<rparr>"

definition cs_pool_contract :: "cs_env \<Rightarrow> blend_pool_state \<Rightarrow> string \<Rightarrow> 'd normalized_pool \<Rightarrow> contract_row" where
  "cs_pool_contract E pool wasmHashSource nPool =
     (let meta = [''scalar_version'' \<mapsto> np_scalarVersion nPool, ''wasm_hash_source'' \<mapsto> wasmHashSource];
          meta = add_present [(''pool_name'', bp_Name pool), (''pool_admin'', bp_Admin pool),
            (''blnd_token'', bp_BLNDToken pool), (''max_positions'', bp_MaxPositionsRaw pool),
            (''min_collateral'', bp_MinCollateralRaw pool)] meta;
          meta = (if bp_PoolEmissions pool \<noteq> []
            then meta(''pool_emissions'' \<mapsto> json_map json_string
              (gm.load (\<lambda>e. show_int (pe_ReserveTokenID e)) pe_ShareRaw (bp_PoolEmissions pool) []))
            else meta)
      in zero_contract_row\<lparr>
           ct_ID := bl_stableID [bc_Protocol (ce_cfg E), bp_ContractID pool], ct_Address := bp_ContractID pool,
           ct_Protocol := bc_Protocol (ce_cfg E), ct_ContractType := ''pool'', ct_Status := bp_PoolStatus pool,
           ct_WasmHash := bp_WasmHash pool, ct_FirstSeenLedger := ce_ledger E, ct_LastSeenLedger := ce_ledger E,
           ct_Metadata := meta\<rparr>)"

definition cs_backstop_total :: "'d decimal_ops \<Rightarrow> cs_env \<Rightarrow> blend_pool_state \<Rightarrow> backstop_row" where
  "cs_backstop_total D E pool =
     (let totalShares = parseDecimalOrZero D (bp_BackstopSharesRaw pool);
          q4wShares = parseDecimalOrZero D (bp_BackstopQ4WSharesRaw pool);
          q4wPct = (if \<not> d_is_zero D totalShares then numString D (d_div D q4wShares totalShares) else '''');
          meta = (if bp_BackstopEmisEPSRaw pool \<noteq> '''' \<or> bp_BackstopEmisExpirationRaw pool \<noteq> ''''
                     \<or> bp_BackstopEmisIndexRaw pool \<noteq> '''' \<or> bp_BackstopEmisLastTimeRaw pool \<noteq> ''''
            then [''emission_eps'' \<mapsto> bp_BackstopEmisEPSRaw pool,
                  ''emission_expiration'' \<mapsto> bp_BackstopEmisExpirationRaw pool,
                  ''emission_index'' \<mapsto> bp_BackstopEmisIndexRaw pool,
                  ''emission_last_time'' \<mapsto> bp_BackstopEmisLastTimeRaw pool]
            else Map.empty)
      in zero_backstop_row\<lparr>
           bs_ID := bl_stableID [bc_Protocol (ce_cfg E), bp_ContractID pool, ''backstop_total''],
           bs_Protocol := bc_Protocol (ce_cfg E), bs_ContractID := bp_ContractID pool,
           bs_BackstopContract := bp_BackstopContract pool, bs_SharesRaw := bp_BackstopSharesRaw pool,
           bs_LPTokensRaw := bp_BackstopTokensRaw pool, bs_Q4WSharesRaw := bp_BackstopQ4WSharesRaw pool,
           bs_Q4WPct := q4wPct, bs_LedgerSeq := ce_ledger E, bs_Timestamp := ce_close E, bs_Metadata := meta\<rparr>)"

definition cs_reserve_meta ::
  "'d decimal_ops \<Rightarrow> cs_env \<Rightarrow> blend_pool_state \<Rightarrow> 'd normalized_pool \<Rightarrow> reserve_state \<Rightarrow> 'd normalized_reserve
   \<Rightarrow> string \<rightharpoonup> string" where
  "cs_reserve_meta D E pool nPool r nr =
     (let meta = map_of [
            (''scalar_version'', np_scalarVersion nPool),
            (''asset_symbol'', asset_symbol E (rs_AssetID r)),
            (''asset_name'', asset_name E (rs_AssetID r)),
            (''asset_decimals'', parseDecimalsInt (nr_assetDecimals nr)),
            (''oracle_price_usd'', numString D (nr_usdPrice nr)),
            (''oracle_price'', numString D (nr_usdPrice nr)),
            (''b_rate'', numString D (d_div D (nr_bRateRaw nr) (np_rateScalar nPool))),
            (''d_rate'', numString D (d_div D (nr_dRateRaw nr) (np_rateScalar nPool))),
            (''util_target'', numString D (nr_utilTargetNormalized nr)),
            (''max_util'', numString D (nr_maxUtilNormalized nr)),
            (''r_base'', numString D (nr_rBaseNormalized nr)),
            (''r_one'', numString D (nr_rOneNormalized nr)),
            (''r_two'', numString D (nr_rTwoNormalized nr)),
            (''r_three'', numString D (nr_rThreeNormalized nr)),
            (''rate_modifier'', numString D (nr_rateModifierNormalized nr)),
            (''reactivity'', numString D (nr_reactivityNormalized nr)),
            (''enabled'', boolString (rs_Enabled r)),
            (''apr_partial'', boolString (nr_aprPartial nr)),
            (''pool_balance_raw'', rs_PoolBalanceRaw (nr_raw nr)),
            (''backstop_credit_raw'', rs_BackstopCreditRaw r),
            (''accrual_last_time'', rs_LastTimeRaw r),
            (''remaining_borrowable_raw'', numString D (nr_remainingBorrowableRaw nr)),
            (''rate_scalar'', numString D (np_rateScalar nPool)),
            (''rate_modifier_scalar'', numString D (np_rateModifierScalar nPool)),
            (''utilization_source'', nr_utilizationSource nr)];
          meta = (if nr_priceAvailable nr then meta(''price_source'' \<mapsto> ''pool_oracle'') else meta)
      in case ce_oracles E (bp_OracleContract pool) of
           None \<Rightarrow> meta
         | Some oracle \<Rightarrow> add_present [(''oracle_timestamp'', os_LastTimestampRaw oracle),
             (''oracle_resolution'', os_ResolutionRaw oracle)] meta)"

definition cs_reserve_row ::
  "'d decimal_ops \<Rightarrow> cs_env \<Rightarrow> blend_pool_state \<Rightarrow> 'd normalized_pool \<Rightarrow> reserve_state \<Rightarrow> 'd normalized_reserve
   \<Rightarrow> reserve_row" where
  "cs_reserve_row D E pool nPool r nr = zero_reserve_row\<lparr>
     re_ID := bl_stableID [bc_Protocol (ce_cfg E), bp_ContractID pool, rs_AssetID r],
     re_Protocol := bc_Protocol (ce_cfg E), re_ContractID := bp_ContractID pool, re_AssetID := rs_AssetID r,
     re_TotalSupplied := numString D (nr_totalSuppliedRaw nr),
     re_TotalBorrowed := numString D (nr_totalBorrowedRaw nr),
     re_Utilization := numString D (d_div D (nr_utilizationRaw nr) (factorScaleDecimal D)),
     re_SupplyAPY := (if nr_supplyAPRNormalizedValid nr then numString D (nr_supplyAPRNormalized nr) else ''''),
     re_BorrowAPY := (if nr_borrowAPRNormalizedValid nr then numString D (nr_borrowAPRNormalized nr) else ''''),
     re_SupplyCap := rs_SupplyCapRaw r, re_BorrowCap := numString D (nr_borrowCapRaw nr),
     re_CFactor := numString D (nr_cFactorNormalized nr), re_LFactor := numString D (nr_lFactorNormalized nr),
     re_OracleContract := bp_OracleContract pool, re_LedgerSeq := ce_ledger E, re_Timestamp := ce_close E,
     re_Metadata := cs_reserve_meta D E pool nPool r nr\<rparr>"

text \<open>Emission rows of a reserve: a side with neither configuration nor accrual has none.\<close>

definition cs_emissions :: "cs_env \<Rightarrow> blend_pool_state \<Rightarrow> reserve_state \<Rightarrow> reserve_emission_row list" where
  "cs_emissions E pool r =
     List.map_filter (\<lambda>(name, eps, expiry, idx, lastTime).
       if eps = '''' \<and> idx = '''' then None
       else Some (zero_reserve_emission_row\<lparr>
         em_ID := bl_stableID [bc_Protocol (ce_cfg E), bp_ContractID pool, rs_AssetID r, name],
         em_Protocol := bc_Protocol (ce_cfg E), em_ContractID := bp_ContractID pool, em_AssetID := rs_AssetID r,
         em_Side := name, em_EPSRaw := eps,
         em_Expiration := (case parseUnixSeconds expiry of None \<Rightarrow> zero_time | Some t \<Rightarrow> t),
         em_APY := '''', em_IndexRaw := idx, em_LastTimeRaw := lastTime, em_LedgerSeq := ce_ledger E,
         em_Timestamp := ce_close E, em_Metadata := [''apy_unavailable'' \<mapsto> ''true'']\<rparr>))
     [(''supply'', rs_SupplyEmisEPSRaw r, rs_SupplyEmisExpirationRaw r, rs_SupplyEmisIndexRaw r, rs_SupplyEmisLastTimeRaw r),
      (''borrow'', rs_BorrowEmisEPSRaw r, rs_BorrowEmisExpirationRaw r, rs_BorrowEmisIndexRaw r, rs_BorrowEmisLastTimeRaw r)]"

definition cs_reserve ::
  "'d decimal_ops \<Rightarrow> cs_env \<Rightarrow> blend_pool_state \<Rightarrow> 'd normalized_pool \<Rightarrow> reserve_state \<Rightarrow> 'd cs_work
   \<Rightarrow> string + 'd cs_work" where
  "cs_reserve D E pool nPool r w =
     (if \<not> reserveHasFoldedData r then Inr w
      else and_then (normalizeReserve D (bp_ContractID pool) nPool r) (\<lambda>nr.
        let out = cw_out w;
            out = out\<lparr>to_Reserves := to_Reserves out @ [cs_reserve_row D E pool nPool r nr],
                      to_ReserveEmissions := to_ReserveEmissions out @ cs_emissions E pool r\<rparr>
        in Inr (w\<lparr>cw_reserves := gm_set (reserveKey (bp_ContractID pool) (rs_AssetID r)) nr (cw_reserves w),
                  cw_out := out\<rparr>)))"

definition cs_pool ::
  "'d decimal_ops \<Rightarrow> cs_env \<Rightarrow> blend_pool_state \<Rightarrow> 'd cs_work \<Rightarrow> string + 'd cs_work" where
  "cs_pool D E p w =
     (case enrichPoolIdentity (ce_cfg E) p of (pool, wasmHashSource) \<Rightarrow>
       (case resolvePool D (ce_cfg E) pool of
          None \<Rightarrow> Inr (w\<lparr>cw_out := (cw_out w)\<lparr>to_Quarantine := to_Quarantine (cw_out w) @ [cs_unknown_pool E pool]\<rparr>\<rparr>)
        | Some nPool \<Rightarrow>
            (let w = w\<lparr>cw_pools := (cw_pools w)(bp_ContractID pool \<mapsto> nPool)\<rparr>;
                 out = cw_out w;
                 out = out\<lparr>to_Contracts := to_Contracts out @ [cs_pool_contract E pool wasmHashSource nPool]\<rparr>;
                 out = (if bp_BackstopContract pool \<noteq> ''''
                   then out\<lparr>to_Backstops := to_Backstops out @ [cs_backstop_total D E pool]\<rparr> else out)
             in foldE (cs_reserve D E pool nPool) (bp_Reserves pool) (w\<lparr>cw_out := out\<rparr>))))"

section \<open>Rows that mirror decoded state\<close>

definition cometPoolType :: string where
  "cometPoolType = ''comet''"

text \<open>The price of an asset: the reserve of the first pool, in id order, that prices it.\<close>

definition reservePrice :: "(string, 'd normalized_reserve) gmap \<Rightarrow> string \<Rightarrow> 'd option" where
  "reservePrice reserves assetID =
     (if assetID = '''' then None
      else let ms = filter (\<lambda>nr. nr_assetID nr = assetID \<and> nr_priceAvailable nr) (map snd reserves);
               byPool = gm.load nr_poolContract (\<lambda>nr. nr) ms []
        in (case sort (map nr_poolContract ms) of
              [] \<Rightarrow> None
            | p # _ \<Rightarrow> map_option nr_usdPrice (gm_get byPool p)))"

definition comet_balances :: "backstop_instance_state \<Rightarrow> amm_pool_state \<Rightarrow> string \<times> string" where
  "comet_balances inst comet =
     foldl (\<lambda>(blnd, usdc) t.
         if tr_AssetID t = bi_BLNDToken inst then (tr_ReserveRaw t, usdc)
         else if tr_AssetID t = bi_USDCToken inst then (blnd, tr_ReserveRaw t)
         else (blnd, usdc)) ('''', '''') (ps_Tokens comet)"

definition value_backstop_row ::
  "'d decimal_ops \<Rightarrow> (string \<rightharpoonup> backstop_instance_state) \<Rightarrow> (string \<rightharpoonup> amm_pool_state)
   \<Rightarrow> (string, 'd normalized_reserve) gmap \<Rightarrow> backstop_row \<Rightarrow> backstop_row" where
  "value_backstop_row D instances comets reserves row =
     (case instances (bs_BackstopContract row) of
        None \<Rightarrow> row
      | Some inst \<Rightarrow> (case comets (bi_BackstopToken inst) of
          None \<Rightarrow> row
        | Some comet \<Rightarrow>
            if trim_space (ps_TotalSharesRaw comet) = '''' then row
            else let lpSupply = parseDecimalOrZero D (ps_TotalSharesRaw comet) in
              if d_is_zero D lpSupply then row
              else (case comet_balances inst comet of (blndRaw, usdcRaw) \<Rightarrow>
                if trim_space blndRaw = '''' \<or> trim_space usdcRaw = '''' then row
                else (case (reservePrice reserves (bi_BLNDToken inst), reservePrice reserves (bi_USDCToken inst)) of
                    (Some blndPrice, Some usdcPrice) \<Rightarrow>
                      (let lpTokens = parseDecimalOrZero D (bs_LPTokensRaw row);
                           blnd = fixedMulFloor D lpTokens (parseDecimalOrZero D blndRaw) lpSupply;
                           usdc = fixedMulFloor D lpTokens (parseDecimalOrZero D usdcRaw) lpSupply;
                           usd = d_add D (d_mul D (d_div D blnd (d_new D 1 7)) blndPrice)
                                         (d_mul D (d_div D usdc (d_new D 1 7)) usdcPrice)
                       in row\<lparr>bs_BLNDAmountRaw := numString D blnd, bs_USDCAmountRaw := numString D usdc,
                              bs_USDValue := numString D usd\<rparr>)
                  | _ \<Rightarrow> row))))"

definition valuePoolBackstops ::
  "'d decimal_ops \<Rightarrow> ledger_state \<Rightarrow> (string, 'd normalized_reserve) gmap \<Rightarrow> transform_output \<Rightarrow> transform_output" where
  "valuePoolBackstops D st reserves out =
     out\<lparr>to_Backstops := map (value_backstop_row D (index_by bi_ContractID (ls_BackstopInstances st))
        (index_by ps_ContractID (filter (\<lambda>p. ps_PoolType p = cometPoolType) (ls_AMMPools st))) reserves)
        (to_Backstops out)\<rparr>"

definition cs_instance_contract :: "cs_env \<Rightarrow> backstop_instance_state \<Rightarrow> contract_row" where
  "cs_instance_contract E inst =
     (let meta = add_present [(''backstop_token'', bi_BackstopToken inst), (''blnd_token'', bi_BLNDToken inst),
            (''usdc_token'', bi_USDCToken inst), (''emitter'', bi_Emitter inst),
            (''pool_factory'', bi_PoolFactory inst)] Map.empty;
          meta = (if bi_RewardZone inst \<noteq> []
            then meta(''reward_zone'' \<mapsto> json_array (map json_string (bi_RewardZone inst))) else meta);
          meta = (if bi_DropList inst \<noteq> []
            then meta(''drop_list'' \<mapsto> json_map json_string (gm.load dl_Address dl_AmountRaw (bi_DropList inst) []))
            else meta)
      in zero_contract_row\<lparr>
           ct_ID := bl_stableID [bc_Protocol (ce_cfg E), bi_ContractID inst], ct_Address := bi_ContractID inst,
           ct_Protocol := bc_Protocol (ce_cfg E), ct_ContractType := ''backstop'', ct_Status := ''active'',
           ct_FirstSeenLedger := ce_ledger E, ct_LastSeenLedger := ce_ledger E, ct_Metadata := meta\<rparr>)"

text \<open>\<open>n % 2 == 1\<close> and \<open>n / 2\<close> on signed integers, which truncate towards zero.\<close>

definition emission_side :: "int \<Rightarrow> string" where
  "emission_side n = (if n - 2 * quo n 2 = 1 then ''supply'' else ''borrow'')"

definition cs_user_emission :: "cs_env \<Rightarrow> ledger_state \<Rightarrow> user_emission_state \<Rightarrow> user_emission_row" where
  "cs_user_emission E st e =
     (let assetID = (case find (\<lambda>p. bp_ContractID p = ue_PoolContractID e) (ls_Pools st) of
            None \<Rightarrow> ''''
          | Some pool \<Rightarrow> (case reserveByIndex pool (quo (ue_ReserveTokenID e) 2) of
              None \<Rightarrow> '''' | Some r \<Rightarrow> rs_AssetID r))
      in zero_user_emission_row\<lparr>
           uem_ID := bl_stableID [bc_Protocol (ce_cfg E), ue_Address e, ue_PoolContractID e,
             show_int (ue_ReserveTokenID e), ''user_emission''],
           uem_Protocol := bc_Protocol (ce_cfg E), uem_ContractID := ue_PoolContractID e,
           uem_Address := ue_Address e, uem_AssetID := assetID, uem_ReserveTokenID := ue_ReserveTokenID e,
           uem_Side := emission_side (ue_ReserveTokenID e), uem_IndexRaw := ue_IndexRaw e,
           uem_AccruedRaw := ue_AccruedRaw e, uem_LedgerSeq := ce_ledger E, uem_Timestamp := ce_close E\<rparr>)"

definition cs_activity ::
  "'d decimal_ops \<Rightarrow> cs_env \<Rightarrow> (string, 'd normalized_reserve) gmap \<Rightarrow> activity_row \<Rightarrow> activity_row" where
  "cs_activity D E reserves act =
     (let act = (case ce_assets E (ac_AssetID act) of None \<Rightarrow> act | Some m \<Rightarrow> act\<lparr>ac_AssetSymbol := am_Symbol m\<rparr>) in
      if ac_AssetID act = '''' \<or> ac_AmountRaw act = '''' then act
      else (case gm_get reserves (reserveKey (ac_ContractID act) (ac_AssetID act)) of
          None \<Rightarrow> act\<lparr>ac_Metadata := (ac_Metadata act)(''event_price_unavailable'' \<mapsto> ''true'')\<rparr>
        | Some nr \<Rightarrow>
            if \<not> nr_priceAvailable nr
            then act\<lparr>ac_Metadata := (ac_Metadata act)(''event_price_unavailable'' \<mapsto> ''true'')\<rparr>
            else (let units = d_div D (parseDecimalOrZero D (ac_AmountRaw act)) (d_new D 1 (nr_assetDecimals nr))
              in act\<lparr>ac_USDValue := numString D (d_mul D units (nr_usdPrice nr)),
                     ac_Metadata := (ac_Metadata act)(''usd_value_source'' \<mapsto> ''reserve_ledger_price'')\<rparr>)))"

section \<open>Account sums (computeState, the legs)\<close>

record 'd liquidation_collateral =
  lc_assetID :: string
  lc_units :: 'd
  lc_cFactor :: 'd
  lc_effectiveCollateralUSD :: 'd

record 'd pool_acc =
  pa_poolContract :: string
  pa_depositedUSD :: 'd
  pa_borrowedUSD :: 'd
  pa_effectiveCollateralUSD :: 'd
  pa_effectiveLiabilityUSD :: 'd
  pa_netAPYWeightUSD :: 'd
  pa_netAPYNumeratorUSD :: 'd
  pa_lFactorZeroLiability :: bool
  pa_hasLiability :: bool
  pa_hasEffectiveCollateral :: bool
  pa_pricePartial :: bool
  pa_dataPartial :: bool
  pa_reservePricePartial :: bool
  pa_aprPartial :: bool
  pa_netAPYPartial :: bool
  pa_liquidationCollaterals :: "'d liquidation_collateral list"

definition fresh_pool_acc :: "'d decimal_ops \<Rightarrow> string \<Rightarrow> 'd pool_acc" where
  "fresh_pool_acc D poolContract =
     (let z = d_new D 0 0 in
      \<lparr>pa_poolContract = poolContract, pa_depositedUSD = z, pa_borrowedUSD = z, pa_effectiveCollateralUSD = z,
       pa_effectiveLiabilityUSD = z, pa_netAPYWeightUSD = z, pa_netAPYNumeratorUSD = z,
       pa_lFactorZeroLiability = False, pa_hasLiability = False, pa_hasEffectiveCollateral = False,
       pa_pricePartial = False, pa_dataPartial = False, pa_reservePricePartial = False, pa_aprPartial = False,
       pa_netAPYPartial = False, pa_liquidationCollaterals = []\<rparr>)"

record 'd protocol_acc =
  ra_depositedUSD :: 'd
  ra_borrowedUSD :: 'd
  ra_netAPYWeightUSD :: 'd
  ra_netAPYNumeratorUSD :: 'd
  ra_netAPYPartial :: bool

definition fresh_protocol_acc :: "'d decimal_ops \<Rightarrow> 'd protocol_acc" where
  "fresh_protocol_acc D =
     (let z = d_new D 0 0 in \<lparr>ra_depositedUSD = z, ra_borrowedUSD = z, ra_netAPYWeightUSD = z,
        ra_netAPYNumeratorUSD = z, ra_netAPYPartial = False\<rparr>)"

text \<open>The two summary maps and the position rows emitted so far.\<close>

record 'd cs_sums =
  cu_pools :: "(string, (string, 'd pool_acc) gmap) gmap"
  cu_protocols :: "(string, 'd protocol_acc) gmap"
  cu_positions :: "position_row list"

definition pools_of :: "'d cs_sums \<Rightarrow> string \<Rightarrow> (string, 'd pool_acc) gmap" where
  "pools_of u address = (case gm_get (cu_pools u) address of None \<Rightarrow> [] | Some m \<Rightarrow> m)"

text \<open>\<open>ensurePoolSummary\<close> followed by the updates made through the pointer it returns.\<close>

definition upd_pool ::
  "'d decimal_ops \<Rightarrow> string \<Rightarrow> string \<Rightarrow> ('d pool_acc \<Rightarrow> 'd pool_acc) \<Rightarrow> 'd cs_sums \<Rightarrow> 'd cs_sums" where
  "upd_pool D address poolContract f u =
     (let byPool = pools_of u address;
          s = (case gm_get byPool poolContract of None \<Rightarrow> fresh_pool_acc D poolContract | Some s \<Rightarrow> s)
      in u\<lparr>cu_pools := gm_set address (gm_set poolContract (f s) byPool) (cu_pools u)\<rparr>)"

definition protocol_of :: "'d decimal_ops \<Rightarrow> 'd cs_sums \<Rightarrow> string \<Rightarrow> 'd protocol_acc" where
  "protocol_of D u address =
     (case gm_get (cu_protocols u) address of None \<Rightarrow> fresh_protocol_acc D | Some s \<Rightarrow> s)"

definition upd_protocol ::
  "'d decimal_ops \<Rightarrow> string \<Rightarrow> ('d protocol_acc \<Rightarrow> 'd protocol_acc) \<Rightarrow> 'd cs_sums \<Rightarrow> 'd cs_sums" where
  "upd_protocol D address f u =
     u\<lparr>cu_protocols := gm_set address (f (protocol_of D u address)) (cu_protocols u)\<rparr>"

subsection \<open>Lending legs\<close>

text \<open>The share and the asset amount of a leg: liabilities round up, everything else down.\<close>

definition leg_amount ::
  "'d decimal_ops \<Rightarrow> 'd normalized_pool \<Rightarrow> 'd normalized_reserve \<Rightarrow> user_reserve_position \<Rightarrow> 'd \<times> 'd" where
  "leg_amount D pool nr leg =
     (if up_PositionType leg = Liability then
        (let share = parseDecimalOrZero D (up_DTokensRaw leg)
         in (share, fixedMulCeil D share (nr_dRateRaw nr) (np_rateScalar pool)))
      else
        (let share = parseDecimalOrZero D (up_BTokensRaw leg)
         in (share, fixedMulFloor D share (nr_bRateRaw nr) (np_rateScalar pool))))"

definition leg_usd :: "'d decimal_ops \<Rightarrow> 'd normalized_reserve \<Rightarrow> 'd \<Rightarrow> 'd" where
  "leg_usd D nr amount =
     (if nr_priceAvailable nr
      then d_mul D (d_div D amount (d_new D 1 (nr_assetDecimals nr))) (nr_usdPrice nr)
      else decZero D)"

text \<open>The rate of a leg: its net rate, whether it is partial, and the metadata about it.\<close>

definition supply_rate :: "'d decimal_ops \<Rightarrow> 'd normalized_reserve \<Rightarrow> (string \<rightharpoonup> string) \<Rightarrow> string \<times> bool \<times> (string \<rightharpoonup> string)" where
  "supply_rate D nr meta =
     (let meta = (if nr_supplyAPRNormalizedValid nr
            then meta(''supply_apr'' \<mapsto> numString D (nr_supplyAPRNormalized nr)) else meta)
      in case (normalizedAPRInput D (rs_SupplyEmissionsAPR (nr_raw nr)), nr_supplyAPRNormalizedValid nr) of
           (Some emissions, True) \<Rightarrow>
             (let apy = numString D (d_add D (nr_supplyAPRNormalized nr) emissions)
              in (apy, False, meta(''supply_emissions_apr'' \<mapsto> numString D emissions, ''net_supply_apr'' \<mapsto> apy)))
         | (Some emissions, False) \<Rightarrow>
             ('''', True, meta(''supply_emissions_apr'' \<mapsto> numString D emissions, ''apr_partial'' \<mapsto> ''true''))
         | (None, _) \<Rightarrow>
             ('''', True, meta(''emissions_apr_unavailable'' \<mapsto> ''true'', ''apr_partial'' \<mapsto> ''true'')))"

definition borrow_rate :: "'d decimal_ops \<Rightarrow> 'd normalized_reserve \<Rightarrow> (string \<rightharpoonup> string) \<Rightarrow> string \<times> bool \<times> (string \<rightharpoonup> string)" where
  "borrow_rate D nr meta =
     (let meta = (if nr_borrowAPRNormalizedValid nr
            then meta(''borrow_apr'' \<mapsto> numString D (nr_borrowAPRNormalized nr)) else meta)
      in case (normalizedAPRInput D (rs_BorrowEmissionsAPR (nr_raw nr)), nr_borrowAPRNormalizedValid nr) of
           (Some emissions, True) \<Rightarrow>
             (let apy = numString D (d_sub D (nr_borrowAPRNormalized nr) emissions)
              in (apy, False, meta(''borrow_emissions_apr'' \<mapsto> numString D emissions, ''net_borrow_apr'' \<mapsto> apy)))
         | (Some emissions, False) \<Rightarrow>
             ('''', True, meta(''borrow_emissions_apr'' \<mapsto> numString D emissions, ''apr_partial'' \<mapsto> ''true''))
         | (None, _) \<Rightarrow>
             ('''', True, meta(''emissions_apr_unavailable'' \<mapsto> ''true'', ''apr_partial'' \<mapsto> ''true'')))"

definition leg_rate ::
  "'d decimal_ops \<Rightarrow> 'd normalized_reserve \<Rightarrow> position_type \<Rightarrow> (string \<rightharpoonup> string) \<Rightarrow> string \<times> bool \<times> (string \<rightharpoonup> string)" where
  "leg_rate D nr ptype meta =
     (case ptype of
        Supply \<Rightarrow> supply_rate D nr meta
      | Collateral \<Rightarrow> supply_rate D nr meta
      | Liability \<Rightarrow> borrow_rate D nr meta
      | Backstop \<Rightarrow> ('''', False, meta))"

definition leg_meta :: "'d decimal_ops \<Rightarrow> 'd normalized_pool \<Rightarrow> 'd normalized_reserve \<Rightarrow> string \<rightharpoonup> string" where
  "leg_meta D pool nr = map_of [
     (''scalar_version'', np_scalarVersion pool),
     (''c_factor'', numString D (nr_cFactorNormalized nr)),
     (''l_factor'', numString D (nr_lFactorNormalized nr)),
     (''oracle_price_usd'', numString D (nr_usdPrice nr)),
     (''oracle_price'', numString D (nr_usdPrice nr)),
     (''b_rate'', numString D (d_div D (nr_bRateRaw nr) (np_rateScalar pool))),
     (''d_rate'', numString D (d_div D (nr_dRateRaw nr) (np_rateScalar pool)))]"

definition leg_row ::
  "'d decimal_ops \<Rightarrow> cs_env \<Rightarrow> 'd normalized_pool \<Rightarrow> 'd normalized_reserve \<Rightarrow> user_reserve_position \<Rightarrow> position_row" where
  "leg_row D E pool nr leg =
     (case leg_amount D pool nr leg of (share, amount) \<Rightarrow>
       (case leg_rate D nr (up_PositionType leg) (leg_meta D pool nr) of (apy, aprPartial, meta) \<Rightarrow>
         zero_position_row\<lparr>
           pn_ID := bl_stableID [bc_Protocol (ce_cfg E), up_Address leg, up_PoolContractID leg, up_AssetID leg,
             position_type_string (up_PositionType leg)],
           pn_Address := up_Address leg, pn_Protocol := bc_Protocol (ce_cfg E),
           pn_ContractID := up_PoolContractID leg, pn_AssetID := up_AssetID leg,
           pn_PositionType := up_PositionType leg, pn_ShareAmount := numString D share,
           pn_AssetAmount := numString D amount,
           pn_USDValue := (if nr_priceAvailable nr then numString D (leg_usd D nr amount) else ''''),
           pn_APY := apy, pn_LedgerSeq := ce_ledger E, pn_Timestamp := ce_close E,
           pn_Metadata := (if nr_priceAvailable nr then meta else meta(''price_unavailable'' \<mapsto> ''true''))\<rparr>))"

text \<open>What a priced leg adds to its pool's sums.\<close>

definition leg_to_pool ::
  "'d decimal_ops \<Rightarrow> 'd normalized_reserve \<Rightarrow> user_reserve_position \<Rightarrow> 'd \<Rightarrow> 'd \<Rightarrow> 'd pool_acc \<Rightarrow> 'd pool_acc" where
  "leg_to_pool D nr leg amount usd s =
     (case up_PositionType leg of
        Supply \<Rightarrow> s\<lparr>pa_depositedUSD := d_add D (pa_depositedUSD s) usd\<rparr>
      | Collateral \<Rightarrow>
          (let s = s\<lparr>pa_depositedUSD := d_add D (pa_depositedUSD s) usd\<rparr>;
               eff = d_trunc D 18 (d_mul D usd (nr_cFactorNormalized nr));
               s = s\<lparr>pa_effectiveCollateralUSD := d_add D (pa_effectiveCollateralUSD s) eff, pa_hasEffectiveCollateral := True\<rparr>
           in if \<not> d_is_zero D amount \<and> \<not> d_is_zero D (nr_cFactorRaw nr)
              then s\<lparr>pa_liquidationCollaterals := pa_liquidationCollaterals s @ [\<lparr>lc_assetID = up_AssetID leg,
                       lc_units = d_div D amount (d_new D 1 (nr_assetDecimals nr)),
                       lc_cFactor = nr_cFactorNormalized nr, lc_effectiveCollateralUSD = eff\<rparr>]\<rparr>
              else s)
      | Liability \<Rightarrow>
          (let s = s\<lparr>pa_borrowedUSD := d_add D (pa_borrowedUSD s) usd, pa_hasLiability := True\<rparr>
           in if d_is_zero D (nr_lFactorRaw nr) \<and> \<not> d_is_zero D usd then s\<lparr>pa_lFactorZeroLiability := True\<rparr>
              else if \<not> d_is_zero D (nr_lFactorRaw nr)
                then s\<lparr>pa_effectiveLiabilityUSD := d_add D (pa_effectiveLiabilityUSD s)
                       (d_round_ceil D 18 (d_div D usd (nr_lFactorNormalized nr)))\<rparr>
              else s)
      | Backstop \<Rightarrow> s)"

definition leg_to_protocol ::
  "'d decimal_ops \<Rightarrow> position_type \<Rightarrow> 'd \<Rightarrow> 'd protocol_acc \<Rightarrow> 'd protocol_acc" where
  "leg_to_protocol D ptype usd s =
     (case ptype of
        Supply \<Rightarrow> s\<lparr>ra_depositedUSD := d_add D (ra_depositedUSD s) usd\<rparr>
      | Collateral \<Rightarrow> s\<lparr>ra_depositedUSD := d_add D (ra_depositedUSD s) usd\<rparr>
      | Liability \<Rightarrow> s\<lparr>ra_borrowedUSD := d_add D (ra_borrowedUSD s) usd\<rparr>
      | Backstop \<Rightarrow> s)"

text \<open>The net-rate sums: weight by value, or mark the sum partial when the leg has no net rate.\<close>

definition weigh_pool :: "'d decimal_ops \<Rightarrow> bool \<Rightarrow> 'd \<Rightarrow> 'd \<Rightarrow> 'd pool_acc \<Rightarrow> 'd pool_acc" where
  "weigh_pool D partial usd contribution s =
     (let s = s\<lparr>pa_netAPYWeightUSD := d_add D (pa_netAPYWeightUSD s) (d_abs D usd)\<rparr>
      in if partial then s\<lparr>pa_aprPartial := True, pa_netAPYPartial := True\<rparr>
         else s\<lparr>pa_netAPYNumeratorUSD := d_add D (pa_netAPYNumeratorUSD s) contribution\<rparr>)"

definition weigh_protocol :: "'d decimal_ops \<Rightarrow> bool \<Rightarrow> 'd \<Rightarrow> 'd \<Rightarrow> 'd protocol_acc \<Rightarrow> 'd protocol_acc" where
  "weigh_protocol D partial usd contribution s =
     (let s = s\<lparr>ra_netAPYWeightUSD := d_add D (ra_netAPYWeightUSD s) (d_abs D usd)\<rparr>
      in if partial then s\<lparr>ra_netAPYPartial := True\<rparr>
         else s\<lparr>ra_netAPYNumeratorUSD := d_add D (ra_netAPYNumeratorUSD s) contribution\<rparr>)"

definition leg_contribution :: "'d decimal_ops \<Rightarrow> position_type \<Rightarrow> string \<Rightarrow> 'd \<Rightarrow> 'd" where
  "leg_contribution D ptype apy usd =
     (if apy = '''' then decZero D
      else let c = d_mul D usd (d_read D apy) in if ptype = Liability then d_neg D c else c)"

definition cs_leg ::
  "'d decimal_ops \<Rightarrow> cs_env \<Rightarrow> (string \<rightharpoonup> 'd normalized_pool) \<Rightarrow> (string, 'd normalized_reserve) gmap
   \<Rightarrow> user_reserve_position \<Rightarrow> 'd cs_sums \<Rightarrow> 'd cs_sums" where
  "cs_leg D E pools reserves leg u =
     (case pools (up_PoolContractID leg) of
        None \<Rightarrow> u
      | Some pool \<Rightarrow> (case gm_get reserves (reserveKey (up_PoolContractID leg) (up_AssetID leg)) of
          None \<Rightarrow> upd_pool D (up_Address leg) (up_PoolContractID leg) (\<lambda>s. s\<lparr>pa_dataPartial := True\<rparr>) u
        | Some nr \<Rightarrow>
            (let u = u\<lparr>cu_positions := cu_positions u @ [leg_row D E pool nr leg]\<rparr>;
                 u = upd_protocol D (up_Address leg) (\<lambda>s. s) u
             in if \<not> nr_priceAvailable nr
                then upd_pool D (up_Address leg) (up_PoolContractID leg)
                       (\<lambda>s. s\<lparr>pa_pricePartial := True, pa_reservePricePartial := True\<rparr>) u
                else (case leg_amount D pool nr leg of (share, amount) \<Rightarrow>
                  (case leg_rate D nr (up_PositionType leg) Map.empty of (apy, partial, _) \<Rightarrow>
                    let usd = leg_usd D nr amount;
                        contribution = leg_contribution D (up_PositionType leg) apy usd
                    in upd_protocol D (up_Address leg)
                         (\<lambda>s. weigh_protocol D partial usd contribution (leg_to_protocol D (up_PositionType leg) usd s))
                       (upd_pool D (up_Address leg) (up_PoolContractID leg)
                         (\<lambda>s. weigh_pool D partial usd contribution (leg_to_pool D nr leg amount usd s)) u))))))"

subsection \<open>Backstop deposits\<close>

text \<open>The queue: its total, its entries and its earliest unlock.\<close>

definition queue_step ::
  "'d decimal_ops \<Rightarrow> 'd \<times> backstop_queue_entry list \<times> go_time option \<Rightarrow> q4w_entry
   \<Rightarrow> 'd \<times> backstop_queue_entry list \<times> go_time option" where
  "queue_step D st q =
     (case st of (queued, entries, unlock) \<Rightarrow>
       let share = parseDecimalOrZero D (qw_SharesRaw q)
       in (d_add D queued share,
           entries @ [\<lparr>bq_Amount = numString D share, bq_UnlockAt = qw_UnlockAt q\<rparr>],
           (case unlock of None \<Rightarrow> Some (qw_UnlockAt q)
            | Some t \<Rightarrow> if qw_UnlockAt q < t then Some (qw_UnlockAt q) else Some t)))"

definition queue_fold :: "'d decimal_ops \<Rightarrow> backstop_position \<Rightarrow> 'd \<times> backstop_queue_entry list \<times> go_time option" where
  "queue_fold D b = foldl (queue_step D) (decZero D, [], None) (bk_Q4W b)"

definition known :: "string \<Rightarrow> bool" where
  "known s \<longleftrightarrow> trim_space s \<noteq> ''''"

text \<open>The two component amounts of the deposit's LP tokens, when every input was decoded.\<close>

definition lp_components :: "'d decimal_ops \<Rightarrow> backstop_position \<Rightarrow> 'd \<Rightarrow> ('d \<times> 'd) option" where
  "lp_components D b totalTokens =
     (let lpSupply = parseDecimalOrZero D (bk_LPTokenSupplyRaw b) in
      if known (bk_LPTokenSupplyRaw b) \<and> \<not> d_is_zero D lpSupply
         \<and> known (bk_LPBLNDReserveRaw b) \<and> known (bk_LPUSDCReserveRaw b)
      then Some (fixedMulFloor D totalTokens (parseDecimalOrZero D (bk_LPBLNDReserveRaw b)) lpSupply,
                 fixedMulFloor D totalTokens (parseDecimalOrZero D (bk_LPUSDCReserveRaw b)) lpSupply)
      else None)"

definition backstop_usd :: "'d decimal_ops \<Rightarrow> backstop_position \<Rightarrow> ('d \<times> 'd) option \<Rightarrow> 'd option" where
  "backstop_usd D b components =
     (case components of
        None \<Rightarrow> None
      | Some (blnd, usdc) \<Rightarrow>
          if known (bk_BLNDPriceUSD b) \<and> known (bk_USDCPriceUSD b)
          then Some (d_add D
            (d_mul D (d_div D blnd (d_new D 1 (bk_BLNDDecimals b))) (parseDecimalOrZero D (bk_BLNDPriceUSD b)))
            (d_mul D (d_div D usdc (d_new D 1 (bk_USDCDecimals b))) (parseDecimalOrZero D (bk_USDCPriceUSD b))))
          else None)"

definition backstop_rate :: "'d decimal_ops \<Rightarrow> backstop_position \<Rightarrow> (string \<rightharpoonup> string) \<Rightarrow> string \<times> (string \<rightharpoonup> string)" where
  "backstop_rate D b meta =
     (let interest = bk_BackstopInterestAPY b; emissions = bk_BackstopEmissionsAPY b in
      if \<not> known interest \<or> \<not> known emissions then
        (let meta = meta(''apr_partial'' \<mapsto> ''true'')
         in ('''', if known emissions
              then meta(''backstop_emissions_apr'' \<mapsto> numString D (parseDecimalOrZero D emissions))
              else meta(''emissions_apr_unavailable'' \<mapsto> ''true'')))
      else
        (let i = parseDecimalOrZero D interest; e = parseDecimalOrZero D emissions; apy = numString D (d_add D i e)
         in (apy, meta(''backstop_interest_apr'' \<mapsto> numString D i, ''backstop_emissions_apr'' \<mapsto> numString D e,
                       ''net_backstop_apr'' \<mapsto> apy))))"

definition backstop_row_of ::
  "'d decimal_ops \<Rightarrow> cs_env \<Rightarrow> backstop_position \<Rightarrow> position_row \<times> 'd option \<times> string" where
  "backstop_row_of D E b =
     (case queue_fold D b of (queuedShares, entries, unlock) \<Rightarrow>
       let activeShares = parseDecimalOrZero D (bk_UserSharesRaw b);
           totalShares = d_add D activeShares queuedShares;
           poolShares = parseDecimalOrZero D (bk_PoolSharesRaw b);
           poolTokens = parseDecimalOrZero D (bk_PoolTokensRaw b);
           activeTokens = convertBackstopSharesToTokens D activeShares poolShares poolTokens;
           queuedTokens = convertBackstopSharesToTokens D queuedShares poolShares poolTokens;
           totalTokens = convertBackstopSharesToTokens D totalShares poolShares poolTokens;
           components = lp_components D b totalTokens;
           usd = backstop_usd D b components;
           usdStr = (case usd of None \<Rightarrow> '''' | Some x \<Rightarrow> numString D x);
           meta = map_of [(''active_shares'', numString D activeShares), (''queued_shares'', numString D queuedShares),
             (''total_shares'', numString D totalShares), (''active_lp_tokens'', numString D activeTokens),
             (''queued_lp_tokens'', numString D queuedTokens), (''total_lp_tokens'', numString D totalTokens),
             (''unclaimed_emissions'', bk_UnclaimedEmissionsRaw b)];
           meta = (case components of
               Some (blnd, usdc) \<Rightarrow> meta(''blnd_component'' \<mapsto> numString D blnd, ''usdc_component'' \<mapsto> numString D usdc,
                 ''blnd_component_raw'' \<mapsto> numString D blnd, ''usdc_component_raw'' \<mapsto> numString D usdc)
             | None \<Rightarrow>
                 if known (bk_LPTokenSupplyRaw b) \<and> d_is_zero D (parseDecimalOrZero D (bk_LPTokenSupplyRaw b))
                 then meta(''lp_denominator_zero'' \<mapsto> ''true'') else meta(''lp_state_unavailable'' \<mapsto> ''true''))
       in case backstop_rate D b meta of (apy, meta) \<Rightarrow>
         (let meta = (if usdStr = '''' then meta(''price_unavailable'' \<mapsto> ''true'') else meta);
              meta = (case unlock of None \<Rightarrow> meta | Some t \<Rightarrow> meta(''q4w_unlock_at'' \<mapsto> rfc3339 t));
              meta = (if bk_EmisIndexRaw b \<noteq> '''' then meta(''emission_index'' \<mapsto> bk_EmisIndexRaw b) else meta)
          in (zero_position_row\<lparr>
                pn_ID := bl_stableID [bc_Protocol (ce_cfg E), bk_Address b, bk_PoolContractID b, ''backstop''],
                pn_Address := bk_Address b, pn_Protocol := bc_Protocol (ce_cfg E), pn_ContractID := bk_PoolContractID b,
                pn_AssetID := ''blend_backstop_lp'', pn_PositionType := Backstop,
                pn_ShareAmount := numString D totalShares, pn_AssetAmount := numString D totalTokens,
                pn_USDValue := usdStr, pn_APY := apy, pn_LedgerSeq := ce_ledger E, pn_Timestamp := ce_close E,
                pn_Metadata := meta, pn_Q4WEntries := entries\<rparr>, usd, apy)))"

definition cs_backstop ::
  "'d decimal_ops \<Rightarrow> cs_env \<Rightarrow> (string \<rightharpoonup> 'd normalized_pool) \<Rightarrow> backstop_position \<Rightarrow> 'd cs_sums \<Rightarrow> 'd cs_sums" where
  "cs_backstop D E pools b u =
     (if pools (bk_PoolContractID b) = None then u
      else case backstop_row_of D E b of (row, usd, apy) \<Rightarrow>
        (let u = u\<lparr>cu_positions := cu_positions u @ [row]\<rparr>;
             u = upd_protocol D (bk_Address b) (\<lambda>s. s) u
         in case (if pn_USDValue row = '''' then None else usd) of
              None \<Rightarrow> upd_pool D (bk_Address b) (bk_PoolContractID b) (\<lambda>s. s\<lparr>pa_pricePartial := True\<rparr>) u
            | Some x \<Rightarrow>
                (let contribution = d_mul D x (d_read D apy); partial = (apy = '''')
                 in upd_protocol D (bk_Address b) (\<lambda>s. weigh_protocol D partial x contribution
                        (s\<lparr>ra_depositedUSD := d_add D (ra_depositedUSD s) x\<rparr>))
                      (upd_pool D (bk_Address b) (bk_PoolContractID b) (\<lambda>s. weigh_pool D partial x contribution
                        (s\<lparr>pa_depositedUSD := d_add D (pa_depositedUSD s) x\<rparr>)) u))))"

section \<open>Account summaries\<close>

record pool_breakdown_entry =
  be_DepositedUSD :: string
  be_BorrowedUSD :: string
  be_EffectiveCollateralUSD :: string
  be_EffectiveLiabilityUSD :: string
  be_HealthFactor :: string
  be_BorrowLimitPct :: string
  be_BorrowCapUSD :: string
  be_ShortfallUSD :: string
  be_PricePartial :: bool
  be_APRPartial :: bool
  be_LiquidationPriceScenarios :: "(string, string) gmap"

text \<open>Go's struct tags: three text fields and the scenario map are left out when empty.\<close>

definition json_breakdown_entry :: "pool_breakdown_entry \<Rightarrow> string" where
  "json_breakdown_entry e =
     (let opt = (\<lambda>k v. if v = '''' then [] else [(k, json_string v)]) in
      json_object (
        [(''deposited_usd'', json_string (be_DepositedUSD e)), (''borrowed_usd'', json_string (be_BorrowedUSD e)),
         (''effective_collateral_usd'', json_string (be_EffectiveCollateralUSD e)),
         (''effective_liability_usd'', json_string (be_EffectiveLiabilityUSD e))]
        @ opt ''health_factor'' (be_HealthFactor e) @ opt ''borrow_limit_pct'' (be_BorrowLimitPct e)
        @ opt ''borrow_cap_usd'' (be_BorrowCapUSD e)
        @ [(''shortfall_usd'', json_string (be_ShortfallUSD e)), (''price_partial'', json_bool (be_PricePartial e)),
           (''apr_partial'', json_bool (be_APRPartial e))]
        @ (if be_LiquidationPriceScenarios e = [] then []
           else [(''liquidation_price_scenarios'', json_map json_string (be_LiquidationPriceScenarios e))])))"

definition marshalPoolBreakdown :: "(string, pool_breakdown_entry) gmap \<Rightarrow> string" where
  "marshalPoolBreakdown m = json_map json_breakdown_entry m"

text \<open>
  The price of each collateral asset at which the pool's effective collateral would just cover
  its effective liability, the other collaterals unchanged.
\<close>

definition scenario_price :: "'d decimal_ops \<Rightarrow> 'd \<Rightarrow> 'd \<Rightarrow> 'd liquidation_collateral \<Rightarrow> 'd option" where
  "scenario_price D collateralUSD liabilityUSD c =
     (let denominator = d_mul D (lc_units c) (lc_cFactor c) in
      if d_le D denominator (decZero D) then None
      else let other = d_sub D collateralUSD (lc_effectiveCollateralUSD c);
               numerator = d_sub D liabilityUSD other
        in if d_le D numerator (decZero D) then None
           else let price = d_div D numerator denominator
             in if d_lt D (decZero D) price then Some price else None)"

definition liquidationScenarios :: "'d decimal_ops \<Rightarrow> 'd pool_acc \<Rightarrow> 'd \<Rightarrow> (string, string) gmap" where
  "liquidationScenarios D pool liabilityUSD =
     (if pa_liquidationCollaterals pool = [] \<or> d_le D liabilityUSD (decZero D) then []
      else foldl (\<lambda>m c. case scenario_price D (pa_effectiveCollateralUSD pool) liabilityUSD c of
             None \<Rightarrow> m | Some p \<Rightarrow> gm_set (lc_assetID c) (numString D p) m)
           [] (pa_liquidationCollaterals pool))"

definition singleCollateralLiquidationPrice ::
  "'d decimal_ops \<Rightarrow> 'd pool_acc option \<Rightarrow> 'd option \<Rightarrow> (string, 'd normalized_reserve) gmap \<Rightarrow> string" where
  "singleCollateralLiquidationPrice D worstPool healthFactor reserves =
     (case (worstPool, healthFactor) of
        (Some pool, Some h) \<Rightarrow>
          (case pa_liquidationCollaterals pool of
             [c] \<Rightarrow>
               if d_le D h (decZero D) then ''''
               else (case gm_get reserves (reserveKey (pa_poolContract pool) (lc_assetID c)) of
                   None \<Rightarrow> ''''
                 | Some nr \<Rightarrow> if \<not> nr_priceAvailable nr then '''' else numString D (d_div D (nr_usdPrice nr) h))
           | _ \<Rightarrow> '''')
      | _ \<Rightarrow> '''')"

text \<open>The risk figures of one pool: health, borrow limit, borrow cap, liability and shortfall.\<close>

record 'd pool_risk =
  pr_health :: string
  pr_borrowLimit :: string
  pr_borrowCap :: string
  pr_effectiveLiability :: 'd
  pr_shortfall :: 'd

definition pool_risk_of :: "'d decimal_ops \<Rightarrow> 'd pool_acc \<Rightarrow> 'd pool_risk" where
  "pool_risk_of D pool =
     (let coll = pa_effectiveCollateralUSD pool; liab = pa_effectiveLiabilityUSD pool in
      if pa_lFactorZeroLiability pool then
        (let l = (if d_is_zero D (pa_borrowedUSD pool) then d_new D 1 18 else pa_borrowedUSD pool)
         in \<lparr>pr_health = ''0'', pr_borrowLimit = ''1'', pr_borrowCap = ''0'', pr_effectiveLiability = l,
             pr_shortfall = maxDecimal D (d_sub D l coll) (decZero D)\<rparr>)
      else
        (let health = (if \<not> d_is_zero D liab then numString D (d_trunc D 18 (d_div D coll liab)) else '''') in
         if d_is_zero D coll
         then \<lparr>pr_health = health, pr_borrowLimit = '''', pr_borrowCap = '''', pr_effectiveLiability = liab,
               pr_shortfall = decZero D\<rparr>
         else \<lparr>pr_health = health, pr_borrowLimit = numString D (d_round_ceil D 18 (d_div D liab coll)),
               pr_borrowCap = numString D (maxDecimal D (d_sub D coll liab) (decZero D)),
               pr_effectiveLiability = liab,
               pr_shortfall = maxDecimal D (d_sub D liab coll) (decZero D)\<rparr>))"

record 'd addr_acc =
  aa_health :: "'d option"
  aa_worst :: "'d pool_acc option"
  aa_limit :: "'d option"
  aa_cap :: 'd
  aa_hasCap :: bool
  aa_hasCollateral :: bool
  aa_hasLiability :: bool
  aa_breakdown :: "(string, pool_breakdown_entry) gmap"

definition fresh_addr_acc :: "'d decimal_ops \<Rightarrow> 'd addr_acc" where
  "fresh_addr_acc D = \<lparr>aa_health = None, aa_worst = None, aa_limit = None, aa_cap = decZero D, aa_hasCap = False,
     aa_hasCollateral = False, aa_hasLiability = False, aa_breakdown = []\<rparr>"

definition breakdown_entry :: "'d decimal_ops \<Rightarrow> 'd pool_acc \<Rightarrow> pool_breakdown_entry" where
  "breakdown_entry D pool =
     (let r = pool_risk_of D pool in
      \<lparr>be_DepositedUSD = numString D (pa_depositedUSD pool), be_BorrowedUSD = numString D (pa_borrowedUSD pool),
       be_EffectiveCollateralUSD = numString D (pa_effectiveCollateralUSD pool),
       be_EffectiveLiabilityUSD = numString D (pr_effectiveLiability r), be_HealthFactor = pr_health r,
       be_BorrowLimitPct = pr_borrowLimit r, be_BorrowCapUSD = pr_borrowCap r,
       be_ShortfallUSD = numString D (pr_shortfall r), be_PricePartial = pa_pricePartial pool,
       be_APRPartial = pa_aprPartial pool,
       be_LiquidationPriceScenarios = liquidationScenarios D pool (pr_effectiveLiability r)\<rparr>)"

text \<open>One pool of an account: the first pool with the lowest health becomes the worst pool.\<close>

definition addr_pool :: "'d decimal_ops \<Rightarrow> string \<times> 'd pool_acc \<Rightarrow> 'd addr_acc \<Rightarrow> 'd addr_acc" where
  "addr_pool D kp a =
     (case kp of (poolContract, pool) \<Rightarrow>
       let r = pool_risk_of D pool;
           a = a\<lparr>aa_hasCollateral := aa_hasCollateral a \<or> pa_hasEffectiveCollateral pool,
                 aa_hasLiability := aa_hasLiability a \<or> pa_hasLiability pool\<rparr>;
           a = (if pr_health r = '''' then a
                else let h = d_read D (pr_health r) in
                  (case aa_health a of
                     None \<Rightarrow> a\<lparr>aa_health := Some h, aa_worst := Some pool\<rparr>
                   | Some m \<Rightarrow> if d_lt D h m then a\<lparr>aa_health := Some h, aa_worst := Some pool\<rparr> else a));
           a = (if pr_borrowLimit r = '''' then a
                else let l = d_read D (pr_borrowLimit r) in
                  (case aa_limit a of
                     None \<Rightarrow> a\<lparr>aa_limit := Some l\<rparr>
                   | Some m \<Rightarrow> if d_lt D m l then a\<lparr>aa_limit := Some l\<rparr> else a));
           a = (if pr_borrowCap r = '''' then a
                else a\<lparr>aa_hasCap := True, aa_cap := d_add D (aa_cap a) (d_read D (pr_borrowCap r))\<rparr>)
       in a\<lparr>aa_breakdown := gm_set poolContract (breakdown_entry D pool) (aa_breakdown a)\<rparr>)"

definition addr_pools :: "'d decimal_ops \<Rightarrow> (string, 'd pool_acc) gmap \<Rightarrow> 'd addr_acc" where
  "addr_pools D byPool = run (addr_pool D) (sort_key fst byPool) (fresh_addr_acc D)"

definition account_incomplete :: "(string, 'd pool_acc) gmap \<Rightarrow> bool" where
  "account_incomplete byPool \<longleftrightarrow> (\<exists>p\<in>set (map snd byPool). pa_dataPartial p \<or> pa_reservePricePartial p)"

definition any_of_bool :: "bool \<Rightarrow> any_value" where
  "any_of_bool b = AnyBool b"

definition any_of_breakdown :: "pool_breakdown_entry \<Rightarrow> any_value" where
  "any_of_breakdown e = AnyMap
     [(''deposited_usd'', AnyString (be_DepositedUSD e)), (''borrowed_usd'', AnyString (be_BorrowedUSD e)),
      (''effective_collateral_usd'', AnyString (be_EffectiveCollateralUSD e)),
      (''effective_liability_usd'', AnyString (be_EffectiveLiabilityUSD e)),
      (''health_factor'', AnyString (be_HealthFactor e)), (''borrow_limit_pct'', AnyString (be_BorrowLimitPct e)),
      (''borrow_cap_usd'', AnyString (be_BorrowCapUSD e)), (''shortfall_usd'', AnyString (be_ShortfallUSD e)),
      (''price_partial'', AnyBool (be_PricePartial e)), (''apr_partial'', AnyBool (be_APRPartial e)),
      (''liquidation_price_scenarios'', AnyMap (map (\<lambda>(k, v). (k, AnyString v)) (be_LiquidationPriceScenarios e)))]"

definition cs_summary ::
  "'d decimal_ops \<Rightarrow> cs_env \<Rightarrow> (string, 'd normalized_reserve) gmap \<Rightarrow> string \<Rightarrow> (string, 'd pool_acc) gmap
   \<Rightarrow> 'd protocol_acc \<Rightarrow> position_summary" where
  "cs_summary D E reserves address byPool protocol =
     (let a = addr_pools D byPool;
          str = (\<lambda>x. case x of None \<Rightarrow> '''' | Some d \<Rightarrow> numString D d);
          collateral = (case aa_worst a of None \<Rightarrow> decZero D | Some p \<Rightarrow> pa_effectiveCollateralUSD p);
          liability = (case aa_worst a of
              None \<Rightarrow> decZero D
            | Some p \<Rightarrow> if pa_lFactorZeroLiability p then maxDecimal D (pa_borrowedUSD p) (d_new D 1 18)
                else pa_effectiveLiabilityUSD p);
          semantics = [(''risk_semantics'', ''blend_pool_isolated''), (''summary_health_factor_semantics'', ''worst_pool''),
            (''liquidation_price_unavailable'', ''pool_or_scenario_required'')];
          meta = (map_of semantics)(''pool_breakdown'' \<mapsto> marshalPoolBreakdown (aa_breakdown a));
          smeta = (map_option AnyString \<circ> map_of semantics)(''pool_breakdown'' \<mapsto>
            AnyMap (map (\<lambda>(k, e). (k, any_of_breakdown e)) (aa_breakdown a)));
          partial = ra_netAPYPartial protocol;
          meta = (if partial then meta(''net_apy_partial'' \<mapsto> ''true'',
            ''net_apy_unavailable_reason'' \<mapsto> ''missing_row_apr'') else meta);
          smeta = (if partial then smeta(''net_apy_partial'' \<mapsto> any_of_bool True,
            ''net_apy_unavailable_reason'' \<mapsto> AnyString ''missing_row_apr'') else smeta);
          netAPY = (if \<not> partial \<and> \<not> d_is_zero D (ra_netAPYWeightUSD protocol)
            then d_div D (ra_netAPYNumeratorUSD protocol) (ra_netAPYWeightUSD protocol) else decZero D)
      in zero_position_summary\<lparr>
           sm_ID := bl_stableID [bc_Protocol (ce_cfg E), address, ''summary''], sm_Address := address,
           sm_Protocol := bc_Protocol (ce_cfg E),
           sm_HealthFactor := (if aa_hasLiability a then str (aa_health a) else ''''),
           sm_BorrowLimitPct := (if aa_hasCollateral a then str (aa_limit a) else ''''),
           sm_BorrowCapUSD := (if aa_hasCollateral a \<and> aa_hasCap a then numString D (aa_cap a) else ''''),
           sm_DepositedUSD := numString D (ra_depositedUSD protocol),
           sm_BorrowedUSD := numString D (ra_borrowedUSD protocol),
           sm_EffectiveCollateralUSD := numString D collateral,
           sm_EffectiveLiabilityUSD := numString D liability,
           sm_NetAPY := numString D netAPY, sm_NetAPYWeightUSD := numString D (ra_netAPYWeightUSD protocol),
           sm_LiquidationPrice := singleCollateralLiquidationPrice D (aa_worst a) (aa_health a) reserves,
           sm_LedgerSeq := ce_ledger E, sm_Timestamp := ce_close E, sm_Metadata := meta,
           sm_StructuredMetadata := smeta\<rparr>)"

definition cs_summaries ::
  "'d decimal_ops \<Rightarrow> cs_env \<Rightarrow> (string, 'd normalized_reserve) gmap \<Rightarrow> 'd cs_sums \<Rightarrow> position_summary list" where
  "cs_summaries D E reserves u =
     List.map_filter (\<lambda>address.
         if account_incomplete (pools_of u address) then None
         else Some (cs_summary D E reserves address (pools_of u address) (protocol_of D u address)))
       (sort (map fst (cu_pools u)))"

section \<open>computeState\<close>

definition cs_env_of :: "blend_config \<Rightarrow> transform_input \<Rightarrow> ledger_state \<Rightarrow> cs_env" where
  "cs_env_of cfg i st = \<lparr>ce_cfg = cfg, ce_ledger = ti_LedgerSeq i, ce_close = ti_CloseTime i,
     ce_assets = index_by am_ContractID (ls_Assets st), ce_oracles = index_by os_ContractID (ls_Oracles st)\<rparr>"

definition cs_rows :: "'d decimal_ops \<Rightarrow> cs_env \<Rightarrow> ledger_state \<Rightarrow> 'd cs_work \<Rightarrow> transform_output" where
  "cs_rows D E st w =
     (let out = cw_out w;
          out = out\<lparr>to_Auctions := to_Auctions out @
                 map (\<lambda>a. auctionRow (ce_cfg E) a (ce_ledger E) (ce_close E)) (ls_Auctions st),
               to_QueuedReserves := to_QueuedReserves out @
                 map (\<lambda>q. queuedReserveRow (ce_cfg E) q (ce_ledger E) (ce_close E)) (ls_QueuedReserves st)\<rparr>;
          out = valuePoolBackstops D st (cw_reserves w) out
      in out\<lparr>to_Contracts := to_Contracts out @ map (cs_instance_contract E) (ls_BackstopInstances st),
             to_UserEmissions := to_UserEmissions out @ map (cs_user_emission E st) (ls_UserEmissions st),
             to_Activities := map (cs_activity D E (cw_reserves w)) (to_Activities out)\<rparr>)"

definition cs_account_sums ::
  "'d decimal_ops \<Rightarrow> cs_env \<Rightarrow> ledger_state \<Rightarrow> 'd cs_work \<Rightarrow> 'd cs_sums" where
  "cs_account_sums D E st w =
     run (cs_backstop D E (cw_pools w)) (ls_Backstops st)
       (run (cs_leg D E (cw_pools w) (cw_reserves w)) (ls_Users st)
         \<lparr>cu_pools = [], cu_protocols = [], cu_positions = []\<rparr>)"

definition computeState ::
  "'d decimal_ops \<Rightarrow> blend_config \<Rightarrow> transform_input \<Rightarrow> transform_output \<Rightarrow> string + transform_output" where
  "computeState D cfg i out =
     (case ti_State i of
        None \<Rightarrow> Inr out
      | Some st \<Rightarrow>
          (let E = cs_env_of cfg i st in
           and_then (foldE (cs_pool D E) (ls_Pools st) \<lparr>cw_pools = Map.empty, cw_reserves = [], cw_out = out\<rparr>) (\<lambda>w.
             let out = cs_rows D E st w;
                 u = cs_account_sums D E st w
             in Inr (out\<lparr>to_Positions := to_Positions out @ cu_positions u,
                         to_Summaries := to_Summaries out @ cs_summaries D E (cw_reserves w) u\<rparr>))))"

end
