(* ===== verification/Blend_Risk.thy ===== *)
theory Blend_Risk
  imports Blend_Valuation
begin

text \<open>
  What the account summaries of \<open>Blend_Valuation\<close> mean: which accounts get one, which rows are
  emitted, and how the health factor, the shortfall and the liquidation prices relate to the
  effective collateral and liability they are computed from.
\<close>

section \<open>The summary maps\<close>

lemma pools_of_upd_pool:
  "pools_of (upd_pool D a p f u) b =
     (if b = a then gm_set p (f (case gm_get (pools_of u a) p of None \<Rightarrow> fresh_pool_acc D p | Some s \<Rightarrow> s)) (pools_of u a)
      else pools_of u b)"
  by (simp add: upd_pool_def pools_of_def Let_def gm.get_upd)

lemma pools_of_upd_protocol [frame]: "pools_of (upd_protocol D a f u) b = pools_of u b"
  by (simp add: upd_protocol_def pools_of_def)

lemma pools_of_positions [frame]: "pools_of (u\<lparr>cu_positions := ps\<rparr>) b = pools_of u b"
  by (simp add: pools_of_def)

lemma positions_upd [frame]:
  "cu_positions (upd_pool D a p f u) = cu_positions u"
  "cu_positions (upd_protocol D a g u) = cu_positions u"
  by (simp_all add: upd_pool_def upd_protocol_def Let_def)

lemma keys_gm_set: "fst ` set (gm_set k v m) = insert k (fst ` set m)"
  by (auto simp: gm_set_def dom_update)

lemma keys_upd_pool: "fst ` set (cu_pools (upd_pool D a p f u)) = insert a (fst ` set (cu_pools u))"
  by (simp add: upd_pool_def Let_def keys_gm_set)

lemma keys_upd_protocol [frame]: "cu_pools (upd_protocol D a f u) = cu_pools u"
  by (simp add: upd_protocol_def)

text \<open>The maps are maps: one entry per account, and per pool of an account.\<close>

definition sums_ok :: "'d cs_sums \<Rightarrow> bool" where
  "sums_ok u \<longleftrightarrow> gm_ok (cu_pools u) \<and> (\<forall>a. gm_ok (pools_of u a))"

lemma sums_ok_upd_pool: "sums_ok u \<Longrightarrow> sums_ok (upd_pool D a p f u)"
  by (auto simp: sums_ok_def pools_of_upd_pool gm.ok_upd) (simp add: upd_pool_def Let_def gm.ok_upd)

lemma sums_ok_frame [frame]:
  "sums_ok (upd_protocol D a f u) = sums_ok u" "sums_ok (u\<lparr>cu_positions := ps\<rparr>) = sums_ok u"
  by (simp_all add: sums_ok_def frame)

definition pool_flag :: "'d pool_acc \<Rightarrow> bool" where
  "pool_flag s \<longleftrightarrow> pa_dataPartial s \<or> pa_reservePricePartial s"

lemma account_incomplete_get:
  "gm_ok m \<Longrightarrow> account_incomplete m \<longleftrightarrow> (\<exists>q s. gm_get m q = Some s \<and> pool_flag s)"
  by (force simp: account_incomplete_def pool_flag_def dest: gm_get_in in_gm_get)

lemma account_incomplete_set:
  "gm_ok m \<Longrightarrow> account_incomplete (gm_set p s m) \<longleftrightarrow>
     pool_flag s \<or> (\<exists>q s'. q \<noteq> p \<and> gm_get m q = Some s' \<and> pool_flag s')"
  by (auto simp: account_incomplete_get gm.ok_upd gm.get_upd split: if_splits)

text \<open>An update that keeps, or sets, the flag that suppresses the account.\<close>

lemma account_incomplete_upd_pool:
  assumes "sums_ok u" and keep: "\<And>s. pool_flag (f s) \<longleftrightarrow> pool_flag s \<or> bad"
  shows "account_incomplete (pools_of (upd_pool D a p f u) b) \<longleftrightarrow>
     account_incomplete (pools_of u b) \<or> (bad \<and> b = a)"
proof -
  have ok: "gm_ok (pools_of u a)" using assms(1) by (simp add: sums_ok_def)
  have fr: "\<not> pool_flag (fresh_pool_acc D p)" by (simp add: pool_flag_def fresh_pool_acc_def Let_def)
  show ?thesis
  proof (cases "b = a")
    case True
    have "account_incomplete (gm_set p (f s) (pools_of u a)) \<longleftrightarrow> account_incomplete (pools_of u a) \<or> bad"
      if "s = (case gm_get (pools_of u a) p of None \<Rightarrow> fresh_pool_acc D p | Some s \<Rightarrow> s)" for s
    proof (cases "gm_get (pools_of u a) p")
      case None
      then show ?thesis using that fr keep
        by (simp add: account_incomplete_set [OF ok] account_incomplete_get [OF ok]) (metis option.distinct(1))
    next
      case (Some s')
      then have "s' = s" using that by simp
      then have g: "gm_get (pools_of u a) p = Some s" using Some by simp
      show ?thesis unfolding account_incomplete_set [OF ok] account_incomplete_get [OF ok] keep
        using g by (metis option.inject)
    qed
    then show ?thesis using True by (simp add: pools_of_upd_pool)
  next
    case False
    then show ?thesis by (simp add: pools_of_upd_pool)
  qed
qed

lemma pool_flag_frame [frame]:
  "pool_flag (weigh_pool D b x c s) = pool_flag s"
  "pool_flag (leg_to_pool D nr leg x y s) = pool_flag s"
  "pool_flag (s\<lparr>pa_depositedUSD := y\<rparr>) = pool_flag s"
  "pool_flag (s\<lparr>pa_pricePartial := b\<rparr>) = pool_flag s"
  by (simp_all add: pool_flag_def weigh_pool_def leg_to_pool_def Let_def split: position_type.splits)

section \<open>One leg, one deposit\<close>

definition leg_known :: "(string \<rightharpoonup> 'd normalized_pool) \<Rightarrow> user_reserve_position \<Rightarrow> bool" where
  "leg_known pools leg \<longleftrightarrow> pools (up_PoolContractID leg) \<noteq> None"

definition leg_reserve :: "(string, 'd normalized_reserve) gmap \<Rightarrow> user_reserve_position \<Rightarrow> 'd normalized_reserve option" where
  "leg_reserve reserves leg = gm_get reserves (reserveKey (up_PoolContractID leg) (up_AssetID leg))"

definition leg_complete :: "(string, 'd normalized_reserve) gmap \<Rightarrow> user_reserve_position \<Rightarrow> bool" where
  "leg_complete reserves leg \<longleftrightarrow> (\<exists>nr. leg_reserve reserves leg = Some nr \<and> nr_priceAvailable nr)"

definition leg_rows ::
  "'d decimal_ops \<Rightarrow> cs_env \<Rightarrow> (string \<rightharpoonup> 'd normalized_pool) \<Rightarrow> (string, 'd normalized_reserve) gmap
   \<Rightarrow> user_reserve_position \<Rightarrow> position_row list" where
  "leg_rows D E pools reserves leg =
     (case (pools (up_PoolContractID leg), leg_reserve reserves leg) of
        (Some pool, Some nr) \<Rightarrow> [leg_row D E pool nr leg] | _ \<Rightarrow> [])"

lemma cs_leg_positions:
  "cu_positions (cs_leg D E pools reserves leg u) = cu_positions u @ leg_rows D E pools reserves leg"
  by (simp add: cs_leg_def leg_rows_def leg_reserve_def Let_def frame split: option.splits prod.splits)

lemma cs_leg_ok: "sums_ok u \<Longrightarrow> sums_ok (cs_leg D E pools reserves leg u)"
  by (simp add: cs_leg_def Let_def frame sums_ok_upd_pool split: option.splits prod.splits)

lemma cs_leg_keys:
  "fst ` set (cu_pools (cs_leg D E pools reserves leg u)) =
     (if leg_known pools leg then insert (up_Address leg) (fst ` set (cu_pools u)) else fst ` set (cu_pools u))"
  by (simp add: cs_leg_def leg_known_def Let_def frame keys_upd_pool split: option.splits prod.splits)

lemma cs_leg_incomplete:
  assumes "sums_ok u"
  shows "account_incomplete (pools_of (cs_leg D E pools reserves leg u) b) \<longleftrightarrow>
     account_incomplete (pools_of u b) \<or> (leg_known pools leg \<and> \<not> leg_complete reserves leg \<and> b = up_Address leg)"
proof (cases "pools (up_PoolContractID leg)")
  case None
  then show ?thesis by (simp add: cs_leg_def leg_known_def)
next
  case (Some pool)
  note pool = Some
  show ?thesis
  proof (cases "gm_get reserves (reserveKey (up_PoolContractID leg) (up_AssetID leg))")
    case None
    have "account_incomplete (pools_of (upd_pool D (up_Address leg) (up_PoolContractID leg) (\<lambda>s. s\<lparr>pa_dataPartial := True\<rparr>) u) b)
        \<longleftrightarrow> account_incomplete (pools_of u b) \<or> (True \<and> b = up_Address leg)"
      by (rule account_incomplete_upd_pool [OF assms]) (simp add: pool_flag_def)
    then show ?thesis using None pool by (auto simp: cs_leg_def leg_known_def leg_complete_def leg_reserve_def)
  next
    case (Some nr)
    note nr = Some
    let ?u = "upd_protocol D (up_Address leg) (\<lambda>s. s) (u\<lparr>cu_positions := cu_positions u @ [leg_row D E pool nr leg]\<rparr>)"
    have ok: "sums_ok ?u" using assms by (simp add: frame)
    show ?thesis
    proof (cases "nr_priceAvailable nr")
      case False
      have "account_incomplete (pools_of (upd_pool D (up_Address leg) (up_PoolContractID leg)
            (\<lambda>s. s\<lparr>pa_pricePartial := True, pa_reservePricePartial := True\<rparr>) ?u) b)
          \<longleftrightarrow> account_incomplete (pools_of ?u b) \<or> (True \<and> b = up_Address leg)"
        by (rule account_incomplete_upd_pool [OF ok]) (simp add: pool_flag_def)
      then show ?thesis using False nr pool
        by (auto simp: cs_leg_def leg_known_def leg_complete_def leg_reserve_def Let_def frame)
    next
      case True
      have "account_incomplete (pools_of (upd_pool D (up_Address leg) (up_PoolContractID leg)
            (\<lambda>s. weigh_pool D w x c (leg_to_pool D nr leg y x s)) ?u) b)
          \<longleftrightarrow> account_incomplete (pools_of ?u b) \<or> (False \<and> b = up_Address leg)" for w x c y
        by (rule account_incomplete_upd_pool [OF ok]) (simp add: frame)
      then show ?thesis using True nr pool
        by (auto simp: cs_leg_def leg_known_def leg_complete_def leg_reserve_def Let_def frame split: prod.splits)
    qed
  qed
qed

lemma cs_backstop_positions:
  "cu_positions (cs_backstop D E pools b u) =
     cu_positions u @ (if pools (bk_PoolContractID b) = None then [] else [fst (backstop_row_of D E b)])"
  by (simp add: cs_backstop_def Let_def frame split: option.splits prod.splits if_splits)

lemma cs_backstop_ok: "sums_ok u \<Longrightarrow> sums_ok (cs_backstop D E pools b u)"
  by (simp add: cs_backstop_def Let_def frame sums_ok_upd_pool split: option.splits prod.splits)

lemma cs_backstop_keys:
  "fst ` set (cu_pools (cs_backstop D E pools b u)) =
     (if pools (bk_PoolContractID b) = None then fst ` set (cu_pools u) else insert (bk_Address b) (fst ` set (cu_pools u)))"
  by (simp add: cs_backstop_def Let_def frame keys_upd_pool split: option.splits prod.splits)

lemma cs_backstop_incomplete:
  assumes "sums_ok u"
  shows "account_incomplete (pools_of (cs_backstop D E pools b u) a) \<longleftrightarrow> account_incomplete (pools_of u a)"
proof -
  have k: "account_incomplete (pools_of (upd_pool D x p f v) a) \<longleftrightarrow> account_incomplete (pools_of v a)"
    if "sums_ok v" "\<And>s. pool_flag (f s) = pool_flag s"
    for x p f and v :: "'a cs_sums"
    using account_incomplete_upd_pool [OF that(1), of f False] that(2) by simp
  show ?thesis using assms
    by (simp add: cs_backstop_def Let_def frame k split: option.splits prod.splits)
qed

section \<open>All legs and deposits\<close>

definition empty_sums :: "'d cs_sums" where
  "empty_sums = \<lparr>cu_pools = [], cu_protocols = [], cu_positions = []\<rparr>"

lemma empty_sums_simps [simp]:
  "sums_ok empty_sums" "cu_pools empty_sums = []" "cu_positions empty_sums = []" "pools_of empty_sums a = []"
  by (simp_all add: empty_sums_def sums_ok_def pools_of_def gm.get_nil gm.ok_nil)

lemma run_legs:
  assumes "sums_ok u"
  shows "sums_ok (run (cs_leg D E pools reserves) legs u)"
    and "cu_positions (run (cs_leg D E pools reserves) legs u) =
       cu_positions u @ concat (map (leg_rows D E pools reserves) legs)"
    and "fst ` set (cu_pools (run (cs_leg D E pools reserves) legs u)) =
       fst ` set (cu_pools u) \<union> up_Address ` {leg \<in> set legs. leg_known pools leg}"
    and "account_incomplete (pools_of (run (cs_leg D E pools reserves) legs u) a) \<longleftrightarrow>
       account_incomplete (pools_of u a) \<or>
       (\<exists>leg\<in>set legs. leg_known pools leg \<and> \<not> leg_complete reserves leg \<and> up_Address leg = a)"
  using assms
  by (induction legs arbitrary: u) (auto simp: cs_leg_ok cs_leg_positions cs_leg_keys cs_leg_incomplete)

lemma run_backstops:
  assumes "sums_ok u"
  shows "sums_ok (run (cs_backstop D E pools) bs u)"
    and "cu_positions (run (cs_backstop D E pools) bs u) =
       cu_positions u @ map (fst \<circ> backstop_row_of D E) (filter (\<lambda>b. pools (bk_PoolContractID b) \<noteq> None) bs)"
    and "fst ` set (cu_pools (run (cs_backstop D E pools) bs u)) =
       fst ` set (cu_pools u) \<union> bk_Address ` {b \<in> set bs. pools (bk_PoolContractID b) \<noteq> None}"
    and "account_incomplete (pools_of (run (cs_backstop D E pools) bs u) a) \<longleftrightarrow> account_incomplete (pools_of u a)"
  using assms
  by (induction bs arbitrary: u) (auto simp: cs_backstop_ok cs_backstop_positions cs_backstop_keys cs_backstop_incomplete)

lemma account_incomplete_Nil [simp]: "\<not> account_incomplete []"
  by (simp add: account_incomplete_def)

text \<open>The accounts with a leg or a deposit in a recognized pool, and those with an incomplete leg.\<close>

definition touched :: "ledger_state \<Rightarrow> 'd cs_work \<Rightarrow> string set" where
  "touched st w = up_Address ` {leg \<in> set (ls_Users st). leg_known (cw_pools w) leg}
     \<union> bk_Address ` {b \<in> set (ls_Backstops st). cw_pools w (bk_PoolContractID b) \<noteq> None}"

definition incomplete :: "ledger_state \<Rightarrow> 'd cs_work \<Rightarrow> string set" where
  "incomplete st w = up_Address ` {leg \<in> set (ls_Users st). leg_known (cw_pools w) leg \<and> \<not> leg_complete (cw_reserves w) leg}"

lemma account_sums:
  "sums_ok (cs_account_sums D E st w)"
  "cu_positions (cs_account_sums D E st w) =
     concat (map (leg_rows D E (cw_pools w) (cw_reserves w)) (ls_Users st)) @
     map (fst \<circ> backstop_row_of D E) (filter (\<lambda>b. cw_pools w (bk_PoolContractID b) \<noteq> None) (ls_Backstops st))"
  "fst ` set (cu_pools (cs_account_sums D E st w)) = touched st w"
  "account_incomplete (pools_of (cs_account_sums D E st w) a) \<longleftrightarrow> a \<in> incomplete st w"
proof -
  let ?v = "run (cs_leg D E (cw_pools w) (cw_reserves w)) (ls_Users st) empty_sums"
  have e: "cs_account_sums D E st w = run (cs_backstop D E (cw_pools w)) (ls_Backstops st) ?v"
    by (simp add: cs_account_sums_def empty_sums_def)
  note l = run_legs [OF empty_sums_simps(1), of D E "cw_pools w" "cw_reserves w" "ls_Users st"]
  note b = run_backstops [OF l(1), of D E "cw_pools w" "ls_Backstops st"]
  show "sums_ok (cs_account_sums D E st w)" by (simp add: e b)
  show "cu_positions (cs_account_sums D E st w) =
     concat (map (leg_rows D E (cw_pools w) (cw_reserves w)) (ls_Users st)) @
     map (fst \<circ> backstop_row_of D E) (filter (\<lambda>b. cw_pools w (bk_PoolContractID b) \<noteq> None) (ls_Backstops st))"
    by (simp add: e b l)
  show "fst ` set (cu_pools (cs_account_sums D E st w)) = touched st w"
    by (simp add: e b l touched_def)
  show "account_incomplete (pools_of (cs_account_sums D E st w) a) \<longleftrightarrow> a \<in> incomplete st w"
    by (auto simp: e b l incomplete_def)
qed

lemma cs_summary_address [simp]: "sm_Address (cs_summary D E rs a m p) = a"
  by (simp add: cs_summary_def Let_def)

lemma map_filter_if: "List.map_filter (\<lambda>x. if P x then None else Some (g x)) xs = map g (filter (\<lambda>x. \<not> P x) xs)"
  by (induction xs) (simp_all add: List.map_filter_def)

lemma summary_addresses:
  "map sm_Address (cs_summaries D E rs (cs_account_sums D E st w)) = sorted_list_of_set (touched st w - incomplete st w)"
proof -
  let ?u = "cs_account_sums D E st w"
  let ?l = "filter (\<lambda>a. a \<notin> incomplete st w) (sort (map fst (cu_pools ?u)))"
  have d: "distinct (map fst (cu_pools ?u))"
    using account_sums(1) [of D E st w] by (simp add: sums_ok_def gm_ok_def)
  have "map sm_Address (cs_summaries D E rs ?u) = ?l"
    by (simp add: cs_summaries_def account_sums(4) map_filter_if comp_def)
  moreover have "sorted ?l" "distinct ?l" using d sorted_filter [of "\<lambda>x. x" "sort (map fst (cu_pools ?u))"] by simp_all
  moreover have "set ?l = touched st w - incomplete st w"
    using account_sums(3) [of D E st w] by auto
  ultimately show ?thesis by (metis sorted_list_of_set.idem_if_sorted_distinct)
qed

section \<open>The pass over the pools\<close>

definition pools_pass ::
  "'d decimal_ops \<Rightarrow> blend_config \<Rightarrow> transform_input \<Rightarrow> ledger_state \<Rightarrow> transform_output \<Rightarrow> string + 'd cs_work" where
  "pools_pass D cfg i st out =
     foldE (cs_pool D (cs_env_of cfg i st)) (ls_Pools st) \<lparr>cw_pools = Map.empty, cw_reserves = [], cw_out = out\<rparr>"

lemma computeState_Some:
  "ti_State i = Some st \<Longrightarrow> computeState D cfg i out =
     and_then (pools_pass D cfg i st out) (\<lambda>w.
       let E = cs_env_of cfg i st; out = cs_rows D E st w; u = cs_account_sums D E st w
       in Inr (out\<lparr>to_Positions := to_Positions out @ cu_positions u,
                   to_Summaries := to_Summaries out @ cs_summaries D E (cw_reserves w) u\<rparr>))"
  by (simp add: computeState_def pools_pass_def Let_def)

definition pool_identity :: "'d decimal_ops \<Rightarrow> blend_config \<Rightarrow> blend_pool_state \<Rightarrow> 'd normalized_pool option" where
  "pool_identity D cfg p = resolvePool D cfg (fst (enrichPoolIdentity cfg p))"

lemma enrich_same [simp]:
  "bp_ContractID (fst (enrichPoolIdentity cfg p)) = bp_ContractID p"
  "bp_Reserves (fst (enrichPoolIdentity cfg p)) = bp_Reserves p"
  by (simp_all add: enrichPoolIdentity_def)

text \<open>The reserve rows a recognized pool contributes: one per reserve whose data is decoded.\<close>

definition reserve_rows_of ::
  "'d decimal_ops \<Rightarrow> cs_env \<Rightarrow> blend_pool_state \<Rightarrow> reserve_row list" where
  "reserve_rows_of D E p =
     (case pool_identity D (ce_cfg E) p of
        None \<Rightarrow> []
      | Some np \<Rightarrow> concat (map (\<lambda>r. if reserveHasFoldedData r then
            (case normalizeReserve D (bp_ContractID p) np r of
               Inl _ \<Rightarrow> []
             | Inr nr \<Rightarrow> [cs_reserve_row D E (fst (enrichPoolIdentity (ce_cfg E) p)) np r nr]) else []) (bp_Reserves p)))"

definition bad_reserve :: "'d decimal_ops \<Rightarrow> blend_config \<Rightarrow> blend_pool_state \<Rightarrow> reserve_state \<Rightarrow> bool" where
  "bad_reserve D cfg p r \<longleftrightarrow> r \<in> set (bp_Reserves p) \<and> reserveHasFoldedData r \<and>
     (\<exists>np e. pool_identity D cfg p = Some np \<and> normalizeReserve D (bp_ContractID p) np r = Inl e)"

lemma reserves_loop_fails:
  "(\<exists>e. foldE (cs_reserve D E pool np) rs w = Inl e) \<longleftrightarrow>
     (\<exists>r\<in>set rs. reserveHasFoldedData r \<and> (\<exists>e. normalizeReserve D (bp_ContractID pool) np r = Inl e))"
proof (induction rs arbitrary: w)
  case Nil
  then show ?case by simp
next
  case (Cons r rs)
  show ?case
  proof (cases "reserveHasFoldedData r")
    case False
    then show ?thesis using Cons.IH by (simp add: cs_reserve_def)
  next
    case True
    then show ?thesis using Cons.IH
      by (cases "normalizeReserve D (bp_ContractID pool) np r") (auto simp: cs_reserve_def Let_def)
  qed
qed

lemma cs_pool_fails:
  "(\<exists>e. cs_pool D E p w = Inl e) \<longleftrightarrow> (\<exists>r. bad_reserve D (ce_cfg E) p r)"
proof (cases "pool_identity D (ce_cfg E) p")
  case None
  then show ?thesis by (simp add: cs_pool_def pool_identity_def bad_reserve_def split_def)
next
  case (Some np)
  then show ?thesis
    by (simp add: cs_pool_def pool_identity_def bad_reserve_def split_def Let_def reserves_loop_fails) blast
qed

lemma pools_loop_fails:
  "(\<exists>e. foldE (cs_pool D E) ps w = Inl e) \<longleftrightarrow> (\<exists>p\<in>set ps. \<exists>r. bad_reserve D (ce_cfg E) p r)"
proof (induction ps arbitrary: w)
  case Nil
  then show ?case by simp
next
  case (Cons p ps)
  show ?case
  proof (cases "cs_pool D E p w")
    case (Inl e)
    then show ?thesis using cs_pool_fails [of D E p w] by auto
  next
    case (Inr v)
    then have "\<not> (\<exists>r. bad_reserve D (ce_cfg E) p r)" using cs_pool_fails [of D E p w] by simp
    then have "\<And>r. \<not> bad_reserve D (ce_cfg E) p r" by blast
    then show ?thesis using Inr Cons.IH [of v] by auto
  qed
qed

lemma reserves_loop_rows:
  "foldE (cs_reserve D E pool np) rs w = Inr v \<Longrightarrow>
     to_Reserves (cw_out v) = to_Reserves (cw_out w) @ concat (map (\<lambda>r. if reserveHasFoldedData r then
            (case normalizeReserve D (bp_ContractID pool) np r of
               Inl _ \<Rightarrow> [] | Inr nr \<Rightarrow> [cs_reserve_row D E pool np r nr]) else []) rs)"
proof (induction rs arbitrary: w)
  case Nil
  then show ?case by simp
next
  case (Cons r rs)
  obtain u where u: "cs_reserve D E pool np r w = Inr u" "foldE (cs_reserve D E pool np) rs u = Inr v"
    using Cons.prems by (auto simp: and_then_Inr)
  have "to_Reserves (cw_out u) = to_Reserves (cw_out w) @ (if reserveHasFoldedData r then
            (case normalizeReserve D (bp_ContractID pool) np r of
               Inl _ \<Rightarrow> [] | Inr nr \<Rightarrow> [cs_reserve_row D E pool np r nr]) else [])"
    using u(1) by (cases "normalizeReserve D (bp_ContractID pool) np r") (auto simp: cs_reserve_def Let_def split: if_splits)
  then show ?case using Cons.IH [OF u(2)] by simp
qed

lemma cs_pool_rows:
  assumes "cs_pool D E p w = Inr v"
  shows "to_Reserves (cw_out v) = to_Reserves (cw_out w) @ reserve_rows_of D E p"
proof (cases "pool_identity D (ce_cfg E) p")
  case None
  then show ?thesis using assms by (auto simp: cs_pool_def pool_identity_def reserve_rows_of_def split_def)
next
  case (Some np)
  have l: ?thesis if "foldE (cs_reserve D E (fst (enrichPoolIdentity (ce_cfg E) p)) np) (bp_Reserves p) u = Inr v"
      "to_Reserves (cw_out u) = to_Reserves (cw_out w)" for u
    using reserves_loop_rows [OF that(1), unfolded enrich_same] that(2) Some by (simp add: reserve_rows_of_def)
  show ?thesis
    using assms Some by (auto simp: cs_pool_def pool_identity_def split_def Let_def intro: l split: if_splits)
qed

lemma pools_loop_rows:
  "foldE (cs_pool D E) ps w = Inr v \<Longrightarrow>
     to_Reserves (cw_out v) = to_Reserves (cw_out w) @ concat (map (reserve_rows_of D E) ps)"
proof (induction ps arbitrary: w)
  case (Cons p ps)
  obtain u where "cs_pool D E p w = Inr u" "foldE (cs_pool D E) ps u = Inr v"
    using Cons.prems by (auto simp: and_then_Inr)
  then show ?case using cs_pool_rows [of D E p w u] Cons.IH [of u] by simp
qed simp

lemma cs_rows_frame [frame]: "to_Reserves (cs_rows D E st w) = to_Reserves (cw_out w)"
  "to_Positions (cs_rows D E st w) = to_Positions (cw_out w)"
  "to_Summaries (cs_rows D E st w) = to_Summaries (cw_out w)"
  by (simp_all add: cs_rows_def valuePoolBackstops_def Let_def)

lemma pools_pass_frame:
  assumes "pools_pass D cfg i st out = Inr w"
  shows "to_Positions (cw_out w) = to_Positions out" and "to_Summaries (cw_out w) = to_Summaries out"
proof -
  have r: "to_Positions (cw_out v) = to_Positions (cw_out u) \<and> to_Summaries (cw_out v) = to_Summaries (cw_out u)"
    if "foldE (cs_reserve D E pool np) rs u = Inr v" for E pool rs u v and np :: "'a normalized_pool"
    using that by (rule foldE_inv) (auto simp: cs_reserve_def Let_def and_then_Inr split: if_splits)
  have p: "to_Positions (cw_out v) = to_Positions (cw_out u) \<and> to_Summaries (cw_out v) = to_Summaries (cw_out u)"
    if "cs_pool D E q u = Inr v" for E q u v
    using that by (auto simp: cs_pool_def Let_def split_def split: option.splits if_splits dest!: r)
  have "to_Positions (cw_out w) = to_Positions out \<and> to_Summaries (cw_out w) = to_Summaries out"
    using assms unfolding pools_pass_def by (rule foldE_inv) (auto dest: p)
  then show "to_Positions (cw_out w) = to_Positions out" "to_Summaries (cw_out w) = to_Summaries out" by simp_all
qed

section \<open>The health factor\<close>

text \<open>Effective amounts are kept to eighteen decimals.\<close>

definition grid :: "rat \<Rightarrow> bool" where
  "grid x \<longleftrightarrow> (\<exists>a. x = of_int a / 10 ^ 18)"

lemma grid_0 [simp]: "grid 0"
  unfolding grid_def by (rule exI [of _ 0]) simp

lemma grid_add: "grid x \<Longrightarrow> grid y \<Longrightarrow> grid (x + y)"
  unfolding grid_def by (metis add_divide_distrib of_int_add)

lemma grid_trunc: "grid (trunc_to 18 x)"
  unfolding grid_def trunc_to_def by (cases "0 \<le> x") (auto intro: exI [of _ "- \<lfloor>- x * 10 ^ 18\<rfloor>"])

lemma grid_ceil: "grid (ceil_to 18 x)"
  unfolding grid_def ceil_to_def by blast

definition pool_grid :: "'d decimal_ops \<Rightarrow> 'd pool_acc \<Rightarrow> bool" where
  "pool_grid D s \<longleftrightarrow> grid (dval D (pa_effectiveCollateralUSD s)) \<and> grid (dval D (pa_effectiveLiabilityUSD s))"

definition sums_grid :: "'d decimal_ops \<Rightarrow> 'd cs_sums \<Rightarrow> bool" where
  "sums_grid D u \<longleftrightarrow> (\<forall>a p s. gm_get (pools_of u a) p = Some s \<longrightarrow> pool_grid D s)"

lemma sums_grid_upd:
  assumes "decimal_ok D" "sums_grid D u" "\<And>s. pool_grid D s \<Longrightarrow> pool_grid D (f s)"
  shows "sums_grid D (upd_pool D a p f u)"
proof -
  have "pool_grid D (fresh_pool_acc D q)" for q
    using assms(1) by (simp add: pool_grid_def fresh_pool_acc_def Let_def dval_new)
  then show ?thesis using assms(2,3)
    by (auto simp: sums_grid_def pools_of_upd_pool gm.get_upd split: option.splits if_splits)
qed

lemma sums_grid_frame [frame]:
  "sums_grid D (upd_protocol D a f u) = sums_grid D u" "sums_grid D (u\<lparr>cu_positions := ps\<rparr>) = sums_grid D u"
  by (simp_all add: sums_grid_def frame)

lemma pool_grid_frame [frame]:
  "pool_grid D (weigh_pool D b x c s) = pool_grid D s"
  "pool_grid D (s\<lparr>pa_pricePartial := b\<rparr>) = pool_grid D s"
  "pool_grid D (s\<lparr>pa_dataPartial := b\<rparr>) = pool_grid D s"
  "pool_grid D (s\<lparr>pa_pricePartial := b, pa_reservePricePartial := b'\<rparr>) = pool_grid D s"
  "pool_grid D (s\<lparr>pa_depositedUSD := x\<rparr>) = pool_grid D s"
  by (simp_all add: pool_grid_def weigh_pool_def Let_def)

lemma leg_to_pool_grid: "decimal_ok D \<Longrightarrow> pool_grid D s \<Longrightarrow> pool_grid D (leg_to_pool D nr leg x y s)"
  by (cases "up_PositionType leg")
    (auto simp: leg_to_pool_def Let_def pool_grid_def dec_simps intro!: grid_add grid_trunc grid_ceil)

lemma cs_leg_grid: "decimal_ok D \<Longrightarrow> sums_grid D u \<Longrightarrow> sums_grid D (cs_leg D E pools reserves leg u)"
  by (auto simp: cs_leg_def Let_def frame intro!: sums_grid_upd leg_to_pool_grid split: option.splits prod.splits)

lemma cs_backstop_grid: "decimal_ok D \<Longrightarrow> sums_grid D u \<Longrightarrow> sums_grid D (cs_backstop D E pools b u)"
  by (auto simp: cs_backstop_def Let_def frame intro!: sums_grid_upd split: option.splits prod.splits)

lemma account_sums_grid:
  assumes "decimal_ok D"
  shows "sums_grid D (cs_account_sums D E st w)"
  unfolding cs_account_sums_def using assms
  by (intro run_inv [where P = "sums_grid D"] cs_leg_grid cs_backstop_grid)
    (simp_all add: sums_grid_def pools_of_def gm.get_nil)

text \<open>
  Rounding to 48 digits and truncating to 18 cannot lift a ratio of two such amounts to one as
  long as the denominator stays below \<open>2 * 10 ^ 30\<close>.
\<close>

lemma trunc_ge_1: "1 \<le> trunc_to 18 x \<longleftrightarrow> 1 \<le> x"
proof (cases "0 \<le> x")
  case True
  have "1 \<le> trunc_to 18 x \<longleftrightarrow> (10 ^ 18 :: rat) \<le> of_int \<lfloor>x * 10 ^ 18\<rfloor>"
    using True by (simp add: trunc_to_def le_divide_eq)
  also have "\<dots> \<longleftrightarrow> (10 ^ 18 :: int) \<le> \<lfloor>x * 10 ^ 18\<rfloor>"
    using of_int_le_iff [of "10 ^ 18" "\<lfloor>x * 10 ^ 18\<rfloor>", where ?'a = rat] by simp
  also have "\<dots> \<longleftrightarrow> (10 ^ 18 :: rat) \<le> x * 10 ^ 18" by (simp add: le_floor_iff)
  finally show ?thesis by simp
next
  case False
  then have "0 \<le> \<lfloor>- x * 10 ^ 18\<rfloor>" by simp
  then have "trunc_to 18 x \<le> 0" using False by (simp add: trunc_to_def)
  then show ?thesis using False by linarith
qed

lemma health_below_one:
  assumes g: "grid c" "grid l" and l: "0 < l" "l < 2 * 10 ^ 30"
  shows "trunc_to 18 (round_div (c / l)) < 1 \<longleftrightarrow> c < l"
proof -
  obtain a b where ab: "c = of_int a / 10 ^ 18" "l = of_int b / 10 ^ 18" using g by (auto simp: grid_def)
  have q: "c / l = of_int a / of_int b" by (simp add: ab)
  have b: "0 < b" using l(1) by (simp add: ab zero_less_divide_iff)
  have "(of_int b :: rat) < of_int (2 * 10 ^ DivisionPrecision)" using l(2) by (simp add: ab DivisionPrecision_def divide_less_eq)
  then have bs: "b < 2 * 10 ^ DivisionPrecision" by (simp only: of_int_less_iff)
  have "1 \<le> round_div (c / l) \<longleftrightarrow> 1 \<le> \<lfloor>round_div (of_int a / of_int b)\<rfloor>" by (simp add: q)
  also have "\<dots> \<longleftrightarrow> 1 \<le> a div b" by (simp only: floor_round_div [OF b bs])
  also have "\<dots> \<longleftrightarrow> b \<le> a" using pos_imp_zdiv_pos_iff [OF b, of a] by linarith
  also have "\<dots> \<longleftrightarrow> l \<le> c" by (simp add: ab divide_le_cancel)
  finally have "1 \<le> round_div (c / l) \<longleftrightarrow> l \<le> c" .
  then show ?thesis using trunc_ge_1 [of "round_div (c / l)"] by linarith
qed

text \<open>A pool is under water when its liability exceeds its collateral, or has no liability factor at all.\<close>

definition under_water :: "'d decimal_ops \<Rightarrow> 'd pool_acc \<Rightarrow> bool" where
  "under_water D s \<longleftrightarrow> pa_lFactorZeroLiability s \<or>
     dval D (pa_effectiveLiabilityUSD s) \<noteq> 0 \<and> dval D (pa_effectiveCollateralUSD s) < dval D (pa_effectiveLiabilityUSD s)"

lemma d_read_num: "decimal_ok D \<Longrightarrow> dval D (d_read D (numString D x)) = dval D x"
  using d_parse_str [of D x] by (auto simp: d_read_def numString_def)

lemma d_read_zero: "decimal_ok D \<Longrightarrow> dval D (d_read D ''0'') = 0"
  using d_parse_int [of D 0] by (auto simp: d_read_def)

lemma numString_nonempty: "decimal_ok D \<Longrightarrow> numString D x \<noteq> ''''"
  by (simp add: numString_def d_str_nonempty)

lemma pool_health_below_one:
  assumes ok: "decimal_ok D" and g: "pool_grid D s"
    and l: "0 \<le> dval D (pa_effectiveLiabilityUSD s)" "dval D (pa_effectiveLiabilityUSD s) < 2 * 10 ^ 30"
  shows "(pr_health (pool_risk_of D s) \<noteq> '''' \<and> dval D (d_read D (pr_health (pool_risk_of D s))) < 1) \<longleftrightarrow> under_water D s"
proof (cases "pa_lFactorZeroLiability s")
  case True
  then show ?thesis by (simp add: pool_risk_of_def under_water_def Let_def d_read_zero [OF ok])
next
  case nz: False
  let ?c = "pa_effectiveCollateralUSD s" and ?l = "pa_effectiveLiabilityUSD s"
  have h: "pr_health (pool_risk_of D s) = (if dval D ?l = 0 then '''' else numString D (d_trunc D 18 (d_div D ?c ?l)))"
    using nz by (simp add: pool_risk_of_def Let_def d_is_zero_val [OF ok])
  show ?thesis
  proof (cases "dval D ?l = 0")
    case True
    then show ?thesis using nz by (simp add: h under_water_def)
  next
    case False
    then have "dval D (d_trunc D 18 (d_div D ?c ?l)) = trunc_to 18 (round_div (dval D ?c / dval D ?l))"
      by (simp add: dval_trunc [OF ok] dval_div [OF ok])
    moreover have "trunc_to 18 (round_div (dval D ?c / dval D ?l)) < 1 \<longleftrightarrow> dval D ?c < dval D ?l"
      using g l False by (intro health_below_one) (auto simp: pool_grid_def)
    ultimately show ?thesis using nz False
      by (simp add: h under_water_def d_read_num [OF ok] numString_nonempty [OF ok])
  qed
qed

lemma addr_pool_health:
  assumes ok: "decimal_ok D"
  shows "(\<exists>h. aa_health (addr_pool D kp a) = Some h \<and> dval D h < x) \<longleftrightarrow>
     (\<exists>h. aa_health a = Some h \<and> dval D h < x) \<or>
     (pr_health (pool_risk_of D (snd kp)) \<noteq> '''' \<and> dval D (d_read D (pr_health (pool_risk_of D (snd kp)))) < x)"
proof -
  obtain k s where kp: "kp = (k, s)" by (cases kp)
  let ?r = "pr_health (pool_risk_of D s)"
  have "aa_health (addr_pool D kp a) =
      (if ?r = '''' then aa_health a
       else (case aa_health a of None \<Rightarrow> Some (d_read D ?r)
         | Some m \<Rightarrow> if d_lt D (d_read D ?r) m then Some (d_read D ?r) else Some m))"
    by (simp add: addr_pool_def kp Let_def split: option.splits)
  then show ?thesis by (cases "aa_health a") (auto simp: kp d_lt_val [OF ok])
qed

lemma run_addr_health:
  assumes ok: "decimal_ok D"
  shows "(\<exists>h. aa_health (run (addr_pool D) kps a) = Some h \<and> dval D h < x) \<longleftrightarrow>
     (\<exists>h. aa_health a = Some h \<and> dval D h < x) \<or>
     (\<exists>kp\<in>set kps. pr_health (pool_risk_of D (snd kp)) \<noteq> '''' \<and> dval D (d_read D (pr_health (pool_risk_of D (snd kp)))) < x)"
proof (induction kps arbitrary: a)
  case (Cons kp kps)
  show ?case unfolding run_Cons Cons.IH addr_pool_health [OF ok] by auto
qed simp

lemma addr_pools_health:
  assumes ok: "decimal_ok D"
  shows "(\<exists>h. aa_health (addr_pools D m) = Some h \<and> dval D h < x) \<longleftrightarrow>
     (\<exists>s\<in>snd ` set m. pr_health (pool_risk_of D s) \<noteq> '''' \<and> dval D (d_read D (pr_health (pool_risk_of D s))) < x)"
  unfolding addr_pools_def run_addr_health [OF ok] by (auto simp: fresh_addr_acc_def)

section \<open>Totals\<close>

definition tot :: "'d decimal_ops \<Rightarrow> ('s \<Rightarrow> 'd) \<Rightarrow> (string, 's) gmap \<Rightarrow> rat" where
  "tot D f m = sum_list (map (\<lambda>s. dval D (f s)) (map snd m))"

lemma tot_Nil [simp]: "tot D f [] = 0"
  by (simp add: tot_def)

lemma tot_gm_set:
  "gm_ok m \<Longrightarrow> tot D f (gm_set p s m) = tot D f m + dval D (f s) - (case gm_get m p of None \<Rightarrow> 0 | Some s0 \<Rightarrow> dval D (f s0))"
proof (induction m)
  case Nil
  then show ?case by (simp add: gm_set_def gm_get_def tot_def)
next
  case (Cons kv m)
  obtain k v where kv: "kv = (k, v)" by (cases kv)
  have "gm_ok m" using Cons.prems by (simp add: gm_ok_def)
  note IH = Cons.IH [OF this]
  show ?case using IH by (auto simp: kv gm_set_def gm_get_def tot_def)
qed

definition balanced ::
  "'d decimal_ops \<Rightarrow> ('d pool_acc \<Rightarrow> 'd) \<Rightarrow> ('d protocol_acc \<Rightarrow> 'd) \<Rightarrow> 'd cs_sums \<Rightarrow> bool" where
  "balanced D fp fr u \<longleftrightarrow> sums_ok u \<and> (\<forall>a. dval D (fr (protocol_of D u a)) = tot D fp (pools_of u a))"

lemma protocol_of_upd [simp]:
  "protocol_of D (upd_protocol D a g u) b = (if b = a then g (protocol_of D u a) else protocol_of D u b)"
  "protocol_of D (upd_pool D a p f u) b = protocol_of D u b"
  "protocol_of D (u\<lparr>cu_positions := ps\<rparr>) b = protocol_of D u b"
  by (simp_all add: protocol_of_def upd_protocol_def upd_pool_def gm.get_upd Let_def)

lemma balanced_upd:
  assumes b: "balanced D fp fr u" and fresh: "\<And>q. dval D (fp (fresh_pool_acc D q)) = 0"
    and f: "\<And>s. dval D (fp (f s)) = dval D (fp s) + x" and g: "\<And>s. dval D (fr (g s)) = dval D (fr s) + x"
  shows "balanced D fp fr (upd_protocol D a g (upd_pool D a p f u))"
proof -
  have ok: "sums_ok u" "gm_ok (pools_of u a)" using b by (simp_all add: balanced_def sums_ok_def)
  have "tot D fp (gm_set p (f (case gm_get (pools_of u a) p of None \<Rightarrow> fresh_pool_acc D p | Some s \<Rightarrow> s)) (pools_of u a))
      = tot D fp (pools_of u a) + x"
    unfolding tot_gm_set [OF ok(2)] using f fresh by (cases "gm_get (pools_of u a) p") simp_all
  then show ?thesis using b g ok(1)
    by (simp add: balanced_def frame sums_ok_upd_pool pools_of_upd_pool)
qed

lemma balanced_frame:
  "balanced D fp fr (u\<lparr>cu_positions := ps\<rparr>) = balanced D fp fr u"
  "balanced D fp fr (upd_protocol D a (\<lambda>s. s) u) = balanced D fp fr u"
  by (auto simp: balanced_def frame)

lemma upd_protocol_id: "balanced D fp fr (upd_pool D a p f u) \<longleftrightarrow> balanced D fp fr (upd_protocol D a (\<lambda>s. s) (upd_pool D a p f u))"
  by (simp add: balanced_frame)

text \<open>The three sums that an account's pools and its total accumulate in step.\<close>

definition in_step :: "'d decimal_ops \<Rightarrow> ('d pool_acc \<Rightarrow> 'd) \<Rightarrow> ('d protocol_acc \<Rightarrow> 'd) \<Rightarrow> bool" where
  "in_step D fp fr \<longleftrightarrow>
     fp = pa_depositedUSD \<and> fr = ra_depositedUSD \<or> fp = pa_borrowedUSD \<and> fr = ra_borrowedUSD
     \<or> fp = pa_netAPYWeightUSD \<and> fr = ra_netAPYWeightUSD"

lemma in_step_fresh: "decimal_ok D \<Longrightarrow> in_step D fp fr \<Longrightarrow> dval D (fp (fresh_pool_acc D q)) = 0"
  by (auto simp: in_step_def fresh_pool_acc_def Let_def dval_new)

lemma in_step_flags:
  assumes "in_step D fp fr"
  shows "fp (s\<lparr>pa_dataPartial := b\<rparr>) = fp s" "fp (s\<lparr>pa_pricePartial := b, pa_reservePricePartial := b'\<rparr>) = fp s"
    "fp (s\<lparr>pa_pricePartial := b\<rparr>) = fp s"
  using assms by (auto simp: in_step_def)

lemma in_step_leg:
  assumes ok: "decimal_ok D" and i: "in_step D fp fr"
  shows "\<exists>x. (\<forall>s. dval D (fp (weigh_pool D b usd c (leg_to_pool D nr leg amount usd s))) = dval D (fp s) + x) \<and>
     (\<forall>s. dval D (fr (weigh_protocol D b usd c (leg_to_protocol D (up_PositionType leg) usd s))) = dval D (fr s) + x)"
proof -
  let ?t = "up_PositionType leg"
  note defs = weigh_pool_def weigh_protocol_def leg_to_pool_def leg_to_protocol_def Let_def
  from i consider "fp = pa_depositedUSD" "fr = ra_depositedUSD" | "fp = pa_borrowedUSD" "fr = ra_borrowedUSD"
    | "fp = pa_netAPYWeightUSD" "fr = ra_netAPYWeightUSD" by (auto simp: in_step_def)
  then show ?thesis
  proof cases
    case 1
    show ?thesis unfolding 1
      by (rule exI [of _ "if ?t = Supply \<or> ?t = Collateral then dval D usd else 0"])
        (cases ?t; simp add: defs dval_add [OF ok])
  next
    case 2
    show ?thesis unfolding 2
      by (rule exI [of _ "if ?t = Liability then dval D usd else 0"]) (cases ?t; simp add: defs dval_add [OF ok])
  next
    case 3
    show ?thesis unfolding 3
      by (rule exI [of _ "\<bar>dval D usd\<bar>"]) (cases ?t; simp add: defs dval_add [OF ok] dval_abs [OF ok])
  qed
qed

lemma in_step_backstop:
  assumes ok: "decimal_ok D" and i: "in_step D fp fr"
  shows "\<exists>x. (\<forall>s. dval D (fp (weigh_pool D b usd c (s\<lparr>pa_depositedUSD := d_add D (pa_depositedUSD s) usd\<rparr>))) = dval D (fp s) + x) \<and>
     (\<forall>s. dval D (fr (weigh_protocol D b usd c (s\<lparr>ra_depositedUSD := d_add D (ra_depositedUSD s) usd\<rparr>))) = dval D (fr s) + x)"
proof -
  note defs = weigh_pool_def weigh_protocol_def Let_def
  from i consider "fp = pa_depositedUSD" "fr = ra_depositedUSD" | "fp = pa_borrowedUSD" "fr = ra_borrowedUSD"
    | "fp = pa_netAPYWeightUSD" "fr = ra_netAPYWeightUSD" by (auto simp: in_step_def)
  then show ?thesis
  proof cases
    case 1
    show ?thesis unfolding 1 by (rule exI [of _ "dval D usd"]) (simp add: defs dval_add [OF ok])
  next
    case 2
    show ?thesis unfolding 2 by (rule exI [of _ 0]) (simp add: defs)
  next
    case 3
    show ?thesis unfolding 3 by (rule exI [of _ "\<bar>dval D usd\<bar>"]) (simp add: defs dval_add [OF ok] dval_abs [OF ok])
  qed
qed

lemma balanced_flag:
  assumes "decimal_ok D" "in_step D fp fr" "balanced D fp fr u" and "\<And>s. fp (f s) = fp s"
  shows "balanced D fp fr (upd_pool D a p f u)"
  unfolding upd_protocol_id [where a = a]
  by (rule balanced_upd [OF assms(3) in_step_fresh [OF assms(1,2)], where x = 0]) (simp_all add: assms(4))

lemma cs_leg_balanced:
  assumes ok: "decimal_ok D" and i: "in_step D fp fr" and b: "balanced D fp fr u"
  shows "balanced D fp fr (cs_leg D E pools reserves leg u)"
proof -
  let ?a = "up_Address leg" and ?p = "up_PoolContractID leg"
  have leg: "balanced D fp fr (upd_protocol D ?a (\<lambda>s. weigh_protocol D w usd c (leg_to_protocol D (up_PositionType leg) usd s))
      (upd_pool D ?a ?p (\<lambda>s. weigh_pool D w usd c (leg_to_pool D nr leg amount usd s)) v))"
    if v: "balanced D fp fr v" for v w usd c nr amount
  proof -
    obtain x where x: "\<And>s. dval D (fp (weigh_pool D w usd c (leg_to_pool D nr leg amount usd s))) = dval D (fp s) + x"
      "\<And>s. dval D (fr (weigh_protocol D w usd c (leg_to_protocol D (up_PositionType leg) usd s))) = dval D (fr s) + x"
      using in_step_leg [OF ok i, of w usd c nr leg amount] by blast
    show ?thesis by (rule balanced_upd [OF v in_step_fresh [OF ok i] x])
  qed
  show ?thesis using b
    by (auto simp: cs_leg_def Let_def balanced_frame in_step_flags [OF i]
        intro!: balanced_flag [OF ok i] leg split: option.splits prod.splits)
qed

lemma cs_backstop_balanced:
  assumes ok: "decimal_ok D" and i: "in_step D fp fr" and b: "balanced D fp fr u"
  shows "balanced D fp fr (cs_backstop D E pools bs u)"
proof -
  have dep: "balanced D fp fr (upd_protocol D a (\<lambda>s. weigh_protocol D w usd c (s\<lparr>ra_depositedUSD := d_add D (ra_depositedUSD s) usd\<rparr>))
      (upd_pool D a p (\<lambda>s. weigh_pool D w usd c (s\<lparr>pa_depositedUSD := d_add D (pa_depositedUSD s) usd\<rparr>)) v))"
    if v: "balanced D fp fr v" for v w usd c a p
  proof -
    obtain x where x: "\<forall>s. dval D (fp (weigh_pool D w usd c (s\<lparr>pa_depositedUSD := d_add D (pa_depositedUSD s) usd\<rparr>))) = dval D (fp s) + x"
      "\<forall>s. dval D (fr (weigh_protocol D w usd c (s\<lparr>ra_depositedUSD := d_add D (ra_depositedUSD s) usd\<rparr>))) = dval D (fr s) + x"
      using in_step_backstop [OF ok i, of w usd c] by (elim exE conjE)
    note fresh = in_step_fresh [OF ok i]
    show ?thesis
      by (rule balanced_upd [where x = x]) (rule v, rule fresh, rule x(1) [rule_format], rule x(2) [rule_format])
  qed
  obtain row usd apy where row: "backstop_row_of D E bs = (row, usd, apy)" by (metis prod_cases3)
  let ?u = "upd_protocol D (bk_Address bs) (\<lambda>s. s) (u\<lparr>cu_positions := cu_positions u @ [row]\<rparr>)"
  have u: "balanced D fp fr ?u" using b by (simp add: balanced_frame)
  have p: "balanced D fp fr (upd_pool D a p (\<lambda>s. s\<lparr>pa_pricePartial := True\<rparr>) ?u)" for a p
    by (rule balanced_flag [OF ok i u]) (rule in_step_flags [OF i])
  show ?thesis
  proof (cases "if pn_USDValue row = '''' then None else usd")
    case None
    then show ?thesis using b p by (simp add: cs_backstop_def row)
  next
    case (Some x)
    then show ?thesis using b dep [OF u] by (simp add: cs_backstop_def row Let_def)
  qed
qed

lemma account_sums_balanced:
  assumes ok: "decimal_ok D" and i: "in_step D fp fr"
  shows "balanced D fp fr (cs_account_sums D E st w)"
proof -
  have z: "dval D (fr (fresh_protocol_acc D)) = 0"
    using i by (auto simp: in_step_def fresh_protocol_acc_def Let_def dval_new [OF ok])
  have "balanced D fp fr \<lparr>cu_pools = [], cu_protocols = [], cu_positions = []\<rparr>"
    using z by (simp add: balanced_def sums_ok_def pools_of_def protocol_of_def gm.get_nil gm.ok_nil)
  then show ?thesis unfolding cs_account_sums_def
    by (intro run_inv [where P = "balanced D fp fr"] cs_leg_balanced [OF ok i] cs_backstop_balanced [OF ok i])
qed

text \<open>The breakdown of an account: one entry per pool, in pool order.\<close>

lemma addr_pool_breakdown:
  "aa_breakdown (addr_pool D kp a) = gm_set (fst kp) (breakdown_entry D (snd kp)) (aa_breakdown a)"
  by (cases kp) (simp add: addr_pool_def Let_def split: option.splits)

lemma gm_set_new: "k \<notin> fst ` set m \<Longrightarrow> gm_set k v m = m @ [(k, v)]"
  by (induction m) (auto simp: gm_set_def)

lemma run_breakdown:
  "distinct (map fst (aa_breakdown a) @ map fst kps) \<Longrightarrow>
     aa_breakdown (run (addr_pool D) kps a) = aa_breakdown a @ map (\<lambda>(k, s). (k, breakdown_entry D s)) kps"
proof (induction kps arbitrary: a)
  case (Cons kp kps)
  have n: "fst kp \<notin> fst ` set (aa_breakdown a)" using Cons.prems by auto
  have b: "aa_breakdown (addr_pool D kp a) = aa_breakdown a @ [(fst kp, breakdown_entry D (snd kp))]"
    unfolding addr_pool_breakdown by (rule gm_set_new [OF n])
  have "distinct (map fst (aa_breakdown (addr_pool D kp a)) @ map fst kps)" using Cons.prems by (auto simp: b)
  from Cons.IH [OF this] show ?case by (simp add: b split_def)
qed simp

lemma addr_pools_breakdown:
  "gm_ok m \<Longrightarrow> aa_breakdown (addr_pools D m) = map (\<lambda>(k, s). (k, breakdown_entry D s)) (sort_key fst m)"
  unfolding addr_pools_def by (subst run_breakdown) (simp_all add: fresh_addr_acc_def gm_ok_def distinct_map)

end
