(* ===== verification/Blend_Summary.thy ===== *)
theory Blend_Summary
  imports Blend_Risk
begin

text \<open>
  What the valuation of src/blend/math.go promises its readers: which accounts get a summary, when
  the valuation of a ledger fails, what the health factor and the totals of a summary mean, and
  two figures that do not mean what they seem to.
\<close>

section \<open>Emitted summaries\<close>

lemma computeState_Inr:
  assumes "ti_State i = Some st" and "computeState D cfg i out = Inr out'"
  obtains w where "pools_pass D cfg i st out = Inr w"
    "to_Positions out' = to_Positions out @ cu_positions (cs_account_sums D (cs_env_of cfg i st) st w)"
    "to_Summaries out' = to_Summaries out @
       cs_summaries D (cs_env_of cfg i st) (cw_reserves w) (cs_account_sums D (cs_env_of cfg i st) st w)"
proof -
  obtain w where w: "pools_pass D cfg i st out = Inr w"
    using assms by (auto simp: computeState_Some and_then_Inr)
  have "to_Positions out' = to_Positions out @ cu_positions (cs_account_sums D (cs_env_of cfg i st) st w)"
    "to_Summaries out' = to_Summaries out @
       cs_summaries D (cs_env_of cfg i st) (cw_reserves w) (cs_account_sums D (cs_env_of cfg i st) st w)"
    using assms by (auto simp: computeState_Some w Let_def frame pools_pass_frame [OF w])
  with w show ?thesis by (rule that)
qed

text \<open>
  C2: Which accounts get a summary: the valuation of a ledger emits exactly one summary, in address
  order, for every account that has a leg or a backstop deposit in a recognized pool and no leg
  whose reserve is undecoded or unpriced; position rows are emitted for every leg with a decoded
  reserve and every deposit, in state order, whether or not the account gets its summary.
\<close>

theorem summaries_emitted:
  assumes "ti_State i = Some st" and "computeState D cfg i out = Inr out'"
  shows "\<exists>w rows. pools_pass D cfg i st out = Inr w \<and> to_Summaries out' = to_Summaries out @ rows
    \<and> map sm_Address rows = sorted_list_of_set (touched st w - incomplete st w)
    \<and> to_Positions out' = to_Positions out
        @ concat (map (leg_rows D (cs_env_of cfg i st) (cw_pools w) (cw_reserves w)) (ls_Users st))
        @ map (fst \<circ> backstop_row_of D (cs_env_of cfg i st))
            (filter (\<lambda>b. cw_pools w (bk_PoolContractID b) \<noteq> None) (ls_Backstops st))"
  using assms by (rule computeState_Inr) (auto simp: account_sums summary_addresses)

section \<open>Failing valuations\<close>

lemma computeState_fails:
  assumes "ti_State i = Some st"
  shows "(\<exists>e. computeState D cfg i out = Inl e) \<longleftrightarrow> (\<exists>p\<in>set (ls_Pools st). \<exists>r. bad_reserve D cfg p r)"
proof -
  have "(\<exists>e. computeState D cfg i out = Inl e) \<longleftrightarrow> (\<exists>e. pools_pass D cfg i st out = Inl e)"
    by (cases "pools_pass D cfg i st out") (simp_all add: computeState_Some [OF assms] Let_def)
  then show ?thesis by (simp add: pools_pass_def pools_loop_fails cs_env_of_def)
qed

text \<open>
  C24: When the valuation fails: exactly when some reserve with decoded data, in a recognized pool,
  has a checked field that is not a number, or the configured rate scalar reads as zero; one such
  reserve takes the rows of every pool and account of the ledger with it. A state without
  reserves, or no state, never fails.
\<close>

theorem valuation_fails:
  assumes "ti_State i = Some st"
  shows "(\<exists>e. computeState D cfg i out = Inl e) \<longleftrightarrow>
    (\<exists>p\<in>set (ls_Pools st). \<exists>r\<in>set (bp_Reserves p). reserveHasFoldedData r \<and>
       (\<exists>np. resolvePool D cfg (fst (enrichPoolIdentity cfg p)) = Some np \<and>
         (d_is_zero D (np_rateScalar np) \<or> (\<exists>v\<in>checked_fields r. v \<noteq> '''' \<and> d_parse D v = None))))"
proof -
  have "(\<exists>np e. pool_identity D cfg p = Some np \<and> normalizeReserve D (bp_ContractID p) np r = Inl e) \<longleftrightarrow>
      (\<exists>np. resolvePool D cfg (fst (enrichPoolIdentity cfg p)) = Some np \<and>
         (d_is_zero D (np_rateScalar np) \<or> (\<exists>v\<in>checked_fields r. v \<noteq> '''' \<and> d_parse D v = None)))" for p r
    unfolding normalize_fails_iff [of D "bp_ContractID p" _ r, symmetric] pool_identity_def by blast
  then show ?thesis unfolding computeState_fails [OF assms] bad_reserve_def by blast
qed

section \<open>Health\<close>

text \<open>Every pool sum of an account satisfies a predicate that each update keeps.\<close>

definition sums_all :: "('d pool_acc \<Rightarrow> bool) \<Rightarrow> 'd cs_sums \<Rightarrow> bool" where
  "sums_all P u \<longleftrightarrow> (\<forall>a p s. gm_get (pools_of u a) p = Some s \<longrightarrow> P s)"

lemma sums_all_upd:
  assumes "sums_all P u" "\<And>q. P (fresh_pool_acc D q)" "\<And>s. P s \<Longrightarrow> P (f s)"
  shows "sums_all P (upd_pool D a p f u)"
  using assms by (auto simp: sums_all_def pools_of_upd_pool gm.get_upd split: option.splits)

lemma sums_all_frame [frame]:
  "sums_all P (upd_protocol D a f u) = sums_all P u" "sums_all P (u\<lparr>cu_positions := ps\<rparr>) = sums_all P u"
  by (simp_all add: sums_all_def frame)

text \<open>An amount owed marks the pool as one with a liability.\<close>

definition owes :: "'d decimal_ops \<Rightarrow> 'd pool_acc \<Rightarrow> bool" where
  "owes D s \<longleftrightarrow> (pa_lFactorZeroLiability s \<or> dval D (pa_effectiveLiabilityUSD s) \<noteq> 0 \<longrightarrow> pa_hasLiability s)"

lemma owes_fresh: "decimal_ok D \<Longrightarrow> owes D (fresh_pool_acc D q)"
  by (simp add: owes_def fresh_pool_acc_def Let_def dval_new)

lemma owes_frame [frame]:
  "owes D (weigh_pool D b x c s) = owes D s"
  "owes D (s\<lparr>pa_pricePartial := b\<rparr>) = owes D s"
  "owes D (s\<lparr>pa_dataPartial := b\<rparr>) = owes D s"
  "owes D (s\<lparr>pa_pricePartial := b, pa_reservePricePartial := b'\<rparr>) = owes D s"
  "owes D (s\<lparr>pa_depositedUSD := x\<rparr>) = owes D s"
  by (simp_all add: owes_def weigh_pool_def Let_def)

lemma owes_leg: "owes D s \<Longrightarrow> owes D (leg_to_pool D nr leg x y s)"
  by (cases "up_PositionType leg") (auto simp: owes_def leg_to_pool_def Let_def)

lemma cs_leg_owes: "decimal_ok D \<Longrightarrow> sums_all (owes D) u \<Longrightarrow> sums_all (owes D) (cs_leg D E pools reserves leg u)"
  by (auto simp: cs_leg_def Let_def frame intro!: sums_all_upd owes_fresh owes_leg split: option.splits prod.splits)

lemma cs_backstop_owes: "decimal_ok D \<Longrightarrow> sums_all (owes D) u \<Longrightarrow> sums_all (owes D) (cs_backstop D E pools b u)"
  by (auto simp: cs_backstop_def Let_def frame intro!: sums_all_upd owes_fresh split: option.splits prod.splits)

lemma account_sums_owes:
  assumes "decimal_ok D"
  shows "sums_all (owes D) (cs_account_sums D E st w)"
  unfolding cs_account_sums_def using assms
  by (intro run_inv [where P = "sums_all (owes D)"] cs_leg_owes cs_backstop_owes)
    (simp_all add: sums_all_def pools_of_def gm.get_nil)

lemma run_addr_hasLiability:
  "aa_hasLiability (run (addr_pool D) kps a) \<longleftrightarrow> aa_hasLiability a \<or> (\<exists>kp\<in>set kps. pa_hasLiability (snd kp))"
proof (induction kps arbitrary: a)
  case (Cons kp kps)
  have "aa_hasLiability (addr_pool D kp a) \<longleftrightarrow> aa_hasLiability a \<or> pa_hasLiability (snd kp)"
    by (cases kp) (simp add: addr_pool_def Let_def split: option.splits)
  then show ?case by (simp add: Cons.IH)
qed simp

lemma addr_pools_hasLiability: "aa_hasLiability (addr_pools D m) \<longleftrightarrow> (\<exists>s\<in>snd ` set m. pa_hasLiability s)"
  by (auto simp: addr_pools_def run_addr_hasLiability fresh_addr_acc_def)

lemma summary_health:
  "sm_HealthFactor (cs_summary D E rs a m p) =
     (if aa_hasLiability (addr_pools D m)
      then (case aa_health (addr_pools D m) of None \<Rightarrow> '''' | Some h \<Rightarrow> numString D h) else '''')"
  by (simp add: cs_summary_def Let_def)

lemma below_one_pools:
  assumes ok: "decimal_ok D" and m: "\<And>s. s \<in> snd ` set m \<Longrightarrow> pool_grid D s \<and> owes D s"
    and r: "\<And>s. s \<in> snd ` set m \<Longrightarrow> 0 \<le> dval D (pa_effectiveLiabilityUSD s) \<and> dval D (pa_effectiveLiabilityUSD s) < 2 * 10 ^ 30"
  shows "(sm_HealthFactor (cs_summary D E rs a m p) \<noteq> '''' \<and> dval D (d_read D (sm_HealthFactor (cs_summary D E rs a m p))) < 1)
    \<longleftrightarrow> (\<exists>s\<in>snd ` set m. under_water D s)"
proof -
  have pools: "(\<exists>h. aa_health (addr_pools D m) = Some h \<and> dval D h < 1) \<longleftrightarrow> (\<exists>s\<in>snd ` set m. under_water D s)"
    unfolding addr_pools_health [OF ok] using m r by (intro bex_cong refl pool_health_below_one [OF ok]) auto
  have debt: "(\<exists>s\<in>snd ` set m. under_water D s) \<longrightarrow> aa_hasLiability (addr_pools D m)"
    unfolding addr_pools_hasLiability using m unfolding under_water_def owes_def by blast
  show ?thesis unfolding pools [symmetric] summary_health using debt pools
    by (cases "aa_health (addr_pools D m)") (auto simp: numString_nonempty [OF ok] d_read_num [OF ok])
qed

lemma summary_of:
  "s \<in> set (cs_summaries D E rs u) \<Longrightarrow> s = cs_summary D E rs (sm_Address s) (pools_of u (sm_Address s)) (protocol_of D u (sm_Address s))"
proof -
  assume "s \<in> set (cs_summaries D E rs u)"
  then obtain a where s: "s = cs_summary D E rs a (pools_of u a) (protocol_of D u a)"
    by (auto simp: cs_summaries_def map_filter_if)
  then have "sm_Address s = a" by simp
  with s show ?thesis by (simp only:)
qed

lemma sums_get: "sums_ok u \<Longrightarrow> s \<in> snd ` set (pools_of u a) \<Longrightarrow> \<exists>p. gm_get (pools_of u a) p = Some s"
proof -
  assume "sums_ok u" "s \<in> snd ` set (pools_of u a)"
  then obtain k where "(k, s) \<in> set (pools_of u a)" "gm_ok (pools_of u a)" by (auto simp: sums_ok_def)
  then have "gm_get (pools_of u a) k = Some s" by (simp add: in_gm_get)
  then show ?thesis by (rule exI)
qed

text \<open>The liability of every pool of every account is in the range the rounding is exact on.\<close>

definition liabilities_bounded :: "'d decimal_ops \<Rightarrow> 'd cs_sums \<Rightarrow> bool" where
  "liabilities_bounded D u \<longleftrightarrow> (\<forall>a. \<forall>s\<in>snd ` set (pools_of u a).
     0 \<le> dval D (pa_effectiveLiabilityUSD s) \<and> dval D (pa_effectiveLiabilityUSD s) < 2 * 10 ^ 30)"

text \<open>
  C1: What a health factor below one means: a summary reports one exactly when some pool of the
  account is under water - its effective liability exceeds its effective collateral, or it owes
  value in a reserve without a liability factor - so neither the 48-digit division nor the
  truncation to 18 decimals ever hides or invents a liquidatable pool.
\<close>

theorem health_factor_sound:
  assumes "decimal_ok D" and "ti_State i = Some st" and "computeState D cfg i out = Inr out'"
    and "pools_pass D cfg i st out = Inr w" and u: "u = cs_account_sums D (cs_env_of cfg i st) st w"
    and "liabilities_bounded D u"
  shows "\<exists>rows. to_Summaries out' = to_Summaries out @ rows \<and> (\<forall>s\<in>set rows.
    (sm_HealthFactor s \<noteq> '''' \<and> dval D (d_read D (sm_HealthFactor s)) < 1) \<longleftrightarrow>
    (\<exists>p\<in>snd ` set (pools_of u (sm_Address s)). under_water D p))"
proof -
  let ?rows = "cs_summaries D (cs_env_of cfg i st) (cw_reserves w) u"
  have "to_Summaries out' = to_Summaries out @ ?rows"
    using assms(2,3) by (rule computeState_Inr) (use assms(4) u in auto)
  moreover have "(sm_HealthFactor s \<noteq> '''' \<and> dval D (d_read D (sm_HealthFactor s)) < 1) \<longleftrightarrow>
    (\<exists>p\<in>snd ` set (pools_of u (sm_Address s)). under_water D p)" if "s \<in> set ?rows" for s
  proof -
    have inv: "pool_grid D p \<and> owes D p" if "p \<in> snd ` set (pools_of u a)" for p a
      using sums_get [OF _ that] account_sums(1) account_sums_grid [OF assms(1)] account_sums_owes [OF assms(1)]
      unfolding u sums_grid_def sums_all_def by blast
    show ?thesis
      by (subst (1 2) summary_of [OF that], rule below_one_pools [OF assms(1) inv])
        (use assms(6) in \<open>auto simp: liabilities_bounded_def\<close>)
  qed
  ultimately show ?thesis by blast
qed

section \<open>Totals\<close>

definition breakdown_list :: "'d decimal_ops \<Rightarrow> (string, 'd pool_acc) gmap \<Rightarrow> (string, pool_breakdown_entry) gmap" where
  "breakdown_list D m = map (\<lambda>(k, s). (k, breakdown_entry D s)) (sort_key fst m)"

lemma summary_breakdown:
  "gm_ok m \<Longrightarrow> sm_Metadata (cs_summary D E rs a m p) ''pool_breakdown'' =
     Some (marshalPoolBreakdown (breakdown_list D m))"
  by (simp add: cs_summary_def Let_def addr_pools_breakdown breakdown_list_def)

lemma map_sort_key_fst: "map fst (sort_key fst m) = sort (map fst m)"
  by (rule properties_for_sort [symmetric]) simp_all

lemma breakdown_keys: "map fst (breakdown_list D m) = sort (map fst m)"
  by (simp add: breakdown_list_def comp_def split_def map_sort_key_fst)

lemma sum_list_mset: "mset xs = mset ys \<Longrightarrow> sum_list xs = (sum_list ys :: rat)"
  by (metis sum_mset_sum_list)

lemma breakdown_sum:
  assumes ok: "decimal_ok D" and e: "\<And>s. f (breakdown_entry D s) = numString D (g s)"
  shows "(\<Sum>(p, e)\<leftarrow>breakdown_list D m. dval D (d_read D (f e))) = tot D g m"
proof -
  have "(\<Sum>(p, e)\<leftarrow>breakdown_list D m. dval D (d_read D (f e))) = sum_list (map (\<lambda>(p, s). dval D (g s)) (sort_key fst m))"
    by (simp add: breakdown_list_def comp_def split_def e d_read_num [OF ok])
  also have "\<dots> = sum_list (map (\<lambda>(p, s). dval D (g s)) m)"
    by (rule sum_list_mset) simp
  finally show ?thesis by (simp add: tot_def comp_def split_def)
qed

text \<open>
  C11: The totals of a summary are the sums of its pool breakdown: the deposited and the borrowed
  value it reports are exactly, without any rounding, the sums of the values the breakdown in its
  metadata reports per pool, one entry per pool in pool order.
\<close>

theorem summary_totals:
  assumes "decimal_ok D" and "ti_State i = Some st" and "computeState D cfg i out = Inr out'"
  shows "\<exists>rows. to_Summaries out' = to_Summaries out @ rows \<and> (\<forall>s\<in>set rows. \<exists>entries.
    sm_Metadata s ''pool_breakdown'' = Some (marshalPoolBreakdown entries)
    \<and> sorted (map fst entries) \<and> distinct (map fst entries)
    \<and> dval D (d_read D (sm_DepositedUSD s)) = (\<Sum>(p, e)\<leftarrow>entries. dval D (d_read D (be_DepositedUSD e)))
    \<and> dval D (d_read D (sm_BorrowedUSD s)) = (\<Sum>(p, e)\<leftarrow>entries. dval D (d_read D (be_BorrowedUSD e))))"
proof -
  obtain w where w: "to_Summaries out' = to_Summaries out @
      cs_summaries D (cs_env_of cfg i st) (cw_reserves w) (cs_account_sums D (cs_env_of cfg i st) st w)"
    using assms(2,3) by (rule computeState_Inr)
  define u where "u = cs_account_sums D (cs_env_of cfg i st) st w"
  have entry: "be_DepositedUSD (breakdown_entry D s) = numString D (pa_depositedUSD s)"
    "be_BorrowedUSD (breakdown_entry D s) = numString D (pa_borrowedUSD s)" for s
    by (simp_all add: breakdown_entry_def Let_def)
  have tot: "dval D (fr (protocol_of D u a)) = tot D fp (pools_of u a)" if "in_step D fp fr" for fp fr a
    using account_sums_balanced [OF assms(1) that] unfolding u_def balanced_def by blast
  have per: "\<exists>entries. sm_Metadata s ''pool_breakdown'' = Some (marshalPoolBreakdown entries)
      \<and> sorted (map fst entries) \<and> distinct (map fst entries)
      \<and> dval D (d_read D (sm_DepositedUSD s)) = (\<Sum>(p, e)\<leftarrow>entries. dval D (d_read D (be_DepositedUSD e)))
      \<and> dval D (d_read D (sm_BorrowedUSD s)) = (\<Sum>(p, e)\<leftarrow>entries. dval D (d_read D (be_BorrowedUSD e)))"
    if s: "s = cs_summary D E rs a (pools_of u a) (protocol_of D u a)" for s E rs a
  proof (intro exI conjI)
    have m: "gm_ok (pools_of u a)" using account_sums(1) unfolding u_def sums_ok_def by blast
    show "sm_Metadata s ''pool_breakdown'' = Some (marshalPoolBreakdown (breakdown_list D (pools_of u a)))"
      unfolding s by (rule summary_breakdown [OF m])
    show "sorted (map fst (breakdown_list D (pools_of u a)))" "distinct (map fst (breakdown_list D (pools_of u a)))"
      unfolding breakdown_keys using m by (simp_all add: gm_ok_def)
    show "dval D (d_read D (sm_DepositedUSD s)) = (\<Sum>(p, e)\<leftarrow>breakdown_list D (pools_of u a). dval D (d_read D (be_DepositedUSD e)))"
      using tot [of pa_depositedUSD ra_depositedUSD a]
      unfolding breakdown_sum [where f = be_DepositedUSD and g = pa_depositedUSD, OF assms(1) entry(1)]
      by (simp add: s cs_summary_def Let_def in_step_def d_read_num [OF assms(1)])
    show "dval D (d_read D (sm_BorrowedUSD s)) = (\<Sum>(p, e)\<leftarrow>breakdown_list D (pools_of u a). dval D (d_read D (be_BorrowedUSD e)))"
      using tot [of pa_borrowedUSD ra_borrowedUSD a]
      unfolding breakdown_sum [where f = be_BorrowedUSD and g = pa_borrowedUSD, OF assms(1) entry(2)]
      by (simp add: s cs_summary_def Let_def in_step_def d_read_num [OF assms(1)])
  qed
  show ?thesis
  proof (rule exI, rule conjI)
    show "to_Summaries out' = to_Summaries out @ cs_summaries D (cs_env_of cfg i st) (cw_reserves w) u"
      using w unfolding u_def .
  qed (rule ballI, rule per [OF summary_of])
qed

section \<open>Liquidation prices\<close>

lemma abs_mult_diff: "0 < d \<Longrightarrow> \<bar>x * d - n\<bar> = \<bar>x - n / d\<bar> * d" for d :: rat
proof -
  assume d: "0 < d"
  then have "x * d - n = (x - n / d) * d" by (simp add: left_diff_distrib)
  then show ?thesis using d by (simp add: abs_mult)
qed

lemma scenario_price_value:
  assumes ok: "decimal_ok D" and p: "scenario_price D coll liab c = Some p"
  defines "den \<equiv> dval D (lc_units c) * dval D (lc_cFactor c)"
  shows "0 < dval D p" "0 < den"
    "\<bar>dval D p * den + (dval D coll - dval D (lc_effectiveCollateralUSD c)) - dval D liab\<bar> \<le> den / (2 * 10 ^ DivisionPrecision)"
proof -
  let ?num = "dval D liab - (dval D coll - dval D (lc_effectiveCollateralUSD c))"
  let ?m = "d_mul D (lc_units c) (lc_cFactor c)"
  let ?n = "d_sub D liab (d_sub D coll (lc_effectiveCollateralUSD c))"
  have p': "p = d_div D ?n ?m" "0 < dval D ?m" and pos: "0 < dval D p"
    using p by (auto simp: scenario_price_def Let_def dec_simps [OF ok] split: if_splits)
  then have den: "0 < den" by (simp add: den_def dec_simps [OF ok])
  have "dval D (d_div D ?n ?m) = round_div (dval D ?n / dval D ?m)"
    using p'(2) by (intro dval_div [OF ok]) simp
  then have v: "dval D p = round_div (?num / den)" by (simp add: p'(1) den_def dec_simps [OF ok])
  have "\<bar>dval D p * den - ?num\<bar> = \<bar>round_div (?num / den) - ?num / den\<bar> * den"
    unfolding v by (rule abs_mult_diff [OF den])
  also have "\<dots> \<le> 1 / (2 * 10 ^ DivisionPrecision) * den"
    using den by (intro mult_right_mono round_div_err) simp
  finally show "\<bar>dval D p * den + (dval D coll - dval D (lc_effectiveCollateralUSD c)) - dval D liab\<bar> \<le> den / (2 * 10 ^ DivisionPrecision)"
    by (simp add: algebra_simps)
  show "0 < dval D p" "0 < den" by (fact pos, fact den)
qed

lemma scenarios_from:
  "gm_get (foldl (\<lambda>m c. case scenario_price D coll liab c of
       None \<Rightarrow> m | Some p \<Rightarrow> gm_set (lc_assetID c) (numString D p) m) m cs) a = Some v \<Longrightarrow>
     gm_get m a = Some v \<or> (\<exists>c\<in>set cs. lc_assetID c = a \<and> (\<exists>p. scenario_price D coll liab c = Some p \<and> v = numString D p))"
proof (induction cs arbitrary: m)
  case (Cons c cs)
  from Cons.IH [OF Cons.prems [simplified]] show ?case
    by (auto simp: gm.get_upd split: option.splits if_splits)
qed simp

text \<open>
  C25: A liquidation price brings the pool to the edge: every price the scenarios report is
  positive and belongs to one of the pool's collaterals, and revaluing that collateral at this
  price makes the pool's effective collateral equal its effective liability, up to half a unit in
  the 48th digit per effective unit held.
\<close>

theorem liquidation_price_edge:
  assumes "decimal_ok D" and "gm_get (liquidationScenarios D pool liab) asset = Some str"
  shows "\<exists>c\<in>set (pa_liquidationCollaterals pool). lc_assetID c = asset \<and> 0 < dval D (d_read D str) \<and>
    \<bar>dval D (d_read D str) * (dval D (lc_units c) * dval D (lc_cFactor c))
      + (dval D (pa_effectiveCollateralUSD pool) - dval D (lc_effectiveCollateralUSD c)) - dval D liab\<bar>
    \<le> dval D (lc_units c) * dval D (lc_cFactor c) / (2 * 10 ^ DivisionPrecision)"
proof -
  obtain c p where "c \<in> set (pa_liquidationCollaterals pool)" "lc_assetID c = asset"
    and p: "scenario_price D (pa_effectiveCollateralUSD pool) liab c = Some p" "str = numString D p"
    using assms(2) scenarios_from [where m = "[]"] by (fastforce simp: liquidationScenarios_def gm.get_nil split: if_splits)
  then show ?thesis using scenario_price_value [OF assms(1) p(1)]
    by (intro bexI [of _ c]) (simp_all add: d_read_num [OF assms(1)])
qed

section \<open>Two figures that mislead\<close>

text \<open>The amount by which a pool's effective liability exceeds its effective collateral.\<close>

definition missing_value :: "'d decimal_ops \<Rightarrow> 'd pool_acc \<Rightarrow> rat" where
  "missing_value D s = max (dval D (pr_effectiveLiability (pool_risk_of D s)) - dval D (pa_effectiveCollateralUSD s)) 0"

text \<open>
  The shortfall of a pool is the value missing to cover its liability, with one exception: a
  pool that has a liability, a factor for it, and no effective collateral at all reports the
  health factor 0 and yet the shortfall 0, although its whole liability is missing.
\<close>

theorem shortfall_reported:
  assumes "decimal_ok D"
  shows "dval D (d_read D (be_ShortfallUSD (breakdown_entry D s))) =
      (if dval D (pa_effectiveCollateralUSD s) = 0 \<and> \<not> pa_lFactorZeroLiability s then 0 else missing_value D s)
    \<and> (dval D (pa_effectiveCollateralUSD s) = 0 \<and> \<not> pa_lFactorZeroLiability s \<and> 0 < dval D (pa_effectiveLiabilityUSD s) \<longrightarrow>
       dval D (d_read D (be_HealthFactor (breakdown_entry D s))) = 0 \<and>
       missing_value D s = dval D (pa_effectiveLiabilityUSD s))"
  by (auto simp: breakdown_entry_def missing_value_def pool_risk_of_def Let_def d_read_num [OF assms]
      dec_simps [OF assms] dval_div [OF assms] trunc_to_def)

lemma addr_pool_worst:
  "aa_worst (addr_pool D kp a) = aa_worst a \<or> aa_worst (addr_pool D kp a) = Some (snd kp)"
  by (cases kp) (simp add: addr_pool_def Let_def split: option.splits)

lemma run_addr_worst:
  "aa_worst (run (addr_pool D) kps a) = aa_worst a \<or> (\<exists>kp\<in>set kps. aa_worst (run (addr_pool D) kps a) = Some (snd kp))"
proof (induction kps arbitrary: a)
  case (Cons kp kps)
  from Cons.IH [of "addr_pool D kp a"] addr_pool_worst [of D kp a] show ?case
    unfolding run_Cons by (elim disjE) auto
qed simp

lemma worst_pool_in: "aa_worst (addr_pools D m) = Some s \<Longrightarrow> s \<in> snd ` set m"
  using run_addr_worst [of D "sort_key fst m" "fresh_addr_acc D"]
  by (auto simp: addr_pools_def fresh_addr_acc_def)

text \<open>
  A worst pool without a liability factor is reported with two different liabilities: the
  breakdown shows the value borrowed, while the summary shows at least \<open>10 ^ 18\<close>, so every such
  account whose debt is below that amount appears to owe a quintillion.
\<close>

theorem factor_zero_liability:
  assumes "decimal_ok D" and "aa_worst (addr_pools D m) = Some s" and "pa_lFactorZeroLiability s"
    and "0 < dval D (pa_borrowedUSD s)"
  shows "s \<in> snd ` set m
    \<and> dval D (d_read D (be_EffectiveLiabilityUSD (breakdown_entry D s))) = dval D (pa_borrowedUSD s)
    \<and> dval D (d_read D (sm_EffectiveLiabilityUSD (cs_summary D E rs a m p))) = max (dval D (pa_borrowedUSD s)) (10 ^ 18)"
  using assms(2-4) worst_pool_in [OF assms(2)]
  by (simp add: breakdown_entry_def pool_risk_of_def Let_def cs_summary_def d_read_num [OF assms(1)]
      dec_simps [OF assms(1)] pow10_def)

section \<open>Temporary entries\<close>

lemma index_by_from: "index_by key xs k = Some x \<Longrightarrow> x \<in> set xs \<and> key x = k"
proof (induction xs rule: rev_induct)
  case (snoc y xs)
  then show ?case by (auto simp: index_by_def split: if_splits)
qed (simp add: index_by_def)

text \<open>The lifecycle rows of one change.\<close>

definition auction_row_for ::
  "blend_config \<Rightarrow> (string \<rightharpoonup> auction_state) \<Rightarrow> int \<Rightarrow> go_time \<Rightarrow> temporary_state_change \<Rightarrow> auction_lifecycle option" where
  "auction_row_for cfg auctions seq close ch =
     (if tc_Kind ch \<noteq> TemporaryAuction then None
      else if tc_Action ch = DirtyRemoval then Some \<lparr>acl_Auction = zero_auction_row_t\<lparr>
          au_ID := bl_stableID [bc_Protocol cfg, tc_PoolContractID ch, tc_UserAddress ch, auctionTypeLabel (tc_AuctionType ch), ''auction''],
          au_Protocol := bc_Protocol cfg, au_ContractID := tc_PoolContractID ch, au_UserAddress := tc_UserAddress ch,
          au_AuctionType := auctionTypeLabel (tc_AuctionType ch), au_LedgerSeq := seq, au_Timestamp := close\<rparr>, acl_Active = False\<rparr>
      else map_option (\<lambda>au. \<lparr>acl_Auction = auctionRow cfg au seq close, acl_Active = True\<rparr>)
        (auctions (typedAuctionEntityKey (tc_PoolContractID ch) (tc_UserAddress ch) (tc_AuctionType ch))))"

definition queued_row_for ::
  "blend_config \<Rightarrow> (string \<rightharpoonup> queued_reserve_state) \<Rightarrow> int \<Rightarrow> go_time \<Rightarrow> temporary_state_change \<Rightarrow> queued_reserve_lifecycle option" where
  "queued_row_for cfg queued seq close ch =
     (if tc_Kind ch \<noteq> TemporaryQueuedReserve then None
      else if tc_Action ch = DirtyRemoval then Some \<lparr>qrl_QueuedReserve = zero_queued_reserve_row_t\<lparr>
          qr_ID := bl_stableID [bc_Protocol cfg, tc_PoolContractID ch, tc_AssetID ch, ''queued_reserve''],
          qr_Protocol := bc_Protocol cfg, qr_ContractID := tc_PoolContractID ch, qr_AssetID := tc_AssetID ch,
          qr_LedgerSeq := seq, qr_Timestamp := close\<rparr>, qrl_Active = False\<rparr>
      else map_option (\<lambda>q. \<lparr>qrl_QueuedReserve = queuedReserveRow cfg q seq close, qrl_Active = True\<rparr>)
        (queued (typedReserveEntityKey (tc_PoolContractID ch) (tc_AssetID ch))))"

lemma project_temporary_rows:
  "foldl (project_temporary cfg auctions queued seq close) out changes = out\<lparr>
     to_AuctionLifecycle := to_AuctionLifecycle out @ List.map_filter (auction_row_for cfg auctions seq close) changes,
     to_QueuedReserveLifecycle := to_QueuedReserveLifecycle out @ List.map_filter (queued_row_for cfg queued seq close) changes\<rparr>"
proof (induction changes arbitrary: out)
  case (Cons ch changes)
  have "project_temporary cfg auctions queued seq close out ch = out\<lparr>
     to_AuctionLifecycle := to_AuctionLifecycle out @ List.map_filter (auction_row_for cfg auctions seq close) [ch],
     to_QueuedReserveLifecycle := to_QueuedReserveLifecycle out @ List.map_filter (queued_row_for cfg queued seq close) [ch]\<rparr>"
    by (cases "tc_Kind ch") (auto simp: project_temporary_def auction_row_for_def queued_row_for_def
        List.map_filter_def split: option.splits)
  then show ?case by (simp add: Cons.IH List.map_filter_def)
qed (simp add: List.map_filter_def)

text \<open>
  The auction lifecycle rows of a ledger never fabricate an outcome: an active row is the row of an
  auction the decoded state holds under the key of one of the ledger's upserts, an inactive row
  carries the identity of one of its removals and no payload at all, every removal has its row,
  and no slice but the two lifecycle ones is touched.
\<close>

theorem temporary_lifecycle:
  fixes cfg st changes seq close
  defines "out \<equiv> ProjectTemporaryStateChanges cfg (Some st) changes seq close"
  shows "(\<forall>row\<in>set (to_AuctionLifecycle out).
      if acl_Active row then \<exists>au\<in>set (ls_Auctions st). acl_Auction row = auctionRow cfg au seq close \<and>
        (\<exists>ch\<in>set changes. tc_Kind ch = TemporaryAuction \<and> tc_Action ch \<noteq> DirtyRemoval \<and>
          typedAuctionEntityKey (as_PoolContractID au) (as_UserAddress au) (as_AuctionType au)
            = typedAuctionEntityKey (tc_PoolContractID ch) (tc_UserAddress ch) (tc_AuctionType ch))
      else au_Lot (acl_Auction row) = [] \<and> au_Bid (acl_Auction row) = [] \<and> au_Block (acl_Auction row) = 0 \<and>
        (\<exists>ch\<in>set changes. tc_Kind ch = TemporaryAuction \<and> tc_Action ch = DirtyRemoval \<and>
          au_ContractID (acl_Auction row) = tc_PoolContractID ch \<and> au_UserAddress (acl_Auction row) = tc_UserAddress ch)) \<and>
    (\<forall>ch\<in>set changes. tc_Kind ch = TemporaryAuction \<and> tc_Action ch = DirtyRemoval \<longrightarrow>
      (\<exists>row\<in>set (to_AuctionLifecycle out). \<not> acl_Active row \<and> au_ContractID (acl_Auction row) = tc_PoolContractID ch
        \<and> au_UserAddress (acl_Auction row) = tc_UserAddress ch
        \<and> au_AuctionType (acl_Auction row) = auctionTypeLabel (tc_AuctionType ch))) \<and>
    out\<lparr>to_AuctionLifecycle := [], to_QueuedReserveLifecycle := []\<rparr> = zero_transform_output\<lparr>to_LedgerSeq := seq\<rparr>"
proof -
  let ?auctions = "index_by (\<lambda>a. typedAuctionEntityKey (as_PoolContractID a) (as_UserAddress a) (as_AuctionType a)) (ls_Auctions st)"
  let ?queued = "index_by (\<lambda>q. typedReserveEntityKey (qs_PoolContractID q) (qs_AssetID q)) (ls_QueuedReserves st)"
  have out: "out = zero_transform_output\<lparr>to_LedgerSeq := seq,
      to_AuctionLifecycle := List.map_filter (auction_row_for cfg ?auctions seq close) changes,
      to_QueuedReserveLifecycle := List.map_filter (queued_row_for cfg ?queued seq close) changes\<rparr>"
    unfolding out_def ProjectTemporaryStateChanges_def Let_def option.case project_temporary_rows
    by (cases "changes = []") (simp_all add: List.map_filter_def zero_transform_output_def)
  have rows: "set (to_AuctionLifecycle out) = {row. \<exists>ch\<in>set changes. auction_row_for cfg ?auctions seq close ch = Some row}"
    by (auto simp: out List.map_filter_def image_iff) (metis option.sel)
  show ?thesis
    unfolding rows by (auto simp: auction_row_for_def zero_auction_row_t_def out zero_transform_output_def
        dest!: index_by_from split: if_splits)
qed

section \<open>Examples\<close>

text \<open>
  A pool without reserves, a leg of account \<open>A\<close> in an asset the pool has not decoded, and a
  backstop deposit of account \<open>B\<close> without prices.
\<close>

definition su_cfg :: blend_config where
  "su_cfg = bl_DefaultConfig\<lparr>bc_AllowUnknownV2 := True\<rparr>"

definition su_leg :: user_reserve_position where
  "su_leg = zero_user_reserve_position\<lparr>up_Address := ''A'', up_PoolContractID := ''P'', up_AssetID := ''X''\<rparr>"

definition su_deposit :: backstop_position where
  "su_deposit = zero_backstop_position\<lparr>bk_Address := ''B'', bk_PoolContractID := ''P''\<rparr>"

definition su_state :: ledger_state where
  "su_state = zero_ledger_state\<lparr>ls_Pools := [zero_blend_pool_state\<lparr>bp_ContractID := ''P''\<rparr>],
     ls_Users := [su_leg], ls_Backstops := [su_deposit]\<rparr>"

definition su_input :: transform_input where
  "su_input = zero_transform_input\<lparr>ti_State := Some su_state\<rparr>"

lemma cs_pool_bare:
  assumes "resolvePool D (ce_cfg E) (fst (enrichPoolIdentity (ce_cfg E) p)) = Some np" and "bp_Reserves p = []"
  shows "\<exists>o'. cs_pool D E p w = Inr (w\<lparr>cw_pools := (cw_pools w)(bp_ContractID p \<mapsto> np), cw_out := o'\<rparr>)"
proof -
  obtain q src where e: "enrichPoolIdentity (ce_cfg E) p = (q, src)" by (cases "enrichPoolIdentity (ce_cfg E) p")
  then have "resolvePool D (ce_cfg E) q = Some np" "bp_Reserves q = []" "bp_ContractID q = bp_ContractID p"
    using assms enrich_same [of "ce_cfg E" p] by simp_all
  then show ?thesis by (auto simp: cs_pool_def e Let_def)
qed

lemma su_pass:
  obtains w np where "pools_pass rat_decimal su_cfg su_input su_state zero_transform_output = Inr w"
    "cw_pools w = [''P'' \<mapsto> np]" "cw_reserves w = []"
proof -
  let ?E = "cs_env_of su_cfg su_input su_state"
  let ?p = "zero_blend_pool_state\<lparr>bp_ContractID := ''P''\<rparr>"
  let ?w = "\<lparr>cw_pools = Map.empty, cw_reserves = [], cw_out = zero_transform_output\<rparr> :: rat cs_work"
  have "bc_AllowUnknownV2 (ce_cfg ?E)" by (simp add: cs_env_of_def su_cfg_def)
  then obtain np where np: "resolvePool rat_decimal (ce_cfg ?E) (fst (enrichPoolIdentity (ce_cfg ?E) ?p)) = Some np"
    by (auto simp: resolvePool_def)
  have "bp_Reserves ?p = []" "bp_ContractID ?p = ''P''" by (simp_all add: zero_blend_pool_state_def)
  then obtain o' where "cs_pool rat_decimal ?E ?p ?w = Inr (?w\<lparr>cw_pools := [''P'' \<mapsto> np], cw_out := o'\<rparr>)"
    using cs_pool_bare [OF np, of ?w] by auto
  then have "pools_pass rat_decimal su_cfg su_input su_state zero_transform_output = Inr (?w\<lparr>cw_pools := [''P'' \<mapsto> np], cw_out := o'\<rparr>)"
    by (simp add: pools_pass_def su_state_def)
  then show ?thesis by (rule that) simp_all
qed

lemma su_legs: "ls_Users su_state = [su_leg]" "ls_Backstops su_state = [su_deposit]"
  "up_Address su_leg = ''A''" "up_PoolContractID su_leg = ''P''" "up_AssetID su_leg = ''X''"
  "bk_Address su_deposit = ''B''" "bk_PoolContractID su_deposit = ''P''"
  by (simp_all add: su_state_def su_leg_def su_deposit_def)

lemma su_runs:
  obtains out' w where "computeState rat_decimal su_cfg su_input zero_transform_output = Inr out'"
    "pools_pass rat_decimal su_cfg su_input su_state zero_transform_output = Inr w"
    "touched su_state w = {''A'', ''B''}" "incomplete su_state w = {''A''}" "cw_reserves w = []"
proof -
  obtain w np where w: "pools_pass rat_decimal su_cfg su_input su_state zero_transform_output = Inr w"
    "cw_pools w = [''P'' \<mapsto> np]" "cw_reserves w = []" by (rule su_pass)
  have "ti_State su_input = Some su_state" by (simp add: su_input_def)
  then obtain out' where out: "computeState rat_decimal su_cfg su_input zero_transform_output = Inr out'"
    using w(1) by (simp add: computeState_Some Let_def)
  have k: "leg_known (cw_pools w) su_leg" "\<not> leg_complete (cw_reserves w) su_leg"
    by (simp_all add: leg_known_def leg_complete_def leg_reserve_def gm.get_nil su_legs w(2,3))
  have t: "touched su_state w = {''A'', ''B''}"
  proof -
    have "{leg \<in> set [su_leg]. leg_known (cw_pools w) leg} = {su_leg}"
      "{b \<in> set [su_deposit]. cw_pools w (bk_PoolContractID b) \<noteq> None} = {su_deposit}"
      using k(1) su_legs(7) w(2) by auto
    then show ?thesis by (simp add: touched_def su_legs insert_commute)
  qed
  have "{leg \<in> set [su_leg]. leg_known (cw_pools w) leg \<and> \<not> leg_complete (cw_reserves w) leg} = {su_leg}"
    using k by auto
  then have "incomplete su_state w = {''A''}" by (simp add: incomplete_def su_legs)
  with out w(1) t show ?thesis using w(3) by (rule that)
qed

theorem summaries_emitted_witness:
  "\<exists>out'. computeState rat_decimal su_cfg su_input zero_transform_output = Inr out' \<and>
     map sm_Address (to_Summaries out') = [''B'']"
proof -
  obtain out' w where c: "computeState rat_decimal su_cfg su_input zero_transform_output = Inr out'"
    and w: "pools_pass rat_decimal su_cfg su_input su_state zero_transform_output = Inr w"
    "touched su_state w = {''A'', ''B''}" "incomplete su_state w = {''A''}" by (rule su_runs)
  from summaries_emitted [OF _ c, of su_state] w have "map sm_Address (to_Summaries out') = sorted_list_of_set ({''A'', ''B''} - {''A''})"
    by (auto simp: su_input_def zero_transform_output_def)
  also have "{''A'', ''B''} - {''A''} = {''B''}" by auto
  finally show ?thesis using c by simp
qed

definition su_bad :: ledger_state where
  "su_bad = zero_ledger_state\<lparr>ls_Pools := [zero_blend_pool_state\<lparr>bp_ContractID := ''P'',
     bp_Reserves := [zero_reserve_state\<lparr>rs_AssetID := ''X'', rs_BRateRaw := ''x''\<rparr>]\<rparr>]\<rparr>"

theorem valuation_fails_witness:
  "\<exists>e. computeState rat_decimal su_cfg (zero_transform_input\<lparr>ti_State := Some su_bad\<rparr>) zero_transform_output = Inl e"
proof -
  let ?r = "zero_reserve_state\<lparr>rs_AssetID := ''X'', rs_BRateRaw := ''x''\<rparr>"
  let ?p = "zero_blend_pool_state\<lparr>bp_ContractID := ''P'', bp_Reserves := [?r]\<rparr>"
  have "d_parse rat_decimal ''x'' = None" by code_simp
  then have bad: "\<exists>v\<in>checked_fields ?r. v \<noteq> '''' \<and> d_parse rat_decimal v = None"
    by (auto simp: checked_fields_def)
  obtain np where np: "resolvePool rat_decimal su_cfg (fst (enrichPoolIdentity su_cfg ?p)) = Some np"
    by (auto simp: resolvePool_def su_cfg_def)
  have st: "ti_State (zero_transform_input\<lparr>ti_State := Some su_bad\<rparr>) = Some su_bad" by simp
  have m: "?p \<in> set (ls_Pools su_bad)" "?r \<in> set (bp_Reserves ?p)" "reserveHasFoldedData ?r"
    by (simp_all add: su_bad_def reserveHasFoldedData_def)
  show ?thesis unfolding valuation_fails [OF st] using bad np m by blast
qed

lemma su_no_debt:
  assumes "cw_reserves w = []" and "s \<in> snd ` set (pools_of (cs_account_sums rat_decimal E su_state w) a)"
  shows "dval rat_decimal (pa_effectiveLiabilityUSD s) = 0 \<and> \<not> pa_lFactorZeroLiability s"
proof -
  let ?P = "\<lambda>s. dval rat_decimal (pa_effectiveLiabilityUSD s) = 0 \<and> \<not> pa_lFactorZeroLiability s"
  note upd = sums_all_upd [where P = ?P]
  have f: "?P (fresh_pool_acc rat_decimal q)" for q by (simp add: fresh_pool_acc_def Let_def dval_new [OF rat_decimal_ok])
  have l: "sums_all ?P (cs_leg rat_decimal E ps [] su_leg u)" if "sums_all ?P u" for ps u
    using that by (auto simp: cs_leg_def gm.get_nil intro!: upd f split: option.splits)
  have d: "sums_all ?P (cs_backstop rat_decimal E ps su_deposit u)" if "sums_all ?P u" for ps u
    using that by (auto simp: cs_backstop_def Let_def frame weigh_pool_def intro!: upd f split: option.splits prod.splits if_splits)
  have "sums_all ?P (cs_account_sums rat_decimal E su_state w)"
    unfolding cs_account_sums_def assms su_legs run_Cons run_Nil
    by (intro d l) (simp add: sums_all_def pools_of_def gm.get_nil)
  then show ?thesis using sums_get [OF account_sums(1) assms(2)] unfolding sums_all_def by blast
qed

lemma su_summary:
  obtains out' s where "computeState rat_decimal su_cfg su_input zero_transform_output = Inr out'"
    "s \<in> set (to_Summaries out')" "sm_Address s = ''B''"
proof -
  obtain out' w where c: "computeState rat_decimal su_cfg su_input zero_transform_output = Inr out'"
    and w: "pools_pass rat_decimal su_cfg su_input su_state zero_transform_output = Inr w"
    "touched su_state w = {''A'', ''B''}" "incomplete su_state w = {''A''}" by (rule su_runs)
  let ?E = "cs_env_of su_cfg su_input su_state"
  have st: "ti_State su_input = Some su_state" by (simp add: su_input_def)
  have "to_Summaries out' = cs_summaries rat_decimal ?E (cw_reserves w) (cs_account_sums rat_decimal ?E su_state w)"
    using st c by (rule computeState_Inr) (use w(1) in \<open>simp add: zero_transform_output_def\<close>)
  moreover have "{''A'', ''B''} - {''A''} = {''B''}" by auto
  ultimately have "map sm_Address (to_Summaries out') = [''B'']" by (simp add: summary_addresses w)
  then obtain s where "s \<in> set (to_Summaries out')" "sm_Address s = ''B''" by auto
  with c show ?thesis by (rule that)
qed

theorem health_factor_sound_witness:
  "\<exists>out'. computeState rat_decimal su_cfg su_input zero_transform_output = Inr out' \<and>
    (\<exists>s\<in>set (to_Summaries out'). sm_Address s = ''B'' \<and>
      \<not> (sm_HealthFactor s \<noteq> '''' \<and> dval rat_decimal (d_read rat_decimal (sm_HealthFactor s)) < 1))"
proof -
  obtain out' s where c: "computeState rat_decimal su_cfg su_input zero_transform_output = Inr out'"
    and s: "s \<in> set (to_Summaries out')" "sm_Address s = ''B''" by (rule su_summary)
  obtain w where w: "pools_pass rat_decimal su_cfg su_input su_state zero_transform_output = Inr w" "cw_reserves w = []"
    by (rule su_runs)
  let ?u = "cs_account_sums rat_decimal (cs_env_of su_cfg su_input su_state) su_state w"
  have st: "ti_State su_input = Some su_state" by (simp add: su_input_def)
  have z: "to_Summaries zero_transform_output = []" by (simp add: zero_transform_output_def)
  have b: "liabilities_bounded rat_decimal ?u"
    using su_no_debt [OF w(2)] by (simp add: liabilities_bounded_def)
  have "\<not> under_water rat_decimal p" if "p \<in> snd ` set (pools_of ?u ''B'')" for p
    using su_no_debt [OF w(2) that] by (simp add: under_water_def)
  then have "\<not> (sm_HealthFactor s \<noteq> '''' \<and> dval rat_decimal (d_read rat_decimal (sm_HealthFactor s)) < 1)"
    using health_factor_sound [OF rat_decimal_ok st c w(1) refl b] s z by auto
  then show ?thesis using c s by blast
qed


theorem summary_totals_witness:
  "\<exists>out'. computeState rat_decimal su_cfg su_input zero_transform_output = Inr out' \<and>
    (\<exists>s\<in>set (to_Summaries out'). \<exists>entries. sm_Address s = ''B'' \<and>
      sm_Metadata s ''pool_breakdown'' = Some (marshalPoolBreakdown entries) \<and>
      dval rat_decimal (d_read rat_decimal (sm_DepositedUSD s))
        = (\<Sum>(p, e)\<leftarrow>entries. dval rat_decimal (d_read rat_decimal (be_DepositedUSD e))))"
proof -
  obtain out' s where c: "computeState rat_decimal su_cfg su_input zero_transform_output = Inr out'"
    and s: "s \<in> set (to_Summaries out')" "sm_Address s = ''B''" by (rule su_summary)
  have st: "ti_State su_input = Some su_state" by (simp add: su_input_def)
  have z: "to_Summaries zero_transform_output = []" by (simp add: zero_transform_output_def)
  obtain entries where "sm_Metadata s ''pool_breakdown'' = Some (marshalPoolBreakdown entries)"
    "dval rat_decimal (d_read rat_decimal (sm_DepositedUSD s))
        = (\<Sum>(p, e)\<leftarrow>entries. dval rat_decimal (d_read rat_decimal (be_DepositedUSD e)))"
    using summary_totals [OF rat_decimal_ok st c] s(1) z by auto
  then show ?thesis using c s by blast
qed

lemma rat_dval: "dval rat_decimal x = x"
  by (simp add: rat_decimal_def)

text \<open>A pool with two units of one collateral at a factor of one half, owing five.\<close>

definition su_collateral :: "rat liquidation_collateral" where
  "su_collateral = \<lparr>lc_assetID = ''X'', lc_units = 2, lc_cFactor = 1 / 2, lc_effectiveCollateralUSD = 4\<rparr>"

definition su_acc :: "rat pool_acc" where
  "su_acc = (fresh_pool_acc rat_decimal ''P'')\<lparr>pa_effectiveCollateralUSD := 4, pa_effectiveLiabilityUSD := 5,
     pa_liquidationCollaterals := [su_collateral]\<rparr>"

lemma su_scenario: "\<exists>str. gm_get (liquidationScenarios rat_decimal su_acc 5) ''X'' = Some str"
proof -
  have "scenario_price rat_decimal 4 5 su_collateral \<noteq> None"
    using round_div_int [of 5]
    by (simp add: scenario_price_def su_collateral_def Let_def d_le_def d_lt_def decZero_def rat_decimal_def)
  then show ?thesis
    using dval_zero [OF rat_decimal_ok]
    by (auto simp: liquidationScenarios_def su_acc_def gm.get_upd su_collateral_def d_le_val [OF rat_decimal_ok] rat_dval)
qed

theorem liquidation_price_edge_witness:
  "\<exists>str. gm_get (liquidationScenarios rat_decimal su_acc 5) ''X'' = Some str \<and> 0 < dval rat_decimal (d_read rat_decimal str)"
  using su_scenario liquidation_price_edge [OF rat_decimal_ok] by blast

theorem shortfall_reported_witness:
  "dval rat_decimal (d_read rat_decimal (be_ShortfallUSD (breakdown_entry rat_decimal (su_acc\<lparr>pa_effectiveCollateralUSD := 0\<rparr>)))) = 0 \<and>
   dval rat_decimal (d_read rat_decimal (be_HealthFactor (breakdown_entry rat_decimal (su_acc\<lparr>pa_effectiveCollateralUSD := 0\<rparr>)))) = 0 \<and>
   missing_value rat_decimal (su_acc\<lparr>pa_effectiveCollateralUSD := 0\<rparr>) = 5"
  using shortfall_reported [OF rat_decimal_ok, of "su_acc\<lparr>pa_effectiveCollateralUSD := 0\<rparr>"]
  by (simp add: su_acc_def rat_dval fresh_pool_acc_def Let_def)

theorem factor_zero_liability_witness:
  "dval rat_decimal (d_read rat_decimal (sm_EffectiveLiabilityUSD (cs_summary rat_decimal (cs_env_of su_cfg su_input su_state) [] ''A''
      [(''P'', su_acc\<lparr>pa_lFactorZeroLiability := True, pa_borrowedUSD := 7\<rparr>)] (fresh_protocol_acc rat_decimal)))) = 10 ^ 18"
proof -
  let ?s = "su_acc\<lparr>pa_lFactorZeroLiability := True, pa_borrowedUSD := 7\<rparr>"
  have "aa_worst (addr_pools rat_decimal [(''P'', ?s)]) = Some ?s"
    by (simp add: addr_pools_def addr_pool_def fresh_addr_acc_def pool_risk_of_def Let_def)
  from factor_zero_liability [OF rat_decimal_ok this] show ?thesis by (simp add: rat_dval)
qed

definition su_removal :: temporary_state_change where
  "su_removal = zero_temporary_state_change\<lparr>tc_Kind := TemporaryAuction, tc_Action := DirtyRemoval,
     tc_PoolContractID := ''P'', tc_UserAddress := ''A''\<rparr>"

theorem temporary_lifecycle_witness:
  "\<exists>row\<in>set (to_AuctionLifecycle (ProjectTemporaryStateChanges su_cfg (Some su_state) [su_removal] 1 zero_time)).
     \<not> acl_Active row \<and> au_ContractID (acl_Auction row) = ''P'' \<and> au_UserAddress (acl_Auction row) = ''A''"
  using temporary_lifecycle [of su_cfg su_state "[su_removal]" 1 zero_time] by (auto simp: su_removal_def)

end
