(* ===== verification/Blend_Events.thy ===== *)
theory Blend_Events
  imports Stellar Bindings Blend_Types GoText GoJson
begin

text \<open>
  src/blend/decode.go: from a raw event to the activity it describes, and the readers of contract
  values at the end of src/blend/state.go that the event and the state decoder share.  Strings are
  bytes; letter case is ASCII.
\<close>

section \<open>Contract values (decode.go, state.go)\<close>

fun scValSymbol :: "scval \<Rightarrow> string" where
  "scValSymbol (ScSym s) = s"
| "scValSymbol (ScStr s) = s"
| "scValSymbol _ = ''''"

definition scValAddress :: "sdk \<Rightarrow> scval \<Rightarrow> string" where
  "scValAddress S v = addr S v"

definition uint128ToString :: "w64 \<Rightarrow> w64 \<Rightarrow> string" where
  "uint128ToString hi lo = show_int (push_bit 64 (uint hi) + uint lo)"

definition int128ToString :: "w64 \<Rightarrow> w64 \<Rightarrow> string" where
  "int128ToString hi lo =
     (let h = (if hi AND 0x8000000000000000 \<noteq> 0 then uint hi - push_bit 64 1 else uint hi)
      in show_int (push_bit 64 h + uint lo))"

definition first_nonempty :: "string list \<Rightarrow> string" where
  "first_nonempty xs = (case dropWhile (\<lambda>x. x = '''') xs of [] \<Rightarrow> '''' | x # _ \<Rightarrow> x)"

fun scValNumerics :: "scval \<Rightarrow> string list" where
  "scValNumerics (ScVec (Some vs)) = concat (map scValNumerics vs)"
| "scValNumerics (ScMap (Some es)) = concat (map (\<lambda>e. scValNumerics (snd e)) es)"
| "scValNumerics (ScI32 w) = [show_int (sint w)]"
| "scValNumerics (ScU32 w) = [show_int (uint w)]"
| "scValNumerics (ScI64 w) = [show_int (sint w)]"
| "scValNumerics (ScU64 w) = [show_int (uint w)]"
| "scValNumerics (ScI128 hi lo) = [int128ToString hi lo]"
| "scValNumerics (ScU128 hi lo) = [uint128ToString hi lo]"
| "scValNumerics _ = []"

text \<open>The first account and the first contract found in a value, in wire order.\<close>

definition merge_first :: "string \<times> string \<Rightarrow> string \<times> string \<Rightarrow> string \<times> string" where
  "merge_first wa ua = (if fst wa = '''' then fst ua else fst wa, if snd wa = '''' then snd ua else snd wa)"

definition merge_all :: "(string \<times> string) list \<Rightarrow> string \<times> string" where
  "merge_all ps = foldl merge_first ('''', '''') ps"

definition collect_address :: "sdk \<Rightarrow> scval \<Rightarrow> (string \<times> string) option" where
  "collect_address S v =
     (let a = scValAddress S v in
      if a = '''' then None
      else if sdk_valid_account S a then Some (a, '''')
      else if sdk_valid_contract S a then Some ('''', a) else None)"

fun collectScValAddresses :: "sdk \<Rightarrow> scval \<Rightarrow> string \<times> string" where
  "collectScValAddresses S (ScVec (Some vs)) = merge_all (map (collectScValAddresses S) vs)"
| "collectScValAddresses S (ScMap (Some es)) = merge_all (map (\<lambda>e. collectScValAddresses S (snd e)) es)"
| "collectScValAddresses S v = (case collect_address S v of None \<Rightarrow> ('''', '''') | Some p \<Rightarrow> p)"

fun scIntString :: "scval \<Rightarrow> string option" where
  "scIntString (ScU32 w) = Some (show_int (uint w))"
| "scIntString (ScI32 w) = Some (show_int (sint w))"
| "scIntString (ScU64 w) = Some (show_int (uint w))"
| "scIntString (ScTimepoint w) = Some (show_int (uint w))"
| "scIntString (ScDuration w) = Some (show_int (uint w))"
| "scIntString (ScI64 w) = Some (show_int (sint w))"
| "scIntString (ScU128 hi lo) = Some (uint128ToString hi lo)"
| "scIntString (ScI128 hi lo) = Some (int128ToString hi lo)"
| "scIntString _ = None"

fun scInt64 :: "scval \<Rightarrow> int option" where
  "scInt64 (ScU32 w) = Some (uint w)"
| "scInt64 (ScI32 w) = Some (sint w)"
| "scInt64 (ScU64 w) = (if uint w > 2 ^ 63 - 1 then None else Some (uint w))"
| "scInt64 (ScI64 w) = Some (sint w)"
| "scInt64 (ScU128 hi lo) = parse_int64 (uint128ToString hi lo)"
| "scInt64 (ScI128 hi lo) = parse_int64 (int128ToString hi lo)"
| "scInt64 _ = None"

definition scInt32 :: "scval \<Rightarrow> int option" where
  "scInt32 v = (case scInt64 v of None \<Rightarrow> None
     | Some n \<Rightarrow> if n < - 2147483648 \<or> n > 2147483647 then None else Some n)"

definition scSymbol :: "scval \<Rightarrow> string option" where
  "scSymbol v = (if scValSymbol v = '''' then None else Some (scValSymbol v))"

definition scAddress :: "sdk \<Rightarrow> scval \<Rightarrow> string option" where
  "scAddress S v = (if scValAddress S v = '''' then None else Some (scValAddress S v))"

definition scVec :: "scval \<Rightarrow> scval list option" where
  "scVec v = get_vec v"

definition scMapFields :: "scval \<Rightarrow> (string \<rightharpoonup> scval) option" where
  "scMapFields v = map_option (\<lambda>es. foldl (\<lambda>m (k, x). case scSymbol k of None \<Rightarrow> m | Some n \<Rightarrow> m(n \<mapsto> x)) Map.empty es)
     (get_map v)"

definition scVariant :: "scval \<Rightarrow> (string \<times> scval list) option" where
  "scVariant v = (case get_vec v of
     Some (x # xs) \<Rightarrow> map_option (\<lambda>n. (n, xs)) (scSymbol x) | _ \<Rightarrow> None)"

text \<open>Fields of a struct value; a missing field reads as the zero value, a missing struct as none.\<close>

definition fieldAddress :: "sdk \<Rightarrow> (string \<rightharpoonup> scval) option \<Rightarrow> string \<Rightarrow> string option" where
  "fieldAddress S fs name = (case fs of None \<Rightarrow> None | Some f \<Rightarrow> scAddress S (field f name))"

definition fieldIntString :: "(string \<rightharpoonup> scval) option \<Rightarrow> string \<Rightarrow> string option" where
  "fieldIntString fs name = (case fs of None \<Rightarrow> None | Some f \<Rightarrow> scIntString (field f name))"

definition fieldInt32 :: "(string \<rightharpoonup> scval) option \<Rightarrow> string \<Rightarrow> int option" where
  "fieldInt32 fs name = (case fs of None \<Rightarrow> None | Some f \<Rightarrow> scInt32 (field f name))"

definition fieldBool :: "(string \<rightharpoonup> scval) option \<Rightarrow> string \<Rightarrow> bool option" where
  "fieldBool fs name = (case fs of None \<Rightarrow> None | Some f \<Rightarrow>
     (case f name of Some (ScBool b) \<Rightarrow> Some b | _ \<Rightarrow> None))"

definition decodeAuctionEntries :: "sdk \<Rightarrow> scval \<Rightarrow> auction_entry list option" where
  "decodeAuctionEntries S v =
     (case get_map v of
        None \<Rightarrow> None
      | Some es \<Rightarrow>
          if \<exists>e\<in>set es. scAddress S (fst e) = None \<or> scIntString (snd e) = None then None
          else Some (sort_key ae_AssetID (map (\<lambda>(k, x).
            \<lparr>ae_AssetID = the (scAddress S k), ae_AmountRaw = the (scIntString x)\<rparr>) es)))"

section \<open>Event names\<close>

definition exactEventActivities :: "string list" where
  "exactEventActivities = [''supply'', ''withdraw'', ''supply_collateral'', ''withdraw_collateral'', ''borrow'', ''repay'',
     ''flash_loan'', ''claim'', ''new_auction'', ''fill_auction'', ''delete_auction'', ''set_status'', ''set_reserve'',
     ''queue_set_reserve'', ''cancel_set_reserve'', ''update_pool'', ''set_admin'', ''gulp'', ''gulp_emissions'',
     ''reserve_emission_update'', ''defaulted_debt'']"

definition legacyEventActivities :: "(string \<times> string) list" where
  "legacyEventActivities = [(''deposit'', ''deposit''), (''liquidation'', ''liquidation''), (''claim_rewards'', ''claim_rewards''),
     (''bad_debt'', ''bad_debt''), (''baddebt'', ''bad_debt''), (''reserve_config'', ''contract_status_change''),
     (''contract_status_change'', ''contract_status_change'')]"

definition classifyEventName :: "string \<Rightarrow> string" where
  "classifyEventName name =
     (let s = to_lower (trim_space name) in
      if s \<in> set exactEventActivities then s
      else (case map_of legacyEventActivities s of Some act \<Rightarrow> act | None \<Rightarrow> ''''))"

definition directionForActivity :: "string \<Rightarrow> string" where
  "directionForActivity a =
     (if a \<in> {''deposit'', ''repay'', ''claim_rewards'', ''supply'', ''supply_collateral'', ''claim''} then ''in''
      else if a \<in> {''withdraw'', ''borrow'', ''withdraw_collateral''} then ''out'' else ''neutral'')"

definition contractScopedActivity :: "string \<Rightarrow> bool" where
  "contractScopedActivity a \<longleftrightarrow> a \<in> {''contract_status_change'', ''set_status'', ''set_reserve'', ''queue_set_reserve'',
     ''cancel_set_reserve'', ''update_pool'', ''set_admin'', ''gulp'', ''gulp_emissions'', ''reserve_emission_update'',
     ''defaulted_debt''}"

definition isAuctionActivity :: "string \<Rightarrow> bool" where
  "isAuctionActivity a \<longleftrightarrow> a \<in> {''new_auction'', ''fill_auction'', ''delete_auction''}"

fun contains :: "string \<Rightarrow> string \<Rightarrow> bool" where
  "contains k [] = (k = [])"
| "contains k (c # s) = (take (length k) (c # s) = k \<or> contains k s)"

definition shareTypeForEvent :: "string \<Rightarrow> string \<Rightarrow> string" where
  "shareTypeForEvent eventName a =
     (if contains ''collateral'' (to_lower (trim_space eventName)) then ''collateral''
      else if a \<in> {''supply_collateral'', ''withdraw_collateral''} then ''collateral''
      else if a \<in> {''deposit'', ''withdraw'', ''supply''} then ''supply''
      else if a \<in> {''borrow'', ''repay''} then ''liability'' else '''')"

definition looksBlend :: "raw_event_envelope \<Rightarrow> bool" where
  "looksBlend evt \<longleftrightarrow> ev_Metadata evt ''protocol_id'' = Some ''blend'' \<or>
     (\<exists>k\<in>set [''blend'', ''pool'', ''backstop'', ''supply'', ''borrow'', ''repay'', ''withdraw'', ''liquid'', ''emission'',
        ''flash'', ''auction'', ''gulp'', ''defaulted_debt''].
        contains k (to_lower (ev_ContractID evt @ '' '' @ ev_Topic evt)))"

section \<open>Addresses in text\<close>

definition addressRE_char :: "char \<Rightarrow> bool" where
  "addressRE_char c \<longleftrightarrow> (let n = of_char c :: nat in 65 \<le> n \<and> n \<le> 90 \<or> 50 \<le> n \<and> n \<le> 55)"

text \<open>\<open>FindAllString\<close> of \<open>[GC][A-Z2-7]{55}\<close>: leftmost matches that do not overlap.\<close>

fun find_addresses :: "string \<Rightarrow> string list" where
  "find_addresses [] = []"
| "find_addresses (c # s) =
     (if (c = CHR ''G'' \<or> c = CHR ''C'') \<and> 55 \<le> length s \<and> list_all addressRE_char (take 55 s)
      then (c # take 55 s) # find_addresses (drop 55 s) else find_addresses s)"

definition extractAddresses :: "sdk \<Rightarrow> string \<Rightarrow> string \<times> string" where
  "extractAddresses S s = foldl (\<lambda>(wallet, asset) m.
       if wallet = '''' \<and> sdk_valid_account S m then (m, asset)
       else if asset = '''' \<and> sdk_valid_contract S m then (wallet, m) else (wallet, asset))
     ('''', '''') (find_addresses s)"

section \<open>JSON payloads\<close>

text \<open>
  What the decoder is given besides the SDK: the text of a number literal after its passage
  through \<open>float64\<close> (None when it overflows), and the order in which Go happens to range over the
  keys of a map.
\<close>

record json_env =
  je_float :: "string \<Rightarrow> string option"
  je_order :: "string list \<Rightarrow> string list"

definition jsonString :: "json_env \<Rightarrow> json option \<Rightarrow> string" where
  "jsonString J v = (case v of
     Some (JStr s) \<Rightarrow> s | Some (JNum l) \<Rightarrow> (case je_float J l of None \<Rightarrow> '''' | Some t \<Rightarrow> t) | _ \<Rightarrow> '''')"

primrec firstJSONNumeric :: "json_env \<Rightarrow> json \<Rightarrow> string" where
  "firstJSONNumeric J JNull = ''''"
| "firstJSONNumeric J (JBool b) = ''''"
| "firstJSONNumeric J (JNum l) = jsonString J (Some (JNum l))"
| "firstJSONNumeric J (JStr s) = ''''"
| "firstJSONNumeric J (JArr xs) = first_nonempty (map (firstJSONNumeric J) xs)"
| "firstJSONNumeric J (JObj ms) =
     (let found = map (map_prod id (firstJSONNumeric J)) ms in
      first_nonempty (map (\<lambda>key. case gm_get found key of None \<Rightarrow> '''' | Some n \<Rightarrow> n)
        [''amount'', ''tokens'', ''shares'', ''share_amount'']))"

definition ends_with :: "string \<Rightarrow> string \<Rightarrow> bool" where
  "ends_with suf s \<longleftrightarrow> length suf \<le> length s \<and> drop (length s - length suf) s = suf"

primrec extractJSONAddresses :: "sdk \<Rightarrow> json_env \<Rightarrow> json \<Rightarrow> string \<times> string" where
  "extractJSONAddresses S J JNull = ('''', '''')"
| "extractJSONAddresses S J (JBool b) = ('''', '''')"
| "extractJSONAddresses S J (JNum l) = ('''', '''')"
| "extractJSONAddresses S J (JStr s) = extractAddresses S s"
| "extractJSONAddresses S J (JArr xs) = merge_all (map (extractJSONAddresses S J) xs)"
| "extractJSONAddresses S J (JObj ms) =
     (let found = map (map_prod id (extractJSONAddresses S J)) ms in
      merge_all (map (\<lambda>key. if ends_with ''_xdr'' (to_lower key) \<or> to_lower key = ''raw_event'' then ('''', '''')
          else (case gm_get found key of None \<Rightarrow> ('''', '''') | Some p \<Rightarrow> p))
        (je_order J (map fst ms))))"

definition decodeScValBase64 :: "sdk \<Rightarrow> string \<Rightarrow> scval option" where
  "decodeScValBase64 S raw = (if raw = '''' then None else decodeVal S raw)"

section \<open>Decoded events\<close>

record decoded_event =
  de_isBlend :: bool
  de_eventName :: string
  de_activityType :: string
  de_address :: string
  de_assetID :: string
  de_amountRaw :: string
  de_shareRaw :: string
  de_direction :: string
  de_reason :: string
  de_counterparty :: string
  de_metadata :: "string \<rightharpoonup> string"

definition zero_decoded_event :: decoded_event where
  "zero_decoded_event = \<lparr>de_isBlend = False, de_eventName = '''', de_activityType = '''', de_address = '''',
     de_assetID = '''', de_amountRaw = '''', de_shareRaw = '''', de_direction = '''', de_reason = '''',
     de_counterparty = '''', de_metadata = Map.empty\<rparr>"

definition overwrite :: "string \<Rightarrow> string \<Rightarrow> string" where
  "overwrite new old = (if new \<noteq> '''' then new else old)"

definition mergeDecoded :: "decoded_event \<Rightarrow> decoded_event \<Rightarrow> decoded_event" where
  "mergeDecoded target src = target\<lparr>
     de_eventName := overwrite (de_eventName src) (de_eventName target),
     de_activityType := overwrite (de_activityType src) (de_activityType target),
     de_address := overwrite (de_address src) (de_address target),
     de_assetID := overwrite (de_assetID src) (de_assetID target),
     de_amountRaw := overwrite (de_amountRaw src) (de_amountRaw target),
     de_shareRaw := overwrite (de_shareRaw src) (de_shareRaw target),
     de_direction := overwrite (de_direction src) (de_direction target),
     de_counterparty := overwrite (de_counterparty src) (de_counterparty target),
     de_metadata := de_metadata target ++ de_metadata src\<rparr>"

section \<open>Auction events\<close>

definition auctionEntriesJSON :: "auction_entry list \<Rightarrow> string" where
  "auctionEntriesJSON entries = json_map json_string (gm.load ae_AssetID ae_AmountRaw entries [])"

definition mergeAuctionDataMetadata :: "sdk \<Rightarrow> (string \<rightharpoonup> scval) \<Rightarrow> (string \<rightharpoonup> string) \<Rightarrow> string \<rightharpoonup> string" where
  "mergeAuctionDataMetadata S fs metadata =
     (let put = (\<lambda>k x m. case x of None \<Rightarrow> m | Some v \<Rightarrow> m(k \<mapsto> v)) in
      put ''auction_bid'' (map_option auctionEntriesJSON (decodeAuctionEntries S (field fs ''bid'')))
        (put ''auction_lot'' (map_option auctionEntriesJSON (decodeAuctionEntries S (field fs ''lot'')))
          (put ''auction_block'' (fieldIntString (Some fs) ''block'') metadata)))"

definition auction_topic :: "sdk \<Rightarrow> scval \<Rightarrow> decoded_event \<Rightarrow> decoded_event" where
  "auction_topic S topic out =
     (case (de_metadata out ''auction_type'', topic, scInt32 topic) of
        (None, ScU32 _, Some t) \<Rightarrow> out\<lparr>de_metadata := (de_metadata out)(''auction_type'' \<mapsto> auctionTypeLabel t)\<rparr>
      | _ \<Rightarrow> if de_address out = '''' then out\<lparr>de_address := scValAddress S topic\<rparr> else out)"

definition auction_elem :: "sdk \<Rightarrow> string \<Rightarrow> scval \<Rightarrow> decoded_event \<Rightarrow> decoded_event" where
  "auction_elem S act elem out =
     (if scValAddress S elem \<noteq> '''' then
        (if de_counterparty out = '''' then out\<lparr>de_counterparty := scValAddress S elem\<rparr> else out)
      else (case scMapFields elem of
          Some fs \<Rightarrow> out\<lparr>de_metadata := mergeAuctionDataMetadata S fs (de_metadata out)\<rparr>
        | None \<Rightarrow> (case scIntString elem of
            None \<Rightarrow> out
          | Some n \<Rightarrow>
              (let key = (if act = ''fill_auction'' then ''fill_percent'' else ''auction_percent'')
               in if de_metadata out key = None then out\<lparr>de_metadata := (de_metadata out)(key \<mapsto> n)\<rparr> else out))))"

definition decodeAuctionEventXDR :: "sdk \<Rightarrow> string \<Rightarrow> string \<Rightarrow> scval list \<Rightarrow> scval \<Rightarrow> decoded_event" where
  "decodeAuctionEventXDR S eventName act topics data =
     (let out = zero_decoded_event\<lparr>de_eventName := to_lower (trim_space eventName), de_activityType := act,
            de_direction := directionForActivity act\<rparr>;
          out = run (auction_topic S) (drop 1 topics) out
      in run (auction_elem S act) (case scVec data of None \<Rightarrow> [data] | Some vs \<Rightarrow> vs) out)"

section \<open>The three encodings of an event\<close>

definition decodeFixturePayload :: "json_env \<Rightarrow> string \<Rightarrow> decoded_event" where
  "decodeFixturePayload J raw =
     (case json_unmarshal (je_float J) raw of
        None \<Rightarrow> zero_decoded_event
      | Some v \<Rightarrow>
          (let evType = (case gm_get v ''type'' of Some (JStr s) \<Rightarrow> s | _ \<Rightarrow> '''') in
           if evType = '''' then zero_decoded_event
           else (let act = classifyEventName evType in
             zero_decoded_event\<lparr>de_eventName := to_lower (trim_space evType), de_activityType := act,
               de_address := jsonString J (gm_get v ''wallet''), de_assetID := jsonString J (gm_get v ''asset''),
               de_amountRaw := jsonString J (gm_get v ''amount''), de_direction := directionForActivity act,
               de_metadata := [''fixture_type'' \<mapsto> evType]\<rparr>)))"

definition validActorAddress :: "sdk \<Rightarrow> string \<Rightarrow> bool" where
  "validActorAddress S a \<longleftrightarrow> sdk_valid_account S a \<or> sdk_valid_contract S a"

text \<open>The wallet and the asset of a topic list: by position, then by kind, then from the data.\<close>

definition topic_parties :: "sdk \<Rightarrow> json_env \<Rightarrow> json list \<Rightarrow> json option \<Rightarrow> string \<times> string" where
  "topic_parties S J topics data =
     (let ss = map (\<lambda>t. jsonString J (Some t)) topics;
          asset = (if 1 < length ss \<and> sdk_valid_contract S (ss ! 1) then ss ! 1 else '''');
          wallet = (if 2 < length ss \<and> validActorAddress S (ss ! 2) then ss ! 2 else '''');
          wa = foldl (\<lambda>(w, a) s. (if w = '''' \<and> sdk_valid_account S s then s else w,
                                  if a = '''' \<and> sdk_valid_contract S s then s else a)) (wallet, asset) ss
      in merge_first wa (case data of None \<Rightarrow> ('''', '''') | Some d \<Rightarrow> extractJSONAddresses S J d))"

definition decodeTopicJSON :: "sdk \<Rightarrow> json_env \<Rightarrow> string \<Rightarrow> decoded_event" where
  "decodeTopicJSON S J topic =
     (case json_unmarshal (je_float J) topic of
        None \<Rightarrow> zero_decoded_event
      | Some payload \<Rightarrow> (case gm_get payload ''topics'' of
          Some (JArr (t0 # ts)) \<Rightarrow>
            (let eventName = to_lower (jsonString J (Some t0)); act = classifyEventName eventName;
                 ev = zero_decoded_event\<lparr>de_eventName := eventName, de_activityType := act,
                   de_direction := directionForActivity act\<rparr>
             in if act = '''' then zero_decoded_event
             else if isAuctionActivity act then
               ev\<lparr>de_address := first_nonempty (map (\<lambda>t. let s = jsonString J (Some t) in
                    if validActorAddress S s then s else '''') ts)\<rparr>
             else (case topic_parties S J (t0 # ts) (gm_get payload ''data'') of (wallet, asset) \<Rightarrow>
               let amount = overwrite (jsonString J (gm_get payload ''amount''))
                     (case gm_get payload ''data'' of None \<Rightarrow> '''' | Some d \<Rightarrow> firstJSONNumeric J d);
                   ev = ev\<lparr>de_address := wallet, de_assetID := asset, de_amountRaw := amount\<rparr>
               in case decodeScValBase64 S (jsonString J (gm_get payload ''data_xdr'')) of
                    None \<Rightarrow> ev
                  | Some data \<Rightarrow>
                      (let wa = merge_first (wallet, asset) (collectScValAddresses S data);
                           numbers = scValNumerics data
                       in ev\<lparr>de_address := fst wa, de_assetID := snd wa,
                             de_amountRaw := (if amount = '''' then first_nonempty (take 1 numbers) else amount),
                             de_shareRaw := (if 1 < length numbers then numbers ! 1 else '''')\<rparr>)))
        | _ \<Rightarrow> zero_decoded_event))"

text \<open>The event's name - its first symbol or string topic - and the addresses of its other topics.\<close>

definition event_topics :: "sdk \<Rightarrow> scval list \<Rightarrow> string \<times> string list" where
  "event_topics S topics = foldl (\<lambda>(name, addrs) t.
       if name = '''' \<and> scValSymbol t \<noteq> '''' then (scValSymbol t, addrs)
       else if scValAddress S t \<noteq> '''' then (name, addrs @ [scValAddress S t]) else (name, addrs))
     ('''', []) topics"

definition xdr_wallet :: "sdk \<Rightarrow> string list \<Rightarrow> string" where
  "xdr_wallet S addrs =
     (let w = (if 1 < length addrs \<and> validActorAddress S (addrs ! 1) then addrs ! 1 else '''') in
      if w = '''' \<and> addrs \<noteq> [] \<and> \<not> sdk_valid_contract S (addrs ! 0) \<and> sdk_valid_account S (addrs ! 0)
      then addrs ! 0 else w)"

definition xdr_asset :: "sdk \<Rightarrow> string list \<Rightarrow> string" where
  "xdr_asset S addrs = (if addrs \<noteq> [] \<and> sdk_valid_contract S (addrs ! 0) then addrs ! 0 else '''')"

text \<open>Amount and shares of an event: its numbers in wire order, except that a claim's amount comes last.\<close>

definition xdr_amounts :: "string \<Rightarrow> scval \<Rightarrow> string \<times> string" where
  "xdr_amounts act data =
     (let numbers = scValNumerics data in
      if act = ''claim'' \<and> numbers \<noteq> [] then (last numbers, '''')
      else (case numbers of [] \<Rightarrow> ('''', '''') | [x] \<Rightarrow> (x, '''') | x # y # _ \<Rightarrow> (x, y)))"

definition decodeContractEventXDR :: "sdk \<Rightarrow> string \<Rightarrow> decoded_event" where
  "decodeContractEventXDR S raw =
     (case sdk_unmarshal_event S raw of
        Some (Some (topics, data)) \<Rightarrow>
          (case event_topics S topics of (eventName, addrs) \<Rightarrow>
            let act = classifyEventName eventName in
            if act = '''' then zero_decoded_event
            else if isAuctionActivity act then decodeAuctionEventXDR S eventName act topics data
            else (let wa = merge_first (xdr_wallet S addrs, xdr_asset S addrs) (collectScValAddresses S data)
              in zero_decoded_event\<lparr>de_eventName := to_lower (trim_space eventName), de_activityType := act,
                   de_address := fst wa, de_assetID := snd wa, de_amountRaw := fst (xdr_amounts act data),
                   de_shareRaw := snd (xdr_amounts act data), de_direction := directionForActivity act\<rparr>))
      | _ \<Rightarrow> zero_decoded_event)"

text \<open>The whole decoder: a fixture payload alone, or the JSON topic overlaid with the contract event.\<close>

definition overlay :: "decoded_event \<Rightarrow> decoded_event \<Rightarrow> decoded_event" where
  "overlay parsed out = (if de_activityType parsed \<noteq> '''' then mergeDecoded out parsed else out)"

definition fill_reason :: "raw_event_envelope \<Rightarrow> decoded_event \<Rightarrow> decoded_event" where
  "fill_reason evt out = (if de_activityType out = '''' then out\<lparr>de_reason :=
     (if ev_Metadata evt ''protocol_id'' = Some ''blend'' then ''unsupported_blend_v2_event''
      else ''unknown_blend_event_shape'')\<rparr> else out)"

definition fill_direction :: "decoded_event \<Rightarrow> decoded_event" where
  "fill_direction out =
     (if de_direction out = '''' then out\<lparr>de_direction := directionForActivity (de_activityType out)\<rparr> else out)"

definition fill_parties :: "sdk \<Rightarrow> raw_event_envelope \<Rightarrow> decoded_event \<Rightarrow> decoded_event" where
  "fill_parties S evt out =
     (if de_address out = '''' \<or> de_assetID out = '''' then
        (case extractAddresses S (ev_Topic evt) of (wallet, asset) \<Rightarrow>
          out\<lparr>de_address := (if de_address out = '''' then wallet else de_address out),
              de_assetID := (if de_assetID out = '''' \<and> \<not> isAuctionActivity (de_activityType out)
                             then asset else de_assetID out)\<rparr>)
      else out)"

definition fill_name :: "decoded_event \<Rightarrow> decoded_event" where
  "fill_name out = (if de_eventName out \<noteq> ''''
     then out\<lparr>de_metadata := (de_metadata out)(''event_name'' \<mapsto> de_eventName out)\<rparr> else out)"

definition decodeEvent :: "sdk \<Rightarrow> json_env \<Rightarrow> raw_event_envelope \<Rightarrow> decoded_event" where
  "decodeEvent S J evt =
     (let out = zero_decoded_event\<lparr>de_isBlend := looksBlend evt,
            de_metadata := [''topic'' \<mapsto> ev_Topic evt] ++ ev_Metadata evt\<rparr>;
          fixture = decodeFixturePayload J (ev_RawEvent evt)
      in if de_activityType fixture \<noteq> '''' then mergeDecoded out fixture
      else (let out = overlay (decodeTopicJSON S J (ev_Topic evt)) out;
                out = overlay (decodeContractEventXDR S (ev_RawEvent evt)) out
            in fill_name (fill_parties S evt (fill_direction (fill_reason evt out)))))"

end
