(* ===== verification/Blend_Adapter.thy ===== *)
theory Blend_Adapter
  imports Blend_Summary Blend_Events
begin

text \<open>
  src/blend/adapter.go and the registry at the head of src/blend/state.go: the adapter's fields,
  its construction, the transform of a ledger (events, valuation, tombstones) and the projections
  of a dirty set.  The state strategy matters here only through the row lookup the incremental one
  offers, the field \<open>ba_lookup\<close>.
\<close>

section \<open>The adapter\<close>

record bl_adapter =
  ba_cfg :: blend_config
  ba_contracts :: "string set"
  ba_assets :: "string set"
  ba_feeds :: "string set"
  ba_comets :: "string set"
  ba_lookup :: "(string \<Rightarrow> string \<Rightarrow> user_reserve_position list) option"
  ba_lastDirty :: "dirty_position list"
  ba_lastDirtyBackstops :: "dirty_backstop list"
  ba_lastDiagnostics :: "decode_diagnostic list"
  ba_lastTemporaryChanges :: "temporary_state_change list"

definition bl_merge :: "blend_config \<Rightarrow> blend_config" where
  "bl_merge cfg =
     (let d = bl_DefaultConfig in
      d\<lparr>bc_AdapterID := overwrite (bc_AdapterID cfg) (bc_AdapterID d), bc_Protocol := overwrite (bc_Protocol cfg) (bc_Protocol d),
        bc_V2Scalar := overwrite (bc_V2Scalar cfg) (bc_V2Scalar d), bc_AllowUnknownV2 := bc_AllowUnknownV2 cfg,
        bc_StateMode := bc_StateMode cfg, bc_V2WasmHashes := bc_V2WasmHashes cfg\<rparr>)"

text \<open>A fresh incremental strategy has no cached rows.\<close>

definition bl_New :: "blend_config \<Rightarrow> string + bl_adapter" where
  "bl_New cfg =
     (let m = bl_merge cfg;
          a = \<lparr>ba_cfg = m, ba_contracts = {}, ba_assets = {}, ba_feeds = {}, ba_comets = {}, ba_lookup = None,
            ba_lastDirty = [], ba_lastDirtyBackstops = [], ba_lastDiagnostics = [], ba_lastTemporaryChanges = []\<rparr> in
      if bc_AdapterID m = '''' then Inl ''adapter id is required''
      else if bc_Protocol m = '''' then Inl ''protocol is required''
      else if bc_V2Scalar m = '''' then Inl ''v2 scalar is required''
      else (case bc_StateMode cfg of
          StateModeUnset \<Rightarrow> Inr a
        | StateModeParanoid \<Rightarrow> Inr a
        | StateModeIncremental \<Rightarrow> Inr (a\<lparr>ba_lookup := Some (\<lambda>_ _. [])\<rparr>)
        | StateModeUnknown mode \<Rightarrow> Inl (''unknown state mode '' @ json_string mode)))"

definition bl_ID :: "bl_adapter \<Rightarrow> string" where
  "bl_ID a = bc_AdapterID (ba_cfg a)"

definition bl_Protocol :: "bl_adapter \<Rightarrow> string" where
  "bl_Protocol a = bc_Protocol (ba_cfg a)"

definition bl_OwnsContract :: "bl_adapter \<Rightarrow> string \<Rightarrow> bool" where
  "bl_OwnsContract a i \<longleftrightarrow>
     (if i = '''' then False
      else i \<in> ba_contracts a \<or> i \<in> ba_feeds a \<or> i \<in> ba_comets a \<or> i \<in> ba_assets a)"

definition bl_RegisterContracts :: "string list \<Rightarrow> bl_adapter \<Rightarrow> bl_adapter" where
  "bl_RegisterContracts ids a = a\<lparr>ba_contracts := ba_contracts a \<union> set (filter (\<lambda>i. i \<noteq> '''') ids)\<rparr>"

definition bl_RegisterAssetContracts :: "string list \<Rightarrow> bl_adapter \<Rightarrow> bl_adapter" where
  "bl_RegisterAssetContracts ids a = a\<lparr>ba_assets := ba_assets a \<union> set (filter (\<lambda>i. i \<noteq> '''') ids)\<rparr>"

definition bl_RegisterPriceFeeds :: "string list \<Rightarrow> bl_adapter \<Rightarrow> bl_adapter" where
  "bl_RegisterPriceFeeds ids a = a\<lparr>ba_feeds := ba_feeds a \<union> set (filter (\<lambda>i. i \<noteq> '''') ids)\<rparr>"

definition bl_RegisterCometContracts :: "string list \<Rightarrow> bl_adapter \<Rightarrow> bl_adapter" where
  "bl_RegisterCometContracts ids a = a\<lparr>ba_comets := ba_comets a \<union> set (filter (\<lambda>i. i \<noteq> '''') ids)\<rparr>"

definition bl_LastDirtyPositions :: "bl_adapter \<Rightarrow> dirty_position list" where
  "bl_LastDirtyPositions a = ba_lastDirty a"

definition bl_LastDirtyBackstops :: "bl_adapter \<Rightarrow> dirty_backstop list" where
  "bl_LastDirtyBackstops a = ba_lastDirtyBackstops a"

definition bl_LastDecodeDiagnostics :: "bl_adapter \<Rightarrow> decode_diagnostic list" where
  "bl_LastDecodeDiagnostics a = ba_lastDiagnostics a"

definition bl_LastTemporaryStateChanges :: "bl_adapter \<Rightarrow> temporary_state_change list" where
  "bl_LastTemporaryStateChanges a = ba_lastTemporaryChanges a"

section \<open>Events\<close>

definition statusChangeTxHash :: "string \<Rightarrow> int \<Rightarrow> string" where
  "statusChangeTxHash contractID ledgerSeq = ''status:'' @ contractID @ '':'' @ show_int ledgerSeq"

definition activityIdentityFailure :: "sdk \<Rightarrow> decoded_event \<Rightarrow> raw_event_envelope \<Rightarrow> string" where
  "activityIdentityFailure S d evt =
     (if de_address d = '''' then ''missing_activity_address''
      else if \<not> sdk_valid_contract S (ev_ContractID evt) then ''invalid_activity_contract''
      else if de_assetID d \<noteq> '''' \<and> \<not> sdk_valid_contract S (de_assetID d) then ''invalid_activity_asset''
      else if de_activityType d = ''contract_status_change'' then
        (if de_address d \<noteq> ev_ContractID evt \<or> \<not> sdk_valid_contract S (de_address d)
         then ''invalid_activity_address'' else '''')
      else if \<not> sdk_valid_account S (de_address d) \<and> \<not> sdk_valid_contract S (de_address d)
        then ''invalid_activity_address''
      else '''')"

definition bl_quarantine :: "blend_config \<Rightarrow> raw_event_envelope \<Rightarrow> decoded_event \<Rightarrow> string \<Rightarrow> string \<Rightarrow> quarantine_event" where
  "bl_quarantine cfg evt d tag reason = zero_quarantine_event\<lparr>
     qe_ID := bl_stableID [bc_AdapterID cfg, show_int (ev_LedgerSeq evt), ev_TxHash evt, show_int (ev_EventIndex evt), tag],
     qe_AdapterID := bc_AdapterID cfg, qe_LedgerSeq := ev_LedgerSeq evt, qe_TxHash := ev_TxHash evt,
     qe_EventIndex := ev_EventIndex evt, qe_ContractID := ev_ContractID evt, qe_Reason := reason,
     qe_RawEvent := ev_RawEvent evt, qe_Metadata := de_metadata d\<rparr>"

definition bl_activity :: "blend_config \<Rightarrow> raw_event_envelope \<Rightarrow> decoded_event \<Rightarrow> activity_row" where
  "bl_activity cfg evt d =
     (let status = de_activityType d = ''contract_status_change'';
          txHash = (if status then statusChangeTxHash (ev_ContractID evt) (ev_LedgerSeq evt) else ev_TxHash evt);
          eventIndex = (if status then 0 else ev_EventIndex evt)
      in zero_activity_row\<lparr>
           ac_ID := bl_stableID [bc_Protocol cfg, show_int (ev_LedgerSeq evt), txHash, show_int eventIndex, de_activityType d],
           ac_LedgerSeq := ev_LedgerSeq evt, ac_TxHash := txHash, ac_EventIndex := eventIndex,
           ac_ContractID := ev_ContractID evt, ac_Address := de_address d, ac_Protocol := bc_Protocol cfg,
           ac_ActivityType := de_activityType d, ac_AssetID := de_assetID d, ac_AmountRaw := de_amountRaw d,
           ac_ShareAmount := de_shareRaw d, ac_ShareType := shareTypeForEvent (de_eventName d) (de_activityType d),
           ac_Counterparty := de_counterparty d, ac_Direction := de_direction d, ac_Timestamp := ev_CloseTime evt,
           ac_Metadata := de_metadata d\<rparr>)"

text \<open>What one event becomes: nothing, a quarantine entry or an activity.\<close>

definition bl_event :: "sdk \<Rightarrow> json_env \<Rightarrow> blend_config \<Rightarrow> raw_event_envelope \<Rightarrow> (quarantine_event + activity_row) option" where
  "bl_event S J cfg evt =
     (let d = decodeEvent S J evt in
      if \<not> de_isBlend d then None
      else if de_activityType d = '''' then Some (Inl (bl_quarantine cfg evt d ''unknown'' (de_reason d)))
      else (let d = (if contractScopedActivity (de_activityType d) \<and> de_address d = ''''
                     then d\<lparr>de_address := ev_ContractID evt\<rparr> else d);
                reason = activityIdentityFailure S d evt
            in if reason \<noteq> '''' then Some (Inl (bl_quarantine cfg evt d reason reason))
               else Some (Inr (bl_activity cfg evt d))))"

definition bl_events :: "sdk \<Rightarrow> json_env \<Rightarrow> blend_config \<Rightarrow> transform_input \<Rightarrow> transform_output" where
  "bl_events S J cfg i =
     (let rs = List.map_filter (bl_event S J cfg) (ti_Events i)
      in zero_transform_output\<lparr>to_LedgerSeq := ti_LedgerSeq i, to_Activities := rights rs, to_Quarantine := lefts rs\<rparr>)"

lemma overlay_isBlend [simp]: "de_isBlend (overlay p out) = de_isBlend out" "de_isBlend (mergeDecoded out p) = de_isBlend out"
  by (simp_all add: overlay_def mergeDecoded_def)

lemmas fill_defs = fill_reason_def fill_direction_def fill_parties_def fill_name_def

lemma fill_isBlend [simp]:
  "de_isBlend (fill_reason evt out) = de_isBlend out" "de_isBlend (fill_direction out) = de_isBlend out"
  "de_isBlend (fill_parties S evt out) = de_isBlend out" "de_isBlend (fill_name out) = de_isBlend out"
  by (simp_all add: fill_defs split: prod.splits)

lemma fill_activityType [simp]:
  "de_activityType (fill_reason evt out) = de_activityType out" "de_activityType (fill_direction out) = de_activityType out"
  "de_activityType (fill_parties S evt out) = de_activityType out" "de_activityType (fill_name out) = de_activityType out"
  by (simp_all add: fill_defs split: prod.splits)

lemma fill_keeps_reason [simp]:
  "de_reason (fill_direction out) = de_reason out"
  "de_reason (fill_parties S evt out) = de_reason out" "de_reason (fill_name out) = de_reason out"
  by (simp_all add: fill_defs split: prod.splits)

lemma decodeEvent_isBlend [simp]: "de_isBlend (decodeEvent S J evt) = looksBlend evt"
  by (simp add: decodeEvent_def Let_def)

lemma decodeEvent_reason: "de_activityType (decodeEvent S J evt) = '''' \<Longrightarrow> de_reason (decodeEvent S J evt) \<noteq> ''''"
  by (simp add: decodeEvent_def Let_def mergeDecoded_def overwrite_def split: if_splits) (simp add: fill_reason_def)

section \<open>Tombstones\<close>

definition positionIdentityKey :: "string \<Rightarrow> string \<Rightarrow> string \<Rightarrow> string \<Rightarrow> string \<Rightarrow> string" where
  "positionIdentityKey address protocol contractID assetID posType =
     address @ ''|'' @ protocol @ ''|'' @ contractID @ ''|'' @ assetID @ ''|'' @ posType"

definition pn_key :: "position_row \<Rightarrow> string" where
  "pn_key p = positionIdentityKey (pn_Address p) (pn_Protocol p) (pn_ContractID p) (pn_AssetID p)
     (position_type_string (pn_PositionType p))"

definition position_tombstone_of :: "int \<Rightarrow> position_row \<Rightarrow> position_tombstone" where
  "position_tombstone_of ledgerSeq p = \<lparr>pt_Address = pn_Address p, pt_Protocol = pn_Protocol p,
     pt_ContractID = pn_ContractID p, pt_AssetID = pn_AssetID p,
     pt_PositionType = position_type_string (pn_PositionType p), pt_LedgerSeq = ledgerSeq\<rparr>"

definition summary_tombstone_of :: "int \<Rightarrow> position_summary \<Rightarrow> summary_tombstone" where
  "summary_tombstone_of ledgerSeq s = \<lparr>st_Address = sm_Address s, st_Protocol = sm_Protocol s, st_LedgerSeq = ledgerSeq\<rparr>"

definition emitTombstones :: "transform_input \<Rightarrow> transform_output \<Rightarrow> transform_output" where
  "emitTombstones i out =
     (if ti_PriorPositions i = [] \<and> ti_PriorSummaries i = [] then out
      else (let current = pn_key ` set (to_Positions out);
                gone = filter (\<lambda>p. pn_key p \<notin> current) (ti_PriorPositions i);
                out = out\<lparr>to_PositionTombstones := sort_key
                  (\<lambda>t. (pt_Address t, pt_ContractID t, pt_AssetID t, pt_PositionType t))
                  (to_PositionTombstones out @ map (position_tombstone_of (ti_LedgerSeq i)) gone)\<rparr>
            in if ti_PriorSummaries i = [] then out
               else (let live = pn_Address ` set (to_Positions out) \<union> sm_Address ` set (to_Summaries out);
                         closed = filter (\<lambda>s. sm_Address s \<notin> live) (ti_PriorSummaries i)
                     in out\<lparr>to_SummaryTombstones := sort_key (\<lambda>t. (st_Address t, st_Protocol t))
                          (to_SummaryTombstones out @ map (summary_tombstone_of (ti_LedgerSeq i)) closed)\<rparr>)))"

section \<open>Transform and projections\<close>

definition bl_Transform :: "'d decimal_ops \<Rightarrow> sdk \<Rightarrow> json_env \<Rightarrow> bl_adapter \<Rightarrow> transform_input \<Rightarrow> string + transform_output" where
  "bl_Transform D S J a i =
     and_then (computeState D (ba_cfg a) i (bl_events S J (ba_cfg a) i)) (\<lambda>out. Inr (emitTombstones i out))"

definition dirtyPairKey :: "string \<Rightarrow> string \<Rightarrow> string" where
  "dirtyPairKey address poolContractID = address @ ''|'' @ poolContractID"

definition dirtyPositionRows :: "bl_adapter \<Rightarrow> ledger_state \<Rightarrow> dirty_position list \<Rightarrow> user_reserve_position list" where
  "dirtyPositionRows a st dirty =
     (case ba_lookup a of
        Some rows \<Rightarrow> concat (map (\<lambda>d. rows (dp_Address d) (dp_PoolContractID d)) dirty)
      | None \<Rightarrow> (let want = (\<lambda>d. dirtyPairKey (dp_Address d) (dp_PoolContractID d)) ` set dirty
         in filter (\<lambda>u. dirtyPairKey (up_Address u) (up_PoolContractID u) \<in> want) (ls_Users st)))"

definition ProjectPositions ::
  "'d decimal_ops \<Rightarrow> bl_adapter \<Rightarrow> ledger_state option \<Rightarrow> dirty_position list \<Rightarrow> int \<Rightarrow> go_time \<Rightarrow> string + transform_output" where
  "ProjectPositions D a st dirty ledgerSeq closeTime =
     (let out = zero_transform_output\<lparr>to_LedgerSeq := ledgerSeq\<rparr> in
      case st of
        None \<Rightarrow> Inr out
      | Some s \<Rightarrow>
          if dirty = [] then Inr out
          else computeState D (ba_cfg a) (zero_transform_input\<lparr>ti_LedgerSeq := ledgerSeq, ti_CloseTime := closeTime,
            ti_State := Some (s\<lparr>ls_Users := dirtyPositionRows a s dirty, ls_Backstops := []\<rparr>)\<rparr>) out)"

definition ProjectBackstopPositions ::
  "'d decimal_ops \<Rightarrow> bl_adapter \<Rightarrow> ledger_state option \<Rightarrow> dirty_backstop list \<Rightarrow> int \<Rightarrow> go_time \<Rightarrow> string + transform_output" where
  "ProjectBackstopPositions D a st dirty ledgerSeq closeTime =
     (let out = zero_transform_output\<lparr>to_LedgerSeq := ledgerSeq\<rparr> in
      case st of
        None \<Rightarrow> Inr out
      | Some s \<Rightarrow>
          if dirty = [] then Inr out
          else (let want = (\<lambda>d. dirtyPairKey (db_Address d) (db_PoolContractID d)) ` set dirty;
                    backstops = filter (\<lambda>b. dirtyPairKey (bk_Address b) (bk_PoolContractID b) \<in> want) (ls_Backstops s)
                in and_then (computeState D (ba_cfg a) (zero_transform_input\<lparr>ti_LedgerSeq := ledgerSeq, ti_CloseTime := closeTime,
                     ti_State := Some (s\<lparr>ls_Users := [], ls_Backstops := backstops\<rparr>)\<rparr>) out)
                   (\<lambda>out. Inr (out\<lparr>to_Summaries := []\<rparr>))))"

end
