(* ===== verification/Blend_Wire.thy ===== *)
theory Blend_Wire
  imports Blend_Adapter
begin

text \<open>
  What the event path of src/blend/adapter.go and src/blend/decode.go makes of the contract events
  of the chain: the events of a reserve survive the decoding, claims do so only for accounts.
\<close>

section \<open>Amounts\<close>

lemma int128ToString_value: "int128ToString hi lo = show_int (i128_value hi lo)"
proof -
  have u: "take_bit 64 (uint hi) = uint hi" by (simp add: take_bit_int_eq_self uint_lt2p [of hi, simplified])
  have "sint hi = signed_take_bit 63 (uint hi)" by (simp add: sint_uint)
  also have "\<dots> = uint hi - 2 ^ 64 * of_bool (bit (uint hi) 63)"
    by (simp add: signed_take_bit_eq_take_bit_minus u)
  also have "bit (uint hi) 63 \<longleftrightarrow> bit hi 63" by (simp add: bit_uint_iff)
  finally have s: "sint hi = uint hi - 2 ^ 64 * of_bool (bit hi 63)" .
  have "hi AND 0x8000000000000000 \<noteq> 0 \<longleftrightarrow> bit hi 63"
    using and_exp_eq_0_iff_not_bit [of hi 63] by simp
  then show ?thesis
    using s by (simp add: int128ToString_def Let_def i128_value_def push_bit_eq_mult)
qed

definition i128 :: "int \<Rightarrow> scval" where
  "i128 n = ScI128 (word_of_int (n div 2 ^ 64)) (word_of_int n)"

lemma scValNumerics_i128: "- (2 ^ 127) \<le> n \<Longrightarrow> n < 2 ^ 127 \<Longrightarrow> scValNumerics (i128 n) = [show_int n]"
  using i128_value_split [of n] by (simp add: i128_def int128ToString_value)

section \<open>Chain events\<close>

text \<open>An event without a fixture payload, a JSON topic or an address in its topic text.\<close>

definition chain_event :: "json_env \<Rightarrow> raw_event_envelope \<Rightarrow> bool" where
  "chain_event J evt \<longleftrightarrow> json_unmarshal (je_float J) (ev_RawEvent evt) = None
     \<and> json_unmarshal (je_float J) (ev_Topic evt) = None \<and> find_addresses (ev_Topic evt) = []"

text \<open>For those the contract event decides every field.\<close>

lemma decode_chain_event:
  assumes "chain_event J evt" and "d = decodeContractEventXDR S (ev_RawEvent evt)" and "de_activityType d \<noteq> ''''"
    and "de_direction d \<noteq> ''''"
  shows "de_activityType (decodeEvent S J evt) = de_activityType d" "de_address (decodeEvent S J evt) = de_address d"
    "de_assetID (decodeEvent S J evt) = de_assetID d" "de_amountRaw (decodeEvent S J evt) = de_amountRaw d"
    "de_shareRaw (decodeEvent S J evt) = de_shareRaw d" "de_eventName (decodeEvent S J evt) = de_eventName d"
    "de_direction (decodeEvent S J evt) = de_direction d"
proof -
  have f: "decodeFixturePayload J (ev_RawEvent evt) = zero_decoded_event" "decodeTopicJSON S J (ev_Topic evt) = zero_decoded_event"
    "extractAddresses S (ev_Topic evt) = ('''', '''')"
    using assms(1) by (simp_all add: chain_event_def decodeFixturePayload_def decodeTopicJSON_def extractAddresses_def)
  define o0 where "o0 = zero_decoded_event\<lparr>de_isBlend := looksBlend evt, de_metadata := [''topic'' \<mapsto> ev_Topic evt] ++ ev_Metadata evt\<rparr>"
  have z: "de_activityType zero_decoded_event = ''''" by (simp add: zero_decoded_event_def)
  have m: "mergeDecoded o0 d = d\<lparr>de_isBlend := looksBlend evt, de_reason := '''',
      de_metadata := [''topic'' \<mapsto> ev_Topic evt] ++ ev_Metadata evt ++ de_metadata d\<rparr>"
    by (simp add: mergeDecoded_def o0_def zero_decoded_event_def overwrite_def)
  have same: "d\<lparr>de_isBlend := b, de_reason := r, de_metadata := md, de_address := de_address d, de_assetID := de_assetID d\<rparr>
      = d\<lparr>de_isBlend := b, de_reason := r, de_metadata := md\<rparr>" for b r md by (cases d) simp
  have e: "\<exists>md. decodeEvent S J evt = d\<lparr>de_isBlend := looksBlend evt, de_reason := '''', de_metadata := md\<rparr>"
    using assms(3,4) by (simp add: decodeEvent_def fill_defs f z overlay_def o0_def [symmetric] assms(2) [symmetric] f same m cong: if_cong)
      (cases d, auto)
  then show "de_activityType (decodeEvent S J evt) = de_activityType d" "de_address (decodeEvent S J evt) = de_address d"
    "de_assetID (decodeEvent S J evt) = de_assetID d" "de_amountRaw (decodeEvent S J evt) = de_amountRaw d"
    "de_shareRaw (decodeEvent S J evt) = de_shareRaw d" "de_eventName (decodeEvent S J evt) = de_eventName d"
    "de_direction (decodeEvent S J evt) = de_direction d"
    by auto
qed

lemma contract_event:
  assumes "sdk_unmarshal_event S raw = Some (Some (ScSym name # topics, data))" and "name \<noteq> ''''"
    and "classifyEventName name = act" and "act \<noteq> ''''" and "\<not> isAuctionActivity act"
    and "addrs = filter (\<lambda>a. a \<noteq> '''') (map (scValAddress S) topics)"
  shows "decodeContractEventXDR S raw =
    (let wa = merge_first (xdr_wallet S addrs, xdr_asset S addrs) (collectScValAddresses S data)
     in zero_decoded_event\<lparr>de_eventName := to_lower (trim_space name), de_activityType := act,
          de_address := fst wa, de_assetID := snd wa, de_amountRaw := fst (xdr_amounts act data),
          de_shareRaw := snd (xdr_amounts act data), de_direction := directionForActivity act\<rparr>)"
proof -
  have fold: "foldl (\<lambda>(nm, addrs) t. if nm = '''' \<and> scValSymbol t \<noteq> '''' then (scValSymbol t, addrs)
       else if scValAddress S t \<noteq> '''' then (nm, addrs @ [scValAddress S t]) else (nm, addrs)) (name, as) ts
     = (name, as @ filter (\<lambda>a. a \<noteq> '''') (map (scValAddress S) ts))" for as ts
    using assms(2) by (induction ts arbitrary: as) simp_all
  have "event_topics S (ScSym name # topics) = (name, addrs)"
    using assms(2) fold [of "[]" topics] by (simp add: event_topics_def assms(6))
  then show ?thesis using assms(1-5) by (simp add: decodeContractEventXDR_def Let_def)
qed

text \<open>The position events of a pool.\<close>

definition reserve_events :: "string list" where
  "reserve_events = [''supply'', ''withdraw'', ''supply_collateral'', ''withdraw_collateral'', ''borrow'', ''repay'']"

fun actor_address :: "sdk \<Rightarrow> sc_address \<Rightarrow> bool" where
  "actor_address S AddrOther = False"
| "actor_address S _ = True"

lemma reserve_event_names:
  assumes "name \<in> set reserve_events"
  shows "classifyEventName name = name" "name \<noteq> ''''" "\<not> isAuctionActivity name" "name \<noteq> ''claim''"
    "to_lower (trim_space name) = name" "directionForActivity name \<noteq> ''''" "name \<noteq> ''contract_status_change''"
proof -
  have "list_all (\<lambda>name. classifyEventName name = name \<and> name \<noteq> '''' \<and> \<not> isAuctionActivity name \<and> name \<noteq> ''claim''
      \<and> to_lower (trim_space name) = name \<and> directionForActivity name \<noteq> '''' \<and> name \<noteq> ''contract_status_change'') reserve_events"
    by code_simp
  with assms show "classifyEventName name = name" "name \<noteq> ''''" "\<not> isAuctionActivity name" "name \<noteq> ''claim''"
    "to_lower (trim_space name) = name" "directionForActivity name \<noteq> ''''" "name \<noteq> ''contract_status_change''"
    by (auto simp: list_all_iff)
qed

lemma strkey_nonempty:
  assumes "strkey_valid_ok S"
  shows "sdk_strkey_contract S b \<noteq> ''''" "sdk_strkey_account S b \<noteq> ''''"
proof -
  have "sdk_valid_contract S (sdk_strkey_contract S b)" "sdk_valid_account S (sdk_strkey_account S b)"
    "\<not> sdk_valid_contract S ''''" "\<not> sdk_valid_account S ''''"
    using assms by (simp_all add: strkey_valid_ok_def)
  then show "sdk_strkey_contract S b \<noteq> ''''" "sdk_strkey_account S b \<noteq> ''''" by metis+
qed

lemma addr_actor: "strkey_valid_ok S \<Longrightarrow> actor_address S x \<Longrightarrow>
    scValAddress S (ScAddress x) \<noteq> '''' \<and> validActorAddress S (scValAddress S (ScAddress x))"
  by (cases x) (simp_all add: strkey_nonempty scValAddress_def validActorAddress_def, simp_all add: strkey_valid_ok_def)

text \<open>
  C19: The position events of a pool survive the wire: supplying, withdrawing, borrowing or repaying
  emits [name, asset, actor] with the underlying amount and the shares as signed 128-bit integers;
  the adapter reports for it exactly one activity of that name, with that asset, that actor - an
  account or a contract - both amounts in decimal at their full width, and the side they move.
\<close>

theorem reserve_event_roundtrip:
  assumes "strkey_valid_ok S" and "chain_event J evt" and "looksBlend evt" and "sdk_valid_contract S (ev_ContractID evt)"
    and "name \<in> set reserve_events" and "actor_address S actor"
    and "- (2 ^ 127) \<le> amount" "amount < 2 ^ 127" "- (2 ^ 127) \<le> shares" "shares < 2 ^ 127"
    and "sdk_unmarshal_event S (ev_RawEvent evt) = Some (Some
      ([ScSym name, ScAddress (AddrContract asset), ScAddress actor], ScVec (Some [i128 amount, i128 shares])))"
  shows "\<exists>x. bl_event S J cfg evt = Some (Inr x) \<and> ac_ActivityType x = name
    \<and> ac_Address x = scValAddress S (ScAddress actor) \<and> ac_AssetID x = sdk_strkey_contract S asset
    \<and> set_string (ac_AmountRaw x) = Some amount \<and> set_string (ac_ShareAmount x) = Some shares
    \<and> ac_Direction x = directionForActivity name \<and> ac_ShareType x = shareTypeForEvent name name
    \<and> ac_TxHash x = ev_TxHash evt \<and> ac_EventIndex x = ev_EventIndex evt"
proof -
  note n = reserve_event_names [OF assms(5)]
  let ?a = "sdk_strkey_contract S asset" and ?w = "scValAddress S (ScAddress actor)" and ?d = "decodeEvent S J evt"
  have a: "?a \<noteq> ''''" "sdk_valid_contract S ?a" "scValAddress S (ScAddress (AddrContract asset)) = ?a"
    using strkey_nonempty [OF assms(1)] assms(1) by (simp_all add: scValAddress_def) (simp_all add: strkey_valid_ok_def)
  note w = addr_actor [OF assms(1,6)]
  have nums: "scValNumerics (ScVec (Some [i128 amount, i128 shares])) = [show_int amount, show_int shares]"
    using assms(7-10) by (simp add: scValNumerics_i128)
  have data: "collectScValAddresses S (ScVec (Some [i128 amount, i128 shares])) = ('''', '''')"
    by (simp add: i128_def collect_address_def scValAddress_def merge_all_def merge_first_def)
  have parts: "xdr_wallet S [?a, ?w] = ?w" "xdr_asset S [?a, ?w] = ?a"
    using a w by (simp_all add: xdr_wallet_def xdr_asset_def)
  have amounts: "xdr_amounts name (ScVec (Some [i128 amount, i128 shares])) = (show_int amount, show_int shares)"
    using n(4) by (simp add: xdr_amounts_def nums del: scValNumerics.simps)
  have "decodeContractEventXDR S (ev_RawEvent evt) = zero_decoded_event\<lparr>de_eventName := name, de_activityType := name,
      de_address := ?w, de_assetID := ?a, de_amountRaw := show_int amount, de_shareRaw := show_int shares,
      de_direction := directionForActivity name\<rparr>"
    using contract_event [OF assms(11) n(2,1,2,3) refl] a w
    by (simp add: parts data amounts n(5) merge_first_def del: collectScValAddresses.simps)
  then have d: "de_activityType ?d = name" "de_address ?d = ?w" "de_assetID ?d = ?a" "de_amountRaw ?d = show_int amount"
    "de_shareRaw ?d = show_int shares" "de_eventName ?d = name" "de_direction ?d = directionForActivity name"
    using decode_chain_event [OF assms(2) refl, of S] n(2,6) by simp_all
  have "activityIdentityFailure S ?d evt = ''''"
    using a w assms(4) n(7) by (simp add: activityIdentityFailure_def d validActorAddress_def)
  moreover have "de_isBlend ?d" using assms(3) by simp
  ultimately have "bl_event S J cfg evt = Some (Inr (bl_activity cfg evt ?d))"
    using n(2) w by (simp add: bl_event_def Let_def d)
  then show ?thesis using n(7) by (simp add: bl_activity_def d Let_def)
qed

text \<open>A claim: the actor alone in the topics; the reserve token ids and the amount as data.\<close>

definition claim_data :: "32 word list \<Rightarrow> int \<Rightarrow> scval" where
  "claim_data ids n = ScVec (Some [ScVec (Some (map ScU32 ids)), i128 n])"

lemma merge_all_empty: "(\<And>p. p \<in> set ps \<Longrightarrow> p = ('''', '''')) \<Longrightarrow> merge_all ps = ('''', '''')"
proof -
  have "foldl merge_first ('''', '''') ps = ('''', '''')" if "\<forall>p\<in>set ps. p = ('''', '''')"
    using that by (induction ps) (simp_all add: merge_first_def)
  then show "(\<And>p. p \<in> set ps \<Longrightarrow> p = ('''', '''')) \<Longrightarrow> ?thesis" by (simp add: merge_all_def)
qed

lemma claim_data_parts:
  assumes "- (2 ^ 127) \<le> n" and "n < 2 ^ 127"
  shows "collectScValAddresses S (claim_data ids n) = ('''', '''')"
    and "xdr_amounts ''claim'' (claim_data ids n) = (show_int n, '''')"
proof -
  have "collectScValAddresses S (ScVec (Some (map ScU32 ids))) = ('''', '''')"
    by (simp, rule merge_all_empty) (auto simp: collect_address_def scValAddress_def)
  moreover have "collectScValAddresses S (i128 n) = ('''', '''')" by (simp add: i128_def collect_address_def scValAddress_def)
  ultimately show "collectScValAddresses S (claim_data ids n) = ('''', '''')"
    unfolding claim_data_def collectScValAddresses.simps by (intro merge_all_empty) auto
  have "scValNumerics (claim_data ids n) = map (\<lambda>w. show_int (uint w)) ids @ [show_int n]"
    using scValNumerics_i128 [OF assms] by (induction ids) (simp_all add: claim_data_def)
  then show "xdr_amounts ''claim'' (claim_data ids n) = (show_int n, '''')" by (simp add: xdr_amounts_def)
qed

text \<open>
  A claim by a contract is quarantined: emissions claimed by an account are reported as its
  activity, but of the same event with a contract as the claimant - a vault - the only address is
  taken for the asset, so that the event ends in quarantine for want of an address, although
  contracts are valid actors.
\<close>

theorem claim_by_contract_quarantined:
  assumes "strkey_valid_ok S" and "chain_event J evt" and "looksBlend evt" and "sdk_valid_contract S (ev_ContractID evt)"
    and "actor_address S actor" and "- (2 ^ 127) \<le> n" "n < 2 ^ 127"
    and "sdk_unmarshal_event S (ev_RawEvent evt) = Some (Some ([ScSym ''claim'', ScAddress actor], claim_data ids n))"
  shows "case actor of
      AddrAccount k \<Rightarrow> \<exists>x. bl_event S J cfg evt = Some (Inr x) \<and> ac_ActivityType x = ''claim''
        \<and> ac_Address x = sdk_strkey_account S k \<and> ac_AmountRaw x = show_int n \<and> ac_ShareAmount x = ''''
    | _ \<Rightarrow> \<exists>q. bl_event S J cfg evt = Some (Inl q) \<and> qe_Reason q = ''missing_activity_address''"
proof -
  let ?a = "scValAddress S (ScAddress actor)" and ?d = "decodeEvent S J evt"
  have names: "classifyEventName ''claim'' = ''claim''" "\<not> isAuctionActivity ''claim''" "to_lower (trim_space ''claim'') = ''claim''"
    "directionForActivity ''claim'' = ''in''" "\<not> contractScopedActivity ''claim''"
    by code_simp+
  note w = addr_actor [OF assms(1,5)]
  note p = claim_data_parts [OF assms(6,7)]
  have "decodeContractEventXDR S (ev_RawEvent evt) = zero_decoded_event\<lparr>de_eventName := ''claim'', de_activityType := ''claim'',
      de_address := xdr_wallet S [?a], de_assetID := xdr_asset S [?a], de_amountRaw := show_int n, de_shareRaw := '''',
      de_direction := ''in''\<rparr>"
    using contract_event [OF assms(8) _ names(1) _ names(2) refl] w by (simp add: p names merge_first_def)
  then have d: "de_activityType ?d = ''claim''" "de_address ?d = xdr_wallet S [?a]" "de_assetID ?d = xdr_asset S [?a]"
    "de_amountRaw ?d = show_int n" "de_shareRaw ?d = ''''"
    using decode_chain_event [OF assms(2) refl, of S] by simp_all
  have b: "de_isBlend ?d" using assms(3) by simp
  show ?thesis
  proof (cases actor)
    case (AddrAccount k)
    then have k: "?a = sdk_strkey_account S k" "sdk_valid_account S ?a" "\<not> sdk_valid_contract S ?a"
      using assms(1) by (auto simp: scValAddress_def strkey_valid_ok_def)
    then have "xdr_wallet S [?a] = ?a" "xdr_asset S [?a] = ''''" by (simp_all add: xdr_wallet_def xdr_asset_def)
    then have "bl_event S J cfg evt = Some (Inr (bl_activity cfg evt ?d))"
      using b w k assms(4) by (simp add: bl_event_def Let_def d activityIdentityFailure_def names)
    then show ?thesis using AddrAccount k \<open>xdr_wallet S [?a] = ?a\<close> by (simp add: bl_activity_def d Let_def)
  next
    case (AddrContract k)
    then have "sdk_valid_contract S ?a" using assms(1) by (auto simp: scValAddress_def strkey_valid_ok_def)
    then have "xdr_wallet S [?a] = ''''" by (simp add: xdr_wallet_def)
    then show ?thesis using AddrContract b by (simp add: bl_event_def Let_def d activityIdentityFailure_def names bl_quarantine_def)
  qed (use assms(5) in simp)
qed

section \<open>Examples\<close>

text \<open>An address of the length \<open>strkey\<close> uses is never evaluated: the example events carry short keys.\<close>

definition wi_json :: json_env where
  "wi_json = \<lparr>je_float = Some, je_order = sort\<rparr>"

definition wi_event :: raw_event_envelope where
  "wi_event = zero_raw_event_envelope\<lparr>ev_ContractID := ''C01'', ev_Topic := ''supply'', ev_RawEvent := ''e''\<rparr>"

definition wi_sdk :: "scval list \<Rightarrow> scval \<Rightarrow> sdk" where
  "wi_sdk topics data = example_sdk [] [(''e'', Some (topics, data))]"

lemma wi_event_ok: "chain_event wi_json wi_event" "looksBlend wi_event" "sdk_valid_contract (wi_sdk topics data) (ev_ContractID wi_event)"
  "sdk_unmarshal_event (wi_sdk topics data) (ev_RawEvent wi_event) = Some (Some (topics, data))" "strkey_valid_ok (wi_sdk topics data)"
proof -
  show "chain_event wi_json wi_event" by code_simp
  show "looksBlend wi_event" by code_simp
qed (simp_all add: wi_event_def wi_sdk_def example_sdk_valid, simp_all add: example_sdk_def)

theorem reserve_event_roundtrip_witness:
  "\<exists>x. bl_event (wi_sdk [ScSym ''borrow'', ScAddress (AddrContract ''a''), ScAddress (AddrAccount ''b'')] (ScVec (Some [i128 7, i128 (- 6)])))
      wi_json bl_DefaultConfig wi_event = Some (Inr x)
    \<and> set_string (ac_AmountRaw x) = Some 7 \<and> set_string (ac_ShareAmount x) = Some (- 6) \<and> ac_ActivityType x = ''borrow''"
proof -
  have "''borrow'' \<in> set reserve_events" by (simp add: reserve_events_def)
  from reserve_event_roundtrip [where amount = 7 and shares = "- 6" and asset = "''a''" and actor = "AddrAccount ''b''"
      and cfg = bl_DefaultConfig, OF wi_event_ok(5,1,2,3) this _ _ _ _ _ wi_event_ok(4)]
  show ?thesis by (simp del: One_nat_def) blast
qed

theorem claim_by_contract_quarantined_witness:
  "\<exists>q. bl_event (wi_sdk [ScSym ''claim'', ScAddress (AddrContract ''v'')] (claim_data [1] 9)) wi_json bl_DefaultConfig wi_event
      = Some (Inl q) \<and> qe_Reason q = ''missing_activity_address''"
  using claim_by_contract_quarantined
    [where actor = "AddrContract ''v''" and n = 9 and cfg = bl_DefaultConfig, OF wi_event_ok(5,1,2,3) _ _ _ wi_event_ok(4)] by simp

end
