(* ===== verification/Blend_Emission.thy ===== *)
theory Blend_Emission
  imports Blend_Adapter
begin

text \<open>
  What the Blend adapter promises about its output: every event is accounted for, a position is
  either still reported or closed, and the summaries of a projection of a dirty set are not those of
  the full pass. That its rows are is in Blend_Projection.
\<close>

section \<open>The valuation only adds to the output\<close>

definition unresolved :: "'d decimal_ops \<Rightarrow> blend_config \<Rightarrow> blend_pool_state list \<Rightarrow> blend_pool_state list" where
  "unresolved D cfg ps = filter (\<lambda>p. pool_identity D cfg p = None) ps"

lemma reserves_loop_events:
  assumes "foldE (cs_reserve D E pool np) rs u = Inr v"
  shows "to_Activities (cw_out v) = to_Activities (cw_out u) \<and> to_Quarantine (cw_out v) = to_Quarantine (cw_out u)
    \<and> to_PositionTombstones (cw_out v) = to_PositionTombstones (cw_out u)
    \<and> to_SummaryTombstones (cw_out v) = to_SummaryTombstones (cw_out u)"
  using assms by (rule foldE_inv) (auto simp: cs_reserve_def Let_def and_then_Inr split: if_splits)

lemma cs_pool_events:
  assumes "cs_pool D E p u = Inr v"
  shows "to_Activities (cw_out v) = to_Activities (cw_out u) \<and>
    to_Quarantine (cw_out v) = to_Quarantine (cw_out u) @
      map (\<lambda>p. cs_unknown_pool E (fst (enrichPoolIdentity (ce_cfg E) p))) (unresolved D (ce_cfg E) [p])
    \<and> to_PositionTombstones (cw_out v) = to_PositionTombstones (cw_out u)
    \<and> to_SummaryTombstones (cw_out v) = to_SummaryTombstones (cw_out u)"
  using assms by (auto simp: cs_pool_def unresolved_def pool_identity_def Let_def split_def
      split: option.splits if_splits dest!: reserves_loop_events)

lemma pools_loop_events:
  "foldE (cs_pool D E) ps u = Inr v \<Longrightarrow> to_Activities (cw_out v) = to_Activities (cw_out u) \<and>
    to_Quarantine (cw_out v) = to_Quarantine (cw_out u) @
      map (\<lambda>p. cs_unknown_pool E (fst (enrichPoolIdentity (ce_cfg E) p))) (unresolved D (ce_cfg E) ps)
    \<and> to_PositionTombstones (cw_out v) = to_PositionTombstones (cw_out u)
    \<and> to_SummaryTombstones (cw_out v) = to_SummaryTombstones (cw_out u)"
proof (induction ps arbitrary: u)
  case Nil
  then show ?case by (simp add: unresolved_def)
next
  case (Cons p ps)
  then obtain w where w: "cs_pool D E p u = Inr w" "foldE (cs_pool D E) ps w = Inr v" by (auto simp: and_then_Inr)
  show ?case using Cons.IH [OF w(2)] cs_pool_events [OF w(1)] by (simp add: unresolved_def)
qed

lemma cs_rows_events:
  "to_Activities (cs_rows D E st w) = map (cs_activity D E (cw_reserves w)) (to_Activities (cw_out w))"
  "to_Quarantine (cs_rows D E st w) = to_Quarantine (cw_out w)"
  "to_PositionTombstones (cs_rows D E st w) = to_PositionTombstones (cw_out w)"
  "to_SummaryTombstones (cs_rows D E st w) = to_SummaryTombstones (cw_out w)"
  by (simp_all add: cs_rows_def valuePoolBackstops_def Let_def)

text \<open>The valuation prices the activities in place and adds the pools it does not recognize.\<close>

lemma computeState_events:
  assumes "computeState D cfg i out = Inr out'"
  obtains f pools where "to_Activities out' = map f (to_Activities out)"
    "\<And>x. (f x)\<lparr>ac_AssetSymbol := '''', ac_USDValue := '''', ac_Metadata := Map.empty\<rparr>
       = x\<lparr>ac_AssetSymbol := '''', ac_USDValue := '''', ac_Metadata := Map.empty\<rparr>"
    "to_Quarantine out' = to_Quarantine out @ pools"
    "to_PositionTombstones out' = to_PositionTombstones out" "to_SummaryTombstones out' = to_SummaryTombstones out"
proof (cases "ti_State i")
  case None
  then have "out' = out" using assms by (simp add: computeState_def)
  then show ?thesis using that [of id "[]"] by simp
next
  case (Some st)
  then obtain w where w: "pools_pass D cfg i st out = Inr w"
    and out': "out' = (let E = cs_env_of cfg i st; out = cs_rows D E st w; u = cs_account_sums D E st w
       in out\<lparr>to_Positions := to_Positions out @ cu_positions u,
              to_Summaries := to_Summaries out @ cs_summaries D E (cw_reserves w) u\<rparr>)"
    using assms by (auto simp: computeState_Some and_then_Inr Let_def)
  have f: "(cs_activity D E rs x)\<lparr>ac_AssetSymbol := '''', ac_USDValue := '''', ac_Metadata := Map.empty\<rparr>
       = x\<lparr>ac_AssetSymbol := '''', ac_USDValue := '''', ac_Metadata := Map.empty\<rparr>" for E rs x
    by (simp add: cs_activity_def Let_def split: option.splits)
  show ?thesis
    using pools_loop_events [OF w [unfolded pools_pass_def]]
    by (intro that [of "cs_activity D (cs_env_of cfg i st) (cw_reserves w)"
          "map (\<lambda>p. cs_unknown_pool (cs_env_of cfg i st) (fst (enrichPoolIdentity cfg p))) (unresolved D cfg (ls_Pools st))"])
      (simp_all add: out' Let_def cs_rows_events f, simp_all add: cs_env_of_def)
qed

lemma emitTombstones_frame:
  "to_Activities (emitTombstones i out) = to_Activities out" "to_Quarantine (emitTombstones i out) = to_Quarantine out"
  "to_Positions (emitTombstones i out) = to_Positions out" "to_Summaries (emitTombstones i out) = to_Summaries out"
  by (simp_all add: emitTombstones_def Let_def)


section \<open>Events\<close>

text \<open>The account an event is about: the decoded one, or the emitting contract for a lifecycle event.\<close>

definition event_actor :: "sdk \<Rightarrow> json_env \<Rightarrow> raw_event_envelope \<Rightarrow> string" where
  "event_actor S J evt =
     (let d = decodeEvent S J evt in
      if de_address d = '''' \<and> contractScopedActivity (de_activityType d) then ev_ContractID evt else de_address d)"

text \<open>An event with a known name, an emitting contract, a well-formed actor and no malformed asset.\<close>

definition well_formed_event :: "sdk \<Rightarrow> json_env \<Rightarrow> raw_event_envelope \<Rightarrow> bool" where
  "well_formed_event S J evt \<longleftrightarrow>
     (let d = decodeEvent S J evt; actor = event_actor S J evt in
      de_activityType d \<noteq> '''' \<and> actor \<noteq> '''' \<and> validActorAddress S actor \<and> sdk_valid_contract S (ev_ContractID evt)
      \<and> (de_assetID d = '''' \<or> sdk_valid_contract S (de_assetID d))
      \<and> (de_activityType d = ''contract_status_change'' \<longrightarrow> actor = ev_ContractID evt))"

definition reports_event :: "sdk \<Rightarrow> json_env \<Rightarrow> raw_event_envelope \<Rightarrow> activity_row \<Rightarrow> bool" where
  "reports_event S J evt x \<longleftrightarrow>
     (let d = decodeEvent S J evt in
      ac_ActivityType x = de_activityType d \<and> ac_Address x = event_actor S J evt \<and> ac_AssetID x = de_assetID d
      \<and> ac_AmountRaw x = de_amountRaw d \<and> ac_ShareAmount x = de_shareRaw d
      \<and> ac_ContractID x = ev_ContractID evt \<and> ac_LedgerSeq x = ev_LedgerSeq evt \<and> ac_Timestamp x = ev_CloseTime evt
      \<and> (ac_TxHash x, ac_EventIndex x) =
          (if de_activityType d = ''contract_status_change'' then (statusChangeTxHash (ev_ContractID evt) (ev_LedgerSeq evt), 0)
           else (ev_TxHash evt, ev_EventIndex evt)))"

definition keeps_event :: "raw_event_envelope \<Rightarrow> quarantine_event \<Rightarrow> bool" where
  "keeps_event evt q \<longleftrightarrow> qe_RawEvent q = ev_RawEvent evt \<and> qe_ContractID q = ev_ContractID evt
     \<and> qe_LedgerSeq q = ev_LedgerSeq evt \<and> qe_TxHash q = ev_TxHash evt \<and> qe_EventIndex q = ev_EventIndex evt
     \<and> qe_Reason q \<noteq> ''''"

lemma identity_failure_iff:
  "activityIdentityFailure S d evt = '''' \<longleftrightarrow>
     de_address d \<noteq> '''' \<and> sdk_valid_contract S (ev_ContractID evt) \<and> (de_assetID d = '''' \<or> sdk_valid_contract S (de_assetID d))
     \<and> validActorAddress S (de_address d) \<and> (de_activityType d = ''contract_status_change'' \<longrightarrow> de_address d = ev_ContractID evt)"
  by (auto simp: activityIdentityFailure_def validActorAddress_def)

lemma bl_event_cases:
  assumes "looksBlend evt"
  shows "(well_formed_event S J evt \<and> (\<exists>x. bl_event S J cfg evt = Some (Inr x) \<and> reports_event S J evt x))
    \<or> (\<not> well_formed_event S J evt \<and> (\<exists>q. bl_event S J cfg evt = Some (Inl q) \<and> keeps_event evt q))"
proof -
  let ?d = "decodeEvent S J evt"
  define d where "d = (if contractScopedActivity (de_activityType ?d) \<and> de_address ?d = ''''
    then ?d\<lparr>de_address := ev_ContractID evt\<rparr> else ?d)"
  have d: "de_address d = event_actor S J evt" "de_assetID d = de_assetID ?d" "de_activityType d = de_activityType ?d"
    "de_amountRaw d = de_amountRaw ?d" "de_shareRaw d = de_shareRaw ?d"
    by (simp_all add: d_def event_actor_def Let_def)
  have e: "bl_event S J cfg evt =
      (if de_activityType ?d = '''' then Some (Inl (bl_quarantine cfg evt ?d ''unknown'' (de_reason ?d)))
       else if activityIdentityFailure S d evt \<noteq> ''''
       then Some (Inl (bl_quarantine cfg evt d (activityIdentityFailure S d evt) (activityIdentityFailure S d evt)))
       else Some (Inr (bl_activity cfg evt d)))"
    using assms unfolding bl_event_def d_def Let_def by (simp only: decodeEvent_isBlend) simp
  have q: "keeps_event evt (bl_quarantine cfg evt d' tag r)" if "r \<noteq> ''''" for d' tag r
    using that by (simp add: keeps_event_def bl_quarantine_def)
  have x: "reports_event S J evt (bl_activity cfg evt d)"
    by (simp add: reports_event_def bl_activity_def Let_def d)
  have wf: "well_formed_event S J evt \<longleftrightarrow> de_activityType ?d \<noteq> '''' \<and> activityIdentityFailure S d evt = ''''"
    by (auto simp: well_formed_event_def identity_failure_iff d Let_def)
  show ?thesis
    using x q decodeEvent_reason [of S J evt] unfolding e wf by (cases "de_activityType ?d = ''''") auto
qed

lemma bl_events_split:
  "list_all2 (reports_event S J) (filter (well_formed_event S J) (filter looksBlend evts))
      (rights (List.map_filter (bl_event S J cfg) evts)) \<and>
   list_all2 keeps_event (filter (\<lambda>e. \<not> well_formed_event S J e) (filter looksBlend evts))
      (lefts (List.map_filter (bl_event S J cfg) evts))"
proof (induction evts)
  case Nil
  then show ?case by (simp add: List.map_filter_def lefts_def rights_def)
next
  case (Cons evt evts)
  have skip: "bl_event S J cfg evt = None" if "\<not> looksBlend evt"
    using that by (simp add: bl_event_def Let_def)
  show ?case
  proof (cases "looksBlend evt")
    case True
    from bl_event_cases [OF True, of S J cfg] show ?thesis
      using Cons.IH True by (auto simp: List.map_filter_def lefts_def rights_def)
  qed (use Cons.IH skip in \<open>simp add: List.map_filter_def\<close>)
qed

text \<open>
  C17: No event of the protocol is lost: of the events of a ledger that look like Blend's, those
  that are well formed become, one for one and in their order, the activities of the output, with
  the decoded type, actor, asset and amounts and the identity of the event (a status change: the
  synthetic identity of its contract and ledger); all others are quarantined, one for one and in
  their order, with their bytes, identity and a reason.
\<close>

theorem events_accounted:
  assumes "bl_Transform D S J a i = Inr out"
  shows "list_all2 (reports_event S J) (filter (well_formed_event S J) (filter looksBlend (ti_Events i))) (to_Activities out) \<and>
    (\<exists>kept pools. to_Quarantine out = kept @ pools \<and>
      list_all2 keeps_event (filter (\<lambda>e. \<not> well_formed_event S J e) (filter looksBlend (ti_Events i))) kept)"
proof -
  let ?ev = "bl_events S J (ba_cfg a) i"
  obtain out1 where c: "computeState D (ba_cfg a) i ?ev = Inr out1" and out: "out = emitTombstones i out1"
    using assms by (auto simp: bl_Transform_def and_then_Inr)
  obtain f pools where f: "to_Activities out1 = map f (to_Activities ?ev)"
    "\<And>x. (f x)\<lparr>ac_AssetSymbol := '''', ac_USDValue := '''', ac_Metadata := Map.empty\<rparr>
       = x\<lparr>ac_AssetSymbol := '''', ac_USDValue := '''', ac_Metadata := Map.empty\<rparr>"
    and q: "to_Quarantine out1 = to_Quarantine ?ev @ pools"
    using c by (rule computeState_events) blast
  have keep: "reports_event S J evt (f x) \<longleftrightarrow> reports_event S J evt x" for evt x
    using f(2) [of x] by (cases "f x"; cases x) (simp add: reports_event_def)
  show ?thesis
    using bl_events_split [where S = S and J = J and cfg = "ba_cfg a" and evts = "ti_Events i"] f(1) q
    by (auto simp: out emitTombstones_frame bl_events_def Let_def zero_transform_output_def list.rel_map keep)
qed


section \<open>Tombstones\<close>

lemma bar_cancel:
  "CHR ''|'' \<notin> set a \<Longrightarrow> CHR ''|'' \<notin> set b \<Longrightarrow> a @ CHR ''|'' # x = b @ CHR ''|'' # y \<longleftrightarrow> a = b \<and> x = y"
proof (induction a arbitrary: b)
  case Nil
  then show ?case by (cases b) auto
next
  case (Cons c a)
  then show ?case by (cases b) auto
qed

lemma position_type_string_inj: "position_type_string t = position_type_string u \<longleftrightarrow> t = u"
  by (cases t; cases u) simp_all

definition pn_identity :: "position_row \<Rightarrow> string \<times> string \<times> string \<times> string \<times> position_type" where
  "pn_identity p = (pn_Address p, pn_Protocol p, pn_ContractID p, pn_AssetID p, pn_PositionType p)"

text \<open>Addresses and the protocol name never hold a bar; the asset \<open>blend_backstop_lp\<close> does not either.\<close>

definition bar_free :: "position_row \<Rightarrow> bool" where
  "bar_free p \<longleftrightarrow> CHR ''|'' \<notin> set (pn_Address p) \<and> CHR ''|'' \<notin> set (pn_Protocol p)
     \<and> CHR ''|'' \<notin> set (pn_ContractID p) \<and> CHR ''|'' \<notin> set (pn_AssetID p)"

lemma pn_key_inj: "bar_free p \<Longrightarrow> bar_free q \<Longrightarrow> pn_key p = pn_key q \<longleftrightarrow> pn_identity p = pn_identity q"
  by (simp add: pn_key_def positionIdentityKey_def bar_free_def bar_cancel pn_identity_def position_type_string_inj)

lemma pn_key_address:
  "CHR ''|'' \<notin> set (pn_Address p) \<Longrightarrow> CHR ''|'' \<notin> set (pn_Address q) \<Longrightarrow> pn_key p = pn_key q \<Longrightarrow> pn_Address p = pn_Address q"
  by (simp add: pn_key_def positionIdentityKey_def bar_cancel)

lemma tombstone_of_inj: "position_tombstone_of l p = position_tombstone_of l q \<Longrightarrow> pn_identity p = pn_identity q"
  by (simp add: position_tombstone_of_def pn_identity_def position_type_string_inj)

lemma summary_tombstone_of_inj: "summary_tombstone_of l s = summary_tombstone_of l r \<Longrightarrow> sm_Address s = sm_Address r"
  by (simp add: summary_tombstone_of_def)

lemma in_image_filter:
  "x \<in> A \<Longrightarrow> (\<And>y. f x = f y \<Longrightarrow> y \<in> A \<Longrightarrow> Q y = Q x) \<Longrightarrow> f x \<in> f ` {y \<in> A. Q y} \<longleftrightarrow> Q x"
  unfolding image_iff mem_Collect_eq by blast

lemma tombstones_emitted:
  assumes "to_PositionTombstones out = []" and "to_SummaryTombstones out = []"
  shows "set (to_PositionTombstones (emitTombstones i out)) =
      position_tombstone_of (ti_LedgerSeq i) ` {p \<in> set (ti_PriorPositions i). pn_key p \<notin> pn_key ` set (to_Positions out)}"
    and "set (to_SummaryTombstones (emitTombstones i out)) =
      summary_tombstone_of (ti_LedgerSeq i) `
        {s \<in> set (ti_PriorSummaries i). sm_Address s \<notin> pn_Address ` set (to_Positions out) \<union> sm_Address ` set (to_Summaries out)}"
    and "sorted (map (\<lambda>t. (pt_Address t, pt_ContractID t, pt_AssetID t, pt_PositionType t)) (to_PositionTombstones (emitTombstones i out)))"
    and "sorted (map (\<lambda>t. (st_Address t, st_Protocol t)) (to_SummaryTombstones (emitTombstones i out)))"
  using assms by (simp_all add: emitTombstones_def Let_def)

lemma bl_Transform_Inr:
  assumes "bl_Transform D S J a i = Inr out"
  obtains out1 where "computeState D (ba_cfg a) i (bl_events S J (ba_cfg a) i) = Inr out1" "out = emitTombstones i out1"
    "to_PositionTombstones out1 = []" "to_SummaryTombstones out1 = []"
    "to_Positions out = to_Positions out1" "to_Summaries out = to_Summaries out1"
proof -
  obtain out1 where c: "computeState D (ba_cfg a) i (bl_events S J (ba_cfg a) i) = Inr out1"
    and out: "out = emitTombstones i out1"
    using assms by (auto simp: bl_Transform_def and_then_Inr)
  have "to_PositionTombstones out1 = []" "to_SummaryTombstones out1 = []"
    using c by (rule computeState_events, simp add: bl_events_def Let_def zero_transform_output_def)+
  then show ?thesis using that c out by (simp add: emitTombstones_frame)
qed

text \<open>
  C18: Every position of the last ledger is either reported again or closed, never both: a prior
  position has a tombstone at this ledger exactly when no current row has its identity (account,
  protocol, pool, asset, side), every tombstone closes a prior position, and the list is sorted by
  account, pool, asset and side. A prior summary has a tombstone exactly when its account has
  neither a position nor a summary now.
\<close>

theorem position_lifecycle:
  assumes "bl_Transform D S J a i = Inr out"
    and free: "\<And>p. p \<in> set (ti_PriorPositions i) \<union> set (to_Positions out) \<Longrightarrow> bar_free p"
  shows "(\<forall>p\<in>set (ti_PriorPositions i). position_tombstone_of (ti_LedgerSeq i) p \<in> set (to_PositionTombstones out)
      \<longleftrightarrow> pn_identity p \<notin> pn_identity ` set (to_Positions out))
    \<and> set (to_PositionTombstones out) \<subseteq> position_tombstone_of (ti_LedgerSeq i) ` set (ti_PriorPositions i)
    \<and> sorted (map (\<lambda>t. (pt_Address t, pt_ContractID t, pt_AssetID t, pt_PositionType t)) (to_PositionTombstones out))
    \<and> (\<forall>s\<in>set (ti_PriorSummaries i).
      summary_tombstone_of (ti_LedgerSeq i) s \<in> set (to_SummaryTombstones out)
      \<longleftrightarrow> sm_Address s \<notin> pn_Address ` set (to_Positions out) \<union> sm_Address ` set (to_Summaries out))"
  using assms(1)
proof (rule bl_Transform_Inr)
  fix out1
  assume out: "out = emitTombstones i out1" and pos: "to_Positions out = to_Positions out1" "to_Summaries out = to_Summaries out1"
    and none: "to_PositionTombstones out1 = []" "to_SummaryTombstones out1 = []"
  note t = tombstones_emitted [OF none, of i, folded out pos]
  have key: "pn_key p \<notin> pn_key ` set (to_Positions out) \<longleftrightarrow> pn_identity p \<notin> pn_identity ` set (to_Positions out)"
    if "p \<in> set (ti_PriorPositions i)" for p
    using that free pn_key_inj by (simp add: image_iff)
  have same: "position_tombstone_of (ti_LedgerSeq i) p \<in> set (to_PositionTombstones out)
      \<longleftrightarrow> pn_identity p \<notin> pn_identity ` set (to_Positions out)" if p: "p \<in> set (ti_PriorPositions i)" for p
    unfolding t(1) key [OF p, symmetric] using p by (rule in_image_filter) (metis key tombstone_of_inj p)
  have closed: "summary_tombstone_of (ti_LedgerSeq i) s \<in> set (to_SummaryTombstones out)
      \<longleftrightarrow> sm_Address s \<notin> pn_Address ` set (to_Positions out) \<union> sm_Address ` set (to_Summaries out)"
    if "s \<in> set (ti_PriorSummaries i)" for s
    unfolding t(2) using that by (rule in_image_filter) (metis summary_tombstone_of_inj)
  have "set (to_PositionTombstones out) \<subseteq> position_tombstone_of (ti_LedgerSeq i) ` set (ti_PriorPositions i)"
    unfolding t(1) by blast
  then show ?thesis by (intro conjI ballI same closed t(3))
qed

text \<open>A leg whose reserve is known by its configuration only: its data is not decoded.\<close>

definition undecoded_leg :: "ledger_state \<Rightarrow> user_reserve_position \<Rightarrow> bool" where
  "undecoded_leg st leg \<longleftrightarrow> (\<forall>p\<in>set (ls_Pools st). \<forall>r\<in>set (bp_Reserves p).
     bp_ContractID p = up_PoolContractID leg \<and> rs_AssetID r = up_AssetID leg \<longrightarrow> \<not> reserveHasFoldedData r)"

lemma cs_reserve_keys:
  "cs_reserve D E pool np r u = Inr v \<Longrightarrow> fst ` set (cw_reserves v) =
     (if reserveHasFoldedData r then insert (reserveKey (bp_ContractID pool) (rs_AssetID r)) (fst ` set (cw_reserves u))
      else fst ` set (cw_reserves u))"
proof (cases "normalizeReserve D (bp_ContractID pool) np r")
  case (Inr nr)
  assume "cs_reserve D E pool np r u = Inr v"
  then have "if reserveHasFoldedData r then cw_reserves v = gm_set (reserveKey (bp_ContractID pool) (rs_AssetID r)) nr (cw_reserves u) else v = u"
    using Inr by (auto simp: cs_reserve_def Let_def)
  then show ?thesis by (simp add: keys_gm_set split: if_splits)
qed (simp add: cs_reserve_def split: if_splits)

lemma pools_pass_keys:
  assumes "pools_pass D cfg i st out = Inr w" and "k \<in> fst ` set (cw_reserves w)"
  shows "\<exists>p\<in>set (ls_Pools st). \<exists>r\<in>set (bp_Reserves p). reserveHasFoldedData r \<and> k = reserveKey (bp_ContractID p) (rs_AssetID r)"
proof -
  let ?K = "{reserveKey (bp_ContractID p) (rs_AssetID r) | p r. p \<in> set (ls_Pools st) \<and> r \<in> set (bp_Reserves p) \<and> reserveHasFoldedData r}"
  let ?P = "\<lambda>v. fst ` set (cw_reserves v) \<subseteq> ?K"
  have r: "?P v" if "foldE (cs_reserve D E q np) rs u = Inr v" "?P u" "bp_ContractID q = bp_ContractID p"
    "p \<in> set (ls_Pools st)" "set rs \<subseteq> set (bp_Reserves p)" for E p q np rs u v
    using that(1,2)
  proof (rule foldE_inv)
    fix x s t
    assume "x \<in> set rs" "?P s" and t: "cs_reserve D E q np x s = Inr t"
    then show "?P t" using that(3-5) unfolding cs_reserve_keys [OF t] by (simp split: if_splits) blast
  qed
  have p: "?P v" if c: "cs_pool D E p u = Inr v" and u: "?P u" and p: "p \<in> set (ls_Pools st)" for E p u v
  proof (cases "resolvePool D (ce_cfg E) (fst (enrichPoolIdentity (ce_cfg E) p))")
    case None
    then have "cw_reserves v = cw_reserves u" using c by (auto simp: cs_pool_def Let_def split_def)
    with u show ?thesis by (simp only:)
  next
    case (Some np)
    then obtain v0 where "foldE (cs_reserve D E (fst (enrichPoolIdentity (ce_cfg E) p)) np) (bp_Reserves p) v0 = Inr v"
      and "cw_reserves v0 = cw_reserves u"
      using c by (auto simp: cs_pool_def Let_def split_def)
    then show ?thesis using r [OF _ _ _ p order.refl, of E "fst (enrichPoolIdentity (ce_cfg E) p)"] u by simp
  qed
  have "?P w" using assms(1) unfolding pools_pass_def by (rule foldE_inv) (simp, rule p)
  with assms(2) show ?thesis by blast
qed


lemma leg_row_from [simp]:
  "pn_Address (leg_row D E pool nr leg) = up_Address leg" "pn_ContractID (leg_row D E pool nr leg) = up_PoolContractID leg"
  "pn_AssetID (leg_row D E pool nr leg) = up_AssetID leg" "pn_PositionType (leg_row D E pool nr leg) = up_PositionType leg"
  by (simp_all add: leg_row_def split: prod.splits)

lemma finite_touched: "finite (touched st w)"
  by (simp add: touched_def)

lemma leg_rows_from: "p \<in> set (leg_rows D E pools rs leg) \<Longrightarrow> pn_Address p = up_Address leg \<and> pn_ContractID p = up_PoolContractID leg
    \<and> pn_AssetID p = up_AssetID leg \<and> pn_PositionType p = up_PositionType leg \<and> leg_reserve rs leg \<noteq> None"
  by (cases "pools (up_PoolContractID leg)"; cases "leg_reserve rs leg") (simp_all add: leg_rows_def)

lemma backstop_row_from [simp]:
  "pn_Address (fst (backstop_row_of D E b)) = bk_Address b"
  "pn_ContractID (fst (backstop_row_of D E b)) = bk_PoolContractID b"
  "pn_PositionType (fst (backstop_row_of D E b)) = Backstop"
  by (simp_all add: backstop_row_of_def Let_def split: prod.splits)

text \<open>No decoded identifier of the state holds a bar.\<close>

definition state_bar_free :: "ledger_state \<Rightarrow> bool" where
  "state_bar_free st \<longleftrightarrow> (\<forall>p\<in>set (ls_Pools st). CHR ''|'' \<notin> set (bp_ContractID p))
     \<and> (\<forall>leg\<in>set (ls_Users st). CHR ''|'' \<notin> set (up_Address leg) \<and> CHR ''|'' \<notin> set (up_PoolContractID leg))
     \<and> (\<forall>b\<in>set (ls_Backstops st). CHR ''|'' \<notin> set (bk_Address b))"

lemma undecoded_reserve:
  assumes "pools_pass D cfg i st out = Inr w" and "state_bar_free st" and "leg \<in> set (ls_Users st)" and "undecoded_leg st leg"
  shows "leg_reserve (cw_reserves w) leg = None"
proof (rule ccontr)
  assume "leg_reserve (cw_reserves w) leg \<noteq> None"
  then have "reserveKey (up_PoolContractID leg) (up_AssetID leg) \<in> fst ` set (cw_reserves w)"
    by (force simp: leg_reserve_def dest: gm_get_in)
  from pools_pass_keys [OF assms(1) this] obtain p r where "p \<in> set (ls_Pools st)" "r \<in> set (bp_Reserves p)" "reserveHasFoldedData r"
    "reserveKey (up_PoolContractID leg) (up_AssetID leg) = reserveKey (bp_ContractID p) (rs_AssetID r)" by blast
  then show False using assms(2-4) by (simp add: reserveKey_def bar_cancel state_bar_free_def undecoded_leg_def)
qed

text \<open>
  C26: A reload without reserve data closes accounts: when every leg of an account is in a reserve
  that is configured but not decoded, and it has no backstop deposit, then all its prior positions
  and its prior summary are tombstoned at this ledger, although the state still holds its legs and
  the valuation suppresses its summary just to keep the stored one.
\<close>

theorem undecoded_account_closed:
  assumes "bl_Transform D S J a i = Inr out" and "ti_State i = Some st" and "state_bar_free st"
    and legs: "\<And>leg. leg \<in> set (ls_Users st) \<Longrightarrow> up_Address leg = A \<Longrightarrow> undecoded_leg st leg"
    and deposits: "\<And>b. b \<in> set (ls_Backstops st) \<Longrightarrow> bk_Address b \<noteq> A" and "CHR ''|'' \<notin> set A"
  shows "(\<forall>p\<in>set (ti_PriorPositions i). pn_Address p = A \<longrightarrow>
      position_tombstone_of (ti_LedgerSeq i) p \<in> set (to_PositionTombstones out)) \<and>
    (\<forall>s\<in>set (ti_PriorSummaries i). sm_Address s = A \<longrightarrow>
      summary_tombstone_of (ti_LedgerSeq i) s \<in> set (to_SummaryTombstones out))"
  using assms(1)
proof (rule bl_Transform_Inr)
  fix out1
  let ?E = "cs_env_of (ba_cfg a) i st" and ?ev = "bl_events S J (ba_cfg a) i"
  assume c: "computeState D (ba_cfg a) i ?ev = Inr out1" and out: "out = emitTombstones i out1"
    and none: "to_PositionTombstones out1 = []" "to_SummaryTombstones out1 = []"
  obtain w where w: "pools_pass D (ba_cfg a) i st ?ev = Inr w"
    and ps: "to_Positions out1 = to_Positions ?ev @ cu_positions (cs_account_sums D ?E st w)"
    and ss: "to_Summaries out1 = to_Summaries ?ev @ cs_summaries D ?E (cw_reserves w) (cs_account_sums D ?E st w)"
    using assms(2) c by (rule computeState_Inr)
  have ev: "to_Positions ?ev = []" "to_Summaries ?ev = []"
    by (simp_all add: bl_events_def Let_def zero_transform_output_def)
  have none_A: "leg_reserve (cw_reserves w) leg = None" if "leg \<in> set (ls_Users st)" "up_Address leg = A" for leg
    using undecoded_reserve [OF w assms(3) that(1)] legs that by blast
  have from_state: "(\<exists>leg\<in>set (ls_Users st). pn_Address p = up_Address leg \<and> leg_reserve (cw_reserves w) leg \<noteq> None)
      \<or> (\<exists>b\<in>set (ls_Backstops st). pn_Address p = bk_Address b)" if "p \<in> set (to_Positions out1)" for p
    using that unfolding ps ev account_sums(2) by (auto dest: leg_rows_from)
  then have A: "pn_Address p \<noteq> A" "CHR ''|'' \<notin> set (pn_Address p)" if "p \<in> set (to_Positions out1)" for p
    using that none_A deposits assms(3) unfolding state_bar_free_def by (metis, metis)
  have "map sm_Address (to_Summaries out1) = sorted_list_of_set (touched st w - incomplete st w)"
    unfolding ss ev by (simp add: summary_addresses)
  then have "sm_Address ` set (to_Summaries out1) \<subseteq> touched st w - incomplete st w"
    by (metis finite_Diff finite_touched list.set_map set_sorted_list_of_set subset_refl)
  moreover have "A \<notin> touched st w - incomplete st w"
    using none_A deposits by (auto simp: touched_def incomplete_def leg_complete_def)
  ultimately have no_summary: "A \<notin> sm_Address ` set (to_Summaries out1)" by blast
  have "pn_key p \<notin> pn_key ` set (to_Positions out1)" if p: "pn_Address p = A" for p
  proof
    assume "pn_key p \<in> pn_key ` set (to_Positions out1)"
    then obtain q where q: "q \<in> set (to_Positions out1)" "pn_key p = pn_key q" by blast
    have "pn_Address p = pn_Address q" using assms(6) A(2) [OF q(1)] q(2) p by (intro pn_key_address) simp_all
    with p A(1) [OF q(1)] show False by simp
  qed
  moreover have "A \<notin> pn_Address ` set (to_Positions out1) \<union> sm_Address ` set (to_Summaries out1)"
    using no_summary A(1) by blast
  ultimately show ?thesis
    unfolding out tombstones_emitted(1,2) [OF none] by (intro conjI ballI impI imageI CollectI) simp_all
qed


section \<open>Projections of a dirty set\<close>

lemma foldE_sim:
  assumes "R s t" and "\<And>x s t. R s t \<Longrightarrow> rel_sum (=) R (f x s) (g x t)"
  shows "rel_sum (=) R (foldE f xs s) (foldE g xs t)"
  using assms(1)
proof (induction xs arbitrary: s t)
  case (Cons x xs)
  from assms(2) [OF Cons.prems, of x] Cons.IH show ?case by (cases "f x s"; cases "g x t") simp_all
qed simp

text \<open>Which pools and reserves a pass recognizes does not depend on the rows written so far.\<close>

definition same_view :: "'d cs_work \<Rightarrow> 'd cs_work \<Rightarrow> bool" where
  "same_view v w \<longleftrightarrow> cw_pools v = cw_pools w \<and> cw_reserves v = cw_reserves w"

lemma cs_reserve_view: "same_view v w \<Longrightarrow> rel_sum (=) same_view (cs_reserve D E pool np r v) (cs_reserve D E pool np r w)"
  by (cases "normalizeReserve D (bp_ContractID pool) np r") (simp_all add: cs_reserve_def same_view_def Let_def)

lemma cs_pool_view: "same_view v w \<Longrightarrow> rel_sum (=) same_view (cs_pool D E p v) (cs_pool D E p w)"
  unfolding cs_pool_def Let_def split_def
  by (auto split: option.splits intro!: foldE_sim cs_reserve_view) (simp_all add: same_view_def)

lemma pools_pass_view:
  assumes "ls_Pools st' = ls_Pools st" and "cs_env_of cfg i' st' = cs_env_of cfg i st"
  shows "rel_sum (=) same_view (pools_pass D cfg i' st' out') (pools_pass D cfg i st out)"
  unfolding pools_pass_def assms by (rule foldE_sim) (simp_all add: same_view_def cs_pool_view)

text \<open>The legs of the dirty pairs, and the state a projection values.\<close>

definition in_dirty :: "dirty_position list \<Rightarrow> string \<Rightarrow> string \<Rightarrow> bool" where
  "in_dirty dirty address pool \<longleftrightarrow> (\<exists>d\<in>set dirty. dp_Address d = address \<and> dp_PoolContractID d = pool)"

definition pairs_bar_free :: "ledger_state \<Rightarrow> dirty_position list \<Rightarrow> bool" where
  "pairs_bar_free st dirty \<longleftrightarrow> (\<forall>leg\<in>set (ls_Users st). CHR ''|'' \<notin> set (up_Address leg))
     \<and> (\<forall>d\<in>set dirty. CHR ''|'' \<notin> set (dp_Address d))"

lemma dirty_rows:
  assumes "ba_lookup a = None" and "pairs_bar_free st dirty"
  shows "dirtyPositionRows a st dirty = filter (\<lambda>u. in_dirty dirty (up_Address u) (up_PoolContractID u)) (ls_Users st)"
proof -
  have "dirtyPairKey (up_Address u) (up_PoolContractID u) \<in> (\<lambda>d. dirtyPairKey (dp_Address d) (dp_PoolContractID d)) ` set dirty
      \<longleftrightarrow> in_dirty dirty (up_Address u) (up_PoolContractID u)" if "u \<in> set (ls_Users st)" for u
    using that assms(2) by (force simp: dirtyPairKey_def in_dirty_def pairs_bar_free_def bar_cancel image_iff)
  then show ?thesis using assms(1) by (simp add: dirtyPositionRows_def cong: filter_cong)
qed

text \<open>One pass values the whole state, one the dirty legs only; both see the same pools.\<close>

lemma projection_passes:
  assumes "bl_Transform D S J a i = Inr out" and "ti_State i = Some st" and "dirty \<noteq> []"
  defines "legs \<equiv> dirtyPositionRows a st dirty"
    and "E \<equiv> cs_env_of (ba_cfg a) i st"
  obtains w v proj where "ProjectPositions D a (Some st) dirty (ti_LedgerSeq i) (ti_CloseTime i) = Inr proj"
    "same_view v w" "pools_pass D (ba_cfg a) i st (bl_events S J (ba_cfg a) i) = Inr w"
    "to_Positions out = cu_positions (cs_account_sums D E st w)"
    "map sm_Address (to_Summaries out) = sorted_list_of_set (touched st w - incomplete st w)"
    "to_Positions proj = cu_positions (cs_account_sums D E (st\<lparr>ls_Users := legs, ls_Backstops := []\<rparr>) v)"
    "map sm_Address (to_Summaries proj) = sorted_list_of_set
       (touched (st\<lparr>ls_Users := legs, ls_Backstops := []\<rparr>) v - incomplete (st\<lparr>ls_Users := legs, ls_Backstops := []\<rparr>) v)"
  using assms(1)
proof (rule bl_Transform_Inr)
  let ?ev = "bl_events S J (ba_cfg a) i" and ?st = "st\<lparr>ls_Users := legs, ls_Backstops := []\<rparr>"
  let ?i = "zero_transform_input\<lparr>ti_LedgerSeq := ti_LedgerSeq i, ti_CloseTime := ti_CloseTime i, ti_State := Some ?st\<rparr>"
  let ?out = "zero_transform_output\<lparr>to_LedgerSeq := ti_LedgerSeq i\<rparr>"
  fix out1
  assume c: "computeState D (ba_cfg a) i ?ev = Inr out1"
    and same: "to_Positions out = to_Positions out1" "to_Summaries out = to_Summaries out1"
  have z: "to_Positions ?ev = []" "to_Summaries ?ev = []" "to_Positions ?out = []" "to_Summaries ?out = []"
    by (simp_all add: bl_events_def Let_def zero_transform_output_def)
  obtain w where w: "pools_pass D (ba_cfg a) i st ?ev = Inr w"
    and full: "to_Positions out1 = cu_positions (cs_account_sums D E st w)"
      "to_Summaries out1 = cs_summaries D E (cw_reserves w) (cs_account_sums D E st w)"
    using assms(2) c unfolding E_def by (rule computeState_Inr) (auto simp: z)
  have env: "cs_env_of (ba_cfg a) ?i ?st = E" by (simp add: cs_env_of_def E_def)
  have pass: "rel_sum (=) same_view (pools_pass D (ba_cfg a) ?i ?st ?out) (Inr w)"
    unfolding w [symmetric] by (rule pools_pass_view) (simp_all add: cs_env_of_def)
  then obtain v where v: "pools_pass D (ba_cfg a) ?i ?st ?out = Inr v" "same_view v w"
    by (cases "pools_pass D (ba_cfg a) ?i ?st ?out") simp_all
  have st: "ti_State ?i = Some ?st" by simp
  obtain proj where p: "computeState D (ba_cfg a) ?i ?out = Inr proj"
    using v(1) by (simp add: computeState_Some Let_def)
  have rows: "to_Positions proj = cu_positions (cs_account_sums D E ?st v)"
    "to_Summaries proj = cs_summaries D E (cw_reserves v) (cs_account_sums D E ?st v)"
    using st p by (rule computeState_Inr, simp add: z v env)+
  have "ProjectPositions D a (Some st) dirty (ti_LedgerSeq i) (ti_CloseTime i) = Inr proj"
    using p assms(3) by (simp add: ProjectPositions_def legs_def)
  then show ?thesis by (rule that) (simp_all add: v w same full rows summary_addresses)
qed

text \<open>
  The rows a projection returns are the rows of its legs; those of a selection of the legs are the
  lending rows of the full pass with that holder and pool.
\<close>

lemma projection_rows:
  assumes "bl_Transform D S J a i = Inr out" and "ti_State i = Some st" and "dirty \<noteq> []"
    and lending: "\<And>leg. leg \<in> set (ls_Users st) \<Longrightarrow> up_PositionType leg \<noteq> Backstop"
  obtains proj rows where "ProjectPositions D a (Some st) dirty (ti_LedgerSeq i) (ti_CloseTime i) = Inr proj"
    and "to_Positions proj = concat (map rows (dirtyPositionRows a st dirty))"
    and "\<forall>Q. concat (map rows (filter (\<lambda>u. Q (up_Address u) (up_PoolContractID u)) (ls_Users st))) =
      filter (\<lambda>p. pn_PositionType p \<noteq> Backstop \<and> Q (pn_Address p) (pn_ContractID p)) (to_Positions out)"
  using assms(1-3)
proof (rule projection_passes)
  let ?E = "cs_env_of (ba_cfg a) i st"
  fix w v proj
  assume p: "ProjectPositions D a (Some st) dirty (ti_LedgerSeq i) (ti_CloseTime i) = Inr proj" "same_view v w"
    "to_Positions out = cu_positions (cs_account_sums D ?E st w)"
    "to_Positions proj = cu_positions (cs_account_sums D ?E (st\<lparr>ls_Users := dirtyPositionRows a st dirty, ls_Backstops := []\<rparr>) v)"
  let ?rows = "leg_rows D ?E (cw_pools w) (cw_reserves w)"
  have leg: "filter (\<lambda>p. pn_PositionType p \<noteq> Backstop \<and> Q (pn_Address p) (pn_ContractID p)) (?rows u) =
      (if Q (up_Address u) (up_PoolContractID u) then ?rows u else [])" if "u \<in> set (ls_Users st)" for u Q
  proof -
    have "pn_PositionType q \<noteq> Backstop \<and> (Q (pn_Address q) (pn_ContractID q) \<longleftrightarrow> Q (up_Address u) (up_PoolContractID u))"
      if "q \<in> set (?rows u)" for q
      using leg_rows_from [OF that] lending [OF \<open>u \<in> set (ls_Users st)\<close>] by simp
    then show ?thesis by (simp add: filter_empty_conv filter_id_conv)
  qed
  have "concat (map ?rows (filter (\<lambda>u. Q (up_Address u) (up_PoolContractID u)) us)) =
      filter (\<lambda>p. pn_PositionType p \<noteq> Backstop \<and> Q (pn_Address p) (pn_ContractID p)) (concat (map ?rows us))"
    if "set us \<subseteq> set (ls_Users st)" for us Q
    using that by (induction us) (simp_all add: leg)
  then have "concat (map ?rows (filter (\<lambda>u. Q (up_Address u) (up_PoolContractID u)) (ls_Users st))) =
      filter (\<lambda>p. pn_PositionType p \<noteq> Backstop \<and> Q (pn_Address p) (pn_ContractID p)) (to_Positions out)" for Q
    by (simp add: p(3) account_sums(2) filter_empty_conv)
  moreover have "to_Positions proj = concat (map ?rows (dirtyPositionRows a st dirty))"
    using p(2) by (simp add: p(4) account_sums(2) same_view_def)
  ultimately show ?thesis using that p(1) by blast
qed

lemma sorted_list_members: "map f xs = sorted_list_of_set A \<Longrightarrow> finite A \<Longrightarrow> f ` set xs = (A :: string set)"
  by (metis list.set_map set_sorted_list_of_set)

text \<open>
  C27: A projection overrides what the full pass withholds: an account with an incomplete leg in one
  pool gets no summary from Transform, so that a partial one never replaces its stored summary;
  but as soon as only another of its pools is dirty, \<open>ProjectPositions\<close> - whose summaries callers are
  told to store - emits one for it, computed from the dirty pools alone.
\<close>

theorem projection_overrides_incomplete:
  assumes "bl_Transform D S J a i = Inr out" and "ti_State i = Some st"
    and "ba_lookup a = None" and "pairs_bar_free st dirty"
    and "pools_pass D (ba_cfg a) i st (bl_events S J (ba_cfg a) i) = Inr w"
    and leg: "leg \<in> set (ls_Users st)" "in_dirty dirty (up_Address leg) (up_PoolContractID leg)" "leg_known (cw_pools w) leg"
    and good: "\<And>l. l \<in> set (ls_Users st) \<Longrightarrow> up_Address l = up_Address leg \<Longrightarrow>
      in_dirty dirty (up_Address l) (up_PoolContractID l) \<Longrightarrow> leg_complete (cw_reserves w) l"
    and bad: "bad \<in> set (ls_Users st)" "up_Address bad = up_Address leg" "leg_known (cw_pools w) bad" "\<not> leg_complete (cw_reserves w) bad"
  shows "up_Address leg \<notin> sm_Address ` set (to_Summaries out) \<and>
    (\<exists>proj. ProjectPositions D a (Some st) dirty (ti_LedgerSeq i) (ti_CloseTime i) = Inr proj \<and>
      up_Address leg \<in> sm_Address ` set (to_Summaries proj))"
proof -
  let ?st = "st\<lparr>ls_Users := filter (\<lambda>u. in_dirty dirty (up_Address u) (up_PoolContractID u)) (ls_Users st), ls_Backstops := []\<rparr>"
  have ne: "dirty \<noteq> []" using leg(2) by (auto simp: in_dirty_def)
  obtain w' v proj where p: "ProjectPositions D a (Some st) dirty (ti_LedgerSeq i) (ti_CloseTime i) = Inr proj"
    "same_view v w'" "pools_pass D (ba_cfg a) i st (bl_events S J (ba_cfg a) i) = Inr w'"
    "map sm_Address (to_Summaries out) = sorted_list_of_set (touched st w' - incomplete st w')"
    "map sm_Address (to_Summaries proj) = sorted_list_of_set (touched ?st v - incomplete ?st v)"
    using assms(1,2) ne unfolding dirty_rows [OF assms(3,4), symmetric] by (rule projection_passes)
  have w: "w' = w" and v: "cw_pools v = cw_pools w" "cw_reserves v = cw_reserves w"
    using p(2,3) assms(5) by (simp_all add: same_view_def)
  have "up_Address leg \<in> touched ?st v" using leg by (auto simp: touched_def v)
  moreover have "up_Address leg \<notin> incomplete ?st v" using good by (auto simp: incomplete_def v)
  ultimately have "up_Address leg \<in> sm_Address ` set (to_Summaries proj)"
    by (simp add: sorted_list_members [OF p(5)] finite_touched)
  moreover have "up_Address leg \<in> incomplete st w" unfolding incomplete_def using bad by (intro image_eqI [of _ _ bad]) auto
  then have "up_Address leg \<notin> sm_Address ` set (to_Summaries out)"
    by (simp add: sorted_list_members [OF p(4)] finite_touched w)
  ultimately show ?thesis using p(1) by blast
qed

section \<open>Examples\<close>

text \<open>An adapter that accepts unknown pools, and an event of an unknown name.\<close>

definition em_adapter :: bl_adapter where
  "em_adapter = \<lparr>ba_cfg = su_cfg, ba_contracts = {}, ba_assets = {}, ba_feeds = {}, ba_comets = {}, ba_lookup = None,
     ba_lastDirty = [], ba_lastDirtyBackstops = [], ba_lastDiagnostics = [], ba_lastTemporaryChanges = []\<rparr>"

definition em_json :: json_env where
  "em_json = \<lparr>je_float = Some, je_order = sort\<rparr>"

definition em_event :: raw_event_envelope where
  "em_event = zero_raw_event_envelope\<lparr>ev_ContractID := ''C01'', ev_Topic := ''pool'', ev_RawEvent := ''e''\<rparr>"

theorem events_accounted_witness:
  "\<exists>out q. bl_Transform rat_decimal (example_sdk [] []) em_json em_adapter (zero_transform_input\<lparr>ti_Events := [em_event]\<rparr>) = Inr out
     \<and> to_Activities out = [] \<and> q \<in> set (to_Quarantine out) \<and> keeps_event em_event q"
proof -
  let ?S = "example_sdk [] []" and ?i = "zero_transform_input\<lparr>ti_Events := [em_event]\<rparr>"
  have e: "looksBlend em_event" by code_simp
  have w: "\<not> well_formed_event ?S em_json em_event" by code_simp
  obtain out where t: "bl_Transform rat_decimal ?S em_json em_adapter ?i = Inr out"
    by (simp add: bl_Transform_def computeState_def zero_transform_input_def)
  from events_accounted [OF t] e w have a: "to_Activities out = []"
    and "\<exists>kept pools. to_Quarantine out = kept @ pools \<and> list_all2 keeps_event [em_event] kept" by simp_all
  then obtain q pools where "to_Quarantine out = q # pools" "keeps_event em_event q" by (auto simp: list_all2_Cons1)
  then show ?thesis using t a by auto
qed

text \<open>A ledger after which the position and the summary of account \<open>A\<close> are gone.\<close>

definition em_row :: position_row where
  "em_row = zero_position_row\<lparr>pn_Address := ''A'', pn_Protocol := ''blend'', pn_ContractID := ''P'', pn_AssetID := ''X''\<rparr>"

definition em_summary :: position_summary where
  "em_summary = zero_position_summary\<lparr>sm_Address := ''A'', sm_Protocol := ''blend''\<rparr>"

definition em_input :: transform_input where
  "em_input = zero_transform_input\<lparr>ti_State := Some (su_state\<lparr>ls_Backstops := []\<rparr>), ti_PriorPositions := [em_row],
     ti_PriorSummaries := [em_summary]\<rparr>"

lemma bl_Transform_runs:
  assumes "ti_State i = Some st" and "pools_pass D (ba_cfg a) i st (bl_events S J (ba_cfg a) i) = Inr w"
  shows "\<exists>out. bl_Transform D S J a i = Inr out"
  using assms by (simp add: bl_Transform_def computeState_Some Let_def)

theorem position_lifecycle_witness:
  "\<exists>out. bl_Transform rat_decimal (example_sdk [] []) em_json em_adapter
       (zero_transform_input\<lparr>ti_PriorPositions := [em_row], ti_PriorSummaries := [em_summary]\<rparr>) = Inr out
     \<and> position_tombstone_of 0 em_row \<in> set (to_PositionTombstones out)"
proof -
  let ?i = "zero_transform_input\<lparr>ti_PriorPositions := [em_row], ti_PriorSummaries := [em_summary]\<rparr>"
  obtain out where t: "bl_Transform rat_decimal (example_sdk [] []) em_json em_adapter ?i = Inr out"
    by (simp add: bl_Transform_def computeState_def zero_transform_input_def)
  have p: "to_Positions out = []"
    using t by (auto simp: bl_Transform_def computeState_def zero_transform_input_def emitTombstones_frame bl_events_def
        Let_def zero_transform_output_def)
  have "bar_free em_row" by (simp add: bar_free_def em_row_def)
  then have "\<And>p. p \<in> set (ti_PriorPositions ?i) \<union> set (to_Positions out) \<Longrightarrow> bar_free p" using p by simp
  from position_lifecycle [OF t this] have "position_tombstone_of (ti_LedgerSeq ?i) em_row \<in> set (to_PositionTombstones out)"
    using p by simp
  moreover have "ti_LedgerSeq ?i = 0" by (simp add: zero_transform_input_def)
  ultimately show ?thesis using t by auto
qed

text \<open>The same account with its leg still in the state, in a reserve without data.\<close>

lemma em_pass:
  "\<exists>w. pools_pass rat_decimal (ba_cfg em_adapter) em_input (su_state\<lparr>ls_Backstops := []\<rparr>)
     (bl_events S J (ba_cfg em_adapter) em_input) = Inr w"
proof -
  have "rel_sum (=) same_view (pools_pass rat_decimal (ba_cfg em_adapter) em_input (su_state\<lparr>ls_Backstops := []\<rparr>)
     (bl_events S J (ba_cfg em_adapter) em_input)) (pools_pass rat_decimal su_cfg su_input su_state zero_transform_output)"
    unfolding em_adapter_def bl_adapter.simps
    by (rule pools_pass_view) (simp_all add: cs_env_of_def em_input_def su_input_def)
  then show ?thesis
    by (rule_tac su_pass) (cases "pools_pass rat_decimal (ba_cfg em_adapter) em_input (su_state\<lparr>ls_Backstops := []\<rparr>)
     (bl_events S J (ba_cfg em_adapter) em_input)"; simp)
qed

theorem undecoded_account_closed_witness:
  "\<exists>out. bl_Transform rat_decimal (example_sdk [] []) em_json em_adapter em_input = Inr out
     \<and> position_tombstone_of 0 em_row \<in> set (to_PositionTombstones out)
     \<and> summary_tombstone_of 0 em_summary \<in> set (to_SummaryTombstones out)"
proof -
  let ?st = "su_state\<lparr>ls_Backstops := []\<rparr>"
  have st: "ti_State em_input = Some ?st" "ti_LedgerSeq em_input = 0" by (simp_all add: em_input_def zero_transform_input_def)
  obtain w where "pools_pass rat_decimal (ba_cfg em_adapter) em_input ?st
      (bl_events (example_sdk [] []) em_json (ba_cfg em_adapter) em_input) = Inr w"
    using em_pass by blast
  from bl_Transform_runs [OF st(1) this] obtain out
    where t: "bl_Transform rat_decimal (example_sdk [] []) em_json em_adapter em_input = Inr out" ..
  have free: "state_bar_free ?st" "CHR ''|'' \<notin> set ''A''"
    by (simp_all add: state_bar_free_def su_state_def su_leg_def)
  have "undecoded_leg ?st leg" for leg
    by (simp add: undecoded_leg_def su_state_def zero_blend_pool_state_def)
  then have "(\<forall>p\<in>set (ti_PriorPositions em_input). pn_Address p = ''A'' \<longrightarrow>
      position_tombstone_of (ti_LedgerSeq em_input) p \<in> set (to_PositionTombstones out)) \<and>
    (\<forall>s\<in>set (ti_PriorSummaries em_input). sm_Address s = ''A'' \<longrightarrow>
      summary_tombstone_of (ti_LedgerSeq em_input) s \<in> set (to_SummaryTombstones out))"
    by (intro undecoded_account_closed [OF t st(1) free(1) _ _ free(2)]) simp_all
  then have "position_tombstone_of 0 em_row \<in> set (to_PositionTombstones out)"
    "summary_tombstone_of 0 em_summary \<in> set (to_SummaryTombstones out)"
    by (simp_all add: em_input_def em_row_def em_summary_def zero_transform_input_def)
  with t show ?thesis by blast
qed

text \<open>
  Two pools: \<open>P\<close> with one priced reserve \<open>X\<close>, \<open>Q\<close> without reserves; account \<open>A\<close> has a leg in each
  and only the one in \<open>P\<close> is dirty.
\<close>

lemma cs_pool_single:
  assumes "resolvePool D (ce_cfg E) (fst (enrichPoolIdentity (ce_cfg E) p)) = Some np" and "bp_Reserves p = [r]"
    and "reserveHasFoldedData r" and "normalizeReserve D (bp_ContractID p) np r = Inr nr"
  shows "\<exists>o'. cs_pool D E p w = Inr (w\<lparr>cw_pools := (cw_pools w)(bp_ContractID p \<mapsto> np),
    cw_reserves := gm_set (reserveKey (bp_ContractID p) (rs_AssetID r)) nr (cw_reserves w), cw_out := o'\<rparr>)"
proof -
  obtain q src where e: "enrichPoolIdentity (ce_cfg E) p = (q, src)" by (cases "enrichPoolIdentity (ce_cfg E) p")
  then have "resolvePool D (ce_cfg E) q = Some np" "bp_Reserves q = [r]" "bp_ContractID q = bp_ContractID p"
    using assms enrich_same [of "ce_cfg E" p] by simp_all
  then show ?thesis using assms(3,4) by (auto simp: cs_pool_def cs_reserve_def e Let_def)
qed

lemma normalize_price:
  assumes "normalizeReserve D pc pool r = Inr nr"
  shows "nr_priceAvailable nr \<longleftrightarrow> \<not> d_is_zero D (parseDecimalOrZero D (rs_OraclePriceRaw r))"
proof -
  let ?o0 = "(zero_normalized_reserve D)\<lparr>nr_poolContract := pc, nr_assetID := rs_AssetID r,
            nr_assetDecimals := rs_AssetDecimals r, nr_raw := r, nr_utilizationSource := ''contract_parity''\<rparr>"
  obtain o1 rm where o1: "parse_fields D (reserve_fields r) ?o0 = Inr o1"
    and nr: "nr = fill_caps D r (fill_rates D pool r (fill_utilization D pool r (fill_price D r
      ((fill_factors D o1)\<lparr>nr_rateModifierNormalized := rm\<rparr>))))"
    using assms by (auto simp: normalizeReserve_def Let_def and_then_Inr split: if_splits)
  have p: "nr_priceAvailable (fill_caps D r u) = nr_priceAvailable u" "nr_priceAvailable (fill_rates D pool r u) = nr_priceAvailable u"
    "nr_priceAvailable (fill_utilization D pool r u) = nr_priceAvailable u" "nr_priceAvailable (fill_factors D u) = nr_priceAvailable u" for u
    by (simp_all add: fill_caps_def fill_rates_def fill_utilization_def fill_factors_def Let_def split: prod.splits)
  have "\<not> nr_priceAvailable o1"
    using reserve_fields_frame(6) [OF o1] by (simp add: zero_normalized_reserve_def Let_def)
  then show ?thesis by (simp add: nr p fill_price_def Let_def)
qed

definition em_reserve :: reserve_state where
  "em_reserve = zero_reserve_state\<lparr>rs_AssetID := ''X'', rs_BRateRaw := ''1'', rs_OraclePriceRaw := ''3''\<rparr>"

definition em_leg :: "string \<Rightarrow> string \<Rightarrow> user_reserve_position" where
  "em_leg pool asset = zero_user_reserve_position\<lparr>up_Address := ''A'', up_PoolContractID := pool, up_AssetID := asset\<rparr>"

definition em_two :: ledger_state where
  "em_two = zero_ledger_state\<lparr>ls_Pools := [zero_blend_pool_state\<lparr>bp_ContractID := ''P'', bp_Reserves := [em_reserve]\<rparr>,
     zero_blend_pool_state\<lparr>bp_ContractID := ''Q''\<rparr>], ls_Users := [em_leg ''P'' ''X'', em_leg ''Q'' ''Y'']\<rparr>"

definition em_dirty :: "dirty_position list" where
  "em_dirty = [\<lparr>dp_Address = ''A'', dp_PoolContractID = ''P'', dp_Kind = DirtyUpsert\<rparr>]"

definition em_two_input :: transform_input where
  "em_two_input = zero_transform_input\<lparr>ti_State := Some em_two\<rparr>"

lemma em_normalizes:
  assumes "np = newV2Pool rat_decimal (bc_V2Scalar su_cfg) rate"
  shows "\<exists>nr. normalizeReserve rat_decimal pc np em_reserve = Inr nr \<and> nr_priceAvailable nr"
proof -
  have z: "\<not> d_is_zero rat_decimal (parseDecimalOrZero rat_decimal ''1000000000000'')"
    "\<not> d_is_zero rat_decimal (parseDecimalOrZero rat_decimal ''3'')" by code_simp+
  have p: "d_parse rat_decimal ''1'' \<noteq> None" "d_parse rat_decimal ''3'' \<noteq> None" by code_simp+
  have "np_rateScalar np = parseDecimalOrZero rat_decimal (bc_V2Scalar su_cfg)"
    by (simp add: assms newV2Pool_def split: prod.splits)
  moreover have "bc_V2Scalar su_cfg = ''1000000000000''" by (simp add: su_cfg_def bl_DefaultConfig_def)
  moreover have "v = '''' \<or> v = ''1'' \<or> v = ''3''" if "v \<in> checked_fields em_reserve" for v
    using that by (auto simp: checked_fields_def em_reserve_def zero_reserve_state_def)
  ultimately have "\<not> (\<exists>e. normalizeReserve rat_decimal pc np em_reserve = Inl e)"
    unfolding normalize_fails_iff using z(1) p by auto
  then obtain nr where nr: "normalizeReserve rat_decimal pc np em_reserve = Inr nr"
    by (cases "normalizeReserve rat_decimal pc np em_reserve") auto
  then have "nr_priceAvailable nr" using normalize_price [OF nr] z(2) by (simp add: em_reserve_def)
  with nr show ?thesis by blast
qed

lemma em_two_pass:
  "\<exists>w np nq nr. pools_pass rat_decimal su_cfg em_two_input em_two out = Inr w \<and> cw_pools w = [''P'' \<mapsto> np, ''Q'' \<mapsto> nq]
     \<and> cw_reserves w = gm_set (reserveKey ''P'' ''X'') nr [] \<and> nr_priceAvailable nr"
proof -
  let ?E = "cs_env_of su_cfg em_two_input em_two"
  let ?p = "zero_blend_pool_state\<lparr>bp_ContractID := ''P'', bp_Reserves := [em_reserve]\<rparr>"
  let ?q = "zero_blend_pool_state\<lparr>bp_ContractID := ''Q''\<rparr>"
  let ?w = "\<lparr>cw_pools = Map.empty, cw_reserves = [], cw_out = out\<rparr> :: rat cs_work"
  have cfg: "ce_cfg ?E = su_cfg" "bc_AllowUnknownV2 su_cfg" by (simp_all add: cs_env_of_def su_cfg_def)
  obtain np nq where np: "resolvePool rat_decimal (ce_cfg ?E) (fst (enrichPoolIdentity (ce_cfg ?E) ?p)) = Some np"
    and nq: "resolvePool rat_decimal (ce_cfg ?E) (fst (enrichPoolIdentity (ce_cfg ?E) ?q)) = Some nq"
    using cfg by (auto simp: resolvePool_def)
  then obtain rate where "np = newV2Pool rat_decimal (bc_V2Scalar su_cfg) rate"
    by (auto simp: resolvePool_def cfg split: if_splits)
  from em_normalizes [OF this, of "bp_ContractID ?p"] obtain nr
    where nr: "normalizeReserve rat_decimal (bp_ContractID ?p) np em_reserve = Inr nr" "nr_priceAvailable nr" by blast
  have "bp_Reserves ?p = [em_reserve]" "reserveHasFoldedData em_reserve"
    by (simp_all add: em_reserve_def reserveHasFoldedData_def)
  from cs_pool_single [OF np this nr(1), of ?w] obtain o1 where
    1: "cs_pool rat_decimal ?E ?p ?w = Inr (?w\<lparr>cw_pools := [''P'' \<mapsto> np], cw_reserves := gm_set (reserveKey ''P'' ''X'') nr [], cw_out := o1\<rparr>)"
    by (auto simp: em_reserve_def)
  have "bp_Reserves ?q = []" by (simp add: zero_blend_pool_state_def)
  from cs_pool_bare [OF nq this, of "?w\<lparr>cw_pools := [''P'' \<mapsto> np], cw_reserves := gm_set (reserveKey ''P'' ''X'') nr [], cw_out := o1\<rparr>"]
  obtain o2 where "cs_pool rat_decimal ?E ?q (?w\<lparr>cw_pools := [''P'' \<mapsto> np], cw_reserves := gm_set (reserveKey ''P'' ''X'') nr [], cw_out := o1\<rparr>)
      = Inr (?w\<lparr>cw_pools := [''P'' \<mapsto> np, ''Q'' \<mapsto> nq], cw_reserves := gm_set (reserveKey ''P'' ''X'') nr [], cw_out := o2\<rparr>)"
    by auto
  with 1 nr(2) show ?thesis by (auto simp: pools_pass_def em_two_def)
qed

lemma em_two_facts: "ti_State em_two_input = Some em_two" "ba_lookup em_adapter = None" "ba_cfg em_adapter = su_cfg"
  "pairs_bar_free em_two em_dirty" "ls_Users em_two = [em_leg ''P'' ''X'', em_leg ''Q'' ''Y'']"
  "up_Address (em_leg p x) = ''A''" "up_PoolContractID (em_leg p x) = p" "up_AssetID (em_leg p x) = x"
  "up_PositionType (em_leg p x) = Supply"
  "in_dirty em_dirty a p \<longleftrightarrow> a = ''A'' \<and> p = ''P''"
  by (auto simp: em_two_input_def em_adapter_def pairs_bar_free_def em_two_def em_leg_def em_dirty_def in_dirty_def
      zero_user_reserve_position_def)

lemma em_two_runs:
  "\<exists>out. bl_Transform rat_decimal (example_sdk [] []) em_json em_adapter em_two_input = Inr out"
  using em_two_pass bl_Transform_runs [OF em_two_facts(1), of rat_decimal em_adapter] unfolding em_two_facts(3) by blast

theorem projection_overrides_incomplete_witness:
  "\<exists>out proj. bl_Transform rat_decimal (example_sdk [] []) em_json em_adapter em_two_input = Inr out \<and>
     ProjectPositions rat_decimal em_adapter (Some em_two) em_dirty (ti_LedgerSeq em_two_input) (ti_CloseTime em_two_input) = Inr proj \<and>
     ''A'' \<notin> sm_Address ` set (to_Summaries out) \<and> ''A'' \<in> sm_Address ` set (to_Summaries proj)"
proof -
  obtain out where t: "bl_Transform rat_decimal (example_sdk [] []) em_json em_adapter em_two_input = Inr out"
    using em_two_runs ..
  obtain w np nq nr where w: "pools_pass rat_decimal (ba_cfg em_adapter) em_two_input em_two
      (bl_events (example_sdk [] []) em_json (ba_cfg em_adapter) em_two_input) = Inr w"
    and v: "cw_pools w = [''P'' \<mapsto> np, ''Q'' \<mapsto> nq]" "cw_reserves w = gm_set (reserveKey ''P'' ''X'') nr []" "nr_priceAvailable nr"
    using em_two_pass unfolding em_two_facts(3) by blast
  have k: "reserveKey ''Q'' ''Y'' \<noteq> reserveKey ''P'' ''X''" by (simp add: reserveKey_def)
  have "leg_known (cw_pools w) (em_leg ''P'' ''X'')" "leg_known (cw_pools w) (em_leg ''Q'' ''Y'')"
    "leg_complete (cw_reserves w) (em_leg ''P'' ''X'')" "\<not> leg_complete (cw_reserves w) (em_leg ''Q'' ''Y'')"
    using v(3) k by (simp_all add: leg_known_def leg_complete_def leg_reserve_def v(1,2) em_two_facts gm.get_upd gm.get_nil)
  note k = this
  have good: "leg_complete (cw_reserves w) l" if "l \<in> set (ls_Users em_two)" "in_dirty em_dirty (up_Address l) (up_PoolContractID l)" for l
    using that k(3) by (auto simp: em_two_facts)
  have "up_Address (em_leg ''P'' ''X'') \<notin> sm_Address ` set (to_Summaries out) \<and>
    (\<exists>proj. ProjectPositions rat_decimal em_adapter (Some em_two) em_dirty (ti_LedgerSeq em_two_input) (ti_CloseTime em_two_input) = Inr proj \<and>
      up_Address (em_leg ''P'' ''X'') \<in> sm_Address ` set (to_Summaries proj))"
    by (rule projection_overrides_incomplete [OF t em_two_facts(1,2,4) w, where bad = "em_leg ''Q'' ''Y''"])
      (use k good in \<open>simp_all add: em_two_facts\<close>)
  with t show ?thesis unfolding em_two_facts(6) by blast
qed

end
