(* ===== verification/Blend_Entries.thy ===== *)
theory Blend_Entries
  imports Blend_Events Blend_Valuation
begin

text \<open>
  The entries of a Blend ledger (src/blend/state.go): what the builder keeps of a pool, a reserve and
  a holder, the readers of every kind of stored value, and the resolution of position legs through
  the reserve indexes of a pool.
\<close>

section \<open>Builders\<close>

text \<open>
  A pool under construction: its state, its reserves by asset, and three views of their indexes.
  A reserve builder holds nothing but the state of its reserve.
\<close>

record pool_builder =
  pb_state :: blend_pool_state
  pb_reserves :: "(string, reserve_state) gmap"
  pb_reserveList :: "string list"
  pb_reserveByIndex :: "(int, string) gmap"
  pb_ambiguousByIndex :: "(int, string list) gmap"
  pb_unknownIndexAssets :: "string list"

record pending_positions =
  pp_poolContract :: string
  pp_user :: string
  pp_positions :: scval
  pp_valueXDR :: string
  pp_archived :: bool
  pp_archivedLedgerSeq :: int

record backstop_pool_balance =
  bb_poolContract :: string
  bb_sharesRaw :: string
  bb_tokensRaw :: string
  bb_q4wRaw :: string

record backstop_user_balance =
  bu_poolContract :: string
  bu_user :: string
  bu_sharesRaw :: string
  bu_q4w :: "q4w_entry list"
  bu_emisIndexRaw :: string
  bu_emisAccruedRaw :: string

record backstop_emis_data =
  be_poolContract :: string
  be_epsRaw :: string
  be_expirationRaw :: string
  be_indexRaw :: string
  be_lastTimeRaw :: string

definition emis_empty :: "backstop_emis_data \<Rightarrow> bool" where
  "emis_empty d \<longleftrightarrow> be_epsRaw d = '''' \<and> be_expirationRaw d = '''' \<and> be_indexRaw d = '''' \<and> be_lastTimeRaw d = ''''"

text \<open>The pool or reserve under an id, created on first use; storing it back is the caller's.\<close>

definition ensurePool :: "(string, pool_builder) gmap \<Rightarrow> string \<Rightarrow> pool_builder" where
  "ensurePool pools cid = (case gm_get pools cid of
       Some p \<Rightarrow> p
     | None \<Rightarrow> \<lparr>pb_state = zero_blend_pool_state\<lparr>bp_ContractID := cid, bp_PoolStatus := ''unknown''\<rparr>, pb_reserves = [],
         pb_reserveList = [], pb_reserveByIndex = [], pb_ambiguousByIndex = [], pb_unknownIndexAssets = []\<rparr>)"

definition ensureReserve :: "pool_builder \<Rightarrow> string \<Rightarrow> reserve_state" where
  "ensureReserve pool asset = (case gm_get (pb_reserves pool) asset of
       Some r \<Rightarrow> r | None \<Rightarrow> zero_reserve_state\<lparr>rs_AssetID := asset\<rparr>)"

definition putReserve :: "string \<Rightarrow> reserve_state \<Rightarrow> pool_builder \<Rightarrow> pool_builder" where
  "putReserve asset r pool = pool\<lparr>pb_reserves := gm_set asset r (pb_reserves pool)\<rparr>"

section \<open>Keys of entries\<close>

definition two_part_key :: "sdk \<Rightarrow> string \<Rightarrow> scval list \<Rightarrow> (string \<times> int) option" where
  "two_part_key S name args = (case args of
       [] \<Rightarrow> None
     | [x] \<Rightarrow> (case (fieldAddress S (scMapFields x) ''user'', fieldInt32 (scMapFields x) name) of
           (Some u, Some n) \<Rightarrow> Some (u, n) | _ \<Rightarrow> None)
     | x # y # _ \<Rightarrow> (case (scAddress S x, scInt32 y) of
           (Some u, Some n) \<Rightarrow> Some (u, n)
         | _ \<Rightarrow> (case (scAddress S y, scInt32 x) of (Some u, Some n) \<Rightarrow> Some (u, n) | _ \<Rightarrow> None)))"

definition auctionKeyParts :: "sdk \<Rightarrow> scval list \<Rightarrow> (string \<times> int) option" where
  "auctionKeyParts S args = two_part_key S ''auct_type'' args"

definition userReserveKeyParts :: "sdk \<Rightarrow> scval list \<Rightarrow> (string \<times> int) option" where
  "userReserveKeyParts S args = two_part_key S ''reserve_id'' args"

definition variantAddress :: "sdk \<Rightarrow> scval list \<Rightarrow> string option" where
  "variantAddress S args = (case args of [] \<Rightarrow> None | x # _ \<Rightarrow> scAddress S x)"

definition variantU32 :: "scval list \<Rightarrow> int option" where
  "variantU32 args = (case args of [] \<Rightarrow> None
     | x # _ \<Rightarrow> (case scInt32 x of None \<Rightarrow> None | Some n \<Rightarrow> if n < 0 then None else Some n))"

definition backstopPoolUser :: "sdk \<Rightarrow> scval list \<Rightarrow> (string \<times> string) option" where
  "backstopPoolUser S args =
     (let pick = (\<lambda>p u. case (p, u) of (Some p, Some u) \<Rightarrow> Some (p, u) | _ \<Rightarrow> None) in
      case args of
        [] \<Rightarrow> None
      | [x] \<Rightarrow> pick (fieldAddress S (scMapFields x) ''pool'') (fieldAddress S (scMapFields x) ''user'')
      | x # y # _ \<Rightarrow> pick (scAddress S x) (scAddress S y))"

definition typedUserEntityKey :: "string \<Rightarrow> string \<Rightarrow> string" where
  "typedUserEntityKey address pool = address @ ''|'' @ pool"

definition typedBackstopEntityKey :: "string \<Rightarrow> string \<Rightarrow> string" where
  "typedBackstopEntityKey address pool = address @ ''|'' @ pool"

definition typedUserEmisEntityKey :: "string \<Rightarrow> string \<Rightarrow> int \<Rightarrow> string" where
  "typedUserEmisEntityKey address pool i = address @ ''|'' @ pool @ ''|'' @ show_int i"

section \<open>Pool entries\<close>

text \<open>A field that decodes overwrites, one that does not leaves the old value.\<close>

definition if_ok :: "'a option \<Rightarrow> ('a \<Rightarrow> 's \<Rightarrow> 's) \<Rightarrow> 's \<Rightarrow> 's" where
  "if_ok x f s = (case x of None \<Rightarrow> s | Some a \<Rightarrow> f a s)"

definition int_field :: "(string \<rightharpoonup> scval) option \<Rightarrow> string \<Rightarrow> ((string \<Rightarrow> string) \<Rightarrow> 's \<Rightarrow> 's) \<Rightarrow> 's \<Rightarrow> 's" where
  "int_field fs name upd s = if_ok (fieldIntString fs name) (\<lambda>v. upd (\<lambda>_. v)) s"

definition blendPoolStatus :: "int \<Rightarrow> string" where
  "blendPoolStatus n =
     (if n = 0 then ''admin_active'' else if n = 1 then ''active'' else if n = 2 then ''admin_on_ice''
      else if n = 3 then ''on_ice'' else if n = 4 then ''admin_frozen'' else if n = 5 then ''frozen''
      else if n = 6 then ''setup'' else ''unknown'')"

definition isPoolConfig :: "sdk \<Rightarrow> scval \<Rightarrow> bool" where
  "isPoolConfig S v \<longleftrightarrow>
     (let fs = scMapFields v in
      fs \<noteq> None \<and> fieldAddress S fs ''oracle'' \<noteq> None \<and> fieldIntString fs ''bstop_rate'' \<noteq> None \<and> fieldInt32 fs ''status'' \<noteq> None)"

definition applyPoolConfig :: "sdk \<Rightarrow> scval \<Rightarrow> blend_pool_state \<Rightarrow> blend_pool_state" where
  "applyPoolConfig S v p =
     (let fs = scMapFields v;
          p = if_ok (fieldAddress S fs ''oracle'') (\<lambda>a p. p\<lparr>bp_OracleContract := a\<rparr>) p;
          p = int_field fs ''bstop_rate'' bp_BackstopTakeRate_update p;
          p = if_ok (fieldInt32 fs ''status'') (\<lambda>n p. p\<lparr>bp_PoolStatus := blendPoolStatus n\<rparr>) p;
          p = int_field fs ''max_positions'' bp_MaxPositionsRaw_update p
      in int_field fs ''min_collateral'' bp_MinCollateralRaw_update p)"

definition pool_instance_entry :: "sdk \<Rightarrow> scval \<times> scval \<Rightarrow> blend_pool_state \<Rightarrow> blend_pool_state" where
  "pool_instance_entry S e p =
     (case scSymbol (fst e) of
        None \<Rightarrow> p
      | Some name \<Rightarrow>
          if name = ''Config'' then (if isPoolConfig S (snd e) then applyPoolConfig S (snd e) p else p)
          else if name = ''Backstop'' then if_ok (scAddress S (snd e)) (\<lambda>a p. p\<lparr>bp_BackstopContract := a\<rparr>) p
          else if name = ''Name'' then (if scValSymbol (snd e) \<noteq> '''' then p\<lparr>bp_Name := scValSymbol (snd e)\<rparr> else p)
          else if name = ''Admin'' then if_ok (scAddress S (snd e)) (\<lambda>a p. p\<lparr>bp_Admin := a\<rparr>) p
          else if name = ''BLNDTkn'' then if_ok (scAddress S (snd e)) (\<lambda>a p. p\<lparr>bp_BLNDToken := a\<rparr>) p
          else p)"

definition applyPoolInstanceStorage :: "sdk \<Rightarrow> (scval \<times> scval) list option \<Rightarrow> blend_pool_state \<Rightarrow> blend_pool_state" where
  "applyPoolInstanceStorage S storage p = (case storage of None \<Rightarrow> p | Some es \<Rightarrow> run (pool_instance_entry S) es p)"

definition contractInstanceWasmHash :: "scval \<Rightarrow> string option" where
  "contractInstanceWasmHash v = (case get_instance v of Some (Some h, _) \<Rightarrow> Some (hex_encode h) | _ \<Rightarrow> None)"

text \<open>The symbol keys of an instance's storage; a later entry of the same name wins.\<close>

definition instance_symbols :: "(scval \<times> scval) list \<Rightarrow> string \<rightharpoonup> scval" where
  "instance_symbols es = foldl (\<lambda>m (k, x). case scSymbol k of None \<Rightarrow> m | Some n \<Rightarrow> m(n \<mapsto> x)) Map.empty es"

text \<open>Each address of the list once, in order, with its reserve created.\<close>

definition applyReserveList :: "sdk \<Rightarrow> scval \<Rightarrow> pool_builder \<Rightarrow> pool_builder" where
  "applyReserveList S v pool =
     (case scVec v of
        None \<Rightarrow> pool
      | Some items \<Rightarrow> snd (foldl (\<lambda>(seen, pool) item. case scAddress S item of
            None \<Rightarrow> (seen, pool)
          | Some a \<Rightarrow> if a \<in> set seen then (seen, pool)
              else (a # seen, putReserve a (ensureReserve pool a) (pool\<lparr>pb_reserveList := pb_reserveList pool @ [a]\<rparr>)))
          ([], pool) items))"

definition decodePoolEmissions :: "scval \<Rightarrow> pool_emission_entry list option" where
  "decodePoolEmissions v =
     (case get_map v of
        None \<Rightarrow> None
      | Some es \<Rightarrow>
          if \<exists>e\<in>set es. (case scInt32 (fst e) of None \<Rightarrow> True | Some n \<Rightarrow> n < 0) \<or> scIntString (snd e) = None then None
          else Some (sort_key pe_ReserveTokenID (map (\<lambda>(k, x).
            \<lparr>pe_ReserveTokenID = the (scInt32 k), pe_ShareRaw = the (scIntString x)\<rparr>) es)))"

section \<open>Reserve entries\<close>

definition applyReserveConfig :: "scval \<Rightarrow> reserve_state \<Rightarrow> reserve_state" where
  "applyReserveConfig v r =
     (let fs = scMapFields v;
          r = if_ok (fieldInt32 fs ''index'') (\<lambda>i r. r\<lparr>rs_ReserveIndex := i, rs_ReserveIndexKnown := True\<rparr>) r;
          r = if_ok (fieldInt32 fs ''decimals'') (\<lambda>n r. r\<lparr>rs_AssetDecimals := n\<rparr>) r;
          r = int_field fs ''c_factor'' rs_CFactorRaw_update r;
          r = int_field fs ''l_factor'' rs_LFactorRaw_update r;
          r = int_field fs ''util'' rs_UtilTargetRaw_update r;
          r = int_field fs ''max_util'' rs_MaxUtilRaw_update r;
          r = int_field fs ''r_base'' rs_RBaseRaw_update r;
          r = int_field fs ''r_one'' rs_ROneRaw_update r;
          r = int_field fs ''r_two'' rs_RTwoRaw_update r;
          r = int_field fs ''r_three'' rs_RThreeRaw_update r;
          r = int_field fs ''supply_cap'' rs_SupplyCapRaw_update r;
          r = int_field fs ''reactivity'' rs_ReactivityRaw_update r
      in if_ok (fieldBool fs ''enabled'') (\<lambda>b r. r\<lparr>rs_Enabled := b\<rparr>) r)"

definition applyReserveData :: "scval \<Rightarrow> reserve_state \<Rightarrow> reserve_state" where
  "applyReserveData v r =
     (let fs = scMapFields v;
          r = int_field fs ''d_rate'' rs_DRateRaw_update r;
          r = int_field fs ''b_rate'' rs_BRateRaw_update r;
          r = int_field fs ''ir_mod'' rs_RateModifierRaw_update r;
          r = int_field fs ''b_supply'' rs_BSupplyRaw_update r;
          r = int_field fs ''d_supply'' rs_DSupplyRaw_update r;
          r = if_ok (fieldIntString fs ''backstop_credit'') (\<lambda>x r. r\<lparr>rs_PoolBalanceRaw := x, rs_BackstopCreditRaw := x\<rparr>) r
      in int_field fs ''last_time'' rs_LastTimeRaw_update r)"

text \<open>One side of a reserve's emissions: 1 is supply, anything else borrow.\<close>

definition applyReserveEmisConfig :: "int \<Rightarrow> scval \<Rightarrow> reserve_state \<Rightarrow> reserve_state" where
  "applyReserveEmisConfig side v r =
     (let fs = scMapFields v in
      if side = 1 then int_field fs ''expiration'' rs_SupplyEmisExpirationRaw_update (int_field fs ''eps'' rs_SupplyEmisEPSRaw_update r)
      else int_field fs ''expiration'' rs_BorrowEmisExpirationRaw_update (int_field fs ''eps'' rs_BorrowEmisEPSRaw_update r))"

definition applyReserveEmisData :: "int \<Rightarrow> scval \<Rightarrow> reserve_state \<Rightarrow> reserve_state" where
  "applyReserveEmisData side v r =
     (let fs = scMapFields v in
      if side = 1 then
        int_field fs ''expiration'' rs_SupplyEmisExpirationRaw_update (int_field fs ''eps'' rs_SupplyEmisEPSRaw_update
          (int_field fs ''last_time'' rs_SupplyEmisLastTimeRaw_update (int_field fs ''index'' rs_SupplyEmisIndexRaw_update r)))
      else
        int_field fs ''expiration'' rs_BorrowEmisExpirationRaw_update (int_field fs ''eps'' rs_BorrowEmisEPSRaw_update
          (int_field fs ''last_time'' rs_BorrowEmisLastTimeRaw_update (int_field fs ''index'' rs_BorrowEmisIndexRaw_update r))))"

definition clearReserveEmisConfig :: "int \<Rightarrow> reserve_state \<Rightarrow> reserve_state" where
  "clearReserveEmisConfig side r =
     (if side = 1 then r\<lparr>rs_SupplyEmisEPSRaw := '''', rs_SupplyEmisExpirationRaw := ''''\<rparr>
      else r\<lparr>rs_BorrowEmisEPSRaw := '''', rs_BorrowEmisExpirationRaw := ''''\<rparr>)"

definition clearReserveEmisData :: "int \<Rightarrow> reserve_state \<Rightarrow> reserve_state" where
  "clearReserveEmisData side r =
     (if side = 1 then r\<lparr>rs_SupplyEmisIndexRaw := '''', rs_SupplyEmisLastTimeRaw := '''', rs_SupplyEmisEPSRaw := '''',
        rs_SupplyEmisExpirationRaw := ''''\<rparr>
      else r\<lparr>rs_BorrowEmisIndexRaw := '''', rs_BorrowEmisLastTimeRaw := '''', rs_BorrowEmisEPSRaw := '''',
        rs_BorrowEmisExpirationRaw := ''''\<rparr>)"

definition queued_config :: "(string \<rightharpoonup> scval) option \<Rightarrow> queued_reserve_config" where
  "queued_config fs =
     (let c = zero_queued_reserve_config;
          c = int_field fs ''index'' qc_IndexRaw_update c;
          c = int_field fs ''decimals'' qc_DecimalsRaw_update c;
          c = int_field fs ''c_factor'' qc_CFactorRaw_update c;
          c = int_field fs ''l_factor'' qc_LFactorRaw_update c;
          c = int_field fs ''util'' qc_UtilRaw_update c;
          c = int_field fs ''max_util'' qc_MaxUtilRaw_update c;
          c = int_field fs ''r_base'' qc_RBaseRaw_update c;
          c = int_field fs ''r_one'' qc_ROneRaw_update c;
          c = int_field fs ''r_two'' qc_RTwoRaw_update c;
          c = int_field fs ''r_three'' qc_RThreeRaw_update c;
          c = int_field fs ''reactivity'' qc_ReactivityRaw_update c;
          c = int_field fs ''supply_cap'' qc_SupplyCapRaw_update c
      in if_ok (fieldBool fs ''enabled'') (\<lambda>b c. c\<lparr>qc_Enabled := boolString b\<rparr>) c)"

definition decodeQueuedReserve :: "string \<Rightarrow> string \<Rightarrow> scval \<Rightarrow> queued_reserve_state option" where
  "decodeQueuedReserve pool asset v =
     (let fs = scMapFields v;
          config = (case fs of None \<Rightarrow> None | Some f \<Rightarrow> scMapFields (field f ''new_config'')) in
      case (fieldIntString fs ''unlock_time'', config) of
        (Some t, Some c) \<Rightarrow> Some \<lparr>qs_PoolContractID = pool, qs_AssetID = asset, qs_UnlockTimeRaw = t, qs_NewConfig = queued_config (Some c)\<rparr>
      | _ \<Rightarrow> None)"

section \<open>Backstop, emission and auction entries\<close>

definition decodeBackstopPoolBalance :: "string \<Rightarrow> scval \<Rightarrow> backstop_pool_balance" where
  "decodeBackstopPoolBalance pool v =
     (let fs = scMapFields v in
      int_field fs ''q4w'' bb_q4wRaw_update (int_field fs ''tokens'' bb_tokensRaw_update (int_field fs ''shares'' bb_sharesRaw_update
        \<lparr>bb_poolContract = pool, bb_sharesRaw = '''', bb_tokensRaw = '''', bb_q4wRaw = ''''\<rparr>)))"

text \<open>Digits only; the accumulator is an \<open>int64\<close> and wraps.\<close>

definition scStringInt64 :: "string \<Rightarrow> int option" where
  "scStringInt64 raw = foldl (\<lambda>acc c. case (acc, digit_val c) of
       (Some n, Some d) \<Rightarrow> Some (wrap_int 64 (n * 10 + d)) | _ \<Rightarrow> None) (Some 0) raw"

definition q4w_item :: "scval \<Rightarrow> q4w_entry option" where
  "q4w_item item =
     (let fs = scMapFields item in
      case (fieldIntString fs ''amount'', fieldIntString fs ''exp'') of
        (Some amount, Some ex) \<Rightarrow> (case scStringInt64 ex of
            None \<Rightarrow> None | Some t \<Rightarrow> Some \<lparr>qw_SharesRaw = amount, qw_UnlockAt = time_of_unix t\<rparr>)
      | _ \<Rightarrow> None)"

definition decodeBackstopUserBalance :: "string \<Rightarrow> string \<Rightarrow> scval \<Rightarrow> backstop_user_balance" where
  "decodeBackstopUserBalance pool user v =
     (let fs = scMapFields v;
          b = int_field fs ''shares'' bu_sharesRaw_update \<lparr>bu_poolContract = pool, bu_user = user, bu_sharesRaw = '''', bu_q4w = [],
                bu_emisIndexRaw = '''', bu_emisAccruedRaw = ''''\<rparr>
      in case (case fs of None \<Rightarrow> None | Some f \<Rightarrow> scVec (field f ''q4w'')) of
           None \<Rightarrow> b | Some items \<Rightarrow> b\<lparr>bu_q4w := List.map_filter q4w_item items\<rparr>)"

definition decodeBackstopEmisData :: "string \<Rightarrow> scval \<Rightarrow> backstop_emis_data option" where
  "decodeBackstopEmisData pool v =
     (let fs = scMapFields v;
          d = int_field fs ''last_time'' be_lastTimeRaw_update (int_field fs ''index'' be_indexRaw_update
            (int_field fs ''expiration'' be_expirationRaw_update (int_field fs ''eps'' be_epsRaw_update
              \<lparr>be_poolContract = pool, be_epsRaw = '''', be_expirationRaw = '''', be_indexRaw = '''', be_lastTimeRaw = ''''\<rparr>)))
      in if emis_empty d then None else Some d)"

definition decodeUserEmissionData :: "scval \<Rightarrow> (string \<times> string) option" where
  "decodeUserEmissionData v =
     (let fs = scMapFields v in
      case (fieldIntString fs ''index'', fieldIntString fs ''accrued'') of (Some i, Some a) \<Rightarrow> Some (i, a) | _ \<Rightarrow> None)"

definition decodeAuctionState :: "sdk \<Rightarrow> string \<Rightarrow> string \<Rightarrow> int \<Rightarrow> scval \<Rightarrow> auction_state option" where
  "decodeAuctionState S pool user typ v =
     (case scMapFields v of
        None \<Rightarrow> None
      | Some f \<Rightarrow>
          (case (map_option scInt64 (f ''block''), decodeAuctionEntries S (field f ''lot''), decodeAuctionEntries S (field f ''bid'')) of
             (Some (Some b), Some lot, Some bid) \<Rightarrow> Some \<lparr>as_PoolContractID = pool, as_UserAddress = user, as_AuctionType = typ,
               as_Block = b, as_Lot = lot, as_Bid = bid\<rparr>
           | _ \<Rightarrow> None))"

definition all_some :: "('a \<Rightarrow> 'b option) \<Rightarrow> 'a list \<Rightarrow> 'b list option" where
  "all_some f xs = (if \<exists>x\<in>set xs. f x = None then None else Some (map (\<lambda>x. the (f x)) xs))"

definition decodeAddressList :: "sdk \<Rightarrow> scval \<Rightarrow> string list option" where
  "decodeAddressList S v = (case scVec v of None \<Rightarrow> None | Some items \<Rightarrow> all_some (scAddress S) items)"

definition drop_pair :: "sdk \<Rightarrow> scval \<Rightarrow> drop_list_entry option" where
  "drop_pair S item = (case scVec item of
       Some (x # y # _) \<Rightarrow> (case (scAddress S x, scIntString y) of
           (Some a, Some n) \<Rightarrow> Some \<lparr>dl_Address = a, dl_AmountRaw = n\<rparr> | _ \<Rightarrow> None)
     | _ \<Rightarrow> None)"

definition decodeDropList :: "sdk \<Rightarrow> scval \<Rightarrow> drop_list_entry list option" where
  "decodeDropList S v = (case scVec v of None \<Rightarrow> None | Some items \<Rightarrow> all_some (drop_pair S) items)"

section \<open>Token metadata\<close>

fun scValBytes :: "scval \<Rightarrow> string option" where
  "scValBytes (ScBytes b) = Some b"
| "scValBytes _ = None"

definition decodeSACAssetInfo :: "sdk \<Rightarrow> string \<Rightarrow> scval \<Rightarrow> asset_metadata option" where
  "decodeSACAssetInfo S cid v =
     (case scVariant v of
        None \<Rightarrow> None
      | Some (variant, args) \<Rightarrow>
          if variant = ''Native''
          then Some \<lparr>am_ContractID = cid, am_Symbol = ''native'', am_Name = ''native'', am_Decimals = 7\<rparr>
          else if variant = ''AlphaNum4'' \<or> variant = ''AlphaNum12'' then
            (case args of
               [] \<Rightarrow> None
             | x # _ \<Rightarrow> (case scMapFields x of
                   None \<Rightarrow> None
                 | Some f \<Rightarrow> (case (scSymbol (field f ''asset_code''), map_option (sdk_encode_account S) (scValBytes (field f ''issuer''))) of
                       (Some code, Some (Some issuer)) \<Rightarrow> Some \<lparr>am_ContractID = cid, am_Symbol = code,
                         am_Name = code @ '':'' @ issuer, am_Decimals = 7\<rparr>
                     | _ \<Rightarrow> None)))
          else None)"

definition decodeSEP41Metadata :: "string \<Rightarrow> scval \<Rightarrow> asset_metadata option" where
  "decodeSEP41Metadata cid v =
     (case scMapFields v of
        None \<Rightarrow> None
      | Some f \<Rightarrow> (case (fieldInt32 (Some f) ''decimal'', scSymbol (field f ''name''), scSymbol (field f ''symbol'')) of
            (Some d, Some name, Some symb) \<Rightarrow> Some \<lparr>am_ContractID = cid, am_Symbol = symb, am_Name = name, am_Decimals = d\<rparr>
          | _ \<Rightarrow> None))"

definition asset_instance_entry :: "sdk \<Rightarrow> string \<Rightarrow> scval \<times> scval \<Rightarrow> (string, asset_metadata) gmap \<Rightarrow> (string, asset_metadata) gmap" where
  "asset_instance_entry S cid e assets =
     (if scVariant (fst e) = Some (''AssetInfo'', []) then if_ok (decodeSACAssetInfo S cid (snd e)) (gm_set cid) assets
      else if scSymbol (fst e) = Some ''METADATA'' then if_ok (decodeSEP41Metadata cid (snd e)) (gm_set cid) assets
      else assets)"

definition applyAssetInstance :: "sdk \<Rightarrow> string \<Rightarrow> scval \<Rightarrow> (string, asset_metadata) gmap \<Rightarrow> (string, asset_metadata) gmap" where
  "applyAssetInstance S cid v assets =
     (case get_instance v of Some (_, Some es) \<Rightarrow> run (asset_instance_entry S cid) es assets | _ \<Rightarrow> assets)"

section \<open>Reserve indexes\<close>

text \<open>Only an index that exactly one reserve is known to have resolves a position.\<close>

definition known_count :: "reserve_state list \<Rightarrow> int \<Rightarrow> nat" where
  "known_count rs i = length (filter (\<lambda>r. rs_ReserveIndexKnown r \<and> rs_ReserveIndex r = i) rs)"

definition publishedReserveIndexes :: "reserve_state list \<Rightarrow> (int, string) gmap" where
  "publishedReserveIndexes rs =
     gm.load rs_ReserveIndex rs_AssetID (filter (\<lambda>r. rs_ReserveIndexKnown r \<and> known_count rs (rs_ReserveIndex r) = 1) rs) []"

definition named_reserves :: "(string, reserve_state) gmap \<Rightarrow> (string, reserve_state) gmap" where
  "named_reserves m = map (\<lambda>(k, r). (k, if rs_AssetID r = '''' then r\<lparr>rs_AssetID := k\<rparr> else r)) m"

definition add_claim :: "reserve_state \<Rightarrow> (int, string list) gmap \<Rightarrow> (int, string list) gmap" where
  "add_claim r m = gm_set (rs_ReserveIndex r)
     ((case gm_get m (rs_ReserveIndex r) of None \<Rightarrow> [] | Some l \<Rightarrow> l) @ [rs_AssetID r]) m"

definition finalizePoolReserves :: "pool_builder \<Rightarrow> pool_builder" where
  "finalizePoolReserves pool =
     (let named = named_reserves (pb_reserves pool);
          rs = sort_key (\<lambda>r. (rs_ReserveIndex r, rs_AssetID r)) (map snd named)
      in pool\<lparr>pb_reserves := named, pb_state := (pb_state pool)\<lparr>bp_Reserves := rs\<rparr>,
           pb_reserveByIndex := publishedReserveIndexes rs,
           pb_ambiguousByIndex := run add_claim (filter (\<lambda>r. rs_ReserveIndexKnown r \<and> known_count rs (rs_ReserveIndex r) \<noteq> 1) rs) [],
           pb_unknownIndexAssets := sort (map rs_AssetID (filter (\<lambda>r. \<not> rs_ReserveIndexKnown r) rs))\<rparr>)"

definition copyReserveIndex :: "(int, string) gmap \<Rightarrow> (int, string) gmap" where
  "copyReserveIndex m = m"

definition reserveIndexEqual :: "(int, string) gmap \<Rightarrow> (int, string) gmap \<Rightarrow> bool" where
  "reserveIndexEqual a b \<longleftrightarrow> length a = length b \<and> (\<forall>(i, asset) \<in> set a. gm_get b i = Some asset)"

section \<open>Position legs\<close>

text \<open>A leg whose index resolves is a position; a non-zero leg that does not is a diagnostic.\<close>

definition skip_leg :: "int \<Rightarrow> pool_builder \<Rightarrow> pending_positions \<Rightarrow> position_type \<Rightarrow> int \<Rightarrow> string \<Rightarrow> decode_diagnostic" where
  "skip_leg ledger pool p kind i amount =
     (let d = zero_decode_diagnostic\<lparr>dd_LedgerSeq := ledger, dd_PoolContractID := pp_poolContract p, dd_Address := pp_user p,
            dd_PositionType := position_type_string kind, dd_ReserveIndex := i, dd_AmountRaw := amount\<rparr>
      in case gm_get (pb_ambiguousByIndex pool) i of
           Some claims \<Rightarrow> d\<lparr>dd_Code := ''duplicate_reserve_index'', dd_CandidateAssetIDs := claims\<rparr>
         | None \<Rightarrow> d\<lparr>dd_Code := ''unmapped_reserve_index'', dd_CandidateAssetIDs := pb_unknownIndexAssets pool\<rparr>)"

definition position_leg ::
  "int \<Rightarrow> pool_builder \<Rightarrow> pending_positions \<Rightarrow> position_type \<Rightarrow> scval \<times> scval \<Rightarrow> (decode_diagnostic + user_reserve_position) option" where
  "position_leg ledger pool p kind e =
     (case (scInt32 (fst e), scIntString (snd e)) of
        (Some i, Some amount) \<Rightarrow>
          if amount = ''0'' then None
          else (case gm_get (pb_reserveByIndex pool) i of
              None \<Rightarrow> Some (Inl (skip_leg ledger pool p kind i amount))
            | Some asset \<Rightarrow> Some (Inr (let u = zero_user_reserve_position\<lparr>up_Address := pp_user p, up_PoolContractID := pp_poolContract p,
                  up_AssetID := asset, up_PositionType := kind, up_Archived := pp_archived p,
                  up_ArchivedLedgerSeq := pp_archivedLedgerSeq p\<rparr>
                in if kind = Liability then u\<lparr>up_DTokensRaw := amount\<rparr> else u\<lparr>up_BTokensRaw := amount\<rparr>)))
      | _ \<Rightarrow> None)"

definition positionsFromMap ::
  "int \<Rightarrow> pool_builder \<Rightarrow> pending_positions \<Rightarrow> scval \<Rightarrow> position_type \<Rightarrow> (decode_diagnostic + user_reserve_position) list" where
  "positionsFromMap ledger pool p v kind =
     (case get_map v of None \<Rightarrow> [] | Some es \<Rightarrow> List.map_filter (position_leg ledger pool p kind) es)"

definition buildUserPositionsForPending ::
  "int \<Rightarrow> pool_builder \<Rightarrow> pending_positions \<Rightarrow> (decode_diagnostic + user_reserve_position) list" where
  "buildUserPositionsForPending ledger pool p =
     (let part = (\<lambda>name. case scMapFields (pp_positions p) of None \<Rightarrow> sc_zero | Some f \<Rightarrow> field f name) in
      positionsFromMap ledger pool p (part ''supply'') Supply @ positionsFromMap ledger pool p (part ''collateral'') Collateral @
      positionsFromMap ledger pool p (part ''liabilities'') Liability)"

definition pendingOut :: "pending_positions \<Rightarrow> pending_user_position" where
  "pendingOut p = \<lparr>pu_Address = pp_user p, pu_PoolContractID = pp_poolContract p, pu_PositionsXDR = pp_valueXDR p,
     pu_Archived = pp_archived p, pu_ArchivedLedgerSeq = pp_archivedLedgerSeq p\<rparr>"

end
