(* ===== verification/Blend_Feeds.thy ===== *)
theory Blend_Feeds
  imports Blend_Entries
begin

text \<open>
  The price sources of Blend: registered Reflector feeds and oracle aggregators
  (src/blend/state_reflector.go), and the Comet pools behind backstops (src/blend/state_comet.go) as
  far as they need no other state.  The walk over the rounds of a feed is a loop that need not end,
  so what depends on it is an option, None for a decode that never returns.
\<close>

section \<open>Feeds\<close>

definition maxCarriedRounds :: nat where
  "maxCarriedRounds = 8"

record feed_builder =
  fb_decimals :: int
  fb_lastRoundMs :: int
  fb_assetToIndex :: "(string, int) gmap"
  fb_rounds :: "(int, (int, string) gmap) gmap"

record aggregator_builder =
  ab_decimals :: int
  ab_maxAgeS :: int
  ab_baseKey :: string
  ab_baseAssets :: "string list"
  ab_feeds :: "(int, aggregator_feed_ref) gmap"
  ab_assets :: "(string, aggregator_asset_config) gmap"

definition ensureFeed :: "(string, feed_builder) gmap \<Rightarrow> string \<Rightarrow> feed_builder" where
  "ensureFeed feeds cid = (case gm_get feeds cid of
       Some f \<Rightarrow> f | None \<Rightarrow> \<lparr>fb_decimals = 0, fb_lastRoundMs = 0, fb_assetToIndex = [], fb_rounds = []\<rparr>)"

definition canonicalAssetKey :: "sdk \<Rightarrow> scval \<Rightarrow> string option" where
  "canonicalAssetKey S v =
     (case scVariant v of
        None \<Rightarrow> None
      | Some (variant, args) \<Rightarrow>
          if variant = ''Stellar'' then map_option (\<lambda>a. ''stellar:'' @ a) (variantAddress S args)
          else if variant = ''Other''
            then (case args of [] \<Rightarrow> None | x # _ \<Rightarrow> map_option (\<lambda>s. ''other:'' @ s) (scSymbol x))
          else None)"

definition scString :: "scval \<Rightarrow> string option" where
  "scString v = get_str v"

definition stellarAssetID :: "string \<Rightarrow> string option" where
  "stellarAssetID key =
     (if length key > length ''stellar:'' \<and> take (length ''stellar:'') key = ''stellar:''
      then Some (drop (length ''stellar:'') key) else None)"

text \<open>The indexes of the set bits of a mask, byte by byte, low bit first.\<close>

definition mask_indexes :: "string \<Rightarrow> int list" where
  "mask_indexes bits = concat (map (\<lambda>(byteIdx, c). map (\<lambda>k. int (byteIdx * 8 + k))
     (filter (\<lambda>k. bit (of_char c :: nat) k) [0..<8])) (List.enumerate 0 bits))"

definition decodeFeedRoundBatch :: "scval \<Rightarrow> (int, string) gmap option" where
  "decodeFeedRoundBatch v =
     (case scMapFields v of
        None \<Rightarrow> None
      | Some f \<Rightarrow> (case (scValBytes (field f ''mask''), scVec (field f ''prices'')) of
            (Some bits, Some items) \<Rightarrow>
              Some (foldl (\<lambda>m (i, x). if_ok (scIntString x) (gm_set i) m) [] (zip (mask_indexes bits) items))
          | _ \<Rightarrow> None))"

definition seen_round :: "int \<Rightarrow> feed_builder \<Rightarrow> feed_builder" where
  "seen_round ts f = (if ts > fb_lastRoundMs f then f\<lparr>fb_lastRoundMs := ts\<rparr> else f)"

definition round_at :: "feed_builder \<Rightarrow> int \<Rightarrow> (int, string) gmap" where
  "round_at f ts = (case gm_get (fb_rounds f) ts of None \<Rightarrow> [] | Some r \<Rightarrow> r)"

definition setRound :: "int \<Rightarrow> (int, string) gmap \<Rightarrow> feed_builder \<Rightarrow> feed_builder" where
  "setRound ts prices f =
     seen_round ts (f\<lparr>fb_rounds := gm_set ts (foldl (\<lambda>r (i, x). gm_set i x r) (round_at f ts) prices) (fb_rounds f)\<rparr>)"

text \<open>One entry of a feed's instance storage.\<close>

definition cache_item :: "scval \<Rightarrow> feed_builder \<Rightarrow> feed_builder" where
  "cache_item item f =
     (case scVec item of
        Some [t, v] \<Rightarrow> (case scInt64 t of
            Some ts \<Rightarrow> if ts \<le> 0 then f else if_ok (decodeFeedRoundBatch v) (setRound ts) f
          | None \<Rightarrow> f)
      | _ \<Rightarrow> f)"

definition feed_instance_entry :: "sdk \<Rightarrow> scval \<times> scval \<Rightarrow> feed_builder \<Rightarrow> feed_builder" where
  "feed_instance_entry S e f =
     (case scString (fst e) of
        None \<Rightarrow> f
      | Some name \<Rightarrow>
          if name = ''assets'' then
            if_ok (scVec (snd e)) (\<lambda>items f. f\<lparr>fb_assetToIndex :=
              foldl (\<lambda>m (i, item). if_ok (canonicalAssetKey S item) (\<lambda>k. gm_set k (int i)) m) [] (List.enumerate 0 items)\<rparr>) f
          else if name = ''decimals'' then if_ok (scInt32 (snd e)) (\<lambda>d f. f\<lparr>fb_decimals := d\<rparr>) f
          else if name = ''last_timestamp'' then if_ok (scInt64 (snd e)) seen_round f
          else if name = ''cache'' then if_ok (scVec (snd e)) (run cache_item) f
          else f)"

definition applyFeedInstance :: "sdk \<Rightarrow> string \<Rightarrow> scval \<Rightarrow> (string, feed_builder) gmap \<Rightarrow> (string, feed_builder) gmap" where
  "applyFeedInstance S cid v feeds =
     (case get_instance v of
        Some (_, Some es) \<Rightarrow> gm_set cid (run (feed_instance_entry S) es (ensureFeed feeds cid)) feeds
      | _ \<Rightarrow> feeds)"

definition applyFeedChange :: "sdk \<Rightarrow> string \<Rightarrow> scval \<Rightarrow> scval \<Rightarrow> (string, feed_builder) gmap \<Rightarrow> (string, feed_builder) gmap" where
  "applyFeedChange S cid key v feeds =
     (case key of
        ScKeyInstance \<Rightarrow> applyFeedInstance S cid v feeds
      | ScU64 _ \<Rightarrow> (case scInt64 key of
            Some ts \<Rightarrow> if ts \<le> 0 then feeds
              else gm_set cid (if_ok (decodeFeedRoundBatch v) (setRound ts) (ensureFeed feeds cid)) feeds
          | None \<Rightarrow> feeds)
      | ScU128 hi lo \<Rightarrow>
          if sint hi \<le> 0 \<or> sint lo < 0 then feeds
          else (case scIntString v of
              None \<Rightarrow> feeds
            | Some price \<Rightarrow> gm_set cid (setRound (sint hi) [(sint lo, price)] (ensureFeed feeds cid)) feeds)
      | _ \<Rightarrow> feeds)"

definition applyFeedDelete :: "string \<Rightarrow> scval \<Rightarrow> (string, feed_builder) gmap \<Rightarrow> (string, feed_builder) gmap" where
  "applyFeedDelete cid key feeds =
     (case gm_get feeds cid of
        None \<Rightarrow> feeds
      | Some f \<Rightarrow> (case key of
            ScKeyInstance \<Rightarrow> gm_del cid feeds
          | ScU64 _ \<Rightarrow> (case scInt64 key of
                None \<Rightarrow> feeds | Some ts \<Rightarrow> gm_set cid (f\<lparr>fb_rounds := gm_del ts (fb_rounds f)\<rparr>) feeds)
          | ScU128 hi lo \<Rightarrow> (case gm_get (fb_rounds f) (sint hi) of
                None \<Rightarrow> feeds
              | Some r \<Rightarrow> (let r = gm_del (sint lo) r in
                  gm_set cid (f\<lparr>fb_rounds := (if r = [] then gm_del (sint hi) (fb_rounds f) else gm_set (sint hi) r (fb_rounds f))\<rparr>)
                    feeds))
          | _ \<Rightarrow> feeds))"

definition isPositiveIntString :: "string \<Rightarrow> bool" where
  "isPositiveIntString s = (case set_string s of None \<Rightarrow> False | Some n \<Rightarrow> n > 0)"

definition positivePrice :: "feed_builder \<Rightarrow> int \<Rightarrow> int \<Rightarrow> string option" where
  "positivePrice f ts index =
     (case gm_get (round_at f ts) index of
        Some price \<Rightarrow> if isPositiveIntString price then Some price else None | None \<Rightarrow> None)"

definition trimRounds :: "feed_builder \<Rightarrow> feed_builder" where
  "trimRounds f =
     (if length (fb_rounds f) \<le> maxCarriedRounds then f
      else f\<lparr>fb_rounds := foldl (\<lambda>m ts. gm_del ts m) (fb_rounds f)
        (drop maxCarriedRounds (rev (sort (map fst (fb_rounds f)))))\<rparr>)"

section \<open>Aggregators\<close>

fun scInt128 :: "scval \<Rightarrow> int option" where
  "scInt128 (ScU128 hi lo) = set_string (uint128ToString hi lo)"
| "scInt128 (ScI128 hi lo) = set_string (int128ToString hi lo)"
| "scInt128 _ = None"

text \<open>
  The value \<open>scInt64\<close> returns beside its flag, for callers that drop the flag: \<open>strconv.ParseInt\<close>
  clamps what does not fit.
\<close>

definition scInt64_value :: "scval \<Rightarrow> int" where
  "scInt64_value v =
     (case (scInt64 v, scInt128 v) of
        (Some n, _) \<Rightarrow> n | (None, Some n) \<Rightarrow> max (- (2 ^ 63)) (min (2 ^ 63 - 1) n) | _ \<Rightarrow> 0)"

definition agg_feed :: "sdk \<Rightarrow> scval \<Rightarrow> aggregator_builder \<Rightarrow> aggregator_builder" where
  "agg_feed S item agg =
     (let fs = scMapFields item; fld = (\<lambda>k. case fs of None \<Rightarrow> sc_zero | Some f \<Rightarrow> field f k) in
      case (fieldAddress S fs ''address'', scInt64 (fld ''index'')) of
        (Some feed, Some i) \<Rightarrow> agg\<lparr>ab_feeds := gm_set i \<lparr>gf_Index = i, gf_ContractID = feed,
          gf_Decimals = (case fieldInt32 fs ''decimals'' of None \<Rightarrow> 0 | Some d \<Rightarrow> d),
          gf_ResolutionS = scInt64_value (fld ''resolution'')\<rparr> (ab_feeds agg)\<rparr>
      | _ \<Rightarrow> agg)"

definition agg_asset :: "sdk \<Rightarrow> scval \<times> scval \<Rightarrow> aggregator_builder \<Rightarrow> aggregator_builder" where
  "agg_asset S e agg =
     (let fld = (\<lambda>k. case scMapFields (snd e) of None \<Rightarrow> sc_zero | Some f \<Rightarrow> field f k) in
      case Option.bind (canonicalAssetKey S (fst e)) stellarAssetID of
        None \<Rightarrow> agg
      | Some asset \<Rightarrow> (case (canonicalAssetKey S (fld ''asset''), scInt64 (fld ''oracle_index'')) of
            (Some feedKey, Some i) \<Rightarrow> agg\<lparr>ab_assets := gm_set asset \<lparr>ga_AssetID = asset, ga_FeedAssetKey = feedKey,
              ga_OracleIndex = i, ga_MaxDev = scInt64_value (fld ''max_dev'')\<rparr> (ab_assets agg)\<rparr>
          | _ \<Rightarrow> agg))"

text \<open>The configuration an aggregator's instance holds, if it is one.\<close>

definition aggregator_config :: "sdk \<Rightarrow> scval \<Rightarrow> aggregator_builder option" where
  "aggregator_config S v =
     (case get_instance v of
        Some (_, Some es) \<Rightarrow>
          (let st = instance_symbols es in
           case (canonicalAssetKey S (field st ''Base''), scInt64 (field st ''MaxAge''), scInt32 (field st ''Decimals'')) of
             (Some base, Some maxAge, Some decimals) \<Rightarrow>
               (let agg = \<lparr>ab_decimals = decimals, ab_maxAgeS = maxAge, ab_baseKey = base,
                      ab_baseAssets = (case scVec (field st ''BaseAssets'') of None \<Rightarrow> []
                        | Some items \<Rightarrow> sort (List.map_filter (canonicalAssetKey S) items)), ab_feeds = [], ab_assets = []\<rparr>;
                    agg = (case scVec (field st ''Oracles'') of None \<Rightarrow> agg | Some items \<Rightarrow> run (agg_feed S) items agg)
                in Some (case get_map (field st ''Assets'') of None \<Rightarrow> agg | Some es \<Rightarrow> run (agg_asset S) es agg))
           | _ \<Rightarrow> None)
      | _ \<Rightarrow> None)"

section \<open>Prices\<close>

text \<open>\<open>big.Int.Exp\<close> of ten without a modulus: one for an exponent that is not positive.\<close>

definition big_pow10 :: "int \<Rightarrow> int" where
  "big_pow10 n = (if n \<le> 0 then 1 else 10 ^ nat n)"

definition int64 :: "int \<Rightarrow> int" where
  "int64 n = wrap_int 64 n"

text \<open>\<open>for t := ...; t > 0 && t/1000 >= oldest; t -= res\<close>, stopping at a positive price.\<close>

partial_function (option) walk_back :: "feed_builder \<Rightarrow> int \<Rightarrow> int \<Rightarrow> int \<Rightarrow> int \<Rightarrow> (string \<times> int) option option" where
  "walk_back f index oldestS res t =
     (if t > 0 \<and> quo t 1000 \<ge> oldestS
      then (case positivePrice f t index of
          Some price \<Rightarrow> Some (Some (price, t))
        | None \<Rightarrow> walk_back f index oldestS res (int64 (t - res)))
      else Some None)"

text \<open>The next older price within a number of steps.\<close>

fun older_price :: "feed_builder \<Rightarrow> int \<Rightarrow> int \<Rightarrow> nat \<Rightarrow> int \<Rightarrow> string option" where
  "older_price f index res 0 t = None"
| "older_price f index res (Suc n) t =
     (if t > 0 then (case positivePrice f t index of
          Some price \<Rightarrow> Some price | None \<Rightarrow> older_price f index res n (int64 (t - res)))
      else None)"

definition rescalePrice :: "string \<Rightarrow> int \<Rightarrow> int \<Rightarrow> string option" where
  "rescalePrice raw from to =
     (case set_string raw of
        None \<Rightarrow> None
      | Some price \<Rightarrow>
          if price \<le> 0 then None
          else if from > to then Some (show_int (quo price (big_pow10 (to_int32 (from - to)))))
          else if from < to then Some (show_int (price * big_pow10 (to_int32 (to - from))))
          else Some (show_int price))"

definition deviation_ok :: "string \<Rightarrow> string \<Rightarrow> int \<Rightarrow> bool" where
  "deviation_ok found old maxDev =
     (case (set_string found, set_string old) of
        (Some p, Some o') \<Rightarrow> \<bar>p - o'\<bar> \<le> o' * maxDev div 100
      | _ \<Rightarrow> False)"

text \<open>The reference and the feed behind an asset, when both are known and the feed has rounds.\<close>

definition asset_feed ::
  "(string, feed_builder) gmap \<Rightarrow> aggregator_builder \<Rightarrow> aggregator_asset_config \<Rightarrow> (aggregator_feed_ref \<times> feed_builder \<times> int) option" where
  "asset_feed feeds agg cfg =
     Option.bind (gm_get (ab_feeds agg) (ga_OracleIndex cfg)) (\<lambda>ref.
     Option.bind (gm_get feeds (gf_ContractID ref)) (\<lambda>feed.
     Option.bind (gm_get (fb_assetToIndex feed) (ga_FeedAssetKey cfg)) (\<lambda>index.
       if gf_ResolutionS ref \<le> 0 \<or> fb_lastRoundMs feed \<le> 0 then None else Some (ref, feed, index))))"

definition oldest_round :: "feed_builder \<Rightarrow> aggregator_builder \<Rightarrow> go_time \<Rightarrow> int" where
  "oldest_round feed agg closeTime =
     int64 ((if closeTime = zero_time then quo (fb_lastRoundMs feed) 1000 else unix_sec closeTime) - ab_maxAgeS agg)"

text \<open>The answer once the newest priced round is known.\<close>

definition guarded_price ::
  "aggregator_builder \<Rightarrow> aggregator_asset_config \<Rightarrow> aggregator_feed_ref \<Rightarrow> feed_builder \<Rightarrow> int \<Rightarrow> string \<times> int \<Rightarrow> string option" where
  "guarded_price agg cfg ref feed index found =
     (case found of (raw, ts) \<Rightarrow>
        if ga_MaxDev cfg > 0 \<and> ga_MaxDev cfg < 100
        then (case older_price feed index (int64 (gf_ResolutionS ref * 1000)) (nat (quo (ab_maxAgeS agg) (gf_ResolutionS ref)))
                (int64 (ts - int64 (gf_ResolutionS ref * 1000))) of
            None \<Rightarrow> None
          | Some old \<Rightarrow> if deviation_ok raw old (ga_MaxDev cfg) then rescalePrice raw (gf_Decimals ref) (ab_decimals agg) else None)
        else rescalePrice raw (gf_Decimals ref) (ab_decimals agg))"

definition resolveFeedPrice ::
  "(string, feed_builder) gmap \<Rightarrow> aggregator_builder \<Rightarrow> aggregator_asset_config \<Rightarrow> go_time \<Rightarrow> string option option" where
  "resolveFeedPrice feeds agg cfg closeTime =
     (case asset_feed feeds agg cfg of
        None \<Rightarrow> Some None
      | Some (ref, feed, index) \<Rightarrow>
          Option.bind (walk_back feed index (oldest_round feed agg closeTime) (int64 (gf_ResolutionS ref * 1000)) (fb_lastRoundMs feed))
            (\<lambda>found. Some (Option.bind found (guarded_price agg cfg ref feed index))))"

section \<open>The carry of feeds and aggregators\<close>

definition feedBuilderFromState :: "price_feed_state \<Rightarrow> feed_builder" where
  "feedBuilderFromState st = \<lparr>fb_decimals = pf_Decimals st, fb_lastRoundMs = pf_LastRoundMs st,
     fb_assetToIndex = gm.load fa_AssetKey fa_Index (pf_Assets st) [],
     fb_rounds = gm.load fr_TimestampMs (\<lambda>r. gm.load fp_Index fp_PriceRaw (fr_Prices r) []) (pf_Rounds st) []\<rparr>"

definition aggregatorBuilderFromState :: "oracle_aggregator_state \<Rightarrow> aggregator_builder" where
  "aggregatorBuilderFromState st = \<lparr>ab_decimals = og_Decimals st, ab_maxAgeS = og_MaxAgeS st, ab_baseKey = og_BaseKey st,
     ab_baseAssets = og_BaseAssets st, ab_feeds = gm.load gf_Index (\<lambda>f. f) (og_Feeds st) [],
     ab_assets = gm.load ga_AssetID (\<lambda>a. a) (og_Assets st) []\<rparr>"

definition feed_state :: "string \<Rightarrow> feed_builder \<Rightarrow> price_feed_state" where
  "feed_state cid f = \<lparr>pf_ContractID = cid, pf_Decimals = fb_decimals f, pf_LastRoundMs = fb_lastRoundMs f,
     pf_Assets = sort_key (\<lambda>a. (fa_Index a, fa_AssetKey a)) (map (\<lambda>(k, i). \<lparr>fa_AssetKey = k, fa_Index = i\<rparr>) (fb_assetToIndex f)),
     pf_Rounds = sort_key fr_TimestampMs (map (\<lambda>(ts, prices). \<lparr>fr_TimestampMs = ts,
       fr_Prices = sort_key fp_Index (map (\<lambda>(i, x). \<lparr>fp_Index = i, fp_PriceRaw = x\<rparr>) prices)\<rparr>) (fb_rounds f))\<rparr>"

definition buildPriceFeeds :: "(string, feed_builder) gmap \<Rightarrow> price_feed_state list" where
  "buildPriceFeeds feeds = sort_key pf_ContractID (map (\<lambda>(cid, f). feed_state cid (trimRounds f)) feeds)"

definition buildOracleAggregators :: "(string, aggregator_builder) gmap \<Rightarrow> oracle_aggregator_state list" where
  "buildOracleAggregators aggs = sort_key og_ContractID (map (\<lambda>(cid, a). \<lparr>og_ContractID = cid, og_Decimals = ab_decimals a,
     og_MaxAgeS = ab_maxAgeS a, og_BaseKey = ab_baseKey a, og_BaseAssets = ab_baseAssets a,
     og_Feeds = sort_key gf_Index (map snd (ab_feeds a)), og_Assets = sort_key ga_AssetID (map snd (ab_assets a))\<rparr>) aggs)"

section \<open>Comet pools\<close>

record comet_record =
  cr_balanceRaw :: string
  cr_index :: int

record comet_builder =
  cb_contractID :: string
  cb_wasmHash :: string
  cb_tokens :: "string list"
  cb_tokenKnown :: bool
  cb_records :: "(string, comet_record) gmap"
  cb_recordsKnown :: bool
  cb_totalSharesRaw :: string
  cb_totalSharesKnown :: bool

definition ensureComet :: "(string, comet_builder) gmap \<Rightarrow> string \<Rightarrow> comet_builder" where
  "ensureComet comets cid = (case gm_get comets cid of
       Some c \<Rightarrow> c
     | None \<Rightarrow> \<lparr>cb_contractID = cid, cb_wasmHash = '''', cb_tokens = [], cb_tokenKnown = False, cb_records = [],
         cb_recordsKnown = False, cb_totalSharesRaw = '''', cb_totalSharesKnown = False\<rparr>)"

definition reserveOf :: "comet_builder \<Rightarrow> string \<Rightarrow> string" where
  "reserveOf c asset =
     (if asset = '''' \<or> \<not> cb_recordsKnown c then ''''
      else (case gm_get (cb_records c) asset of None \<Rightarrow> '''' | Some r \<Rightarrow> cr_balanceRaw r))"

definition lpSupplyRaw :: "comet_builder \<Rightarrow> string" where
  "lpSupplyRaw c = (if cb_totalSharesKnown c then cb_totalSharesRaw c else '''')"

definition decodeCometTokenVec :: "sdk \<Rightarrow> scval \<Rightarrow> string list option" where
  "decodeCometTokenVec S v = (case scVec v of None \<Rightarrow> None | Some items \<Rightarrow> all_some (scAddress S) items)"

definition comet_record_of :: "sdk \<Rightarrow> scval \<times> scval \<Rightarrow> (string \<times> comet_record) option" where
  "comet_record_of S e =
     (let fs = scMapFields (snd e) in
      case (scAddress S (fst e), fieldIntString fs ''balance'', fieldIntString fs ''weight'', fieldIntString fs ''scalar'',
          fieldInt32 fs ''index'') of
        (Some a, Some balance, Some _, Some _, Some i) \<Rightarrow> Some (a, \<lparr>cr_balanceRaw = balance, cr_index = i\<rparr>)
      | _ \<Rightarrow> None)"

definition decodeCometRecordData :: "sdk \<Rightarrow> scval \<Rightarrow> (string, comet_record) gmap option" where
  "decodeCometRecordData S v =
     (case get_map v of
        None \<Rightarrow> None
      | Some es \<Rightarrow> map_option (\<lambda>rs. gm.load fst snd rs []) (all_some (comet_record_of S) es))"

text \<open>
  What a live write does to a Comet pool, and whether it decoded: None for a write that is refused
  or carries nothing.
\<close>

definition comet_write :: "sdk \<Rightarrow> scval \<Rightarrow> scval \<Rightarrow> (comet_builder \<Rightarrow> comet_builder) option" where
  "comet_write S key v =
     (if key = ScKeyInstance
      then Some (\<lambda>c. if_ok (contractInstanceWasmHash v) (\<lambda>h c. c\<lparr>cb_wasmHash := h\<rparr>) c)
      else (case scVariant key of
          Some (variant, []) \<Rightarrow>
            if variant = ''AllTokenVec''
            then map_option (\<lambda>ts c. c\<lparr>cb_tokens := ts, cb_tokenKnown := True\<rparr>) (decodeCometTokenVec S v)
            else if variant = ''AllRecordData''
            then map_option (\<lambda>rs c. c\<lparr>cb_records := rs, cb_recordsKnown := True\<rparr>) (decodeCometRecordData S v)
            else if variant = ''TotalShares''
            then map_option (\<lambda>n c. c\<lparr>cb_totalSharesRaw := n, cb_totalSharesKnown := True\<rparr>) (scIntString v)
            else None
        | _ \<Rightarrow> None))"

definition comet_clear :: "scval \<Rightarrow> (comet_builder \<Rightarrow> comet_builder) option" where
  "comet_clear key =
     (case scVariant key of
        Some (variant, []) \<Rightarrow>
          if variant = ''AllTokenVec'' then Some (\<lambda>c. c\<lparr>cb_tokens := [], cb_tokenKnown := False\<rparr>)
          else if variant = ''AllRecordData'' then Some (\<lambda>c. c\<lparr>cb_records := [], cb_recordsKnown := False\<rparr>)
          else if variant = ''TotalShares'' then Some (\<lambda>c. c\<lparr>cb_totalSharesRaw := '''', cb_totalSharesKnown := False\<rparr>)
          else None
      | _ \<Rightarrow> None)"

text \<open>
  Restoring a pool from its row.  A nil and an empty token slice are the same list here: with
  either, no token has a reserve and the row written back has none.
\<close>

definition restore_token :: "amm_token_reserve \<Rightarrow> comet_builder \<Rightarrow> comet_builder" where
  "restore_token t c =
     (let c = c\<lparr>cb_tokens := cb_tokens c @ [tr_AssetID t]\<rparr> in
      if tr_ReserveRaw t \<noteq> ''''
      then c\<lparr>cb_records := gm_set (tr_AssetID t) \<lparr>cr_balanceRaw = tr_ReserveRaw t, cr_index = 0\<rparr> (cb_records c), cb_recordsKnown := True\<rparr>
      else c)"

definition restoreComet :: "amm_pool_state \<Rightarrow> (string, comet_builder) gmap \<Rightarrow> (string, comet_builder) gmap" where
  "restoreComet st comets =
     (let c = (ensureComet comets (ps_ContractID st))\<lparr>cb_wasmHash := ps_WasmHash st\<rparr>;
          c = (if ps_Tokens st = [] then c else run restore_token (ps_Tokens st) (c\<lparr>cb_tokenKnown := True, cb_tokens := []\<rparr>));
          c = (if ps_TotalSharesRaw st \<noteq> '''' then c\<lparr>cb_totalSharesRaw := ps_TotalSharesRaw st, cb_totalSharesKnown := True\<rparr> else c)
      in gm_set (ps_ContractID st) c comets)"

definition comet_reserve :: "comet_builder \<Rightarrow> string \<Rightarrow> amm_token_reserve" where
  "comet_reserve c token = zero_amm_token_reserve\<lparr>tr_AssetID := token,
     tr_ReserveRaw := (case gm_get (cb_records c) token of None \<Rightarrow> '''' | Some r \<Rightarrow> cr_balanceRaw r)\<rparr>"

definition comet_row :: "string \<Rightarrow> comet_builder \<Rightarrow> amm_pool_state" where
  "comet_row protocol c =
     (let extras = sort (filter (\<lambda>a. a \<notin> set (cb_tokens c)) (map fst (cb_records c)))
      in zero_amm_pool_state\<lparr>ps_Protocol := protocol, ps_ContractID := cb_contractID c, ps_WasmHash := cb_wasmHash c,
           ps_PoolType := cometPoolType,
           ps_Tokens := (if cb_tokenKnown c \<or> cb_recordsKnown c
             then sort_key tr_AssetID (map (comet_reserve c) (cb_tokens c @ extras)) else []),
           ps_TotalSharesRaw := (if cb_totalSharesKnown c then cb_totalSharesRaw c else '''')\<rparr>)"

definition buildAMMPools :: "string \<Rightarrow> (string, comet_builder) gmap \<Rightarrow> amm_pool_state list" where
  "buildAMMPools protocol comets = sort_key ps_ContractID (map (\<lambda>(_, c). comet_row protocol c) comets)"

end
