(* ===== verification/Blend_Builder.thy ===== *)
theory Blend_Builder
  imports Blend_Feeds
begin

text \<open>
  The builder of a Blend ledger state (src/blend/state.go) and its joins with Comet pools and prices
  (src/blend/state_comet.go): its fields, the helpers that record deltas and dirty identities, and
  what one live or one removed entry does to it.
\<close>

section \<open>State\<close>

record oracle_builder =
  ob_decimals :: int
  ob_assetToIndex :: "(string, int) gmap"
  ob_priceByIndex :: "(int, string) gmap"
  ob_baseKey :: string
  ob_resolutionRaw :: string
  ob_admin :: string
  ob_lastTimestampRaw :: string
  ob_synthesized :: bool

record user_identity =
  ui_address :: string
  ui_pool :: string

type_synonym backstop_identity = user_identity

text \<open>
  A delta carries the state it is about; its JSON text is only compared, when deltas are sorted.
\<close>

datatype delta_state =
    DeltaPool blend_pool_state
  | DeltaReserve reserve_state
  | DeltaUsers "user_reserve_position list"
  | DeltaBackstopPool backstop_pool_balance
  | DeltaBackstopEmis backstop_emis_data
  | DeltaBackstop backstop_position
  | DeltaInstance backstop_instance_state
  | DeltaAuction auction_state
  | DeltaUserEmission user_emission_state
  | DeltaQueued queued_reserve_state

record state_delta =
  td_LedgerSeq :: int
  td_EntityType :: string
  td_EntityKey :: string
  td_Live :: bool
  td_State :: "delta_state option"

record bl_builder =
  b_pools :: "(string, pool_builder) gmap"
  b_pendingPos :: "(string, pending_positions) gmap"
  b_backstopPools :: "(string, backstop_pool_balance) gmap"
  b_backstopUsers :: "(string, backstop_user_balance) gmap"
  b_backstopEmis :: "(string, backstop_emis_data) gmap"
  b_auctions :: "(string, auction_state) gmap"
  b_userEmis :: "(string, user_emission_state) gmap"
  b_queuedReserves :: "(string, queued_reserve_state) gmap"
  b_backstopInstances :: "(string, backstop_instance_state) gmap"
  b_comets :: "(string, comet_builder) gmap"
  b_oracles :: "(string, oracle_builder) gmap"
  b_feeds :: "(string, feed_builder) gmap"
  b_aggregators :: "(string, aggregator_builder) gmap"
  b_assets :: "(string, asset_metadata) gmap"
  b_owned :: "string set"
  b_ownedAssets :: "string set"
  b_ownedFeeds :: "string set"
  b_ownedComets :: "string set"
  b_protocol :: string
  b_deltas :: "state_delta list"
  b_ledgerSeq :: int
  b_diagnostics :: "decode_diagnostic list"
  b_dirtyUsers :: "(string, user_identity) gmap"
  b_dirtyTemporary :: "(string, temporary_state_change) gmap"
  b_dirtyBackstops :: "(string, backstop_identity) gmap"
  b_changedFeeds :: "string list"
  b_changedPriceAssets :: "string list"

definition newBlendStateBuilder :: bl_builder where
  "newBlendStateBuilder = \<lparr>b_pools = [], b_pendingPos = [], b_backstopPools = [], b_backstopUsers = [], b_backstopEmis = [],
     b_auctions = [], b_userEmis = [], b_queuedReserves = [], b_backstopInstances = [], b_comets = [], b_oracles = [],
     b_feeds = [], b_aggregators = [], b_assets = [], b_owned = {}, b_ownedAssets = {}, b_ownedFeeds = {}, b_ownedComets = {},
     b_protocol = '''', b_deltas = [], b_ledgerSeq = 0, b_diagnostics = [], b_dirtyUsers = [], b_dirtyTemporary = [],
     b_dirtyBackstops = [], b_changedFeeds = [], b_changedPriceAssets = []\<rparr>"

definition addDelta :: "string \<Rightarrow> string \<Rightarrow> bool \<Rightarrow> delta_state option \<Rightarrow> int \<Rightarrow> bl_builder \<Rightarrow> bl_builder" where
  "addDelta typ key live st ledger b = b\<lparr>b_deltas := b_deltas b @
     [\<lparr>td_LedgerSeq = ledger, td_EntityType = typ, td_EntityKey = key, td_Live = live, td_State = st\<rparr>]\<rparr>"

definition putPool :: "string \<Rightarrow> pool_builder \<Rightarrow> bl_builder \<Rightarrow> bl_builder" where
  "putPool cid p b = b\<lparr>b_pools := gm_set cid p (b_pools b)\<rparr>"

definition pool_delta :: "string \<Rightarrow> int \<Rightarrow> bl_builder \<Rightarrow> bl_builder" where
  "pool_delta cid ledger b = addDelta ''pool'' cid True (Some (DeltaPool (pb_state (ensurePool (b_pools b) cid)))) ledger b"

definition reserve_delta :: "string \<Rightarrow> string \<Rightarrow> int \<Rightarrow> bl_builder \<Rightarrow> bl_builder" where
  "reserve_delta cid asset ledger b = addDelta ''reserve'' (typedReserveEntityKey cid asset) True
     (Some (DeltaReserve (ensureReserve (ensurePool (b_pools b) cid) asset))) ledger b"

section \<open>Oracles\<close>

definition ensureOracle :: "(string, oracle_builder) gmap \<Rightarrow> string \<Rightarrow> oracle_builder" where
  "ensureOracle os cid = (case gm_get os cid of
       Some o' \<Rightarrow> o'
     | None \<Rightarrow> \<lparr>ob_decimals = 0, ob_assetToIndex = [], ob_priceByIndex = [], ob_baseKey = '''', ob_resolutionRaw = '''',
         ob_admin = '''', ob_lastTimestampRaw = '''', ob_synthesized = False\<rparr>)"

definition isOraclePriceKey :: "scval \<Rightarrow> bool" where
  "isOraclePriceKey key = (case key of ScU128 _ _ \<Rightarrow> True | _ \<Rightarrow> False)"

definition oracle_assets :: "sdk \<Rightarrow> scval list \<Rightarrow> (string, int) gmap" where
  "oracle_assets S items = foldl (\<lambda>m (i, item). case scVariant item of
       None \<Rightarrow> m | Some (_, args) \<Rightarrow> if_ok (variantAddress S args) (\<lambda>a. gm_set a (int i)) m) [] (List.enumerate 0 items)"

text \<open>Whether the value is an oracle's instance is whether there is a result.\<close>

definition applyOracleInstance :: "sdk \<Rightarrow> string \<Rightarrow> scval \<Rightarrow> bl_builder \<Rightarrow> bl_builder option" where
  "applyOracleInstance S cid v b =
     (case get_instance v of
        Some (_, Some es) \<Rightarrow>
          (let st = instance_symbols es in
           case (Option.bind (st ''assets'') scVec, scInt32 (field st ''decimals'')) of
             (Some items, Some d) \<Rightarrow>
               (let o' = (ensureOracle (b_oracles b) cid)\<lparr>ob_decimals := d\<rparr>;
                    o' = if_ok (canonicalAssetKey S (field st ''base'')) (\<lambda>k o'. o'\<lparr>ob_baseKey := k\<rparr>) o';
                    o' = if_ok (scIntString (field st ''res'')) (\<lambda>r o'. o'\<lparr>ob_resolutionRaw := r\<rparr>) o';
                    o' = if_ok (scAddress S (field st ''admin'')) (\<lambda>a o'. o'\<lparr>ob_admin := a\<rparr>) o'
                in Some (b\<lparr>b_oracles := gm_set cid (o'\<lparr>ob_assetToIndex := oracle_assets S items\<rparr>) (b_oracles b)\<rparr>))
           | _ \<Rightarrow> None)
      | _ \<Rightarrow> None)"

definition markOraclePriceAssetDirty :: "oracle_builder \<Rightarrow> int \<Rightarrow> bl_builder \<Rightarrow> bl_builder" where
  "markOraclePriceAssetDirty o' i b =
     (case find (\<lambda>(_, j). j = i) (ob_assetToIndex o') of
        None \<Rightarrow> b | Some (asset, _) \<Rightarrow> b\<lparr>b_changedPriceAssets := List.insert asset (b_changedPriceAssets b)\<rparr>)"

definition applyOraclePrice :: "string \<Rightarrow> scval \<Rightarrow> scval \<Rightarrow> bl_builder \<Rightarrow> bl_builder" where
  "applyOraclePrice cid key v b =
     (case (scInt64 key, scIntString v) of
        (Some i, Some price) \<Rightarrow>
          if i < 0 then b
          else (let o' = ensureOracle (b_oracles b) cid; o' = o'\<lparr>ob_priceByIndex := gm_set i price (ob_priceByIndex o')\<rparr>
            in markOraclePriceAssetDirty o' i (b\<lparr>b_oracles := gm_set cid o' (b_oracles b)\<rparr>))
      | _ \<Rightarrow> b)"

definition applyAggregatorInstance :: "sdk \<Rightarrow> string \<Rightarrow> scval \<Rightarrow> bl_builder \<Rightarrow> bl_builder option" where
  "applyAggregatorInstance S cid v b =
     map_option (\<lambda>agg. b\<lparr>b_aggregators := gm_set cid agg (b_aggregators b)\<rparr>) (aggregator_config S v)"

text \<open>Oracle prices land on the reserves their pool's oracle lists.\<close>

definition priced_reserve :: "oracle_builder \<Rightarrow> string \<Rightarrow> reserve_state \<Rightarrow> reserve_state" where
  "priced_reserve o' asset r =
     (case gm_get (ob_assetToIndex o') asset of
        None \<Rightarrow> r
      | Some i \<Rightarrow> (case gm_get (ob_priceByIndex o') i of
            Some price \<Rightarrow> if isPositiveIntString price then r\<lparr>rs_OraclePriceRaw := price, rs_OracleDecimals := ob_decimals o'\<rparr>
              else r\<lparr>rs_OraclePriceRaw := '''', rs_OracleDecimals := 0\<rparr>
          | None \<Rightarrow> r\<lparr>rs_OraclePriceRaw := '''', rs_OracleDecimals := 0\<rparr>))"

definition priced_pool :: "(string, oracle_builder) gmap \<Rightarrow> pool_builder \<Rightarrow> pool_builder" where
  "priced_pool os pool =
     (case gm_get os (bp_OracleContract (pb_state pool)) of
        None \<Rightarrow> pool
      | Some o' \<Rightarrow> pool\<lparr>pb_reserves := map (\<lambda>(asset, r). (asset, priced_reserve o' asset r)) (pb_reserves pool)\<rparr>)"

definition resolveOraclePrices :: "bl_builder \<Rightarrow> bl_builder" where
  "resolveOraclePrices b = b\<lparr>b_pools := map (\<lambda>(cid, p). (cid, priced_pool (b_oracles b) p)) (b_pools b)\<rparr>"

definition aggregator_constants :: "aggregator_builder \<Rightarrow> string list" where
  "aggregator_constants agg = remdups (List.map_filter stellarAssetID (ab_baseKey agg # ab_baseAssets agg))"

definition aggregator_served :: "aggregator_builder \<Rightarrow> string list" where
  "aggregator_served agg =
     sort (map fst (ab_assets agg) @ filter (\<lambda>a. gm_get (ab_assets agg) a = None) (aggregator_constants agg))"

definition aggregator_price ::
  "(string, feed_builder) gmap \<Rightarrow> aggregator_builder \<Rightarrow> go_time \<Rightarrow> nat \<times> string \<Rightarrow> oracle_builder \<Rightarrow> oracle_builder option" where
  "aggregator_price feeds agg closeTime ia o' =
     (case ia of (i, asset) \<Rightarrow>
       let o' = o'\<lparr>ob_assetToIndex := gm_set asset (int i) (ob_assetToIndex o')\<rparr>;
           price = (\<lambda>x. o'\<lparr>ob_priceByIndex := gm_set (int i) x (ob_priceByIndex o')\<rparr>)
       in if asset \<in> set (aggregator_constants agg) then Some (price (show_int (big_pow10 (ab_decimals agg))))
          else map_option (case_option o' price) (resolveFeedPrice feeds agg
            (case gm_get (ab_assets agg) asset of None \<Rightarrow> zero_aggregator_asset_config | Some cfg \<Rightarrow> cfg) closeTime))"

definition resolve_aggregator :: "go_time \<Rightarrow> string \<Rightarrow> bl_builder \<Rightarrow> bl_builder option" where
  "resolve_aggregator closeTime cid b =
     (case gm_get (b_aggregators b) cid of
        None \<Rightarrow> Some b
      | Some agg \<Rightarrow>
          map_option (\<lambda>o'. b\<lparr>b_oracles := gm_set cid o' (b_oracles b)\<rparr>)
            (foldO (aggregator_price (b_feeds b) agg closeTime) (List.enumerate 0 (aggregator_served agg))
              ((ensureOracle (b_oracles b) cid)\<lparr>ob_synthesized := True, ob_decimals := ab_decimals agg, ob_assetToIndex := [],
                ob_priceByIndex := []\<rparr>)))"

definition resolveAggregatorPrices :: "go_time \<Rightarrow> bl_builder \<Rightarrow> bl_builder option" where
  "resolveAggregatorPrices closeTime b = foldO (resolve_aggregator closeTime) (sort (map fst (b_aggregators b))) b"

section \<open>Backstops\<close>

definition ensureBackstopInstance :: "(string, backstop_instance_state) gmap \<Rightarrow> string \<Rightarrow> backstop_instance_state" where
  "ensureBackstopInstance m cid = (case gm_get m cid of Some i \<Rightarrow> i | None \<Rightarrow> zero_backstop_instance_state\<lparr>bi_ContractID := cid\<rparr>)"

text \<open>A backstop instance that changed, with its delta.\<close>

definition putInstance :: "string \<Rightarrow> backstop_instance_state \<Rightarrow> int \<Rightarrow> bl_builder \<Rightarrow> bl_builder" where
  "putInstance cid i ledger b = addDelta ''backstop_instance'' cid True (Some (DeltaInstance i)) ledger
     (b\<lparr>b_backstopInstances := gm_set cid i (b_backstopInstances b)\<rparr>)"

definition applyBackstopInstance :: "sdk \<Rightarrow> string \<Rightarrow> scval \<Rightarrow> bl_builder \<Rightarrow> backstop_instance_state option" where
  "applyBackstopInstance S cid v b =
     (case get_instance v of
        Some (_, Some es) \<Rightarrow>
          (let st = instance_symbols es; a = (\<lambda>k. scAddress S (field st k)); i = ensureBackstopInstance (b_backstopInstances b) cid;
               i = if_ok (a ''BToken'') (\<lambda>x i. i\<lparr>bi_BackstopToken := x\<rparr>) i;
               i = if_ok (a ''BLNDTkn'') (\<lambda>x i. i\<lparr>bi_BLNDToken := x\<rparr>) i;
               i = if_ok (a ''USDCTkn'') (\<lambda>x i. i\<lparr>bi_USDCToken := x\<rparr>) i;
               i = if_ok (a ''Emitter'') (\<lambda>x i. i\<lparr>bi_Emitter := x\<rparr>) i;
               i = if_ok (a ''PoolFact'') (\<lambda>x i. i\<lparr>bi_PoolFactory := x\<rparr>) i
           in if st ''BToken'' = None then None else Some i)
      | _ \<Rightarrow> None)"

definition backstopInstanceForPool :: "bl_builder \<Rightarrow> string \<Rightarrow> backstop_instance_state option" where
  "backstopInstanceForPool b cid =
     (case gm_get (b_pools b) cid of
        None \<Rightarrow> None
      | Some p \<Rightarrow> if bp_BackstopContract (pb_state p) = '''' then None
          else gm_get (b_backstopInstances b) (bp_BackstopContract (pb_state p)))"

definition cometForBackstopInstance :: "bl_builder \<Rightarrow> backstop_instance_state \<Rightarrow> comet_builder option" where
  "cometForBackstopInstance b i = (if bi_BackstopToken i = '''' then None else gm_get (b_comets b) (bi_BackstopToken i))"

text \<open>The price of a token: the first pool, by id, with a priced reserve of it.\<close>

definition tokenPriceUSD :: "'d decimal_ops \<Rightarrow> bl_builder \<Rightarrow> string \<Rightarrow> string" where
  "tokenPriceUSD D b asset =
     (if asset = '''' then ''''
      else (case List.map_filter (\<lambda>cid. case gm_get (pb_reserves (ensurePool (b_pools b) cid)) asset of
              None \<Rightarrow> None | Some r \<Rightarrow> if isPositiveIntString (rs_OraclePriceRaw r) then Some r else None)
            (sort (map fst (b_pools b))) of
          [] \<Rightarrow> ''''
        | r # _ \<Rightarrow> numString D (d_div D (parseDecimalOrZero D (rs_OraclePriceRaw r)) (d_new D 1 (rs_OracleDecimals r)))))"

definition backstopPosition :: "'d decimal_ops \<Rightarrow> bl_builder \<Rightarrow> backstop_user_balance \<Rightarrow> backstop_position" where
  "backstopPosition D b u =
     (let pool = gm_get (b_backstopPools b) (bu_poolContract u);
          row = zero_backstop_position\<lparr>bk_Address := bu_user u, bk_PoolContractID := bu_poolContract u,
            bk_UserSharesRaw := bu_sharesRaw u, bk_PoolSharesRaw := (case pool of None \<Rightarrow> '''' | Some p \<Rightarrow> bb_sharesRaw p),
            bk_PoolTokensRaw := (case pool of None \<Rightarrow> '''' | Some p \<Rightarrow> bb_tokensRaw p), bk_Q4W := bu_q4w u,
            bk_UnclaimedEmissionsRaw := bu_emisAccruedRaw u, bk_EmisIndexRaw := bu_emisIndexRaw u,
            bk_BLNDDecimals := 7, bk_USDCDecimals := 7\<rparr>
      in case backstopInstanceForPool b (bu_poolContract u) of
           None \<Rightarrow> row
         | Some i \<Rightarrow>
             (let row = row\<lparr>bk_BLNDPriceUSD := tokenPriceUSD D b (bi_BLNDToken i), bk_USDCPriceUSD := tokenPriceUSD D b (bi_USDCToken i)\<rparr>
              in case cometForBackstopInstance b i of
                   None \<Rightarrow> row
                 | Some c \<Rightarrow> row\<lparr>bk_LPTokenSupplyRaw := lpSupplyRaw c, bk_LPBLNDReserveRaw := reserveOf c (bi_BLNDToken i),
                     bk_LPUSDCReserveRaw := reserveOf c (bi_USDCToken i)\<rparr>))"

section \<open>Dirty identities\<close>

definition markBackstopDirty :: "string \<Rightarrow> string \<Rightarrow> bl_builder \<Rightarrow> bl_builder" where
  "markBackstopDirty address pool b =
     b\<lparr>b_dirtyBackstops := gm_set (typedBackstopEntityKey address pool) \<lparr>ui_address = address, ui_pool = pool\<rparr> (b_dirtyBackstops b)\<rparr>"

definition markBackstopPoolDirty :: "string \<Rightarrow> bl_builder \<Rightarrow> bl_builder" where
  "markBackstopPoolDirty pool b =
     run (\<lambda>u. markBackstopDirty (bu_user u) pool) (filter (\<lambda>u. bu_poolContract u = pool) (map snd (b_backstopUsers b))) b"

definition markCometDirty :: "string \<Rightarrow> bl_builder \<Rightarrow> bl_builder" where
  "markCometDirty comet b =
     run (\<lambda>p. markBackstopPoolDirty (bp_ContractID (pb_state p)))
       (filter (\<lambda>p. case backstopInstanceForPool b (bp_ContractID (pb_state p)) of
          None \<Rightarrow> False | Some i \<Rightarrow> bi_BackstopToken i = comet) (map snd (b_pools b))) b"

definition markPriceAssetDirty :: "string \<Rightarrow> bl_builder \<Rightarrow> bl_builder" where
  "markPriceAssetDirty asset b =
     (if asset = '''' then b
      else run (\<lambda>i b. run (\<lambda>p. markBackstopPoolDirty (bp_ContractID (pb_state p)))
             (filter (\<lambda>p. bp_BackstopContract (pb_state p) = bi_ContractID i) (map snd (b_pools b))) b)
           (filter (\<lambda>i. bi_BLNDToken i = asset \<or> bi_USDCToken i = asset) (map snd (b_backstopInstances b))) b)"

definition fed_assets :: "bl_builder \<Rightarrow> string list" where
  "fed_assets b = remdups (concat (map (\<lambda>agg. map fst (filter (\<lambda>(_, cfg).
       case gm_get (ab_feeds agg) (ga_OracleIndex cfg) of None \<Rightarrow> False | Some ref \<Rightarrow> gf_ContractID ref \<in> set (b_changedFeeds b))
     (ab_assets agg))) (map snd (b_aggregators b))))"

definition propagateFeedPriceDirty :: "bl_builder \<Rightarrow> bl_builder" where
  "propagateFeedPriceDirty b = (if b_changedFeeds b = [] then b else run markPriceAssetDirty (fed_assets b) b)"

section \<open>Deltas of dependents\<close>

definition appendPoolReserves :: "string \<Rightarrow> int \<Rightarrow> bl_builder \<Rightarrow> bl_builder" where
  "appendPoolReserves cid ledger b =
     (case gm_get (b_pools b) cid of
        None \<Rightarrow> b
      | Some p \<Rightarrow> (let named = named_reserves (pb_reserves p) in
          run (\<lambda>(asset, r). addDelta ''reserve'' (typedReserveEntityKey cid asset) True (Some (DeltaReserve r)) ledger) named
            (putPool cid (p\<lparr>pb_reserves := named\<rparr>) b)))"

definition appendUserPositions :: "int \<Rightarrow> pending_positions \<Rightarrow> bl_builder \<Rightarrow> bl_builder" where
  "appendUserPositions ledger pending b =
     (case gm_get (b_pools b) (pp_poolContract pending) of
        None \<Rightarrow> b
      | Some p \<Rightarrow> (let p = finalizePoolReserves p in
          addDelta ''user_positions'' (typedUserEntityKey (pp_user pending) (pp_poolContract pending)) True
            (Some (DeltaUsers (rights (buildUserPositionsForPending ledger p pending)))) ledger (putPool (pp_poolContract pending) p b)))"

definition appendPoolUsers :: "string \<Rightarrow> int \<Rightarrow> bl_builder \<Rightarrow> bl_builder" where
  "appendPoolUsers cid ledger b =
     run (appendUserPositions ledger) (filter (\<lambda>p. pp_poolContract p = cid) (map snd (b_pendingPos b))) b"

definition backstop_delta :: "'d decimal_ops \<Rightarrow> backstop_user_balance \<Rightarrow> int \<Rightarrow> bl_builder \<Rightarrow> bl_builder" where
  "backstop_delta D u ledger b = addDelta ''backstop_position'' (typedBackstopEntityKey (bu_user u) (bu_poolContract u)) True
     (Some (DeltaBackstop (backstopPosition D b u))) ledger b"

definition appendBackstopUsersForPool :: "'d decimal_ops \<Rightarrow> string \<Rightarrow> int \<Rightarrow> bl_builder \<Rightarrow> bl_builder" where
  "appendBackstopUsersForPool D cid ledger b =
     run (\<lambda>u. backstop_delta D u ledger) (filter (\<lambda>u. bu_poolContract u = cid) (map snd (b_backstopUsers b))) b"

definition putBackstopUser :: "'d decimal_ops \<Rightarrow> string \<Rightarrow> string \<Rightarrow> backstop_user_balance \<Rightarrow> int \<Rightarrow> bl_builder \<Rightarrow> bl_builder" where
  "putBackstopUser D pool user u ledger b =
     (let key = typedBackstopEntityKey user pool;
          b = markBackstopDirty user pool (b\<lparr>b_backstopUsers := gm_set key u (b_backstopUsers b)\<rparr>)
      in addDelta ''backstop_position'' key True (Some (DeltaBackstop (backstopPosition D b u))) ledger b)"

definition dropBackstopUser :: "string \<Rightarrow> int \<Rightarrow> bl_builder \<Rightarrow> bl_builder" where
  "dropBackstopUser key ledger b =
     addDelta ''backstop_position'' key False None ledger (b\<lparr>b_backstopUsers := gm_del key (b_backstopUsers b)\<rparr>)"

definition auction_change :: "string \<Rightarrow> string \<Rightarrow> int \<Rightarrow> temporary_state_change" where
  "auction_change cid user typ = zero_temporary_state_change\<lparr>tc_Kind := TemporaryAuction, tc_PoolContractID := cid,
     tc_UserAddress := user, tc_AuctionType := typ\<rparr>"

definition queued_change :: "string \<Rightarrow> string \<Rightarrow> temporary_state_change" where
  "queued_change cid asset = zero_temporary_state_change\<lparr>tc_Kind := TemporaryQueuedReserve, tc_PoolContractID := cid, tc_AssetID := asset\<rparr>"

end
