(* ===== verification/Blend_Apply.thy ===== *)
theory Blend_Apply
  imports Blend_Builder
begin

text \<open>
  What one change of contract data does to the builder (src/blend/state.go, apply and applyDelete;
  src/blend/state_comet.go): the dispatch on the contract and on the key, one definition per kind of
  entry for its live and for its removed form.
\<close>

section \<open>Comet contracts\<close>

definition applyCometChange :: "sdk \<Rightarrow> string \<Rightarrow> scval \<Rightarrow> scval \<Rightarrow> bl_builder \<Rightarrow> bl_builder" where
  "applyCometChange S cid key v b =
     (case comet_write S key v of
        None \<Rightarrow> b
      | Some f \<Rightarrow> markCometDirty cid (b\<lparr>b_comets := gm_set cid (f (ensureComet (b_comets b) cid)) (b_comets b)\<rparr>))"

definition applyCometDelete :: "string \<Rightarrow> scval \<Rightarrow> bl_builder \<Rightarrow> bl_builder" where
  "applyCometDelete cid key b =
     (case gm_get (b_comets b) cid of
        None \<Rightarrow> b
      | Some c \<Rightarrow>
          if key = ScKeyInstance then b\<lparr>b_comets := gm_set cid (c\<lparr>cb_wasmHash := ''''\<rparr>) (b_comets b)\<rparr>
          else (case comet_clear key of
              None \<Rightarrow> b | Some f \<Rightarrow> markCometDirty cid (b\<lparr>b_comets := gm_set cid (f c) (b_comets b)\<rparr>)))"

section \<open>Live entries\<close>

definition entry_live :: "contract_data_change \<Rightarrow> int \<Rightarrow> bool" where
  "entry_live c ledger \<longleftrightarrow> cd_Live c \<and> cd_ValueXDR c \<noteq> None
     \<and> (case cd_LiveUntilLedgerSeq c of None \<Rightarrow> True | Some l \<Rightarrow> \<not> l < ledger)"

definition oracle_entry :: "sdk \<Rightarrow> string \<Rightarrow> scval \<Rightarrow> scval \<Rightarrow> bl_builder \<Rightarrow> bl_builder option" where
  "oracle_entry S cid key v b =
     (if cid \<notin> b_owned b then None
      else (case applyOracleInstance S cid v b of
          Some b' \<Rightarrow> Some b'
        | None \<Rightarrow> (case applyAggregatorInstance S cid v b of
              Some b' \<Rightarrow> Some b'
            | None \<Rightarrow> if isOraclePriceKey key then Some (applyOraclePrice cid key v b) else None)))"

definition pool_instance :: "sdk \<Rightarrow> string \<Rightarrow> string \<Rightarrow> scval \<Rightarrow> int \<Rightarrow> bl_builder \<Rightarrow> bl_builder" where
  "pool_instance S cid hash v ledger b =
     (let p = ensurePool (b_pools b) cid;
          st = (pb_state p)\<lparr>bp_WasmHash := hash\<rparr>;
          st = (case get_instance v of None \<Rightarrow> st | Some (_, storage) \<Rightarrow> applyPoolInstanceStorage S storage st)
      in pool_delta cid ledger (putPool cid (p\<lparr>pb_state := st\<rparr>) b))"

definition update_state :: "string \<Rightarrow> (blend_pool_state \<Rightarrow> blend_pool_state) \<Rightarrow> int \<Rightarrow> bl_builder \<Rightarrow> bl_builder" where
  "update_state cid f ledger b =
     (let p = ensurePool (b_pools b) cid in pool_delta cid ledger (putPool cid (p\<lparr>pb_state := f (pb_state p)\<rparr>) b))"

text \<open>Keys that are plain symbols; a symbol the code does not know still creates the pool.\<close>

definition apply_symbol :: "sdk \<Rightarrow> string \<Rightarrow> string \<Rightarrow> scval \<Rightarrow> int \<Rightarrow> bl_builder \<Rightarrow> bl_builder" where
  "apply_symbol S cid symb v ledger b =
     (let inst = ensureBackstopInstance (b_backstopInstances b) cid;
          b0 = putPool cid (ensurePool (b_pools b) cid) b in
      if symb = ''RZ'' then if_ok (decodeAddressList S v) (\<lambda>zone. putInstance cid (inst\<lparr>bi_RewardZone := zone\<rparr>) ledger) b
      else if symb = ''DropList'' then if_ok (decodeDropList S v) (\<lambda>l. putInstance cid (inst\<lparr>bi_DropList := l\<rparr>) ledger) b
      else if symb = ''timestamp'' then
        (case (gm_get (b_oracles b) cid, scIntString v) of
           (Some o', Some ts) \<Rightarrow> b\<lparr>b_oracles := gm_set cid (o'\<lparr>ob_lastTimestampRaw := ts\<rparr>) (b_oracles b)\<rparr> | _ \<Rightarrow> b)
      else if symb = ''Config'' then (if isPoolConfig S v then update_state cid (applyPoolConfig S v) ledger b else b0)
      else if symb = ''Backstop'' then if_ok (scAddress S v) (\<lambda>a _. update_state cid (\<lambda>st. st\<lparr>bp_BackstopContract := a\<rparr>) ledger b) b0
      else if symb = ''ResList'' then
        (let p = finalizePoolReserves (applyReserveList S v ((ensurePool (b_pools b) cid)\<lparr>pb_reserveList := []\<rparr>))
         in appendPoolUsers cid ledger (appendPoolReserves cid ledger (pool_delta cid ledger (putPool cid p b))))
      else if symb = ''PoolEmis'' then if_ok (decodePoolEmissions v) (\<lambda>es _. update_state cid (\<lambda>st. st\<lparr>bp_PoolEmissions := es\<rparr>) ledger b) b0
      else b0)"

text \<open>A reserve entry: written over what is there, and no longer archived.\<close>

definition reserve_write :: "(reserve_state \<Rightarrow> reserve_state) \<Rightarrow> string \<Rightarrow> string \<Rightarrow> int \<Rightarrow> bl_builder \<Rightarrow> bl_builder" where
  "reserve_write f cid asset ledger b =
     (let p = ensurePool (b_pools b) cid
      in reserve_delta cid asset ledger (putPool cid (finalizePoolReserves (putReserve asset (f (ensureReserve p asset)) p)) b))"

definition unarchived :: "reserve_state \<Rightarrow> reserve_state" where
  "unarchived r = r\<lparr>rs_Archived := False, rs_ArchivedLedgerSeq := 0\<rparr>"

definition emission_write :: "(int \<Rightarrow> reserve_state \<Rightarrow> reserve_state) \<Rightarrow> string \<Rightarrow> scval list \<Rightarrow> int \<Rightarrow> bl_builder \<Rightarrow> bl_builder" where
  "emission_write f cid args ledger b =
     (case variantU32 args of
        None \<Rightarrow> b
      | Some i \<Rightarrow>
          (let p = ensurePool (b_pools b) cid in
           case gm_get (pb_reserveByIndex p) (i div 2) of
             None \<Rightarrow> putPool cid p b
           | Some asset \<Rightarrow> reserve_write (f (i mod 2)) cid asset ledger b))"

definition positions_write :: "sdk \<Rightarrow> string \<Rightarrow> string \<Rightarrow> scval \<Rightarrow> string \<Rightarrow> int \<Rightarrow> bl_builder \<Rightarrow> bl_builder" where
  "positions_write S cid user v raw ledger b =
     (let key = typedUserEntityKey user cid;
          pending = \<lparr>pp_poolContract = cid, pp_user = user, pp_positions = v, pp_valueXDR = raw, pp_archived = False, pp_archivedLedgerSeq = 0\<rparr>
      in appendUserPositions ledger pending (b\<lparr>b_pendingPos := gm_set key pending (b_pendingPos b),
           b_dirtyUsers := gm_set key \<lparr>ui_address = user, ui_pool = cid\<rparr> (b_dirtyUsers b)\<rparr>))"

definition user_balance_write :: "'d decimal_ops \<Rightarrow> string \<Rightarrow> string \<Rightarrow> scval \<Rightarrow> int \<Rightarrow> bl_builder \<Rightarrow> bl_builder" where
  "user_balance_write D pool user v ledger b =
     (let key = typedBackstopEntityKey user pool; u = decodeBackstopUserBalance pool user v;
          u = (case gm_get (b_backstopUsers b) key of
                 None \<Rightarrow> u | Some old \<Rightarrow> u\<lparr>bu_emisIndexRaw := bu_emisIndexRaw old, bu_emisAccruedRaw := bu_emisAccruedRaw old\<rparr>)
      in putBackstopUser D pool user u ledger b)"

definition user_emission_write :: "'d decimal_ops \<Rightarrow> string \<Rightarrow> string \<Rightarrow> scval \<Rightarrow> int \<Rightarrow> bl_builder \<Rightarrow> bl_builder" where
  "user_emission_write D pool user v ledger b =
     (case decodeUserEmissionData v of
        None \<Rightarrow> b
      | Some (index, accrued) \<Rightarrow>
          (let key = typedBackstopEntityKey user pool;
               u = (case gm_get (b_backstopUsers b) key of
                 None \<Rightarrow> \<lparr>bu_poolContract = pool, bu_user = user, bu_sharesRaw = '''', bu_q4w = [], bu_emisIndexRaw = '''', bu_emisAccruedRaw = ''''\<rparr>
               | Some old \<Rightarrow> old)
           in putBackstopUser D pool user (u\<lparr>bu_emisIndexRaw := index, bu_emisAccruedRaw := accrued\<rparr>) ledger b))"

definition auction_write :: "sdk \<Rightarrow> string \<Rightarrow> string \<Rightarrow> int \<Rightarrow> scval \<Rightarrow> int \<Rightarrow> bl_builder \<Rightarrow> bl_builder" where
  "auction_write S cid user typ v ledger b =
     if_ok (decodeAuctionState S cid user typ v) (\<lambda>a b. let key = typedAuctionEntityKey cid user typ in
       addDelta ''auction'' key True (Some (DeltaAuction a)) ledger
         (b\<lparr>b_auctions := gm_set key a (b_auctions b), b_dirtyTemporary := gm_set key (auction_change cid user typ) (b_dirtyTemporary b)\<rparr>)) b"

definition user_emis_write :: "string \<Rightarrow> string \<Rightarrow> int \<Rightarrow> scval \<Rightarrow> int \<Rightarrow> bl_builder \<Rightarrow> bl_builder" where
  "user_emis_write cid user i v ledger b =
     if_ok (decodeUserEmissionData v) (\<lambda>(index, accrued) b.
       let key = typedUserEmisEntityKey user cid i;
           e = \<lparr>ue_Address = user, ue_PoolContractID = cid, ue_ReserveTokenID = i, ue_IndexRaw = index, ue_AccruedRaw = accrued\<rparr>
       in addDelta ''user_emission'' key True (Some (DeltaUserEmission e)) ledger (b\<lparr>b_userEmis := gm_set key e (b_userEmis b)\<rparr>)) b"

definition queued_write :: "string \<Rightarrow> string \<Rightarrow> scval \<Rightarrow> int \<Rightarrow> bl_builder \<Rightarrow> bl_builder" where
  "queued_write cid asset v ledger b =
     if_ok (decodeQueuedReserve cid asset v) (\<lambda>q b. let key = typedReserveEntityKey cid asset in
       addDelta ''queued_reserve'' key True (Some (DeltaQueued q)) ledger
         (b\<lparr>b_queuedReserves := gm_set key q (b_queuedReserves b),
            b_dirtyTemporary := gm_set key (queued_change cid asset) (b_dirtyTemporary b)\<rparr>)) b"

definition pool_balance_write :: "'d decimal_ops \<Rightarrow> string \<Rightarrow> scval \<Rightarrow> int \<Rightarrow> bl_builder \<Rightarrow> bl_builder" where
  "pool_balance_write D pool v ledger b =
     (let bal = decodeBackstopPoolBalance pool v in
      markBackstopPoolDirty pool (appendBackstopUsersForPool D pool ledger
        (addDelta ''backstop_pool'' pool True (Some (DeltaBackstopPool bal)) ledger
          (b\<lparr>b_backstopPools := gm_set pool bal (b_backstopPools b)\<rparr>))))"

text \<open>Keys that are an enum variant with arguments.\<close>

definition apply_variant ::
  "sdk \<Rightarrow> 'd decimal_ops \<Rightarrow> string \<Rightarrow> string \<Rightarrow> scval list \<Rightarrow> scval \<Rightarrow> string \<Rightarrow> int \<Rightarrow> bl_builder \<Rightarrow> bl_builder" where
  "apply_variant S D cid variant args v raw ledger b =
     (if variant = ''ResConfig'' then if_ok (variantAddress S args) (\<lambda>asset b.
        appendPoolUsers cid ledger (reserve_write (\<lambda>r. unarchived (applyReserveConfig v r)) cid asset ledger b)) b
      else if variant = ''ResData'' then if_ok (variantAddress S args) (\<lambda>asset.
        reserve_write (\<lambda>r. unarchived (applyReserveData v r)) cid asset ledger) b
      else if variant = ''EmisConfig'' then emission_write (\<lambda>side. applyReserveEmisConfig side v) cid args ledger b
      else if variant = ''EmisData'' then emission_write (\<lambda>side. applyReserveEmisData side v) cid args ledger b
      else if variant = ''Positions'' then if_ok (variantAddress S args) (\<lambda>user. positions_write S cid user v raw ledger) b
      else if variant = ''PoolBalance'' then if_ok (variantAddress S args) (\<lambda>pool. pool_balance_write D pool v ledger) b
      else if variant = ''UserBalance'' then if_ok (backstopPoolUser S args) (\<lambda>(pool, user). user_balance_write D pool user v ledger) b
      else if variant = ''BEmisData'' then if_ok (variantAddress S args) (\<lambda>pool. if_ok (decodeBackstopEmisData pool v) (\<lambda>e b.
        addDelta ''backstop_emission'' pool True (Some (DeltaBackstopEmis e)) ledger (b\<lparr>b_backstopEmis := gm_set pool e (b_backstopEmis b)\<rparr>))) b
      else if variant = ''UEmisData'' then if_ok (backstopPoolUser S args) (\<lambda>(pool, user). user_emission_write D pool user v ledger) b
      else if variant = ''Auction'' then if_ok (auctionKeyParts S args) (\<lambda>(user, typ). auction_write S cid user typ v ledger) b
      else if variant = ''UserEmis'' then if_ok (userReserveKeyParts S args) (\<lambda>(user, i). user_emis_write cid user i v ledger) b
      else if variant = ''ResInit'' then if_ok (variantAddress S args) (\<lambda>asset. queued_write cid asset v ledger) b
      else b)"

definition apply_live :: "sdk \<Rightarrow> 'd decimal_ops \<Rightarrow> string \<Rightarrow> scval \<Rightarrow> scval \<Rightarrow> string \<Rightarrow> int \<Rightarrow> bl_builder \<Rightarrow> bl_builder" where
  "apply_live S D cid key v raw ledger b =
     (if cid \<in> b_ownedFeeds b then b\<lparr>b_feeds := applyFeedChange S cid key v (b_feeds b),
        b_changedFeeds := List.insert cid (b_changedFeeds b)\<rparr>
      else if cid \<in> b_ownedComets b then applyCometChange S cid key v b
      else (case oracle_entry S cid key v b of
          Some b' \<Rightarrow> b'
        | None \<Rightarrow>
            if cid \<in> b_ownedAssets b then b\<lparr>b_assets := applyAssetInstance S cid v (b_assets b)\<rparr>
            else (case applyBackstopInstance S cid v b of
                Some i \<Rightarrow> putInstance cid i ledger b
              | None \<Rightarrow> (case contractInstanceWasmHash v of
                    Some hash \<Rightarrow> pool_instance S cid hash v ledger b
                  | None \<Rightarrow> (case scSymbol key of
                        Some symb \<Rightarrow> apply_symbol S cid symb v ledger b
                      | None \<Rightarrow> (case scVariant key of
                            None \<Rightarrow> b | Some (variant, args) \<Rightarrow> apply_variant S D cid variant args v raw ledger b))))))"

section \<open>Removed entries\<close>

definition isExplicitOnChainDelete :: "string \<Rightarrow> bool" where
  "isExplicitOnChainDelete changeType = ends_with ''Removed'' changeType"

definition delete_symbol :: "string \<Rightarrow> string \<Rightarrow> int \<Rightarrow> bl_builder \<Rightarrow> bl_builder" where
  "delete_symbol cid symb ledger b =
     (let known = (\<lambda>f. if gm_get (b_pools b) cid = None then b else update_state cid f ledger b);
          inst = (\<lambda>f. case gm_get (b_backstopInstances b) cid of None \<Rightarrow> b | Some i \<Rightarrow> putInstance cid (f i) ledger b) in
      if symb = ''Config'' \<or> symb = ''ResList'' then addDelta ''pool'' cid False None ledger (b\<lparr>b_pools := gm_del cid (b_pools b)\<rparr>)
      else if symb = ''Backstop'' then known (\<lambda>st. st\<lparr>bp_BackstopContract := ''''\<rparr>)
      else if symb = ''PoolEmis'' then known (\<lambda>st. st\<lparr>bp_PoolEmissions := []\<rparr>)
      else if symb = ''RZ'' then inst (\<lambda>i. i\<lparr>bi_RewardZone := []\<rparr>)
      else if symb = ''DropList'' then inst (\<lambda>i. i\<lparr>bi_DropList := []\<rparr>)
      else if symb = ''timestamp'' then (case gm_get (b_oracles b) cid of
          None \<Rightarrow> b | Some o' \<Rightarrow> b\<lparr>b_oracles := gm_set cid (o'\<lparr>ob_lastTimestampRaw := ''''\<rparr>) (b_oracles b)\<rparr>)
      else b)"

text \<open>A reserve entry that is removed on chain goes; one that lapsed or was evicted is archived.\<close>

definition reserve_delete :: "sdk \<Rightarrow> (scval \<Rightarrow> reserve_state \<Rightarrow> reserve_state) \<Rightarrow> contract_data_change \<Rightarrow> string \<Rightarrow> int \<Rightarrow> bl_builder \<Rightarrow> bl_builder" where
  "reserve_delete S f c asset ledger b =
     (let cid = cd_ContractID c in
      case gm_get (b_pools b) cid of
        None \<Rightarrow> b
      | Some p \<Rightarrow>
          if isExplicitOnChainDelete (cd_ChangeType c)
          then appendPoolUsers cid ledger (addDelta ''reserve'' (typedReserveEntityKey cid asset) False None ledger
                 (putPool cid (finalizePoolReserves (p\<lparr>pb_reserves := gm_del asset (pb_reserves p)\<rparr>)) b))
          else appendPoolUsers cid ledger (reserve_write (\<lambda>r.
                 (if_ok (Option.bind (cd_ValueXDR c) (decodeScValBase64 S)) f r)\<lparr>rs_Archived := True, rs_ArchivedLedgerSeq := ledger\<rparr>)
                 cid asset ledger b))"

definition emission_delete :: "(int \<Rightarrow> reserve_state \<Rightarrow> reserve_state) \<Rightarrow> string \<Rightarrow> scval list \<Rightarrow> int \<Rightarrow> bl_builder \<Rightarrow> bl_builder" where
  "emission_delete f cid args ledger b =
     (case (variantU32 args, gm_get (b_pools b) cid) of
        (Some i, Some p) \<Rightarrow> (case gm_get (pb_reserveByIndex p) (i div 2) of
            None \<Rightarrow> b
          | Some asset \<Rightarrow> if gm_get (pb_reserves p) asset = None then b else reserve_write (f (i mod 2)) cid asset ledger b)
      | _ \<Rightarrow> b)"

text \<open>
  The entry to archive: the value the change still carries, or the one already held; none when
  there is neither.  A value that does not decode leaves an entry without one.
\<close>

definition archived_positions :: "sdk \<Rightarrow> contract_data_change \<Rightarrow> pending_positions option \<Rightarrow> (scval \<times> string) option" where
  "archived_positions S c old =
     (let held = map_option (\<lambda>p. (pp_positions p, pp_valueXDR p)) old in
      case cd_ValueXDR c of
        None \<Rightarrow> held
      | Some raw \<Rightarrow> (case decodeScValBase64 S raw of
            Some v \<Rightarrow> Some (v, raw)
          | None \<Rightarrow> Some (case held of Some h \<Rightarrow> h | None \<Rightarrow> (sc_zero, ''''))))"

definition positions_delete :: "sdk \<Rightarrow> contract_data_change \<Rightarrow> string \<Rightarrow> int \<Rightarrow> bl_builder \<Rightarrow> bl_builder" where
  "positions_delete S c user ledger b =
     (let cid = cd_ContractID c; key = typedUserEntityKey user cid;
          b = b\<lparr>b_dirtyUsers := gm_set key \<lparr>ui_address = user, ui_pool = cid\<rparr> (b_dirtyUsers b)\<rparr> in
      if isExplicitOnChainDelete (cd_ChangeType c)
      then addDelta ''user_positions'' key False None ledger (b\<lparr>b_pendingPos := gm_del key (b_pendingPos b)\<rparr>)
      else (case archived_positions S c (gm_get (b_pendingPos b) key) of
          None \<Rightarrow> b
        | Some (v, raw) \<Rightarrow>
            (let pending = \<lparr>pp_poolContract = cid, pp_user = user, pp_positions = v, pp_valueXDR = raw, pp_archived = True,
                   pp_archivedLedgerSeq = ledger\<rparr>
             in appendUserPositions ledger pending (b\<lparr>b_pendingPos := gm_set key pending (b_pendingPos b)\<rparr>))))"

definition user_balance_delete :: "'d decimal_ops \<Rightarrow> string \<Rightarrow> string \<Rightarrow> int \<Rightarrow> bl_builder \<Rightarrow> bl_builder" where
  "user_balance_delete D pool user ledger b =
     (let key = typedBackstopEntityKey user pool; b = markBackstopDirty user pool b in
      case gm_get (b_backstopUsers b) key of
        None \<Rightarrow> dropBackstopUser key ledger b
      | Some u \<Rightarrow>
          if bu_emisIndexRaw u \<noteq> '''' \<or> bu_emisAccruedRaw u \<noteq> ''''
          then putBackstopUser D pool user (u\<lparr>bu_sharesRaw := '''', bu_q4w := []\<rparr>) ledger b
          else dropBackstopUser key ledger b)"

definition user_emission_delete :: "'d decimal_ops \<Rightarrow> string \<Rightarrow> string \<Rightarrow> int \<Rightarrow> bl_builder \<Rightarrow> bl_builder" where
  "user_emission_delete D pool user ledger b =
     (let key = typedBackstopEntityKey user pool in
      case gm_get (b_backstopUsers b) key of
        None \<Rightarrow> b
      | Some u \<Rightarrow>
          (let u = u\<lparr>bu_emisIndexRaw := '''', bu_emisAccruedRaw := ''''\<rparr> in
           if bu_sharesRaw u = '''' \<and> bu_q4w u = [] then dropBackstopUser key ledger (markBackstopDirty user pool b)
           else putBackstopUser D pool user u ledger b))"

definition delete_variant ::
  "sdk \<Rightarrow> 'd decimal_ops \<Rightarrow> contract_data_change \<Rightarrow> string \<Rightarrow> scval list \<Rightarrow> int \<Rightarrow> bl_builder \<Rightarrow> bl_builder" where
  "delete_variant S D c variant args ledger b =
     (let cid = cd_ContractID c in
      if variant = ''ResConfig'' then if_ok (variantAddress S args) (\<lambda>asset. reserve_delete S applyReserveConfig c asset ledger) b
      else if variant = ''ResData'' then if_ok (variantAddress S args) (\<lambda>asset. reserve_delete S applyReserveData c asset ledger) b
      else if variant = ''EmisConfig'' then emission_delete clearReserveEmisConfig cid args ledger b
      else if variant = ''EmisData'' then emission_delete clearReserveEmisData cid args ledger b
      else if variant = ''Positions'' then if_ok (variantAddress S args) (\<lambda>user. positions_delete S c user ledger) b
      else if variant = ''PoolBalance'' then if_ok (variantAddress S args) (\<lambda>pool b.
        markBackstopPoolDirty pool (appendBackstopUsersForPool D pool ledger
          (addDelta ''backstop_pool'' pool False None ledger (b\<lparr>b_backstopPools := gm_del pool (b_backstopPools b)\<rparr>)))) b
      else if variant = ''UserBalance'' then if_ok (backstopPoolUser S args) (\<lambda>(pool, user). user_balance_delete D pool user ledger) b
      else if variant = ''BEmisData'' then if_ok (variantAddress S args) (\<lambda>pool b.
        addDelta ''backstop_emission'' pool False None ledger (b\<lparr>b_backstopEmis := gm_del pool (b_backstopEmis b)\<rparr>)) b
      else if variant = ''UEmisData'' then if_ok (backstopPoolUser S args) (\<lambda>(pool, user). user_emission_delete D pool user ledger) b
      else if variant = ''Auction'' then if_ok (auctionKeyParts S args) (\<lambda>(user, typ) b. let key = typedAuctionEntityKey cid user typ in
        addDelta ''auction'' key False None ledger (b\<lparr>b_auctions := gm_del key (b_auctions b),
          b_dirtyTemporary := gm_set key (auction_change cid user typ) (b_dirtyTemporary b)\<rparr>)) b
      else if variant = ''UserEmis'' then if_ok (userReserveKeyParts S args) (\<lambda>(user, i) b. let key = typedUserEmisEntityKey user cid i in
        addDelta ''user_emission'' key False None ledger (b\<lparr>b_userEmis := gm_del key (b_userEmis b)\<rparr>)) b
      else if variant = ''ResInit'' then if_ok (variantAddress S args) (\<lambda>asset b. let key = typedReserveEntityKey cid asset in
        addDelta ''queued_reserve'' key False None ledger (b\<lparr>b_queuedReserves := gm_del key (b_queuedReserves b),
          b_dirtyTemporary := gm_set key (queued_change cid asset) (b_dirtyTemporary b)\<rparr>)) b
      else b)"

definition delete_oracle_price :: "string \<Rightarrow> scval \<Rightarrow> bl_builder \<Rightarrow> bl_builder" where
  "delete_oracle_price cid key b =
     (case (scInt64 key, gm_get (b_oracles b) cid) of
        (Some i, Some o') \<Rightarrow>
          (let o' = o'\<lparr>ob_priceByIndex := gm_del i (ob_priceByIndex o')\<rparr>
           in markOraclePriceAssetDirty o' i (b\<lparr>b_oracles := gm_set cid o' (b_oracles b)\<rparr>))
      | _ \<Rightarrow> b)"

definition delete_instance :: "string \<Rightarrow> int \<Rightarrow> bl_builder \<Rightarrow> bl_builder" where
  "delete_instance cid ledger b =
     (let b = b\<lparr>b_aggregators := gm_del cid (b_aggregators b)\<rparr> in
      if gm_get (b_backstopInstances b) cid = None then b
      else addDelta ''backstop_instance'' cid False None ledger (b\<lparr>b_backstopInstances := gm_del cid (b_backstopInstances b)\<rparr>))"

definition applyDelete :: "sdk \<Rightarrow> 'd decimal_ops \<Rightarrow> contract_data_change \<Rightarrow> scval \<Rightarrow> int \<Rightarrow> bl_builder \<Rightarrow> bl_builder" where
  "applyDelete S D c key ledger b =
     (let cid = cd_ContractID c in
      if cid \<in> b_ownedFeeds b then b\<lparr>b_feeds := applyFeedDelete cid key (b_feeds b), b_changedFeeds := List.insert cid (b_changedFeeds b)\<rparr>
      else if cid \<in> b_ownedComets b then applyCometDelete cid key b
      else if cid \<in> b_ownedAssets b then (if key = ScKeyInstance then b\<lparr>b_assets := gm_del cid (b_assets b)\<rparr> else b)
      else if cid \<in> b_owned b \<and> isOraclePriceKey key then delete_oracle_price cid key b
      else if key = ScKeyInstance then delete_instance cid ledger b
      else (case scSymbol key of
          Some symb \<Rightarrow> delete_symbol cid symb ledger b
        | None \<Rightarrow> (case scVariant key of None \<Rightarrow> b | Some (variant, args) \<Rightarrow> delete_variant S D c variant args ledger b)))"

section \<open>One change\<close>

definition bl_apply :: "sdk \<Rightarrow> 'd decimal_ops \<Rightarrow> int \<Rightarrow> contract_data_change \<Rightarrow> bl_builder \<Rightarrow> bl_builder" where
  "bl_apply S D ledger c b =
     (case decodeScValBase64 S (cd_KeyXDR c) of
        None \<Rightarrow> b
      | Some key \<Rightarrow>
          if \<not> entry_live c ledger then applyDelete S D c key ledger b
          else (case decodeScValBase64 S (the (cd_ValueXDR c)) of
              None \<Rightarrow> b | Some v \<Rightarrow> apply_live S D (cd_ContractID c) key v (the (cd_ValueXDR c)) ledger b))"

end
