(* ===== verification/Blend_Ledger.thy ===== *)
theory Blend_Ledger
  imports Blend_Apply Blend_Adapter
begin

text \<open>
  One ledger of Blend (src/blend/state.go): the builder is loaded from the prior state, takes the
  ledger's changes, and is built into the next state, with the reports of what the ledger touched.
  The paranoid strategy of src/blend/state_strategy.go is this function.
\<close>

section \<open>Loading the prior state\<close>

definition load_pool :: "blend_pool_state \<Rightarrow> bl_builder \<Rightarrow> bl_builder" where
  "load_pool st b =
     (let cid = bp_ContractID st; p = ensurePool (b_pools b) cid;
          p = finalizePoolReserves (p\<lparr>pb_state := st, pb_reserves := gm.load rs_AssetID (\<lambda>r. r) (bp_Reserves st) (pb_reserves p)\<rparr>);
          b = putPool cid p b;
          b = (if bp_BackstopSharesRaw st \<noteq> '''' \<or> bp_BackstopTokensRaw st \<noteq> '''' \<or> bp_BackstopQ4WSharesRaw st \<noteq> ''''
               then b\<lparr>b_backstopPools := gm_set cid \<lparr>bb_poolContract = cid, bb_sharesRaw = bp_BackstopSharesRaw st,
                 bb_tokensRaw = bp_BackstopTokensRaw st, bb_q4wRaw = bp_BackstopQ4WSharesRaw st\<rparr> (b_backstopPools b)\<rparr> else b);
          e = \<lparr>be_poolContract = cid, be_epsRaw = bp_BackstopEmisEPSRaw st, be_expirationRaw = bp_BackstopEmisExpirationRaw st,
            be_indexRaw = bp_BackstopEmisIndexRaw st, be_lastTimeRaw = bp_BackstopEmisLastTimeRaw st\<rparr>
      in if emis_empty e then b else b\<lparr>b_backstopEmis := gm_set cid e (b_backstopEmis b)\<rparr>)"

definition load_pending :: "sdk \<Rightarrow> pending_user_position \<Rightarrow> (string, pending_positions) gmap \<Rightarrow> (string, pending_positions) gmap" where
  "load_pending S p m =
     (case decodeScValBase64 S (pu_PositionsXDR p) of
        None \<Rightarrow> m
      | Some v \<Rightarrow> gm_set (typedUserEntityKey (pu_Address p) (pu_PoolContractID p))
          \<lparr>pp_poolContract = pu_PoolContractID p, pp_user = pu_Address p, pp_positions = v, pp_valueXDR = pu_PositionsXDR p,
            pp_archived = pu_Archived p, pp_archivedLedgerSeq = pu_ArchivedLedgerSeq p\<rparr> m)"

definition backstop_user_of :: "backstop_position \<Rightarrow> backstop_user_balance" where
  "backstop_user_of k = \<lparr>bu_poolContract = bk_PoolContractID k, bu_user = bk_Address k, bu_sharesRaw = bk_UserSharesRaw k,
     bu_q4w = bk_Q4W k, bu_emisIndexRaw = bk_EmisIndexRaw k, bu_emisAccruedRaw = bk_UnclaimedEmissionsRaw k\<rparr>"

definition load_oracle :: "oracle_state \<Rightarrow> (string, oracle_builder) gmap \<Rightarrow> (string, oracle_builder) gmap" where
  "load_oracle st os =
     (let o' = ensureOracle os (os_ContractID st) in
      gm_set (os_ContractID st) (o'\<lparr>ob_decimals := os_Decimals st, ob_baseKey := os_BaseKey st, ob_resolutionRaw := os_ResolutionRaw st,
        ob_admin := os_Admin st, ob_lastTimestampRaw := os_LastTimestampRaw st,
        ob_assetToIndex := gm.load oa_AssetID oa_Index (os_Assets st) (ob_assetToIndex o'),
        ob_priceByIndex := gm.load oi_Index oi_PriceRaw (os_Prices st) (ob_priceByIndex o')\<rparr>) os)"

definition loadPrior :: "sdk \<Rightarrow> ledger_state \<Rightarrow> bl_builder \<Rightarrow> bl_builder" where
  "loadPrior S prior b =
     (let b = run load_pool (ls_Pools prior) b in
      b\<lparr>b_auctions := gm.load (\<lambda>a. typedAuctionEntityKey (as_PoolContractID a) (as_UserAddress a) (as_AuctionType a)) (\<lambda>a. a)
          (ls_Auctions prior) (b_auctions b),
        b_userEmis := gm.load (\<lambda>e. typedUserEmisEntityKey (ue_Address e) (ue_PoolContractID e) (ue_ReserveTokenID e)) (\<lambda>e. e)
          (ls_UserEmissions prior) (b_userEmis b),
        b_pendingPos := run (load_pending S) (ls_PendingUserPositions prior) (b_pendingPos b),
        b_backstopUsers := gm.load (\<lambda>k. typedBackstopEntityKey (bk_Address k) (bk_PoolContractID k)) backstop_user_of
          (ls_Backstops prior) (b_backstopUsers b),
        b_oracles := run load_oracle (ls_Oracles prior) (b_oracles b),
        b_queuedReserves := gm.load (\<lambda>q. typedReserveEntityKey (qs_PoolContractID q) (qs_AssetID q)) (\<lambda>q. q)
          (ls_QueuedReserves prior) (b_queuedReserves b),
        b_backstopInstances := gm.load bi_ContractID (\<lambda>i. i) (ls_BackstopInstances prior) (b_backstopInstances b),
        b_assets := gm.load am_ContractID (\<lambda>a. a) (ls_Assets prior) (b_assets b),
        b_feeds := gm.load pf_ContractID feedBuilderFromState (ls_PriceFeeds prior) (b_feeds b),
        b_aggregators := gm.load og_ContractID aggregatorBuilderFromState (ls_OracleAggregators prior) (b_aggregators b),
        b_comets := run restoreComet (filter (\<lambda>p. ps_ContractID p \<in> b_ownedComets b) (ls_AMMPools prior)) (b_comets b)\<rparr>)"

section \<open>Building the next state\<close>

definition mergeBackstopEmis :: "(string, backstop_emis_data) gmap \<Rightarrow> blend_pool_state \<Rightarrow> blend_pool_state" where
  "mergeBackstopEmis m st =
     (case gm_get m (bp_ContractID st) of
        None \<Rightarrow> st\<lparr>bp_BackstopEmisEPSRaw := '''', bp_BackstopEmisExpirationRaw := '''', bp_BackstopEmisIndexRaw := '''',
          bp_BackstopEmisLastTimeRaw := ''''\<rparr>
      | Some e \<Rightarrow> st\<lparr>bp_BackstopEmisEPSRaw := be_epsRaw e, bp_BackstopEmisExpirationRaw := be_expirationRaw e,
          bp_BackstopEmisIndexRaw := be_indexRaw e, bp_BackstopEmisLastTimeRaw := be_lastTimeRaw e\<rparr>)"

definition built_pool :: "bl_builder \<Rightarrow> pool_builder \<Rightarrow> pool_builder" where
  "built_pool b p =
     (let p = finalizePoolReserves p; st = pb_state p;
          st = (case gm_get (b_backstopPools b) (bp_ContractID st) of
              None \<Rightarrow> st
            | Some bal \<Rightarrow> st\<lparr>bp_BackstopSharesRaw := bb_sharesRaw bal, bp_BackstopTokensRaw := bb_tokensRaw bal,
                bp_BackstopQ4WSharesRaw := bb_q4wRaw bal\<rparr>)
      in p\<lparr>pb_state := mergeBackstopEmis (b_backstopEmis b) st\<rparr>)"

text \<open>The legs of a holder: positions, and diagnostics if the ledger touched the holder.\<close>

definition user_legs :: "bl_builder \<Rightarrow> pending_positions \<Rightarrow> (decode_diagnostic + user_reserve_position) list" where
  "user_legs b p =
     (case gm_get (b_pools b) (pp_poolContract p) of
        None \<Rightarrow> [] | Some pool \<Rightarrow> buildUserPositionsForPending (b_ledgerSeq b) (finalizePoolReserves pool) p)"

definition built_diagnostics :: "bl_builder \<Rightarrow> decode_diagnostic list" where
  "built_diagnostics b = concat (map (\<lambda>(key, p). if gm_get (b_dirtyUsers b) key = None then [] else lefts (user_legs b p)) (b_pendingPos b))"

definition buildOracles :: "(string, oracle_builder) gmap \<Rightarrow> oracle_state list" where
  "buildOracles os = sort_key os_ContractID (map (\<lambda>(cid, o'). \<lparr>os_ContractID = cid, os_Decimals = ob_decimals o',
     os_Assets = sort_key (\<lambda>a. (oa_Index a, oa_AssetID a)) (map (\<lambda>(a, i). \<lparr>oa_AssetID = a, oa_Index = i\<rparr>) (ob_assetToIndex o')),
     os_Prices = sort_key oi_Index (map (\<lambda>(i, x). \<lparr>oi_Index = i, oi_PriceRaw = x\<rparr>) (ob_priceByIndex o')),
     os_BaseKey = ob_baseKey o', os_ResolutionRaw = ob_resolutionRaw o', os_Admin = ob_admin o',
     os_LastTimestampRaw = ob_lastTimestampRaw o'\<rparr>) (filter (\<lambda>(_, o'). \<not> ob_synthesized o') os))"

definition buildAssets :: "(string, asset_metadata) gmap \<Rightarrow> asset_metadata list" where
  "buildAssets m = sort_key am_ContractID (map snd m)"

definition buildAuctions :: "(string, auction_state) gmap \<Rightarrow> auction_state list" where
  "buildAuctions m = sort_key (\<lambda>a. (as_PoolContractID a, as_UserAddress a, as_AuctionType a)) (map snd m)"

definition buildUserEmissions :: "(string, user_emission_state) gmap \<Rightarrow> user_emission_state list" where
  "buildUserEmissions m = sort_key (\<lambda>e. (ue_Address e, ue_PoolContractID e, ue_ReserveTokenID e)) (map snd m)"

definition buildQueuedReserves :: "(string, queued_reserve_state) gmap \<Rightarrow> queued_reserve_state list" where
  "buildQueuedReserves m = sort_key (\<lambda>q. (qs_PoolContractID q, qs_AssetID q)) (map snd m)"

definition buildBackstopInstances :: "(string, backstop_instance_state) gmap \<Rightarrow> backstop_instance_state list" where
  "buildBackstopInstances m = sort_key bi_ContractID (map snd m)"

definition user_order :: "user_reserve_position \<Rightarrow> string \<times> string \<times> string \<times> string" where
  "user_order u = (up_Address u, up_PoolContractID u, up_AssetID u, position_type_string (up_PositionType u))"

text \<open>The pools are finished first, so every row below reads finished pools.\<close>

definition bl_rows :: "'d decimal_ops \<Rightarrow> bl_builder \<Rightarrow> bl_builder \<times> ledger_state" where
  "bl_rows D b =
     (let b = b\<lparr>b_pools := map (\<lambda>(cid, p). (cid, built_pool b p)) (b_pools b)\<rparr>
      in (b\<lparr>b_diagnostics := b_diagnostics b @ built_diagnostics b\<rparr>,
       zero_ledger_state\<lparr>
        ls_Pools := sort_key bp_ContractID (map (\<lambda>(_, p). pb_state p) (b_pools b)),
        ls_Users := sort_key user_order (concat (map (\<lambda>(_, p). rights (user_legs b p)) (b_pendingPos b))),
        ls_Backstops := sort_key (\<lambda>k. (bk_Address k, bk_PoolContractID k)) (map (\<lambda>(_, u). backstopPosition D b u) (b_backstopUsers b)),
        ls_PendingUserPositions := sort_key (\<lambda>p. (pu_Address p, pu_PoolContractID p)) (map (\<lambda>(_, p). pendingOut p) (b_pendingPos b)),
        ls_Oracles := buildOracles (b_oracles b), ls_PriceFeeds := buildPriceFeeds (b_feeds b),
        ls_OracleAggregators := buildOracleAggregators (b_aggregators b), ls_Assets := buildAssets (b_assets b),
        ls_Auctions := buildAuctions (b_auctions b), ls_UserEmissions := buildUserEmissions (b_userEmis b),
        ls_QueuedReserves := buildQueuedReserves (b_queuedReserves b),
        ls_BackstopInstances := buildBackstopInstances (b_backstopInstances b),
        ls_AMMPools := buildAMMPools (b_protocol b) (b_comets b)\<rparr>))"

definition bl_build :: "'d decimal_ops \<Rightarrow> go_time \<Rightarrow> bl_builder \<Rightarrow> (bl_builder \<times> ledger_state) option" where
  "bl_build D closeTime b = map_option (\<lambda>b. bl_rows D (resolveOraclePrices b)) (resolveAggregatorPrices closeTime b)"

section \<open>Reports\<close>

definition reserveIndexSnapshot :: "ledger_state option \<Rightarrow> (string, (int, string) gmap) gmap" where
  "reserveIndexSnapshot s =
     (case s of None \<Rightarrow> [] | Some s \<Rightarrow> gm.load bp_ContractID (\<lambda>p. publishedReserveIndexes (bp_Reserves p)) (ls_Pools s) [])"

definition remapped :: "(string, (int, string) gmap) gmap \<Rightarrow> (string, pool_builder) gmap \<Rightarrow> string \<Rightarrow> bool" where
  "remapped before pools cid =
     (case (gm_get before cid, gm_get pools cid) of
        (Some m, Some p) \<Rightarrow> \<not> reserveIndexEqual m (pb_reserveByIndex p)
      | (None, None) \<Rightarrow> False
      | _ \<Rightarrow> True)"

definition markPoolRemapDirty :: "(string, (int, string) gmap) gmap \<Rightarrow> bl_builder \<Rightarrow> bl_builder" where
  "markPoolRemapDirty before b = b\<lparr>b_dirtyUsers :=
     foldl (\<lambda>m (key, p). gm_set key \<lparr>ui_address = pp_user p, ui_pool = pp_poolContract p\<rparr> m) (b_dirtyUsers b)
       (filter (\<lambda>(_, p). remapped before (b_pools b) (pp_poolContract p)) (b_pendingPos b))\<rparr>"

definition dirty_kind_of :: "(string, 'v) gmap \<Rightarrow> string \<Rightarrow> dirty_kind" where
  "dirty_kind_of m key = (if gm_get m key = None then DirtyRemoval else DirtyUpsert)"

definition finalizeDirtyPositions ::
  "(string, user_identity) gmap \<Rightarrow> (string, pending_positions) gmap \<Rightarrow> dirty_position list" where
  "finalizeDirtyPositions dirty pending = sort_key (\<lambda>d. (dp_Address d, dp_PoolContractID d))
     (map (\<lambda>(key, u). \<lparr>dp_Address = ui_address u, dp_PoolContractID = ui_pool u, dp_Kind = dirty_kind_of pending key\<rparr>) dirty)"

definition finalizeDirtyBackstops ::
  "(string, backstop_identity) gmap \<Rightarrow> (string, backstop_user_balance) gmap \<Rightarrow> dirty_backstop list" where
  "finalizeDirtyBackstops dirty balances = sort_key (\<lambda>d. (db_Address d, db_PoolContractID d))
     (map (\<lambda>(key, u). \<lparr>db_Address = ui_address u, db_PoolContractID = ui_pool u, db_Kind = dirty_kind_of balances key\<rparr>) dirty)"

fun temporary_kind_string :: "temporary_state_kind \<Rightarrow> string" where
  "temporary_kind_string TemporaryAuction = ''auction''"
| "temporary_kind_string TemporaryQueuedReserve = ''queued_reserve''"

definition temporary_order :: "temporary_state_change \<Rightarrow> string \<times> string \<times> string \<times> int \<times> string" where
  "temporary_order c = (temporary_kind_string (tc_Kind c), tc_PoolContractID c, tc_UserAddress c, tc_AuctionType c, tc_AssetID c)"

definition finalizeTemporaryStateChanges ::
  "(string, temporary_state_change) gmap \<Rightarrow> (string, auction_state) gmap \<Rightarrow> (string, queued_reserve_state) gmap
   \<Rightarrow> temporary_state_change list" where
  "finalizeTemporaryStateChanges dirty auctions queued = sort_key temporary_order
     (map (\<lambda>(key, c). c\<lparr>tc_Action := (case tc_Kind c of
         TemporaryAuction \<Rightarrow> dirty_kind_of auctions key | TemporaryQueuedReserve \<Rightarrow> dirty_kind_of queued key)\<rparr>) dirty)"

text \<open>Deltas compare by the JSON text of their state last; \<open>J\<close> is that text.\<close>

definition sortTypedStateDeltas :: "(delta_state \<Rightarrow> string) \<Rightarrow> state_delta list \<Rightarrow> state_delta list" where
  "sortTypedStateDeltas J ds = sort_key (\<lambda>d. (td_EntityType d, td_EntityKey d, td_LedgerSeq d, td_Live d,
     case td_State d of None \<Rightarrow> '''' | Some st \<Rightarrow> J st)) ds"

definition diagnostic_order :: "decode_diagnostic \<Rightarrow> string \<times> string \<times> string \<times> string \<times> int \<times> string \<times> string" where
  "diagnostic_order d = (dd_Code d, dd_PoolContractID d, dd_Address d, dd_PositionType d, dd_ReserveIndex d, dd_AmountRaw d,
     join_bar (dd_CandidateAssetIDs d))"

definition sortDecodeDiagnostics :: "decode_diagnostic list \<Rightarrow> decode_diagnostic list" where
  "sortDecodeDiagnostics ds = sort_key diagnostic_order ds"

section \<open>Decoding\<close>

record bl_result =
  br_state :: ledger_state
  br_deltas :: "state_delta list"
  br_dirty :: "dirty_position list"
  br_dirtyBackstops :: "dirty_backstop list"
  br_diagnostics :: "decode_diagnostic list"
  br_temporary :: "temporary_state_change list"

definition bl_start :: "sdk \<Rightarrow> bl_adapter \<Rightarrow> ledger_state option \<Rightarrow> int \<Rightarrow> bl_builder" where
  "bl_start S a prior ledger =
     (let b = newBlendStateBuilder\<lparr>b_owned := ba_contracts a, b_ownedAssets := ba_assets a, b_ownedFeeds := ba_feeds a,
            b_ownedComets := ba_comets a, b_protocol := bl_Protocol a, b_ledgerSeq := ledger\<rparr>
      in case prior of None \<Rightarrow> b | Some s \<Rightarrow> loadPrior S s b)"

definition bl_applied :: "sdk \<Rightarrow> 'd decimal_ops \<Rightarrow> bl_adapter \<Rightarrow> ledger_state option \<Rightarrow> contract_data_change list \<Rightarrow> int \<Rightarrow> bl_builder" where
  "bl_applied S D a prior changes ledger =
     markPoolRemapDirty (reserveIndexSnapshot prior) (run (bl_apply S D ledger) changes (bl_start S a prior ledger))"

definition backstops_dirtied :: "bl_builder \<Rightarrow> bl_builder" where
  "backstops_dirtied b = (let b = propagateFeedPriceDirty b in run markPriceAssetDirty (b_changedPriceAssets b) b)"

definition decodeBlendState ::
  "sdk \<Rightarrow> 'd decimal_ops \<Rightarrow> (delta_state \<Rightarrow> string) \<Rightarrow> bl_adapter \<Rightarrow> ledger_state option \<Rightarrow> contract_data_change list \<Rightarrow> int \<Rightarrow> go_time
   \<Rightarrow> bl_result option" where
  "decodeBlendState S D J a prior changes ledger closeTime =
     (let b = bl_applied S D a prior changes ledger;
          dirty = finalizeDirtyPositions (b_dirtyUsers b) (b_pendingPos b);
          b = backstops_dirtied b
      in map_option (\<lambda>(b', next). \<lparr>br_state = next, br_deltas = sortTypedStateDeltas J (b_deltas b'), br_dirty = dirty,
           br_dirtyBackstops = finalizeDirtyBackstops (b_dirtyBackstops b) (b_backstopUsers b),
           br_diagnostics = sortDecodeDiagnostics (b_diagnostics b'),
           br_temporary = finalizeTemporaryStateChanges (b_dirtyTemporary b) (b_auctions b) (b_queuedReserves b)\<rparr>)
         (bl_build D closeTime b))"

text \<open>The adapter's entry points under the paranoid strategy.\<close>

definition bl_DecodeStateAt ::
  "sdk \<Rightarrow> 'd decimal_ops \<Rightarrow> (delta_state \<Rightarrow> string) \<Rightarrow> bl_adapter \<Rightarrow> ledger_state option \<Rightarrow> contract_data_change list \<Rightarrow> int \<Rightarrow> go_time
   \<Rightarrow> (bl_adapter \<times> ledger_state) option" where
  "bl_DecodeStateAt S D J a prior changes ledger closeTime =
     map_option (\<lambda>r. (a\<lparr>ba_lastDirty := br_dirty r, ba_lastDirtyBackstops := br_dirtyBackstops r, ba_lastDiagnostics := br_diagnostics r,
       ba_lastTemporaryChanges := br_temporary r\<rparr>, br_state r)) (decodeBlendState S D J a prior changes ledger closeTime)"

definition bl_DecodeState ::
  "sdk \<Rightarrow> 'd decimal_ops \<Rightarrow> (delta_state \<Rightarrow> string) \<Rightarrow> bl_adapter \<Rightarrow> ledger_state option \<Rightarrow> contract_data_change list \<Rightarrow> int
   \<Rightarrow> (bl_adapter \<times> ledger_state) option" where
  "bl_DecodeState S D J a prior changes ledger = bl_DecodeStateAt S D J a prior changes ledger zero_time"

end
