(* ===== verification/Blend_Prices.thy ===== *)
theory Blend_Prices
  imports Blend_Ledger
begin

text \<open>
  What the oracle decoders promise (src/blend/state_reflector.go): when the walk over the rounds of a
  feed ends, which price it serves, that the rounds carried from ledger to ledger are enough for it,
  and what becomes of the prices of an aggregator that is removed.
\<close>

section \<open>Ranges of int64\<close>

definition in_int64 :: "int \<Rightarrow> bool" where
  "in_int64 n \<longleftrightarrow> - (2 ^ 63) \<le> n \<and> n < 2 ^ 63"

lemma in_int64_int64 [simp]: "in_int64 (int64 n)"
proof -
  have "0 \<le> (n + 2 ^ 63) mod 2 ^ 64" and "(n + 2 ^ 63) mod 2 ^ 64 < (2 ^ 64 :: int)" by simp_all
  then show ?thesis by (simp add: in_int64_def int64_def wrap_int_def)
qed

lemma int64_id: "in_int64 n \<Longrightarrow> int64 n = n"
  by (simp add: in_int64_def int64_def wrap_int_def)

text \<open>A sum that leaves the range upwards comes back negative.\<close>

lemma int64_overflow: "2 ^ 63 \<le> n \<Longrightarrow> n < 2 ^ 64 \<Longrightarrow> int64 n < 0"
proof -
  assume n: "2 ^ 63 \<le> n" "n < 2 ^ 64"
  have "(n + 2 ^ 63) mod 2 ^ 64 = (n + 2 ^ 63 - 2 ^ 64) mod (2 ^ 64 :: int)"
    using minus_mod_self2 [of "n + 2 ^ 63" "2 ^ 64"] by simp
  also have "\<dots> = n - 2 ^ 63" using n by (simp add: mod_pos_pos_trivial)
  finally show ?thesis using n by (simp add: int64_def wrap_int_def)
qed

lemma int64_eq_0: "int64 n = 0 \<longleftrightarrow> 2 ^ 64 dvd n"
proof -
  have "int64 n = 0 \<longleftrightarrow> (n + 2 ^ 63) mod 2 ^ 64 = (0 + 2 ^ 63) mod 2 ^ 64" by (simp add: int64_def wrap_int_def)
  also have "\<dots> \<longleftrightarrow> n mod 2 ^ 64 = 0 mod (2 ^ 64)" by (simp only: mod_eq_dvd_iff add_diff_cancel_right)
  finally show ?thesis by (simp add: dvd_eq_mod_eq_0)
qed

lemma thousand_dvd: "2 ^ 64 dvd r * (1000 :: int) \<longleftrightarrow> 2 ^ 61 dvd r"
proof
  assume "2 ^ 64 dvd r * (1000 :: int)"
  then have "2 ^ 61 * 8 dvd (r * 125) * (8 :: int)" by (simp add: mult.commute)
  then have "2 ^ 61 dvd r * (125 :: int)" by (simp only: dvd_mult_cancel_right) simp
  moreover have "coprime (2 ^ 61) (125 :: int)"
  proof -
    have "coprime (2 :: int) 125" by (simp only: coprime_left_2_iff_odd) simp
    then show ?thesis by (simp only: coprime_power_left_iff simp_thms)
  qed
  ultimately show "2 ^ 61 dvd r" by (simp only: coprime_dvd_mult_left_iff)
next
  assume "2 ^ 61 dvd r"
  then obtain k where "r = 2 ^ 61 * k" ..
  then have "r * 1000 = 2 ^ 64 * (125 * k)" by simp
  then show "2 ^ 64 dvd r * (1000 :: int)" by (rule dvdI)
qed

section \<open>The walk ends\<close>

definition in_window :: "int \<Rightarrow> int \<Rightarrow> bool" where
  "in_window oldestS t \<longleftrightarrow> t > 0 \<and> quo t 1000 \<ge> oldestS"

lemma in_window_iff: "in_window oldestS t \<longleftrightarrow> 0 < t \<and> oldestS \<le> t div 1000"
  by (auto simp: in_window_def)

lemma walk_back_step:
  "walk_back f index oldestS res t =
     (if in_window oldestS t
      then (case positivePrice f t index of
          Some price \<Rightarrow> Some (Some (price, t)) | None \<Rightarrow> walk_back f index oldestS res (int64 (t - res)))
      else Some None)"
  by (simp only: in_window_def walk_back.simps [of f index oldestS res t])

lemma walk_back_out: "\<not> in_window oldestS t \<Longrightarrow> walk_back f index oldestS res t = Some None"
  by (simp add: walk_back_step [of f index oldestS res t])

text \<open>Steps down reach the end of the window, steps up leave the range and come back negative.\<close>

lemma walk_back_down:
  assumes "0 < res" and "in_int64 res" and "in_int64 t"
  shows "walk_back f index oldestS res t \<noteq> None"
  using assms(3)
proof (induction "nat t" arbitrary: t rule: less_induct)
  case less
  show ?case
  proof (cases "in_window oldestS t")
    case True
    then have t: "0 < t" by (simp add: in_window_def)
    then have "in_int64 (t - res)" using assms(1,2) less.prems by (simp add: in_int64_def)
    moreover have "nat (t - res) < nat t" using t assms(1) by simp
    ultimately have "walk_back f index oldestS res (int64 (t - res)) \<noteq> None"
      using less.hyps by (simp add: int64_id)
    then show ?thesis by (simp add: walk_back_step [of f index oldestS res t] split: option.split)
  qed (simp add: walk_back_out)
qed

lemma walk_back_up:
  assumes "res < 0" and "in_int64 res" and "in_int64 t"
  shows "walk_back f index oldestS res t \<noteq> None"
  using assms(3)
proof (induction "nat (2 ^ 63 - t)" arbitrary: t rule: less_induct)
  case less
  show ?case
  proof (cases "in_window oldestS t")
    case True
    then have t: "0 < t" by (simp add: in_window_def)
    have "walk_back f index oldestS res (int64 (t - res)) \<noteq> None"
    proof (cases "t - res < 2 ^ 63")
      case True
      then have i: "in_int64 (t - res)" using t assms(1) by (simp add: in_int64_def)
      have "nat (2 ^ 63 - (t - res)) < nat (2 ^ 63 - t)" using True assms(1) by simp
      then show ?thesis using less.hyps [OF _ i] i by (simp add: int64_id)
    next
      case False
      then have "int64 (t - res) < 0" using assms(2) less.prems by (intro int64_overflow) (simp_all add: in_int64_def)
      then have "\<not> in_window oldestS (int64 (t - res))" by (simp add: in_window_def)
      then show ?thesis by (simp add: walk_back_out)
    qed
    then show ?thesis by (simp add: walk_back_step [of f index oldestS res t] split: option.split)
  qed (simp add: walk_back_out)
qed

text \<open>With a step of zero the walk stays where it is.\<close>

lemma walk_back_stays:
  assumes "in_window oldestS t" and "positivePrice f t index = None" and "in_int64 t"
  shows "walk_back f index oldestS 0 t = None"
proof -
  define stuck where "stuck f index oldestS t \<longleftrightarrow>
    in_window oldestS t \<and> positivePrice f t index = None \<and> in_int64 t" for f index oldestS t
  have "res = 0 \<longrightarrow> \<not> stuck f index oldestS t" if "walk_back f index oldestS res t = Some y" for res y
  proof (rule walk_back.raw_induct [OF _ that, where P = "\<lambda>f index oldestS res t y. res = 0 \<longrightarrow> \<not> stuck f index oldestS t"])
    fix walk f index oldestS res t y
    assume IH: "\<And>f index oldestS res t y. walk f index oldestS res t = Some y \<Longrightarrow> res = 0 \<longrightarrow> \<not> stuck f index oldestS t"
      and step: "(if t > 0 \<and> quo t 1000 \<ge> oldestS
        then (case positivePrice f t index of
            Some price \<Rightarrow> Some (Some (price, t)) | None \<Rightarrow> walk f index oldestS res (int64 (t - res)))
        else Some None) = Some y"
    show "res = 0 \<longrightarrow> \<not> stuck f index oldestS t"
    proof (intro impI notI)
      assume z: "res = 0" and st: "stuck f index oldestS t"
      then have "walk f index oldestS res t = Some y"
        using step by (simp add: stuck_def in_window_def int64_id del: quo_nonneg)
      from IH [OF this] z st show False by simp
    qed
  qed
  then show ?thesis using assms by (cases "walk_back f index oldestS 0 t") (auto simp: stuck_def)
qed

lemma walk_back_None:
  assumes "in_int64 res" and "in_int64 t"
  shows "walk_back f index oldestS res t = None \<longleftrightarrow> res = 0 \<and> in_window oldestS t \<and> positivePrice f t index = None"
proof (cases "res = 0")
  case True
  then show ?thesis
    using walk_back_stays [of oldestS t f index] walk_back_out [of oldestS t f index] assms(2)
      walk_back_step [of f index oldestS 0 t]
    by (cases "positivePrice f t index"; cases "in_window oldestS t") simp_all
next
  case False
  then show ?thesis
    using walk_back_up [OF _ assms] walk_back_down [OF _ assms] by (cases "res < 0") simp_all
qed

text \<open>Where the walk starts does not matter for its end.\<close>

lemma walk_back_returns:
  assumes "in_int64 res" and "res \<noteq> 0"
  shows "walk_back f index oldestS res t \<noteq> None"
proof (cases "in_window oldestS t")
  case True
  have "walk_back f index oldestS res (int64 (t - res)) \<noteq> None"
    using walk_back_None [OF assms(1) in_int64_int64] assms(2) by simp
  then show ?thesis by (simp add: walk_back_step [of f index oldestS res t] split: option.split)
qed (simp add: walk_back_out)

section \<open>Prices are served\<close>

lemma asset_feed_SomeD:
  assumes "asset_feed feeds agg cfg = Some (ref, feed, index)"
  shows "gm_get (ab_feeds agg) (ga_OracleIndex cfg) = Some ref" and "gm_get feeds (gf_ContractID ref) = Some feed"
    and "0 < gf_ResolutionS ref" and "0 < fb_lastRoundMs feed"
  using assms by (auto simp: asset_feed_def bind_eq_Some_conv split: if_splits)

text \<open>
  C16: The walk of \<open>resolveFeedPrice\<close> never returns in exactly one case: the resolution of the feed, in
  seconds, is a multiple of $2^{61}$, so that it is zero in milliseconds, and the newest round is in
  the window and has no price for the asset.
\<close>

theorem feed_walk_hangs:
  assumes "asset_feed feeds agg cfg = Some (ref, feed, index)" and "in_int64 (fb_lastRoundMs feed)"
  shows "resolveFeedPrice feeds agg cfg closeTime = None \<longleftrightarrow>
    2 ^ 61 dvd gf_ResolutionS ref \<and> in_window (oldest_round feed agg closeTime) (fb_lastRoundMs feed)
      \<and> positivePrice feed (fb_lastRoundMs feed) index = None"
  using walk_back_None [OF in_int64_int64 assms(2), of feed index "oldest_round feed agg closeTime" "gf_ResolutionS ref * 1000"] assms(1)
  by (simp only: resolveFeedPrice_def bind_eq_None_conv int64_eq_0 thousand_dvd option.case prod.case) simp

lemma resolveFeedPrice_returns:
  assumes "\<And>i ref. (i, ref) \<in> set (ab_feeds agg) \<Longrightarrow> 0 < gf_ResolutionS ref \<Longrightarrow> \<not> 2 ^ 61 dvd gf_ResolutionS ref"
  shows "resolveFeedPrice feeds agg cfg closeTime \<noteq> None"
proof (cases "asset_feed feeds agg cfg")
  case (Some r)
  then obtain ref feed index where r: "asset_feed feeds agg cfg = Some (ref, feed, index)" by (cases r) simp
  have "\<not> 2 ^ 61 dvd gf_ResolutionS ref"
    using asset_feed_SomeD(1,3) [OF r] assms gm_get_in by fast
  then have "int64 (gf_ResolutionS ref * 1000) \<noteq> 0" by (simp only: int64_eq_0 thousand_dvd not_False_eq_True)
  then show ?thesis
    using walk_back_returns [OF in_int64_int64] r by (simp add: resolveFeedPrice_def bind_eq_None_conv)
qed (simp add: resolveFeedPrice_def)

text \<open>Every feed an aggregator names has a step.\<close>

definition feeds_step :: "aggregator_builder \<Rightarrow> bool" where
  "feeds_step agg \<longleftrightarrow> (\<forall>(i, ref) \<in> set (ab_feeds agg). 0 < gf_ResolutionS ref \<longrightarrow> \<not> 2 ^ 61 dvd gf_ResolutionS ref)"

lemma aggregator_price_returns: "feeds_step agg \<Longrightarrow> \<exists>o''. aggregator_price feeds agg closeTime ia o' = Some o''"
  using resolveFeedPrice_returns [of agg feeds] by (cases ia) (fastforce simp: aggregator_price_def feeds_step_def Let_def)

lemma resolve_aggregator_returns:
  assumes "\<forall>(cid, agg) \<in> set (b_aggregators b). feeds_step agg"
  shows "\<exists>b'. resolve_aggregator closeTime cid b = Some b' \<and> b_aggregators b' = b_aggregators b"
proof (cases "gm_get (b_aggregators b) cid")
  case (Some agg)
  then have "feeds_step agg" using assms gm_get_in by fast
  then have "\<exists>o''. foldO (aggregator_price (b_feeds b) agg closeTime) xs o' = Some o'' \<and> True" for xs o'
    by (intro foldO_returns) (simp_all add: aggregator_price_returns)
  then show ?thesis using Some by (force simp: resolve_aggregator_def)
qed (simp add: resolve_aggregator_def)

lemma resolveAggregatorPrices_returns:
  assumes "\<forall>(cid, agg) \<in> set (b_aggregators b). feeds_step agg"
  shows "\<exists>b'. resolveAggregatorPrices closeTime b = Some b' \<and> b_aggregators b' = b_aggregators b"
proof -
  have "\<exists>b'. foldO (resolve_aggregator closeTime) xs b = Some b' \<and> b_aggregators b' = b_aggregators b" for xs
    by (rule foldO_returns) (simp, metis resolve_aggregator_returns assms)
  then show ?thesis by (simp add: resolveAggregatorPrices_def)
qed

text \<open>Marking backstop holders touches nothing but their set.\<close>

definition backstops_only :: "bl_builder \<Rightarrow> bl_builder \<Rightarrow> bool" where
  "backstops_only b b' \<longleftrightarrow> (\<exists>m. b' = b\<lparr>b_dirtyBackstops := m\<rparr>)"

lemma backstops_only_refl [simp]: "backstops_only b b"
  unfolding backstops_only_def by (rule exI [of _ "b_dirtyBackstops b"]) simp

lemma backstops_only_trans: "backstops_only b b' \<Longrightarrow> backstops_only b' b'' \<Longrightarrow> backstops_only b b''"
  by (auto simp: backstops_only_def)

lemma backstops_only_run:
  assumes "\<And>x b. backstops_only b (step x b)"
  shows "backstops_only b (run step xs b)"
  by (induction xs arbitrary: b) (auto intro: backstops_only_trans assms)

lemma markBackstopDirty_only: "backstops_only b (markBackstopDirty address pool b)"
  by (auto simp: backstops_only_def markBackstopDirty_def)

lemma markBackstopPoolDirty_only: "backstops_only b (markBackstopPoolDirty pool b)"
  by (simp add: markBackstopPoolDirty_def backstops_only_run markBackstopDirty_only)

lemma markCometDirty_only: "backstops_only b (markCometDirty c b)"
  by (simp add: markCometDirty_def backstops_only_run markBackstopPoolDirty_only)

lemma markPriceAssetDirty_only: "backstops_only b (markPriceAssetDirty asset b)"
  by (simp add: markPriceAssetDirty_def backstops_only_run markBackstopPoolDirty_only)

lemma propagateFeedPriceDirty_only: "backstops_only b (propagateFeedPriceDirty b)"
  by (simp add: propagateFeedPriceDirty_def backstops_only_run markPriceAssetDirty_only)

lemma backstops_dirtied_only: "backstops_only b (backstops_dirtied b)"
  unfolding backstops_dirtied_def Let_def
  by (rule backstops_only_trans [OF propagateFeedPriceDirty_only]) (rule backstops_only_run, rule markPriceAssetDirty_only)

lemma decodeBlendState_None:
  "decodeBlendState S D J a prior changes ledger closeTime = None \<longleftrightarrow>
    resolveAggregatorPrices closeTime (backstops_dirtied (bl_applied S D a prior changes ledger)) = None"
  by (simp add: decodeBlendState_def bl_build_def Let_def)

text \<open>
  C12: A ledger is decoded in finitely many steps, whatever its changes and the prior state are, when
  no feed reference of the aggregators it leaves has a resolution that is a positive multiple of
  $2^{61}$ seconds.
\<close>

theorem decode_returns:
  assumes "\<forall>(cid, agg) \<in> set (b_aggregators (bl_applied S D a prior changes ledger)). feeds_step agg"
  shows "\<exists>r. decodeBlendState S D J a prior changes ledger closeTime = Some r"
proof -
  let ?b = "bl_applied S D a prior changes ledger"
  have "b_aggregators (backstops_dirtied ?b) = b_aggregators ?b"
    using backstops_dirtied_only [of ?b] by (auto simp: backstops_only_def)
  then obtain b' where "resolveAggregatorPrices closeTime (backstops_dirtied ?b) = Some b'"
    using resolveAggregatorPrices_returns [of "backstops_dirtied ?b" closeTime] assms by auto
  then show ?thesis
    using decodeBlendState_None [of S D J a prior changes ledger closeTime]
    by (cases "decodeBlendState S D J a prior changes ledger closeTime") simp_all
qed

section \<open>The price served\<close>

text \<open>The first of a sequence of rounds that has a price.\<close>

definition first_priced :: "(nat \<Rightarrow> 'a option) \<Rightarrow> nat \<Rightarrow> 'a \<Rightarrow> bool" where
  "first_priced g k x \<longleftrightarrow> g k = Some x \<and> (\<forall>j<k. g j = None)"

lemma first_priced_0: "first_priced g 0 x \<longleftrightarrow> g 0 = Some x"
  by (simp add: first_priced_def)

lemma first_priced_Suc: "first_priced g (Suc k) x \<longleftrightarrow> g 0 = None \<and> first_priced (\<lambda>j. g (Suc j)) k x"
  by (auto simp: first_priced_def less_Suc_eq_0_disj)

lemma ex_nat_split: "(\<exists>k. P k) \<longleftrightarrow> P 0 \<or> (\<exists>k. P (Suc k))"
  by (metis not0_implies_Suc)

text \<open>The newest round of the grid, inside the window, in which the asset has a price.\<close>

definition newest_price :: "feed_builder \<Rightarrow> int \<Rightarrow> int \<Rightarrow> int \<Rightarrow> int \<Rightarrow> string \<Rightarrow> int \<Rightarrow> bool" where
  "newest_price f index oldestS res start raw ts \<longleftrightarrow>
     (\<exists>k. ts = start - int k * res \<and> in_window oldestS ts \<and> first_priced (\<lambda>j. positivePrice f (start - int j * res) index) k raw)"

text \<open>The next older price on the grid, at most so many steps away.\<close>

definition next_older_price :: "feed_builder \<Rightarrow> int \<Rightarrow> int \<Rightarrow> nat \<Rightarrow> int \<Rightarrow> string \<Rightarrow> bool" where
  "next_older_price f index res steps ts old \<longleftrightarrow>
     (\<exists>k < steps. ts - int (Suc k) * res > 0 \<and> first_priced (\<lambda>j. positivePrice f (ts - int (Suc j) * res) index) k old)"

lemma grid_step: "start - int (Suc k) * res = start - res - int k * res"
  by (simp add: distrib_right)

lemma in_window_older: "in_window oldestS (t - int k * res) \<Longrightarrow> 0 \<le> res \<Longrightarrow> in_window oldestS t"
proof -
  assume w: "in_window oldestS (t - int k * res)" and r: "0 \<le> res"
  have le: "t - int k * res \<le> t" using r by simp
  from w have pos: "0 < t - int k * res" by (simp add: in_window_def)
  with w have old: "oldestS \<le> (t - int k * res) div 1000" by (simp add: in_window_def)
  have "oldestS \<le> t div 1000" using old zdiv_mono1 [OF le, of 1000] by linarith
  moreover have "0 < t" using pos le by linarith
  ultimately show ?thesis by (simp add: in_window_def)
qed

lemma newest_price_unfold:
  assumes "0 \<le> res"
  shows "newest_price f index oldestS res start raw ts \<longleftrightarrow> in_window oldestS start \<and>
    (case positivePrice f start index of
       Some price \<Rightarrow> raw = price \<and> ts = start | None \<Rightarrow> newest_price f index oldestS res (start - res) raw ts)"
proof (cases "in_window oldestS start")
  case False
  then have "\<not> in_window oldestS (start - int k * res)" for k using in_window_older assms by blast
  with False show ?thesis by (auto simp: newest_price_def)
next
  case True
  have "newest_price f index oldestS res start raw ts \<longleftrightarrow> (ts = start \<and> positivePrice f start index = Some raw)
     \<or> (positivePrice f start index = None \<and> newest_price f index oldestS res (start - res) raw ts)"
    unfolding newest_price_def using True
    by (subst ex_nat_split) (simp only: first_priced_0 first_priced_Suc grid_step of_nat_0 mult_zero_left diff_zero, auto)
  then show ?thesis using True by (cases "positivePrice f start index") auto
qed

lemma walk_back_newest:
  assumes "0 < res" and "in_int64 res" and "in_int64 t"
  shows "walk_back f index oldestS res t = Some (Some (raw, ts)) \<longleftrightarrow> newest_price f index oldestS res t raw ts"
  using assms(3)
proof (induction "nat t" arbitrary: t rule: less_induct)
  case less
  note unfold = walk_back_step [of f index oldestS res t] newest_price_unfold [of res f index oldestS t raw ts]
  show ?case
  proof (cases "in_window oldestS t")
    case True
    then have t: "0 < t" by (simp add: in_window_def)
    then have i: "in_int64 (t - res)" using assms(1,2) less.prems by (simp add: in_int64_def)
    have "nat (t - res) < nat t" using t assms(1) by simp
    from less.hyps [OF this i] i True assms(1) show ?thesis by (auto simp: unfold int64_id split: option.split)
  next
    case False
    with assms(1) show ?thesis by (simp add: unfold)
  qed
qed

lemma next_older_unfold:
  assumes "0 \<le> res"
  shows "next_older_price f index res (Suc n) ts old \<longleftrightarrow> ts - res > 0 \<and>
    (case positivePrice f (ts - res) index of
       Some price \<Rightarrow> old = price | None \<Rightarrow> next_older_price f index res n (ts - res) old)"
proof (cases "ts - res > 0")
  case False
  then have "\<not> ts - int (Suc k) * res > 0" for k
    using assms mult_nonneg_nonneg [of "int k" res] by (simp add: distrib_right del: zero_le_mult_iff mult_nonneg_nonneg) linarith?
  with False show ?thesis by (auto simp: next_older_price_def)
next
  case True
  have "next_older_price f index res (Suc n) ts old \<longleftrightarrow> positivePrice f (ts - res) index = Some old
     \<or> (positivePrice f (ts - res) index = None \<and> next_older_price f index res n (ts - res) old)"
    unfolding next_older_price_def using True
    by (subst ex_nat_split) (simp only: first_priced_0 first_priced_Suc grid_step of_nat_0 mult_zero_left diff_zero
      Suc_less_eq zero_less_Suc, auto)
  then show ?thesis using True by (cases "positivePrice f (ts - res) index") auto
qed

lemma older_price_next:
  assumes "0 < res" and "in_int64 res" and "in_int64 ts" and "0 < ts"
  shows "older_price f index res steps (int64 (ts - res)) = Some old \<longleftrightarrow> next_older_price f index res steps ts old"
  using assms(3,4)
proof (induction steps arbitrary: ts)
  case 0
  then show ?case by (simp add: next_older_price_def)
next
  case (Suc n)
  have i: "in_int64 (ts - res)" using assms(1,2) Suc.prems by (simp add: in_int64_def)
  note unfold = next_older_unfold [of res f index n ts old]
  show ?case
  proof (cases "ts - res > 0")
    case True
    from Suc.IH [OF i True] i True assms(1) show ?thesis by (auto simp: unfold int64_id split: option.split)
  next
    case False
    with i assms(1) show ?thesis by (simp add: unfold int64_id)
  qed
qed

definition scaled_price :: "int \<Rightarrow> int \<Rightarrow> int \<Rightarrow> int" where
  "scaled_price p from to = (if from > to then p div 10 ^ nat (from - to) else p * 10 ^ nat (to - from))"

lemma positivePrice_value: "positivePrice f t index = Some raw \<Longrightarrow> \<exists>p. set_string raw = Some p \<and> 0 < p"
  by (auto simp: positivePrice_def isPositiveIntString_def split: option.splits if_splits)

lemma rescalePrice_scaled:
  assumes "set_string raw = Some p" and "0 < p" and "in_int32 (from - to)" and "in_int32 (to - from)"
  shows "rescalePrice raw from to = Some (show_int (scaled_price p from to))"
  using assms by (simp add: rescalePrice_def scaled_price_def to_int32_id big_pow10_def)

lemma deviation_values: "set_string raw = Some p \<Longrightarrow> set_string old = Some q \<Longrightarrow> deviation_ok raw old dev \<longleftrightarrow> \<bar>p - q\<bar> \<le> q * dev div 100"
  by (simp add: deviation_ok_def)

text \<open>What the guard asks of a found price: nothing when it is off.\<close>

definition guard_passes :: "aggregator_asset_config \<Rightarrow> feed_builder \<Rightarrow> int \<Rightarrow> int \<Rightarrow> nat \<Rightarrow> int \<Rightarrow> int \<Rightarrow> bool" where
  "guard_passes cfg feed index res steps ts p \<longleftrightarrow>
     (0 < ga_MaxDev cfg \<and> ga_MaxDev cfg < 100 \<longrightarrow>
       (\<exists>old q. next_older_price feed index res steps ts old \<and> set_string old = Some q \<and> \<bar>p - q\<bar> \<le> q * ga_MaxDev cfg div 100))"

lemma next_older_value: "next_older_price f index res n ts old \<Longrightarrow> \<exists>q. set_string old = Some q"
  by (auto simp: next_older_price_def first_priced_def dest!: positivePrice_value)

lemma guarded_price_Some:
  assumes r: "0 < res" "in_int64 res" "res = int64 (gf_ResolutionS ref * 1000)" and ts: "in_int64 ts" "0 < ts"
    and p: "set_string raw = Some p" "0 < p"
    and dec: "in_int32 (gf_Decimals ref - ab_decimals agg)" "in_int32 (ab_decimals agg - gf_Decimals ref)"
  shows "guarded_price agg cfg ref feed index (raw, ts) = Some x \<longleftrightarrow>
    guard_passes cfg feed index res (nat (quo (ab_maxAgeS agg) (gf_ResolutionS ref))) ts p
      \<and> x = show_int (scaled_price p (gf_Decimals ref) (ab_decimals agg))"
proof -
  let ?n = "nat (quo (ab_maxAgeS agg) (gf_ResolutionS ref))"
  note older = older_price_next [OF r(1,2) ts, of feed index ?n]
  show ?thesis
  proof (cases "0 < ga_MaxDev cfg \<and> ga_MaxDev cfg < 100")
    case True
    show ?thesis
    proof (cases "older_price feed index res ?n (int64 (ts - res))")
      case None
      then have "\<not> next_older_price feed index res ?n ts old" for old using older [of old] by simp
      with None True show ?thesis by (simp add: guarded_price_def guard_passes_def r(3) [symmetric])
    next
      case (Some old)
      then have n: "next_older_price feed index res ?n ts o' \<longleftrightarrow> o' = old" for o' using older [of o'] by auto
      obtain q where q: "set_string old = Some q" using next_older_value n by blast
      from Some True q show ?thesis
        by (auto simp: guarded_price_def guard_passes_def r(3) [symmetric] n deviation_values [OF p(1) q] rescalePrice_scaled [OF p dec])
    qed
  next
    case False
    then show ?thesis by (auto simp: guarded_price_def guard_passes_def rescalePrice_scaled [OF p dec])
  qed
qed

text \<open>
  C10: \<open>resolveFeedPrice\<close> serves what the aggregator contract would: the price of the newest round of
  the feed's grid that is inside the staleness window and has one, provided that the next older
  price on the grid deviates from it by no more than the limit when there is a limit, converted from
  the decimals of the feed to those of the aggregator; and it serves nothing else.
\<close>

theorem price_served:
  assumes "asset_feed feeds agg cfg = Some (ref, feed, index)"
    and "in_int64 (fb_lastRoundMs feed)" and "in_int64 (gf_ResolutionS ref * 1000)"
    and "in_int32 (gf_Decimals ref - ab_decimals agg)" and "in_int32 (ab_decimals agg - gf_Decimals ref)"
  shows "resolveFeedPrice feeds agg cfg closeTime = Some (Some x) \<longleftrightarrow>
    (\<exists>raw ts p. newest_price feed index (oldest_round feed agg closeTime) (gf_ResolutionS ref * 1000) (fb_lastRoundMs feed) raw ts
       \<and> set_string raw = Some p
       \<and> guard_passes cfg feed index (gf_ResolutionS ref * 1000) (nat (quo (ab_maxAgeS agg) (gf_ResolutionS ref))) ts p
       \<and> x = show_int (scaled_price p (gf_Decimals ref) (ab_decimals agg)))"
proof -
  let ?res = "gf_ResolutionS ref * 1000"
  have r: "0 < ?res" "int64 ?res = ?res" using asset_feed_SomeD(3) [OF assms(1)] int64_id assms(3) by simp_all
  note walk = walk_back_newest [OF r(1) assms(3,2), of feed index "oldest_round feed agg closeTime"]
  have served: "resolveFeedPrice feeds agg cfg closeTime = Some (Some x) \<longleftrightarrow> (\<exists>raw ts.
      newest_price feed index (oldest_round feed agg closeTime) ?res (fb_lastRoundMs feed) raw ts
      \<and> guarded_price agg cfg ref feed index (raw, ts) = Some x)"
    using assms(1) r(2) by (auto simp: resolveFeedPrice_def bind_eq_Some_conv walk [symmetric])
  have guard: "guarded_price agg cfg ref feed index (raw, ts) = Some x \<longleftrightarrow> (\<exists>p. set_string raw = Some p
      \<and> guard_passes cfg feed index ?res (nat (quo (ab_maxAgeS agg) (gf_ResolutionS ref))) ts p
      \<and> x = show_int (scaled_price p (gf_Decimals ref) (ab_decimals agg)))"
    if n: "newest_price feed index (oldest_round feed agg closeTime) ?res (fb_lastRoundMs feed) raw ts" for raw ts
  proof -
    obtain k where k: "ts = fb_lastRoundMs feed - int k * ?res" "in_window (oldest_round feed agg closeTime) ts"
        "positivePrice feed ts index = Some raw"
      using n by (auto simp: newest_price_def first_priced_def)
    obtain p where p: "set_string raw = Some p" "0 < p" using positivePrice_value [OF k(3)] by blast
    have "0 < ts" using k(2) by (simp add: in_window_def)
    moreover have "ts \<le> fb_lastRoundMs feed" using k(1) r(1) by simp
    ultimately have ts: "in_int64 ts" "0 < ts" using assms(2) by (simp_all add: in_int64_def)
    show ?thesis using guarded_price_Some [OF r(1) assms(3) r(2) [symmetric] ts p assms(4,5)] p(1) by simp
  qed
  show ?thesis unfolding served using guard by blast
qed

section \<open>The rounds that are carried\<close>

lemma gm_get_del_all: "gm_ok m \<Longrightarrow> gm_get (foldl (\<lambda>m ts. gm_del ts m) m xs) k = (if k \<in> set xs then None else gm_get m k)"
  by (induction xs arbitrary: m) (auto simp: gm_simps gm.ok_del)

text \<open>An element with fewer than $n$ greater ones is among the $n$ greatest.\<close>

lemma in_newest:
  fixes x :: "'a::linorder"
  assumes "distinct xs" and "x \<in> set xs" and "card {y \<in> set xs. y > x} < n"
  shows "x \<notin> set (drop n (rev (sort xs)))"
proof
  let ?ys = "rev (sort xs)"
  assume "x \<in> set (drop n ?ys)"
  then obtain j where j: "j < length ?ys - n" "drop n ?ys ! j = x" by (auto simp: in_set_conv_nth)
  have d: "distinct ?ys" and s: "sorted_wrt (\<ge>) ?ys"
    using assms(1) by (simp_all add: sorted_wrt_rev)
  have sub: "set (take n ?ys) \<subseteq> {y \<in> set xs. y > x}"
  proof
    fix y assume y: "y \<in> set (take n ?ys)"
    then obtain i where i: "i < n" "i < length ?ys" "?ys ! i = y" by (auto simp: in_set_conv_nth)
    have x: "?ys ! (n + j) = x" "n + j < length ?ys" using j by simp_all
    have "?ys ! i \<ge> ?ys ! (n + j)" using s i x(2) by (intro sorted_wrt_nth_less [of "(\<ge>)"]) simp_all
    moreover have "?ys ! i \<noteq> ?ys ! (n + j)" by (simp only: nth_eq_iff_index_eq [OF d i(2) x(2)]) (use i(1) in simp)
    moreover have "y \<in> set xs" using y by (auto dest: in_set_takeD)
    ultimately show "y \<in> {y \<in> set xs. y > x}" using i(3) x(1) by simp
  qed
  have "n = card (set (take n ?ys))" using j(1) d by (simp add: distinct_card)
  also have "\<dots> \<le> card {y \<in> set xs. y > x}" using sub by (intro card_mono) simp_all
  finally show False using assms(3) by simp
qed

lemma positivePrice_trim:
  assumes "gm_ok (fb_rounds f)" and "card {ts' \<in> fst ` set (fb_rounds f). ts' > ts} < maxCarriedRounds"
  shows "positivePrice (trimRounds f) ts index = positivePrice f ts index"
proof -
  have "gm_get (fb_rounds (trimRounds f)) ts = gm_get (fb_rounds f) ts"
  proof (cases "ts \<in> fst ` set (fb_rounds f)")
    case True
    with assms have "ts \<notin> set (drop maxCarriedRounds (rev (sort (map fst (fb_rounds f)))))"
      by (intro in_newest) (simp_all add: gm_ok_def)
    then show ?thesis by (simp add: trimRounds_def gm_get_del_all [OF assms(1)])
  next
    case False
    then have "gm_get (fb_rounds f) ts = None" by (simp add: gm_get_def map_of_eq_None_iff)
    then show ?thesis by (simp add: trimRounds_def gm_get_del_all [OF assms(1)])
  qed
  then show ?thesis by (simp add: positivePrice_def round_at_def)
qed

text \<open>The rounds of a feed are on its grid, none newer than the last.\<close>

definition on_grid :: "int \<Rightarrow> feed_builder \<Rightarrow> bool" where
  "on_grid res f \<longleftrightarrow> gm_ok (fb_rounds f) \<and> (\<forall>ts \<in> fst ` set (fb_rounds f). \<exists>k. ts = fb_lastRoundMs f - int k * res)"

lemma positivePrice_carried:
  assumes "on_grid res f" and "0 < res" and "k < maxCarriedRounds"
  shows "positivePrice (trimRounds f) (fb_lastRoundMs f - int k * res) index = positivePrice f (fb_lastRoundMs f - int k * res) index"
proof (rule positivePrice_trim)
  let ?newer = "{ts' \<in> fst ` set (fb_rounds f). ts' > fb_lastRoundMs f - int k * res}"
  have "?newer \<subseteq> (\<lambda>j. fb_lastRoundMs f - int j * res) ` {..<k}"
    using assms(1,2) by (fastforce simp: on_grid_def mult_less_cancel_right)
  then have "card ?newer \<le> card {..<k}" using surj_card_le [of "{..<k}"] by blast
  then show "card ?newer < maxCarriedRounds" using assms(3) by simp
qed (use assms(1) in \<open>simp add: on_grid_def\<close>)

text \<open>A map written out as sorted rows and loaded again answers as before.\<close>

lemma gm_get_reload:
  assumes "gm_ok m" and "\<And>k v. (k, v) \<in> set m \<Longrightarrow> key (row (k, v)) = k" and "\<And>k v. (k, v) \<in> set m \<Longrightarrow> val (row (k, v)) = h k v"
  shows "gm_get (gm.load key val (sort_key g (map row m)) []) k = map_option (h k) (gm_get m k)"
proof -
  let ?xs = "sort_key g (map row m)"
  have keys: "map key (map row m) = map fst m" using assms(2) by auto
  then have d: "distinct (map key ?xs)"
    using assms(1) by (metis distinct_map distinct_sort gm_ok_def set_sort)
  show ?thesis
  proof (cases "gm_get m k")
    case (Some v)
    then have kv: "(k, v) \<in> set m" by (rule gm_get_in)
    then have "row (k, v) \<in> set ?xs" by force
    from gm.get_load_in [OF d this, of val "[]"] show ?thesis by (simp only: assms(2,3) [OF kv] Some option.map)
  next
    case None
    then have "k \<notin> key ` set ?xs" using keys by (force simp: gm_get_def map_of_eq_None_iff)
    with None show ?thesis by (simp add: gm.get_load_other gm.get_nil)
  qed
qed

definition feed_ok :: "feed_builder \<Rightarrow> bool" where
  "feed_ok f \<longleftrightarrow> gm_ok (fb_assetToIndex f) \<and> gm_ok (fb_rounds f) \<and> (\<forall>ts r. gm_get (fb_rounds f) ts = Some r \<longrightarrow> gm_ok r)"

definition carried_feed :: "string \<Rightarrow> feed_builder \<Rightarrow> feed_builder" where
  "carried_feed cid f = feedBuilderFromState (feed_state cid (trimRounds f))"

lemma gm_ok_del_all: "gm_ok m \<Longrightarrow> gm_ok (foldl (\<lambda>m ts. gm_del ts m) m xs)"
  by (induction xs arbitrary: m) (simp_all add: gm.ok_del)

lemma feed_ok_trim: "feed_ok f \<Longrightarrow> feed_ok (trimRounds f)"
  by (auto simp: feed_ok_def trimRounds_def gm_ok_del_all gm_get_del_all split: if_splits)

lemma trimRounds_frame [simp]:
  "fb_assetToIndex (trimRounds f) = fb_assetToIndex f" "fb_lastRoundMs (trimRounds f) = fb_lastRoundMs f"
  by (simp_all add: trimRounds_def)

lemma round_reload:
  assumes "feed_ok f"
  shows "gm_get (round_at (feedBuilderFromState (feed_state cid f)) ts) i = gm_get (round_at f ts) i"
proof -
  have "gm_get (fb_rounds (feedBuilderFromState (feed_state cid f))) ts =
      map_option (\<lambda>r. gm.load fp_Index fp_PriceRaw (sort_key fp_Index (map (\<lambda>(i, x). \<lparr>fp_Index = i, fp_PriceRaw = x\<rparr>) r)) [])
        (gm_get (fb_rounds f) ts)"
    using assms by (simp add: feedBuilderFromState_def feed_state_def feed_ok_def gm_get_reload)
  then show ?thesis
    using assms by (cases "gm_get (fb_rounds f) ts") (simp_all add: round_at_def feed_ok_def gm_get_reload option.map_ident)
qed

lemma carried_feed_frame:
  assumes "feed_ok f"
  shows "fb_lastRoundMs (carried_feed cid f) = fb_lastRoundMs f"
    and "gm_get (fb_assetToIndex (carried_feed cid f)) k = gm_get (fb_assetToIndex f) k"
    and "positivePrice (carried_feed cid f) ts i = positivePrice (trimRounds f) ts i"
proof -
  have ok: "gm_ok (fb_assetToIndex f)" using assms by (simp add: feed_ok_def)
  show "fb_lastRoundMs (carried_feed cid f) = fb_lastRoundMs f"
    by (simp add: carried_feed_def feedBuilderFromState_def feed_state_def)
  show "gm_get (fb_assetToIndex (carried_feed cid f)) k = gm_get (fb_assetToIndex f) k"
    by (simp add: carried_feed_def feedBuilderFromState_def feed_state_def gm_get_reload [OF ok] option.map_ident)
  show "positivePrice (carried_feed cid f) ts i = positivePrice (trimRounds f) ts i"
    by (simp add: carried_feed_def positivePrice_def round_reload [OF feed_ok_trim [OF assms]])
qed

text \<open>Rounds inside the window are few.\<close>

lemma window_steps:
  assumes "in_window (newest div 1000 - maxAge) (newest - int k * (resS * 1000))" and "0 < resS"
  shows "int k \<le> maxAge div resS"
proof -
  have "(newest - int k * (resS * 1000)) div 1000 = newest div 1000 - int k * resS"
    using div_mult_self1 [of 1000 newest "- (int k * resS)"] by (simp add: algebra_simps)
  then have "int k * resS \<le> maxAge" using assms(1) by (simp add: in_window_iff)
  then have "int k * resS div resS \<le> maxAge div resS" using assms(2) by (intro zdiv_mono1)
  then show ?thesis using assms(2) by simp
qed

lemma newest_price_cong:
  assumes "0 \<le> res"
    and "\<And>k. in_window oldestS (start - int k * res) \<Longrightarrow> positivePrice f' (start - int k * res) index = positivePrice f (start - int k * res) index"
  shows "newest_price f' index oldestS res start raw ts \<longleftrightarrow> newest_price f index oldestS res start raw ts"
proof -
  have "first_priced (\<lambda>j. positivePrice f' (start - int j * res) index) k raw
      \<longleftrightarrow> first_priced (\<lambda>j. positivePrice f (start - int j * res) index) k raw"
    if w: "in_window oldestS (start - int k * res)" for k
  proof -
    have "in_window oldestS (start - int j * res)" if "j \<le> k" for j
    proof -
      have "start - int k * res = (start - int j * res) - int (k - j) * res" using that by (simp add: of_nat_diff algebra_simps)
      with w show ?thesis using in_window_older assms(1) by metis
    qed
    then show ?thesis using assms(2) by (auto simp: first_priced_def)
  qed
  then show ?thesis unfolding newest_price_def by blast
qed

lemma next_older_cong:
  assumes "\<And>k. k < n \<Longrightarrow> positivePrice f' (ts - int (Suc k) * res) index = positivePrice f (ts - int (Suc k) * res) index"
  shows "next_older_price f' index res n ts old \<longleftrightarrow> next_older_price f index res n ts old"
proof -
  have "first_priced (\<lambda>j. positivePrice f' (ts - int (Suc j) * res) index) k old
      \<longleftrightarrow> first_priced (\<lambda>j. positivePrice f (ts - int (Suc j) * res) index) k old" if "k < n" for k
    using assms that by (auto simp: first_priced_def)
  then show ?thesis unfolding next_older_price_def by blast
qed

lemma option_option_eqI: "x \<noteq> None \<Longrightarrow> y \<noteq> None \<Longrightarrow> (\<And>v. x = Some (Some v) \<longleftrightarrow> y = Some (Some v)) \<Longrightarrow> x = y"
  by (metis not_None_eq)

lemma walk_back_cong:
  assumes "0 < res" and "in_int64 res" and "in_int64 t"
    and "\<And>k. in_window oldestS (t - int k * res) \<Longrightarrow> positivePrice f' (t - int k * res) index = positivePrice f (t - int k * res) index"
  shows "walk_back f' index oldestS res t = walk_back f index oldestS res t"
proof (rule option_option_eqI)
  show "walk_back f' index oldestS res t = Some (Some v) \<longleftrightarrow> walk_back f index oldestS res t = Some (Some v)" for v
    using walk_back_newest [OF assms(1-3)] newest_price_cong [OF less_imp_le [OF assms(1)] assms(4)] by (cases v) simp
qed (use walk_back_returns assms(1,2) in \<open>simp_all add: less_imp_neq [symmetric]\<close>)

lemma older_price_cong:
  assumes "0 < res" and "in_int64 res" and "in_int64 ts" and "0 < ts"
    and "\<And>k. k < n \<Longrightarrow> positivePrice f' (ts - int (Suc k) * res) index = positivePrice f (ts - int (Suc k) * res) index"
  shows "older_price f' index res n (int64 (ts - res)) = older_price f index res n (int64 (ts - res))"
proof (rule option.expand)
  note older = older_price_next [OF assms(1-4)]
  have same: "older_price f' index res n (int64 (ts - res)) = Some old \<longleftrightarrow> older_price f index res n (int64 (ts - res)) = Some old" for old
    using older next_older_cong [OF assms(5)] by simp
  then show "(older_price f' index res n (int64 (ts - res)) = None) = (older_price f index res n (int64 (ts - res)) = None)"
    by (metis not_None_eq)
  show "the (older_price f' index res n (int64 (ts - res))) = the (older_price f index res n (int64 (ts - res)))"
    if "older_price f' index res n (int64 (ts - res)) \<noteq> None" using that same by (metis not_None_eq)
qed

text \<open>
  C15: The eight rounds a feed carries from ledger to ledger are enough: the price resolved from the
  reloaded feeds is the one resolved from all rounds seen, when the rounds lie on the grid of the
  resolution, the window reaches at most the maximal age back from the newest round, and the window
  and the guard together span fewer than eight rounds.
\<close>

theorem carry_sufficient:
  assumes "gm_ok feeds" and "asset_feed feeds agg cfg = Some (ref, feed, index)"
    and "feed_ok feed" and "on_grid (gf_ResolutionS ref * 1000) feed"
    and "in_int64 (fb_lastRoundMs feed)" and "in_int64 (gf_ResolutionS ref * 1000)"
    and "fb_lastRoundMs feed div 1000 - ab_maxAgeS agg \<le> oldest_round feed agg closeTime"
    and "0 \<le> ab_maxAgeS agg" and "2 * (ab_maxAgeS agg div gf_ResolutionS ref) < int maxCarriedRounds"
  shows "resolveFeedPrice (gm.load pf_ContractID feedBuilderFromState (buildPriceFeeds feeds) []) agg cfg closeTime
    = resolveFeedPrice feeds agg cfg closeTime"
proof -
  let ?res = "gf_ResolutionS ref * 1000" and ?n = "ab_maxAgeS agg div gf_ResolutionS ref"
  let ?f = "carried_feed (gf_ContractID ref) feed" and ?last = "fb_lastRoundMs feed"
  note found = asset_feed_SomeD [OF assms(2)]
  have res: "0 < ?res" "int64 ?res = ?res" using found(3) int64_id assms(6) by simp_all
  note frame = carried_feed_frame [OF assms(3), of "gf_ContractID ref"]
  have "gm_get (gm.load pf_ContractID feedBuilderFromState (buildPriceFeeds feeds) []) cid = map_option (carried_feed cid) (gm_get feeds cid)" for cid
    unfolding buildPriceFeeds_def
    by (subst gm_get_reload [OF assms(1), where h = carried_feed]) (simp_all add: carried_feed_def feed_state_def)
  then have loaded: "asset_feed (gm.load pf_ContractID feedBuilderFromState (buildPriceFeeds feeds) []) agg cfg = Some (ref, ?f, index)"
    using assms(2) frame(1,2) by (auto simp: asset_feed_def bind_eq_Some_conv split: if_splits)
  have oldest: "oldest_round ?f agg closeTime = oldest_round feed agg closeTime" by (simp add: oldest_round_def frame)
  have near: "positivePrice ?f (?last - int k * ?res) index = positivePrice feed (?last - int k * ?res) index"
    if "int k < int maxCarriedRounds" for k
    using positivePrice_carried [OF assms(4) res(1)] that by (simp add: frame)
  have window: "int k \<le> ?n" if "in_window (oldest_round feed agg closeTime) (?last - int k * ?res)" for k
  proof (rule window_steps [OF _ found(3)])
    show "in_window (?last div 1000 - ab_maxAgeS agg) (?last - int k * ?res)"
      using that assms(7) by (simp add: in_window_iff)
  qed
  have n: "0 \<le> ?n" using assms(8) found(3) by (simp add: pos_imp_zdiv_nonneg_iff)
  have walk: "walk_back ?f index (oldest_round feed agg closeTime) ?res ?last
      = walk_back feed index (oldest_round feed agg closeTime) ?res ?last"
  proof (rule walk_back_cong [OF res(1) assms(6,5)])
    fix k assume "in_window (oldest_round feed agg closeTime) (?last - int k * ?res)"
    then have "int k < int maxCarriedRounds" using window n assms(9) by fastforce
    then show "positivePrice ?f (?last - int k * ?res) index = positivePrice feed (?last - int k * ?res) index" by (rule near)
  qed
  have guard: "guarded_price agg cfg ref ?f index (raw, ts) = guarded_price agg cfg ref feed index (raw, ts)"
    if w: "walk_back feed index (oldest_round feed agg closeTime) ?res ?last = Some (Some (raw, ts))" for raw ts
  proof -
    obtain k where k: "ts = ?last - int k * ?res" "in_window (oldest_round feed agg closeTime) ts"
      using w [unfolded walk_back_newest [OF res(1) assms(6,5)] newest_price_def] by blast
    have pos: "0 < ts" using k(2) by (simp add: in_window_def)
    have "ts \<le> ?last" using k(1) res(1) by simp
    with pos have ts: "in_int64 ts" "0 < ts" using assms(5) by (simp_all add: in_int64_def)
    have steps: "nat (quo (ab_maxAgeS agg) (gf_ResolutionS ref)) = nat ?n" using assms(8) found(3) by simp
    have "older_price ?f index ?res (nat ?n) (int64 (ts - ?res)) = older_price feed index ?res (nat ?n) (int64 (ts - ?res))"
    proof (rule older_price_cong [OF res(1) assms(6) ts])
      fix j assume j: "j < nat ?n"
      have e: "ts - int (Suc j) * ?res = ?last - int (k + Suc j) * ?res" using k(1) by (simp add: algebra_simps)
      have "int (k + Suc j) < int maxCarriedRounds" using window [of k] k j assms(9) by simp
      then show "positivePrice ?f (ts - int (Suc j) * ?res) index = positivePrice feed (ts - int (Suc j) * ?res) index"
        unfolding e by (rule near)
    qed
    then show ?thesis by (simp add: guarded_price_def res(2) steps)
  qed

  have "Option.bind found (guarded_price agg cfg ref ?f index) = Option.bind found (guarded_price agg cfg ref feed index)"
    if "walk_back feed index (oldest_round feed agg closeTime) ?res ?last = Some found" for found
    using guard that by (cases found) auto
  then show ?thesis
    by (cases "walk_back feed index (oldest_round feed agg closeTime) ?res ?last")
      (simp_all add: resolveFeedPrice_def loaded assms(2) oldest frame(1) res(2) walk)
qed

section \<open>Witnesses\<close>

definition px_ref :: "int \<Rightarrow> aggregator_feed_ref" where
  "px_ref resolution = \<lparr>gf_Index = 0, gf_ContractID = ''F'', gf_Decimals = 14, gf_ResolutionS = resolution\<rparr>"

definition px_cfg :: aggregator_asset_config where
  "px_cfg = \<lparr>ga_AssetID = ''A'', ga_FeedAssetKey = ''other:A'', ga_OracleIndex = 0, ga_MaxDev = 10\<rparr>"

definition px_agg :: "int \<Rightarrow> aggregator_builder" where
  "px_agg resolution = \<lparr>ab_decimals = 7, ab_maxAgeS = 900, ab_baseKey = ''other:USD'', ab_baseAssets = [],
     ab_feeds = [(0, px_ref resolution)], ab_assets = [(''A'', px_cfg)]\<rparr>"

definition px_feed :: "(int, (int, string) gmap) gmap \<Rightarrow> feed_builder" where
  "px_feed rounds = \<lparr>fb_decimals = 14, fb_lastRoundMs = 1500000, fb_assetToIndex = [(''other:A'', 2)], fb_rounds = rounds\<rparr>"

definition px_rounds :: "(int, (int, string) gmap) gmap" where
  "px_rounds = [(1500000, [(2, show_int 123000000000)]), (1200000, [(2, show_int 120000000000)])]"

lemmas px_defs = px_ref_def px_cfg_def px_agg_def px_feed_def px_rounds_def

lemma px_asset_feed: "0 < resolution \<Longrightarrow> asset_feed [(''F'', px_feed rounds)] (px_agg resolution) px_cfg = Some (px_ref resolution, px_feed rounds, 2)"
  by (simp add: asset_feed_def px_defs gm_get_def)

lemma px_oldest: "oldest_round (px_feed rounds) (px_agg resolution) zero_time = 600"
  by (simp add: oldest_round_def px_defs int64_id in_int64_def)

lemma px_prices:
  "positivePrice (px_feed px_rounds) 1500000 2 = Some (show_int 123000000000)"
  "positivePrice (px_feed px_rounds) 1200000 2 = Some (show_int 120000000000)"
  by (simp_all add: positivePrice_def round_at_def px_defs gm_get_def isPositiveIntString_def)

theorem feed_walk_hangs_witness:
  "resolveFeedPrice [(''F'', px_feed [])] (px_agg (2 ^ 61)) px_cfg zero_time = None"
proof -
  have "in_int64 (fb_lastRoundMs (px_feed []))" by (simp add: px_defs in_int64_def)
  from feed_walk_hangs [OF px_asset_feed this, of "2 ^ 61" zero_time]
  show ?thesis unfolding px_oldest
    by (simp add: px_ref_def px_feed_def in_window_def positivePrice_def round_at_def gm_get_def)
qed

theorem price_served_witness:
  "resolveFeedPrice [(''F'', px_feed px_rounds)] (px_agg 300) px_cfg zero_time = Some (Some (show_int 12300))"
proof -
  have newest: "newest_price (px_feed px_rounds) 2 600 300000 1500000 (show_int 123000000000) 1500000"
    unfolding newest_price_def by (rule exI [of _ 0]) (simp add: first_priced_0 px_prices in_window_def)
  have older: "next_older_price (px_feed px_rounds) 2 300000 3 1500000 (show_int 120000000000)"
    unfolding next_older_price_def by (rule exI [of _ 0]) (simp add: first_priced_0 px_prices)
  have guard: "guard_passes px_cfg (px_feed px_rounds) 2 300000 3 1500000 123000000000"
    unfolding guard_passes_def using older set_string_show [of 120000000000] by (fastforce simp: px_cfg_def)
  have ints: "in_int64 (fb_lastRoundMs (px_feed px_rounds))" "in_int64 (gf_ResolutionS (px_ref 300) * 1000)"
    "in_int32 (gf_Decimals (px_ref 300) - ab_decimals (px_agg 300))" "in_int32 (ab_decimals (px_agg 300) - gf_Decimals (px_ref 300))"
    by (simp_all add: px_ref_def px_agg_def px_feed_def in_int64_def in_int32_def)
  have "scaled_price 123000000000 14 7 = 12300" by (simp add: scaled_price_def)
  with newest guard show ?thesis
    unfolding price_served [OF px_asset_feed ints, of zero_time "show_int 12300", simplified] px_oldest
    by (intro exI [of _ "show_int 123000000000"] exI [of _ 1500000] exI [of _ 123000000000])
      (simp add: px_ref_def px_agg_def px_feed_def)
qed

theorem carry_sufficient_witness:
  "resolveFeedPrice (gm.load pf_ContractID feedBuilderFromState (buildPriceFeeds [(''F'', px_feed px_rounds)]) []) (px_agg 300) px_cfg zero_time
    = resolveFeedPrice [(''F'', px_feed px_rounds)] (px_agg 300) px_cfg zero_time"
proof (rule carry_sufficient [OF _ px_asset_feed])
  show "on_grid (gf_ResolutionS (px_ref 300) * 1000) (px_feed px_rounds)"
    using exI [of "\<lambda>k. (1500000 :: int) = 1500000 - int k * 300000" 0] exI [of "\<lambda>k. (1200000 :: int) = 1500000 - int k * 300000" 1]
    by (simp add: on_grid_def px_feed_def px_ref_def px_rounds_def gm_ok_def)
  show "fb_lastRoundMs (px_feed px_rounds) div 1000 - ab_maxAgeS (px_agg 300) \<le> oldest_round (px_feed px_rounds) (px_agg 300) zero_time"
    unfolding px_oldest by (simp add: px_feed_def px_agg_def)
qed (simp_all add: feed_ok_def px_ref_def px_agg_def px_feed_def px_rounds_def gm_ok_def gm_get_def in_int64_def maxCarriedRounds_def)

definition px_adapter :: bl_adapter where
  "px_adapter = \<lparr>ba_cfg = bl_DefaultConfig, ba_contracts = {''AGG''}, ba_assets = {}, ba_feeds = {''F''}, ba_comets = {},
     ba_lookup = None, ba_lastDirty = [], ba_lastDirtyBackstops = [], ba_lastDiagnostics = [], ba_lastTemporaryChanges = []\<rparr>"

definition px_state :: ledger_state where
  "px_state = zero_ledger_state\<lparr>ls_OracleAggregators := [zero_oracle_aggregator_state\<lparr>og_ContractID := ''AGG'', og_Feeds := [px_ref 300]\<rparr>]\<rparr>"

theorem decode_returns_witness:
  "\<exists>r. decodeBlendState (example_sdk [] []) rat_decimal (\<lambda>_. []) px_adapter (Some px_state) [] 7 zero_time = Some r"
proof (rule decode_returns)
  have "b_aggregators (bl_applied (example_sdk [] []) rat_decimal px_adapter (Some px_state) [] 7)
    = [(''AGG'', aggregatorBuilderFromState (zero_oracle_aggregator_state\<lparr>og_ContractID := ''AGG'', og_Feeds := [px_ref 300]\<rparr>))]"
    by (simp add: bl_applied_def bl_start_def markPoolRemapDirty_def loadPrior_def px_state_def px_adapter_def
      newBlendStateBuilder_def zero_ledger_state_def zero_oracle_aggregator_state_def gm_set_def)
  then show "\<forall>(cid, agg) \<in> set (b_aggregators (bl_applied (example_sdk [] []) rat_decimal px_adapter (Some px_state) [] 7)). feeds_step agg"
    by (simp add: feeds_step_def aggregatorBuilderFromState_def px_ref_def gm_set_def)
qed

end
