(* ===== verification/Blend_Tracking.thy ===== *)
theory Blend_Tracking
  imports Blend_Prices
begin

text \<open>
  What every change keeps of the builder of src/blend/state.go: its maps hold each entry under the
  key the entry computes, the index of a pool is the one its reserves publish, and whatever a
  holder or a temporary entry becomes is recorded in the dirty sets.
\<close>

section \<open>Well-formed builders\<close>

definition reserve_rows :: "pool_builder \<Rightarrow> reserve_state list" where
  "reserve_rows p = sort_key (\<lambda>r. (rs_ReserveIndex r, rs_AssetID r)) (map snd (named_reserves (pb_reserves p)))"

definition pool_ok :: "pool_builder \<Rightarrow> bool" where
  "pool_ok p \<longleftrightarrow> keyed rs_AssetID (pb_reserves p) \<and> pb_reserveByIndex p = publishedReserveIndexes (reserve_rows p)"

definition pools_ok :: "(string, pool_builder) gmap \<Rightarrow> bool" where
  "pools_ok m \<longleftrightarrow> keyed (\<lambda>p. bp_ContractID (pb_state p)) m \<and> (\<forall>cid p. gm_get m cid = Some p \<longrightarrow> pool_ok p)"

definition pending_key :: "pending_positions \<Rightarrow> string" where
  "pending_key p = typedUserEntityKey (pp_user p) (pp_poolContract p)"

definition identity_key :: "user_identity \<Rightarrow> string" where
  "identity_key u = typedUserEntityKey (ui_address u) (ui_pool u)"

definition backstop_key :: "backstop_user_balance \<Rightarrow> string" where
  "backstop_key u = typedBackstopEntityKey (bu_user u) (bu_poolContract u)"

definition auction_key :: "auction_state \<Rightarrow> string" where
  "auction_key a = typedAuctionEntityKey (as_PoolContractID a) (as_UserAddress a) (as_AuctionType a)"

definition emission_key :: "user_emission_state \<Rightarrow> string" where
  "emission_key e = typedUserEmisEntityKey (ue_Address e) (ue_PoolContractID e) (ue_ReserveTokenID e)"

definition queued_key :: "queued_reserve_state \<Rightarrow> string" where
  "queued_key q = typedReserveEntityKey (qs_PoolContractID q) (qs_AssetID q)"

definition change_key :: "temporary_state_change \<Rightarrow> string" where
  "change_key c = (case tc_Kind c of
       TemporaryAuction \<Rightarrow> typedAuctionEntityKey (tc_PoolContractID c) (tc_UserAddress c) (tc_AuctionType c)
     | TemporaryQueuedReserve \<Rightarrow> typedReserveEntityKey (tc_PoolContractID c) (tc_AssetID c))"

definition entries_ok :: "bl_builder \<Rightarrow> bool" where
  "entries_ok b \<longleftrightarrow> keyed pending_key (b_pendingPos b) \<and> keyed backstop_key (b_backstopUsers b) \<and> keyed auction_key (b_auctions b)
     \<and> keyed emission_key (b_userEmis b) \<and> keyed queued_key (b_queuedReserves b)
     \<and> keyed bi_ContractID (b_backstopInstances b) \<and> keyed am_ContractID (b_assets b) \<and> keyed cb_contractID (b_comets b)
     \<and> gm_ok (b_oracles b) \<and> gm_ok (b_feeds b) \<and> gm_ok (b_aggregators b)"

definition dirty_ok :: "bl_builder \<Rightarrow> bool" where
  "dirty_ok b \<longleftrightarrow> keyed identity_key (b_dirtyUsers b) \<and> keyed identity_key (b_dirtyBackstops b) \<and> keyed change_key (b_dirtyTemporary b)"

definition bl_ok :: "bl_builder \<Rightarrow> bool" where
  "bl_ok b \<longleftrightarrow> pools_ok (b_pools b) \<and> entries_ok b \<and> dirty_ok b"

lemmas bl_ok_defs = bl_ok_def entries_ok_def dirty_ok_def

section \<open>Pools\<close>

lemma named_keyed: "keyed rs_AssetID m \<Longrightarrow> named_reserves m = m"
  by (auto simp: keyed_def named_reserves_def intro!: map_idI split: prod.splits)

lemma reserve_rows_keyed: "keyed rs_AssetID (pb_reserves p) \<Longrightarrow>
  reserve_rows p = sort_key (\<lambda>r. (rs_ReserveIndex r, rs_AssetID r)) (map snd (pb_reserves p))"
  by (simp add: reserve_rows_def named_keyed)

lemma finalize_frame [simp]:
  "pb_reserves (finalizePoolReserves p) = named_reserves (pb_reserves p)"
  "bp_ContractID (pb_state (finalizePoolReserves p)) = bp_ContractID (pb_state p)"
  "pb_reserveByIndex (finalizePoolReserves p) = publishedReserveIndexes (reserve_rows p)"
  "bp_Reserves (pb_state (finalizePoolReserves p)) = reserve_rows p"
  by (simp_all add: finalizePoolReserves_def reserve_rows_def Let_def)

lemma pool_ok_finalize: "keyed rs_AssetID (pb_reserves p) \<Longrightarrow> pool_ok (finalizePoolReserves p)"
  by (simp add: pool_ok_def reserve_rows_def named_keyed)

lemma pool_ok_state [simp]: "pool_ok (p\<lparr>pb_state := st\<rparr>) \<longleftrightarrow> pool_ok p"
  by (simp add: pool_ok_def reserve_rows_def)

lemma ensurePool_ok: "pools_ok m \<Longrightarrow> pool_ok (ensurePool m cid)"
  by (auto simp: pools_ok_def ensurePool_def pool_ok_def reserve_rows_def named_reserves_def publishedReserveIndexes_def
    split: option.split)

lemma ensurePool_id: "pools_ok m \<Longrightarrow> bp_ContractID (pb_state (ensurePool m cid)) = cid"
  by (auto simp: pools_ok_def ensurePool_def split: option.split dest: keyed_get)

lemma ensurePool_keyed: "pools_ok m \<Longrightarrow> keyed rs_AssetID (pb_reserves (ensurePool m cid))"
  using ensurePool_ok [of m cid] by (simp add: pool_ok_def)

lemma ensureReserve_id: "keyed rs_AssetID (pb_reserves p) \<Longrightarrow> rs_AssetID (ensureReserve p asset) = asset"
  by (auto simp: ensureReserve_def split: option.split dest: keyed_get)

lemma putReserve_keyed: "keyed rs_AssetID (pb_reserves p) \<Longrightarrow> rs_AssetID r = asset \<Longrightarrow> keyed rs_AssetID (pb_reserves (putReserve asset r p))"
  by (auto simp: putReserve_def)

lemma putReserve_state [simp]: "pb_state (putReserve asset r p) = pb_state p"
  by (simp add: putReserve_def)

lemma pools_ok_set: "pools_ok m \<Longrightarrow> pool_ok p \<Longrightarrow> bp_ContractID (pb_state p) = cid \<Longrightarrow> pools_ok (gm_set cid p m)"
  by (auto simp: pools_ok_def gm_simps)

lemma pools_ok_del: "pools_ok m \<Longrightarrow> pools_ok (gm_del cid m)"
  by (auto simp: pools_ok_def gm_simps keyed_def intro: gm.ok_del dest: subsetD [OF set_gm_del] split: if_splits)

lemma pools_ok_get: "pools_ok m \<Longrightarrow> gm_get m cid = Some p \<Longrightarrow> pool_ok p \<and> keyed rs_AssetID (pb_reserves p) \<and> bp_ContractID (pb_state p) = cid"
  by (auto simp: pools_ok_def pool_ok_def dest: keyed_get)

lemma gm_get_del_keyed: "keyed key m \<Longrightarrow> gm_get (gm_del k m) k' = (if k' = k then None else gm_get m k')"
  by (simp add: keyed_def gm.get_del)

section \<open>Steps\<close>

text \<open>
  A step keeps the builder well formed, and what it changes of a holder or of a temporary entry is
  in the dirty set afterwards.
\<close>

definition users_tracked :: "bl_builder \<Rightarrow> bl_builder \<Rightarrow> bool" where
  "users_tracked b b' \<longleftrightarrow> (\<forall>k. gm_get (b_dirtyUsers b') k = None \<longrightarrow>
     gm_get (b_dirtyUsers b) k = None \<and> gm_get (b_pendingPos b') k = gm_get (b_pendingPos b) k)"

definition temporary_tracked :: "bl_builder \<Rightarrow> bl_builder \<Rightarrow> bool" where
  "temporary_tracked b b' \<longleftrightarrow> (\<forall>k. gm_get (b_dirtyTemporary b') k = None \<longrightarrow> gm_get (b_dirtyTemporary b) k = None
     \<and> gm_get (b_auctions b') k = gm_get (b_auctions b) k \<and> gm_get (b_queuedReserves b') k = gm_get (b_queuedReserves b) k)"

text \<open>
  The blob of a holder is what its text decodes to, or nothing under an empty text, or the one that
  was held before.
\<close>

definition readable :: "sdk \<Rightarrow> pending_positions \<Rightarrow> bool" where
  "readable S p \<longleftrightarrow> decodeScValBase64 S (pp_valueXDR p) = Some (pp_positions p) \<or> (pp_valueXDR p = [] \<and> pp_positions p = sc_zero)"

definition blobs_tracked :: "sdk \<Rightarrow> bl_builder \<Rightarrow> bl_builder \<Rightarrow> bool" where
  "blobs_tracked S b b' \<longleftrightarrow> (\<forall>k p. gm_get (b_pendingPos b') k = Some p \<longrightarrow> readable S p
     \<or> (\<exists>q. gm_get (b_pendingPos b) k = Some q \<and> pp_positions q = pp_positions p \<and> pp_valueXDR q = pp_valueXDR p))"

text \<open>
  Who holds an entry or a mark under a key is an address the ledger spelled, or who held it before;
  what the adapter owns and the diagnostics are not touched.
\<close>

definition address_text :: "sdk \<Rightarrow> string \<Rightarrow> bool" where
  "address_text S user \<longleftrightarrow> (\<exists>v. scAddress S v = Some user)"

definition holders_tracked :: "sdk \<Rightarrow> bl_builder \<Rightarrow> bl_builder \<Rightarrow> bool" where
  "holders_tracked S b b' \<longleftrightarrow>
     (\<forall>k p. gm_get (b_pendingPos b') k = Some p \<longrightarrow> address_text S (pp_user p)
        \<or> (\<exists>q. gm_get (b_pendingPos b) k = Some q \<and> pp_user q = pp_user p \<and> pp_poolContract q = pp_poolContract p))
     \<and> (\<forall>k u. gm_get (b_dirtyUsers b') k = Some u \<longrightarrow> address_text S (ui_address u) \<or> gm_get (b_dirtyUsers b) k = Some u)"

definition owner :: "bl_builder \<Rightarrow> string set \<times> string set \<times> string set \<times> string set \<times> string \<times> int \<times> decode_diagnostic list" where
  "owner b = (b_owned b, b_ownedAssets b, b_ownedFeeds b, b_ownedComets b, b_protocol b, b_ledgerSeq b, b_diagnostics b)"

lemma holders_trans:
  assumes "holders_tracked S b b'" and "holders_tracked S b' b''"
  shows "holders_tracked S b b''"
  unfolding holders_tracked_def
proof (intro conjI allI impI)
  fix k p
  assume "gm_get (b_pendingPos b'') k = Some p"
  then consider "address_text S (pp_user p)"
    | q where "gm_get (b_pendingPos b') k = Some q" "pp_user q = pp_user p" "pp_poolContract q = pp_poolContract p"
    using assms(2) unfolding holders_tracked_def by blast
  then show "address_text S (pp_user p) \<or> (\<exists>q. gm_get (b_pendingPos b) k = Some q \<and> pp_user q = pp_user p \<and> pp_poolContract q = pp_poolContract p)"
    using assms(1) unfolding holders_tracked_def by cases fastforce+
next
  fix k u
  assume "gm_get (b_dirtyUsers b'') k = Some u"
  then show "address_text S (ui_address u) \<or> gm_get (b_dirtyUsers b) k = Some u"
    using assms unfolding holders_tracked_def by blast
qed

definition step_ok :: "sdk \<Rightarrow> bl_builder \<Rightarrow> bl_builder \<Rightarrow> bool" where
  "step_ok S b b' \<longleftrightarrow> owner b' = owner b
     \<and> (bl_ok b \<longrightarrow> bl_ok b' \<and> users_tracked b b' \<and> temporary_tracked b b' \<and> blobs_tracked S b b' \<and> holders_tracked S b b')"

lemma step_okI: "owner b' = owner b
  \<Longrightarrow> (bl_ok b \<Longrightarrow> bl_ok b' \<and> users_tracked b b' \<and> temporary_tracked b b' \<and> blobs_tracked S b b' \<and> holders_tracked S b b') \<Longrightarrow> step_ok S b b'"
  by (simp add: step_ok_def)

lemma step_refl [simp]: "step_ok S b b"
  by (auto simp: step_ok_def users_tracked_def temporary_tracked_def blobs_tracked_def holders_tracked_def)

lemma blobs_trans: "blobs_tracked S b b' \<Longrightarrow> blobs_tracked S b' b'' \<Longrightarrow> blobs_tracked S b b''"
  unfolding blobs_tracked_def readable_def by metis

lemma users_trans: "users_tracked b b' \<Longrightarrow> users_tracked b' b'' \<Longrightarrow> users_tracked b b''"
  unfolding users_tracked_def by metis

lemma temporary_trans: "temporary_tracked b b' \<Longrightarrow> temporary_tracked b' b'' \<Longrightarrow> temporary_tracked b b''"
  unfolding temporary_tracked_def by metis

lemma step_trans:
  assumes "step_ok S b b'" and "step_ok S b' b''"
  shows "step_ok S b b''"
proof (rule step_okI)
  show "owner b'' = owner b" using assms by (simp add: step_ok_def)
  assume "bl_ok b"
  then have one: "bl_ok b'" "users_tracked b b'" "temporary_tracked b b'" "blobs_tracked S b b'" "holders_tracked S b b'"
    using assms(1) by (simp_all add: step_ok_def)
  then have two: "bl_ok b''" "users_tracked b' b''" "temporary_tracked b' b''" "blobs_tracked S b' b''" "holders_tracked S b' b''"
    using assms(2) by (simp_all add: step_ok_def)
  show "bl_ok b'' \<and> users_tracked b b'' \<and> temporary_tracked b b'' \<and> blobs_tracked S b b'' \<and> holders_tracked S b b''"
    using two(1) users_trans [OF one(2) two(2)] temporary_trans [OF one(3) two(3)] blobs_trans [OF one(4) two(4)]
      holders_trans [OF one(5) two(5)] by blast
qed

lemma step_if_ok: "(\<And>a. x = Some a \<Longrightarrow> step_ok S b (f a b)) \<Longrightarrow> step_ok S b (if_ok x f b)"
  by (auto simp: if_ok_def split: option.split)

lemma step_run: "(\<And>x b. step_ok S b (f x b)) \<Longrightarrow> step_ok S b (run f xs b)"
proof (induction xs arbitrary: b)
  case (Cons x xs)
  then show ?case by (auto intro: step_trans)
qed simp

text \<open>A step that leaves the holders and the temporary entries alone.\<close>

lemma step_frame:
  assumes "b_pendingPos b' = b_pendingPos b" and "b_dirtyUsers b' = b_dirtyUsers b" and "b_auctions b' = b_auctions b"
    and "b_queuedReserves b' = b_queuedReserves b" and "b_dirtyTemporary b' = b_dirtyTemporary b" and "owner b' = owner b"
    and "bl_ok b \<Longrightarrow> bl_ok b'"
  shows "step_ok S b b'"
  using assms by (auto simp: step_ok_def users_tracked_def temporary_tracked_def blobs_tracked_def holders_tracked_def)

section \<open>Primitive steps\<close>

lemma step_addDelta [simp]: "step_ok S b (addDelta typ key live st ledger b)"
  by (rule step_frame) (simp_all add: addDelta_def owner_def bl_ok_defs)

lemma step_addDelta_after: "step_ok S b b' \<Longrightarrow> step_ok S b (addDelta typ key live st ledger b')"
  by (erule step_trans) simp

lemma step_pools:
  assumes "bl_ok b \<Longrightarrow> pools_ok m"
  shows "step_ok S b (b\<lparr>b_pools := m\<rparr>)"
  using assms by (intro step_frame) (simp_all add: owner_def bl_ok_defs)

lemma step_putPool:
  assumes "bl_ok b \<Longrightarrow> pool_ok p \<and> bp_ContractID (pb_state p) = cid"
  shows "step_ok S b (putPool cid p b)"
  using assms unfolding putPool_def by (intro step_pools pools_ok_set) (simp_all add: bl_ok_def)

lemma step_pool_delta: "step_ok S b b' \<Longrightarrow> step_ok S b (pool_delta cid ledger b')"
  by (simp add: pool_delta_def step_addDelta_after)

lemma step_reserve_delta: "step_ok S b b' \<Longrightarrow> step_ok S b (reserve_delta cid asset ledger b')"
  by (simp add: reserve_delta_def step_addDelta_after)

lemma step_backstopUsers:
  assumes "bl_ok b \<Longrightarrow> keyed backstop_key m"
  shows "step_ok S b (b\<lparr>b_backstopUsers := m\<rparr>)"
  using assms by (intro step_frame) (simp_all add: owner_def bl_ok_defs)

lemma step_instances:
  assumes "bl_ok b \<Longrightarrow> keyed bi_ContractID m"
  shows "step_ok S b (b\<lparr>b_backstopInstances := m\<rparr>)"
  using assms by (intro step_frame) (simp_all add: owner_def bl_ok_defs)

lemma step_comets:
  assumes "bl_ok b \<Longrightarrow> keyed cb_contractID m"
  shows "step_ok S b (b\<lparr>b_comets := m\<rparr>)"
  using assms by (intro step_frame) (simp_all add: owner_def bl_ok_defs)

lemma step_emissions:
  assumes "bl_ok b \<Longrightarrow> keyed emission_key m"
  shows "step_ok S b (b\<lparr>b_userEmis := m\<rparr>)"
  using assms by (intro step_frame) (simp_all add: owner_def bl_ok_defs)

lemma step_assets:
  assumes "bl_ok b \<Longrightarrow> keyed am_ContractID m"
  shows "step_ok S b (b\<lparr>b_assets := m\<rparr>)"
  using assms by (intro step_frame) (simp_all add: owner_def bl_ok_defs)

lemma step_oracles:
  assumes "bl_ok b \<Longrightarrow> gm_ok m"
  shows "step_ok S b (b\<lparr>b_oracles := m\<rparr>)"
  using assms by (intro step_frame) (simp_all add: owner_def bl_ok_defs)

lemma step_aggregators:
  assumes "bl_ok b \<Longrightarrow> gm_ok m"
  shows "step_ok S b (b\<lparr>b_aggregators := m\<rparr>)"
  using assms by (intro step_frame) (simp_all add: owner_def bl_ok_defs)

lemma step_feeds:
  assumes "bl_ok b \<Longrightarrow> gm_ok m"
  shows "step_ok S b (b\<lparr>b_feeds := m, b_changedFeeds := c\<rparr>)"
  using assms by (intro step_frame) (simp_all add: owner_def bl_ok_defs)

lemma step_scratch [simp]:
  "step_ok S b (b\<lparr>b_backstopPools := m1\<rparr>)" "step_ok S b (b\<lparr>b_backstopEmis := m2\<rparr>)" "step_ok S b (b\<lparr>b_changedPriceAssets := l1\<rparr>)"
  by (rule step_frame; simp add: owner_def bl_ok_defs)+

lemma step_markBackstopDirty [simp]: "step_ok S b (markBackstopDirty address pool b)"
  by (rule step_frame) (auto simp: markBackstopDirty_def owner_def bl_ok_defs identity_key_def typedUserEntityKey_def typedBackstopEntityKey_def)

lemma step_markBackstopPoolDirty [simp]: "step_ok S b (markBackstopPoolDirty pool b)"
  by (simp add: markBackstopPoolDirty_def step_run)

lemma step_markCometDirty [simp]: "step_ok S b (markCometDirty c b)"
  by (simp add: markCometDirty_def step_run)

lemma step_markPriceAssetDirty [simp]: "step_ok S b (markPriceAssetDirty a b)"
  by (simp add: markPriceAssetDirty_def step_run)

lemma step_markOraclePriceAssetDirty [simp]: "step_ok S b (markOraclePriceAssetDirty o' i b)"
  by (auto simp: markOraclePriceAssetDirty_def split: option.split)

text \<open>Marking after a step is a step.\<close>

lemma step_mark_after:
  "step_ok S b b' \<Longrightarrow> step_ok S b (markBackstopDirty address pool b')"
  "step_ok S b b' \<Longrightarrow> step_ok S b (markBackstopPoolDirty pool b')"
  "step_ok S b b' \<Longrightarrow> step_ok S b (markCometDirty c b')"
  "step_ok S b b' \<Longrightarrow> step_ok S b (markOraclePriceAssetDirty o' i b')"
  by (erule step_trans; simp)+

text \<open>A holder or a temporary entry is written or removed together with its mark.\<close>

lemma step_user:
  assumes "bl_ok b \<Longrightarrow> keyed pending_key m" and "\<And>k'. k' \<noteq> k \<Longrightarrow> bl_ok b \<Longrightarrow> gm_get m k' = gm_get (b_pendingPos b) k'"
    and "identity_key u = k"
    and "\<And>p. bl_ok b \<Longrightarrow> gm_get m k = Some p \<Longrightarrow> readable S p
      \<or> (\<exists>q. gm_get (b_pendingPos b) k = Some q \<and> pp_positions q = pp_positions p \<and> pp_valueXDR q = pp_valueXDR p)"
    and "address_text S (ui_address u)" and "\<And>p. bl_ok b \<Longrightarrow> gm_get m k = Some p \<Longrightarrow> address_text S (pp_user p) \<or> gm_get (b_pendingPos b) k = Some p"
  shows "step_ok S b (b\<lparr>b_pendingPos := m, b_dirtyUsers := gm_set k u (b_dirtyUsers b)\<rparr>)"
proof (rule step_okI)
  show "owner (b\<lparr>b_pendingPos := m, b_dirtyUsers := gm_set k u (b_dirtyUsers b)\<rparr>) = owner b" by (simp add: owner_def)
  assume ok: "bl_ok b"
  have "holders_tracked S b (b\<lparr>b_pendingPos := m, b_dirtyUsers := gm_set k u (b_dirtyUsers b)\<rparr>)"
    unfolding holders_tracked_def
  proof (intro conjI allI impI)
    fix k' p
    assume "gm_get (b_pendingPos (b\<lparr>b_pendingPos := m, b_dirtyUsers := gm_set k u (b_dirtyUsers b)\<rparr>)) k' = Some p"
    then show "address_text S (pp_user p) \<or> (\<exists>q. gm_get (b_pendingPos b) k' = Some q \<and> pp_user q = pp_user p \<and> pp_poolContract q = pp_poolContract p)"
      using assms(2) [of k'] assms(6) [of p] ok by (cases "k' = k") auto
  next
    fix k' w
    assume "gm_get (b_dirtyUsers (b\<lparr>b_pendingPos := m, b_dirtyUsers := gm_set k u (b_dirtyUsers b)\<rparr>)) k' = Some w"
    then show "address_text S (ui_address w) \<or> gm_get (b_dirtyUsers b) k' = Some w"
      using assms(5) by (auto simp: gm_simps split: if_splits)
  qed
  moreover have "blobs_tracked S b (b\<lparr>b_pendingPos := m, b_dirtyUsers := gm_set k u (b_dirtyUsers b)\<rparr>)"
    unfolding blobs_tracked_def
  proof (intro allI impI)
    fix k' p
    assume "gm_get (b_pendingPos (b\<lparr>b_pendingPos := m, b_dirtyUsers := gm_set k u (b_dirtyUsers b)\<rparr>)) k' = Some p"
    then show "readable S p \<or> (\<exists>q. gm_get (b_pendingPos b) k' = Some q \<and> pp_positions q = pp_positions p \<and> pp_valueXDR q = pp_valueXDR p)"
      using assms(2) [of k'] assms(4) [of p] ok by (cases "k' = k") auto
  qed
  moreover have "users_tracked b (b\<lparr>b_pendingPos := m, b_dirtyUsers := gm_set k u (b_dirtyUsers b)\<rparr>)"
    using assms(2) ok by (auto simp: users_tracked_def gm_simps split: if_splits)
  moreover have "bl_ok (b\<lparr>b_pendingPos := m, b_dirtyUsers := gm_set k u (b_dirtyUsers b)\<rparr>)"
    using ok assms(1,3) by (auto simp: bl_ok_defs)
  ultimately show "bl_ok (b\<lparr>b_pendingPos := m, b_dirtyUsers := gm_set k u (b_dirtyUsers b)\<rparr>)
      \<and> users_tracked b (b\<lparr>b_pendingPos := m, b_dirtyUsers := gm_set k u (b_dirtyUsers b)\<rparr>)
      \<and> temporary_tracked b (b\<lparr>b_pendingPos := m, b_dirtyUsers := gm_set k u (b_dirtyUsers b)\<rparr>)
      \<and> blobs_tracked S b (b\<lparr>b_pendingPos := m, b_dirtyUsers := gm_set k u (b_dirtyUsers b)\<rparr>)
      \<and> holders_tracked S b (b\<lparr>b_pendingPos := m, b_dirtyUsers := gm_set k u (b_dirtyUsers b)\<rparr>)"
    by (simp add: temporary_tracked_def)
qed

lemma step_temporary:
  assumes "bl_ok b \<Longrightarrow> keyed auction_key m" and "bl_ok b \<Longrightarrow> keyed queued_key n"
    and "\<And>k'. k' \<noteq> k \<Longrightarrow> bl_ok b \<Longrightarrow> gm_get m k' = gm_get (b_auctions b) k' \<and> gm_get n k' = gm_get (b_queuedReserves b) k'"
    and "change_key c = k"
  shows "step_ok S b (b\<lparr>b_auctions := m, b_queuedReserves := n, b_dirtyTemporary := gm_set k c (b_dirtyTemporary b)\<rparr>)"
  using assms by (intro step_okI) (auto simp: owner_def bl_ok_defs users_tracked_def temporary_tracked_def blobs_tracked_def holders_tracked_def gm_simps split: if_splits)

section \<open>Live entries\<close>

lemma step_putInstance: "bi_ContractID i = cid \<Longrightarrow> step_ok S b (putInstance cid i ledger b)"
  by (auto simp: putInstance_def bl_ok_defs intro!: step_addDelta_after step_instances)

lemma ensureBackstopInstance_id: "keyed bi_ContractID m \<Longrightarrow> bi_ContractID (ensureBackstopInstance m cid) = cid"
  by (auto simp: ensureBackstopInstance_def split: option.split dest: keyed_get)

lemma step_comet_set:
  assumes "bl_ok b \<Longrightarrow> cb_contractID c = cid"
  shows "step_ok S b (b\<lparr>b_comets := gm_set cid c (b_comets b)\<rparr>)"
  using assms by (intro step_comets) (auto simp: bl_ok_defs)

lemma ensureComet_id: "keyed cb_contractID m \<Longrightarrow> cb_contractID (ensureComet m cid) = cid"
  by (auto simp: ensureComet_def split: option.split dest: keyed_get)

lemma comet_write_id: "comet_write S key v = Some f \<Longrightarrow> cb_contractID (f c) = cb_contractID c"
  by (auto simp: comet_write_def if_ok_def split: if_splits option.splits prod.splits list.splits)

lemma comet_clear_id: "comet_clear key = Some f \<Longrightarrow> cb_contractID (f c) = cb_contractID c"
  by (auto simp: comet_clear_def split: if_splits option.splits prod.splits list.splits)

lemma step_applyCometChange [simp]: "step_ok S b (applyCometChange S cid key v b)"
proof (cases "comet_write S key v")
  case (Some f)
  have "step_ok S b (b\<lparr>b_comets := gm_set cid (f (ensureComet (b_comets b) cid)) (b_comets b)\<rparr>)"
    using comet_write_id [OF Some] by (intro step_comet_set) (auto simp: bl_ok_defs ensureComet_id)
  with Some show ?thesis by (simp add: applyCometChange_def step_mark_after)
qed (simp add: applyCometChange_def)

lemma step_applyCometDelete [simp]: "step_ok S b (applyCometDelete cid key b)"
proof (cases "gm_get (b_comets b) cid")
  case (Some c)
  have id: "cb_contractID c = cid" if "bl_ok b" using Some that by (auto simp: bl_ok_defs dest: keyed_get)
  have "step_ok S b (markCometDirty cid (b\<lparr>b_comets := gm_set cid (f c) (b_comets b)\<rparr>))" if "comet_clear key = Some f" for f
    using id comet_clear_id [OF that] by (intro step_mark_after step_comet_set) simp
  then show ?thesis using Some id by (auto simp: applyCometDelete_def intro!: step_comet_set split: option.split)
qed (simp add: applyCometDelete_def)

lemma applyOracleInstance_step: "applyOracleInstance S cid v b = Some b' \<Longrightarrow> step_ok S b b'"
  by (auto simp: applyOracleInstance_def Let_def bl_ok_defs gm.ok_upd intro!: step_oracles split: option.splits prod.splits)

lemma applyAggregatorInstance_step: "applyAggregatorInstance S cid v b = Some b' \<Longrightarrow> step_ok S b b'"
  by (auto simp: applyAggregatorInstance_def bl_ok_defs gm.ok_upd intro!: step_aggregators)

lemma step_oracle_set: "step_ok S b (b\<lparr>b_oracles := gm_set cid o' (b_oracles b)\<rparr>)"
  by (intro step_oracles) (simp add: bl_ok_defs gm.ok_upd)

lemma step_applyOraclePrice [simp]: "step_ok S b (applyOraclePrice cid key v b)"
  by (simp add: applyOraclePrice_def Let_def step_mark_after step_oracle_set split: option.split)

lemma oracle_entry_step: "oracle_entry S cid key v b = Some b' \<Longrightarrow> step_ok S b b'"
  by (auto simp: oracle_entry_def split: if_splits option.splits dest: applyOracleInstance_step applyAggregatorInstance_step)

text \<open>What decodes into the state of a pool or a reserve leaves its id.\<close>

lemma int_field_frame: "(\<And>f s. g (upd f s) = g s) \<Longrightarrow> g (int_field fs name upd s) = g s"
  by (simp add: int_field_def if_ok_def split: option.split)

lemma if_ok_frame: "(\<And>a. g (f a s) = g s) \<Longrightarrow> g (if_ok x f s) = g s"
  by (simp add: if_ok_def split: option.split)

lemma run_frame: "(\<And>c s. g (step c s) = g s) \<Longrightarrow> g (run step cs s) = g s"
  by (induction cs arbitrary: s) simp_all

lemmas pool_id_frame = int_field_frame [where g = bp_ContractID] if_ok_frame [where g = bp_ContractID] run_frame [where g = bp_ContractID]
lemmas reserve_id_frame = int_field_frame [where g = rs_AssetID] if_ok_frame [where g = rs_AssetID]

lemma applyPoolConfig_id [simp]: "bp_ContractID (applyPoolConfig S v st) = bp_ContractID st"
  by (simp add: applyPoolConfig_def Let_def pool_id_frame)

lemma applyPoolInstanceStorage_id [simp]: "bp_ContractID (applyPoolInstanceStorage S storage st) = bp_ContractID st"
proof -
  have "bp_ContractID (pool_instance_entry S e st) = bp_ContractID st" for e st
    by (simp add: pool_instance_entry_def pool_id_frame split: option.split)
  then show ?thesis by (simp add: applyPoolInstanceStorage_def pool_id_frame split: option.split)
qed

lemma applyReserveConfig_id [simp]: "rs_AssetID (applyReserveConfig v r) = rs_AssetID r"
  by (simp add: applyReserveConfig_def Let_def reserve_id_frame)

lemma applyReserveData_id [simp]: "rs_AssetID (applyReserveData v r) = rs_AssetID r"
  by (simp add: applyReserveData_def Let_def reserve_id_frame)

lemma emis_id [simp]:
  "rs_AssetID (applyReserveEmisConfig side v r) = rs_AssetID r" "rs_AssetID (applyReserveEmisData side v r) = rs_AssetID r"
  "rs_AssetID (clearReserveEmisConfig side r) = rs_AssetID r" "rs_AssetID (clearReserveEmisData side r) = rs_AssetID r"
  by (simp_all add: applyReserveEmisConfig_def applyReserveEmisData_def clearReserveEmisConfig_def clearReserveEmisData_def
    Let_def reserve_id_frame)

lemma unarchived_id [simp]: "rs_AssetID (unarchived r) = rs_AssetID r"
  by (simp add: unarchived_def)

lemma step_pool_instance [simp]: "step_ok S b (pool_instance S cid hash v ledger b)"
  by (auto simp: pool_instance_def Let_def bl_ok_def ensurePool_ok ensurePool_id intro!: step_pool_delta step_putPool split: option.split)

lemma step_update_state:
  assumes "\<And>st. bp_ContractID (f st) = bp_ContractID st"
  shows "step_ok S b (update_state cid f ledger b)"
  using assms by (auto simp: update_state_def Let_def bl_ok_def ensurePool_ok ensurePool_id intro!: step_pool_delta step_putPool)

lemma step_ensurePool: "step_ok S b (putPool cid (ensurePool (b_pools b) cid) b)"
  by (rule step_putPool) (simp add: bl_ok_def ensurePool_ok ensurePool_id)

lemma step_reserve_write:
  assumes "\<And>r. rs_AssetID (f r) = rs_AssetID r"
  shows "step_ok S b (reserve_write f cid asset ledger b)"
  using assms unfolding reserve_write_def Let_def
  by (intro step_reserve_delta step_putPool)
    (simp add: bl_ok_def ensurePool_id pool_ok_finalize putReserve_keyed ensurePool_keyed ensureReserve_id)

lemma step_emission_write:
  assumes "\<And>side r. rs_AssetID (f side r) = rs_AssetID r"
  shows "step_ok S b (emission_write f cid args ledger b)"
  by (simp add: emission_write_def Let_def step_ensurePool step_reserve_write assms split: option.split)

lemma step_appendPoolReserves: "step_ok S b (appendPoolReserves cid ledger b)"
proof (cases "gm_get (b_pools b) cid")
  case (Some p)
  have "step_ok S b (putPool cid (p\<lparr>pb_reserves := named_reserves (pb_reserves p)\<rparr>) b)"
    using pools_ok_get [OF _ Some] by (intro step_putPool) (auto simp: bl_ok_def named_keyed)
  then have "step_ok S b (run (\<lambda>(asset, r). addDelta ''reserve'' (typedReserveEntityKey cid asset) True (Some (DeltaReserve r)) ledger) xs
      (putPool cid (p\<lparr>pb_reserves := named_reserves (pb_reserves p)\<rparr>) b))" for xs
    by (rule step_trans) (rule step_run, simp split: prod.split)
  with Some show ?thesis by (simp add: appendPoolReserves_def Let_def)
qed (simp add: appendPoolReserves_def)

lemma step_appendUserPositions: "step_ok S b (appendUserPositions ledger pending b)"
proof (cases "gm_get (b_pools b) (pp_poolContract pending)")
  case (Some p)
  then show ?thesis using pools_ok_get [OF _ Some]
    by (auto simp: appendUserPositions_def Let_def bl_ok_def pool_ok_finalize intro!: step_addDelta_after step_putPool)
qed (simp add: appendUserPositions_def)

lemma step_appendPoolUsers: "step_ok S b (appendPoolUsers cid ledger b)"
  by (simp add: appendPoolUsers_def step_run step_appendUserPositions)

lemma step_append_after:
  "step_ok S b b' \<Longrightarrow> step_ok S b (appendPoolUsers cid ledger b')"
  "step_ok S b b' \<Longrightarrow> step_ok S b (appendPoolReserves cid ledger b')"
  "step_ok S b b' \<Longrightarrow> step_ok S b (appendUserPositions ledger pending b')"
  by (erule step_trans, rule step_appendPoolUsers step_appendPoolReserves step_appendUserPositions)+

lemma applyReserveList_keeps:
  assumes "keyed rs_AssetID (pb_reserves p)"
  shows "keyed rs_AssetID (pb_reserves (applyReserveList S v p)) \<and> pb_state (applyReserveList S v p) = pb_state p"
proof -
  have "keyed rs_AssetID (pb_reserves (snd (foldl f (seen, p) items))) \<and> pb_state (snd (foldl f (seen, p) items)) = pb_state p"
    if f: "f = (\<lambda>(seen, pool) item. case scAddress S item of
            None \<Rightarrow> (seen, pool)
          | Some a \<Rightarrow> if a \<in> set seen then (seen, pool)
              else (a # seen, putReserve a (ensureReserve pool a) (pool\<lparr>pb_reserveList := pb_reserveList pool @ [a]\<rparr>)))"
    for seen items f
    using assms
  proof (induction items arbitrary: seen p)
    case (Cons x items)
    show ?case
    proof (cases "scAddress S x = None \<or> the (scAddress S x) \<in> set seen")
      case True
      then have "f (seen, p) x = (seen, p)" by (auto simp: f split: option.split)
      with Cons show ?thesis by simp
    next
      case False
      then obtain a where a: "scAddress S x = Some a" "a \<notin> set seen" by auto
      let ?p = "putReserve a (ensureReserve p a) (p\<lparr>pb_reserveList := pb_reserveList p @ [a]\<rparr>)"
      have "keyed rs_AssetID (pb_reserves ?p)"
        using Cons.prems by (simp add: putReserve_def keyed_set ensureReserve_id)
      from Cons.IH [OF this] a show ?thesis by (simp add: f)
    qed
  qed simp
  then show ?thesis using assms by (simp add: applyReserveList_def split: option.split)
qed

lemma step_apply_symbol [simp]: "step_ok S b (apply_symbol S cid symb v ledger b)"
proof -
  let ?p = "finalizePoolReserves (applyReserveList S v ((ensurePool (b_pools b) cid)\<lparr>pb_reserveList := []\<rparr>))"
  have list: "step_ok S b (putPool cid ?p b)"
    using applyReserveList_keeps [of "(ensurePool (b_pools b) cid)\<lparr>pb_reserveList := []\<rparr>" S v]
    by (intro step_putPool) (simp add: bl_ok_def ensurePool_keyed ensurePool_id pool_ok_finalize)
  have inst: "bi_ContractID (ensureBackstopInstance (b_backstopInstances b) cid) = cid" if "bl_ok b"
    using that by (simp add: bl_ok_defs ensureBackstopInstance_id)
  have put: "step_ok S b (putInstance cid (f (ensureBackstopInstance (b_backstopInstances b) cid)) ledger b)"
    if "\<And>i. bi_ContractID (f i) = bi_ContractID i" for f
    using inst that unfolding putInstance_def by (intro step_addDelta_after step_instances) (auto simp: bl_ok_defs)
  show ?thesis
    unfolding apply_symbol_def Let_def
    using list by (auto simp: if_ok_def step_ensurePool step_update_state step_oracle_set put step_append_after step_pool_delta
      split: option.split)
qed

lemma variant_address: "variantAddress S args = Some user \<Longrightarrow> address_text S user"
  by (auto simp: variantAddress_def address_text_def split: list.splits)

lemma step_positions_write: "decodeScValBase64 S raw = Some v \<Longrightarrow> address_text S user \<Longrightarrow> step_ok S b (positions_write S cid user v raw ledger b)"
  unfolding positions_write_def Let_def
  by (intro step_append_after step_user)
    (auto simp: bl_ok_defs gm_simps pending_key_def identity_key_def readable_def)

lemma step_backstop_delta [simp]: "step_ok S b (backstop_delta D u ledger b)"
  by (simp add: backstop_delta_def)

lemma step_appendBackstopUsersForPool: "step_ok S b b' \<Longrightarrow> step_ok S b (appendBackstopUsersForPool D pool ledger b')"
  by (erule step_trans) (simp add: appendBackstopUsersForPool_def step_run)

lemma step_putBackstopUser:
  assumes "bl_ok b \<Longrightarrow> backstop_key u = typedBackstopEntityKey user pool"
  shows "step_ok S b (putBackstopUser D pool user u ledger b)"
  using assms unfolding putBackstopUser_def Let_def
  by (intro step_addDelta_after step_mark_after step_backstopUsers) (auto simp: bl_ok_defs)

lemma step_dropBackstopUser: "step_ok S b b' \<Longrightarrow> step_ok S b (dropBackstopUser key ledger b')"
  unfolding dropBackstopUser_def
  by (erule step_trans) (auto simp: bl_ok_defs intro!: step_addDelta_after step_backstopUsers)

lemma backstop_get_key: "bl_ok b \<Longrightarrow> gm_get (b_backstopUsers b) key = Some u \<Longrightarrow> backstop_key u = key"
  by (auto simp: bl_ok_defs dest: keyed_get)

lemma backstop_key_update [simp]:
  "backstop_key (u\<lparr>bu_sharesRaw := x\<rparr>) = backstop_key u" "backstop_key (u\<lparr>bu_q4w := q\<rparr>) = backstop_key u"
  "backstop_key (u\<lparr>bu_emisIndexRaw := x\<rparr>) = backstop_key u" "backstop_key (u\<lparr>bu_emisAccruedRaw := x\<rparr>) = backstop_key u"
  by (simp_all add: backstop_key_def)

lemma decodeBackstopUserBalance_key: "backstop_key (decodeBackstopUserBalance pool user v) = typedBackstopEntityKey user pool"
  by (simp add: decodeBackstopUserBalance_def backstop_key_def Let_def int_field_def if_ok_def split: option.split)

lemma step_user_balance_write [simp]: "step_ok S b (user_balance_write D pool user v ledger b)"
  by (auto simp: user_balance_write_def Let_def decodeBackstopUserBalance_key intro!: step_putBackstopUser split: option.split)

lemma step_user_emission_write [simp]: "step_ok S b (user_emission_write D pool user v ledger b)"
  by (auto simp: user_emission_write_def Let_def backstop_get_key intro!: step_putBackstopUser split: option.split)
    (simp add: backstop_key_def)

lemma decodeAuctionState_key: "decodeAuctionState S cid user typ v = Some a \<Longrightarrow> auction_key a = typedAuctionEntityKey cid user typ"
  by (auto simp: decodeAuctionState_def auction_key_def split: option.splits)

lemma decodeQueuedReserve_key: "decodeQueuedReserve cid asset v = Some q \<Longrightarrow> queued_key q = typedReserveEntityKey cid asset"
  by (auto simp: decodeQueuedReserve_def queued_key_def Let_def split: option.splits)

lemma step_auction_set:
  assumes "bl_ok b \<Longrightarrow> keyed auction_key m" and "\<And>k'. k' \<noteq> k \<Longrightarrow> bl_ok b \<Longrightarrow> gm_get m k' = gm_get (b_auctions b) k'"
    and "change_key c = k"
  shows "step_ok S b (b\<lparr>b_auctions := m, b_dirtyTemporary := gm_set k c (b_dirtyTemporary b)\<rparr>)"
proof -
  have "step_ok S b (b\<lparr>b_auctions := m, b_queuedReserves := b_queuedReserves b, b_dirtyTemporary := gm_set k c (b_dirtyTemporary b)\<rparr>)"
    using assms by (intro step_temporary) (simp_all add: owner_def bl_ok_defs)
  then show ?thesis by simp
qed

lemma step_queued_set:
  assumes "bl_ok b \<Longrightarrow> keyed queued_key m" and "\<And>k'. k' \<noteq> k \<Longrightarrow> bl_ok b \<Longrightarrow> gm_get m k' = gm_get (b_queuedReserves b) k'"
    and "change_key c = k"
  shows "step_ok S b (b\<lparr>b_queuedReserves := m, b_dirtyTemporary := gm_set k c (b_dirtyTemporary b)\<rparr>)"
proof -
  have "step_ok S b (b\<lparr>b_auctions := b_auctions b, b_queuedReserves := m, b_dirtyTemporary := gm_set k c (b_dirtyTemporary b)\<rparr>)"
    using assms by (intro step_temporary) (simp_all add: owner_def bl_ok_defs)
  then show ?thesis by simp
qed

lemma change_keys [simp]:
  "change_key (auction_change cid user typ) = typedAuctionEntityKey cid user typ"
  "change_key (queued_change cid asset) = typedReserveEntityKey cid asset"
  by (simp_all add: change_key_def auction_change_def queued_change_def)

lemma step_auction_write [simp]: "step_ok S b (auction_write S cid user typ v ledger b)"
  unfolding auction_write_def Let_def
  by (auto simp: bl_ok_defs gm_simps decodeAuctionState_key intro!: step_if_ok step_addDelta_after step_auction_set)

lemma step_user_emis_write [simp]: "step_ok S b (user_emis_write cid user i v ledger b)"
  unfolding user_emis_write_def Let_def
  by (auto simp: bl_ok_defs emission_key_def intro!: step_if_ok step_addDelta_after step_emissions)

lemma step_queued_write [simp]: "step_ok S b (queued_write cid asset v ledger b)"
  unfolding queued_write_def Let_def
  by (auto simp: bl_ok_defs gm_simps decodeQueuedReserve_key intro!: step_if_ok step_addDelta_after step_queued_set)

lemma step_pool_balance_write [simp]: "step_ok S b (pool_balance_write D pool v ledger b)"
  unfolding pool_balance_write_def Let_def
  by (intro step_mark_after step_appendBackstopUsersForPool step_addDelta_after) simp

lemma step_config_write: "step_ok S b (appendPoolUsers cid ledger (reserve_write (\<lambda>r. unarchived (applyReserveConfig v r)) cid asset ledger b))"
  by (intro step_append_after step_reserve_write) simp

lemma step_apply_variant:
  assumes "decodeScValBase64 S raw = Some v"
  shows "step_ok S b (apply_variant S D cid variant args v raw ledger b)"
proof -
  have keep: "step_ok S b (if_ok x (\<lambda>a. f a) b)" if "\<And>a. step_ok S b (f a b)" for x :: "'x option" and f
    using that by (intro step_if_ok)
  have written: "step_ok S b (if_ok (variantAddress S args) (\<lambda>user. positions_write S cid user v raw ledger) b)"
    by (intro step_if_ok step_positions_write [OF assms] variant_address)
  show ?thesis
    unfolding apply_variant_def
    by (simp add: keep step_config_write step_reserve_write step_emission_write step_addDelta_after
      written split: prod.split)
qed

lemma applyAssetInstance_keyed: "keyed am_ContractID m \<Longrightarrow> keyed am_ContractID (applyAssetInstance S cid v m)"
proof -
  assume k: "keyed am_ContractID m"
  have "decodeSACAssetInfo S cid x = Some a \<Longrightarrow> am_ContractID a = cid" for x a
    by (auto simp: decodeSACAssetInfo_def split: option.splits prod.splits if_splits list.splits)
  moreover have "decodeSEP41Metadata cid x = Some a \<Longrightarrow> am_ContractID a = cid" for x a
    by (auto simp: decodeSEP41Metadata_def split: option.splits)
  ultimately have "keyed am_ContractID (asset_instance_entry S cid e m)" if "keyed am_ContractID m" for e m
    using that by (auto simp: asset_instance_entry_def if_ok_def split: option.split)
  then show ?thesis using k by (auto simp: applyAssetInstance_def intro: run_inv split: option.split prod.split)
qed

lemma gm_ok_applyFeedChange: "gm_ok feeds \<Longrightarrow> gm_ok (applyFeedChange S cid key v feeds)"
  by (auto simp: applyFeedChange_def applyFeedInstance_def gm.ok_upd split: scval.split option.split prod.split)

lemma gm_ok_applyFeedDelete: "gm_ok feeds \<Longrightarrow> gm_ok (applyFeedDelete cid key feeds)"
  by (auto simp: applyFeedDelete_def gm.ok_upd gm.ok_del Let_def split: scval.split option.split)

lemma applyBackstopInstance_id:
  assumes "bl_ok b" and "applyBackstopInstance S cid v b = Some i"
  shows "bi_ContractID i = cid"
proof -
  have "bi_ContractID (ensureBackstopInstance (b_backstopInstances b) cid) = cid"
    using assms(1) by (simp add: bl_ok_defs ensureBackstopInstance_id)
  with assms(2) show ?thesis
    by (auto simp only: applyBackstopInstance_def Let_def option.inject option.distinct split: option.splits prod.splits if_splits)
      (simp add: if_ok_frame [where g = bi_ContractID])
qed

lemma step_apply_live:
  assumes "decodeScValBase64 S raw = Some v"
  shows "step_ok S b (apply_live S D cid key v raw ledger b)"
proof -
  have feed: "step_ok S b (b\<lparr>b_feeds := applyFeedChange S cid key v (b_feeds b), b_changedFeeds := c\<rparr>)" for c
    by (intro step_feeds gm_ok_applyFeedChange) (simp add: bl_ok_defs)
  have asset: "step_ok S b (b\<lparr>b_assets := applyAssetInstance S cid v (b_assets b)\<rparr>)"
    by (intro step_assets applyAssetInstance_keyed) (simp add: bl_ok_defs)
  have inst: "step_ok S b (putInstance cid i ledger b)" if "applyBackstopInstance S cid v b = Some i" for i
    using applyBackstopInstance_id [OF _ that] unfolding putInstance_def
    by (intro step_addDelta_after step_instances) (auto simp: bl_ok_defs)
  show ?thesis
    by (simp add: apply_live_def feed asset inst oracle_entry_step step_apply_variant [OF assms] split: option.split)
qed

section \<open>Removed entries\<close>

lemma step_delete_symbol [simp]: "step_ok S b (delete_symbol cid symb ledger b)"
proof -
  have pool: "step_ok S b (b\<lparr>b_pools := gm_del cid (b_pools b)\<rparr>)"
    by (intro step_pools pools_ok_del) (simp add: bl_ok_def)
  have put: "step_ok S b (putInstance cid (f i) ledger b)"
    if "gm_get (b_backstopInstances b) cid = Some i" "\<And>i. bi_ContractID (f i) = bi_ContractID i" for f i
    using that keyed_get [OF _ that(1)] unfolding putInstance_def
    by (intro step_addDelta_after step_instances) (auto simp: bl_ok_defs)
  show ?thesis unfolding delete_symbol_def Let_def
    by (simp add: pool put step_addDelta_after step_update_state step_oracle_set split: option.split)
qed

lemma step_reserve_delete:
  assumes "\<And>v r. rs_AssetID (f v r) = rs_AssetID r"
  shows "step_ok S b (reserve_delete S f c asset ledger b)"
proof (cases "gm_get (b_pools b) (cd_ContractID c)")
  case (Some p)
  have "step_ok S b (putPool (cd_ContractID c) (finalizePoolReserves (p\<lparr>pb_reserves := gm_del asset (pb_reserves p)\<rparr>)) b)"
    using pools_ok_get [OF _ Some] by (intro step_putPool) (auto simp: bl_ok_def intro!: pool_ok_finalize)
  moreover have "step_ok S b (reserve_write (\<lambda>r. (if_ok x f r)\<lparr>rs_Archived := True, rs_ArchivedLedgerSeq := ledger\<rparr>) cid asset ledger b)" for x cid
    by (intro step_reserve_write) (simp add: if_ok_def assms split: option.split)
  ultimately show ?thesis
    using Some by (simp add: reserve_delete_def Let_def step_append_after step_addDelta_after)
qed (simp add: reserve_delete_def)

lemma step_emission_delete:
  assumes "\<And>side r. rs_AssetID (f side r) = rs_AssetID r"
  shows "step_ok S b (emission_delete f cid args ledger b)"
  by (simp add: emission_delete_def step_reserve_write assms split: option.split)

text \<open>An entry under the key of a holder that is removed or archived, with the mark of the holder.\<close>

lemma step_mark_user: "address_text S user \<Longrightarrow> step_ok S b (b\<lparr>b_dirtyUsers := gm_set (typedUserEntityKey user cid) \<lparr>ui_address = user, ui_pool = cid\<rparr> (b_dirtyUsers b)\<rparr>)"
proof -
  assume "address_text S user"
  then have "step_ok S b (b\<lparr>b_pendingPos := b_pendingPos b,
      b_dirtyUsers := gm_set (typedUserEntityKey user cid) \<lparr>ui_address = user, ui_pool = cid\<rparr> (b_dirtyUsers b)\<rparr>)"
    by (intro step_user) (auto simp: bl_ok_defs identity_key_def)
  then show ?thesis by simp
qed

text \<open>What is archived was held or reads.\<close>

lemma archived_from:
  assumes "archived_positions S c old = Some (v, raw)" and "pp_positions p = v" and "pp_valueXDR p = raw"
  shows "readable S p \<or> (\<exists>q. old = Some q \<and> pp_positions q = pp_positions p \<and> pp_valueXDR q = pp_valueXDR p)"
  using assms by (auto simp: archived_positions_def readable_def Let_def split: option.splits)

lemma step_positions_delete: 
  assumes user: "address_text S user"
  shows "step_ok S b (positions_delete S c user ledger b)"
proof -
  let ?cid = "cd_ContractID c"
  let ?k = "typedUserEntityKey user ?cid" and ?u = "\<lparr>ui_address = user, ui_pool = ?cid\<rparr>"
  have written: "step_ok S b (b\<lparr>b_pendingPos := m, b_dirtyUsers := gm_set ?k ?u (b_dirtyUsers b)\<rparr>)"
    if "bl_ok b \<Longrightarrow> keyed pending_key m" "\<And>k'. k' \<noteq> ?k \<Longrightarrow> bl_ok b \<Longrightarrow> gm_get m k' = gm_get (b_pendingPos b) k'"
      "\<And>p. bl_ok b \<Longrightarrow> gm_get m ?k = Some p \<Longrightarrow> readable S p
        \<or> (\<exists>q. gm_get (b_pendingPos b) ?k = Some q \<and> pp_positions q = pp_positions p \<and> pp_valueXDR q = pp_valueXDR p)"
      "\<And>p. bl_ok b \<Longrightarrow> gm_get m ?k = Some p \<Longrightarrow> pp_user p = user" for m
    by (rule step_user) (simp_all add: that identity_key_def user)
  have del: "step_ok S b (b\<lparr>b_pendingPos := gm_del ?k (b_pendingPos b), b_dirtyUsers := gm_set ?k ?u (b_dirtyUsers b)\<rparr>)"
    by (rule written) (auto simp: bl_ok_defs gm_get_del_keyed)
  have put: "step_ok S b (b\<lparr>b_pendingPos := gm_set ?k p (b_pendingPos b), b_dirtyUsers := gm_set ?k ?u (b_dirtyUsers b)\<rparr>)"
    if "pending_key p = ?k" "pp_user p = user" "readable S p
      \<or> (\<exists>q. gm_get (b_pendingPos b) ?k = Some q \<and> pp_positions q = pp_positions p \<and> pp_valueXDR q = pp_valueXDR p)" for p
    by (rule written) (use that in \<open>auto simp: bl_ok_defs gm_simps\<close>)
  have swap: "b\<lparr>b_dirtyUsers := d, b_pendingPos := m\<rparr> = b\<lparr>b_pendingPos := m, b_dirtyUsers := d\<rparr>" for d m by simp
  have arch: "step_ok S b (b\<lparr>b_pendingPos := gm_set ?k \<lparr>pp_poolContract = ?cid, pp_user = user, pp_positions = v, pp_valueXDR = raw,
        pp_archived = True, pp_archivedLedgerSeq = ledger\<rparr> (b_pendingPos b), b_dirtyUsers := gm_set ?k ?u (b_dirtyUsers b)\<rparr>)"
    if "archived_positions S c (gm_get (b_pendingPos b) ?k) = Some (v, raw)" for v raw
    using archived_from [OF that] by (intro put) (simp_all add: pending_key_def)
  show ?thesis
    unfolding positions_delete_def Let_def
    using del by (simp add: swap step_mark_user [OF user] step_addDelta_after step_append_after arch split: option.split)
qed

lemma step_user_balance_delete [simp]: "step_ok S b (user_balance_delete D pool user ledger b)"
proof (cases "gm_get (b_backstopUsers b) (typedBackstopEntityKey user pool)")
  case None
  then show ?thesis
    by (simp add: user_balance_delete_def Let_def step_dropBackstopUser markBackstopDirty_def
      step_markBackstopDirty [unfolded markBackstopDirty_def])
next
  case (Some u)
  have "step_ok S (markBackstopDirty user pool b) (putBackstopUser D pool user (u\<lparr>bu_sharesRaw := x, bu_q4w := q\<rparr>) ledger (markBackstopDirty user pool b))" for x q
    by (rule step_putBackstopUser) (use Some backstop_get_key [of "markBackstopDirty user pool b"] in \<open>simp add: markBackstopDirty_def\<close>)
  then have "step_ok S b (putBackstopUser D pool user (u\<lparr>bu_sharesRaw := x, bu_q4w := q\<rparr>) ledger (markBackstopDirty user pool b))" for x q
    by (rule step_trans [OF step_markBackstopDirty])
  moreover have "gm_get (b_backstopUsers (markBackstopDirty user pool b)) (typedBackstopEntityKey user pool) = Some u"
    using Some by (simp add: markBackstopDirty_def)
  ultimately show ?thesis
    by (simp add: user_balance_delete_def Let_def step_dropBackstopUser)
qed

lemma step_user_emission_delete [simp]: "step_ok S b (user_emission_delete D pool user ledger b)"
  by (auto simp: user_emission_delete_def Let_def step_dropBackstopUser backstop_get_key intro!: step_putBackstopUser split: option.split)

lemma step_delete_variant [simp]: "step_ok S b (delete_variant S D c variant args ledger b)"
proof -
  have keep: "step_ok S b (if_ok x (\<lambda>a. f a) b)" if "\<And>a. step_ok S b (f a b)" for x :: "'x option" and f
    using that by (intro step_if_ok)
  have users: "step_ok S b (b\<lparr>b_userEmis := gm_del key (b_userEmis b)\<rparr>)" for key
    by (intro step_emissions) (auto simp: bl_ok_defs)
  have auctions: "step_ok S b (b\<lparr>b_auctions := gm_del k (b_auctions b), b_dirtyTemporary := gm_set k x (b_dirtyTemporary b)\<rparr>)"
    if "change_key x = k" for k x
    using that by (intro step_auction_set) (auto simp: bl_ok_defs gm_get_del_keyed)
  have queued: "step_ok S b (b\<lparr>b_queuedReserves := gm_del k (b_queuedReserves b), b_dirtyTemporary := gm_set k x (b_dirtyTemporary b)\<rparr>)"
    if "change_key x = k" for k x
    using that by (intro step_queued_set) (auto simp: bl_ok_defs gm_get_del_keyed)
  have deleted: "step_ok S b (if_ok (variantAddress S args) (\<lambda>user. positions_delete S c user ledger) b)"
    by (intro step_if_ok step_positions_delete variant_address)
  show ?thesis
    unfolding delete_variant_def Let_def
    by (simp add: keep users auctions queued step_reserve_delete step_emission_delete step_addDelta_after step_mark_after
      deleted step_appendBackstopUsersForPool split: prod.split)
qed

lemma step_applyDelete: "step_ok S b (applyDelete S D c key ledger b)"
proof -
  let ?cid = "cd_ContractID c"
  have feed: "step_ok S b (b\<lparr>b_feeds := applyFeedDelete ?cid key (b_feeds b), b_changedFeeds := x\<rparr>)" for x
    by (intro step_feeds gm_ok_applyFeedDelete) (simp add: bl_ok_defs)
  have asset: "step_ok S b (b\<lparr>b_assets := gm_del ?cid (b_assets b)\<rparr>)"
    by (intro step_assets) (auto simp: bl_ok_defs)
  have price: "step_ok S b (delete_oracle_price ?cid key b)"
    by (simp add: delete_oracle_price_def Let_def step_mark_after step_oracle_set split: option.split)
  have agg: "step_ok S b (b\<lparr>b_aggregators := gm_del ?cid (b_aggregators b)\<rparr>)"
    by (intro step_aggregators) (simp add: bl_ok_defs gm.ok_del)
  have drop: "step_ok S b (b\<lparr>b_aggregators := gm_del ?cid (b_aggregators b), b_backstopInstances := gm_del ?cid (b_backstopInstances b)\<rparr>)"
    by (rule step_frame) (auto simp: owner_def bl_ok_defs gm.ok_del)
  have inst: "step_ok S b (delete_instance ?cid ledger b)"
    using agg drop by (simp add: delete_instance_def Let_def step_addDelta_after)
  show ?thesis
    by (simp add: applyDelete_def Let_def feed asset price inst split: option.split)
qed

section \<open>The loop over the changes\<close>

lemma step_bl_apply: "step_ok S b (bl_apply S D ledger c b)"
  by (simp add: bl_apply_def step_applyDelete step_apply_live split: option.split)

interpretation bl: inv_fold "bl_apply S D ledger" bl_ok for S :: sdk and D :: "'d decimal_ops" and ledger
  by unfold_locales (metis step_bl_apply step_ok_def)

lemma step_changes: "step_ok S b (run (bl_apply S D ledger) cs b)"
  by (rule step_run) (rule step_bl_apply)

end
