(* ===== verification/Blend_Reports.thy ===== *)
theory Blend_Reports
  imports Blend_Tracking
begin

text \<open>
  What a decoded ledger of Blend promises (src/blend/state.go): canonical slices, position rows that
  account for every leg, dirty sets that name everything that changed, archives for what lapsed.
\<close>

section \<open>The loaded builder\<close>

lemma load_pool_ok:
  assumes "bl_ok b"
  shows "bl_ok (load_pool st b)"
proof -
  have "keyed rs_AssetID (pb_reserves (ensurePool (b_pools b) (bp_ContractID st)))"
    using assms by (simp add: bl_ok_def ensurePool_keyed)
  then have "pools_ok (gm_set (bp_ContractID st) (finalizePoolReserves ((ensurePool (b_pools b) (bp_ContractID st))
      \<lparr>pb_state := st, pb_reserves := gm.load rs_AssetID (\<lambda>r. r) (bp_Reserves st) (pb_reserves (ensurePool (b_pools b) (bp_ContractID st)))\<rparr>)) (b_pools b))"
    using assms by (intro pools_ok_set pool_ok_finalize) (simp_all add: bl_ok_def keyed_load)
  then show ?thesis using assms by (simp add: load_pool_def Let_def putPool_def bl_ok_defs)
qed

lemma load_keyed_by:
  assumes "keyed key' m" and "\<And>x. key' (val x) = key x"
  shows "keyed key' (gm.load key val xs m)"
  using assms(1) by (induction xs arbitrary: m) (simp_all add: keyed_set assms(2))

lemma load_pending_keyed: "keyed pending_key m \<Longrightarrow> keyed pending_key (load_pending S p m)"
  by (auto simp: load_pending_def pending_key_def split: option.split)

lemma restore_token_id: "cb_contractID (restore_token t c) = cb_contractID c"
  by (simp add: restore_token_def Let_def)

lemma restoreComet_keyed: "keyed cb_contractID m \<Longrightarrow> keyed cb_contractID (restoreComet st m)"
  unfolding restoreComet_def Let_def
  by (rule keyed_set) (simp_all add: ensureComet_id run_frame [where g = cb_contractID] restore_token_id)

lemma loadPrior_ok:
  assumes "bl_ok b"
  shows "bl_ok (loadPrior S prior b)"
proof -
  define b0 where "b0 = run load_pool (ls_Pools prior) b"
  have b0: "bl_ok b0" unfolding b0_def by (rule run_inv) (use assms load_pool_ok in auto)
  have keys: "keyed auction_key (gm.load (\<lambda>a. typedAuctionEntityKey (as_PoolContractID a) (as_UserAddress a) (as_AuctionType a)) (\<lambda>a. a) xs m)"
    if "keyed auction_key m" for xs m
    using that by (rule load_keyed_by) (simp add: auction_key_def)
  have emis: "keyed emission_key (gm.load (\<lambda>e. typedUserEmisEntityKey (ue_Address e) (ue_PoolContractID e) (ue_ReserveTokenID e)) (\<lambda>e. e) xs m)"
    if "keyed emission_key m" for xs m
    using that by (rule load_keyed_by) (simp add: emission_key_def)
  have queued: "keyed queued_key (gm.load (\<lambda>q. typedReserveEntityKey (qs_PoolContractID q) (qs_AssetID q)) (\<lambda>q. q) xs m)"
    if "keyed queued_key m" for xs m
    using that by (rule load_keyed_by) (simp add: queued_key_def)
  have users: "keyed backstop_key (gm.load (\<lambda>k. typedBackstopEntityKey (bk_Address k) (bk_PoolContractID k)) backstop_user_of xs m)"
    if "keyed backstop_key m" for xs m
    using that by (rule load_keyed_by) (simp add: backstop_key_def backstop_user_of_def)
  have pend: "keyed pending_key (run (load_pending S) xs m)" if "keyed pending_key m" for xs m
    using that by (intro run_inv [where P = "keyed pending_key"] load_pending_keyed)
  have oracles: "gm_ok (run load_oracle xs m)" if "gm_ok m" for xs m
    using that by (intro run_inv [where P = gm_ok]) (simp_all add: load_oracle_def Let_def gm.ok_upd)
  have comets: "keyed cb_contractID (run restoreComet xs m)" if "keyed cb_contractID m" for xs m
    using that by (intro run_inv [where P = "keyed cb_contractID"] restoreComet_keyed)
  show ?thesis
    using b0 unfolding loadPrior_def b0_def [symmetric] Let_def
    by (simp add: bl_ok_defs keys emis queued users pend oracles comets keyed_load gm.ok_load)
qed

lemma bl_start_ok: "bl_ok (bl_start S a prior ledger)"
proof -
  let ?b = "newBlendStateBuilder\<lparr>b_owned := ba_contracts a, b_ownedAssets := ba_assets a, b_ownedFeeds := ba_feeds a,
    b_ownedComets := ba_comets a, b_protocol := bl_Protocol a, b_ledgerSeq := ledger\<rparr>"
  have "bl_ok ?b" by (simp add: bl_ok_defs pools_ok_def newBlendStateBuilder_def gm_get_def gm_ok_def)
  then show ?thesis by (simp add: bl_start_def loadPrior_ok Let_def split: option.split)
qed

lemma markPoolRemapDirty_ok:
  assumes "bl_ok b"
  shows "bl_ok (markPoolRemapDirty before b)"
proof -
  have "keyed identity_key (foldl (\<lambda>m (key, p). gm_set key \<lparr>ui_address = pp_user p, ui_pool = pp_poolContract p\<rparr> m) d xs)"
    if "keyed identity_key d" "\<forall>(k, p) \<in> set xs. k = pending_key p" for d xs
    using that
  proof (induction xs arbitrary: d)
    case (Cons x xs)
    obtain k p where x: "x = (k, p)" by (cases x)
    have "keyed identity_key (gm_set k \<lparr>ui_address = pp_user p, ui_pool = pp_poolContract p\<rparr> d)"
      by (rule keyed_set [OF Cons.prems(1)]) (use Cons.prems(2) x in \<open>simp add: pending_key_def identity_key_def\<close>)
    from Cons.IH [OF this] Cons.prems(2) x show ?case by simp
  qed simp
  moreover have "\<forall>(k, p) \<in> set (b_pendingPos b). k = pending_key p" using assms by (auto simp: bl_ok_defs keyed_def)
  ultimately show ?thesis using assms by (simp add: markPoolRemapDirty_def bl_ok_defs)
qed

lemma bl_applied_ok: "bl_ok (bl_applied S D a prior changes ledger)"
  unfolding bl_applied_def by (intro markPoolRemapDirty_ok bl.inv_run bl_start_ok)

lemma backstops_dirtied_ok: "bl_ok b \<Longrightarrow> bl_ok (backstops_dirtied b)"
proof -
  have "step_ok S b (backstops_dirtied b)"
    unfolding backstops_dirtied_def Let_def
    by (rule step_trans [where b' = "propagateFeedPriceDirty b"]) (simp_all add: propagateFeedPriceDirty_def step_run)
  then show "bl_ok b \<Longrightarrow> bl_ok (backstops_dirtied b)" by (simp add: step_ok_def)
qed

section \<open>The resolved builder\<close>

text \<open>Prices of aggregators change the oracles and nothing else.\<close>

lemma resolveAggregatorPrices_only:
  assumes "resolveAggregatorPrices closeTime b = Some b'" and "gm_ok (b_oracles b)"
  shows "gm_ok (b_oracles b')" and "\<exists>m. b' = b\<lparr>b_oracles := m\<rparr>"
    and "gm_get (b_aggregators b) cid = None \<Longrightarrow> gm_get (b_oracles b') cid = gm_get (b_oracles b) cid"
proof -
  have "gm_ok (b_oracles b') \<and> (\<exists>m. b' = b\<lparr>b_oracles := m\<rparr>)
      \<and> (gm_get (b_aggregators b) cid = None \<longrightarrow> gm_get (b_oracles b') cid = gm_get (b_oracles b) cid)"
    using assms(1) unfolding resolveAggregatorPrices_def
  proof (rule foldO_inv)
    show "gm_ok (b_oracles b) \<and> (\<exists>m. b = b\<lparr>b_oracles := m\<rparr>) \<and> (gm_get (b_aggregators b) cid = None \<longrightarrow> gm_get (b_oracles b) cid = gm_get (b_oracles b) cid)"
      using assms(2) by (auto intro: exI [of _ "b_oracles b"])
  next
    fix x s t
    assume t: "resolve_aggregator closeTime x s = Some t"
      and s: "gm_ok (b_oracles s) \<and> (\<exists>m. s = b\<lparr>b_oracles := m\<rparr>)
        \<and> (gm_get (b_aggregators b) cid = None \<longrightarrow> gm_get (b_oracles s) cid = gm_get (b_oracles b) cid)"
    show "gm_ok (b_oracles t) \<and> (\<exists>m. t = b\<lparr>b_oracles := m\<rparr>)
        \<and> (gm_get (b_aggregators b) cid = None \<longrightarrow> gm_get (b_oracles t) cid = gm_get (b_oracles b) cid)"
      using t s by (auto simp: resolve_aggregator_def gm.ok_upd gm_simps split: option.splits)
  qed
  then show "gm_ok (b_oracles b')" and "\<exists>m. b' = b\<lparr>b_oracles := m\<rparr>"
    and "gm_get (b_aggregators b) cid = None \<Longrightarrow> gm_get (b_oracles b') cid = gm_get (b_oracles b) cid" by blast+
qed

text \<open>Pricing a pool keeps its ids and its index.\<close>

lemma priced_reserve_frame [simp]:
  "rs_AssetID (priced_reserve o' asset r) = rs_AssetID r" "rs_ReserveIndex (priced_reserve o' asset r) = rs_ReserveIndex r"
  "rs_ReserveIndexKnown (priced_reserve o' asset r) = rs_ReserveIndexKnown r"
  by (simp_all add: priced_reserve_def split: option.split)

lemma priced_pool_frame [simp]:
  "pb_state (priced_pool os p) = pb_state p" "pb_reserveByIndex (priced_pool os p) = pb_reserveByIndex p"
  by (simp_all add: priced_pool_def split: option.split)

lemma keyed_map: "keyed key m \<Longrightarrow> (\<And>k v. (k, v) \<in> set m \<Longrightarrow> key' (f k v) = key v) \<Longrightarrow> keyed key' (map (\<lambda>(k, v). (k, f k v)) m)"
  by (force simp: keyed_def gm_ok_def comp_def split_def)

lemma gm_get_mapped: "gm_get (map (\<lambda>(k, v). (k, f k v)) m) k = map_option (f k) (gm_get m k)"
  by (induction m) (auto simp: gm_get_def)

lemma load_map_same:
  "(\<And>x. x \<in> set xs \<Longrightarrow> key (f x) = key x \<and> val (f x) = val x) \<Longrightarrow> gm.load key val (map f xs) m = gm.load key val xs m"
  by (induction xs arbitrary: m) simp_all

lemma published_map:
  assumes "\<And>r. rs_AssetID (f r) = rs_AssetID r" and "\<And>r. rs_ReserveIndex (f r) = rs_ReserveIndex r"
    and "\<And>r. rs_ReserveIndexKnown (f r) = rs_ReserveIndexKnown r"
  shows "publishedReserveIndexes (map f rs) = publishedReserveIndexes rs"
proof -
  have count: "known_count (map f rs) i = known_count rs i" for i
    by (simp add: known_count_def filter_map comp_def assms)
  have "filter (\<lambda>r. rs_ReserveIndexKnown r \<and> known_count (map f rs) (rs_ReserveIndex r) = 1) (map f rs)
      = map f (filter (\<lambda>r. rs_ReserveIndexKnown r \<and> known_count rs (rs_ReserveIndex r) = 1) rs)"
    by (simp add: filter_map comp_def assms count)
  then show ?thesis unfolding publishedReserveIndexes_def by (simp only: load_map_same assms)
qed

lemma gm_ok_mapped: "gm_ok (map (\<lambda>(k, v). (k, f k v)) m) \<longleftrightarrow> gm_ok m"
  by (simp add: gm_ok_def comp_def split_def)

lemma priced_pool_keyed: "keyed rs_AssetID (pb_reserves p) \<Longrightarrow> keyed rs_AssetID (pb_reserves (priced_pool os p))"
  by (auto simp: priced_pool_def intro!: keyed_map split: option.split)

lemma sort_key_mapped: "sort_key f (map g xs) = map g (sort_key (\<lambda>x. f (g x)) xs)"
proof -
  have "insort_key f (g x) (map g ys) = map g (insort_key (\<lambda>x. f (g x)) x ys)" for x ys
    by (induction ys) simp_all
  then show ?thesis by (induction xs) (simp_all add: sort_key_def)
qed

lemma reserve_rows_priced:
  assumes "keyed rs_AssetID (pb_reserves p)"
  shows "publishedReserveIndexes (reserve_rows (priced_pool os p)) = publishedReserveIndexes (reserve_rows p)"
proof (cases "gm_get os (bp_OracleContract (pb_state p))")
  case None
  then show ?thesis by (simp add: priced_pool_def)
next
  case (Some o')
  define f where "f r = priced_reserve o' (rs_AssetID r) r" for r
  have f: "rs_AssetID (f r) = rs_AssetID r" "rs_ReserveIndex (f r) = rs_ReserveIndex r"
    "rs_ReserveIndexKnown (f r) = rs_ReserveIndexKnown r" for r by (simp_all add: f_def)
  have "map snd (pb_reserves (priced_pool os p)) = map f (map snd (pb_reserves p))"
    using assms Some by (auto simp: priced_pool_def f_def keyed_def)
  then have "reserve_rows (priced_pool os p) = sort_key (\<lambda>r. (rs_ReserveIndex r, rs_AssetID r)) (map f (map snd (pb_reserves p)))"
    using reserve_rows_keyed [OF priced_pool_keyed [OF assms]] by metis
  also have "\<dots> = map f (sort_key (\<lambda>r. (rs_ReserveIndex (f r), rs_AssetID (f r))) (map snd (pb_reserves p)))"
    by (rule sort_key_mapped)
  also have "\<dots> = map f (reserve_rows p)" by (simp add: f reserve_rows_keyed [OF assms])
  finally show ?thesis by (simp only: published_map [OF f])
qed

lemma resolveOraclePrices_ok:
  assumes "bl_ok b"
  shows "bl_ok (resolveOraclePrices b)"
proof -
  let ?m = "map (\<lambda>(cid, p). (cid, priced_pool (b_oracles b) p)) (b_pools b)"
  have "pools_ok (b_pools b)" using assms by (simp add: bl_ok_def)
  then have "keyed (\<lambda>p. bp_ContractID (pb_state p)) ?m"
    by (intro keyed_map [where key = "\<lambda>p. bp_ContractID (pb_state p)"]) (simp_all add: pools_ok_def)
  moreover have "pool_ok p" if "gm_get ?m cid = Some p" for cid p
    using that \<open>pools_ok (b_pools b)\<close>
    by (auto simp: gm_get_mapped pools_ok_def pool_ok_def priced_pool_keyed reserve_rows_priced)
  ultimately have "pools_ok ?m" by (simp add: pools_ok_def)
  with assms show ?thesis by (simp add: resolveOraclePrices_def bl_ok_defs)
qed

section \<open>The decoded ledger\<close>

text \<open>The builder the rows of a ledger are read from.\<close>

definition resolved_builder ::
  "sdk \<Rightarrow> 'd decimal_ops \<Rightarrow> bl_adapter \<Rightarrow> ledger_state option \<Rightarrow> contract_data_change list \<Rightarrow> int \<Rightarrow> go_time \<Rightarrow> bl_builder option" where
  "resolved_builder S D a prior changes ledger closeTime =
     map_option resolveOraclePrices (resolveAggregatorPrices closeTime (backstops_dirtied (bl_applied S D a prior changes ledger)))"

lemma decode_parts:
  assumes "decodeBlendState S D J a prior changes ledger closeTime = Some r"
  obtains b where "resolved_builder S D a prior changes ledger closeTime = Some b" and "br_state r = snd (bl_rows D b)"
    and "br_diagnostics r = sortDecodeDiagnostics (b_diagnostics (fst (bl_rows D b)))"
  using assms by (auto simp: decodeBlendState_def bl_build_def resolved_builder_def Let_def)

lemma decode_reports:
  assumes "decodeBlendState S D J a prior changes ledger closeTime = Some r"
  shows "br_dirty r = finalizeDirtyPositions (b_dirtyUsers (bl_applied S D a prior changes ledger)) (b_pendingPos (bl_applied S D a prior changes ledger))"
    and "br_temporary r = finalizeTemporaryStateChanges (b_dirtyTemporary (bl_applied S D a prior changes ledger))
      (b_auctions (bl_applied S D a prior changes ledger)) (b_queuedReserves (bl_applied S D a prior changes ledger))"
proof -
  obtain m where "backstops_dirtied (bl_applied S D a prior changes ledger) = (bl_applied S D a prior changes ledger)\<lparr>b_dirtyBackstops := m\<rparr>"
    using backstops_dirtied_only [of "bl_applied S D a prior changes ledger"] by (auto simp: backstops_only_def)
  with assms show "br_dirty r = finalizeDirtyPositions (b_dirtyUsers (bl_applied S D a prior changes ledger)) (b_pendingPos (bl_applied S D a prior changes ledger))"
    and "br_temporary r = finalizeTemporaryStateChanges (b_dirtyTemporary (bl_applied S D a prior changes ledger))
      (b_auctions (bl_applied S D a prior changes ledger)) (b_queuedReserves (bl_applied S D a prior changes ledger))"
    by (auto simp: decodeBlendState_def Let_def)
qed

text \<open>Resolving prices changes oracles and the prices of reserves only.\<close>

lemma resolved_frame:
  assumes "resolved_builder S D a prior changes ledger closeTime = Some b"
  shows "bl_ok b" and "b_pendingPos b = b_pendingPos (bl_applied S D a prior changes ledger)"
    and "b_dirtyUsers b = b_dirtyUsers (bl_applied S D a prior changes ledger)"
    and "b_auctions b = b_auctions (bl_applied S D a prior changes ledger)"
    and "b_queuedReserves b = b_queuedReserves (bl_applied S D a prior changes ledger)"
    and "b_ledgerSeq b = b_ledgerSeq (bl_applied S D a prior changes ledger)"
    and "b_pools b = map (\<lambda>(cid, p). (cid, priced_pool (b_oracles b) p)) (b_pools (bl_applied S D a prior changes ledger))"
proof -
  let ?b = "bl_applied S D a prior changes ledger"
  obtain b1 where b1: "resolveAggregatorPrices closeTime (backstops_dirtied ?b) = Some b1" "b = resolveOraclePrices b1"
    using assms by (auto simp: resolved_builder_def)
  have ok: "bl_ok (backstops_dirtied ?b)" by (intro backstops_dirtied_ok bl_applied_ok)
  obtain m where m: "backstops_dirtied ?b = ?b\<lparr>b_dirtyBackstops := m\<rparr>"
    using backstops_dirtied_only [of ?b] by (auto simp: backstops_only_def)
  have oracles: "gm_ok (b_oracles (backstops_dirtied ?b))" using ok by (simp add: bl_ok_defs)
  obtain n where n: "b1 = (backstops_dirtied ?b)\<lparr>b_oracles := n\<rparr>"
    using resolveAggregatorPrices_only(2) [OF b1(1) oracles] by blast
  have "bl_ok b1" using ok resolveAggregatorPrices_only(1) [OF b1(1) oracles] n by (simp add: bl_ok_defs)
  then show "bl_ok b" by (simp add: b1(2) resolveOraclePrices_ok)
  show "b_pendingPos b = b_pendingPos ?b" "b_dirtyUsers b = b_dirtyUsers ?b" "b_auctions b = b_auctions ?b"
    "b_queuedReserves b = b_queuedReserves ?b" "b_ledgerSeq b = b_ledgerSeq ?b"
    "b_pools b = map (\<lambda>(cid, p). (cid, priced_pool (b_oracles b) p)) (b_pools ?b)"
    by (simp_all add: b1(2) n m resolveOraclePrices_def)
qed

lemma built_pool_frame [simp]:
  "bp_ContractID (pb_state (built_pool b p)) = bp_ContractID (pb_state p)"
  "pb_reserves (built_pool b p) = named_reserves (pb_reserves p)"
  "pb_reserveByIndex (built_pool b p) = publishedReserveIndexes (reserve_rows p)"
  "bp_Reserves (pb_state (built_pool b p)) = reserve_rows p"
  by (simp_all add: built_pool_def mergeBackstopEmis_def Let_def split: option.split)

section \<open>Canonical output\<close>

lemma sorted_by_sort: "distinct (map key xs) \<Longrightarrow> sorted_by key (sort_key key xs)"
  by (simp only: sorted_by_def sorted_sort_key distinct_map distinct_sort set_sort simp_thms)

text \<open>What is distinct under a key computed from a pair is distinct as a pair.\<close>

lemma distinct_by_part: "distinct (map key xs) \<Longrightarrow> (\<And>x. key x = f (part x)) \<Longrightarrow> distinct (map part xs)"
  by (auto simp: distinct_map inj_on_def)

lemma sorted_by_part:
  assumes "keyed key m" and "\<And>x. key x = f (part (g x))"
  shows "sorted_by part (sort_key part (map g (map snd m)))"
proof (rule sorted_by_sort)
  have "distinct (map (\<lambda>x. part (g x)) (map snd m))"
    using keyed_distinct [OF assms(1)] assms(2) by (rule distinct_by_part)
  then show "distinct (map part (map g (map snd m)))" by (simp add: comp_def)
qed

lemma sorted_by_rows:
  assumes "gm_ok m" and "\<And>k v. part (g (k, v)) = k"
  shows "sorted_by part (sort_key part (map g m))"
proof (rule sorted_by_sort)
  have "map part (map g m) = map fst m" using assms(2) by auto
  then show "distinct (map part (map g m))" using assms(1) by (simp only: gm_ok_def)
qed

lemma backstopPosition_id [simp]: "bk_Address (backstopPosition D b u) = bu_user u" "bk_PoolContractID (backstopPosition D b u) = bu_poolContract u"
  by (simp_all add: backstopPosition_def Let_def split: option.split)

section \<open>Position rows\<close>

text \<open>The published index: what exactly one reserve is known to have.\<close>

lemma known_count_one:
  "r \<in> set rs \<Longrightarrow> known_count rs i = 1 \<Longrightarrow> rs_ReserveIndexKnown r \<Longrightarrow> rs_ReserveIndex r = i \<Longrightarrow>
   r' \<in> set rs \<Longrightarrow> rs_ReserveIndexKnown r' \<Longrightarrow> rs_ReserveIndex r' = i \<Longrightarrow> r' = r"
proof -
  assume a: "r \<in> set rs" "known_count rs i = 1" "rs_ReserveIndexKnown r" "rs_ReserveIndex r = i"
    "r' \<in> set rs" "rs_ReserveIndexKnown r'" "rs_ReserveIndex r' = i"
  then obtain x where "filter (\<lambda>r. rs_ReserveIndexKnown r \<and> rs_ReserveIndex r = i) rs = [x]"
    by (auto simp: known_count_def length_Suc_conv)
  moreover have "r \<in> set (filter (\<lambda>r. rs_ReserveIndexKnown r \<and> rs_ReserveIndex r = i) rs)"
    "r' \<in> set (filter (\<lambda>r. rs_ReserveIndexKnown r \<and> rs_ReserveIndex r = i) rs)" using a by simp_all
  ultimately show "r' = r" by simp
qed

lemma published_iff:
  "gm_get (publishedReserveIndexes rs) i = Some asset \<longleftrightarrow>
    (\<exists>r\<in>set rs. rs_ReserveIndexKnown r \<and> rs_ReserveIndex r = i \<and> rs_AssetID r = asset \<and> known_count rs i = 1)"
proof -
  let ?P = "\<lambda>r. rs_ReserveIndexKnown r \<and> known_count rs (rs_ReserveIndex r) = 1"
  have inj: "distinct (map rs_ReserveIndex (filter ?P rs))"
  proof -
    have "distinct (map rs_ReserveIndex (filter (\<lambda>r. rs_ReserveIndexKnown r \<and> known_count all (rs_ReserveIndex r) = 1) xs))"
      if "\<And>i. known_count xs i \<le> known_count all i" for xs all
      using that
    proof (induction xs)
      case (Cons x xs)
      have sub: "known_count xs i \<le> known_count all i" for i
      proof -
        have "known_count xs i \<le> known_count (x # xs) i" by (simp add: known_count_def)
        with Cons.prems show ?thesis using order_trans by blast
      qed
      have "rs_ReserveIndex x \<notin> rs_ReserveIndex ` set (filter (\<lambda>r. rs_ReserveIndexKnown r \<and> known_count all (rs_ReserveIndex r) = 1) xs)"
        if x: "rs_ReserveIndexKnown x" "known_count all (rs_ReserveIndex x) = 1"
      proof
        assume "rs_ReserveIndex x \<in> rs_ReserveIndex ` set (filter (\<lambda>r. rs_ReserveIndexKnown r \<and> known_count all (rs_ReserveIndex r) = 1) xs)"
        then obtain y where "y \<in> set xs" "rs_ReserveIndexKnown y" "rs_ReserveIndex y = rs_ReserveIndex x" by auto
        then have "filter (\<lambda>r. rs_ReserveIndexKnown r \<and> rs_ReserveIndex r = rs_ReserveIndex x) xs \<noteq> []" by (auto simp: filter_empty_conv)
        then have "2 \<le> known_count (x # xs) (rs_ReserveIndex x)" using x(1) by (simp add: known_count_def Suc_le_eq)
        then show False using Cons.prems [of "rs_ReserveIndex x"] x(2) by simp
      qed
      then show ?case using Cons.IH [OF sub] by simp
    qed simp
    then show ?thesis by simp
  qed
  show ?thesis
  proof
    assume "gm_get (publishedReserveIndexes rs) i = Some asset"
    then have "gm_get (gm.load rs_ReserveIndex rs_AssetID (filter ?P rs) []) i = Some asset" by (simp add: publishedReserveIndexes_def)
    from gm.get_load_Some [OF this] show "\<exists>r\<in>set rs. rs_ReserveIndexKnown r \<and> rs_ReserveIndex r = i \<and> rs_AssetID r = asset \<and> known_count rs i = 1"
      by (auto simp: gm.get_nil)
  next
    assume "\<exists>r\<in>set rs. rs_ReserveIndexKnown r \<and> rs_ReserveIndex r = i \<and> rs_AssetID r = asset \<and> known_count rs i = 1"
    then obtain r where r: "r \<in> set (filter ?P rs)" "rs_ReserveIndex r = i" "rs_AssetID r = asset" by auto
    from gm.get_load_in [OF inj r(1), of rs_AssetID "[]"] r(2,3)
    show "gm_get (publishedReserveIndexes rs) i = Some asset" by (simp add: publishedReserveIndexes_def)
  qed
qed

text \<open>Positions depend on a pool through its index alone.\<close>

definition held_row :: "pending_user_position \<Rightarrow> position_type \<Rightarrow> string \<Rightarrow> string \<Rightarrow> user_reserve_position" where
  "held_row q kind asset amount =
     (let u = zero_user_reserve_position\<lparr>up_Address := pu_Address q, up_PoolContractID := pu_PoolContractID q,
        up_AssetID := asset, up_PositionType := kind, up_Archived := pu_Archived q, up_ArchivedLedgerSeq := pu_ArchivedLedgerSeq q\<rparr>
      in if kind = Liability then u\<lparr>up_DTokensRaw := amount\<rparr> else u\<lparr>up_BTokensRaw := amount\<rparr>)"

lemma held_row_id [simp]: "up_Address (held_row q kind asset amount) = pu_Address q" "up_PoolContractID (held_row q kind asset amount) = pu_PoolContractID q"
  by (simp_all add: held_row_def Let_def)

lemma pendingOut_fields [simp]:
  "pu_Address (pendingOut p) = pp_user p" "pu_PoolContractID (pendingOut p) = pp_poolContract p"
  "pu_PositionsXDR (pendingOut p) = pp_valueXDR p" "pu_Archived (pendingOut p) = pp_archived p"
  "pu_ArchivedLedgerSeq (pendingOut p) = pp_archivedLedgerSeq p"
  by (simp_all add: pendingOut_def)

lemma position_leg_split:
  "position_leg ledger pool p kind e =
     (case (scInt32 (fst e), scIntString (snd e)) of
        (Some i, Some amount) \<Rightarrow> if amount = ''0'' then None
          else Some (case gm_get (pb_reserveByIndex pool) i of
              None \<Rightarrow> Inl (skip_leg ledger pool p kind i amount) | Some asset \<Rightarrow> Inr (held_row (pendingOut p) kind asset amount))
      | _ \<Rightarrow> None)"
  by (simp add: position_leg_def held_row_def Let_def split: option.split)

lemma rights_append [simp]: "rights (xs @ ys) = rights xs @ rights ys"
  by (simp add: rights_def)

lemma rights_Nil [simp]: "rights [] = []"
  by (simp add: rights_def)

lemma positionsFromMap_cong:
  assumes "\<And>i. gm_get (pb_reserveByIndex pool) i = gm_get (pb_reserveByIndex pool') i"
  shows "rights (positionsFromMap ledger pool p v kind) = rights (positionsFromMap ledger' pool' p v kind)"
proof -
  have "rights (List.map_filter (position_leg ledger pool p kind) es) = rights (List.map_filter (position_leg ledger' pool' p kind) es)" for es
    by (induction es) (auto simp: List.map_filter_simps position_leg_split assms rights_def split: option.split)
  then show ?thesis by (simp add: positionsFromMap_def split: option.split)
qed

lemma user_positions_cong:
  assumes "\<And>i. gm_get (pb_reserveByIndex pool) i = gm_get (pb_reserveByIndex pool') i"
  shows "rights (buildUserPositionsForPending ledger pool p) = rights (buildUserPositionsForPending ledger' pool' p)"
  by (simp only: buildUserPositionsForPending_def Let_def rights_append
    positionsFromMap_cong [OF assms, where ledger = ledger and ledger' = ledger'])

lemma position_leg_Inr:
  "position_leg ledger pool p kind e = Some (Inr u) \<longleftrightarrow>
    (\<exists>i amount asset. scInt32 (fst e) = Some i \<and> scIntString (snd e) = Some amount \<and> amount \<noteq> ''0''
       \<and> gm_get (pb_reserveByIndex pool) i = Some asset \<and> u = held_row (pendingOut p) kind asset amount)"
proof (cases "scInt32 (fst e)"; cases "scIntString (snd e)")
  fix i amount
  assume "scInt32 (fst e) = Some i" "scIntString (snd e) = Some amount"
  then show ?thesis by (cases "gm_get (pb_reserveByIndex pool) i") (auto simp: position_leg_split)
qed (simp_all add: position_leg_split)

lemma user_positions_holder:
  assumes "u \<in> set (rights (buildUserPositionsForPending ledger pool p))"
  shows "up_Address u = pp_user p" and "up_PoolContractID u = pp_poolContract p"
proof -
  have "up_Address u = pp_user p \<and> up_PoolContractID u = pp_poolContract p"
    if "Inr u \<in> set (positionsFromMap ledger pool p v kind)" for v kind
    using that by (auto simp: positionsFromMap_def in_map_filter position_leg_Inr split: option.splits)
  then show "up_Address u = pp_user p" and "up_PoolContractID u = pp_poolContract p"
    using assms by (auto simp: in_rights buildUserPositionsForPending_def Let_def)
qed

text \<open>Every blob of the builder is the reading of its text.\<close>

lemma load_pending_readable:
  "\<forall>k p. gm_get m k = Some p \<longrightarrow> readable S p \<Longrightarrow> \<forall>k p. gm_get (load_pending S q m) k = Some p \<longrightarrow> readable S p"
  by (auto simp: load_pending_def gm_simps readable_def split: option.split)

lemma load_pool_pending [simp]: "b_pendingPos (load_pool st b) = b_pendingPos b" "b_dirtyUsers (load_pool st b) = b_dirtyUsers b"
  "b_auctions (load_pool st b) = b_auctions b" "b_queuedReserves (load_pool st b) = b_queuedReserves b"
  "b_dirtyTemporary (load_pool st b) = b_dirtyTemporary b" "b_oracles (load_pool st b) = b_oracles b"
  by (simp_all add: load_pool_def Let_def putPool_def)

lemma load_pools_frame [simp]:
  "b_pendingPos (run load_pool sts b) = b_pendingPos b" "b_dirtyUsers (run load_pool sts b) = b_dirtyUsers b"
  "b_auctions (run load_pool sts b) = b_auctions b" "b_queuedReserves (run load_pool sts b) = b_queuedReserves b"
  "b_dirtyTemporary (run load_pool sts b) = b_dirtyTemporary b" "b_oracles (run load_pool sts b) = b_oracles b"
  by (rule run_frame, simp)+

lemma bl_start_pending:
  "b_pendingPos (bl_start S a prior ledger) =
    (case prior of None \<Rightarrow> [] | Some s \<Rightarrow> run (load_pending S) (ls_PendingUserPositions s) [])"
  by (simp add: bl_start_def loadPrior_def newBlendStateBuilder_def Let_def split: option.split)

lemma bl_start_dirty [simp]: "b_dirtyUsers (bl_start S a prior ledger) = []" "b_dirtyTemporary (bl_start S a prior ledger) = []"
  by (simp_all add: bl_start_def loadPrior_def newBlendStateBuilder_def Let_def split: option.split)

lemma applied_readable:
  assumes "gm_get (b_pendingPos (bl_applied S D a prior changes ledger)) k = Some p"
  shows "readable S p"
proof -
  have "\<forall>k p. gm_get (run (load_pending S) qs []) k = Some p \<longrightarrow> readable S p" for qs
    by (rule run_inv [where P = "\<lambda>m. \<forall>k p. gm_get m k = Some p \<longrightarrow> readable S p"])
      (use load_pending_readable in \<open>simp_all add: gm_get_def\<close>)
  then have start: "gm_get (b_pendingPos (bl_start S a prior ledger)) k = Some p \<longrightarrow> readable S p" for k p
    by (simp add: bl_start_pending gm_get_def split: option.split)
  have "blobs_tracked S (bl_start S a prior ledger) (run (bl_apply S D ledger) changes (bl_start S a prior ledger))"
    using step_changes bl_start_ok by (metis step_ok_def)
  moreover have "gm_get (b_pendingPos (run (bl_apply S D ledger) changes (bl_start S a prior ledger))) k = Some p"
    using assms by (simp add: bl_applied_def markPoolRemapDirty_def)
  ultimately show ?thesis using start unfolding blobs_tracked_def readable_def by metis
qed

text \<open>The claims of an index that is not unique.\<close>

lemma add_claim_get: "gm_get (add_claim r m) i =
    (if i = rs_ReserveIndex r then Some ((case gm_get m i of None \<Rightarrow> [] | Some l \<Rightarrow> l) @ [rs_AssetID r]) else gm_get m i)"
  by (simp add: add_claim_def gm_simps)

lemma claims_lookup:
  "gm_get (run add_claim rs m) i =
    (let claims = map rs_AssetID (filter (\<lambda>r. rs_ReserveIndex r = i) rs) in
     if claims = [] then gm_get m i else Some ((case gm_get m i of None \<Rightarrow> [] | Some l \<Rightarrow> l) @ claims))"
proof (induction rs arbitrary: m)
  case (Cons r rs)
  show ?case by (cases "rs_ReserveIndex r = i") (auto simp: Cons.IH add_claim_get Let_def)
qed simp

definition section_name :: "position_type \<Rightarrow> string" where
  "section_name kind = (case kind of Supply \<Rightarrow> ''supply'' | Collateral \<Rightarrow> ''collateral'' | Liability \<Rightarrow> ''liabilities''
     | Backstop \<Rightarrow> [])"

text \<open>The legs a stored blob has of a kind: index and amount, where both read and the amount is not zero.\<close>

definition blob_leg :: "scval \<Rightarrow> position_type \<Rightarrow> int \<Rightarrow> string \<Rightarrow> bool" where
  "blob_leg v kind i amount \<longleftrightarrow> kind \<noteq> Backstop \<and>
     (\<exists>f es e. scMapFields v = Some f \<and> get_map (field f (section_name kind)) = Some es \<and> e \<in> set es
        \<and> scInt32 (fst e) = Some i \<and> scIntString (snd e) = Some amount \<and> amount \<noteq> ''0'')"

lemma blob_leg_position:
  assumes "blob_leg (pp_positions p) kind i amount"
  shows "(case gm_get (pb_reserveByIndex pool) i of
       None \<Rightarrow> Inl (skip_leg ledger pool p kind i amount) | Some asset \<Rightarrow> Inr (held_row (pendingOut p) kind asset amount))
    \<in> set (buildUserPositionsForPending ledger pool p)"
proof -
  have kind: "kind \<noteq> Backstop" using assms by (simp add: blob_leg_def)
  obtain f es e where leg: "scMapFields (pp_positions p) = Some f" "get_map (field f (section_name kind)) = Some es" "e \<in> set es"
      "scInt32 (fst e) = Some i" "scIntString (snd e) = Some amount" "amount \<noteq> ''0''"
    using assms by (auto simp: blob_leg_def)
  let ?out = "case gm_get (pb_reserveByIndex pool) i of
       None \<Rightarrow> Inl (skip_leg ledger pool p kind i amount) | Some asset \<Rightarrow> Inr (held_row (pendingOut p) kind asset amount)"
  have "position_leg ledger pool p kind e = Some ?out" using leg by (simp add: position_leg_split)
  then have "?out \<in> set (positionsFromMap ledger pool p (field f (section_name kind)) kind)"
    using leg by (auto simp: positionsFromMap_def in_map_filter)
  then show ?thesis using leg(1) kind by (cases kind) (simp_all add: buildUserPositionsForPending_def Let_def section_name_def)
qed

section \<open>Rows and diagnostics, holder by holder\<close>

lemma finalize_built:
  assumes "keyed rs_AssetID (pb_reserves p)"
  shows "reserve_rows (built_pool b p) = reserve_rows p"
    and "pb_ambiguousByIndex (finalizePoolReserves (built_pool b p)) =
      run add_claim (filter (\<lambda>r. rs_ReserveIndexKnown r \<and> known_count (reserve_rows p) (rs_ReserveIndex r) \<noteq> 1) (reserve_rows p)) []"
proof -
  show rows: "reserve_rows (built_pool b p) = reserve_rows p" using assms by (simp add: reserve_rows_def named_keyed)
  then show "pb_ambiguousByIndex (finalizePoolReserves (built_pool b p)) =
      run add_claim (filter (\<lambda>r. rs_ReserveIndexKnown r \<and> known_count (reserve_rows p) (rs_ReserveIndex r) \<noteq> 1) (reserve_rows p)) []"
    by (simp add: finalizePoolReserves_def Let_def reserve_rows_def)
qed

text \<open>The rows and the diagnostics of a ledger, holder by holder.\<close>

definition holder_legs :: "bl_builder \<Rightarrow> pending_positions \<Rightarrow> (decode_diagnostic + user_reserve_position) list" where
  "holder_legs b p = user_legs (b\<lparr>b_pools := map (\<lambda>(cid, p). (cid, built_pool b p)) (b_pools b)\<rparr>) p"

lemma users_of_rows:
  "ls_Users (snd (bl_rows D b)) = sort_key user_order (concat (map (\<lambda>(_, p). rights (holder_legs b p)) (b_pendingPos b)))"
  by (simp add: bl_rows_def Let_def holder_legs_def)

lemma diagnostics_of_rows:
  assumes "(k, p) \<in> set (b_pendingPos b)" and "gm_get (b_dirtyUsers b) k \<noteq> None" and "d \<in> set (lefts (holder_legs b p))"
  shows "d \<in> set (sortDecodeDiagnostics (b_diagnostics (fst (bl_rows D b))))"
proof -
  have "d \<in> set (built_diagnostics (b\<lparr>b_pools := map (\<lambda>(cid, p). (cid, built_pool b p)) (b_pools b)\<rparr>))"
    using assms by (force simp: built_diagnostics_def holder_legs_def)
  then show ?thesis by (simp add: bl_rows_def Let_def sortDecodeDiagnostics_def)
qed

lemma pending_of_rows: "set (ls_PendingUserPositions (snd (bl_rows D b))) = (\<lambda>(_, p). pendingOut p) ` set (b_pendingPos b)"
  by (simp add: bl_rows_def Let_def)

lemma pools_of_rows: "set (ls_Pools (snd (bl_rows D b))) = (\<lambda>(_, p). pb_state (built_pool b p)) ` set (b_pools b)"
  by (simp add: bl_rows_def Let_def image_image split_def)

lemma holder_legs_pool:
  assumes "gm_get (b_pools b) (pp_poolContract p) = Some pool"
  shows "holder_legs b p = buildUserPositionsForPending (b_ledgerSeq b) (finalizePoolReserves (built_pool b pool)) p"
  using assms by (simp add: holder_legs_def user_legs_def gm_get_mapped)

lemma pool_in: "pools_ok m \<Longrightarrow> (cid, p) \<in> set m \<Longrightarrow> gm_get m (bp_ContractID (pb_state p)) = Some p"
  by (auto simp: pools_ok_def keyed_def dest: in_gm_get)

section \<open>When position rows are distinct\<close>

text \<open>No section of a blob reads the same reserve index twice.\<close>

definition indexes_once :: "scval \<Rightarrow> bool" where
  "indexes_once v \<longleftrightarrow> (case scMapFields v of None \<Rightarrow> True | Some f \<Rightarrow>
     list_all (\<lambda>name. case get_map (field f name) of None \<Rightarrow> True | Some es \<Rightarrow> distinct (List.map_filter (\<lambda>e. scInt32 (fst e)) es))
       [''supply'', ''collateral'', ''liabilities''])"

lemma indexes_once_zero: "indexes_once sc_zero"
  by (simp add: indexes_once_def scMapFields_def sc_zero_def)

lemma distinct_finer: "distinct (map f xs) \<Longrightarrow> (\<And>x y. g x = g y \<Longrightarrow> f x = f y) \<Longrightarrow> distinct (map g xs)"
  unfolding distinct_map inj_on_def by metis

lemma distinct_blocks:
  assumes "distinct (map h ks)" and "\<And>k. k \<in> set ks \<Longrightarrow> distinct (map f (g k))"
    and "\<And>k u. k \<in> set ks \<Longrightarrow> u \<in> set (g k) \<Longrightarrow> t (f u) = h k"
  shows "distinct (map f (concat (map g ks)))"
  using assms
proof (induction ks)
  case (Cons k ks)
  have "f u \<noteq> f w" if "u \<in> set (g k)" "w \<in> set (g k')" "k' \<in> set ks" for u w k'
  proof
    assume "f u = f w"
    then have "h k' = h k" using Cons.prems(3) [of k u] Cons.prems(3) [of k' w] that by simp
    then show False using Cons.prems(1) that(3) by (metis distinct.simps(2) image_eqI list.simps(9) list.set_map)
  qed
  then have "f ` set (g k) \<inter> f ` (\<Union>x\<in>set ks. set (g x)) = {}" by blast
  moreover have "distinct (map f (concat (map g ks)))" using Cons.prems by (intro Cons.IH) auto
  ultimately show ?case using Cons.prems(2) [of k] by simp
qed simp

lemma section_assets:
  assumes "distinct (List.map_filter (\<lambda>e. scInt32 (fst e)) es)"
    and "\<And>i j asset. gm_get (pb_reserveByIndex pool) i = Some asset \<Longrightarrow> gm_get (pb_reserveByIndex pool) j = Some asset \<Longrightarrow> i = j"
  shows "distinct (map up_AssetID (rights (List.map_filter (position_leg ledger pool p kind) es)))"
  using assms(1)
proof (induction es)
  case (Cons e es)
  let ?rest = "rights (List.map_filter (position_leg ledger pool p kind) es)"
  have rest: "distinct (map up_AssetID ?rest)" using Cons by (auto simp: List.map_filter_simps split: option.splits)
  have "up_AssetID u \<notin> up_AssetID ` set ?rest" if u: "position_leg ledger pool p kind e = Some (Inr u)" for u
  proof
    assume "up_AssetID u \<in> up_AssetID ` set ?rest"
    then obtain w e' where w: "e' \<in> set es" "position_leg ledger pool p kind e' = Some (Inr w)" "up_AssetID w = up_AssetID u"
      by (auto simp: in_rights in_map_filter)
    obtain i j where ij: "scInt32 (fst e) = Some i" "gm_get (pb_reserveByIndex pool) i = Some (up_AssetID u)"
      "scInt32 (fst e') = Some j" "gm_get (pb_reserveByIndex pool) j = Some (up_AssetID w)"
      using u w(2) by (auto simp: position_leg_Inr held_row_def Let_def)
    then have "i = j" using assms(2) w(3) by metis
    then show False using Cons.prems w(1) ij(1,3) by (auto simp: List.map_filter_simps in_map_filter)
  qed
  then show ?case using rest by (auto simp: List.map_filter_simps rights_def split: option.split sum.split)
qed (simp add: List.map_filter_simps)

lemma section_rows:
  "u \<in> set (rights (positionsFromMap ledger pool p v kind)) \<Longrightarrow> up_PositionType u = kind"
  by (auto simp: in_rights positionsFromMap_def in_map_filter position_leg_Inr held_row_def Let_def split: option.splits)

lemma holder_rows_distinct:
  assumes "indexes_once (pp_positions p)"
    and index: "\<And>i j asset. gm_get (pb_reserveByIndex pool) i = Some asset \<Longrightarrow> gm_get (pb_reserveByIndex pool) j = Some asset \<Longrightarrow> i = j"
  shows "distinct (map user_order (rights (buildUserPositionsForPending ledger pool p)))"
proof -
  let ?part = "\<lambda>kind. case scMapFields (pp_positions p) of None \<Rightarrow> sc_zero | Some f \<Rightarrow> field f (section_name kind)"
  let ?rows = "\<lambda>kind. rights (positionsFromMap ledger pool p (?part kind) kind)"
  have rows: "distinct (map user_order (?rows kind))" if "kind \<in> set [Supply, Collateral, Liability]" for kind
  proof -
    have "distinct (List.map_filter (\<lambda>e. scInt32 (fst e)) es)" if "get_map (?part kind) = Some es" for es
      using assms(1) that \<open>kind \<in> _\<close> by (auto simp: indexes_once_def section_name_def sc_zero_def split: option.splits)
    then have "distinct (map up_AssetID (?rows kind))"
      using section_assets [OF _ index] by (auto simp: positionsFromMap_def split: option.split)
    then show ?thesis by (rule distinct_finer) (simp add: user_order_def)
  qed
  have "rights (buildUserPositionsForPending ledger pool p) = concat (map ?rows [Supply, Collateral, Liability])"
    by (simp add: buildUserPositionsForPending_def Let_def section_name_def cong: option.case_cong)
  moreover have "distinct (map user_order (concat (map ?rows [Supply, Collateral, Liability])))"
    by (rule distinct_blocks [where h = position_type_string and t = "\<lambda>(a, c, x, kind). kind"])
      (use rows in \<open>auto simp: user_order_def dest: section_rows\<close>)
  ultimately show ?thesis by simp
qed

lemma published_injective:
  assumes "keyed rs_AssetID (pb_reserves pool)"
    and "gm_get (publishedReserveIndexes (reserve_rows pool)) i = Some asset"
    and "gm_get (publishedReserveIndexes (reserve_rows pool)) j = Some asset"
  shows "i = j"
proof -
  have "distinct (map rs_AssetID (reserve_rows pool))"
    using sorted_by_output [OF assms(1)] assms(1)
    by (simp add: reserve_rows_keyed sorted_by_def distinct_map)
  then show ?thesis using assms(2,3) by (auto simp: published_iff distinct_map inj_on_def)
qed

lemma rows_distinct:
  assumes "pools_ok (b_pools b)" and "keyed pending_key (b_pendingPos b)"
    and "\<And>k p. (k, p) \<in> set (b_pendingPos b) \<Longrightarrow> indexes_once (pp_positions p)"
  shows "distinct (map user_order (concat (map (\<lambda>(_, p). rights (holder_legs b p)) (b_pendingPos b))))"
proof (rule distinct_blocks [where h = "\<lambda>(_, p). (pp_user p, pp_poolContract p)" and t = "\<lambda>(a, c, x, kind). (a, c)"])
  have "map (\<lambda>(_, p). pending_key p) (b_pendingPos b) = map fst (b_pendingPos b)"
    using assms(2) by (auto simp: keyed_def)
  then have "distinct (map (\<lambda>(_, p). pending_key p) (b_pendingPos b))"
    using assms(2) by (simp only: keyed_def gm_ok_def)
  then show "distinct (map (\<lambda>(_, p). (pp_user p, pp_poolContract p)) (b_pendingPos b))"
    by (rule distinct_finer) (auto simp: pending_key_def)
next
  fix kp assume kp: "kp \<in> set (b_pendingPos b)"
  obtain k p where p: "kp = (k, p)" by (cases kp)
  show "distinct (map user_order (case kp of (_, p) \<Rightarrow> rights (holder_legs b p)))"
  proof (cases "gm_get (b_pools b) (pp_poolContract p)")
    case None
    then show ?thesis by (simp add: p holder_legs_def user_legs_def gm_get_mapped)
  next
    case (Some pool)
    then have keys: "keyed rs_AssetID (pb_reserves pool)" using pools_ok_get [OF assms(1)] by simp
    show ?thesis unfolding p prod.case holder_legs_pool [OF Some]
      by (rule holder_rows_distinct [OF assms(3)])
        (use kp in \<open>auto simp: p finalize_built [OF keys] intro: published_injective [OF keys]\<close>)
  qed
  fix u assume "u \<in> set (case kp of (_, p) \<Rightarrow> rights (holder_legs b p))"
  then show "(case user_order u of (a, c, x, kind) \<Rightarrow> (a, c)) = (case kp of (_, p) \<Rightarrow> (pp_user p, pp_poolContract p))"
    by (auto simp: p holder_legs_def user_legs_def user_order_def dest: user_positions_holder split: option.splits)
qed

section \<open>The decoded slices\<close>

text \<open>
  C14: The unstable sorts over randomly ordered maps have one possible outcome, whatever the prior
  state and the changes are: every slice of a decoded ledger but the position rows is strictly
  sorted by its identity. The position rows are sorted by holder, pool, asset and kind, and strictly
  so when no section of a stored blob reads the same reserve index twice.
\<close>

theorem decode_canonical:
  assumes "decodeBlendState S D J a prior changes ledger closeTime = Some r"
  shows "sorted_by bp_ContractID (ls_Pools (br_state r))
    \<and> sorted_by (\<lambda>k. (bk_Address k, bk_PoolContractID k)) (ls_Backstops (br_state r))
    \<and> sorted_by (\<lambda>p. (pu_Address p, pu_PoolContractID p)) (ls_PendingUserPositions (br_state r))
    \<and> sorted_by os_ContractID (ls_Oracles (br_state r))
    \<and> sorted_by pf_ContractID (ls_PriceFeeds (br_state r))
    \<and> sorted_by og_ContractID (ls_OracleAggregators (br_state r))
    \<and> sorted_by am_ContractID (ls_Assets (br_state r))
    \<and> sorted_by (\<lambda>a. (as_PoolContractID a, as_UserAddress a, as_AuctionType a)) (ls_Auctions (br_state r))
    \<and> sorted_by (\<lambda>e. (ue_Address e, ue_PoolContractID e, ue_ReserveTokenID e)) (ls_UserEmissions (br_state r))
    \<and> sorted_by (\<lambda>q. (qs_PoolContractID q, qs_AssetID q)) (ls_QueuedReserves (br_state r))
    \<and> sorted_by bi_ContractID (ls_BackstopInstances (br_state r))
    \<and> sorted_by ps_ContractID (ls_AMMPools (br_state r))
    \<and> sorted (map user_order (ls_Users (br_state r)))
    \<and> ((\<forall>q\<in>set (ls_PendingUserPositions (br_state r)). \<forall>v. decodeScValBase64 S (pu_PositionsXDR q) = Some v \<longrightarrow> indexes_once v) \<longrightarrow>
       sorted_by user_order (ls_Users (br_state r)))"
proof -
  obtain b where b: "resolved_builder S D a prior changes ledger closeTime = Some b" and st: "br_state r = snd (bl_rows D b)"
    using assms by (rule decode_parts)
  note frame = resolved_frame [OF b]
  have ok: "pools_ok (b_pools b)" "entries_ok b" using resolved_frame(1) [OF b] by (simp_all add: bl_ok_def)
  let ?pools = "map (\<lambda>(cid, p). (cid, built_pool b p)) (b_pools b)"
  have pools: "keyed (\<lambda>p. bp_ContractID (pb_state p)) ?pools"
    using ok(1) by (intro keyed_map [where key = "\<lambda>p. bp_ContractID (pb_state p)"]) (simp_all add: pools_ok_def)
  note e = ok(2) [unfolded entries_ok_def]
  have snd_map: "map (\<lambda>(_, x). f x) m = map f (map snd m)" for f and m :: "('k \<times> 'v) list"
    by (simp add: split_def)
  have p1: "sorted_by bp_ContractID (ls_Pools (br_state r))"
    using sorted_by_part [OF pools, of "\<lambda>x. x" bp_ContractID pb_state] by (simp add: st bl_rows_def Let_def snd_map split_def comp_def)

  have p2: "sorted_by (\<lambda>k. (bk_Address k, bk_PoolContractID k)) (ls_Backstops (br_state r))"
    using sorted_by_part [of backstop_key "b_backstopUsers b" "\<lambda>(a, p). typedBackstopEntityKey a p" "\<lambda>k. (bk_Address k, bk_PoolContractID k)"
      "backstopPosition D (b\<lparr>b_pools := ?pools\<rparr>)"] e
    by (simp add: st bl_rows_def Let_def split_def comp_def backstop_key_def)
  have p3: "sorted_by (\<lambda>p. (pu_Address p, pu_PoolContractID p)) (ls_PendingUserPositions (br_state r))"
    using sorted_by_part [of pending_key "b_pendingPos b" "\<lambda>(a, p). typedUserEntityKey a p" "\<lambda>p. (pu_Address p, pu_PoolContractID p)" pendingOut] e
    by (simp add: st bl_rows_def Let_def split_def comp_def pending_key_def pendingOut_def)
  have p4: "sorted_by os_ContractID (ls_Oracles (br_state r))"
  proof -
    have "gm_ok (filter (\<lambda>(_, o'). \<not> ob_synthesized o') (b_oracles b))" using e by (simp add: gm_ok_def distinct_map_filter)
    then show ?thesis by (auto simp: st bl_rows_def Let_def buildOracles_def intro!: sorted_by_rows)
  qed
  have p5: "sorted_by pf_ContractID (ls_PriceFeeds (br_state r))"
    using e by (auto simp: st bl_rows_def Let_def buildPriceFeeds_def feed_state_def intro!: sorted_by_rows)
  have p6: "sorted_by og_ContractID (ls_OracleAggregators (br_state r))"
    using e by (auto simp: st bl_rows_def Let_def buildOracleAggregators_def intro!: sorted_by_rows)
  have p7: "sorted_by am_ContractID (ls_Assets (br_state r))"
    using sorted_by_output [of am_ContractID "b_assets b"] e by (simp add: st bl_rows_def Let_def buildAssets_def)
  have p8: "sorted_by (\<lambda>a. (as_PoolContractID a, as_UserAddress a, as_AuctionType a)) (ls_Auctions (br_state r))"
    using sorted_by_part [of auction_key "b_auctions b" "\<lambda>(p, u, t). typedAuctionEntityKey p u t"
      "\<lambda>a. (as_PoolContractID a, as_UserAddress a, as_AuctionType a)" "\<lambda>x. x"] e
    by (simp add: st bl_rows_def Let_def buildAuctions_def auction_key_def)
  have p9: "sorted_by (\<lambda>e. (ue_Address e, ue_PoolContractID e, ue_ReserveTokenID e)) (ls_UserEmissions (br_state r))"
    using sorted_by_part [of emission_key "b_userEmis b" "\<lambda>(a, p, i). typedUserEmisEntityKey a p i"
      "\<lambda>e. (ue_Address e, ue_PoolContractID e, ue_ReserveTokenID e)" "\<lambda>x. x"] e
    by (simp add: st bl_rows_def Let_def buildUserEmissions_def emission_key_def)
  have p10: "sorted_by (\<lambda>q. (qs_PoolContractID q, qs_AssetID q)) (ls_QueuedReserves (br_state r))"
    using sorted_by_part [of queued_key "b_queuedReserves b" "\<lambda>(p, a). typedReserveEntityKey p a"
      "\<lambda>q. (qs_PoolContractID q, qs_AssetID q)" "\<lambda>x. x"] e
    by (simp add: st bl_rows_def Let_def buildQueuedReserves_def queued_key_def)
  have p11: "sorted_by bi_ContractID (ls_BackstopInstances (br_state r))"
    using sorted_by_output [of bi_ContractID "b_backstopInstances b"] e by (simp add: st bl_rows_def Let_def buildBackstopInstances_def)
  have p12: "sorted_by ps_ContractID (ls_AMMPools (br_state r))"
    using sorted_by_part [of cb_contractID "b_comets b" "\<lambda>x. x" ps_ContractID "comet_row (b_protocol b)"] e
    by (simp add: st bl_rows_def Let_def buildAMMPools_def split_def comp_def comet_row_def zero_amm_pool_state_def)
  have p13: "sorted (map user_order (ls_Users (br_state r)))" by (simp add: st bl_rows_def Let_def)
  have p14: "sorted_by user_order (ls_Users (br_state r))"
    if once: "\<forall>q\<in>set (ls_PendingUserPositions (br_state r)). \<forall>v. decodeScValBase64 S (pu_PositionsXDR q) = Some v \<longrightarrow> indexes_once v"
  proof -
    have "indexes_once (pp_positions p)" if p: "(k, p) \<in> set (b_pendingPos b)" for k p
    proof -
      have "readable S p" using applied_readable in_gm_get [OF _ p] e by (simp add: frame(2) keyed_def)
      moreover have "pendingOut p \<in> set (ls_PendingUserPositions (br_state r))" using p by (force simp: st pending_of_rows)
      ultimately show ?thesis using once by (force simp: readable_def indexes_once_zero)
    qed
    then show ?thesis unfolding st users_of_rows using ok(1) e by (intro sorted_by_sort rows_distinct) simp_all
  qed
  show ?thesis using p1 p2 p3 p4 p5 p6 p7 p8 p9 p10 p11 p12 p13 p14 by (intro conjI impI)
qed

section \<open>Every leg is accounted for\<close>

text \<open>
  C3: No leg of a holder is lost: a leg of the stored blob whose amount is not zero, in a pool that is
  known, is a position under the one reserve that is known to have its index, with the amount and
  the archive mark of the entry; when no reserve or more than one has the index and the ledger
  touched the holder, it is a diagnostic that names the leg.
\<close>

theorem legs_accounted:
  assumes "decodeBlendState S D J a prior changes ledger closeTime = Some r"
    and "q \<in> set (ls_PendingUserPositions (br_state r))" and "pu_PositionsXDR q \<noteq> []"
    and "decodeScValBase64 S (pu_PositionsXDR q) = Some v"
    and "st \<in> set (ls_Pools (br_state r))" and "bp_ContractID st = pu_PoolContractID q" and "blob_leg v kind i amount"
  shows "(\<exists>res\<in>set (bp_Reserves st). rs_ReserveIndexKnown res \<and> rs_ReserveIndex res = i \<and> known_count (bp_Reserves st) i = 1
        \<and> held_row q kind (rs_AssetID res) amount \<in> set (ls_Users (br_state r)))
    \<or> known_count (bp_Reserves st) i \<noteq> 1 \<and>
      ((\<exists>d\<in>set (br_dirty r). dp_Address d = pu_Address q \<and> dp_PoolContractID d = pu_PoolContractID q) \<longrightarrow>
       (\<exists>d\<in>set (br_diagnostics r). dd_Address d = pu_Address q \<and> dd_PoolContractID d = pu_PoolContractID q
          \<and> dd_PositionType d = position_type_string kind \<and> dd_ReserveIndex d = i \<and> dd_AmountRaw d = amount
          \<and> dd_Code d = (if known_count (bp_Reserves st) i = 0 then ''unmapped_reserve_index'' else ''duplicate_reserve_index'')))"
proof -
  obtain b where b: "resolved_builder S D a prior changes ledger closeTime = Some b" and state: "br_state r = snd (bl_rows D b)"
      and diag: "br_diagnostics r = sortDecodeDiagnostics (b_diagnostics (fst (bl_rows D b)))"
    using assms(1) by (rule decode_parts)
  note frame = resolved_frame [OF b]
  have ok: "pools_ok (b_pools b)" "keyed pending_key (b_pendingPos b)" "keyed identity_key (b_dirtyUsers b)"
    using frame(1) by (simp_all add: bl_ok_defs)
  obtain k p where p: "(k, p) \<in> set (b_pendingPos b)" "q = pendingOut p"
    using assms(2) by (auto simp: state pending_of_rows)
  have k: "k = pending_key p" "gm_get (b_pendingPos b) k = Some p"
    using ok(2) p(1) by (auto simp: keyed_def intro: in_gm_get)
  have "readable S p" using applied_readable k(2) by (simp add: frame(2))
  then have v: "pp_positions p = v" using assms(3,4) p(2) by (auto simp: readable_def)
  obtain cid pool where pool: "(cid, pool) \<in> set (b_pools b)" "st = pb_state (built_pool b pool)"
    using assms(5) by (auto simp: state pools_of_rows)
  then have "bp_ContractID (pb_state pool) = pp_poolContract p" using assms(6) p(2) by simp
  then have get: "gm_get (b_pools b) (pp_poolContract p) = Some pool" using pool_in [OF ok(1) pool(1)] by simp
  have keys: "keyed rs_AssetID (pb_reserves pool)" using pools_ok_get [OF ok(1) get] by simp
  let ?rows = "reserve_rows pool" and ?pool = "finalizePoolReserves (built_pool b pool)"
  have st: "bp_Reserves st = ?rows" by (simp add: pool(2))
  have index: "pb_reserveByIndex ?pool = publishedReserveIndexes ?rows" by (simp add: finalize_built [OF keys])
  have leg: "(case gm_get (publishedReserveIndexes ?rows) i of
       None \<Rightarrow> Inl (skip_leg (b_ledgerSeq b) ?pool p kind i amount) | Some asset \<Rightarrow> Inr (held_row q kind asset amount)) \<in> set (holder_legs b p)"
    using blob_leg_position [of p kind i amount "b_ledgerSeq b" ?pool] assms(7)
    by (simp add: holder_legs_pool [OF get] finalize_built(1) [OF keys] v p(2) cong: option.case_cong)
  show ?thesis
  proof (cases "gm_get (publishedReserveIndexes ?rows) i")
    case (Some asset)
    then obtain res where res: "res \<in> set ?rows" "rs_ReserveIndexKnown res" "rs_ReserveIndex res = i" "rs_AssetID res = asset" "known_count ?rows i = 1"
      by (auto simp: published_iff)
    have "held_row q kind asset amount \<in> set (rights (holder_legs b p))" using leg Some by (simp add: in_rights)
    then have "held_row q kind asset amount \<in> set (ls_Users (br_state r))" using p(1) by (force simp: state users_of_rows)
    with res st show ?thesis by auto
  next
    case None
    have count: "known_count ?rows i \<noteq> 1"
    proof
      assume one: "known_count ?rows i = 1"
      then obtain res where "res \<in> set (filter (\<lambda>r. rs_ReserveIndexKnown r \<and> rs_ReserveIndex r = i) ?rows)"
        by (metis known_count_def length_0_conv list.set_intros(1) neq_Nil_conv zero_neq_one)
      then have "gm_get (publishedReserveIndexes ?rows) i = Some (rs_AssetID res)" using one by (auto simp: published_iff)
      with None show False by simp
    qed
    have code: "dd_Code (skip_leg (b_ledgerSeq b) ?pool p kind i amount) =
        (if known_count ?rows i = 0 then ''unmapped_reserve_index'' else ''duplicate_reserve_index'')"
      using count by (auto simp: skip_leg_def finalize_built [OF keys] claims_lookup Let_def gm.get_nil filter_empty_conv known_count_def
        split: option.split)
    have "skip_leg (b_ledgerSeq b) ?pool p kind i amount \<in> set (br_diagnostics r)"
      if d: "d \<in> set (br_dirty r)" "dp_Address d = pu_Address q" "dp_PoolContractID d = pu_PoolContractID q" for d
    proof -
      obtain k' u where u: "(k', u) \<in> set (b_dirtyUsers b)" "dp_Address d = ui_address u" "dp_PoolContractID d = ui_pool u"
        using d(1) by (auto simp: decode_reports [OF assms(1)] finalizeDirtyPositions_def frame)
      then have "k' = k" using ok(3) u d(2,3) p(2) k(1) by (auto simp: keyed_def identity_key_def pending_key_def)
      then have "gm_get (b_dirtyUsers b) k \<noteq> None" using u(1) ok(3) by (auto simp: keyed_def dest: in_gm_get)
      moreover have "skip_leg (b_ledgerSeq b) ?pool p kind i amount \<in> set (lefts (holder_legs b p))" using leg None by (simp add: in_lefts)
      ultimately show ?thesis using p(1) unfolding diag by (intro diagnostics_of_rows)
    qed
    moreover have "dd_Address (skip_leg l P p kind i amount) = pu_Address q \<and> dd_PoolContractID (skip_leg l P p kind i amount) = pu_PoolContractID q
        \<and> dd_PositionType (skip_leg l P p kind i amount) = position_type_string kind \<and> dd_ReserveIndex (skip_leg l P p kind i amount) = i
        \<and> dd_AmountRaw (skip_leg l P p kind i amount) = amount" for l P
      by (simp add: skip_leg_def Let_def p(2) split: option.split)
    ultimately show ?thesis using count code unfolding st by blast
  qed
qed

section \<open>An example ledger\<close>

text \<open>A pool with one reserve and a holder of seventy units of it as collateral, whose stored blob is
  \<open>AAAA\<close>; the position rows \<open>us\<close> of the prior state are not read.  \<open>AAAB\<close> and \<open>AAAC\<close> are
  the keys of the holder's auction and of the stored blob.\<close>

definition lg_blob :: scval where
  "lg_blob = ScMap (Some [(ScSym ''collateral'', ScMap (Some [(ScU32 0, ScI128 0 70)]))])"

definition lg_sdk :: sdk where
  "lg_sdk = example_sdk [([CHR 0x00, CHR 0x00, CHR 0x00], lg_blob),
     ([CHR 0x00, CHR 0x00, CHR 0x01], ScVec (Some [ScSym ''Auction'', ScAddress (AddrAccount []), ScU32 0])),
     ([CHR 0x00, CHR 0x00, CHR 0x02], ScVec (Some [ScSym ''Positions'', ScAddress (AddrAccount [])]))] []"

definition lg_holder :: pending_user_position where
  "lg_holder = \<lparr>pu_Address = ''G'', pu_PoolContractID = ''CP'', pu_PositionsXDR = ''AAAA'', pu_Archived = False, pu_ArchivedLedgerSeq = 0\<rparr>"

definition lg_reserve :: reserve_state where
  "lg_reserve = zero_reserve_state\<lparr>rs_AssetID := ''CA'', rs_ReserveIndexKnown := True, rs_BRateRaw := ''1''\<rparr>"

definition lg_pool :: blend_pool_state where
  "lg_pool = zero_blend_pool_state\<lparr>bp_ContractID := ''CP'', bp_Reserves := [lg_reserve]\<rparr>"

definition lg_auction :: auction_state where
  "lg_auction = zero_auction_state\<lparr>as_PoolContractID := ''CP'', as_UserAddress := ''G''\<rparr>"

definition lg_state :: "user_reserve_position list \<Rightarrow> auction_state list \<Rightarrow> ledger_state" where
  "lg_state us xs = zero_ledger_state\<lparr>ls_Pools := [lg_pool], ls_Users := us, ls_PendingUserPositions := [lg_holder], ls_Auctions := xs\<rparr>"

definition lg_row :: user_reserve_position where
  "lg_row = held_row lg_holder Collateral ''CA'' ''70''"

definition lg_adapter :: bl_adapter where
  "lg_adapter = \<lparr>ba_cfg = su_cfg, ba_contracts = {''CP''}, ba_assets = {}, ba_feeds = {}, ba_comets = {},
     ba_lookup = None, ba_lastDirty = [], ba_lastDirtyBackstops = [], ba_lastDiagnostics = [], ba_lastTemporaryChanges = []\<rparr>"

definition lg_builder :: pool_builder where
  "lg_builder = finalizePoolReserves ((ensurePool [] ''CP'')\<lparr>pb_state := lg_pool, pb_reserves := [(''CA'', lg_reserve)]\<rparr>)"

definition lg_entry :: pending_positions where
  "lg_entry = \<lparr>pp_poolContract = ''CP'', pp_user = ''G'', pp_positions = lg_blob, pp_valueXDR = ''AAAA'', pp_archived = False, pp_archivedLedgerSeq = 0\<rparr>"

definition lg_loaded :: "int \<Rightarrow> (string, auction_state) gmap \<Rightarrow> bl_builder" where
  "lg_loaded ledger m = newBlendStateBuilder\<lparr>b_owned := {''CP''}, b_protocol := bl_Protocol lg_adapter, b_ledgerSeq := ledger,
     b_pools := [(''CP'', lg_builder)], b_pendingPos := [(''G|CP'', lg_entry)], b_auctions := m\<rparr>"

lemma lg_decoded: "decodeScValBase64 lg_sdk ''AAAA'' = Some lg_blob"
  by code_simp

lemma lg_reserve_fields [simp]: "rs_AssetID lg_reserve = ''CA''" "rs_ReserveIndex lg_reserve = 0" "rs_ReserveIndexKnown lg_reserve"
  by (simp_all add: lg_reserve_def zero_reserve_state_def)

lemma lg_pool_fields [simp]:
  "bp_ContractID lg_pool = ''CP''" "bp_Reserves lg_pool = [lg_reserve]" "bp_OracleContract lg_pool = ''''"
  "bp_BackstopSharesRaw lg_pool = ''''" "bp_BackstopTokensRaw lg_pool = ''''" "bp_BackstopQ4WSharesRaw lg_pool = ''''"
  "bp_BackstopEmisEPSRaw lg_pool = ''''" "bp_BackstopEmisExpirationRaw lg_pool = ''''"
  "bp_BackstopEmisIndexRaw lg_pool = ''''" "bp_BackstopEmisLastTimeRaw lg_pool = ''''"
  by (simp_all add: lg_pool_def zero_blend_pool_state_def)

lemma lg_known: "known_count [lg_reserve] 0 = 1"
  by (simp add: known_count_def)

lemma lg_published: "publishedReserveIndexes [lg_reserve] = [(0, ''CA'')]"
  using lg_known by (simp add: publishedReserveIndexes_def gm_set_def)

lemma lg_builder_fields [simp]:
  "pb_state lg_builder = lg_pool" "pb_reserves lg_builder = [(''CA'', lg_reserve)]" "pb_reserveByIndex lg_builder = [(0, ''CA'')]"
  by (simp_all add: lg_builder_def finalizePoolReserves_def named_reserves_def lg_published Let_def lg_pool_def)

lemma lg_finished: "finalizePoolReserves lg_builder = lg_builder"
  by (simp add: lg_builder_def finalizePoolReserves_def named_reserves_def Let_def lg_pool_def)

lemma lg_start: "bl_start lg_sdk lg_adapter (Some (lg_state us xs)) ledger = lg_loaded ledger (gm.load auction_key (\<lambda>a. a) xs [])"
  by (simp add: auction_key_def [abs_def] bl_start_def loadPrior_def lg_state_def lg_loaded_def lg_adapter_def newBlendStateBuilder_def zero_ledger_state_def gm_set_def
    load_pending_def lg_holder_def lg_decoded lg_entry_def typedUserEntityKey_def load_pool_def Let_def emis_empty_def putPool_def
    lg_builder_def ensurePool_def gm_get_def)

lemma lg_applied: "bl_applied lg_sdk D lg_adapter (Some (lg_state us xs)) [] ledger = lg_loaded ledger (gm.load auction_key (\<lambda>a. a) xs [])"
  unfolding bl_applied_def lg_start lg_loaded_def
  by (simp add: markPoolRemapDirty_def remapped_def reserveIndexSnapshot_def lg_state_def lg_published gm_set_def gm_get_def lg_entry_def
    reserveIndexEqual_def newBlendStateBuilder_def)

lemma lg_dirtied: "backstops_dirtied (lg_loaded ledger m) = lg_loaded ledger m"
  by (simp add: lg_loaded_def backstops_dirtied_def propagateFeedPriceDirty_def newBlendStateBuilder_def)

lemma lg_merged: "mergeBackstopEmis [] lg_pool = lg_pool"
  by (simp add: mergeBackstopEmis_def gm_get_def lg_pool_def zero_blend_pool_state_def)

lemma lg_built: "lg_builder\<lparr>pb_state := lg_pool\<rparr> = lg_builder"
  by (metis lg_builder_fields(1) pool_builder.surjective pool_builder.update_convs(1))

lemma lg_values: "scMapFields lg_blob = Some [''collateral'' \<mapsto> ScMap (Some [(ScU32 0, ScI128 0 70)])]"
  "scInt32 (ScU32 0) = Some 0" "int128ToString 0 70 = ''70''"
  by (simp add: scMapFields_def lg_blob_def scSymbol_def) code_simp+

lemma lg_legs: "buildUserPositionsForPending ledger lg_builder lg_entry = [Inr lg_row]"
  by (simp add: buildUserPositionsForPending_def lg_entry_def lg_values field_def sc_zero_def positionsFromMap_def List.map_filter_def
    position_leg_split gm_get_def lg_row_def lg_holder_def pendingOut_def)

lemma lg_loaded_fields [simp]:
  "b_pools (lg_loaded ledger m) = [(''CP'', lg_builder)]" "b_pendingPos (lg_loaded ledger m) = [(''G|CP'', lg_entry)]"
  "b_ledgerSeq (lg_loaded ledger m) = ledger" "b_backstopPools (lg_loaded ledger m) = []" "b_backstopEmis (lg_loaded ledger m) = []"
  "b_oracles (lg_loaded ledger m) = []" "b_feeds (lg_loaded ledger m) = []" "b_aggregators (lg_loaded ledger m) = []" "b_assets (lg_loaded ledger m) = []"
  "b_auctions (lg_loaded ledger m) = m" "b_userEmis (lg_loaded ledger m) = []" "b_queuedReserves (lg_loaded ledger m) = []"
  "b_backstopInstances (lg_loaded ledger m) = []" "b_backstopUsers (lg_loaded ledger m) = []" "b_comets (lg_loaded ledger m) = []"
  "b_dirtyUsers (lg_loaded ledger m) = []" "b_dirtyBackstops (lg_loaded ledger m) = []" "b_dirtyTemporary (lg_loaded ledger m) = []"
  "b_deltas (lg_loaded ledger m) = []" "b_diagnostics (lg_loaded ledger m) = []"
  by (simp_all add: lg_loaded_def newBlendStateBuilder_def)

lemma lg_update: "lg_loaded ledger m\<lparr>b_pools := [(''CP'', lg_builder)]\<rparr> = lg_loaded ledger m"
  "lg_loaded ledger m\<lparr>b_diagnostics := []\<rparr> = lg_loaded ledger m"
  by (simp_all add: lg_loaded_def newBlendStateBuilder_def)

lemma lg_user_legs: "user_legs (lg_loaded ledger m) lg_entry = [Inr lg_row]"
  using lg_legs by (simp add: user_legs_def lg_finished gm_get_def lg_entry_def)

lemma lg_rows: "bl_rows D (lg_loaded ledger m) = (lg_loaded ledger m, lg_state [lg_row] (buildAuctions m))"
proof -
  have "built_pool (lg_loaded ledger m) lg_builder = lg_builder"
    by (simp add: built_pool_def lg_finished Let_def gm_get_def lg_merged lg_built)
  moreover have "built_diagnostics (lg_loaded ledger m) = []" by (simp add: built_diagnostics_def gm_get_def)
  moreover have "pendingOut lg_entry = lg_holder" by (simp add: pendingOut_def lg_entry_def lg_holder_def)
  ultimately show ?thesis
    by (simp add: bl_rows_def Let_def lg_update lg_user_legs lg_state_def rights_def List.map_filter_def zero_ledger_state_def buildOracles_def
      buildPriceFeeds_def buildOracleAggregators_def buildAssets_def buildUserEmissions_def buildQueuedReserves_def
      buildBackstopInstances_def buildAMMPools_def)
qed

lemma lg_decode:
  "decodeBlendState lg_sdk D J lg_adapter (Some (lg_state us xs)) [] ledger closeTime =
     Some \<lparr>br_state = lg_state [lg_row] (buildAuctions (gm.load auction_key (\<lambda>a. a) xs [])), br_deltas = [], br_dirty = [],
       br_dirtyBackstops = [], br_diagnostics = [], br_temporary = []\<rparr>"
proof -
  have "resolveOraclePrices (lg_loaded ledger m) = lg_loaded ledger m" for m
    by (simp add: resolveOraclePrices_def priced_pool_def gm_get_def lg_update)
  then show ?thesis
    by (simp add: decodeBlendState_def Let_def lg_applied lg_dirtied bl_build_def resolveAggregatorPrices_def lg_rows sortTypedStateDeltas_def
      finalizeDirtyPositions_def finalizeDirtyBackstops_def sortDecodeDiagnostics_def finalizeTemporaryStateChanges_def)
qed

definition lg_result :: "auction_state list \<Rightarrow> bl_result" where
  "lg_result xs = \<lparr>br_state = lg_state [lg_row] xs, br_deltas = [], br_dirty = [], br_dirtyBackstops = [], br_diagnostics = [], br_temporary = []\<rparr>"

lemma lg_decodes:
  "decodeBlendState lg_sdk D J lg_adapter (Some (lg_state us [])) [] ledger closeTime = Some (lg_result [])"
  "decodeBlendState lg_sdk D J lg_adapter (Some (lg_state us [lg_auction])) [] ledger closeTime = Some (lg_result [lg_auction])"
  by (simp_all add: lg_decode lg_result_def buildAuctions_def gm_set_def)

text \<open>The prior state lists the two auctions of the holder in the wrong order.\<close>

definition lg_second :: auction_state where
  "lg_second = lg_auction\<lparr>as_AuctionType := 1\<rparr>"

theorem decode_canonical_witness:
  "\<exists>r. decodeBlendState lg_sdk rat_decimal (\<lambda>_. []) lg_adapter (Some (lg_state [] [lg_second, lg_auction])) [] 7 zero_time = Some r
     \<and> set (ls_Auctions (br_state r)) = {lg_auction, lg_second} \<and> lg_auction \<noteq> lg_second
     \<and> sorted_by (\<lambda>a. (as_PoolContractID a, as_UserAddress a, as_AuctionType a)) (ls_Auctions (br_state r))
     \<and> ls_Users (br_state r) = [lg_row] \<and> sorted_by user_order (ls_Users (br_state r))"
proof -
  obtain r where r: "decodeBlendState lg_sdk rat_decimal (\<lambda>_. []) lg_adapter (Some (lg_state [] [lg_second, lg_auction])) [] 7 zero_time = Some r"
    and st: "br_state r = lg_state [lg_row] (buildAuctions (gm.load auction_key (\<lambda>a. a) [lg_second, lg_auction] []))"
    using lg_decode [of rat_decimal "\<lambda>_. []" "[]" "[lg_second, lg_auction]" 7 zero_time] by auto
  have "auction_key lg_auction = ''CP|G|0''" "auction_key lg_second = ''CP|G|1''" by code_simp+
  then have two: "set (ls_Auctions (br_state r)) = {lg_auction, lg_second}" "lg_auction \<noteq> lg_second"
    by (auto simp: st lg_state_def buildAuctions_def gm_set_def)
  have "indexes_once lg_blob" by code_simp
  then have once: "\<forall>q\<in>set (ls_PendingUserPositions (br_state r)). \<forall>v. decodeScValBase64 lg_sdk (pu_PositionsXDR q) = Some v \<longrightarrow> indexes_once v"
    by (simp add: st lg_state_def lg_holder_def lg_decoded)
  have rows: "ls_Users (br_state r) = [lg_row]" by (simp add: st lg_state_def)
  show ?thesis using decode_canonical [OF r] once two rows r by blast
qed

theorem legs_accounted_witness:
  "\<exists>r. decodeBlendState lg_sdk rat_decimal (\<lambda>_. []) lg_adapter (Some (lg_state [] [])) [] 7 zero_time = Some r
    \<and> held_row lg_holder Collateral ''CA'' ''70'' \<in> set (ls_Users (br_state r))"
proof -
  have leg: "blob_leg lg_blob Collateral 0 ''70''"
    by (simp add: blob_leg_def lg_values section_name_def field_def)
  have holder: "pu_PositionsXDR lg_holder \<noteq> []" "decodeScValBase64 lg_sdk (pu_PositionsXDR lg_holder) = Some lg_blob"
    "bp_ContractID lg_pool = pu_PoolContractID lg_holder" by (simp_all add: lg_holder_def lg_decoded)
  have rows: "lg_holder \<in> set (ls_PendingUserPositions (br_state (lg_result [])))" "lg_pool \<in> set (ls_Pools (br_state (lg_result [])))"
    by (simp_all add: lg_result_def lg_state_def)
  note decoded = lg_decodes(1) [of rat_decimal "\<lambda>_. []" "[]" 7 zero_time]
  have "\<exists>res\<in>set (bp_Reserves lg_pool). rs_ReserveIndexKnown res \<and> rs_ReserveIndex res = 0 \<and> known_count (bp_Reserves lg_pool) 0 = 1
      \<and> held_row lg_holder Collateral (rs_AssetID res) ''70'' \<in> set (ls_Users (br_state (lg_result [])))"
    using legs_accounted [OF decoded rows(1) holder(1,2) rows(2) holder(3) leg] unfolding lg_pool_fields(2) lg_known by blast
  then have "held_row lg_holder Collateral ''CA'' ''70'' \<in> set (ls_Users (br_state (lg_result [])))" by auto
  with decoded show ?thesis by blast
qed

end
