(* ===== verification/Blend_Dirty.thy ===== *)
theory Blend_Dirty
  imports Blend_Reports
begin

text \<open>
  The dirty sets of a Blend decode are complete (src/blend/state.go): between two consecutive ledgers,
  what the later one does not report has not changed.
\<close>

section \<open>Rows of a holder\<close>

definition user_key :: "user_reserve_position \<Rightarrow> string" where
  "user_key u = typedUserEntityKey (up_Address u) (up_PoolContractID u)"

lemma concat_lookup:
  "gm_ok m \<Longrightarrow> concat (map (\<lambda>(k', p). if k' = k then h p else []) m) = (case gm_get m k of None \<Rightarrow> [] | Some p \<Rightarrow> h p)"
proof (induction m)
  case (Cons x m)
  obtain k' p where x: "x = (k', p)" by (cases x)
  have "concat (map (\<lambda>(k', p). if k' = k then h p else []) m) = []" if "k \<notin> fst ` set m"
    using that by (force simp: split_def)
  show ?case
  proof (cases "k' = k")
    case True
    with Cons.prems x \<open>k \<notin> fst ` set m \<Longrightarrow> _\<close> show ?thesis by (simp add: gm_ok_def gm_get_def)
  next
    case False
    with Cons x show ?thesis by (simp add: gm_ok_def gm_get_def)
  qed
qed (simp add: gm_get_def)

lemma holder_legs_key: "u \<in> set (rights (holder_legs b p)) \<Longrightarrow> user_key u = pending_key p"
  using user_positions_holder [of u]
  by (auto simp: holder_legs_def user_legs_def user_key_def pending_key_def split: option.splits)

lemma rows_of_key:
  assumes "keyed pending_key (b_pendingPos b)"
  shows "filter (\<lambda>u. user_key u = k) (ls_Users (snd (bl_rows D b))) =
    sort_key user_order (case gm_get (b_pendingPos b) k of None \<Rightarrow> [] | Some p \<Rightarrow> rights (holder_legs b p))"
proof -
  have part: "filter (\<lambda>u. user_key u = k) (rights (holder_legs b p)) = (if k' = k then rights (holder_legs b p) else [])"
    if "(k', p) \<in> set (b_pendingPos b)" for k' p
  proof -
    have "k' = pending_key p" using that assms by (auto simp: keyed_def)
    then show ?thesis using holder_legs_key by (auto simp: filter_id_conv filter_empty_conv)
  qed
  have "filter (\<lambda>u. user_key u = k) (concat (map (\<lambda>(_, p). rights (holder_legs b p)) (b_pendingPos b)))
      = concat (map (\<lambda>(k', p). if k' = k then rights (holder_legs b p) else []) (b_pendingPos b))"
    using part by (auto simp: filter_concat intro!: arg_cong [where f = concat])
  then show ?thesis
    using assms by (simp add: users_of_rows filter_sort concat_lookup keyed_def)
qed

section \<open>Reloading the holders\<close>

definition pending_out_key :: "pending_user_position \<Rightarrow> string" where
  "pending_out_key q = typedUserEntityKey (pu_Address q) (pu_PoolContractID q)"

definition pending_in :: "pending_user_position \<Rightarrow> scval \<Rightarrow> pending_positions" where
  "pending_in q v = \<lparr>pp_poolContract = pu_PoolContractID q, pp_user = pu_Address q, pp_positions = v, pp_valueXDR = pu_PositionsXDR q,
     pp_archived = pu_Archived q, pp_archivedLedgerSeq = pu_ArchivedLedgerSeq q\<rparr>"

lemma pending_in_out: "pending_in (pendingOut p) (pp_positions p) = p"
  by (simp add: pending_in_def)

lemma load_pending_get:
  "gm_get (load_pending S q m) k =
    (if k = pending_out_key q then (case decodeScValBase64 S (pu_PositionsXDR q) of None \<Rightarrow> gm_get m k | Some v \<Rightarrow> Some (pending_in q v))
     else gm_get m k)"
  by (simp add: load_pending_def pending_in_def pending_out_key_def gm_simps split: option.split)

lemma load_pendings_other: "k \<notin> pending_out_key ` set qs \<Longrightarrow> gm_get (run (load_pending S) qs m) k = gm_get m k"
  by (induction qs arbitrary: m) (auto simp: load_pending_get)

lemma load_pendings_in:
  assumes "distinct (map pending_out_key qs)" and "q \<in> set qs"
  shows "gm_get (run (load_pending S) qs m) (pending_out_key q) =
    (case decodeScValBase64 S (pu_PositionsXDR q) of None \<Rightarrow> gm_get m (pending_out_key q) | Some v \<Rightarrow> Some (pending_in q v))"
  using assms
proof (induction qs arbitrary: m)
  case (Cons x qs)
  show ?case
  proof (cases "q = x")
    case True
    then have "pending_out_key q \<notin> pending_out_key ` set qs" using Cons.prems by simp
    then show ?thesis unfolding True by (simp add: load_pendings_other load_pending_get)
  next
    case False
    then have "q \<in> set qs" "pending_out_key x \<noteq> pending_out_key q" using Cons.prems by auto
    then show ?thesis using Cons.IH [of "load_pending S x m"] Cons.prems by (simp add: load_pending_get split: option.split)
  qed
qed simp

text \<open>A holder's entry after the state was written out and loaded: as before, unless its text does not read.\<close>

lemma reload_pending:
  assumes "keyed pending_key (b_pendingPos b)"
  shows "gm_get (run (load_pending S) (ls_PendingUserPositions (snd (bl_rows D b))) []) k =
    (case gm_get (b_pendingPos b) k of None \<Rightarrow> None
     | Some p \<Rightarrow> map_option (\<lambda>v. p\<lparr>pp_positions := v\<rparr>) (decodeScValBase64 S (pp_valueXDR p)))"
proof -
  let ?qs = "ls_PendingUserPositions (snd (bl_rows D b))"
  have qs: "?qs = sort_key (\<lambda>p. (pu_Address p, pu_PoolContractID p)) (map pendingOut (map snd (b_pendingPos b)))"
    by (simp add: bl_rows_def Let_def split_def comp_def)
  have key: "pending_out_key (pendingOut p) = pending_key p" for p by (simp add: pending_out_key_def pending_key_def)
  have "distinct (map pending_out_key (map pendingOut (map snd (b_pendingPos b))))"
    using keyed_distinct [OF assms] by (simp add: comp_def key)
  then have d: "distinct (map pending_out_key ?qs)" unfolding qs by (simp only: distinct_map distinct_sort set_sort simp_thms)
  show ?thesis
  proof (cases "gm_get (b_pendingPos b) k")
    case None
    then have "k \<notin> pending_key ` snd ` set (b_pendingPos b)"
      using assms by (fastforce simp: keyed_def dest: in_gm_get)
    then have "k \<notin> pending_out_key ` set ?qs" by (force simp: qs key)
    with None show ?thesis by (simp add: load_pendings_other gm.get_nil)
  next
    case (Some p)
    then have "pendingOut p \<in> set ?qs" using gm_get_in by (force simp: qs)
    moreover have "k = pending_key p" using assms Some by (rule keyed_get)
    moreover have "pending_in (pendingOut p) v = p\<lparr>pp_positions := v\<rparr>" for v by (simp add: pending_in_def)
    ultimately show ?thesis
      using load_pendings_in [OF d, of "pendingOut p" S "[]"] Some by (simp add: key gm.get_nil split: option.split)
  qed
qed

section \<open>Indexes that did not change\<close>

lemma gm_ok_card: "gm_ok m \<Longrightarrow> card (fst ` set m) = length m"
  using distinct_card [of "map fst m"] by (simp add: gm_ok_def)

lemma reserveIndexEqual_get:
  assumes "reserveIndexEqual m n" and "gm_ok m" and "gm_ok n"
  shows "gm_get m i = gm_get n i"
proof -
  have len: "length m = length n" and sub: "\<And>i x. (i, x) \<in> set m \<Longrightarrow> gm_get n i = Some x"
    using assms(1) by (auto simp: reserveIndexEqual_def)
  have "fst ` set m \<subseteq> fst ` set n" using sub gm_get_in by force
  moreover have "card (fst ` set m) = card (fst ` set n)" using len assms(2,3) by (simp add: gm_ok_card)
  ultimately have dom: "fst ` set m = fst ` set n" by (simp add: card_subset_eq)
  show ?thesis
  proof (cases "gm_get m i")
    case None
    then have "i \<notin> fst ` set n" unfolding dom [symmetric] by (simp add: gm_get_def map_of_eq_None_iff)
    then have "gm_get n i = None" by (simp add: gm_get_def map_of_eq_None_iff)
    with None show ?thesis by simp
  next
    case (Some x)
    then show ?thesis using sub gm_get_in by fastforce
  qed
qed

lemma gm_ok_published: "gm_ok (publishedReserveIndexes rs)"
  unfolding publishedReserveIndexes_def by (rule gm.ok_load) (simp add: gm_ok_def)

lemma snapshot_get:
  assumes "pools_ok (b_pools b)"
  shows "gm_get (reserveIndexSnapshot (Some (snd (bl_rows D b)))) cid =
    map_option (\<lambda>p. publishedReserveIndexes (reserve_rows p)) (gm_get (b_pools b) cid)"
proof -
  have pools: "ls_Pools (snd (bl_rows D b)) = sort_key bp_ContractID (map (\<lambda>(_, p). pb_state (built_pool b p)) (b_pools b))"
    by (auto simp: bl_rows_def Let_def intro!: arg_cong [where f = "sort_key bp_ContractID"])
  have "gm_ok (b_pools b)" using assms by (simp add: pools_ok_def keyed_def)
  then show ?thesis
    using assms unfolding reserveIndexSnapshot_def pools option.case
    by (subst gm_get_reload [where h = "\<lambda>_ p. publishedReserveIndexes (reserve_rows p)"]) (auto simp: pools_ok_def keyed_def)
qed

section \<open>Consecutive ledgers\<close>

text \<open>A holder the later ledger did not mark: the same entry, in a pool with the same index.\<close>

lemma run_map_other: "run f xs m = foldl (\<lambda>m x. f x m) m xs"
  by (simp add: run_def)

lemma marks_other:
  "gm_get (foldl (\<lambda>m (key, p). gm_set key (g p) m) d xs) k = None \<Longrightarrow> gm_get d k = None \<and> k \<notin> fst ` set xs"
proof (induction xs arbitrary: d)
  case (Cons x xs)
  obtain key p where x: "x = (key, p)" by (cases x)
  from Cons.IH [of "gm_set key (g p) d"] Cons.prems x show ?case by (auto simp: gm_simps split: if_splits)
qed simp

lemma unmarked_holder:
  assumes "gm_get (b_dirtyUsers (bl_applied S D a prior changes ledger)) k = None"
  shows "gm_get (b_pendingPos (bl_applied S D a prior changes ledger)) k = gm_get (b_pendingPos (bl_start S a prior ledger)) k"
    and "gm_get (b_pendingPos (bl_applied S D a prior changes ledger)) k = Some p \<Longrightarrow>
      \<not> remapped (reserveIndexSnapshot prior) (b_pools (bl_applied S D a prior changes ledger)) (pp_poolContract p)"
proof -
  let ?b = "run (bl_apply S D ledger) changes (bl_start S a prior ledger)"
  let ?marked = "filter (\<lambda>(_, p). remapped (reserveIndexSnapshot prior) (b_pools ?b) (pp_poolContract p)) (b_pendingPos ?b)"
  have "gm_get (foldl (\<lambda>m (key, p). gm_set key \<lparr>ui_address = pp_user p, ui_pool = pp_poolContract p\<rparr> m) (b_dirtyUsers ?b) ?marked) k = None"
    using assms by (simp add: bl_applied_def markPoolRemapDirty_def)
  from marks_other [OF this] have d: "gm_get (b_dirtyUsers ?b) k = None" and m: "k \<notin> fst ` set ?marked" by simp_all
  have "users_tracked (bl_start S a prior ledger) ?b" using step_changes bl_start_ok by (metis step_ok_def)
  then have "gm_get (b_pendingPos ?b) k = gm_get (b_pendingPos (bl_start S a prior ledger)) k"
    using d by (simp add: users_tracked_def)
  then show "gm_get (b_pendingPos (bl_applied S D a prior changes ledger)) k = gm_get (b_pendingPos (bl_start S a prior ledger)) k"
    by (simp add: bl_applied_def markPoolRemapDirty_def)
  show "\<not> remapped (reserveIndexSnapshot prior) (b_pools (bl_applied S D a prior changes ledger)) (pp_poolContract p)"
    if "gm_get (b_pendingPos (bl_applied S D a prior changes ledger)) k = Some p"
  proof
    assume r: "remapped (reserveIndexSnapshot prior) (b_pools (bl_applied S D a prior changes ledger)) (pp_poolContract p)"
    have "(k, p) \<in> set (b_pendingPos ?b)" using that by (intro gm_get_in) (simp add: bl_applied_def markPoolRemapDirty_def)
    then have "(k, p) \<in> set ?marked" using r by (simp add: bl_applied_def markPoolRemapDirty_def)
    with m show False by force
  qed
qed

text \<open>The rows of an entry in the built state depend on the index its pool had when the changes were applied.\<close>

lemma holder_rows_index:
  assumes "resolved_builder S D a prior changes ledger closeTime = Some b"
  shows "rights (holder_legs b p) =
    (case gm_get (b_pools (bl_applied S D a prior changes ledger)) (pp_poolContract p) of None \<Rightarrow> []
     | Some pool \<Rightarrow> rights (buildUserPositionsForPending 0 pool p))"
proof -
  note frame = resolved_frame [OF assms]
  let ?A = "bl_applied S D a prior changes ledger"
  have ok: "pools_ok (b_pools ?A)" using bl_applied_ok [of S D a prior changes ledger] by (simp add: bl_ok_def)
  have pools: "gm_get (b_pools b) cid = map_option (priced_pool (b_oracles b)) (gm_get (b_pools ?A) cid)" for cid
    unfolding frame(7) by (simp add: gm_get_mapped)
  show ?thesis
  proof (cases "gm_get (b_pools ?A) (pp_poolContract p)")
    case None
    then show ?thesis by (simp add: holder_legs_def user_legs_def gm_get_mapped pools)
  next
    case (Some pool)
    have pool: "pool_ok pool" "keyed rs_AssetID (pb_reserves pool)" using pools_ok_get [OF ok Some] by simp_all
    let ?p = "priced_pool (b_oracles b) pool"
    have keys: "keyed rs_AssetID (pb_reserves ?p)" using pool(2) by (rule priced_pool_keyed)
    have "pb_reserveByIndex (finalizePoolReserves (built_pool b ?p)) = pb_reserveByIndex pool"
      using pool(1) by (simp add: finalize_built [OF keys] reserve_rows_priced [OF pool(2)] pool_ok_def)
    then have "rights (buildUserPositionsForPending l (finalizePoolReserves (built_pool b ?p)) p) = rights (buildUserPositionsForPending 0 pool p)" for l
      by (intro user_positions_cong) simp
    moreover have "gm_get (b_pools b) (pp_poolContract p) = Some ?p" by (simp add: pools Some)
    ultimately show ?thesis by (simp add: Some holder_legs_pool)
  qed
qed

text \<open>An entry with no blob has no rows.\<close>

lemma no_blob_no_rows: "pp_positions p = sc_zero \<Longrightarrow> buildUserPositionsForPending l pool p = []"
  by (simp add: buildUserPositionsForPending_def positionsFromMap_def sc_zero_def scMapFields_def split: option.split)

text \<open>Adapters may differ between the ledgers: contracts are registered as they are discovered.\<close>

lemma unmarked_rows:
  assumes "decodeScValBase64 S [] = None"
    and b: "resolved_builder S D a prior changes ledger closeTime = Some b"
    and b': "resolved_builder S D a' (Some (snd (bl_rows D b))) changes' ledger' closeTime' = Some b'"
    and clean: "gm_get (b_dirtyUsers (bl_applied S D a' (Some (snd (bl_rows D b))) changes' ledger')) k = None"
  shows "(case gm_get (b_pendingPos b') k of None \<Rightarrow> [] | Some p \<Rightarrow> rights (holder_legs b' p)) =
    (case gm_get (b_pendingPos b) k of None \<Rightarrow> [] | Some p \<Rightarrow> rights (holder_legs b p))"
proof -
  let ?A = "bl_applied S D a' (Some (snd (bl_rows D b))) changes' ledger'" and ?First = "bl_applied S D a prior changes ledger"
  have ok: "bl_ok b" by (rule resolved_frame(1) [OF b])
  then have pend: "keyed pending_key (b_pendingPos b)" and pools: "pools_ok (b_pools b)" by (simp_all add: bl_ok_defs)
  have okA: "pools_ok (b_pools ?A)" using bl_applied_ok [of S D a' "Some (snd (bl_rows D b))" changes' ledger'] by (simp add: bl_ok_def)
  have now: "gm_get (b_pendingPos b') k = (case gm_get (b_pendingPos b) k of None \<Rightarrow> None
      | Some p \<Rightarrow> map_option (\<lambda>v. p\<lparr>pp_positions := v\<rparr>) (decodeScValBase64 S (pp_valueXDR p)))"
    using unmarked_holder(1) [OF clean] reload_pending [OF pend, of S D k]
    by (simp add: resolved_frame(2) [OF b'] bl_start_pending)
  show ?thesis
  proof (cases "gm_get (b_pendingPos b) k")
    case None
    with now show ?thesis by simp
  next
    case (Some p)
    then have "gm_get (b_pendingPos ?First) k = Some p" by (simp add: resolved_frame(2) [OF b])
    then have read: "readable S p" by (rule applied_readable)
    show ?thesis
    proof (cases "decodeScValBase64 S (pp_valueXDR p)")
      case None
      then have "pp_positions p = sc_zero" using read by (simp add: readable_def)
      then have "holder_legs b p = []"
        by (simp add: holder_legs_def user_legs_def no_blob_no_rows split: option.split)
      with now Some None show ?thesis by (simp add: rights_def)
    next
      case (Some v)
      then have v: "v = pp_positions p" using read assms(1) by (auto simp: readable_def)
      have same: "gm_get (b_pendingPos b') k = Some p" using now \<open>gm_get (b_pendingPos b) k = Some p\<close> Some v by simp
      then have A: "gm_get (b_pendingPos ?A) k = Some p" by (simp add: resolved_frame(2) [OF b'])
      let ?cid = "pp_poolContract p"
      have keep: "\<not> remapped (reserveIndexSnapshot (Some (snd (bl_rows D b)))) (b_pools ?A) ?cid"
        by (rule unmarked_holder(2) [OF clean A])
      have "rights (holder_legs b' p) = rights (holder_legs b p)"
      proof (cases "gm_get (b_pools b) ?cid")
        case None
        then have "gm_get (b_pools ?A) ?cid = None"
          using keep by (auto simp: remapped_def snapshot_get [OF pools] split: option.splits)
        then have "rights (holder_legs b' p) = []" by (simp add: holder_rows_index [OF b'])
        moreover have "holder_legs b p = []" using None by (simp add: holder_legs_def user_legs_def gm_get_mapped)
        ultimately show ?thesis by simp
      next
        case (Some pool)
        have pool: "pool_ok pool" "keyed rs_AssetID (pb_reserves pool)" using pools_ok_get [OF pools Some] by simp_all
        obtain pool' where pool': "gm_get (b_pools ?A) ?cid = Some pool'"
          and eq: "reserveIndexEqual (publishedReserveIndexes (reserve_rows pool)) (pb_reserveByIndex pool')"
          using keep Some by (auto simp: remapped_def snapshot_get [OF pools] split: option.splits)
        have "pool_ok pool'" using pools_ok_get [OF okA pool'] by simp
        then have "gm_ok (pb_reserveByIndex pool')" by (simp add: pool_ok_def gm_ok_published)
        then have index: "gm_get (pb_reserveByIndex pool') i = gm_get (publishedReserveIndexes (reserve_rows pool)) i" for i
          using reserveIndexEqual_get [OF eq gm_ok_published] by simp
        have "rights (holder_legs b' p) = rights (buildUserPositionsForPending 0 pool' p)"
          by (simp add: holder_rows_index [OF b'] pool')
        also have "\<dots> = rights (holder_legs b p)"
          unfolding holder_legs_pool [OF Some]
          by (rule user_positions_cong) (simp add: index finalize_built [OF pool(2)])
        finally show ?thesis .
      qed
      with same \<open>gm_get (b_pendingPos b) k = Some p\<close> show ?thesis by simp
    qed
  qed
qed

text \<open>
  C4: The set of dirty positions is complete: the position rows of a holder in a pool are the same in
  two consecutive ledgers unless the later one reports the pair, whether the change is in the stored
  entry, in the reserve indexes of the pool, or in the pool's coming and going.
\<close>

theorem dirty_complete:
  assumes "decodeBlendState S D J a prior changes ledger closeTime = Some r"
    and "decodeBlendState S D J a' (Some (br_state r)) changes' ledger' closeTime' = Some r'"
    and "\<forall>d\<in>set (br_dirty r'). typedUserEntityKey (dp_Address d) (dp_PoolContractID d) \<noteq> typedUserEntityKey address pool"
  shows "filter (\<lambda>u. up_Address u = address \<and> up_PoolContractID u = pool) (ls_Users (br_state r')) =
    filter (\<lambda>u. up_Address u = address \<and> up_PoolContractID u = pool) (ls_Users (br_state r))"
proof -
  have empty: "decodeScValBase64 S [] = None" by (simp add: decodeScValBase64_def)
  let ?k = "typedUserEntityKey address pool"
  obtain b where b: "resolved_builder S D a prior changes ledger closeTime = Some b" and st: "br_state r = snd (bl_rows D b)"
    using assms(1) by (rule decode_parts)
  obtain b' where b': "resolved_builder S D a' (Some (br_state r)) changes' ledger' closeTime' = Some b'"
      and st': "br_state r' = snd (bl_rows D b')"
    using assms(2) by (rule decode_parts)
  let ?A = "bl_applied S D a' (Some (br_state r)) changes' ledger'"
  have dirty: "keyed identity_key (b_dirtyUsers ?A)" using bl_applied_ok [of S D a' "Some (br_state r)" changes' ledger'] by (simp add: bl_ok_defs)
  have clean: "gm_get (b_dirtyUsers ?A) ?k = None"
  proof (rule ccontr)
    assume "gm_get (b_dirtyUsers ?A) ?k \<noteq> None"
    then obtain u where u: "gm_get (b_dirtyUsers ?A) ?k = Some u" by auto
    then have "identity_key u = ?k" using dirty keyed_get by metis
    moreover have "\<lparr>dp_Address = ui_address u, dp_PoolContractID = ui_pool u, dp_Kind = dirty_kind_of (b_pendingPos ?A) ?k\<rparr> \<in> set (br_dirty r')"
      using gm_get_in [OF u] by (force simp: decode_reports [OF assms(2)] finalizeDirtyPositions_def)
    ultimately show False using assms(3) by (force simp: identity_key_def)
  qed
  have "filter (\<lambda>u. user_key u = ?k) (ls_Users (br_state r')) = filter (\<lambda>u. user_key u = ?k) (ls_Users (br_state r))"
    using unmarked_rows [OF empty b b' [unfolded st] clean [unfolded st]] resolved_frame(1) [OF b] resolved_frame(1) [OF b']
    by (simp add: st st' rows_of_key bl_ok_defs)
  then have "filter (\<lambda>u. up_Address u = address \<and> up_PoolContractID u = pool) (filter (\<lambda>u. user_key u = ?k) (ls_Users (br_state r'))) =
      filter (\<lambda>u. up_Address u = address \<and> up_PoolContractID u = pool) (filter (\<lambda>u. user_key u = ?k) (ls_Users (br_state r)))" by simp
  moreover have "(up_Address u = address \<and> up_PoolContractID u = pool) \<and> user_key u = ?k \<longleftrightarrow> up_Address u = address \<and> up_PoolContractID u = pool" for u
    by (auto simp: user_key_def)
  ultimately show ?thesis by (simp add: conj_commute cong: filter_cong) 
qed

section \<open>Temporary entries\<close>

lemma entry_iff: "keyed key m \<Longrightarrow> x \<in> set (map snd m) \<longleftrightarrow> gm_get m (key x) = Some x"
  by (force simp: keyed_def dest: in_gm_get gm_get_in)

lemma unmarked_temporary:
  assumes "gm_get (b_dirtyTemporary (bl_applied S D a prior changes ledger)) k = None"
  shows "gm_get (b_auctions (bl_applied S D a prior changes ledger)) k = gm_get (b_auctions (bl_start S a prior ledger)) k"
    and "gm_get (b_queuedReserves (bl_applied S D a prior changes ledger)) k = gm_get (b_queuedReserves (bl_start S a prior ledger)) k"
proof -
  have "temporary_tracked (bl_start S a prior ledger) (run (bl_apply S D ledger) changes (bl_start S a prior ledger))"
    using step_changes bl_start_ok by (metis step_ok_def)
  then show "gm_get (b_auctions (bl_applied S D a prior changes ledger)) k = gm_get (b_auctions (bl_start S a prior ledger)) k"
    and "gm_get (b_queuedReserves (bl_applied S D a prior changes ledger)) k = gm_get (b_queuedReserves (bl_start S a prior ledger)) k"
    using assms by (simp_all add: temporary_tracked_def bl_applied_def markPoolRemapDirty_def)
qed

lemma reload_temporary:
  assumes "entries_ok b"
  shows "gm_get (b_auctions (bl_start S a (Some (snd (bl_rows D b))) ledger)) k = gm_get (b_auctions b) k"
    and "gm_get (b_queuedReserves (bl_start S a (Some (snd (bl_rows D b))) ledger)) k = gm_get (b_queuedReserves b) k"
proof -
  have ok: "keyed auction_key (b_auctions b)" "keyed queued_key (b_queuedReserves b)" using assms by (simp_all add: entries_ok_def)
  have "gm_get (gm.load auction_key (\<lambda>x. x) (sort_key f (map snd (b_auctions b))) []) k = map_option (\<lambda>x. x) (gm_get (b_auctions b) k)"
    for f :: "auction_state \<Rightarrow> string \<times> string \<times> int"
    using ok(1) by (intro gm_get_reload [where h = "\<lambda>_ x. x"]) (auto simp: keyed_def)
  then show "gm_get (b_auctions (bl_start S a (Some (snd (bl_rows D b))) ledger)) k = gm_get (b_auctions b) k"
    by (simp add: bl_start_def loadPrior_def newBlendStateBuilder_def bl_rows_def buildAuctions_def auction_key_def [abs_def] Let_def option.map_ident)
  have "gm_get (gm.load queued_key (\<lambda>x. x) (sort_key f (map snd (b_queuedReserves b))) []) k = map_option (\<lambda>x. x) (gm_get (b_queuedReserves b) k)"
    for f :: "queued_reserve_state \<Rightarrow> string \<times> string"
    using ok(2) by (intro gm_get_reload [where h = "\<lambda>_ x. x"]) (auto simp: keyed_def)
  then show "gm_get (b_queuedReserves (bl_start S a (Some (snd (bl_rows D b))) ledger)) k = gm_get (b_queuedReserves b) k"
    by (simp add: bl_start_def loadPrior_def newBlendStateBuilder_def bl_rows_def buildQueuedReserves_def queued_key_def [abs_def] Let_def option.map_ident)
qed

text \<open>A marked entry is reported, with what became of it.\<close>

lemma marked_reported:
  assumes "decodeBlendState S D J a prior changes ledger closeTime = Some r"
    and "gm_get (b_dirtyTemporary (bl_applied S D a prior changes ledger)) k \<noteq> None"
  shows "\<exists>c\<in>set (br_temporary r). change_key c = k
    \<and> (tc_Kind c = TemporaryAuction \<longrightarrow> tc_Action c = dirty_kind_of (b_auctions (bl_applied S D a prior changes ledger)) k)
    \<and> (tc_Kind c = TemporaryQueuedReserve \<longrightarrow> tc_Action c = dirty_kind_of (b_queuedReserves (bl_applied S D a prior changes ledger)) k)"
proof -
  let ?A = "bl_applied S D a prior changes ledger"
  obtain c where c: "gm_get (b_dirtyTemporary ?A) k = Some c" using assms(2) by auto
  have "keyed change_key (b_dirtyTemporary ?A)" using bl_applied_ok [of S D a prior changes ledger] by (simp add: bl_ok_defs)
  then have key: "k = change_key c" using c by (rule keyed_get)
  let ?c = "c\<lparr>tc_Action := (case tc_Kind c of TemporaryAuction \<Rightarrow> dirty_kind_of (b_auctions ?A) k
    | TemporaryQueuedReserve \<Rightarrow> dirty_kind_of (b_queuedReserves ?A) k)\<rparr>"
  have "?c \<in> set (br_temporary r)"
    using gm_get_in [OF c] by (force simp: decode_reports(2) [OF assms(1)] finalizeTemporaryStateChanges_def)
  moreover have "change_key ?c = k" unfolding key change_key_def by (cases "tc_Kind c") simp_all
  ultimately show ?thesis by (intro bexI [of _ ?c]) simp_all
qed

lemma auctions_of_rows: "set (ls_Auctions (snd (bl_rows D b))) = set (map snd (b_auctions b))"
  by (simp add: bl_rows_def buildAuctions_def Let_def)

lemma queued_of_rows: "set (ls_QueuedReserves (snd (bl_rows D b))) = set (map snd (b_queuedReserves b))"
  by (simp add: bl_rows_def buildQueuedReserves_def Let_def)

lemma dirty_kind_iff:
  assumes "keyed key m"
  shows "dirty_kind_of m k = (if \<exists>y\<in>set (map snd m). key y = k then DirtyUpsert else DirtyRemoval)"
proof (cases "gm_get m k")
  case None
  then have "key y \<noteq> k" if "y \<in> set (map snd m)" for y using entry_iff [OF assms] that by fastforce
  with None show ?thesis by (simp add: dirty_kind_of_def)
next
  case (Some y)
  then have "y \<in> set (map snd m)" "key y = k" using keyed_get [OF assms Some] entry_iff [OF assms] by simp_all
  with Some show ?thesis by (auto simp: dirty_kind_of_def)
qed

text \<open>
  C13: The report of temporary changes is complete: an auction or a queued reserve that two
  consecutive ledgers do not share is reported by the later one, as an upsert when an entry with its
  identity is still there and as a removal when there is none.
\<close>

theorem temporary_complete:
  assumes "decodeBlendState S D J a prior changes ledger closeTime = Some r"
    and "decodeBlendState S D J a' (Some (br_state r)) changes' ledger' closeTime' = Some r'"
  shows "((x \<in> set (ls_Auctions (br_state r))) \<noteq> (x \<in> set (ls_Auctions (br_state r'))) \<longrightarrow>
      (\<exists>c\<in>set (br_temporary r'). change_key c = auction_key x \<and> (tc_Kind c = TemporaryAuction \<longrightarrow>
        tc_Action c = (if \<exists>y\<in>set (ls_Auctions (br_state r')). auction_key y = auction_key x then DirtyUpsert else DirtyRemoval))))
    \<and> ((q \<in> set (ls_QueuedReserves (br_state r))) \<noteq> (q \<in> set (ls_QueuedReserves (br_state r'))) \<longrightarrow>
      (\<exists>c\<in>set (br_temporary r'). change_key c = queued_key q \<and> (tc_Kind c = TemporaryQueuedReserve \<longrightarrow>
        tc_Action c = (if \<exists>y\<in>set (ls_QueuedReserves (br_state r')). queued_key y = queued_key q then DirtyUpsert else DirtyRemoval))))"
proof -
  obtain b where b: "resolved_builder S D a prior changes ledger closeTime = Some b" and st: "br_state r = snd (bl_rows D b)"
    using assms(1) by (rule decode_parts)
  obtain b' where b': "resolved_builder S D a' (Some (br_state r)) changes' ledger' closeTime' = Some b'"
      and st': "br_state r' = snd (bl_rows D b')"
    using assms(2) by (rule decode_parts)
  let ?A = "bl_applied S D a' (Some (br_state r)) changes' ledger'"
  have ok: "entries_ok b" "entries_ok b'" using resolved_frame(1) [OF b] resolved_frame(1) [OF b'] by (simp_all add: bl_ok_def)
  have keys: "keyed auction_key (b_auctions b)" "keyed queued_key (b_queuedReserves b)"
    "keyed auction_key (b_auctions b')" "keyed queued_key (b_queuedReserves b')" using ok by (simp_all add: entries_ok_def)
  have A: "b_auctions ?A = b_auctions b'" "b_queuedReserves ?A = b_queuedReserves b'"
    by (simp_all add: resolved_frame(4,5) [OF b'])
  have auctions: "gm_get (b_auctions b') k = gm_get (b_auctions b) k" and queued: "gm_get (b_queuedReserves b') k = gm_get (b_queuedReserves b) k"
    if "gm_get (b_dirtyTemporary ?A) k = None" for k
    using unmarked_temporary [OF that] unfolding A unfolding st by (simp_all add: reload_temporary [OF ok(1)])
  show ?thesis
  proof (intro conjI impI)
    assume "(x \<in> set (ls_Auctions (br_state r))) \<noteq> (x \<in> set (ls_Auctions (br_state r')))"
    then have "gm_get (b_auctions b) (auction_key x) \<noteq> gm_get (b_auctions b') (auction_key x)"
      by (auto simp: st st' auctions_of_rows entry_iff [OF keys(1)] entry_iff [OF keys(3)] simp del: set_map)
    then have "gm_get (b_dirtyTemporary ?A) (auction_key x) \<noteq> None" using auctions by metis
    from marked_reported [OF assms(2) this] show "\<exists>c\<in>set (br_temporary r'). change_key c = auction_key x \<and> (tc_Kind c = TemporaryAuction \<longrightarrow>
        tc_Action c = (if \<exists>y\<in>set (ls_Auctions (br_state r')). auction_key y = auction_key x then DirtyUpsert else DirtyRemoval))"
      unfolding A dirty_kind_iff [OF keys(3)] st' auctions_of_rows by blast
  next
    assume "(q \<in> set (ls_QueuedReserves (br_state r))) \<noteq> (q \<in> set (ls_QueuedReserves (br_state r')))"
    then have "gm_get (b_queuedReserves b) (queued_key q) \<noteq> gm_get (b_queuedReserves b') (queued_key q)"
      by (auto simp: st st' queued_of_rows entry_iff [OF keys(2)] entry_iff [OF keys(4)] simp del: set_map)
    then have "gm_get (b_dirtyTemporary ?A) (queued_key q) \<noteq> None" using queued by metis
    from marked_reported [OF assms(2) this] show "\<exists>c\<in>set (br_temporary r'). change_key c = queued_key q \<and> (tc_Kind c = TemporaryQueuedReserve \<longrightarrow>
        tc_Action c = (if \<exists>y\<in>set (ls_QueuedReserves (br_state r')). queued_key y = queued_key q then DirtyUpsert else DirtyRemoval))"
      unfolding A dirty_kind_iff [OF keys(4)] st' queued_of_rows by blast
  qed
qed

section \<open>Examples\<close>

text \<open>The auction of the example ledger goes; the holder is not touched.\<close>

definition lg_close :: contract_data_change where
  "lg_close = zero_contract_data_change\<lparr>cd_ContractID := ''CP'', cd_KeyXDR := ''AAAB''\<rparr>"

lemma lg_close_key: "decodeScValBase64 lg_sdk ''AAAB'' = Some (ScVec (Some [ScSym ''Auction'', ScAddress (AddrAccount []), ScU32 0]))"
  by code_simp

lemma lg_close_apply:
  "bl_apply lg_sdk D ledger lg_close (lg_loaded ledger m) =
     addDelta ''auction'' ''CP|G|0'' False None ledger ((lg_loaded ledger m)\<lparr>b_auctions := gm_del ''CP|G|0'' m,
       b_dirtyTemporary := gm_set ''CP|G|0'' (auction_change ''CP'' ''G'' 0) []\<rparr>)"
proof -
  have key: "cd_KeyXDR lg_close = ''AAAB''" "cd_ContractID lg_close = ''CP''" "\<not> entry_live lg_close ledger"
    by (simp_all add: lg_close_def zero_contract_data_change_def entry_live_def)
  have parts: "auctionKeyParts lg_sdk [ScAddress (AddrAccount []), ScU32 0] = Some (''G'', 0)" by code_simp
  have owned: "b_ownedFeeds (lg_loaded ledger m) = {}" "b_ownedComets (lg_loaded ledger m) = {}" "b_ownedAssets (lg_loaded ledger m) = {}"
    by (simp_all add: lg_loaded_def newBlendStateBuilder_def)
  have show_zero: "typedAuctionEntityKey ''CP'' ''G'' 0 = ''CP|G|0''" by code_simp
  have variant: "isOraclePriceKey (ScVec (Some [ScSym ''Auction'', ScAddress (AddrAccount []), ScU32 0])) = False"
    "scSymbol (ScVec (Some [ScSym ''Auction'', ScAddress (AddrAccount []), ScU32 0])) = None"
    "scVariant (ScVec (Some [ScSym ''Auction'', ScAddress (AddrAccount []), ScU32 0])) = Some (''Auction'', [ScAddress (AddrAccount []), ScU32 0])"
    by code_simp+
  show ?thesis
    by (simp add: bl_apply_def key lg_close_key applyDelete_def owned variant delete_variant_def parts if_ok_def show_zero Let_def)
qed

lemma lg_close_fields:
  "b_auctions (bl_applied lg_sdk D lg_adapter (Some (lg_state us [lg_auction])) [lg_close] ledger) = []"
  "b_dirtyUsers (bl_applied lg_sdk D lg_adapter (Some (lg_state us [lg_auction])) [lg_close] ledger) = []"
  "b_aggregators (bl_applied lg_sdk D lg_adapter (Some (lg_state us [lg_auction])) [lg_close] ledger) = []"
proof -
  have key: "auction_key lg_auction = ''CP|G|0''" by code_simp
  show "b_auctions (bl_applied lg_sdk D lg_adapter (Some (lg_state us [lg_auction])) [lg_close] ledger) = []"
    by (simp add: bl_applied_def lg_start lg_close_apply key gm_set_def gm_del_def markPoolRemapDirty_def addDelta_def)
  show "b_dirtyUsers (bl_applied lg_sdk D lg_adapter (Some (lg_state us [lg_auction])) [lg_close] ledger) = []"
    unfolding bl_applied_def lg_start run_Cons run_Nil lg_close_apply
    by (simp add: markPoolRemapDirty_def addDelta_def remapped_def reserveIndexSnapshot_def
      lg_state_def lg_published gm_set_def gm_get_def lg_entry_def reserveIndexEqual_def)
  show "b_aggregators (bl_applied lg_sdk D lg_adapter (Some (lg_state us [lg_auction])) [lg_close] ledger) = []"
    by (simp add: bl_applied_def lg_start lg_close_apply key gm_set_def gm_del_def markPoolRemapDirty_def addDelta_def)
qed

lemma lg_closes:
  obtains r' where "decodeBlendState lg_sdk rat_decimal (\<lambda>_. []) lg_adapter (Some (br_state (lg_result [lg_auction]))) [lg_close] 8 zero_time = Some r'"
    and "br_dirty r' = []" and "ls_Auctions (br_state r') = []"
proof -
  let ?b = "bl_applied lg_sdk rat_decimal lg_adapter (Some (lg_state [lg_row] [lg_auction])) [lg_close] 8"
  have "b_aggregators (backstops_dirtied ?b) = b_aggregators ?b"
    using backstops_dirtied_only [of ?b] by (auto simp: backstops_only_def)
  then have "\<exists>r'. decodeBlendState lg_sdk rat_decimal (\<lambda>_. []) lg_adapter (Some (lg_state [lg_row] [lg_auction])) [lg_close] 8 zero_time = Some r'"
    by (simp add: decodeBlendState_def Let_def bl_build_def resolveAggregatorPrices_def lg_close_fields split_def)
  then obtain r' where r: "decodeBlendState lg_sdk rat_decimal (\<lambda>_. []) lg_adapter (Some (lg_state [lg_row] [lg_auction])) [lg_close] 8 zero_time = Some r'"
    by blast
  obtain b where b: "resolved_builder lg_sdk rat_decimal lg_adapter (Some (lg_state [lg_row] [lg_auction])) [lg_close] 8 zero_time = Some b"
      and st: "br_state r' = snd (bl_rows rat_decimal b)" using r by (rule decode_parts)
  have "set (ls_Auctions (br_state r')) = {}"
    unfolding st auctions_of_rows using resolved_frame(4) [OF b] by (simp add: lg_close_fields)
  moreover have "br_dirty r' = []" by (simp add: decode_reports(1) [OF r] lg_close_fields finalizeDirtyPositions_def)
  ultimately show ?thesis using r that by (simp add: lg_result_def)
qed

theorem dirty_complete_witness:
  "\<exists>r'. decodeBlendState lg_sdk rat_decimal (\<lambda>_. []) lg_adapter (Some (br_state (lg_result [lg_auction]))) [lg_close] 8 zero_time = Some r'
    \<and> filter (\<lambda>u. up_Address u = ''G'' \<and> up_PoolContractID u = ''CP'') (ls_Users (br_state r')) = [lg_row]"
proof -
  obtain r' where r': "decodeBlendState lg_sdk rat_decimal (\<lambda>_. []) lg_adapter (Some (br_state (lg_result [lg_auction]))) [lg_close] 8 zero_time = Some r'"
      and clean: "br_dirty r' = []" by (rule lg_closes)
  have row: "filter (\<lambda>u. up_Address u = ''G'' \<and> up_PoolContractID u = ''CP'') (ls_Users (br_state (lg_result [lg_auction]))) = [lg_row]"
    by (simp add: lg_result_def lg_state_def lg_row_def) (simp add: lg_holder_def)
  from dirty_complete [OF lg_decodes(2) [of rat_decimal "\<lambda>_. []" "[]" 7 zero_time] r', of "''G''" "''CP''"] row
  have "filter (\<lambda>u. up_Address u = ''G'' \<and> up_PoolContractID u = ''CP'') (ls_Users (br_state r')) = [lg_row]"
    by (simp add: clean)
  with r' show ?thesis by blast
qed

theorem temporary_complete_witness:
  "\<exists>r'. decodeBlendState lg_sdk rat_decimal (\<lambda>_. []) lg_adapter (Some (br_state (lg_result [lg_auction]))) [lg_close] 8 zero_time = Some r'
    \<and> (\<exists>c\<in>set (br_temporary r'). change_key c = ''CP|G|0'' \<and> (tc_Kind c = TemporaryQueuedReserve \<or> tc_Action c = DirtyRemoval))"
proof -
  obtain r' where r': "decodeBlendState lg_sdk rat_decimal (\<lambda>_. []) lg_adapter (Some (br_state (lg_result [lg_auction]))) [lg_close] 8 zero_time = Some r'"
      and gone: "ls_Auctions (br_state r') = []" by (rule lg_closes)
  have "lg_auction \<in> set (ls_Auctions (br_state (lg_result [lg_auction])))" by (simp add: lg_result_def lg_state_def)
  then have "\<exists>c\<in>set (br_temporary r'). change_key c = auction_key lg_auction \<and> (tc_Kind c = TemporaryAuction \<longrightarrow> tc_Action c = DirtyRemoval)"
    using temporary_complete [OF lg_decodes(2) [of rat_decimal "\<lambda>_. []" "[]" 7 zero_time] r', of lg_auction] gone by simp
  moreover have "auction_key lg_auction = ''CP|G|0''" by code_simp
  ultimately show ?thesis using r' temporary_state_kind.exhaust by metis
qed

end
