(* ===== verification/Blend_Incremental.thy ===== *)
theory Blend_Incremental
  imports Blend_Ledger
begin

text \<open>
  The incremental strategy (src/blend/state_incremental.go): the builder of the last ledger is carried
  instead of being reloaded, and the position rows of each holder are cached, in the order of the
  output.  A pointer to a cached entry is its key in the index; a pointer to a ledger state is an
  address with the content behind it.  The dirty set the strategy shares with its builder is the
  builder's.  The knobs of the bisection test are off.
\<close>

section \<open>State\<close>

record user_entry =
  un_address :: string
  un_pool :: string
  un_composite :: string
  un_out :: pending_user_position
  un_block :: "user_reserve_position list"

record incremental =
  in_mirror :: "bl_builder option"
  in_lastOut :: "(nat \<times> ledger_state) option"
  in_keys :: "string list"
  in_index :: "(string, user_entry) gmap"
  in_usersLen :: int
  in_poolIndexes :: "(string, (int, string) gmap) gmap"

definition newIncrementalStrategy :: incremental where
  "newIncrementalStrategy = \<lparr>in_mirror = None, in_lastOut = None, in_keys = [], in_index = [], in_usersLen = 0, in_poolIndexes = []\<rparr>"

definition entry_at :: "(string, user_entry) gmap \<Rightarrow> string \<Rightarrow> user_entry" where
  "entry_at m k = (case gm_get m k of Some e \<Rightarrow> e
     | None \<Rightarrow> \<lparr>un_address = '''', un_pool = '''', un_composite = k, un_out = zero_pending_user_position, un_block = []\<rparr>)"

section \<open>Blocks\<close>

text \<open>The rows of one holder, by asset and kind; the skipped legs are diagnostics of a dirty holder.\<close>

definition block_order :: "user_reserve_position \<Rightarrow> string \<times> string" where
  "block_order u = (up_AssetID u, position_type_string (up_PositionType u))"

definition computeBlock :: "bl_builder \<Rightarrow> pending_positions \<Rightarrow> user_reserve_position list" where
  "computeBlock b p =
     (case gm_get (b_pools b) (pp_poolContract p) of
        None \<Rightarrow> [] | Some pool \<Rightarrow> sort_key block_order (rights (buildUserPositionsForPending (b_ledgerSeq b) pool p)))"

definition block_diagnostics :: "bl_builder \<Rightarrow> pending_positions \<Rightarrow> decode_diagnostic list" where
  "block_diagnostics b p =
     (case gm_get (b_pools b) (pp_poolContract p) of
        None \<Rightarrow> [] | Some pool \<Rightarrow> lefts (buildUserPositionsForPending (b_ledgerSeq b) pool p))"

section \<open>The order of the keys\<close>

definition entry_order :: "user_entry \<Rightarrow> string \<times> string" where
  "entry_order e = (un_address e, un_pool e)"

definition userEntryLess :: "user_entry \<Rightarrow> user_entry \<Rightarrow> bool" where
  "userEntryLess a b \<longleftrightarrow> (if un_address a \<noteq> un_address b then un_address a < un_address b else un_pool a < un_pool b)"

text \<open>\<open>sort.Search\<close>: the binary search for the least index in [i, j) at which the test holds.\<close>

function sort_search :: "(nat \<Rightarrow> bool) \<Rightarrow> nat \<Rightarrow> nat \<Rightarrow> nat" where
  "sort_search f i j =
     (if i < j then (let h = (i + j) div 2 in if f h then sort_search f i h else sort_search f (h + 1) j) else i)"
  by pat_completeness auto
termination
  by (relation "measure (\<lambda>(f, i, j). j - i)") auto

declare sort_search.simps [simp del]

definition key_position :: "user_entry \<Rightarrow> incremental \<Rightarrow> nat" where
  "key_position e s = sort_search (\<lambda>i. \<not> userEntryLess (entry_at (in_index s) (in_keys s ! i)) e) 0 (length (in_keys s))"

definition insertKey :: "user_entry \<Rightarrow> incremental \<Rightarrow> incremental" where
  "insertKey e s = (let i = key_position e s in s\<lparr>in_keys := take i (in_keys s) @ [un_composite e] @ drop i (in_keys s)\<rparr>)"

definition removeKey :: "user_entry \<Rightarrow> incremental \<Rightarrow> incremental" where
  "removeKey e s =
     (let i = key_position e s;
          i = i + length (takeWhile (\<lambda>k. k \<noteq> un_composite e) (drop i (in_keys s)))
      in if i < length (in_keys s) then s\<lparr>in_keys := take i (in_keys s) @ drop (i + 1) (in_keys s)\<rparr> else s)"

section \<open>Starting a ledger\<close>

definition refreshOwned :: "bl_adapter \<Rightarrow> bl_builder \<Rightarrow> bl_builder" where
  "refreshOwned a b = b\<lparr>b_owned := ba_contracts a, b_ownedAssets := ba_assets a, b_ownedFeeds := ba_feeds a,
     b_ownedComets := ba_comets a, b_protocol := bl_Protocol a\<rparr>"

definition fresh_entry :: "bl_builder \<Rightarrow> string \<Rightarrow> pending_positions \<Rightarrow> user_entry" where
  "fresh_entry b k p = \<lparr>un_address = pp_user p, un_pool = pp_poolContract p, un_composite = k, un_out = pendingOut p,
     un_block = computeBlock b p\<rparr>"

definition reseed :: "sdk \<Rightarrow> bl_adapter \<Rightarrow> ledger_state option \<Rightarrow> incremental \<Rightarrow> incremental" where
  "reseed S a prior s =
     (let b = refreshOwned a newBlendStateBuilder;
          b = (case prior of None \<Rightarrow> b | Some st \<Rightarrow> loadPrior S st b);
          index = map (\<lambda>(k, p). (k, fresh_entry b k p)) (b_pendingPos b)
      in s\<lparr>in_mirror := Some b, in_index := index, in_keys := sort_key (\<lambda>k. entry_order (entry_at index k)) (map fst index),
           in_usersLen := sum_list (map (\<lambda>(_, e). int (length (un_block e))) index),
           in_poolIndexes := map (\<lambda>(cid, p). (cid, copyReserveIndex (pb_reserveByIndex p))) (b_pools b)\<rparr>)"

text \<open>What the round trip through a stored state would lose of the carried builder is dropped.\<close>

definition carried_balances :: "(string, pool_builder) gmap \<Rightarrow> (string, backstop_pool_balance) gmap" where
  "carried_balances m = List.map_filter (\<lambda>(cid, p). let st = pb_state p in
     if bp_BackstopSharesRaw st \<noteq> '''' \<or> bp_BackstopTokensRaw st \<noteq> '''' \<or> bp_BackstopQ4WSharesRaw st \<noteq> ''''
     then Some (cid, \<lparr>bb_poolContract = cid, bb_sharesRaw = bp_BackstopSharesRaw st, bb_tokensRaw = bp_BackstopTokensRaw st,
       bb_q4wRaw = bp_BackstopQ4WSharesRaw st\<rparr>) else None) m"

definition carried_emissions :: "(string, pool_builder) gmap \<Rightarrow> (string, backstop_emis_data) gmap" where
  "carried_emissions m = List.map_filter (\<lambda>(cid, p). let st = pb_state p;
       e = \<lparr>be_poolContract = cid, be_epsRaw = bp_BackstopEmisEPSRaw st, be_expirationRaw = bp_BackstopEmisExpirationRaw st,
         be_indexRaw = bp_BackstopEmisIndexRaw st, be_lastTimeRaw = bp_BackstopEmisLastTimeRaw st\<rparr>
     in if emis_empty e then None else Some (cid, e)) m"

definition normalizeCarry :: "bl_adapter \<Rightarrow> bl_builder \<Rightarrow> bl_builder" where
  "normalizeCarry a b =
     (refreshOwned a b)\<lparr>b_deltas := [], b_diagnostics := [], b_dirtyTemporary := [], b_dirtyBackstops := [],
        b_changedFeeds := [], b_changedPriceAssets := [], b_oracles := filter (\<lambda>(_, o'). \<not> ob_synthesized o') (b_oracles b),
        b_backstopPools := carried_balances (b_pools b), b_backstopEmis := carried_emissions (b_pools b)\<rparr>"

section \<open>Finishing a ledger\<close>

text \<open>The index maps of the pools that are there; those that did not change are the old ones.\<close>

definition refresh_indexes ::
  "(string, (int, string) gmap) gmap \<Rightarrow> (string, pool_builder) gmap \<Rightarrow> (string, (int, string) gmap) gmap" where
  "refresh_indexes before pools = filter (\<lambda>(cid, _). gm_get pools cid \<noteq> None)
     (foldl (\<lambda>m (cid, p). if remapped before pools cid then gm_set cid (copyReserveIndex (pb_reserveByIndex p)) m else m) before pools)"

text \<open>The cached holders of a pool whose index map changed are dirty.\<close>

definition mark_cached :: "incremental \<Rightarrow> bl_builder \<Rightarrow> bl_builder" where
  "mark_cached s b = b\<lparr>b_dirtyUsers :=
     foldl (\<lambda>m e. gm_set (un_composite e) \<lparr>ui_address = un_address e, ui_pool = un_pool e\<rparr> m) (b_dirtyUsers b)
       (filter (\<lambda>e. remapped (in_poolIndexes s) (b_pools b) (un_pool e)) (map (entry_at (in_index s)) (in_keys s)))\<rparr>"

definition update_entry :: "bl_builder \<Rightarrow> string \<times> user_identity \<Rightarrow> incremental \<Rightarrow> incremental" where
  "update_entry b ku s =
     (case ku of (k, u) \<Rightarrow>
      (case (gm_get (b_pendingPos b) k, gm_get (in_index s) k) of
         (Some p, Some e) \<Rightarrow>
           s\<lparr>in_index := gm_set k (e\<lparr>un_out := pendingOut p, un_block := computeBlock b p\<rparr>) (in_index s),
             in_usersLen := in_usersLen s - int (length (un_block e)) + int (length (computeBlock b p))\<rparr>
       | (Some p, None) \<Rightarrow>
           (let e = \<lparr>un_address = ui_address u, un_pool = ui_pool u, un_composite = k, un_out = pendingOut p,
                  un_block = computeBlock b p\<rparr>;
                s = insertKey e s
            in s\<lparr>in_index := gm_set k e (in_index s), in_usersLen := in_usersLen s + int (length (un_block e))\<rparr>)
       | (None, Some e) \<Rightarrow>
           (let s = removeKey e s
            in s\<lparr>in_index := gm_del k (in_index s), in_usersLen := in_usersLen s - int (length (un_block e))\<rparr>)
       | (None, None) \<Rightarrow> s))"

definition dirty_diagnostics :: "bl_builder \<Rightarrow> decode_diagnostic list" where
  "dirty_diagnostics b = concat (map (\<lambda>(k, _). case gm_get (b_pendingPos b) k of
     None \<Rightarrow> [] | Some p \<Rightarrow> block_diagnostics b p) (b_dirtyUsers b))"

text \<open>The output: the rows of the holders from the cache, everything else as in the full build.\<close>

definition cached_state :: "'d decimal_ops \<Rightarrow> bl_builder \<Rightarrow> incremental \<Rightarrow> ledger_state" where
  "cached_state D b s =
     (let es = map (entry_at (in_index s)) (in_keys s) in
      zero_ledger_state\<lparr>
        ls_Pools := sort_key bp_ContractID (map (\<lambda>(_, p). pb_state p) (b_pools b)),
        ls_Users := concat (map un_block es),
        ls_Backstops := sort_key (\<lambda>k. (bk_Address k, bk_PoolContractID k)) (map (\<lambda>(_, u). backstopPosition D b u) (b_backstopUsers b)),
        ls_PendingUserPositions := map un_out es,
        ls_Oracles := buildOracles (b_oracles b), ls_PriceFeeds := buildPriceFeeds (b_feeds b),
        ls_OracleAggregators := buildOracleAggregators (b_aggregators b), ls_Assets := buildAssets (b_assets b),
        ls_Auctions := buildAuctions (b_auctions b), ls_UserEmissions := buildUserEmissions (b_userEmis b),
        ls_QueuedReserves := buildQueuedReserves (b_queuedReserves b),
        ls_BackstopInstances := buildBackstopInstances (b_backstopInstances b),
        ls_AMMPools := buildAMMPools (b_protocol b) (b_comets b)\<rparr>)"

definition finished_pools :: "bl_builder \<Rightarrow> bl_builder" where
  "finished_pools b = b\<lparr>b_pools := map (\<lambda>(cid, p). (cid, built_pool b p)) (b_pools b)\<rparr>"

definition snapshot :: "'d decimal_ops \<Rightarrow> go_time \<Rightarrow> bl_builder \<Rightarrow> incremental
   \<Rightarrow> (bl_builder \<times> incremental \<times> ledger_state \<times> dirty_position list \<times> dirty_backstop list) option" where
  "snapshot D closeTime b s =
     map_option (\<lambda>b.
       (let b = mark_cached s (finished_pools (resolveOraclePrices b));
            dirty = finalizeDirtyPositions (b_dirtyUsers b) (b_pendingPos b);
            b = backstops_dirtied b;
            dirtyBackstops = finalizeDirtyBackstops (b_dirtyBackstops b) (b_backstopUsers b);
            s = run (update_entry b) (b_dirtyUsers b) (s\<lparr>in_poolIndexes := refresh_indexes (in_poolIndexes s) (b_pools b)\<rparr>);
            b = b\<lparr>b_diagnostics := b_diagnostics b @ dirty_diagnostics b, b_dirtyUsers := []\<rparr>
        in (b, s, cached_state D b s, dirty, dirtyBackstops))) (resolveAggregatorPrices closeTime b)"

section \<open>Decoding\<close>

definition continues :: "(nat \<times> ledger_state) option \<Rightarrow> incremental \<Rightarrow> bool" where
  "continues prior s \<longleftrightarrow> in_mirror s \<noteq> None \<and> map_option fst prior = map_option fst (in_lastOut s)"

definition prepared :: "sdk \<Rightarrow> bl_adapter \<Rightarrow> (nat \<times> ledger_state) option \<Rightarrow> incremental \<Rightarrow> incremental" where
  "prepared S a prior s =
     (if continues prior s then s\<lparr>in_mirror := map_option (normalizeCarry a) (in_mirror s)\<rparr>
      else reseed S a (map_option snd prior) s)"

definition mirror_applied ::
  "sdk \<Rightarrow> 'd decimal_ops \<Rightarrow> bl_adapter \<Rightarrow> (nat \<times> ledger_state) option \<Rightarrow> contract_data_change list \<Rightarrow> int \<Rightarrow> incremental \<Rightarrow> bl_builder" where
  "mirror_applied S D a prior changes ledger s =
     run (bl_apply S D ledger) changes ((the (in_mirror (prepared S a prior s)))\<lparr>b_ledgerSeq := ledger\<rparr>)"

text \<open>One ledger; the output is stored at the address \<open>ptr\<close>.\<close>

definition incrementalDecode ::
  "sdk \<Rightarrow> 'd decimal_ops \<Rightarrow> (delta_state \<Rightarrow> string) \<Rightarrow> bl_adapter \<Rightarrow> nat \<Rightarrow> (nat \<times> ledger_state) option \<Rightarrow> contract_data_change list
   \<Rightarrow> int \<Rightarrow> go_time \<Rightarrow> incremental \<Rightarrow> (incremental \<times> bl_result) option" where
  "incrementalDecode S D J a ptr prior changes ledger closeTime s =
     (let b = mirror_applied S D a prior changes ledger s;
          b = b\<lparr>b_deltas := sortTypedStateDeltas J (b_deltas b)\<rparr>
      in map_option (\<lambda>(b, s, out, dirty, dirtyBackstops).
           (let b = b\<lparr>b_diagnostics := sortDecodeDiagnostics (b_diagnostics b)\<rparr>
            in (s\<lparr>in_mirror := Some b, in_lastOut := Some (ptr, out)\<rparr>,
                \<lparr>br_state = out, br_deltas = b_deltas b, br_dirty = dirty, br_dirtyBackstops = dirtyBackstops,
                 br_diagnostics = b_diagnostics b,
                 br_temporary = finalizeTemporaryStateChanges (b_dirtyTemporary b) (b_auctions b) (b_queuedReserves b)\<rparr>)))
         (snapshot D closeTime b (prepared S a prior s)))"

definition userPositions :: "incremental \<Rightarrow> string \<Rightarrow> string \<Rightarrow> user_reserve_position list" where
  "userPositions s address pool =
     (case gm_get (in_index s) (typedUserEntityKey address pool) of None \<Rightarrow> [] | Some e \<Rightarrow> un_block e)"

text \<open>The adapter's entry point under the incremental strategy.\<close>

definition incrementalDecodeStateAt ::
  "sdk \<Rightarrow> 'd decimal_ops \<Rightarrow> (delta_state \<Rightarrow> string) \<Rightarrow> bl_adapter \<times> incremental \<Rightarrow> nat \<Rightarrow> (nat \<times> ledger_state) option
   \<Rightarrow> contract_data_change list \<Rightarrow> int \<Rightarrow> go_time \<Rightarrow> ((bl_adapter \<times> incremental) \<times> ledger_state) option" where
  "incrementalDecodeStateAt S D J as ptr prior changes ledger closeTime =
     (case as of (a, s) \<Rightarrow>
      map_option (\<lambda>(s, r). ((a\<lparr>ba_lastDirty := br_dirty r, ba_lastDirtyBackstops := br_dirtyBackstops r,
          ba_lastDiagnostics := br_diagnostics r, ba_lastTemporaryChanges := br_temporary r, ba_lookup := Some (userPositions s)\<rparr>, s),
          br_state r))
        (incrementalDecode S D J a ptr prior changes ledger closeTime s))"

end
