(* ===== verification/Blend_Cache.thy ===== *)
theory Blend_Cache
  imports Blend_Dirty Blend_Incremental
begin

text \<open>
  The cache of the incremental strategy (src/blend/state_incremental.go): the binary search over the
  ordered keys, what inserting, removing and updating one entry does to the cache, and what the loop
  over the dirty holders leaves in it.
\<close>

section \<open>The binary search\<close>

lemma sort_search_least:
  assumes "i \<le> j" and "\<And>x y. i \<le> x \<Longrightarrow> x \<le> y \<Longrightarrow> y < j \<Longrightarrow> f x \<Longrightarrow> f y"
  shows "i \<le> sort_search f i j \<and> sort_search f i j \<le> j \<and> (\<forall>x. i \<le> x \<and> x < sort_search f i j \<longrightarrow> \<not> f x)
    \<and> (sort_search f i j < j \<longrightarrow> f (sort_search f i j))"
  using assms
proof (induction f i j rule: sort_search.induct)
  case (1 f i j)
  show ?case
  proof (cases "i < j")
    case False
    then show ?thesis using 1(3) by (auto simp: sort_search.simps)
  next
    case True
    define h where "h = (i + j) div 2"
    have h: "i \<le> h" "h < j" using True by (auto simp: h_def)
    have eq: "sort_search f i j = (if f h then sort_search f i h else sort_search f (h + 1) j)"
      using True by (subst sort_search.simps) (simp add: h_def Let_def)
    show ?thesis
    proof (cases "f h")
      case hit: True
      have "\<And>x y. i \<le> x \<Longrightarrow> x \<le> y \<Longrightarrow> y < h \<Longrightarrow> f x \<Longrightarrow> f y" using 1(4) h by (meson less_trans)
      from 1(1) [OF True h_def hit h(1) this] have part: "i \<le> sort_search f i h \<and> sort_search f i h \<le> h
          \<and> (\<forall>x. i \<le> x \<and> x < sort_search f i h \<longrightarrow> \<not> f x) \<and> (sort_search f i h < h \<longrightarrow> f (sort_search f i h))" .
      then have "f (sort_search f i h)" using hit by (cases "sort_search f i h = h") auto
      with part hit h eq show ?thesis by auto
    next
      case miss: False
      have "\<And>x y. h + 1 \<le> x \<Longrightarrow> x \<le> y \<Longrightarrow> y < j \<Longrightarrow> f x \<Longrightarrow> f y" using 1(4) h by (metis add_leD1 order_trans)
      from 1(2) [OF True h_def miss _ this] h have rest: "h + 1 \<le> sort_search f (h + 1) j \<and> sort_search f (h + 1) j \<le> j
          \<and> (\<forall>x. h + 1 \<le> x \<and> x < sort_search f (h + 1) j \<longrightarrow> \<not> f x)
          \<and> (sort_search f (h + 1) j < j \<longrightarrow> f (sort_search f (h + 1) j))" by auto
      have "\<not> f x" if "i \<le> x" "x \<le> h" for x using 1(4) [of x h] h that miss by blast
      then have "\<not> f x" if "i \<le> x" "x < sort_search f (h + 1) j" for x using that rest by (cases "x \<le> h") auto
      with rest miss h eq show ?thesis by auto
    qed
  qed
qed

lemma search_takeWhile:
  assumes "sorted (map g xs)"
  shows "sort_search (\<lambda>i. \<not> g (xs ! i) < x) 0 (length xs) = length (takeWhile (\<lambda>y. g y < x) xs)"
proof -
  let ?f = "\<lambda>i. \<not> g (xs ! i) < x" and ?r = "sort_search (\<lambda>i. \<not> g (xs ! i) < x) 0 (length xs)"
  have mono: "?f b" if "0 \<le> a" "a \<le> b" "b < length xs" "?f a" for a b
  proof -
    have "g (xs ! a) \<le> g (xs ! b)" using assms that by (simp add: sorted_iff_nth_mono)
    with that(4) show ?thesis by auto
  qed
  have r: "?r \<le> length xs" "\<And>i. i < ?r \<Longrightarrow> g (xs ! i) < x" "?r < length xs \<Longrightarrow> \<not> g (xs ! ?r) < x"
    using sort_search_least [of 0 "length xs" ?f] mono by auto
  have "takeWhile (\<lambda>y. g y < x) xs = take ?r xs"
    using r by (intro takeWhile_eq_take_P_nth) auto
  with r(1) show ?thesis by simp
qed

section \<open>Keys\<close>

lemma userEntryLess_order: "userEntryLess a b \<longleftrightarrow> entry_order a < entry_order b"
  by (auto simp: userEntryLess_def entry_order_def less_prod_def)

lemma key_position_takeWhile:
  assumes "sorted (map (\<lambda>k. entry_order (entry_at (in_index s) k)) (in_keys s))"
  shows "key_position e s = length (takeWhile (\<lambda>k. entry_order (entry_at (in_index s) k) < entry_order e) (in_keys s))"
  unfolding key_position_def userEntryLess_order by (rule search_takeWhile [OF assms])

lemma insert_sorted:
  assumes "sorted (map g xs)" and "i = length (takeWhile (\<lambda>y. g y < g x) xs)"
  shows "sorted (map g (take i xs @ [x] @ drop i xs))"
proof -
  let ?P = "\<lambda>y. g y < g x"
  have parts: "take i xs = takeWhile ?P xs" "drop i xs = dropWhile ?P xs"
    unfolding assms(2) by (rule takeWhile_eq_take [symmetric], rule dropWhile_eq_drop [symmetric])
  have "sorted (map g (takeWhile ?P xs) @ map g (dropWhile ?P xs))"
    unfolding map_append [symmetric] takeWhile_dropWhile_id by (rule assms(1))
  then have halves: "sorted (map g (takeWhile ?P xs))" "sorted (map g (dropWhile ?P xs))" by (simp_all add: sorted_append)
  have above: "g x \<le> g y" if y: "y \<in> set (dropWhile ?P xs)" for y
  proof (cases "dropWhile ?P xs")
    case (Cons z zs)
    then have "g x \<le> g z" using hd_dropWhile [of ?P xs] by simp
    moreover have "g z \<le> g y" using halves(2) y Cons by auto
    ultimately show ?thesis by simp
  next
    case Nil
    then show ?thesis using y by (metis empty_iff list.set(1))
  qed
  have below: "g y < g x" if "y \<in> set (takeWhile ?P xs)" for y
    using set_takeWhileD [OF that] by simp
  show ?thesis unfolding parts using halves above below by (fastforce simp: sorted_append)
qed

lemma drop_first:
  assumes "x \<notin> set (take i xs)" and "i \<le> length xs"
  shows "(let j = i + length (takeWhile (\<lambda>y. y \<noteq> x) (drop i xs)) in if j < length xs then take j xs @ drop (j + 1) xs else xs) = remove1 x xs"
proof (cases "x \<in> set (drop i xs)")
  case True
  obtain ys zs where split: "drop i xs = ys @ x # zs" "x \<notin> set ys" using True by (metis split_list_first)
  have tw: "takeWhile (\<lambda>y. y \<noteq> x) (drop i xs) = ys"
    unfolding split(1) using split(2) by (subst takeWhile_append2) auto
  have xs: "xs = take i xs @ ys @ x # zs" using split(1) by (metis append_take_drop_id)
  have len: "length (take i xs) = i" using assms(2) by simp
  have "remove1 x xs = take i xs @ ys @ zs"
    using assms(1) split(2) by (subst xs) (simp add: remove1_append)
  moreover have "take (i + length ys) xs = take i xs @ ys" "drop (i + length ys + 1) xs = zs" "i + length ys < length xs"
    using len by (subst (1) xs, simp)+
  ultimately show ?thesis by (simp add: tw Let_def)
next
  case False
  then have "takeWhile (\<lambda>y. y \<noteq> x) (drop i xs) = drop i xs" by (auto simp: takeWhile_eq_all_conv)
  moreover have "remove1 x xs = xs" using assms(1) False by (metis Un_iff append_take_drop_id remove1_idem set_append)
  ultimately show ?thesis using assms(2) by (simp only: length_drop Let_def) simp
qed

lemma removeKey_remove1:
  assumes "sorted (map (\<lambda>k. entry_order (entry_at (in_index s) k)) (in_keys s))" and "gm_get (in_index s) (un_composite e) = Some e"
  shows "in_keys (removeKey e s) = remove1 (un_composite e) (in_keys s)"
proof -
  let ?P = "\<lambda>k. entry_order (entry_at (in_index s) k) < entry_order e"
  have pos: "key_position e s = length (takeWhile ?P (in_keys s))" by (rule key_position_takeWhile [OF assms(1)])
  have "un_composite e \<notin> set (take (key_position e s) (in_keys s))"
    unfolding pos takeWhile_eq_take [symmetric] using assms(2) by (auto dest!: set_takeWhileD simp: entry_at_def)
  moreover have "key_position e s \<le> length (in_keys s)" by (simp add: pos length_takeWhile_le)
  ultimately show ?thesis using drop_first [of "un_composite e" "key_position e s" "in_keys s"]
    by (auto simp: removeKey_def Let_def)
qed

lemma key_frames [simp]:
  "in_index (insertKey e s) = in_index s" "in_usersLen (insertKey e s) = in_usersLen s" "in_poolIndexes (insertKey e s) = in_poolIndexes s"
  "in_mirror (insertKey e s) = in_mirror s" "in_lastOut (insertKey e s) = in_lastOut s"
  "in_index (removeKey e s) = in_index s" "in_usersLen (removeKey e s) = in_usersLen s" "in_poolIndexes (removeKey e s) = in_poolIndexes s"
  "in_mirror (removeKey e s) = in_mirror s" "in_lastOut (removeKey e s) = in_lastOut s"
  by (simp_all add: insertKey_def removeKey_def Let_def)

section \<open>The cache as a map of entries\<close>

definition key_order :: "(string \<Rightarrow> user_entry option) \<Rightarrow> string \<Rightarrow> string \<times> string" where
  "key_order E k = entry_order (the (E k))"

definition key_length :: "(string \<Rightarrow> user_entry option) \<Rightarrow> string \<Rightarrow> int" where
  "key_length E k = int (length (un_block (the (E k))))"

text \<open>The keys are those of the entries, in the order of the output; the length is that of all rows.\<close>

definition cache_at :: "(string \<Rightarrow> user_entry option) \<Rightarrow> incremental \<Rightarrow> bool" where
  "cache_at E s \<longleftrightarrow> gm_ok (in_index s) \<and> (\<forall>k. gm_get (in_index s) k = E k) \<and> (\<forall>k e. E k = Some e \<longrightarrow> un_composite e = k)
     \<and> distinct (in_keys s) \<and> set (in_keys s) = dom E \<and> sorted (map (key_order E) (in_keys s))
     \<and> in_usersLen s = sum_list (map (key_length E) (in_keys s))"

lemma key_upd_same [simp]: "key_order (E(k := Some e)) k = entry_order e" "key_length (E(k := Some e)) k = int (length (un_block e))"
  by (simp_all add: key_order_def key_length_def)

lemma key_upd_other: "x \<noteq> k \<Longrightarrow> key_order (E(k := v)) x = key_order E x" "x \<noteq> k \<Longrightarrow> key_length (E(k := v)) x = key_length E x"
  by (simp_all add: key_order_def key_length_def)

lemma keys_upd_other:
  assumes "k \<notin> set ks"
  shows "map (key_order (E(k := v))) ks = map (key_order E) ks" "map (key_length (E(k := v))) ks = map (key_length E) ks"
  using assms by (auto intro!: map_cong key_upd_other)

lemma cache_entry_at: "cache_at E s \<Longrightarrow> k \<in> set (in_keys s) \<Longrightarrow> entry_at (in_index s) k = the (E k)"
  by (auto simp: cache_at_def entry_at_def split: option.split)

lemma cache_sorted:
  assumes "cache_at E s"
  shows "sorted (map (\<lambda>k. entry_order (entry_at (in_index s) k)) (in_keys s))"
proof -
  have "map (\<lambda>k. entry_order (entry_at (in_index s) k)) (in_keys s) = map (key_order E) (in_keys s)"
    using cache_entry_at [OF assms] by (intro map_cong refl) (simp add: key_order_def)
  then show ?thesis using assms by (simp only: cache_at_def)
qed

lemma cache_update:
  assumes "cache_at E s" and "E k = Some e" and "un_composite e' = k" and "entry_order e' = entry_order e"
  shows "cache_at (E(k := Some e')) (s\<lparr>in_index := gm_set k e' (in_index s),
    in_usersLen := in_usersLen s - int (length (un_block e)) + int (length (un_block e'))\<rparr>)"
proof -
  note c = assms(1) [unfolded cache_at_def]
  have k: "k \<in> set (in_keys s)" "distinct (in_keys s)" using c assms(2) by auto
  have "key_order (E(k := Some e')) x = key_order E x" for x
    using assms(2,4) by (cases "x = k") (simp_all add: key_order_def)
  then have order: "key_order (E(k := Some e')) = key_order E" ..
  have other: "map (key_length (E(k := Some e'))) (remove1 k (in_keys s)) = map (key_length E) (remove1 k (in_keys s))"
    using k(2) by (intro keys_upd_other) (simp add: set_remove1_eq)
  have "key_length E k = int (length (un_block e))" using assms(2) by (simp add: key_length_def)
  then have "sum_list (map (key_length (E(k := Some e'))) (in_keys s)) =
      sum_list (map (key_length E) (in_keys s)) - int (length (un_block e)) + int (length (un_block e'))"
    using sum_list_map_remove1 [OF k(1), of "key_length E"] sum_list_map_remove1 [OF k(1), of "key_length (E(k := Some e'))"]
    unfolding other by simp
  moreover have "dom (E(k := Some e')) = dom E" using assms(2) by auto
  ultimately show ?thesis using c assms(3) by (simp add: cache_at_def order gm.ok_upd gm_simps)
qed

lemma cache_insert:
  assumes "cache_at E s" and "E k = None" and "un_composite e = k"
  shows "cache_at (E(k := Some e)) ((insertKey e s)\<lparr>in_index := gm_set k e (in_index s),
    in_usersLen := in_usersLen s + int (length (un_block e))\<rparr>)"
proof -
  note c = assms(1) [unfolded cache_at_def]
  let ?i = "key_position e s" and ?E = "E(k := Some e)"
  have keys: "in_keys (insertKey e s) = take ?i (in_keys s) @ [k] @ drop ?i (in_keys s)"
    by (simp add: insertKey_def Let_def assms(3))
  have new: "k \<notin> set (in_keys s)" using c assms(2) by auto
  note old = keys_upd_other [OF new, of E "Some e"]
  have "mset (take ?i (in_keys s)) + mset (drop ?i (in_keys s)) = mset (in_keys s)" by (metis append_take_drop_id mset_append)
  then have perm: "mset (in_keys (insertKey e s)) = mset (k # in_keys s)" unfolding keys by simp
  then have members: "set (in_keys (insertKey e s)) = insert k (set (in_keys s))" "distinct (in_keys (insertKey e s))"
    using new c by (metis list.simps(15) set_mset_mset) (metis perm c distinct.simps(2) mset_eq_imp_distinct_iff new)
  have "takeWhile (\<lambda>y. entry_order (entry_at (in_index s) y) < entry_order e) (in_keys s) =
      takeWhile (\<lambda>y. key_order ?E y < key_order ?E k) (in_keys s)"
    using cache_entry_at [OF assms(1)] new by (intro takeWhile_cong refl) (auto simp: key_order_def)
  then have i: "?i = length (takeWhile (\<lambda>y. key_order ?E y < key_order ?E k) (in_keys s))"
    using key_position_takeWhile [OF cache_sorted [OF assms(1)], of e] by simp
  have "sorted (map (key_order ?E) (in_keys s))" using c unfolding old by blast
  then have "sorted (map (key_order ?E) (in_keys (insertKey e s)))" unfolding keys using i by (rule insert_sorted)
  moreover have "sum_list (map (key_length ?E) (in_keys (insertKey e s))) = in_usersLen s + int (length (un_block e))"
  proof -
    have "sum_list (map (key_length ?E) (in_keys (insertKey e s))) = sum_list (map (key_length ?E) (k # in_keys s))"
      using perm by (metis mset_map sum_mset_sum_list)
    also have "\<dots> = int (length (un_block e)) + sum_list (map (key_length ?E) (in_keys s))" by (simp del: fun_upd_apply)
    finally show ?thesis using c unfolding old by simp
  qed
  moreover have "dom ?E = insert k (dom E)" by auto
  ultimately show ?thesis using c members assms(3) by (simp add: cache_at_def gm.ok_upd gm_simps)
qed

lemma cache_remove:
  assumes "cache_at E s" and "E k = Some e"
  shows "cache_at (E(k := None)) ((removeKey e s)\<lparr>in_index := gm_del k (in_index s),
    in_usersLen := in_usersLen s - int (length (un_block e))\<rparr>)"
proof -
  note c = assms(1) [unfolded cache_at_def]
  have e: "un_composite e = k" "gm_get (in_index s) (un_composite e) = Some e" using c assms(2) by auto
  have keys: "in_keys (removeKey e s) = remove1 k (in_keys s)" using removeKey_remove1 [OF cache_sorted [OF assms(1)] e(2)] e(1) by simp
  have set: "set (remove1 k (in_keys s)) = set (in_keys s) - {k}" using c by (simp add: set_remove1_eq)
  have "k \<notin> set (remove1 k (in_keys s))" by (simp add: set)
  note other = keys_upd_other [OF this, of E None]
  have sorted: "sorted (map (key_order (E(k := None))) (remove1 k (in_keys s)))"
    unfolding other(1) using c by (simp add: sorted_map_remove1)
  have "k \<in> set (in_keys s)" using c assms(2) by auto
  then have "sum_list (map (key_length E) (in_keys s)) = key_length E k + sum_list (map (key_length E) (remove1 k (in_keys s)))"
    by (rule sum_list_map_remove1)
  then have len: "sum_list (map (key_length (E(k := None))) (remove1 k (in_keys s))) = in_usersLen s - int (length (un_block e))"
    unfolding other(2) using c assms(2) by (simp add: key_length_def)
  have "dom (E(k := None)) = dom E - {k}" by auto
  then show ?thesis
    using c set keys sorted len by (simp add: cache_at_def gm.ok_del gm.get_del)
qed

section \<open>The loop over the dirty holders\<close>

definition refreshed :: "bl_builder \<Rightarrow> string \<Rightarrow> user_identity \<Rightarrow> user_entry option \<Rightarrow> user_entry option" where
  "refreshed b k u old = map_option (\<lambda>p. (case old of
       Some e \<Rightarrow> e\<lparr>un_out := pendingOut p, un_block := computeBlock b p\<rparr>
     | None \<Rightarrow> \<lparr>un_address = ui_address u, un_pool = ui_pool u, un_composite = k, un_out = pendingOut p,
         un_block = computeBlock b p\<rparr>)) (gm_get (b_pendingPos b) k)"

lemma update_entry_cache:
  assumes "cache_at E s"
  shows "cache_at (E(k := refreshed b k u (E k))) (update_entry b (k, u) s)"
proof -
  have index: "gm_get (in_index s) k = E k" using assms by (simp add: cache_at_def)
  show ?thesis
  proof (cases "gm_get (b_pendingPos b) k"; cases "E k")
    fix p e
    assume p: "gm_get (b_pendingPos b) k = Some p" and e: "E k = Some e"
    have "un_composite e = k" using assms e by (simp add: cache_at_def)
    with cache_update [OF assms e, of "e\<lparr>un_out := pendingOut p, un_block := computeBlock b p\<rparr>"] p e index show ?thesis
      by (simp add: update_entry_def refreshed_def entry_order_def)
  next
    fix p
    assume p: "gm_get (b_pendingPos b) k = Some p" and e: "E k = None"
    from cache_insert [OF assms e, of "\<lparr>un_address = ui_address u, un_pool = ui_pool u, un_composite = k, un_out = pendingOut p,
         un_block = computeBlock b p\<rparr>"] p e index show ?thesis
      by (simp add: update_entry_def refreshed_def Let_def)
  next
    fix e
    assume p: "gm_get (b_pendingPos b) k = None" and e: "E k = Some e"
    from cache_remove [OF assms e] p e index show ?thesis by (simp add: update_entry_def refreshed_def Let_def)
  next
    assume p: "gm_get (b_pendingPos b) k = None" and e: "E k = None"
    then have "E(k := refreshed b k u (E k)) = E" by (auto simp: refreshed_def)
    with assms p e index show ?thesis by (simp add: update_entry_def refreshed_def)
  qed
qed

lemma update_entries_cache:
  assumes "cache_at E s" and "distinct (map fst ds)"
  shows "cache_at (\<lambda>k. case map_of ds k of None \<Rightarrow> E k | Some u \<Rightarrow> refreshed b k u (E k)) (run (update_entry b) ds s)"
  using assms
proof (induction ds arbitrary: E s)
  case (Cons d ds)
  obtain k u where d: "d = (k, u)" by (cases d)
  have new: "k \<notin> fst ` set ds" "distinct (map fst ds)" using Cons.prems(2) d by auto
  let ?E = "E(k := refreshed b k u (E k))"
  have "(case map_of ds x of None \<Rightarrow> ?E x | Some w \<Rightarrow> refreshed b x w (?E x)) =
      (case map_of (d # ds) x of None \<Rightarrow> E x | Some w \<Rightarrow> refreshed b x w (E x))" for x
  proof (cases "x = k")
    case True
    then have "map_of ds x = None" using new(1) by (simp add: map_of_eq_None_iff)
    then show ?thesis by (simp add: d True)
  qed (simp add: d split: option.split)
  with Cons.IH [OF update_entry_cache [OF Cons.prems(1), of k b u] new(2)] show ?case by (simp add: d)
qed simp

lemma update_entries_frame [simp]:
  "in_poolIndexes (run (update_entry b) ds s) = in_poolIndexes s"
  "in_mirror (run (update_entry b) ds s) = in_mirror s" "in_lastOut (run (update_entry b) ds s) = in_lastOut s"
proof -
  have "in_poolIndexes (update_entry b d s) = in_poolIndexes s" "in_mirror (update_entry b d s) = in_mirror s"
    "in_lastOut (update_entry b d s) = in_lastOut s" for d s
    by (simp_all add: update_entry_def Let_def split: prod.split option.split)
  then show "in_poolIndexes (run (update_entry b) ds s) = in_poolIndexes s"
    "in_mirror (run (update_entry b) ds s) = in_mirror s" "in_lastOut (run (update_entry b) ds s) = in_lastOut s"
    by (induction ds arbitrary: s) simp_all
qed

end
