(* ===== verification/Blend_Parity.thy ===== *)
theory Blend_Parity
  imports Blend_Cache
begin

text \<open>
  The incremental strategy against the reference decoder (src/blend/state_incremental.go,
  state_strategy.go): the cached rows are the rows the full build makes of the carried builder, a
  ledger that does not continue the last output is decoded as by the reference decoder, and where a
  carried builder differs from a reloaded one.
\<close>

section \<open>Blocks in the order of the output\<close>

lemma filter_block_order:
  assumes "\<And>u. u \<in> set us \<Longrightarrow> (up_Address u, up_PoolContractID u) = i"
  shows "filter (\<lambda>u. user_order u = (a, c, x, y)) us = (if i = (a, c) then filter (\<lambda>u. block_order u = (x, y)) us else [])"
proof (cases "i = (a, c)")
  case True
  then show ?thesis using assms by (auto simp: user_order_def block_order_def intro!: filter_cong)
next
  case False
  then show ?thesis using assms by (fastforce simp: user_order_def filter_empty_conv)
qed

lemma concat_filtered:
  assumes "distinct (map h ks)"
  shows "concat (map (\<lambda>k. if h k = i then f k else []) ks) = (if \<exists>k\<in>set ks. h k = i then f (THE k. k \<in> set ks \<and> h k = i) else [])"
  using assms
proof (induction ks)
  case (Cons k ks)
  have idle: "concat (map (\<lambda>k. if h k = i then f k else []) xs) = []" if "i \<notin> h ` set xs" for xs
    using that by (induction xs) auto
  show ?case
  proof (cases "h k = i")
    case True
    then have "i \<notin> h ` set ks" using Cons.prems by auto
    moreover from this have "(THE x. x \<in> set (k # ks) \<and> h x = i) = k"
      using True by (intro the_equality) (simp, metis image_eqI set_ConsD)
    ultimately show ?thesis using True idle [of ks] by auto
  next
    case False
    then have "(THE x. x \<in> set (k # ks) \<and> h x = i) = (THE x. x \<in> set ks \<and> h x = i)" by (metis set_ConsD list.set_intros(2))
    then show ?thesis using False Cons by auto
  qed
qed simp

lemma sorted_blocks:
  assumes "sorted (map h ks)" and "distinct (map h ks)"
    and "\<And>k u. k \<in> set ks \<Longrightarrow> u \<in> set (g k) \<Longrightarrow> (up_Address u, up_PoolContractID u) = h k"
  shows "sorted (map user_order (concat (map (\<lambda>k. sort_key block_order (g k)) ks)))"
  using assms
proof (induction ks)
  case (Cons k ks)
  have block: "sorted (map user_order (sort_key block_order us))" if us: "\<And>u. u \<in> set us \<Longrightarrow> (up_Address u, up_PoolContractID u) = h k" for us
  proof -
    have "up_Address u = fst (h k)" "up_PoolContractID u = snd (h k)" if "u \<in> set us" for u using us [OF that] by (metis fst_conv snd_conv)+
    then have "map user_order (sort_key block_order us) = map (\<lambda>p. (fst (h k), snd (h k), p)) (map block_order (sort_key block_order us))"
      by (auto simp: user_order_def block_order_def)
    moreover have "sorted (map (\<lambda>p. (fst (h k), snd (h k), p)) ps)" if "sorted ps" for ps :: "(string \<times> string) list"
      using that by (induction ps) auto
    ultimately show ?thesis by (simp only: sorted_sort_key)
  qed
  have later: "user_order u \<le> user_order w"
    if "u \<in> set (g k)" "w \<in> set (g k')" "k' \<in> set ks" for u w k'
  proof -
    have "h k \<le> h k'" "h k \<noteq> h k'" using Cons.prems(1,2) that(3) by auto
    moreover have "h k = (up_Address u, up_PoolContractID u)" "h k' = (up_Address w, up_PoolContractID w)"
      using Cons.prems(3) that by force+
    ultimately show ?thesis by (auto simp: user_order_def)
  qed
  have "sorted (map user_order (sort_key block_order (g k)))" using Cons.prems(3) by (intro block) simp
  moreover have "sorted (map user_order (concat (map (\<lambda>k. sort_key block_order (g k)) ks)))"
    using Cons.prems by (intro Cons.IH) auto
  ultimately show ?case using later by (auto simp: sorted_append)
qed simp

lemma blocks_are_sorted_rows:
  assumes "sorted (map h ks)" and "distinct (map h ks)" and "mset ms = mset ks"
    and "\<And>k u. k \<in> set ks \<Longrightarrow> u \<in> set (g k) \<Longrightarrow> (up_Address u, up_PoolContractID u) = h k"
  shows "sort_key user_order (concat (map g ms)) = concat (map (\<lambda>k. sort_key block_order (g k)) ks)"
proof (rule properties_for_sort_key)
  have "mset (concat (map g ms)) = (\<Sum>k\<in>#mset ms. mset (g k))" by (simp add: mset_concat comp_def flip: sum_mset_sum_list)
  moreover have "mset (concat (map (\<lambda>k. sort_key block_order (g k)) ks)) = (\<Sum>k\<in>#mset ks. mset (g k))"
    by (simp add: mset_concat comp_def flip: sum_mset_sum_list)
  ultimately show "mset (concat (map (\<lambda>k. sort_key block_order (g k)) ks)) = mset (concat (map g ms))"
    using assms(3) by simp
  show "sorted (map user_order (concat (map (\<lambda>k. sort_key block_order (g k)) ks)))" by (rule sorted_blocks [OF assms(1,2,4)])
  fix u
  obtain a c x y where u: "user_order u = (a, c, x, y)" by (metis prod.exhaust)
  have members: "set ms = set ks" "distinct (map h ms)"
    using assms(2,3) by (metis set_mset_mset) (metis assms(2,3) mset_eq_imp_distinct_iff mset_map)
  have part: "filter (\<lambda>w. (a, c, x, y) = user_order w) us = (if h k = (a, c) then filter (\<lambda>w. block_order w = (x, y)) (g k) else [])"
    if "k \<in> set ks" "us = g k \<or> us = sort_key block_order (g k)" for k us
  proof -
    have "(up_Address w, up_PoolContractID w) = h k" if "w \<in> set us" for w
      using assms(4) [OF \<open>k \<in> set ks\<close>, of w] that \<open>us = g k \<or> us = sort_key block_order (g k)\<close> by auto
    from filter_block_order [of us "h k", OF this] that(2) show ?thesis
      by (auto simp: eq_commute [of "(a, c, x, y)"] sort_key_stable)
  qed
  have lhs: "filter (\<lambda>w. (a, c, x, y) = user_order w) (concat (map (\<lambda>k. sort_key block_order (g k)) ks)) =
      concat (map (\<lambda>k. if h k = (a, c) then filter (\<lambda>w. block_order w = (x, y)) (g k) else []) ks)"
    unfolding filter_concat map_map comp_def by (intro arg_cong [where f = concat] map_cong refl part) auto
  have rhs: "filter (\<lambda>w. (a, c, x, y) = user_order w) (concat (map g ms)) =
      concat (map (\<lambda>k. if h k = (a, c) then filter (\<lambda>w. block_order w = (x, y)) (g k) else []) ms)"
    unfolding filter_concat map_map comp_def by (intro arg_cong [where f = concat] map_cong refl part) (auto simp: members)
  show "filter (\<lambda>w. user_order u = user_order w) (concat (map (\<lambda>k. sort_key block_order (g k)) ks)) =
      filter (\<lambda>w. user_order u = user_order w) (concat (map g ms))"
    unfolding u lhs rhs concat_filtered [OF assms(2)] concat_filtered [OF members(2)] members(1) ..
qed

section \<open>The cached rows are the built rows\<close>

definition cache_of :: "bl_builder \<Rightarrow> string \<Rightarrow> user_entry option" where
  "cache_of b k = map_option (fresh_entry b k) (gm_get (b_pendingPos b) k)"

definition holder_of :: "bl_builder \<Rightarrow> string \<Rightarrow> pending_positions" where
  "holder_of b k = the (gm_get (b_pendingPos b) k)"

lemma finished_fields [simp]:
  "b_pendingPos (finished_pools b) = b_pendingPos b" "b_ledgerSeq (finished_pools b) = b_ledgerSeq b"
  "b_dirtyUsers (finished_pools b) = b_dirtyUsers b"
  "gm_get (b_pools (finished_pools b)) cid = map_option (built_pool b) (gm_get (b_pools b) cid)"
  by (simp_all add: finished_pools_def gm_get_mapped)

lemma built_index:
  assumes "pool_ok p"
  shows "pb_reserveByIndex (built_pool b p) = pb_reserveByIndex p"
    and "pb_reserveByIndex (finalizePoolReserves (built_pool b p)) = pb_reserveByIndex p"
proof -
  have "keyed rs_AssetID (pb_reserves p)" using assms by (simp add: pool_ok_def)
  then show "pb_reserveByIndex (built_pool b p) = pb_reserveByIndex p"
    and "pb_reserveByIndex (finalizePoolReserves (built_pool b p)) = pb_reserveByIndex p"
    using assms by (simp_all add: finalize_built pool_ok_def)
qed

lemma computeBlock_legs:
  assumes "pools_ok (b_pools b)"
  shows "computeBlock (finished_pools b) p = sort_key block_order (rights (user_legs (finished_pools b) p))"
proof (cases "gm_get (b_pools b) (pp_poolContract p)")
  case (Some pool)
  then have "pool_ok pool" using pools_ok_get [OF assms] by blast
  then have "rights (buildUserPositionsForPending l (built_pool b pool) p) = rights (buildUserPositionsForPending l (finalizePoolReserves (built_pool b pool)) p)" for l
    by (intro user_positions_cong) (simp only: built_index)
  with Some show ?thesis by (simp add: computeBlock_def user_legs_def)
qed (simp add: computeBlock_def user_legs_def)

text \<open>A deposit row reads pools, balances, instances, Comet pools and nothing of the reports.\<close>

definition deposit_view :: "bl_builder \<Rightarrow> (string, pool_builder) gmap \<times> (string, backstop_pool_balance) gmap
    \<times> (string, backstop_instance_state) gmap \<times> (string, comet_builder) gmap" where
  "deposit_view b = (b_pools b, b_backstopPools b, b_backstopInstances b, b_comets b)"

lemma backstopPosition_view:
  assumes "deposit_view b' = deposit_view b"
  shows "backstopPosition D b' u = backstopPosition D b u"
proof -
  have same: "b_pools b' = b_pools b" "b_backstopPools b' = b_backstopPools b" "b_backstopInstances b' = b_backstopInstances b"
    "b_comets b' = b_comets b" using assms by (simp_all add: deposit_view_def)
  have "backstopInstanceForPool b' = backstopInstanceForPool b" "tokenPriceUSD D b' = tokenPriceUSD D b"
    "cometForBackstopInstance b' = cometForBackstopInstance b"
    unfolding fun_eq_iff backstopInstanceForPool_def tokenPriceUSD_def cometForBackstopInstance_def same by simp_all
  note same = this same(2)
  show ?thesis unfolding backstopPosition_def same ..
qed

lemma cached_state_rows:
  assumes "pools_ok (b_pools b)" and "keyed pending_key (b_pendingPos b)" and "cache_at (cache_of (finished_pools b)) s"
    and "b' = (finished_pools b)\<lparr>b_dirtyUsers := d, b_dirtyBackstops := m, b_diagnostics := x\<rparr>"
  shows "cached_state D b' s = snd (bl_rows D b)"
proof -
  let ?b = "finished_pools b" and ?ks = "in_keys s" and ?ms = "map fst (b_pendingPos b)"
  let ?h = "\<lambda>k. (pp_user (holder_of b k), pp_poolContract (holder_of b k))"
  let ?g = "\<lambda>k. rights (user_legs ?b (holder_of b k))"
  note c = assms(3) [unfolded cache_at_def]
  have dom: "set ?ks = set ?ms" using c by (force simp: cache_of_def gm_get_def map_of_eq_None_iff dom_def)
  have distinct: "distinct ?ms" "distinct ?ks" using assms(2) c by (auto simp: keyed_def gm_ok_def)
  then have perm: "mset ?ms = mset ?ks" using dom by (metis set_eq_iff_mset_eq_distinct)
  have held: "gm_get (b_pendingPos b) k = Some (holder_of b k)" if "k \<in> set ?ks" for k
    using that unfolding dom by (auto simp: holder_of_def gm_get_def) (metis (no_types, lifting) dom_map_of_conv_image_fst domIff fst_conv image_eqI option.collapse)
  have entry: "entry_at (in_index s) k = fresh_entry ?b k (holder_of b k)" if "k \<in> set ?ks" for k
    using cache_entry_at [OF assms(3) that] held [OF that] by (simp add: cache_of_def)
  have order: "map (key_order (cache_of ?b)) ?ks = map ?h ?ks"
    using held by (intro map_cong refl) (simp add: key_order_def cache_of_def fresh_entry_def entry_order_def)
  have sorted: "sorted (map ?h ?ks)" using c unfolding order by blast
  have key: "k = pending_key (holder_of b k)" if "k \<in> set ?ks" for k using keyed_get [OF assms(2) held [OF that]] .
  have inj: "distinct (map ?h ?ks)"
    unfolding distinct_map
  proof (intro conjI inj_onI)
    fix k k'
    assume "k \<in> set ?ks" "k' \<in> set ?ks" "?h k = ?h k'"
    then show "k = k'" using key by (metis pending_key_def prod.inject)
  qed (rule distinct(2))
  have members: "b_pendingPos b = map (\<lambda>k. (k, holder_of b k)) ?ms"
  proof -
    have "(k, holder_of b k) = (k, p)" if "(k, p) \<in> set (b_pendingPos b)" for k p
      using assms(2) that in_gm_get by (fastforce simp: keyed_def holder_of_def)
    then show ?thesis by (auto simp: comp_def split_def intro!: map_idI [symmetric])
  qed
  have users: "concat (map un_block (map (entry_at (in_index s)) ?ks)) = sort_key user_order (concat (map (\<lambda>(_, p). rights (user_legs ?b p)) (b_pendingPos b)))"
  proof -
    have "(up_Address u, up_PoolContractID u) = ?h k" if "u \<in> set (?g k)" for k u
      using that user_positions_holder by (auto simp: user_legs_def split: option.splits)
    then have "sort_key user_order (concat (map ?g ?ms)) = concat (map (\<lambda>k. sort_key block_order (?g k)) ?ks)"
      using sorted inj perm by (intro blocks_are_sorted_rows) auto
    moreover have "map un_block (map (entry_at (in_index s)) ?ks) = map (\<lambda>k. sort_key block_order (?g k)) ?ks"
      using entry by (simp add: fresh_entry_def computeBlock_legs [OF assms(1)])
    moreover have "map (\<lambda>(_, p). rights (user_legs ?b p)) (b_pendingPos b) = map ?g ?ms"
      by (subst members) simp
    ultimately show ?thesis by (simp only:)
  qed
  have pending: "map un_out (map (entry_at (in_index s)) ?ks) = sort_key (\<lambda>p. (pu_Address p, pu_PoolContractID p)) (map (\<lambda>(_, p). pendingOut p) (b_pendingPos b))"
  proof -
    have out: "map un_out (map (entry_at (in_index s)) ?ks) = map (\<lambda>k. pendingOut (holder_of b k)) ?ks"
      using entry by (simp add: fresh_entry_def)
    have "map (\<lambda>(_, p). pendingOut p) (b_pendingPos b) = map (\<lambda>k. pendingOut (holder_of b k)) ?ms"
      by (subst members) simp
    moreover have "sort_key (\<lambda>p. (pu_Address p, pu_PoolContractID p)) (map (\<lambda>k. pendingOut (holder_of b k)) ?ms) = map (\<lambda>k. pendingOut (holder_of b k)) ?ks"
    proof (rule sort_key_inj_key_eq)
      show "mset (map (\<lambda>k. pendingOut (holder_of b k)) ?ms) = mset (map (\<lambda>k. pendingOut (holder_of b k)) ?ks)"
        using perm by (metis mset_map)
      show "sorted (map (\<lambda>p. (pu_Address p, pu_PoolContractID p)) (map (\<lambda>k. pendingOut (holder_of b k)) ?ks))"
        using sorted by (simp add: comp_def)
      show "inj_on (\<lambda>p. (pu_Address p, pu_PoolContractID p)) (set (map (\<lambda>k. pendingOut (holder_of b k)) ?ms))"
        using inj dom by (auto simp: distinct_map inj_on_def)
    qed
    ultimately show ?thesis unfolding out by (simp only:)
  qed
  show ?thesis
    using users pending backstopPosition_view [of b' ?b D]
    by (simp add: cached_state_def bl_rows_def Let_def assms(4) finished_pools_def deposit_view_def)
qed

section \<open>The invariant between ledgers\<close>

text \<open>
  Addresses without a bar, so that a key tells its holder.  The cache is that of the carried builder,
  and the remembered indexes are those of its pools.
\<close>

definition plain :: "bl_builder \<Rightarrow> bool" where
  "plain b \<longleftrightarrow> (\<forall>k p. gm_get (b_pendingPos b) k = Some p \<longrightarrow> CHR ''|'' \<notin> set (pp_user p))
     \<and> (\<forall>k u. gm_get (b_dirtyUsers b) k = Some u \<longrightarrow> CHR ''|'' \<notin> set (ui_address u))"

definition same_index :: "pool_builder \<Rightarrow> (int, string) gmap \<Rightarrow> bool" where
  "same_index p m \<longleftrightarrow> gm_ok m \<and> (\<forall>i. gm_get m i = gm_get (pb_reserveByIndex p) i)"

definition indexes_ok :: "(string, (int, string) gmap) gmap \<Rightarrow> (string, pool_builder) gmap \<Rightarrow> bool" where
  "indexes_ok m pools \<longleftrightarrow> (\<forall>cid. rel_option same_index (gm_get pools cid) (gm_get m cid))"

definition cache_ok :: "bl_builder \<Rightarrow> incremental \<Rightarrow> bool" where
  "cache_ok b s \<longleftrightarrow> bl_ok b \<and> plain b \<and> b_dirtyUsers b = [] \<and> cache_at (cache_of b) s \<and> indexes_ok (in_poolIndexes s) (b_pools b)"

lemma typed_key_inj:
  assumes "typedUserEntityKey a p = typedUserEntityKey a' p'" and "CHR ''|'' \<notin> set a" and "CHR ''|'' \<notin> set a'"
  shows "a = a' \<and> p = p'"
proof -
  have "takeWhile (\<lambda>c. c \<noteq> CHR ''|'') (typedUserEntityKey x y) = x" if "CHR ''|'' \<notin> set x" for x y
    using that by (auto simp: typedUserEntityKey_def takeWhile_append)
  then have "a = a'" using assms by metis
  with assms(1) show ?thesis by (simp add: typedUserEntityKey_def)
qed

lemma computeBlock_cong:
  assumes "rel_option (\<lambda>p q. \<forall>i. gm_get (pb_reserveByIndex p) i = gm_get (pb_reserveByIndex q) i)
    (gm_get (b_pools b) (pp_poolContract p)) (gm_get (b_pools b') (pp_poolContract p))"
  shows "computeBlock b p = computeBlock b' p"
proof -
  have "rights (buildUserPositionsForPending (b_ledgerSeq b) pool p) = rights (buildUserPositionsForPending (b_ledgerSeq b') pool' p)"
    if "\<forall>i. gm_get (pb_reserveByIndex pool) i = gm_get (pb_reserveByIndex pool') i" for pool pool'
    using that by (intro user_positions_cong) simp
  then have "sort_key block_order (rights (buildUserPositionsForPending (b_ledgerSeq b) pool p)) =
      sort_key block_order (rights (buildUserPositionsForPending (b_ledgerSeq b') pool' p))"
    if "\<forall>i. gm_get (pb_reserveByIndex pool) i = gm_get (pb_reserveByIndex pool') i" for pool pool'
    using that by metis
  with assms show ?thesis
    by (cases "gm_get (b_pools b) (pp_poolContract p)"; cases "gm_get (b_pools b') (pp_poolContract p)") (simp_all add: computeBlock_def)
qed

lemma pool_ok_index: "pool_ok p \<Longrightarrow> gm_ok (pb_reserveByIndex p)"
  by (simp add: pool_ok_def gm_ok_published)

lemma not_remapped:
  assumes "\<not> remapped m pools cid" and "indexes_ok m before" and "pools_ok pools"
  shows "rel_option (\<lambda>p q. \<forall>i. gm_get (pb_reserveByIndex p) i = gm_get (pb_reserveByIndex q) i) (gm_get before cid) (gm_get pools cid)"
proof -
  have rel: "rel_option same_index (gm_get before cid) (gm_get m cid)" using assms(2) by (simp add: indexes_ok_def)
  show ?thesis
  proof (cases "gm_get pools cid")
    case None
    then have "gm_get m cid = None" using assms(1) by (auto simp: remapped_def split: option.splits)
    with rel None show ?thesis by simp
  next
    case (Some q)
    then obtain x where x: "gm_get m cid = Some x" "reserveIndexEqual x (pb_reserveByIndex q)"
      using assms(1) by (auto simp: remapped_def split: option.splits)
    then obtain p where p: "gm_get before cid = Some p" "same_index p x" using rel by (cases "gm_get before cid") auto
    have "gm_ok (pb_reserveByIndex q)" using Some pools_ok_get [OF assms(3)] pool_ok_index by blast
    then have "gm_get x i = gm_get (pb_reserveByIndex q) i" for i
      using x(2) p(2) by (intro reserveIndexEqual_get) (simp_all add: same_index_def)
    then show ?thesis using Some p by (simp add: same_index_def)
  qed
qed

lemma gm_get_filter_key: "gm_get (filter (\<lambda>(k, _). P k) m) k = (if P k then gm_get m k else None)"
  by (induction m) (auto simp: gm_get_def)

lemma foldl_set_get:
  assumes "distinct (map fst xs)"
  shows "gm_get (foldl (\<lambda>m (k, x). if P k then gm_set k (f x) m else m) m xs) k =
    (if P k \<and> k \<in> fst ` set xs then map_option f (map_of xs k) else gm_get m k)"
  using assms by (induction xs arbitrary: m) (auto simp: gm_simps)

lemma refresh_indexes_get:
  assumes "gm_ok pools"
  shows "gm_get (refresh_indexes m pools) cid = (case gm_get pools cid of None \<Rightarrow> None
    | Some p \<Rightarrow> if remapped m pools cid then Some (pb_reserveByIndex p) else gm_get m cid)"
proof -
  have d: "distinct (map fst pools)" using assms by (simp add: gm_ok_def)
  have "cid \<in> fst ` set pools \<longleftrightarrow> gm_get pools cid \<noteq> None"
    by (metis gm_get_def map_of_eq_None_iff)
  then show ?thesis
    unfolding refresh_indexes_def copyReserveIndex_def gm_get_filter_key foldl_set_get [OF d]
    by (cases "gm_get pools cid") (simp_all flip: gm_get_def)
qed

lemma refresh_indexes_ok:
  assumes "indexes_ok m before" and "pools_ok pools"
  shows "indexes_ok (refresh_indexes m pools) pools"
proof -
  have "gm_ok pools" using assms(2) by (simp add: pools_ok_def keyed_def)
  note get = refresh_indexes_get [OF this, of m]
  have "rel_option same_index (gm_get pools cid) (gm_get (refresh_indexes m pools) cid)" for cid
  proof (cases "gm_get pools cid")
    case (Some p)
    then have ok: "gm_ok (pb_reserveByIndex p)" using pools_ok_get [OF assms(2)] pool_ok_index by blast
    show ?thesis
    proof (cases "remapped m pools cid")
      case False
      then obtain x where x: "gm_get m cid = Some x" "reserveIndexEqual x (pb_reserveByIndex p)"
        using Some by (auto simp: remapped_def split: option.splits)
      have "rel_option same_index (gm_get before cid) (gm_get m cid)" using assms(1) by (simp add: indexes_ok_def)
      then have "gm_ok x" using x(1) by (cases "gm_get before cid") (auto simp: same_index_def)
      then have "gm_get x i = gm_get (pb_reserveByIndex p) i" for i using x(2) ok by (intro reserveIndexEqual_get)
      then show ?thesis using Some x False \<open>gm_ok x\<close> by (simp add: get same_index_def)
    qed (use Some ok in \<open>simp add: get same_index_def\<close>)
  qed (simp add: get)
  then show ?thesis by (simp add: indexes_ok_def)
qed

section \<open>What the loop over the dirty holders leaves\<close>

lemma marks_miss: "k \<notin> key ` set es \<Longrightarrow> gm_get (foldl (\<lambda>m e. gm_set (key e) (f e) m) m es) k = gm_get m k"
  by (induction es arbitrary: m) (auto simp: gm_simps)

lemma marks_hit: "distinct (map key es) \<Longrightarrow> e \<in> set es \<Longrightarrow> gm_get (foldl (\<lambda>m e. gm_set (key e) (f e) m) m es) (key e) = Some (f e)"
proof (induction es arbitrary: m)
  case (Cons x es)
  show ?case
  proof (cases "e \<in> set es")
    case False
    then have "e = x" "key x \<notin> key ` set es" using Cons.prems by auto
    then show ?thesis by (simp add: marks_miss gm_simps)
  qed (use Cons in auto)
qed simp

lemma mark_cached_fields [simp]:
  "b_pools (mark_cached s b) = b_pools b" "b_pendingPos (mark_cached s b) = b_pendingPos b" "b_ledgerSeq (mark_cached s b) = b_ledgerSeq b"
  by (simp_all add: mark_cached_def)

lemma mark_cached_get:
  assumes "cache_at E s"
  shows "gm_get (b_dirtyUsers (mark_cached s b)) k =
    (if \<exists>e. E k = Some e \<and> remapped (in_poolIndexes s) (b_pools b) (un_pool e)
     then Some \<lparr>ui_address = un_address (the (E k)), ui_pool = un_pool (the (E k))\<rparr> else gm_get (b_dirtyUsers b) k)"
proof -
  note c = assms [unfolded cache_at_def]
  let ?es = "filter (\<lambda>e. remapped (in_poolIndexes s) (b_pools b) (un_pool e)) (map (entry_at (in_index s)) (in_keys s))"
  have names: "un_composite (entry_at (in_index s) x) = x" if "x \<in> set (in_keys s)" for x
    using cache_entry_at [OF assms that] c that by auto
  then have "map un_composite (map (entry_at (in_index s)) (in_keys s)) = in_keys s" by (simp add: map_idI)
  then have d: "distinct (map un_composite ?es)" using c by (metis distinct_map_filter)
  show ?thesis
  proof (cases "\<exists>e. E k = Some e \<and> remapped (in_poolIndexes s) (b_pools b) (un_pool e)")
    case True
    then obtain e where e: "E k = Some e" "remapped (in_poolIndexes s) (b_pools b) (un_pool e)" by blast
    then have k: "k \<in> set (in_keys s)" using c by auto
    then have "entry_at (in_index s) k = e" using cache_entry_at [OF assms] e(1) by simp
    then have "e \<in> set ?es" using k e(2) by force
    moreover have "un_composite e = k" using c e(1) by blast
    ultimately show ?thesis using marks_hit [OF d, of e "\<lambda>e. \<lparr>ui_address = un_address e, ui_pool = un_pool e\<rparr>" "b_dirtyUsers b"] e
      by (simp add: mark_cached_def)
  next
    case False
    have "k \<notin> un_composite ` set ?es"
    proof
      assume "k \<in> un_composite ` set ?es"
      then obtain x where x: "x \<in> set (in_keys s)" "un_composite (entry_at (in_index s) x) = k"
        "remapped (in_poolIndexes s) (b_pools b) (un_pool (entry_at (in_index s) x))" by auto
      then have "x = k" "entry_at (in_index s) x = the (E x)" "x \<in> dom E" using names cache_entry_at [OF assms] c by auto
      with x(3) False show False by auto
    qed
    then show ?thesis unfolding if_not_P [OF False] by (simp add: mark_cached_def marks_miss)
  qed
qed

lemma mark_cached_ok:
  assumes "cache_at E s" and "keyed identity_key (b_dirtyUsers b)"
    and "\<And>k e. E k = Some e \<Longrightarrow> k = typedUserEntityKey (un_address e) (un_pool e)"
  shows "keyed identity_key (b_dirtyUsers (mark_cached s b))"
proof -
  note c = assms(1) [unfolded cache_at_def]
  have entry: "\<exists>k. E k = Some e \<and> un_composite e = k" if "e \<in> set (map (entry_at (in_index s)) (in_keys s))" for e
    using that cache_entry_at [OF assms(1)] c by fastforce
  have "keyed identity_key (foldl (\<lambda>m e. gm_set (un_composite e) \<lparr>ui_address = un_address e, ui_pool = un_pool e\<rparr> m) m es)"
    if "keyed identity_key m" "\<forall>e\<in>set es. un_composite e = typedUserEntityKey (un_address e) (un_pool e)" for m es
    using that by (induction es arbitrary: m) (simp_all add: keyed_set identity_key_def)
  moreover have "un_composite e = typedUserEntityKey (un_address e) (un_pool e)" if "e \<in> set (map (entry_at (in_index s)) (in_keys s))" for e
    using entry [OF that] assms(3) by metis
  ultimately have "keyed identity_key (foldl (\<lambda>m e. gm_set (un_composite e) \<lparr>ui_address = un_address e, ui_pool = un_pool e\<rparr> m) (b_dirtyUsers b)
      (filter P (map (entry_at (in_index s)) (in_keys s))))" for P
    using assms(2) by (metis (mono_tags, lifting) filter_is_subset subsetD)
  then show ?thesis by (simp add: mark_cached_def)
qed

lemma cache_of_entry:
  assumes "cache_of b k = Some e" and "keyed pending_key (b_pendingPos b)"
  shows "\<exists>p. gm_get (b_pendingPos b) k = Some p \<and> un_address e = pp_user p \<and> un_pool e = pp_poolContract p
    \<and> k = typedUserEntityKey (pp_user p) (pp_poolContract p)"
  using assms keyed_get [OF assms(2), of k] by (auto simp: cache_of_def fresh_entry_def pending_key_def)

text \<open>
  \<open>b0\<close> is the builder at the start of the ledger, \<open>f\<close> the finished one: what is clean in \<open>f\<close> is what
  \<open>b0\<close> had.
\<close>

lemma updated_cache:
  assumes "cache_ok b0 s" and "pools_ok (b_pools f)" and "keyed pending_key (b_pendingPos f)" and "keyed identity_key (b_dirtyUsers f)"
    and "plain f" and "\<And>k. gm_get (b_dirtyUsers f) k = None \<Longrightarrow> gm_get (b_pendingPos f) k = gm_get (b_pendingPos b0) k"
    and "m = (mark_cached s f)\<lparr>b_dirtyBackstops := d\<rparr>"
  shows "cache_at (cache_of f) (run (update_entry m) (b_dirtyUsers m) (s\<lparr>in_poolIndexes := x\<rparr>))"
proof -
  have c: "cache_at (cache_of b0) s" "indexes_ok (in_poolIndexes s) (b_pools b0)" "keyed pending_key (b_pendingPos b0)" "plain b0"
    using assms(1) by (simp_all add: cache_ok_def bl_ok_defs)
  have marked: "b_dirtyUsers m = b_dirtyUsers (mark_cached s f)" by (simp add: assms(7))
  have get: "gm_get (b_dirtyUsers m) k =
      (if \<exists>e. cache_of b0 k = Some e \<and> remapped (in_poolIndexes s) (b_pools f) (un_pool e)
       then Some \<lparr>ui_address = un_address (the (cache_of b0 k)), ui_pool = un_pool (the (cache_of b0 k))\<rparr> else gm_get (b_dirtyUsers f) k)" for k
    using mark_cached_get [OF c(1), of f k] unfolding marked .
  have keyed: "keyed identity_key (b_dirtyUsers m)"
    unfolding marked using cache_of_entry [OF _ c(3)] by (intro mark_cached_ok [OF c(1) assms(4)]) metis
  have pend: "b_pendingPos m = b_pendingPos f" by (simp add: assms(7))
  have block: "computeBlock m p = computeBlock f p" for p by (rule computeBlock_cong) (simp add: assms(7) option.rel_refl)
  have entry: "(case map_of (b_dirtyUsers m) k of None \<Rightarrow> cache_of b0 k | Some u \<Rightarrow> refreshed m k u (cache_of b0 k)) = cache_of f k" for k
  proof (cases "gm_get (b_dirtyUsers m) k")
    case None
    then have clean: "gm_get (b_dirtyUsers f) k = None" by (metis get option.distinct(1))
    note same = assms(6) [OF this]
    show ?thesis
    proof (cases "gm_get (b_pendingPos b0) k")
      case (Some p)
      then have "\<not> remapped (in_poolIndexes s) (b_pools f) (pp_poolContract p)"
        using None get [of k] by (auto simp: cache_of_def fresh_entry_def split: if_splits)
      then have "computeBlock b0 p = computeBlock f p" by (intro computeBlock_cong not_remapped [OF _ c(2) assms(2)])
      then show ?thesis using None same Some by (simp add: gm_get_def [symmetric] cache_of_def fresh_entry_def)
    qed (use None same in \<open>simp add: gm_get_def [symmetric] cache_of_def\<close>)
  next
    case (Some u)
    have u: "k = typedUserEntityKey (ui_address u) (ui_pool u)" using keyed_get [OF keyed Some] by (simp add: identity_key_def)
    have plain_u: "CHR ''|'' \<notin> set (ui_address u)"
    proof (cases "\<exists>e. cache_of b0 k = Some e \<and> remapped (in_poolIndexes s) (b_pools f) (un_pool e)")
      case True
      then show ?thesis using Some get [of k] c(4) cache_of_entry [OF _ c(3)] by (fastforce simp: plain_def)
    next
      case False
      then have "gm_get (b_dirtyUsers f) k = Some u" using Some get [of k] unfolding if_not_P [OF False] by simp
      then show ?thesis using assms(5) by (simp add: plain_def)
    qed
    show ?thesis
    proof (cases "gm_get (b_pendingPos f) k")
      case None
      then show ?thesis using Some by (simp add: gm_get_def [symmetric] refreshed_def assms(7) cache_of_def)
    next
      case held: (Some p)
      have p: "k = typedUserEntityKey (pp_user p) (pp_poolContract p)" "CHR ''|'' \<notin> set (pp_user p)"
        using keyed_get [OF assms(3) held] assms(5) held by (auto simp: pending_key_def plain_def)
      have pu: "ui_address u = pp_user p" "ui_pool u = pp_poolContract p"
        using typed_key_inj [OF trans [OF u [symmetric] p(1)] plain_u p(2)] by simp_all
      have "refreshed m k u (cache_of b0 k) = Some (fresh_entry f k p)"
      proof (cases "cache_of b0 k")
        case None
        then show ?thesis using held pu by (simp add: refreshed_def pend fresh_entry_def block)
      next
        case old: (Some e)
        then obtain q where q: "gm_get (b_pendingPos b0) k = Some q" "e = fresh_entry b0 k q"
          by (cases "gm_get (b_pendingPos b0) k") (simp_all add: cache_of_def)
        have kq: "k = typedUserEntityKey (pp_user q) (pp_poolContract q)"
          using keyed_get [OF c(3) q(1)] unfolding pending_key_def .
        have "CHR ''|'' \<notin> set (pp_user q)" using c(4) q(1) by (auto simp: plain_def)
        with typed_key_inj [OF trans [OF kq [symmetric] p(1)]] p(2)
        have "pp_user q = pp_user p" "pp_poolContract q = pp_poolContract p" by blast+
        then have "e\<lparr>un_out := pendingOut p, un_block := computeBlock m p\<rparr> = fresh_entry f k p" by (simp add: q(2) fresh_entry_def block)
        then show ?thesis using held old by (simp add: refreshed_def pend)
      qed
      then show ?thesis using Some held by (simp add: gm_get_def [symmetric] cache_of_def)
    qed
  qed
  have "cache_at (cache_of b0) (s\<lparr>in_poolIndexes := x\<rparr>)" using c(1) by (simp add: cache_at_def)
  from update_entries_cache [OF this, of "b_dirtyUsers m" m] keyed show ?thesis
    by (simp add: entry keyed_def gm_ok_def)
qed

section \<open>One ledger\<close>

lemma address_plain:
  assumes "strkey_ok S" and "address_text S user"
  shows "CHR ''|'' \<notin> set user"
  using assms addr_no_bar by (auto simp: address_text_def scAddress_def scValAddress_def split: if_splits)

lemma plain_tracked: "strkey_ok S \<Longrightarrow> plain b \<Longrightarrow> holders_tracked S b b' \<Longrightarrow> plain b'"
  using address_plain unfolding plain_def holders_tracked_def by metis

text \<open>Resolving the aggregators reads feeds, aggregators and oracles.\<close>

lemma resolve_commute:
  assumes "\<And>b. b_aggregators (h b) = b_aggregators b" and "\<And>b. b_feeds (h b) = b_feeds b" and "\<And>b. b_oracles (h b) = b_oracles b"
    and "\<And>b m. h (b\<lparr>b_oracles := m\<rparr>) = (h b)\<lparr>b_oracles := m\<rparr>"
  shows "resolveAggregatorPrices closeTime (h b) = map_option h (resolveAggregatorPrices closeTime b)"
proof -
  have step: "resolve_aggregator closeTime cid (h b) = map_option h (resolve_aggregator closeTime cid b)" for cid b
    by (simp add: resolve_aggregator_def assms option.map_comp comp_def split: option.split)
  have "foldO (resolve_aggregator closeTime) xs (h b) = map_option h (foldO (resolve_aggregator closeTime) xs b)" for xs
  proof (induction xs arbitrary: b)
    case (Cons x xs)
    show ?case by (cases "resolve_aggregator closeTime x b") (simp_all add: step Cons.IH)
  qed simp
  then show ?thesis by (simp add: resolveAggregatorPrices_def assms(1))
qed

lemma rows_deltas: "snd (bl_rows D (b\<lparr>b_deltas := x\<rparr>)) = snd (bl_rows D b)"
proof -
  have built: "built_pool (b\<lparr>b_deltas := x\<rparr>) = built_pool b" by (simp add: fun_eq_iff built_pool_def)
  have legs: "user_legs (b\<lparr>b_deltas := x, b_pools := m\<rparr>) = user_legs (b\<lparr>b_pools := m\<rparr>)" for m
    by (rule ext) (simp add: user_legs_def cong: option.case_cong)
  have deposits: "backstopPosition D (b\<lparr>b_deltas := x, b_pools := m\<rparr>) = backstopPosition D (b\<lparr>b_pools := m\<rparr>)" for m
    by (rule ext) (rule backstopPosition_view, simp add: deposit_view_def)
  show ?thesis by (simp add: bl_rows_def Let_def built legs deposits)
qed

lemma build_deltas: "map_option snd (bl_build D closeTime (b\<lparr>b_deltas := x\<rparr>)) = map_option snd (bl_build D closeTime b)"
proof -
  have prices: "resolveOraclePrices (b\<lparr>b_deltas := x\<rparr>) = (resolveOraclePrices b)\<lparr>b_deltas := x\<rparr>" for b by (simp add: resolveOraclePrices_def)
  show ?thesis
    unfolding bl_build_def
    by (subst resolve_commute [where h = "\<lambda>b. b\<lparr>b_deltas := x\<rparr>"]) (simp_all add: option.map_comp comp_def prices rows_deltas)
qed

lemma cache_of_view:
  assumes "b_pools b' = b_pools b" and "b_pendingPos b' = b_pendingPos b"
  shows "cache_of b' = cache_of b"
proof -
  have "computeBlock b' p = computeBlock b p" for p by (rule computeBlock_cong) (simp add: assms option.rel_refl)
  then have "fresh_entry b' = fresh_entry b" by (simp add: fun_eq_iff fresh_entry_def)
  then show ?thesis by (intro ext) (simp only: cache_of_def assms)
qed

lemma built_pools_ok:
  assumes "pools_ok (b_pools b)"
  shows "pools_ok (b_pools (finished_pools b))"
proof -
  have "pool_ok (built_pool b p)" if "gm_get (b_pools b) cid = Some p" for cid p
    using pools_ok_get [OF assms that] pool_ok_finalize [of p] by (auto simp: built_pool_def Let_def split: option.split)
  moreover have "keyed (\<lambda>p. bp_ContractID (pb_state p)) (b_pools (finished_pools b))"
    using assms by (auto simp: finished_pools_def pools_ok_def intro!: keyed_map [where key = "\<lambda>p. bp_ContractID (pb_state p)"])
  ultimately show ?thesis by (auto simp: pools_ok_def)
qed

lemma finalize_sorted:
  assumes "keyed identity_key d"
  shows "sorted_by (\<lambda>d. (dp_Address d, dp_PoolContractID d)) (finalizeDirtyPositions d pending)"
proof -
  have "map (\<lambda>(_, u). identity_key u) d = map fst d" using assms by (auto simp: keyed_def)
  then have "distinct (map (\<lambda>(_, u). identity_key u) d)" using assms by (simp only: keyed_def gm_ok_def)
  then have "distinct (map (\<lambda>(_, u). (ui_address u, ui_pool u)) d)" by (rule distinct_finer) (auto simp: identity_key_def)
  then show ?thesis unfolding finalizeDirtyPositions_def by (intro sorted_by_sort) (simp add: comp_def split_def)
qed

lemma snapshot_builds:
  assumes "cache_ok b0 s" and "bl_ok b" and "plain b" and "users_tracked b0 b"
    and "snapshot D closeTime b s = Some (b', s', out, dirty, deposits)"
  shows "map_option snd (bl_build D closeTime b) = Some out" and "cache_ok b' s'"
    and "ls_Users out = concat (map un_block (map (entry_at (in_index s')) (in_keys s')))"
    and "sorted_by (\<lambda>d. (dp_Address d, dp_PoolContractID d)) dirty"
proof -
  obtain b1 where b1: "resolveAggregatorPrices closeTime b = Some b1"
    using assms(5) by (cases "resolveAggregatorPrices closeTime b") (auto simp: snapshot_def)
  have oracles: "gm_ok (b_oracles b)" using assms(2) by (simp add: bl_ok_defs)
  obtain n where n: "b1 = b\<lparr>b_oracles := n\<rparr>" "gm_ok n"
    using resolveAggregatorPrices_only(1,2) [OF b1 oracles] by auto
  define b2 where "b2 = resolveOraclePrices b1"
  define f where "f = finished_pools b2"
  have "bl_ok b1" using assms(2) n by (simp add: bl_ok_defs)
  then have ok2: "bl_ok b2" unfolding b2_def by (rule resolveOraclePrices_ok)
  have same2: "b_pendingPos b2 = b_pendingPos b" "b_dirtyUsers b2 = b_dirtyUsers b" "b_deltas b2 = b_deltas b"
    by (simp_all add: b2_def resolveOraclePrices_def n(1))
  have pools: "pools_ok (b_pools f)" unfolding f_def using ok2 by (intro built_pools_ok) (simp add: bl_ok_def)
  have f: "b_pendingPos f = b_pendingPos b" "b_dirtyUsers f = b_dirtyUsers b" "b_deltas f = b_deltas b"
    by (simp_all add: f_def same2) (simp add: finished_pools_def same2)
  have keyed: "keyed pending_key (b_pendingPos f)" "keyed identity_key (b_dirtyUsers f)" using assms(2) by (simp_all add: f bl_ok_defs)
  have plain: "plain f" using assms(3) by (simp add: plain_def f)
  have clean: "gm_get (b_pendingPos f) k = gm_get (b_pendingPos b0) k" if "gm_get (b_dirtyUsers f) k = None" for k
    using assms(4) that by (simp add: users_tracked_def f)
  obtain d where d: "backstops_dirtied (mark_cached s f) = (mark_cached s f)\<lparr>b_dirtyBackstops := d\<rparr>"
    using backstops_dirtied_only [of "mark_cached s f"] by (auto simp: backstops_only_def)
  let ?m = "(mark_cached s f)\<lparr>b_dirtyBackstops := d\<rparr>"
  let ?i = "refresh_indexes (in_poolIndexes s) (b_pools f)"
  have res: "b' = ?m\<lparr>b_diagnostics := b_diagnostics ?m @ dirty_diagnostics ?m, b_dirtyUsers := []\<rparr>"
    "s' = run (update_entry ?m) (b_dirtyUsers ?m) (s\<lparr>in_poolIndexes := ?i\<rparr>)" "out = cached_state D b' s'"
    using assms(5) by (auto simp: snapshot_def b1 Let_def d simp flip: f_def b2_def)
  have cache: "cache_at (cache_of f) s'"
    unfolding res(2) by (rule updated_cache [OF assms(1) pools keyed plain clean refl])
  have b': "b' = f\<lparr>b_dirtyUsers := [], b_dirtyBackstops := d, b_diagnostics := b_diagnostics ?m @ dirty_diagnostics ?m\<rparr>"
    by (simp add: res(1) mark_cached_def)
  have "out = snd (bl_rows D b2)"
    unfolding res(3) using ok2 cache by (intro cached_state_rows [OF _ _ _ b' [unfolded f_def]]) (simp_all add: bl_ok_defs f_def)
  then show "map_option snd (bl_build D closeTime b) = Some out" by (simp add: bl_build_def b1 b2_def)
  have c0: "cache_at (cache_of b0) s" "indexes_ok (in_poolIndexes s) (b_pools b0)" "keyed pending_key (b_pendingPos b0)"
    using assms(1) by (simp_all add: cache_ok_def bl_ok_defs)
  have indexes: "indexes_ok (in_poolIndexes s') (b_pools f)"
    using refresh_indexes_ok [OF c0(2) pools] by (simp add: res(2))
  have marked: "keyed identity_key (b_dirtyUsers (mark_cached s f))"
    using cache_of_entry [OF _ c0(3)] by (intro mark_cached_ok [OF c0(1) keyed(2)]) metis
  have "dirty = finalizeDirtyPositions (b_dirtyUsers (mark_cached s f)) (b_pendingPos b2)"
    using assms(5) by (auto simp: snapshot_def b1 Let_def simp flip: f_def b2_def)
  then show "sorted_by (\<lambda>d. (dp_Address d, dp_PoolContractID d)) dirty" by (simp add: finalize_sorted [OF marked])
  have "bl_ok (mark_cached s f)"
    using marked ok2 pools by (simp add: bl_ok_defs mark_cached_def f_def finished_pools_def)
  then have "bl_ok ?m" using backstops_dirtied_ok d by metis
  then have "bl_ok b'" using ok2 pools by (simp add: bl_ok_defs b' f_def finished_pools_def mark_cached_def)
  moreover have "cache_of b' = cache_of f" by (rule cache_of_view) (simp_all add: b')
  ultimately show "cache_ok b' s'" using plain cache indexes by (simp add: cache_ok_def plain_def b' gm.get_nil)
  show "ls_Users out = concat (map un_block (map (entry_at (in_index s')) (in_keys s')))"
    unfolding res(3) by (simp add: cached_state_def Let_def)
qed

section \<open>The start of a ledger\<close>

lemma gm_ok_filter: "gm_ok m \<Longrightarrow> gm_ok (filter P m)"
  by (simp add: gm_ok_def distinct_map_filter)

lemma normalized_cache:
  assumes "cache_ok b s"
  shows "cache_ok ((normalizeCarry a b)\<lparr>b_ledgerSeq := ledger\<rparr>) (s\<lparr>in_mirror := x\<rparr>)"
proof -
  let ?b = "(normalizeCarry a b)\<lparr>b_ledgerSeq := ledger\<rparr>"
  have same: "b_pools ?b = b_pools b" "b_pendingPos ?b = b_pendingPos b" "b_dirtyUsers ?b = b_dirtyUsers b"
    by (simp_all add: normalizeCarry_def refreshOwned_def)
  have "bl_ok ?b" using assms by (simp add: cache_ok_def bl_ok_defs normalizeCarry_def refreshOwned_def gm_ok_filter)
  moreover have "cache_of ?b = cache_of b" by (rule cache_of_view) (simp_all add: same)
  ultimately show ?thesis using assms by (simp add: cache_ok_def plain_def same cache_at_def)
qed

lemma load_pool_ledger: "load_pool st (b\<lparr>b_ledgerSeq := l\<rparr>) = (load_pool st b)\<lparr>b_ledgerSeq := l\<rparr>"
  by (simp add: load_pool_def Let_def putPool_def)

lemma load_pools_ledger: "run load_pool ps (b\<lparr>b_ledgerSeq := l\<rparr>) = (run load_pool ps b)\<lparr>b_ledgerSeq := l\<rparr>"
  by (induction ps arbitrary: b) (simp_all add: load_pool_ledger)

lemma bl_start_ledger: "(bl_start S a prior l)\<lparr>b_ledgerSeq := l'\<rparr> = bl_start S a prior l'"
proof -
  have "loadPrior S st (b\<lparr>b_ledgerSeq := l\<rparr>) = (loadPrior S st b)\<lparr>b_ledgerSeq := l\<rparr>" for st b l
    by (simp add: loadPrior_def Let_def load_pools_ledger)
  from this [where b = "newBlendStateBuilder\<lparr>b_owned := ba_contracts a, b_ownedAssets := ba_assets a, b_ownedFeeds := ba_feeds a,
      b_ownedComets := ba_comets a, b_protocol := bl_Protocol a, b_ledgerSeq := l\<rparr>" and l = l']
  show ?thesis by (simp add: bl_start_def Let_def split: option.split)
qed

definition plain_prior :: "ledger_state option \<Rightarrow> bool" where
  "plain_prior prior \<longleftrightarrow> (\<forall>st. prior = Some st \<longrightarrow> (\<forall>q\<in>set (ls_PendingUserPositions st). CHR ''|'' \<notin> set (pu_Address q)))"

lemma load_pending_plain:
  assumes "\<forall>q\<in>set qs. CHR ''|'' \<notin> set (pu_Address q)" and "\<forall>k p. gm_get m k = Some p \<longrightarrow> CHR ''|'' \<notin> set (pp_user p)"
  shows "\<forall>k p. gm_get (run (load_pending S) qs m) k = Some p \<longrightarrow> CHR ''|'' \<notin> set (pp_user p)"
  using assms
proof (induction qs arbitrary: m)
  case (Cons q qs)
  have "\<forall>k p. gm_get (load_pending S q m) k = Some p \<longrightarrow> CHR ''|'' \<notin> set (pp_user p)"
    using Cons.prems by (auto simp: load_pending_def gm_simps split: option.splits if_splits)
  with Cons show ?case by simp
qed simp

lemma plain_start: "plain_prior prior \<Longrightarrow> plain (bl_start S a prior ledger)"
  using load_pending_plain [of _ "[]" S] by (cases prior) (auto simp: plain_def plain_prior_def bl_start_pending gm.get_nil)

lemma reseed_mirror: "in_mirror (reseed S a prior s) = Some (bl_start S a prior 0)"
proof -
  have "refreshOwned a newBlendStateBuilder = newBlendStateBuilder\<lparr>b_owned := ba_contracts a, b_ownedAssets := ba_assets a,
      b_ownedFeeds := ba_feeds a, b_ownedComets := ba_comets a, b_protocol := bl_Protocol a, b_ledgerSeq := 0\<rparr>"
    by (simp add: refreshOwned_def newBlendStateBuilder_def)
  then show ?thesis by (simp add: reseed_def Let_def bl_start_def)
qed

lemma reseed_cache:
  assumes "plain_prior prior"
  shows "cache_ok (bl_start S a prior ledger) (reseed S a prior s)"
proof -
  let ?b = "bl_start S a prior 0" and ?s = "reseed S a prior s"
  let ?index = "map (\<lambda>(k, p). (k, fresh_entry ?b k p)) (b_pendingPos ?b)"
  have start: "refreshOwned a newBlendStateBuilder = newBlendStateBuilder\<lparr>b_owned := ba_contracts a, b_ownedAssets := ba_assets a,
      b_ownedFeeds := ba_feeds a, b_ownedComets := ba_comets a, b_protocol := bl_Protocol a, b_ledgerSeq := 0\<rparr>"
    by (simp add: refreshOwned_def newBlendStateBuilder_def)
  have s: "in_index ?s = ?index" "in_keys ?s = sort_key (\<lambda>k. entry_order (entry_at ?index k)) (map fst ?index)"
    "in_usersLen ?s = sum_list (map (\<lambda>(_, e). int (length (un_block e))) ?index)"
    "in_poolIndexes ?s = map (\<lambda>(cid, p). (cid, pb_reserveByIndex p)) (b_pools ?b)"
    by (simp_all add: reseed_def Let_def start bl_start_def copyReserveIndex_def)
  have ok: "bl_ok ?b" by (rule bl_start_ok)
  then have keyed: "keyed pending_key (b_pendingPos ?b)" "gm_ok (b_pendingPos ?b)" "pools_ok (b_pools ?b)" by (simp_all add: bl_ok_defs keyed_def)
  have get: "gm_get ?index k = cache_of ?b k" for k by (simp add: gm_get_mapped cache_of_def)
  have at: "entry_at ?index k = the (cache_of ?b k)" if "cache_of ?b k \<noteq> None" for k
    using that by (auto simp: entry_at_def get)
  have keys: "set (in_keys ?s) = dom (cache_of ?b)"
  proof -
    have "set (in_keys ?s) = fst ` set (b_pendingPos ?b)" by (auto simp: s(2) split_def image_image)
    then show ?thesis by (simp add: cache_of_def gm_get_def dom_def flip: dom_map_of_conv_image_fst)
  qed
  have order: "map (key_order (cache_of ?b)) (in_keys ?s) = map (\<lambda>k. entry_order (entry_at ?index k)) (in_keys ?s)"
    using keys at by (intro map_cong refl) (auto simp: key_order_def)
  have "sorted (map (\<lambda>k. entry_order (entry_at ?index k)) (in_keys ?s))" unfolding s(2) by (rule sorted_sort_key)
  then have sorted: "sorted (map (key_order (cache_of ?b)) (in_keys ?s))" unfolding order .
  have fresh: "un_block (fresh_entry ?b k p) = un_block (the (cache_of ?b k))" if "(k, p) \<in> set (b_pendingPos ?b)" for k p
    using in_gm_get [OF keyed(2) that] by (simp add: cache_of_def)
  have "in_usersLen ?s = sum_list (map (key_length (cache_of ?b)) (map fst (b_pendingPos ?b)))"
    unfolding s(3) map_map comp_def key_length_def by (intro arg_cong [where f = sum_list] map_cong refl) (auto simp: fresh)
  also have "\<dots> = sum_list (map (key_length (cache_of ?b)) (in_keys ?s))"
  proof -
    have "mset (in_keys ?s) = mset (map fst (b_pendingPos ?b))" by (simp add: s(2) comp_def split_def)
    then show ?thesis by (metis mset_map sum_mset_sum_list)
  qed
  finally have len: "in_usersLen ?s = sum_list (map (key_length (cache_of ?b)) (in_keys ?s))" .
  have "distinct (map fst ?index)" using keyed(2) by (simp add: gm_ok_def comp_def split_def)
  then have distinct: "gm_ok (in_index ?s)" "distinct (in_keys ?s)" unfolding s(1,2) by (simp_all add: gm_ok_def)
  have "cache_at (cache_of ?b) ?s"
    unfolding cache_at_def using distinct keys sorted len get by (simp add: s(1)) (auto simp: cache_of_def fresh_entry_def)
  moreover have "indexes_ok (in_poolIndexes ?s) (b_pools ?b)"
    using pools_ok_get [OF keyed(3)] pool_ok_index by (auto simp: indexes_ok_def s(4) gm_get_mapped same_index_def option.rel_map intro!: rel_option_reflI)
  moreover have "b_pools (bl_start S a prior ledger) = b_pools ?b" "b_pendingPos (bl_start S a prior ledger) = b_pendingPos ?b"
    by (subst bl_start_ledger [where l = 0 and l' = ledger, symmetric], simp)+
  moreover from this have "cache_of (bl_start S a prior ledger) = cache_of ?b" by (rule cache_of_view)
  ultimately show ?thesis using bl_start_ok plain_start [OF assms] by (simp add: cache_ok_def)
qed

section \<open>Runs of the strategy\<close>

definition strategy_ok :: "incremental \<Rightarrow> bool" where
  "strategy_ok s \<longleftrightarrow> (case in_mirror s of None \<Rightarrow> True | Some b \<Rightarrow> cache_ok b s)"

inductive incremental_run :: "sdk \<Rightarrow> 'd decimal_ops \<Rightarrow> (delta_state \<Rightarrow> string) \<Rightarrow> incremental \<Rightarrow> bool" for S D J where
  start: "incremental_run S D J newIncrementalStrategy"
| ledger: "incremental_run S D J s \<Longrightarrow> plain_prior (map_option snd prior)
    \<Longrightarrow> incrementalDecode S D J a ptr prior changes seq closeTime s = Some (s', r) \<Longrightarrow> incremental_run S D J s'"

lemma prepared_cache:
  assumes "strategy_ok s" and "plain_prior (map_option snd prior)"
  obtains b where "in_mirror (prepared S a prior s) = Some b" and "cache_ok (b\<lparr>b_ledgerSeq := ledger\<rparr>) (prepared S a prior s)"
proof (cases "continues prior s")
  case True
  then obtain b where b: "in_mirror s = Some b" by (auto simp: continues_def)
  then have "cache_ok b s" using assms(1) by (simp add: strategy_ok_def)
  from normalized_cache [OF this] show ?thesis using that [of "normalizeCarry a b"] True b by (simp add: prepared_def)
next
  case False
  have "(bl_start S a (map_option snd prior) 0)\<lparr>b_ledgerSeq := ledger\<rparr> = bl_start S a (map_option snd prior) ledger"
    by (rule bl_start_ledger)
  then show ?thesis using that [OF _] reseed_cache [OF assms(2)] False by (simp add: prepared_def reseed_mirror)
qed

lemma mirror_applied_ok:
  assumes "strkey_ok S" and "strategy_ok s" and "plain_prior (map_option snd prior)"
  obtains b0 where "cache_ok b0 (prepared S a prior s)" and "bl_ok (mirror_applied S D a prior changes ledger s)"
    and "plain (mirror_applied S D a prior changes ledger s)" and "users_tracked b0 (mirror_applied S D a prior changes ledger s)"
proof -
  obtain b where b: "in_mirror (prepared S a prior s) = Some b" "cache_ok (b\<lparr>b_ledgerSeq := ledger\<rparr>) (prepared S a prior s)"
    using assms(2,3) by (rule prepared_cache)
  let ?b0 = "b\<lparr>b_ledgerSeq := ledger\<rparr>"
  have applied: "mirror_applied S D a prior changes ledger s = run (bl_apply S D ledger) changes ?b0"
    by (simp add: mirror_applied_def b(1))
  have "bl_ok ?b0" "plain ?b0" using b(2) by (simp_all add: cache_ok_def)
  moreover have "step_ok S ?b0 (run (bl_apply S D ledger) changes ?b0)" by (rule step_changes)
  ultimately show ?thesis
    using that [OF b(2)] plain_tracked [OF assms(1)] unfolding applied step_ok_def by blast
qed

lemma decode_ledger:
  assumes "strkey_ok S" and "strategy_ok s" and "plain_prior (map_option snd prior)"
    and "incrementalDecode S D J a ptr prior changes ledger closeTime s = Some (s', r)"
  shows "strategy_ok s'" and "map_option snd (bl_build D closeTime (mirror_applied S D a prior changes ledger s)) = Some (br_state r)"
    and "\<exists>b. cache_ok b s' \<and> ls_Users (br_state r) = concat (map un_block (map (entry_at (in_index s')) (in_keys s')))"
    and "sorted_by (\<lambda>d. (dp_Address d, dp_PoolContractID d)) (br_dirty r)"
proof -
  let ?b = "mirror_applied S D a prior changes ledger s"
  obtain b0 where b0: "cache_ok b0 (prepared S a prior s)" "bl_ok ?b" "plain ?b" "users_tracked b0 ?b"
    using assms(1-3) by (rule mirror_applied_ok)
  let ?c = "?b\<lparr>b_deltas := sortTypedStateDeltas J (b_deltas ?b)\<rparr>"
  have c: "bl_ok ?c" "plain ?c" "users_tracked b0 ?c" using b0 by (simp_all add: bl_ok_defs plain_def users_tracked_def)
  obtain b' t out dirty deposits where snap: "snapshot D closeTime ?c (prepared S a prior s) = Some (b', t, out, dirty, deposits)"
    using assms(4) by (auto simp: incrementalDecode_def Let_def)
  let ?m = "b'\<lparr>b_diagnostics := sortDecodeDiagnostics (b_diagnostics b')\<rparr>"
  have res: "s' = t\<lparr>in_mirror := Some ?m, in_lastOut := Some (ptr, out)\<rparr>" "br_state r = out" "br_dirty r = dirty"
    using assms(4) by (auto simp: incrementalDecode_def Let_def snap)
  note build = snapshot_builds [OF b0(1) c snap]
  show "sorted_by (\<lambda>d. (dp_Address d, dp_PoolContractID d)) (br_dirty r)" using build(4) by (simp only: res(3))
  show "map_option snd (bl_build D closeTime ?b) = Some (br_state r)" using build(1) by (simp only: build_deltas res(2))
  have "cache_of ?m = cache_of b'" by (rule cache_of_view) simp_all
  then have ok: "cache_ok ?m s'" using build(2) by (simp add: cache_ok_def res(1) bl_ok_defs plain_def cache_at_def)
  then show "strategy_ok s'" by (simp add: strategy_ok_def res(1))
  show "\<exists>b. cache_ok b s' \<and> ls_Users (br_state r) = concat (map un_block (map (entry_at (in_index s')) (in_keys s')))"
    using ok build(3) by (intro exI [of _ ?m]) (simp add: res)
qed

lemma run_strategy_ok: "incremental_run S D J s \<Longrightarrow> strkey_ok S \<Longrightarrow> strategy_ok s"
  by (induction rule: incremental_run.induct) (simp add: strategy_ok_def newIncrementalStrategy_def, blast intro: decode_ledger(1))

lemma length_concat_int: "int (length (concat xss)) = (\<Sum>xs\<leftarrow>xss. int (length xs))"
  by (induction xss) simp_all

lemma concat_selected:
  "distinct ks \<Longrightarrow> concat (map (\<lambda>k. if k = x then f k else []) ks) = (if x \<in> set ks then f x else [])"
  by (induction ks) (auto simp: concat_eq_Nil_conv)

text \<open>
  C5: Whatever ledgers an incremental strategy has decoded, carried or reseeded, the state of the
  next one is what the full build makes of the builder the changes were applied to: the cached rows
  are the re-resolved and globally sorted ones, and the length it allocates for them is theirs.
\<close>

theorem incremental_builds:
  assumes "strkey_ok S" and "incremental_run S D J s" and "plain_prior (map_option snd prior)"
    and "incrementalDecode S D J a ptr prior changes ledger closeTime s = Some (s', r)"
  shows "map_option snd (bl_build D closeTime (mirror_applied S D a prior changes ledger s)) = Some (br_state r)
    \<and> in_usersLen s' = int (length (ls_Users (br_state r)))"
proof -
  have ok: "strategy_ok s" by (rule run_strategy_ok [OF assms(2,1)])
  note ledger = decode_ledger [OF assms(1) ok assms(3,4)]
  obtain b where b: "cache_at (cache_of b) s'" "ls_Users (br_state r) = concat (map un_block (map (entry_at (in_index s')) (in_keys s')))"
    using ledger(3) by (auto simp: cache_ok_def)
  have "map (\<lambda>k. int (length (un_block (entry_at (in_index s') k)))) (in_keys s') = map (key_length (cache_of b)) (in_keys s')"
    using cache_entry_at [OF b(1)] by (intro map_cong refl) (simp add: key_length_def)
  from arg_cong [where f = sum_list, OF this] have "in_usersLen s' = int (length (ls_Users (br_state r)))"
    using b(1) by (simp add: b(2) cache_at_def length_concat_int comp_def)
  with ledger(2) show ?thesis by blast
qed

text \<open>The cached block of a pair holds its rows in the output.\<close>

lemma lookup_rows:
  assumes "strkey_ok S" and "incremental_run S D J s" and "plain_prior (map_option snd prior)"
    and "incrementalDecode S D J a ptr prior changes ledger closeTime s = Some (s', r)" and "CHR ''|'' \<notin> set address"
  shows "userPositions s' address pool =
    filter (\<lambda>u. up_Address u = address \<and> up_PoolContractID u = pool) (ls_Users (br_state r))"
proof -
  have ok: "strategy_ok s" by (rule run_strategy_ok [OF assms(2,1)])
  obtain b where b: "cache_ok b s'" "ls_Users (br_state r) = concat (map un_block (map (entry_at (in_index s')) (in_keys s')))"
    using decode_ledger(3) [OF assms(1) ok assms(3,4)] by blast
  have c: "cache_at (cache_of b) s'" "keyed pending_key (b_pendingPos b)" "plain b" using b(1) by (simp_all add: cache_ok_def bl_ok_defs)
  note at = c(1) [unfolded cache_at_def]
  let ?k = "typedUserEntityKey address pool" and ?P = "\<lambda>u. up_Address u = address \<and> up_PoolContractID u = pool"
  have part: "filter ?P (un_block (entry_at (in_index s') k)) = (if k = ?k then un_block (entry_at (in_index s') k) else [])"
    if k: "k \<in> set (in_keys s')" for k
  proof -
    have "cache_of b k \<noteq> None" using at k by auto
    then obtain p where p: "gm_get (b_pendingPos b) k = Some p" by (auto simp: cache_of_def)
    have e: "entry_at (in_index s') k = fresh_entry b k p" using cache_entry_at [OF c(1) k] p by (simp add: cache_of_def)
    have key: "k = typedUserEntityKey (pp_user p) (pp_poolContract p)" using keyed_get [OF c(2) p] unfolding pending_key_def .
    have bar: "CHR ''|'' \<notin> set (pp_user p)" using c(3) p by (auto simp: plain_def)
    have rows: "up_Address u = pp_user p \<and> up_PoolContractID u = pp_poolContract p" if "u \<in> set (computeBlock b p)" for u
      using that user_positions_holder by (auto simp: computeBlock_def split: option.splits)
    have "k = ?k \<longleftrightarrow> pp_user p = address \<and> pp_poolContract p = pool"
      using typed_key_inj [OF _ bar assms(5), of "pp_poolContract p" pool] key by auto
    then show ?thesis using rows by (auto simp: e fresh_entry_def filter_id_conv filter_empty_conv)
  qed
  have "filter ?P (concat (map (\<lambda>k. un_block (entry_at (in_index s') k)) ks)) =
      concat (map (\<lambda>k. if k = ?k then un_block (entry_at (in_index s') k) else []) ks)" if "set ks \<subseteq> set (in_keys s')" for ks
    using that part by (induction ks) auto
  then have "filter ?P (ls_Users (br_state r)) = concat (map (\<lambda>k. if k = ?k then un_block (entry_at (in_index s') k) else []) (in_keys s'))"
    by (simp add: b(2) comp_def)
  also have "\<dots> = (if ?k \<in> set (in_keys s') then un_block (entry_at (in_index s') ?k) else [])"
    using at by (simp add: concat_selected)
  also have "\<dots> = userPositions s' address pool"
    using at by (auto simp: userPositions_def entry_at_def split: option.split)
  finally show ?thesis ..
qed

text \<open>
  C6: The lookup the strategy offers to projections is exact: the cached block of a pair is the
  list of its rows in the output, in the order of the output.
\<close>

theorem incremental_lookup:
  assumes "strkey_ok S" and "incremental_run S D J s" and "plain_prior (map_option snd prior)"
    and "incrementalDecode S D J a ptr prior changes ledger closeTime s = Some (s', r)" and "CHR ''|'' \<notin> set address"
  shows "userPositions s' address pool =
    filter (\<lambda>u. up_Address u = address \<and> up_PoolContractID u = pool) (ls_Users (br_state r))"
  using assms by (rule lookup_rows)

text \<open>The rows and the dirty pairs of a ledger are in their order.\<close>

lemma decoded_in_order:
  assumes "strkey_ok S" and "incremental_run S D J s" and "plain_prior (map_option snd prior)"
    and "incrementalDecode S D J a ptr prior changes ledger closeTime s = Some (s', r)"
  shows "sorted (map user_order (ls_Users (br_state r)))" and "sorted_by (\<lambda>d. (dp_Address d, dp_PoolContractID d)) (br_dirty r)"
proof -
  have ok: "strategy_ok s" by (rule run_strategy_ok [OF assms(2,1)])
  obtain b where "br_state r = snd (bl_rows D b)"
    using decode_ledger(2) [OF assms(1) ok assms(3,4)] by (auto simp: bl_build_def) (metis snd_conv)
  then show "sorted (map user_order (ls_Users (br_state r)))" by (simp add: bl_rows_def Let_def)
  show "sorted_by (\<lambda>d. (dp_Address d, dp_PoolContractID d)) (br_dirty r)" by (rule decode_ledger(4) [OF assms(1) ok assms(3,4)])
qed

section \<open>Examples\<close>

text \<open>The first ledger of a fresh strategy, from the example state without position rows.\<close>

lemma lg_strkey: "strkey_ok lg_sdk"
  by (simp add: lg_sdk_def example_sdk_ok)

lemma lg_plain_prior: "plain_prior (Some (lg_state us xs))"
  by (simp add: plain_prior_def lg_state_def lg_holder_def)

lemma lg_mirror:
  "mirror_applied lg_sdk D lg_adapter (Some (ptr, lg_state us [])) [] ledger newIncrementalStrategy = lg_loaded ledger []"
  by (simp add: mirror_applied_def prepared_def continues_def newIncrementalStrategy_def reseed_mirror lg_start)
    (simp add: lg_loaded_def)

lemma lg_first:
  obtains s' r where "incrementalDecode lg_sdk D J lg_adapter 1 (Some (0, lg_state [] [])) [] 7 closeTime newIncrementalStrategy = Some (s', r)"
    and "br_state r = lg_state [lg_row] []"
proof -
  have "resolveAggregatorPrices closeTime (lg_loaded 7 [] \<lparr>b_deltas := sortTypedStateDeltas J []\<rparr>) = Some (lg_loaded 7 [] \<lparr>b_deltas := sortTypedStateDeltas J []\<rparr>)"
    by (simp add: resolveAggregatorPrices_def)
  then have "\<exists>sr. incrementalDecode lg_sdk D J lg_adapter 1 (Some (0, lg_state [] [])) [] 7 closeTime newIncrementalStrategy = Some sr"
    by (simp add: incrementalDecode_def Let_def lg_mirror snapshot_def)
  then obtain s' r where r: "incrementalDecode lg_sdk D J lg_adapter 1 (Some (0, lg_state [] [])) [] 7 closeTime newIncrementalStrategy = Some (s', r)"
    by auto
  have "strategy_ok newIncrementalStrategy" by (simp add: strategy_ok_def newIncrementalStrategy_def)
  moreover have "plain_prior (map_option snd (Some (0::nat, lg_state [] [])))" by (simp add: lg_plain_prior)
  ultimately have "map_option snd (bl_build D closeTime (lg_loaded 7 [])) = Some (br_state r)"
    using decode_ledger(2) [OF lg_strkey _ _ r] by (simp add: lg_mirror)
  moreover have "resolveOraclePrices (lg_loaded 7 []) = lg_loaded 7 []"
    by (simp add: resolveOraclePrices_def priced_pool_def gm_get_def lg_update)
  ultimately have "br_state r = lg_state [lg_row] []"
    by (simp add: bl_build_def resolveAggregatorPrices_def lg_rows buildAuctions_def)
  with r show ?thesis by (rule that)
qed

theorem incremental_builds_witness:
  "\<exists>s' r. incrementalDecode lg_sdk rat_decimal (\<lambda>_. []) lg_adapter 1 (Some (0, lg_state [] [])) [] 7 zero_time newIncrementalStrategy = Some (s', r)
    \<and> br_state r = lg_state [lg_row] [] \<and> in_usersLen s' = 1"
proof -
  obtain s' r where r: "incrementalDecode lg_sdk rat_decimal (\<lambda>_. []) lg_adapter 1 (Some (0, lg_state [] [])) [] 7 zero_time newIncrementalStrategy = Some (s', r)"
    and st: "br_state r = lg_state [lg_row] []" by (rule lg_first)
  have "plain_prior (map_option snd (Some (0::nat, lg_state [] [])))" by (simp add: lg_plain_prior)
  from incremental_builds [OF lg_strkey incremental_run.start this r] st
  have "in_usersLen s' = 1" by (simp add: lg_state_def)
  with r st show ?thesis by blast
qed

theorem incremental_lookup_witness:
  "\<exists>s' r. incrementalDecode lg_sdk rat_decimal (\<lambda>_. []) lg_adapter 1 (Some (0, lg_state [] [])) [] 7 zero_time newIncrementalStrategy = Some (s', r)
    \<and> userPositions s' ''G'' ''CP'' = [lg_row]"
proof -
  obtain s' r where r: "incrementalDecode lg_sdk rat_decimal (\<lambda>_. []) lg_adapter 1 (Some (0, lg_state [] [])) [] 7 zero_time newIncrementalStrategy = Some (s', r)"
    and st: "br_state r = lg_state [lg_row] []" by (rule lg_first)
  have "plain_prior (map_option snd (Some (0::nat, lg_state [] [])))" by (simp add: lg_plain_prior)
  moreover have "CHR ''|'' \<notin> set ''G''" by simp
  ultimately have "userPositions s' ''G'' ''CP'' = filter (\<lambda>u. up_Address u = ''G'' \<and> up_PoolContractID u = ''CP'') [lg_row]"
    using incremental_lookup [OF lg_strkey incremental_run.start _ r, of "''G''" "''CP''"] st by (simp add: lg_state_def)
  then have "userPositions s' ''G'' ''CP'' = [lg_row]" by (simp add: lg_row_def) (simp add: lg_holder_def)
  with r show ?thesis by blast
qed

end
