(* ===== verification/Blend_Projection.thy ===== *)
theory Blend_Projection
  imports Blend_Emission Blend_Parity
begin

text \<open>
  Projections of dirty pairs against the full pass (ProjectPositions and dirtyPositionRows of
  src/blend/adapter.go), whether their rows come from the scan of the state or from the lookup of
  the incremental strategy (src/blend/state_incremental.go).
\<close>

section \<open>Selections of sorted rows\<close>

lemma filter_least:
  assumes "sorted (map f us)" and "\<And>u. u \<in> set us \<Longrightarrow> P u \<Longrightarrow> k < f u"
  shows "filter (\<lambda>u. f u = k) us @ filter P us = filter (\<lambda>u. f u = k \<or> P u) us"
  using assms
proof (induction us)
  case (Cons u us)
  have rest: "filter (\<lambda>u. f u = k) us @ filter P us = filter (\<lambda>u. f u = k \<or> P u) us" using Cons by simp
  have "filter (\<lambda>u. f u = k) us = []" if "P u"
  proof -
    have "k < f u" "\<forall>w\<in>set us. f u \<le> f w" using Cons.prems that by simp_all
    then show ?thesis by (auto simp: filter_empty_conv)
  qed
  then show ?case using rest Cons.prems(2) [of u] by auto
qed simp

text \<open>Blocks in the order of their keys are one selection.\<close>

lemma blocks_in_order:
  assumes "sorted (map f us)" and "sorted_by g ds"
  shows "concat (map (\<lambda>d. filter (\<lambda>u. f u = g d) us) ds) = filter (\<lambda>u. f u \<in> g ` set ds) us"
  using assms(2)
proof (induction ds)
  case (Cons d ds)
  have "concat (map (\<lambda>d. filter (\<lambda>u. f u = g d) us) ds) = filter (\<lambda>u. f u \<in> g ` set ds) us"
    using Cons by (simp add: sorted_by_def)
  moreover have "g d < k" if "k \<in> g ` set ds" for k using that Cons.prems by (auto simp: sorted_by_def less_le)
  ultimately show ?case using filter_least [OF assms(1), of "\<lambda>u. f u \<in> g ` set ds" "g d"] by simp
qed simp

section \<open>The rows of the dirty pairs\<close>

definition dirty_pair :: "dirty_position \<Rightarrow> string \<times> string" where
  "dirty_pair d = (dp_Address d, dp_PoolContractID d)"

definition row_pair :: "user_reserve_position \<Rightarrow> string \<times> string" where
  "row_pair u = (up_Address u, up_PoolContractID u)"

lemma in_dirty_pair: "in_dirty dirty a p \<longleftrightarrow> (a, p) \<in> dirty_pair ` set dirty"
  by (auto simp: in_dirty_def dirty_pair_def)

lemma rows_in_pair_order: "sorted (map user_order us) \<Longrightarrow> sorted (map row_pair us)"
  by (induction us) (auto simp: user_order_def row_pair_def)

lemma scanned_rows:
  assumes "ba_lookup a = None" and "pairs_bar_free st dirty"
  shows "dirtyPositionRows a st dirty = filter (\<lambda>u. row_pair u \<in> dirty_pair ` set dirty) (ls_Users st)"
  by (simp add: dirty_rows [OF assms] in_dirty_pair row_pair_def)

text \<open>An adapter that decodes incrementally answers from the cache of its last ledger.\<close>

lemma looked_up_rows:
  assumes "strkey_ok S" and "incremental_run S D K s" and "plain_prior (map_option snd prior)"
    and "incrementalDecodeStateAt S D K (a0, s) ptr prior changes ledger closeTime = Some ((a, s'), st)"
    and "\<And>d. d \<in> set dirty \<Longrightarrow> CHR ''|'' \<notin> set (dp_Address d)"
  shows "ba_lookup a \<noteq> None" and "sorted (map row_pair (ls_Users st))" and "sorted_by dirty_pair (ba_lastDirty a)"
    and "dirtyPositionRows a st dirty = concat (map (\<lambda>d. filter (\<lambda>u. row_pair u = dirty_pair d) (ls_Users st)) dirty)"
proof -
  obtain r where r: "incrementalDecode S D K a0 ptr prior changes ledger closeTime s = Some (s', r)" "br_state r = st"
    and lookup: "ba_lookup a = Some (userPositions s')" "ba_lastDirty a = br_dirty r"
    using assms(4) by (auto simp: incrementalDecodeStateAt_def)
  show "ba_lookup a \<noteq> None" by (simp add: lookup)
  show "sorted (map row_pair (ls_Users st))" using decoded_in_order(1) [OF assms(1-3) r(1)] r(2) by (simp add: rows_in_pair_order)
  show "sorted_by dirty_pair (ba_lastDirty a)" using decoded_in_order(2) [OF assms(1-3) r(1)] by (simp add: lookup dirty_pair_def [abs_def])
  have "userPositions s' (dp_Address d) (dp_PoolContractID d) = filter (\<lambda>u. row_pair u = dirty_pair d) (ls_Users st)"
    if "d \<in> set dirty" for d
    using lookup_rows [OF assms(1-3) r(1) assms(5) [OF that]] r(2) by (simp add: row_pair_def dirty_pair_def)
  then show "dirtyPositionRows a st dirty = concat (map (\<lambda>d. filter (\<lambda>u. row_pair u = dirty_pair d) (ls_Users st)) dirty)"
    by (simp add: dirtyPositionRows_def lookup cong: map_cong)
qed

text \<open>
  C20: A projection of dirty pairs reports the same rows as the full pass, field by field. When the
  adapter has no lookup, the positions \<open>ProjectPositions\<close> returns for a state are exactly the lending
  rows of the dirty pairs that Transform returns for it, in the same order. When the adapter has just
  decoded the state incrementally - after any run of the strategy - they are those rows pair by pair,
  in the order of the pairs; and for the dirty pairs that ledger has just reported, as for any pairs
  in ascending order and each once, that is the order of the full pass again.
\<close>

theorem project_positions_agree:
  assumes "bl_Transform D S J a i = Inr out" and "ti_State i = Some st"
    and "\<And>leg. leg \<in> set (ls_Users st) \<Longrightarrow> up_PositionType leg \<noteq> Backstop"
    and mode: "ba_lookup a = None \<and> pairs_bar_free st dirty \<or>
      strkey_ok S \<and> (\<forall>d\<in>set dirty. CHR ''|'' \<notin> set (dp_Address d)) \<and>
      (\<exists>a0 s ptr prior changes ledger closeTime s'. incremental_run S D K s \<and> plain_prior (map_option snd prior) \<and>
        incrementalDecodeStateAt S D K (a0, s) ptr prior changes ledger closeTime = Some ((a, s'), st))"
  defines "lending \<equiv> \<lambda>pairs. filter (\<lambda>p. pn_PositionType p \<noteq> Backstop \<and> (pn_Address p, pn_ContractID p) \<in> pairs) (to_Positions out)"
  shows "\<exists>proj. ProjectPositions D a (Some st) dirty (ti_LedgerSeq i) (ti_CloseTime i) = Inr proj \<and>
    (ba_lookup a = None \<longrightarrow> to_Positions proj = lending (dirty_pair ` set dirty)) \<and>
    (ba_lookup a \<noteq> None \<longrightarrow> to_Positions proj = concat (map (\<lambda>d. lending {dirty_pair d}) dirty)) \<and>
    (ba_lookup a \<noteq> None \<and> (sorted_by dirty_pair dirty \<or> dirty = ba_lastDirty a) \<longrightarrow> to_Positions proj = lending (dirty_pair ` set dirty))"
proof (cases "dirty = []")
  case True
  then show ?thesis by (simp add: ProjectPositions_def zero_transform_output_def lending_def)
next
  case False
  obtain proj rows where p: "ProjectPositions D a (Some st) dirty (ti_LedgerSeq i) (ti_CloseTime i) = Inr proj"
    "to_Positions proj = concat (map rows (dirtyPositionRows a st dirty))"
    and select: "\<forall>Q. concat (map rows (filter (\<lambda>u. Q (up_Address u) (up_PoolContractID u)) (ls_Users st))) =
      filter (\<lambda>p. pn_PositionType p \<noteq> Backstop \<and> Q (pn_Address p) (pn_ContractID p)) (to_Positions out)"
    using assms(1,2) False assms(3) by (rule projection_rows)
  have pick: "concat (map rows (filter (\<lambda>u. row_pair u \<in> A) (ls_Users st))) = lending A" for A
    using select [rule_format, of "\<lambda>x y. (x, y) \<in> A"] by (simp add: lending_def row_pair_def)
  show ?thesis
  proof (cases "ba_lookup a")
    case None
    then have "pairs_bar_free st dirty" using mode by (auto dest: looked_up_rows(1))
    then show ?thesis using p by (auto simp: None scanned_rows [OF None] pick)
  next
    case (Some rs)
    then obtain a0 s ptr prior changes ledger closeTime s' where inc: "strkey_ok S" "incremental_run S D K s"
      "plain_prior (map_option snd prior)"
      "incrementalDecodeStateAt S D K (a0, s) ptr prior changes ledger closeTime = Some ((a, s'), st)"
      and bar: "\<And>d. d \<in> set dirty \<Longrightarrow> CHR ''|'' \<notin> set (dp_Address d)"
      using mode by auto
    note looked = looked_up_rows [OF inc bar]
    have blocks: "concat (map rows (concat (map (\<lambda>d. filter (\<lambda>u. row_pair u = dirty_pair d) (ls_Users st)) ds))) =
        concat (map (\<lambda>d. lending {dirty_pair d}) ds)" for ds
      by (induction ds) (simp_all add: pick [of "{_}", simplified])
    have "sorted_by dirty_pair dirty \<Longrightarrow> to_Positions proj = lending (dirty_pair ` set dirty)"
      by (simp only: p(2) looked(4) blocks_in_order [OF looked(2)] pick)
    then show ?thesis using p(1) looked(3) by (auto simp: Some p(2) looked(4) blocks)
  qed
qed

section \<open>Examples\<close>

text \<open>The example ledger, decoded by a fresh incremental strategy, and its one holder as the dirty pair.\<close>

definition pr_input :: transform_input where
  "pr_input = zero_transform_input\<lparr>ti_State := Some (lg_state [lg_row] [])\<rparr>"

definition pr_dirty :: "dirty_position list" where
  "pr_dirty = [\<lparr>dp_Address = ''G'', dp_PoolContractID = ''CP'', dp_Kind = DirtyUpsert\<rparr>]"

lemma pr_facts: "ti_State pr_input = Some (lg_state [lg_row] [])" "ls_Users (lg_state [lg_row] []) = [lg_row]"
  "ls_Backstops (lg_state [lg_row] []) = []" "up_Address lg_row = ''G''" "up_PoolContractID lg_row = ''CP''"
  "up_AssetID lg_row = ''CA''" "up_PositionType lg_row = Collateral" "dirty_pair ` set pr_dirty = {(''G'', ''CP'')}"
  "sorted_by dirty_pair pr_dirty" "pr_dirty \<noteq> []"
  by (simp_all add: pr_input_def lg_state_def zero_ledger_state_def lg_row_def held_row_def lg_holder_def pr_dirty_def dirty_pair_def sorted_by_def)

lemma pr_pass:
  "\<exists>w np nr. pools_pass rat_decimal su_cfg pr_input (lg_state [lg_row] []) out = Inr w
     \<and> cw_pools w = [''CP'' \<mapsto> np] \<and> cw_reserves w = gm_set (reserveKey ''CP'' ''CA'') nr []"
proof -
  let ?E = "cs_env_of su_cfg pr_input (lg_state [lg_row] [])"
  let ?w = "\<lparr>cw_pools = Map.empty, cw_reserves = [], cw_out = out\<rparr> :: rat cs_work"
  have cfg: "ce_cfg ?E = su_cfg" "bc_AllowUnknownV2 su_cfg" by (simp_all add: cs_env_of_def su_cfg_def)
  then obtain np where np: "resolvePool rat_decimal (ce_cfg ?E) (fst (enrichPoolIdentity (ce_cfg ?E) lg_pool)) = Some np"
    by (auto simp: resolvePool_def)
  then have "np_rateScalar np = parseDecimalOrZero rat_decimal (bc_V2Scalar su_cfg)"
    by (auto simp: cfg resolvePool_def newV2Pool_def split: if_splits prod.splits)
  moreover have "bc_V2Scalar su_cfg = ''1000000000000''" by (simp add: su_cfg_def bl_DefaultConfig_def)
  moreover have "\<not> d_is_zero rat_decimal (parseDecimalOrZero rat_decimal ''1000000000000'')" "d_parse rat_decimal ''1'' \<noteq> None" by code_simp+
  moreover have "v = '''' \<or> v = ''1''" if "v \<in> checked_fields lg_reserve" for v
    using that by (auto simp: checked_fields_def lg_reserve_def zero_reserve_state_def)
  ultimately have "\<not> (\<exists>e. normalizeReserve rat_decimal (bp_ContractID lg_pool) np lg_reserve = Inl e)"
    unfolding normalize_fails_iff by auto
  then obtain nr where nr: "normalizeReserve rat_decimal (bp_ContractID lg_pool) np lg_reserve = Inr nr"
    by (cases "normalizeReserve rat_decimal (bp_ContractID lg_pool) np lg_reserve") auto
  have "reserveHasFoldedData lg_reserve" by (simp add: reserveHasFoldedData_def lg_reserve_def)
  from cs_pool_single [OF np lg_pool_fields(2) this nr, of ?w] show ?thesis
    by (auto simp: pools_pass_def lg_state_def)
qed

theorem project_positions_agree_witness:
  "(\<exists>out proj. bl_Transform rat_decimal (example_sdk [] []) em_json em_adapter em_two_input = Inr out \<and>
     ProjectPositions rat_decimal em_adapter (Some em_two) em_dirty (ti_LedgerSeq em_two_input) (ti_CloseTime em_two_input) = Inr proj \<and>
     to_Positions proj = filter (\<lambda>p. pn_PositionType p \<noteq> Backstop \<and> (pn_Address p, pn_ContractID p) \<in> dirty_pair ` set em_dirty) (to_Positions out))
   \<and> (\<exists>a s' out proj row. incrementalDecodeStateAt lg_sdk rat_decimal (\<lambda>_. []) (lg_adapter, newIncrementalStrategy) 1
         (Some (0, lg_state [] [])) [] 7 zero_time = Some ((a, s'), lg_state [lg_row] []) \<and>
     bl_Transform rat_decimal lg_sdk em_json a pr_input = Inr out \<and>
     ProjectPositions rat_decimal a (Some (lg_state [lg_row] [])) pr_dirty (ti_LedgerSeq pr_input) (ti_CloseTime pr_input) = Inr proj \<and>
     to_Positions out = [row] \<and> to_Positions proj = [row])"
proof (rule conjI)
  obtain out where t: "bl_Transform rat_decimal (example_sdk [] []) em_json em_adapter em_two_input = Inr out"
    using em_two_runs ..
  have "up_PositionType leg \<noteq> Backstop" if "leg \<in> set (ls_Users em_two)" for leg
    using that by (auto simp: em_two_facts)
  from project_positions_agree [where K = "\<lambda>_. []", OF t em_two_facts(1) this] t show
    "\<exists>out proj. bl_Transform rat_decimal (example_sdk [] []) em_json em_adapter em_two_input = Inr out \<and>
     ProjectPositions rat_decimal em_adapter (Some em_two) em_dirty (ti_LedgerSeq em_two_input) (ti_CloseTime em_two_input) = Inr proj \<and>
     to_Positions proj = filter (\<lambda>p. pn_PositionType p \<noteq> Backstop \<and> (pn_Address p, pn_ContractID p) \<in> dirty_pair ` set em_dirty) (to_Positions out)"
    using em_two_facts(2,4) by blast
next
  let ?st = "lg_state [lg_row] []"
  obtain s' r where r: "incrementalDecode lg_sdk rat_decimal (\<lambda>_. []) lg_adapter 1 (Some (0, lg_state [] [])) [] 7 zero_time newIncrementalStrategy = Some (s', r)"
    and st: "br_state r = ?st" by (rule lg_first)
  then obtain a where a: "incrementalDecodeStateAt lg_sdk rat_decimal (\<lambda>_. []) (lg_adapter, newIncrementalStrategy) 1
      (Some (0, lg_state [] [])) [] 7 zero_time = Some ((a, s'), ?st)" and cfg: "ba_cfg a = su_cfg" and look: "ba_lookup a \<noteq> None"
    by (auto simp: incrementalDecodeStateAt_def lg_adapter_def)
  obtain out where t: "bl_Transform rat_decimal lg_sdk em_json a pr_input = Inr out"
    using pr_pass bl_Transform_runs [OF pr_facts(1), of rat_decimal a lg_sdk em_json] unfolding cfg by blast
  obtain w where w: "pools_pass rat_decimal (ba_cfg a) pr_input ?st (bl_events lg_sdk em_json (ba_cfg a) pr_input) = Inr w"
    and rows: "to_Positions out = cu_positions (cs_account_sums rat_decimal (cs_env_of (ba_cfg a) pr_input ?st) ?st w)"
    using t pr_facts(1,10) by (rule projection_passes)
  obtain np nr where "cw_pools w = [''CP'' \<mapsto> np]" "cw_reserves w = gm_set (reserveKey ''CP'' ''CA'') nr []"
    using w pr_pass [of "bl_events lg_sdk em_json su_cfg pr_input"] unfolding cfg by auto
  then obtain row where row: "leg_rows rat_decimal (cs_env_of (ba_cfg a) pr_input ?st) (cw_pools w) (cw_reserves w) lg_row = [row]"
    by (auto simp: leg_rows_def leg_reserve_def pr_facts gm.get_upd)
  then have one: "to_Positions out = [row]" by (simp add: rows account_sums(2) pr_facts)
  have row_is: "pn_PositionType row = Collateral" "pn_Address row = ''G''" "pn_ContractID row = ''CP''"
    using leg_rows_from [of row rat_decimal "cs_env_of (ba_cfg a) pr_input ?st" "cw_pools w" "cw_reserves w" lg_row] row
    by (simp_all add: pr_facts)
  have plain: "plain_prior (map_option snd (Some (0::nat, lg_state [] [])))" by (simp add: lg_plain_prior)
  have bar: "\<forall>d\<in>set pr_dirty. CHR ''|'' \<notin> set (dp_Address d)" by (simp add: pr_dirty_def)
  have mode: "\<exists>a0 s ptr prior changes ledger closeTime s'. incremental_run lg_sdk rat_decimal (\<lambda>_. []) s \<and> plain_prior (map_option snd prior) \<and>
      incrementalDecodeStateAt lg_sdk rat_decimal (\<lambda>_. []) (a0, s) ptr prior changes ledger closeTime = Some ((a, s'), ?st)"
    using incremental_run.start plain a by blast
  have "\<exists>proj. ProjectPositions rat_decimal a (Some ?st) pr_dirty (ti_LedgerSeq pr_input) (ti_CloseTime pr_input) = Inr proj \<and>
      to_Positions proj = filter (\<lambda>p. pn_PositionType p \<noteq> Backstop \<and> (pn_Address p, pn_ContractID p) \<in> dirty_pair ` set pr_dirty) (to_Positions out)"
    using project_positions_agree [OF t pr_facts(1) _ disjI2 [OF conjI [OF lg_strkey conjI [OF bar mode]]]] look pr_facts(9)
    by (auto simp: pr_facts(2,7))
  then show "\<exists>a s' out proj row. incrementalDecodeStateAt lg_sdk rat_decimal (\<lambda>_. []) (lg_adapter, newIncrementalStrategy) 1
         (Some (0, lg_state [] [])) [] 7 zero_time = Some ((a, s'), ?st) \<and>
     bl_Transform rat_decimal lg_sdk em_json a pr_input = Inr out \<and>
     ProjectPositions rat_decimal a (Some ?st) pr_dirty (ti_LedgerSeq pr_input) (ti_CloseTime pr_input) = Inr proj \<and>
     to_Positions out = [row] \<and> to_Positions proj = [row]"
    using a t one row_is by (auto simp: pr_facts(8))
qed

end
