(* ===== verification/Blend_Config.thy ===== *)
theory Blend_Config
  imports GoMarshal Blend_Apply
begin

text \<open>
  Configuration that survives a restart (src/blend/config_state.go): the records of a ledger's changes,
  whose payload is the JSON text of a struct, and the state a host's records are turned back into.
  A result None is the error of a payload that does not parse.
\<close>

section \<open>Payloads\<close>

definition kindOracle :: string where "kindOracle = ''blend.oracle''"

definition kindOraclePrice :: string where "kindOraclePrice = ''blend.oracle_price''"

definition kindPool :: string where "kindPool = ''blend.pool''"

definition kindReserve :: string where "kindReserve = ''blend.reserve''"

record oracle_asset_body =
  xb_asset_id :: string
  xb_index :: int

definition zero_oracle_asset_body :: oracle_asset_body where
  "zero_oracle_asset_body = \<lparr>xb_asset_id = '''', xb_index = 0\<rparr>"

definition oracle_asset_text :: "oracle_asset_body \<Rightarrow> json" where
  "oracle_asset_text b = JObj [(''asset_id'', JStr (xb_asset_id b)), (''index'', text_int (xb_index b))]"

definition oracle_asset_fields :: "(string \<times> oracle_asset_body json_reader) list" where
  "oracle_asset_fields = [(''asset_id'', via xb_asset_id xb_asset_id_update read_string), (''index'', via xb_index xb_index_update (read_int 64))]"

record aggregator_feed_body =
  gb_index :: int
  gb_contract_id :: string
  gb_decimals :: int
  gb_resolution_s :: int

definition zero_aggregator_feed_body :: aggregator_feed_body where
  "zero_aggregator_feed_body = \<lparr>gb_index = 0, gb_contract_id = '''', gb_decimals = 0, gb_resolution_s = 0\<rparr>"

definition aggregator_feed_text :: "aggregator_feed_body \<Rightarrow> json" where
  "aggregator_feed_text b = JObj [(''index'', text_int (gb_index b)), (''contract_id'', JStr (gb_contract_id b)),
     (''decimals'', text_int (gb_decimals b)), (''resolution_s'', text_int (gb_resolution_s b))]"

definition aggregator_feed_fields :: "(string \<times> aggregator_feed_body json_reader) list" where
  "aggregator_feed_fields = [(''index'', via gb_index gb_index_update (read_int 64)),
     (''contract_id'', via gb_contract_id gb_contract_id_update read_string),
     (''decimals'', via gb_decimals gb_decimals_update (read_int 32)),
     (''resolution_s'', via gb_resolution_s gb_resolution_s_update (read_int 64))]"

record aggregator_asset_body =
  hb_asset_id :: string
  hb_feed_asset_key :: string
  hb_oracle_index :: int
  hb_max_dev :: int

definition zero_aggregator_asset_body :: aggregator_asset_body where
  "zero_aggregator_asset_body = \<lparr>hb_asset_id = '''', hb_feed_asset_key = '''', hb_oracle_index = 0, hb_max_dev = 0\<rparr>"

definition aggregator_asset_text :: "aggregator_asset_body \<Rightarrow> json" where
  "aggregator_asset_text b = JObj [(''asset_id'', JStr (hb_asset_id b)), (''feed_asset_key'', JStr (hb_feed_asset_key b)),
     (''oracle_index'', text_int (hb_oracle_index b)), (''max_dev'', text_int (hb_max_dev b))]"

definition aggregator_asset_fields :: "(string \<times> aggregator_asset_body json_reader) list" where
  "aggregator_asset_fields = [(''asset_id'', via hb_asset_id hb_asset_id_update read_string),
     (''feed_asset_key'', via hb_feed_asset_key hb_feed_asset_key_update read_string),
     (''oracle_index'', via hb_oracle_index hb_oracle_index_update (read_int 64)),
     (''max_dev'', via hb_max_dev hb_max_dev_update (read_int 64))]"

record aggregator_config_body =
  qc_max_age_s :: int
  qc_base_key :: string
  qc_base_assets :: "string list option"
  qc_feeds :: "aggregator_feed_body list option"
  qc_assets_cfg :: "aggregator_asset_body list option"

definition zero_aggregator_config_body :: aggregator_config_body where
  "zero_aggregator_config_body = \<lparr>qc_max_age_s = 0, qc_base_key = '''', qc_base_assets = None, qc_feeds = None, qc_assets_cfg = None\<rparr>"

definition aggregator_config_text :: "aggregator_config_body \<Rightarrow> json" where
  "aggregator_config_text b = JObj ([(''max_age_s'', text_int (qc_max_age_s b)), (''base_key'', JStr (qc_base_key b))]
     @ text_filled ''base_assets'' JStr (qc_base_assets b) @ text_filled ''feeds'' aggregator_feed_text (qc_feeds b)
     @ text_filled ''assets_cfg'' aggregator_asset_text (qc_assets_cfg b))"

definition aggregator_config_fields :: "(string \<times> aggregator_config_body json_reader) list" where
  "aggregator_config_fields = [(''max_age_s'', via qc_max_age_s qc_max_age_s_update (read_int 64)),
     (''base_key'', via qc_base_key qc_base_key_update read_string),
     (''base_assets'', via qc_base_assets qc_base_assets_update (read_slice read_string '''')),
     (''feeds'', via qc_feeds qc_feeds_update (read_slice (read_struct aggregator_feed_fields) zero_aggregator_feed_body)),
     (''assets_cfg'', via qc_assets_cfg qc_assets_cfg_update (read_slice (read_struct aggregator_asset_fields) zero_aggregator_asset_body))]"

record feed_round_price_body =
  rb_index :: int
  rb_price_raw :: string

definition zero_feed_round_price_body :: feed_round_price_body where
  "zero_feed_round_price_body = \<lparr>rb_index = 0, rb_price_raw = ''''\<rparr>"

definition feed_round_price_text :: "feed_round_price_body \<Rightarrow> json" where
  "feed_round_price_text b = JObj [(''index'', text_int (rb_index b)), (''price_raw'', JStr (rb_price_raw b))]"

definition feed_round_price_fields :: "(string \<times> feed_round_price_body json_reader) list" where
  "feed_round_price_fields = [(''index'', via rb_index rb_index_update (read_int 64)), (''price_raw'', via rb_price_raw rb_price_raw_update read_string)]"

record feed_round_body =
  rb_timestamp_ms :: int
  rb_prices :: "feed_round_price_body list option"

definition zero_feed_round_body :: feed_round_body where
  "zero_feed_round_body = \<lparr>rb_timestamp_ms = 0, rb_prices = None\<rparr>"

definition feed_round_text :: "feed_round_body \<Rightarrow> json" where
  "feed_round_text b = JObj [(''timestamp_ms'', text_int (rb_timestamp_ms b)), (''prices'', text_slice feed_round_price_text (rb_prices b))]"

definition feed_round_fields :: "(string \<times> feed_round_body json_reader) list" where
  "feed_round_fields = [(''timestamp_ms'', via rb_timestamp_ms rb_timestamp_ms_update (read_int 64)),
     (''prices'', via rb_prices rb_prices_update (read_slice (read_struct feed_round_price_fields) zero_feed_round_price_body))]"

record feed_config_body =
  fc_last_round_ms :: int
  fc_rounds :: "feed_round_body list option"

definition zero_feed_config_body :: feed_config_body where
  "zero_feed_config_body = \<lparr>fc_last_round_ms = 0, fc_rounds = None\<rparr>"

definition feed_config_text :: "feed_config_body \<Rightarrow> json" where
  "feed_config_text b = JObj ([(''last_round_ms'', text_int (fc_last_round_ms b))] @ text_filled ''rounds'' feed_round_text (fc_rounds b))"

definition feed_config_fields :: "(string \<times> feed_config_body json_reader) list" where
  "feed_config_fields = [(''last_round_ms'', via fc_last_round_ms fc_last_round_ms_update (read_int 64)),
     (''rounds'', via fc_rounds fc_rounds_update (read_slice (read_struct feed_round_fields) zero_feed_round_body))]"

record oracle_config_body =
  oc_decimals :: int
  oc_assets :: "oracle_asset_body list option"
  oc_aggregator :: "aggregator_config_body option"
  oc_feed :: "feed_config_body option"

definition zero_oracle_config_body :: oracle_config_body where
  "zero_oracle_config_body = \<lparr>oc_decimals = 0, oc_assets = None, oc_aggregator = None, oc_feed = None\<rparr>"

definition oracle_config_text :: "oracle_config_body \<Rightarrow> json" where
  "oracle_config_text b = JObj ([(''decimals'', text_int (oc_decimals b)), (''assets'', text_slice oracle_asset_text (oc_assets b))]
     @ text_present ''aggregator'' aggregator_config_text (oc_aggregator b) @ text_present ''feed'' feed_config_text (oc_feed b))"

definition oracle_config_fields :: "(string \<times> oracle_config_body json_reader) list" where
  "oracle_config_fields = [(''decimals'', via oc_decimals oc_decimals_update (read_int 32)),
     (''assets'', via oc_assets oc_assets_update (read_slice (read_struct oracle_asset_fields) zero_oracle_asset_body)),
     (''aggregator'', via oc_aggregator oc_aggregator_update (read_pointer (read_struct aggregator_config_fields) zero_aggregator_config_body)),
     (''feed'', via oc_feed oc_feed_update (read_pointer (read_struct feed_config_fields) zero_feed_config_body))]"

record oracle_price_body =
  pb_oracle_id :: string
  pb_asset_index :: int
  pb_price_raw :: string

definition zero_oracle_price_body :: oracle_price_body where
  "zero_oracle_price_body = \<lparr>pb_oracle_id = '''', pb_asset_index = 0, pb_price_raw = ''''\<rparr>"

definition oracle_price_text :: "oracle_price_body \<Rightarrow> json" where
  "oracle_price_text b = JObj [(''oracle_id'', JStr (pb_oracle_id b)), (''asset_index'', text_int (pb_asset_index b)),
     (''price_raw'', JStr (pb_price_raw b))]"

definition oracle_price_fields :: "(string \<times> oracle_price_body json_reader) list" where
  "oracle_price_fields = [(''oracle_id'', via pb_oracle_id pb_oracle_id_update read_string),
     (''asset_index'', via pb_asset_index pb_asset_index_update (read_int 64)), (''price_raw'', via pb_price_raw pb_price_raw_update read_string)]"

record pool_config_body =
  pc_oracle :: "string option"
  pc_backstop :: "string option"
  pc_status :: string
  pc_take_rate :: string
  pc_wasm_hash :: string

definition zero_pool_config_body :: pool_config_body where
  "zero_pool_config_body = \<lparr>pc_oracle = None, pc_backstop = None, pc_status = '''', pc_take_rate = '''', pc_wasm_hash = ''''\<rparr>"

text \<open>An unset reference is written as null; an empty text is read as unset too.\<close>

definition optionalRef :: "string \<Rightarrow> string option" where
  "optionalRef ref = (if ref = '''' then None else Some ref)"

definition refOrEmpty :: "string option \<Rightarrow> string" where
  "refOrEmpty ref = (case ref of None \<Rightarrow> '''' | Some s \<Rightarrow> s)"

definition text_ref :: "string option \<Rightarrow> json" where
  "text_ref ref = (case ref of None \<Rightarrow> JNull | Some s \<Rightarrow> JStr s)"

definition pool_config_text :: "pool_config_body \<Rightarrow> json" where
  "pool_config_text b = JObj [(''oracle'', text_ref (pc_oracle b)), (''backstop'', text_ref (pc_backstop b)),
     (''status'', JStr (pc_status b)), (''take_rate'', JStr (pc_take_rate b)), (''wasm_hash'', JStr (pc_wasm_hash b))]"

definition pool_config_fields :: "(string \<times> pool_config_body json_reader) list" where
  "pool_config_fields = [(''oracle'', via pc_oracle pc_oracle_update (read_pointer read_string '''')),
     (''backstop'', via pc_backstop pc_backstop_update (read_pointer read_string '''')),
     (''status'', via pc_status pc_status_update read_string), (''take_rate'', via pc_take_rate pc_take_rate_update read_string),
     (''wasm_hash'', via pc_wasm_hash pc_wasm_hash_update read_string)]"

record reserve_config_body =
  rc_pool_id :: string
  rc_asset_id :: string
  rc_index :: int
  rc_decimals :: int
  rc_c_factor :: string
  rc_l_factor :: string
  rc_util_target :: string
  rc_max_util :: string
  rc_r_base :: string
  rc_r_one :: string
  rc_r_two :: string
  rc_r_three :: string
  rc_supply_cap :: string
  rc_reactivity :: string
  rc_enabled :: bool
  rc_supply_emis_eps :: string
  rc_supply_emis_expiration :: string
  rc_borrow_emis_eps :: string
  rc_borrow_emis_expiration :: string

definition zero_reserve_config_body :: reserve_config_body where
  "zero_reserve_config_body = \<lparr>rc_pool_id = '''', rc_asset_id = '''', rc_index = 0, rc_decimals = 0, rc_c_factor = '''', rc_l_factor = '''',
     rc_util_target = '''', rc_max_util = '''', rc_r_base = '''', rc_r_one = '''', rc_r_two = '''', rc_r_three = '''',
     rc_supply_cap = '''', rc_reactivity = '''', rc_enabled = False, rc_supply_emis_eps = '''',
     rc_supply_emis_expiration = '''', rc_borrow_emis_eps = '''', rc_borrow_emis_expiration = ''''\<rparr>"

definition reserve_config_text :: "reserve_config_body \<Rightarrow> json" where
  "reserve_config_text b = JObj [(''pool_id'', JStr (rc_pool_id b)), (''asset_id'', JStr (rc_asset_id b)), (''index'', text_int (rc_index b)),
     (''decimals'', text_int (rc_decimals b)), (''c_factor'', JStr (rc_c_factor b)), (''l_factor'', JStr (rc_l_factor b)),
     (''util_target'', JStr (rc_util_target b)), (''max_util'', JStr (rc_max_util b)), (''r_base'', JStr (rc_r_base b)),
     (''r_one'', JStr (rc_r_one b)), (''r_two'', JStr (rc_r_two b)), (''r_three'', JStr (rc_r_three b)),
     (''supply_cap'', JStr (rc_supply_cap b)), (''reactivity'', JStr (rc_reactivity b)), (''enabled'', JBool (rc_enabled b)),
     (''supply_emis_eps'', JStr (rc_supply_emis_eps b)), (''supply_emis_expiration'', JStr (rc_supply_emis_expiration b)),
     (''borrow_emis_eps'', JStr (rc_borrow_emis_eps b)), (''borrow_emis_expiration'', JStr (rc_borrow_emis_expiration b))]"

definition reserve_config_fields :: "(string \<times> reserve_config_body json_reader) list" where
  "reserve_config_fields = [(''pool_id'', via rc_pool_id rc_pool_id_update read_string),
     (''asset_id'', via rc_asset_id rc_asset_id_update read_string), (''index'', via rc_index rc_index_update (read_int 32)),
     (''decimals'', via rc_decimals rc_decimals_update (read_int 32)),
     (''c_factor'', via rc_c_factor rc_c_factor_update read_string),
     (''l_factor'', via rc_l_factor rc_l_factor_update read_string),
     (''util_target'', via rc_util_target rc_util_target_update read_string),
     (''max_util'', via rc_max_util rc_max_util_update read_string), (''r_base'', via rc_r_base rc_r_base_update read_string),
     (''r_one'', via rc_r_one rc_r_one_update read_string), (''r_two'', via rc_r_two rc_r_two_update read_string),
     (''r_three'', via rc_r_three rc_r_three_update read_string),
     (''supply_cap'', via rc_supply_cap rc_supply_cap_update read_string),
     (''reactivity'', via rc_reactivity rc_reactivity_update read_string),
     (''enabled'', via rc_enabled rc_enabled_update read_bool),
     (''supply_emis_eps'', via rc_supply_emis_eps rc_supply_emis_eps_update read_string),
     (''supply_emis_expiration'', via rc_supply_emis_expiration rc_supply_emis_expiration_update read_string),
     (''borrow_emis_eps'', via rc_borrow_emis_eps rc_borrow_emis_eps_update read_string),
     (''borrow_emis_expiration'', via rc_borrow_emis_expiration rc_borrow_emis_expiration_update read_string)]"

text \<open>Marshalling these structs cannot fail, so the payload is the text of the struct.\<close>

definition mustMarshal :: "json \<Rightarrow> string" where
  "mustMarshal v = json_text v"

section \<open>Writing\<close>

definition oracle_body :: "oracle_state \<Rightarrow> oracle_config_body" where
  "oracle_body o' = zero_oracle_config_body\<lparr>oc_decimals := os_Decimals o',
     oc_assets := Some (sort_key (\<lambda>b. (xb_index b, xb_asset_id b)) (map (\<lambda>a. \<lparr>xb_asset_id = oa_AssetID a, xb_index = oa_Index a\<rparr>) (os_Assets o')))\<rparr>"

definition marshalOracleBody :: "oracle_state \<Rightarrow> string" where
  "marshalOracleBody o' = mustMarshal (oracle_config_text (oracle_body o'))"

text \<open>The assets of an aggregator are listed with their positions in the sorted list.\<close>

definition aggregator_body :: "oracle_aggregator_state \<Rightarrow> oracle_config_body" where
  "aggregator_body a = zero_oracle_config_body\<lparr>oc_decimals := og_Decimals a,
     oc_assets := appended (map (\<lambda>(i, asset). \<lparr>xb_asset_id = asset, xb_index = int i\<rparr>)
       (List.enumerate 0 (sort (map ga_AssetID (og_Assets a))))),
     oc_aggregator := Some \<lparr>qc_max_age_s = og_MaxAgeS a, qc_base_key = og_BaseKey a, qc_base_assets = appended (og_BaseAssets a),
       qc_feeds = appended (sort_key gb_index (map (\<lambda>f. \<lparr>gb_index = gf_Index f, gb_contract_id = gf_ContractID f,
         gb_decimals = gf_Decimals f, gb_resolution_s = gf_ResolutionS f\<rparr>) (og_Feeds a))),
       qc_assets_cfg = appended (sort_key hb_asset_id (map (\<lambda>x. \<lparr>hb_asset_id = ga_AssetID x, hb_feed_asset_key = ga_FeedAssetKey x,
         hb_oracle_index = ga_OracleIndex x, hb_max_dev = ga_MaxDev x\<rparr>) (og_Assets a)))\<rparr>\<rparr>"

definition marshalAggregatorBody :: "oracle_aggregator_state \<Rightarrow> string" where
  "marshalAggregatorBody a = mustMarshal (oracle_config_text (aggregator_body a))"

definition feed_body :: "price_feed_state \<Rightarrow> oracle_config_body" where
  "feed_body f = zero_oracle_config_body\<lparr>oc_decimals := pf_Decimals f,
     oc_assets := appended (sort_key (\<lambda>b. (xb_index b, xb_asset_id b))
       (map (\<lambda>a. \<lparr>xb_asset_id = fa_AssetKey a, xb_index = fa_Index a\<rparr>) (pf_Assets f))),
     oc_feed := Some \<lparr>fc_last_round_ms = pf_LastRoundMs f,
       fc_rounds = appended (sort_key rb_timestamp_ms (map (\<lambda>r. \<lparr>rb_timestamp_ms = fr_TimestampMs r,
         rb_prices = appended (map (\<lambda>p. \<lparr>rb_index = fp_Index p, rb_price_raw = fp_PriceRaw p\<rparr>) (fr_Prices r))\<rparr>) (pf_Rounds f)))\<rparr>\<rparr>"

definition marshalFeedBody :: "price_feed_state \<Rightarrow> string" where
  "marshalFeedBody f = mustMarshal (oracle_config_text (feed_body f))"

definition pool_body :: "blend_pool_state \<Rightarrow> pool_config_body" where
  "pool_body p = \<lparr>pc_oracle = optionalRef (bp_OracleContract p), pc_backstop = optionalRef (bp_BackstopContract p),
     pc_status = bp_PoolStatus p, pc_take_rate = bp_BackstopTakeRate p, pc_wasm_hash = bp_WasmHash p\<rparr>"

definition marshalPoolBody :: "blend_pool_state \<Rightarrow> string" where
  "marshalPoolBody p = mustMarshal (pool_config_text (pool_body p))"

definition reserve_body :: "string \<Rightarrow> reserve_state \<Rightarrow> reserve_config_body" where
  "reserve_body pool r = \<lparr>rc_pool_id = pool, rc_asset_id = rs_AssetID r, rc_index = rs_ReserveIndex r, rc_decimals = rs_AssetDecimals r,
     rc_c_factor = rs_CFactorRaw r, rc_l_factor = rs_LFactorRaw r, rc_util_target = rs_UtilTargetRaw r, rc_max_util = rs_MaxUtilRaw r,
     rc_r_base = rs_RBaseRaw r, rc_r_one = rs_ROneRaw r, rc_r_two = rs_RTwoRaw r, rc_r_three = rs_RThreeRaw r,
     rc_supply_cap = rs_SupplyCapRaw r, rc_reactivity = rs_ReactivityRaw r, rc_enabled = rs_Enabled r,
     rc_supply_emis_eps = rs_SupplyEmisEPSRaw r, rc_supply_emis_expiration = rs_SupplyEmisExpirationRaw r,
     rc_borrow_emis_eps = rs_BorrowEmisEPSRaw r, rc_borrow_emis_expiration = rs_BorrowEmisExpirationRaw r\<rparr>"

definition marshalReserveBody :: "string \<Rightarrow> reserve_state \<Rightarrow> string" where
  "marshalReserveBody pool r = mustMarshal (reserve_config_text (reserve_body pool r))"

definition reserveByAsset :: "blend_pool_state \<Rightarrow> string \<Rightarrow> reserve_state option" where
  "reserveByAsset pool asset = find (\<lambda>r. rs_AssetID r = asset) (bp_Reserves pool)"

text \<open>A known index with one claimant.\<close>

definition config_reserve :: "blend_pool_state \<Rightarrow> int \<Rightarrow> reserve_state option" where
  "config_reserve pool i =
     (case filter (\<lambda>r. rs_ReserveIndexKnown r \<and> rs_ReserveIndex r = i) (bp_Reserves pool) of [r] \<Rightarrow> Some r | _ \<Rightarrow> None)"

definition oraclePriceByIndex :: "oracle_state \<Rightarrow> int \<Rightarrow> string option" where
  "oraclePriceByIndex o' i = map_option oi_PriceRaw (find (\<lambda>p. oi_Index p = i) (os_Prices o'))"

section \<open>The schema\<close>

definition tableOracle :: string where "tableOracle = ''blend_oracle_config''"
definition tableOraclePrice :: string where "tableOraclePrice = ''blend_oracle_price''"
definition tablePool :: string where "tablePool = ''blend_pool_config''"
definition tableReserve :: string where "tableReserve = ''blend_reserve_config''"

definition factorScaleExpr :: string where "factorScaleExpr = ''1e7''"

text \<open>SQL texts: a quoted string, a member of the payload as text, and the same or NULL when it is empty.\<close>

definition sql_quote :: "string \<Rightarrow> string" where
  "sql_quote s = [CHR 0x27] @ s @ [CHR 0x27]"

definition sql_text :: "string \<Rightarrow> string" where
  "sql_text name = ''payload->>'' @ sql_quote name"

definition sql_nullif :: "string \<Rightarrow> string \<Rightarrow> string" where
  "sql_nullif name kind = ''NULLIF('' @ sql_text name @ '','' @ sql_quote '''' @ '')::'' @ kind"

definition text_column :: "string \<Rightarrow> string \<Rightarrow> config_generated_column" where
  "text_column name member = \<lparr>cg_Name = name, cg_SQLType = ''text'', cg_Expr = sql_text member\<rparr>"

definition typed_column :: "string \<Rightarrow> string \<Rightarrow> string \<Rightarrow> config_generated_column" where
  "typed_column name kind member = \<lparr>cg_Name = name, cg_SQLType = kind, cg_Expr = sql_nullif member kind\<rparr>"

definition factor_column :: "string \<Rightarrow> string \<Rightarrow> config_generated_column" where
  "factor_column name member = \<lparr>cg_Name = name, cg_SQLType = ''numeric'', cg_Expr = sql_nullif member ''numeric'' @ '' / '' @ factorScaleExpr\<rparr>"

definition assets_member :: string where
  "assets_member = ''payload->'' @ sql_quote ''assets''"

definition assets_array :: string where
  "assets_array = ''jsonb_typeof('' @ assets_member @ '')''"

fun sql_lines :: "string list \<Rightarrow> string" where
  "sql_lines [] = ''''"
| "sql_lines [l] = l"
| "sql_lines (l # ls) = l @ CHR 0x0A # sql_lines ls"

definition oracle_asset_view :: config_view where
  "oracle_asset_view = \<lparr>cv_Name = ''blend_oracle_asset'', cv_Body = sql_lines
     [''SELECT entity_key AS oracle_id, ledger, removed,'',
      ''       (asset->>'' @ sql_quote ''asset_id'' @ '') AS asset_id,'',
      ''       NULLIF(asset->>'' @ sql_quote ''index'' @ '','' @ sql_quote '''' @ '')::int AS asset_index'',
      ''FROM blend_oracle_config'',
      ''CROSS JOIN LATERAL jsonb_array_elements('',
      ''  CASE WHEN '' @ assets_array @ ''='' @ sql_quote ''array'' @ '' THEN '' @ assets_member @ '' ELSE '' @ sql_quote ''[]'' @ ''::jsonb END'',
      '') AS asset'']\<rparr>"

definition oracle_price_view :: config_view where
  "oracle_price_view = \<lparr>cv_Name = ''blend_oracle_price_scaled'', cv_Body = sql_lines
     [''SELECT p.oracle_id, p.asset_index, p.ledger, p.removed, p.price_raw,'',
      ''       CASE WHEN o.decimals IS NULL THEN NULL'',
      ''            ELSE p.price_raw / power(10::numeric, o.decimals) END AS price_scaled'',
      ''FROM blend_oracle_price p'',
      ''LEFT JOIN LATERAL ('',
      ''    SELECT decimals FROM blend_oracle_config c'',
      ''    WHERE c.entity_key = p.oracle_id AND c.ledger <= p.ledger AND NOT c.removed'',
      ''    ORDER BY c.ledger DESC LIMIT 1'',
      '') o ON true'']\<rparr>"

definition oracle_table :: config_table_schema where
  "oracle_table = \<lparr>cs_Kind = kindOracle, cs_Table = tableOracle,
     cs_Generated = [typed_column ''decimals'' ''int'' ''decimals'',
       \<lparr>cg_Name = ''asset_count'', cg_SQLType = ''int'', cg_Expr = ''CASE WHEN '' @ assets_array @ '' = '' @ sql_quote ''array''
          @ '' THEN jsonb_array_length('' @ assets_member @ '') ELSE 0 END''\<rparr>],
     cs_Indexes = [\<lparr>ci_Name = ''idx_blend_oracle_config_decimals'', ci_Columns = [''decimals'']\<rparr>],
     cs_Views = [oracle_asset_view]\<rparr>"

definition oracle_price_table :: config_table_schema where
  "oracle_price_table = \<lparr>cs_Kind = kindOraclePrice, cs_Table = tableOraclePrice,
     cs_Generated = [text_column ''oracle_id'' ''oracle_id'', typed_column ''asset_index'' ''int'' ''asset_index'',
       typed_column ''price_raw'' ''numeric'' ''price_raw''],
     cs_Indexes = [\<lparr>ci_Name = ''idx_blend_oracle_price_oracle'', ci_Columns = [''oracle_id'']\<rparr>,
       \<lparr>ci_Name = ''idx_blend_oracle_price_index'', ci_Columns = [''oracle_id'', ''asset_index'']\<rparr>],
     cs_Views = [oracle_price_view]\<rparr>"

definition pool_table :: config_table_schema where
  "pool_table = \<lparr>cs_Kind = kindPool, cs_Table = tablePool,
     cs_Generated = [text_column ''status'' ''status'', factor_column ''backstop_take_rate'' ''take_rate'',
       text_column ''oracle_ref'' ''oracle'', text_column ''backstop_ref'' ''backstop''],
     cs_Indexes = [\<lparr>ci_Name = ''idx_blend_pool_config_status'', ci_Columns = [''status'']\<rparr>,
       \<lparr>ci_Name = ''idx_blend_pool_config_oracle_ref'', ci_Columns = [''oracle_ref'']\<rparr>],
     cs_Views = []\<rparr>"

definition reserve_table :: config_table_schema where
  "reserve_table = \<lparr>cs_Kind = kindReserve, cs_Table = tableReserve,
     cs_Generated = [text_column ''pool_id'' ''pool_id'', text_column ''asset_id'' ''asset_id'',
       typed_column ''reserve_index'' ''int'' ''index'',
       factor_column ''c_factor'' ''c_factor'', factor_column ''l_factor'' ''l_factor'',
       factor_column ''util_target'' ''util_target'', factor_column ''max_util'' ''max_util'',
       factor_column ''r_base'' ''r_base'', factor_column ''r_one'' ''r_one'', factor_column ''r_two'' ''r_two'',
       factor_column ''r_three'' ''r_three'', typed_column ''supply_cap'' ''numeric'' ''supply_cap'',
       factor_column ''reactivity'' ''reactivity'', typed_column ''enabled'' ''boolean'' ''enabled'',
       typed_column ''supply_emis_eps'' ''numeric'' ''supply_emis_eps'',
       typed_column ''supply_emis_expiration'' ''bigint'' ''supply_emis_expiration'',
       typed_column ''borrow_emis_eps'' ''numeric'' ''borrow_emis_eps'',
       typed_column ''borrow_emis_expiration'' ''bigint'' ''borrow_emis_expiration''],
     cs_Indexes = [\<lparr>ci_Name = ''idx_blend_reserve_config_pool'', ci_Columns = [''pool_id'']\<rparr>,
       \<lparr>ci_Name = ''idx_blend_reserve_config_asset'', ci_Columns = [''asset_id'']\<rparr>,
       \<lparr>ci_Name = ''idx_blend_reserve_config_enabled'', ci_Columns = [''enabled'']\<rparr>],
     cs_Views = []\<rparr>"

definition bl_ConfigSchema :: "config_table_schema list" where
  "bl_ConfigSchema = [oracle_table, oracle_price_table, pool_table, reserve_table]"

section \<open>The records of a ledger\<close>

text \<open>The entities whose keys changed; the flag says whether the last change of the key removed it.\<close>

record config_dirty =
  cd_oracle :: "(string, bool) gmap"
  cd_pool :: "(string, bool) gmap"
  cd_aggregator :: "(string, bool) gmap"
  cd_feed :: "(string, bool) gmap"
  cd_reserve :: "(string \<times> string, bool) gmap"
  cd_price :: "(string \<times> int, bool) gmap"

definition no_config_dirty :: config_dirty where
  "no_config_dirty = \<lparr>cd_oracle = [], cd_pool = [], cd_aggregator = [], cd_feed = [], cd_reserve = [], cd_price = []\<rparr>"

definition configChangeLive :: "contract_data_change \<Rightarrow> int \<Rightarrow> bool" where
  "configChangeLive ch ledgerSeq \<longleftrightarrow>
     (if \<not> cd_Live ch \<or> cd_ValueXDR ch = None then False
      else case cd_LiveUntilLedgerSeq ch of None \<Rightarrow> True | Some l \<Rightarrow> \<not> l < ledgerSeq)"

definition mark_instance :: "ledger_state \<Rightarrow> string \<Rightarrow> bool \<Rightarrow> config_dirty \<Rightarrow> config_dirty" where
  "mark_instance next cid removed d =
     (if index_by pf_ContractID (ls_PriceFeeds next) cid \<noteq> None then d\<lparr>cd_feed := gm_set cid removed (cd_feed d)\<rparr>
      else if index_by og_ContractID (ls_OracleAggregators next) cid \<noteq> None then d\<lparr>cd_aggregator := gm_set cid removed (cd_aggregator d)\<rparr>
      else if index_by os_ContractID (ls_Oracles next) cid \<noteq> None then d\<lparr>cd_oracle := gm_set cid removed (cd_oracle d)\<rparr>
      else if index_by bp_ContractID (ls_Pools next) cid \<noteq> None then d\<lparr>cd_pool := gm_set cid removed (cd_pool d)\<rparr>
      else d)"

definition mark_price :: "ledger_state \<Rightarrow> string \<Rightarrow> scval \<Rightarrow> bool \<Rightarrow> config_dirty \<Rightarrow> config_dirty" where
  "mark_price next cid key removed d =
     (if index_by os_ContractID (ls_Oracles next) cid = None then d
      else (case scInt64 key of
          None \<Rightarrow> d | Some i \<Rightarrow> if 0 \<le> i then d\<lparr>cd_price := gm_set (cid, i) removed (cd_price d)\<rparr> else d))"

definition mark_variant :: "sdk \<Rightarrow> ledger_state \<Rightarrow> string \<Rightarrow> string \<Rightarrow> scval list \<Rightarrow> bool \<Rightarrow> config_dirty \<Rightarrow> config_dirty" where
  "mark_variant S next cid variant args removed d =
     (if variant = ''ResConfig'' then
        (case variantAddress S args of None \<Rightarrow> d | Some asset \<Rightarrow> d\<lparr>cd_reserve := gm_set (cid, asset) removed (cd_reserve d)\<rparr>)
      else if variant = ''EmisConfig'' then
        (case (variantU32 args, index_by bp_ContractID (ls_Pools next) cid) of
           (Some token, Some pool) \<Rightarrow>
             (case config_reserve pool (token div 2) of
                None \<Rightarrow> d | Some r \<Rightarrow> d\<lparr>cd_reserve := gm_set (cid, rs_AssetID r) False (cd_reserve d)\<rparr>)
         | _ \<Rightarrow> d)
      else d)"

definition mark_change :: "sdk \<Rightarrow> ledger_state \<Rightarrow> int \<Rightarrow> contract_data_change \<Rightarrow> config_dirty \<Rightarrow> config_dirty" where
  "mark_change S next ledgerSeq ch d =
     (case decodeScValBase64 S (cd_KeyXDR ch) of
        None \<Rightarrow> d
      | Some key \<Rightarrow>
          (let removed = \<not> configChangeLive ch ledgerSeq; cid = cd_ContractID ch in
           if key = ScKeyInstance then mark_instance next cid removed d
           else if isOraclePriceKey key then mark_price next cid key removed d
           else (case scSymbol key of
               Some symb \<Rightarrow> if symb = ''Config'' \<or> symb = ''ResList'' then d\<lparr>cd_pool := gm_set cid removed (cd_pool d)\<rparr> else d
             | None \<Rightarrow> (case scVariant key of
                   None \<Rightarrow> d | Some (variant, args) \<Rightarrow> mark_variant S next cid variant args removed d))))"

definition config_tombstone :: "string \<Rightarrow> string \<Rightarrow> int \<Rightarrow> config_record" where
  "config_tombstone kind key ledger = zero_config_record\<lparr>cr_Kind := kind, cr_EntityKey := key, cr_Ledger := ledger, cr_Removed := True\<rparr>"

definition upsert :: "string \<Rightarrow> string \<Rightarrow> int \<Rightarrow> string \<Rightarrow> config_record" where
  "upsert kind key ledger payload = zero_config_record\<lparr>cr_Kind := kind, cr_EntityKey := key, cr_Ledger := ledger, cr_Payload := payload\<rparr>"

text \<open>The record of one entity: a tombstone, or its payload if it is there.\<close>

definition entity_record :: "string \<Rightarrow> int \<Rightarrow> ('k \<Rightarrow> string) \<Rightarrow> ('k \<Rightarrow> string option) \<Rightarrow> 'k \<times> bool \<Rightarrow> config_record option" where
  "entity_record kind ledger key payload e =
     (case e of (k, removed) \<Rightarrow>
        if removed then Some (config_tombstone kind (key k) ledger) else map_option (upsert kind (key k) ledger) (payload k))"

definition reserve_payload :: "ledger_state \<Rightarrow> string \<times> string \<Rightarrow> string option" where
  "reserve_payload next ref = Option.bind (index_by bp_ContractID (ls_Pools next) (fst ref))
     (\<lambda>pool. map_option (marshalReserveBody (fst ref)) (reserveByAsset pool (snd ref)))"

definition price_payload :: "ledger_state \<Rightarrow> string \<times> int \<Rightarrow> string option" where
  "price_payload next ref = Option.bind (index_by os_ContractID (ls_Oracles next) (fst ref))
     (\<lambda>o'. map_option (\<lambda>raw. mustMarshal (oracle_price_text \<lparr>pb_oracle_id = fst ref, pb_asset_index = snd ref, pb_price_raw = raw\<rparr>))
       (oraclePriceByIndex o' (snd ref)))"

definition config_marks :: "sdk \<Rightarrow> ledger_state \<Rightarrow> contract_data_change list \<Rightarrow> int \<Rightarrow> config_dirty" where
  "config_marks S next changes ledgerSeq = run (mark_change S next ledgerSeq) changes no_config_dirty"

definition dirty_records :: "ledger_state \<Rightarrow> int \<Rightarrow> config_dirty \<Rightarrow> config_record list" where
  "dirty_records next seq d =
     List.map_filter (entity_record kindOracle seq id (\<lambda>k. map_option marshalAggregatorBody (index_by og_ContractID (ls_OracleAggregators next) k))) (cd_aggregator d)
     @ List.map_filter (entity_record kindOracle seq id (\<lambda>k. map_option marshalFeedBody (index_by pf_ContractID (ls_PriceFeeds next) k))) (cd_feed d)
     @ List.map_filter (entity_record kindOracle seq id (\<lambda>k. map_option marshalOracleBody (index_by os_ContractID (ls_Oracles next) k))) (cd_oracle d)
     @ List.map_filter (entity_record kindPool seq id (\<lambda>k. map_option marshalPoolBody (index_by bp_ContractID (ls_Pools next) k))) (cd_pool d)
     @ List.map_filter (entity_record kindReserve seq (\<lambda>(pool, asset). pool @ ''|'' @ asset) (reserve_payload next)) (cd_reserve d)
     @ List.map_filter (entity_record kindOraclePrice seq (\<lambda>(oracle, i). oracle @ ''|'' @ show_int i) (price_payload next)) (cd_price d)"

definition bl_ConfigRecords :: "sdk \<Rightarrow> ledger_state option \<Rightarrow> contract_data_change list \<Rightarrow> int \<Rightarrow> config_record list" where
  "bl_ConfigRecords S next changes ledgerSeq =
     (let st = (case next of None \<Rightarrow> zero_ledger_state | Some st \<Rightarrow> st)
      in sort_key (\<lambda>r. (cr_Kind r, cr_EntityKey r)) (dirty_records st (to_uint32 ledgerSeq) (config_marks S st changes ledgerSeq)))"

section \<open>Reading back\<close>

record config_seed =
  sd_pools :: "(string, blend_pool_state) gmap"
  sd_reserves :: "(string, reserve_state list) gmap"
  sd_oracles :: "oracle_state list"
  sd_aggregators :: "oracle_aggregator_state list"
  sd_feeds :: "price_feed_state list"
  sd_prices :: "(string, oracle_index_price list) gmap"

definition no_seed :: config_seed where
  "no_seed = \<lparr>sd_pools = [], sd_reserves = [], sd_oracles = [], sd_aggregators = [], sd_feeds = [], sd_prices = []\<rparr>"

definition listed :: "('k, 'v list) gmap \<Rightarrow> 'k \<Rightarrow> 'v list" where
  "listed m k = (case gm_get m k of None \<Rightarrow> [] | Some vs \<Rightarrow> vs)"

definition gm_append :: "'k \<Rightarrow> 'v \<Rightarrow> ('k, 'v list) gmap \<Rightarrow> ('k, 'v list) gmap" where
  "gm_append k v m = gm_set k (listed m k @ [v]) m"

definition hydrateAggregator :: "string \<Rightarrow> oracle_config_body \<Rightarrow> aggregator_config_body \<Rightarrow> oracle_aggregator_state" where
  "hydrateAggregator cid b a = \<lparr>og_ContractID = cid, og_Decimals = oc_decimals b, og_MaxAgeS = qc_max_age_s a, og_BaseKey = qc_base_key a,
     og_BaseAssets = elements (qc_base_assets a),
     og_Feeds = map (\<lambda>f. \<lparr>gf_Index = gb_index f, gf_ContractID = gb_contract_id f, gf_Decimals = gb_decimals f,
       gf_ResolutionS = gb_resolution_s f\<rparr>) (elements (qc_feeds a)),
     og_Assets = map (\<lambda>x. \<lparr>ga_AssetID = hb_asset_id x, ga_FeedAssetKey = hb_feed_asset_key x, ga_OracleIndex = hb_oracle_index x,
       ga_MaxDev = hb_max_dev x\<rparr>) (elements (qc_assets_cfg a))\<rparr>"

definition hydrateFeed :: "string \<Rightarrow> oracle_config_body \<Rightarrow> feed_config_body \<Rightarrow> price_feed_state" where
  "hydrateFeed cid b f = \<lparr>pf_ContractID = cid, pf_Decimals = oc_decimals b, pf_LastRoundMs = fc_last_round_ms f,
     pf_Assets = map (\<lambda>a. \<lparr>fa_AssetKey = xb_asset_id a, fa_Index = xb_index a\<rparr>) (elements (oc_assets b)),
     pf_Rounds = map (\<lambda>r. \<lparr>fr_TimestampMs = rb_timestamp_ms r,
       fr_Prices = map (\<lambda>p. \<lparr>fp_Index = rb_index p, fp_PriceRaw = rb_price_raw p\<rparr>) (elements (rb_prices r))\<rparr>) (elements (fc_rounds f))\<rparr>"

definition hydrate_oracle :: "string \<Rightarrow> oracle_config_body \<Rightarrow> oracle_state" where
  "hydrate_oracle cid b = zero_oracle_state\<lparr>os_ContractID := cid, os_Decimals := oc_decimals b,
     os_Assets := map (\<lambda>a. \<lparr>oa_AssetID = xb_asset_id a, oa_Index = xb_index a\<rparr>) (elements (oc_assets b))\<rparr>"

definition hydrate_pool :: "string \<Rightarrow> pool_config_body \<Rightarrow> blend_pool_state" where
  "hydrate_pool cid b = zero_blend_pool_state\<lparr>bp_ContractID := cid, bp_OracleContract := refOrEmpty (pc_oracle b),
     bp_BackstopContract := refOrEmpty (pc_backstop b), bp_PoolStatus := pc_status b, bp_BackstopTakeRate := pc_take_rate b,
     bp_WasmHash := pc_wasm_hash b\<rparr>"

definition hydrate_reserve :: "reserve_config_body \<Rightarrow> reserve_state" where
  "hydrate_reserve b = zero_reserve_state\<lparr>rs_ReserveIndex := rc_index b, rs_ReserveIndexKnown := True, rs_AssetID := rc_asset_id b,
     rs_AssetDecimals := rc_decimals b, rs_CFactorRaw := rc_c_factor b, rs_LFactorRaw := rc_l_factor b, rs_UtilTargetRaw := rc_util_target b,
     rs_MaxUtilRaw := rc_max_util b, rs_RBaseRaw := rc_r_base b, rs_ROneRaw := rc_r_one b, rs_RTwoRaw := rc_r_two b,
     rs_RThreeRaw := rc_r_three b, rs_SupplyCapRaw := rc_supply_cap b, rs_ReactivityRaw := rc_reactivity b, rs_Enabled := rc_enabled b,
     rs_SupplyEmisEPSRaw := rc_supply_emis_eps b, rs_SupplyEmisExpirationRaw := rc_supply_emis_expiration b,
     rs_BorrowEmisEPSRaw := rc_borrow_emis_eps b, rs_BorrowEmisExpirationRaw := rc_borrow_emis_expiration b\<rparr>"

definition add_oracle :: "string \<Rightarrow> oracle_config_body \<Rightarrow> config_seed \<Rightarrow> config_seed" where
  "add_oracle cid b s =
     (case (oc_aggregator b, oc_feed b) of
        (Some a, _) \<Rightarrow> s\<lparr>sd_aggregators := sd_aggregators s @ [hydrateAggregator cid b a]\<rparr>
      | (None, Some f) \<Rightarrow> s\<lparr>sd_feeds := sd_feeds s @ [hydrateFeed cid b f]\<rparr>
      | (None, None) \<Rightarrow> s\<lparr>sd_oracles := sd_oracles s @ [hydrate_oracle cid b]\<rparr>)"

definition hydrate_record :: "config_record \<Rightarrow> config_seed \<Rightarrow> config_seed option" where
  "hydrate_record r s =
     (if cr_Removed r then Some s
      else if cr_Kind r = kindOracle then
        map_option (\<lambda>b. add_oracle (cr_EntityKey r) b s) (unmarshal (read_struct oracle_config_fields) zero_oracle_config_body (cr_Payload r))
      else if cr_Kind r = kindOraclePrice then
        map_option (\<lambda>b. s\<lparr>sd_prices := gm_append (pb_oracle_id b) \<lparr>oi_Index = pb_asset_index b, oi_PriceRaw = pb_price_raw b\<rparr> (sd_prices s)\<rparr>)
          (unmarshal (read_struct oracle_price_fields) zero_oracle_price_body (cr_Payload r))
      else if cr_Kind r = kindPool then
        map_option (\<lambda>b. s\<lparr>sd_pools := gm_set (cr_EntityKey r) (hydrate_pool (cr_EntityKey r) b) (sd_pools s)\<rparr>)
          (unmarshal (read_struct pool_config_fields) zero_pool_config_body (cr_Payload r))
      else if cr_Kind r = kindReserve then
        map_option (\<lambda>b. s\<lparr>sd_reserves := gm_append (rc_pool_id b) (hydrate_reserve b) (sd_reserves s)\<rparr>)
          (unmarshal (read_struct reserve_config_fields) zero_reserve_config_body (cr_Payload r))
      else Some s)"

text \<open>Pools get their reserves, oracles their prices; what has no pool or oracle is dropped.\<close>

definition seed_state :: "config_seed \<Rightarrow> ledger_state" where
  "seed_state s = zero_ledger_state\<lparr>
     ls_Pools := map (\<lambda>(id, p). p\<lparr>bp_Reserves := sort_key (\<lambda>r. (rs_ReserveIndex r, rs_AssetID r)) (listed (sd_reserves s) id)\<rparr>)
       (sort_key fst (sd_pools s)),
     ls_Oracles := sort_key os_ContractID (map (\<lambda>o'. o'\<lparr>os_Prices := sort_key oi_Index (listed (sd_prices s) (os_ContractID o'))\<rparr>) (sd_oracles s)),
     ls_OracleAggregators := sort_key og_ContractID (sd_aggregators s),
     ls_PriceFeeds := sort_key pf_ContractID (sd_feeds s)\<rparr>"

definition bl_HydrateConfig :: "config_record list \<Rightarrow> ledger_state option" where
  "bl_HydrateConfig rs = map_option seed_state (foldO hydrate_record rs no_seed)"

end
