(* ===== verification/Blend_Restart.thy ===== *)
theory Blend_Restart
  imports Blend_Config Blend_Dirty
begin

text \<open>
  What a restart brings back (src/blend/config_state.go): every payload is read as it was written, and
  the records of the entities of a state are turned into the configuration part of that state.
\<close>

section \<open>Payloads are read as they were written\<close>

definition asset_body_ok :: "oracle_asset_body \<Rightarrow> bool" where
  "asset_body_ok b \<longleftrightarrow> utf8_text (xb_asset_id b) \<and> in_bits 64 (xb_index b)"

definition afeed_body_ok :: "aggregator_feed_body \<Rightarrow> bool" where
  "afeed_body_ok b \<longleftrightarrow> in_bits 64 (gb_index b) \<and> utf8_text (gb_contract_id b) \<and> in_bits 32 (gb_decimals b) \<and> in_bits 64 (gb_resolution_s b)"

lemma field_names:
  "plain_fields oracle_asset_fields"
  "plain_fields aggregator_feed_fields"
  "plain_fields aggregator_asset_fields"
  "plain_fields aggregator_config_fields"
  "plain_fields feed_round_price_fields"
  "plain_fields feed_round_fields"
  "plain_fields feed_config_fields"
  "plain_fields oracle_config_fields"
  "plain_fields oracle_price_fields"
  "plain_fields pool_config_fields"
  "plain_fields reserve_config_fields"
  by (rule plain_ascii_fields, simp_all add: ascii_name_def lower_char_def oracle_asset_fields_def aggregator_feed_fields_def aggregator_asset_fields_def aggregator_config_fields_def feed_round_price_fields_def feed_round_fields_def feed_config_fields_def oracle_config_fields_def oracle_price_fields_def pool_config_fields_def reserve_config_fields_def)+

interpretation asset: json_codec oracle_asset_text "read_struct oracle_asset_fields" zero_oracle_asset_body asset_body_ok 1
  by unfold_locales
    (simp_all add: oracle_asset_text_def asset_body_ok_def utf8_ascii_text read_struct_def oracle_asset_fields_def
      read_member_exact [OF field_names(1) [unfolded oracle_asset_fields_def]] via_def zero_oracle_asset_body_def)

interpretation afeed: json_codec aggregator_feed_text "read_struct aggregator_feed_fields" zero_aggregator_feed_body afeed_body_ok 1
  by unfold_locales
    (simp_all add: aggregator_feed_text_def afeed_body_ok_def utf8_ascii_text read_struct_def aggregator_feed_fields_def
      read_member_exact [OF field_names(2) [unfolded aggregator_feed_fields_def]] via_def zero_aggregator_feed_body_def)

definition aasset_body_ok :: "aggregator_asset_body \<Rightarrow> bool" where
  "aasset_body_ok b \<longleftrightarrow> utf8_text (hb_asset_id b) \<and> utf8_text (hb_feed_asset_key b) \<and> in_bits 64 (hb_oracle_index b) \<and> in_bits 64 (hb_max_dev b)"

interpretation aasset: json_codec aggregator_asset_text "read_struct aggregator_asset_fields" zero_aggregator_asset_body aasset_body_ok 1
  by unfold_locales
    (simp_all add: aggregator_asset_text_def aasset_body_ok_def utf8_ascii_text read_struct_def aggregator_asset_fields_def
      read_member_exact [OF field_names(3) [unfolded aggregator_asset_fields_def]] via_def zero_aggregator_asset_body_def)

interpretation chars: json_codec JStr read_string "''''" utf8_text 0
  by unfold_locales simp_all

text \<open>A slice that is not nil has an element where the empty slice is left out.\<close>

definition filled_ok :: "('a \<Rightarrow> bool) \<Rightarrow> 'a list option \<Rightarrow> bool" where
  "filled_ok ok xs \<longleftrightarrow> list_all ok (elements xs) \<and> xs \<noteq> Some []"

definition aggregator_body_ok :: "aggregator_config_body \<Rightarrow> bool" where
  "aggregator_body_ok b \<longleftrightarrow> in_bits 64 (qc_max_age_s b) \<and> utf8_text (qc_base_key b) \<and> filled_ok utf8_text (qc_base_assets b)
     \<and> filled_ok afeed_body_ok (qc_feeds b) \<and> filled_ok aasset_body_ok (qc_assets_cfg b)"

lemma list_all_weaken: "list_all P xs \<Longrightarrow> (\<And>x. P x \<Longrightarrow> Q x) \<Longrightarrow> list_all Q xs"
  by (simp add: list_all_iff)

interpretation aggregator: json_codec aggregator_config_text "read_struct aggregator_config_fields" zero_aggregator_config_body aggregator_body_ok 3
proof
  fix b
  assume ok: "aggregator_body_ok b"
  let ?scalars = "[(''max_age_s'', text_int (qc_max_age_s b)), (''base_key'', JStr (qc_base_key b))]"
  have members: "list_all (\<lambda>m. utf8_text (fst m) \<and> json_clean (snd m) \<and> json_depth (snd m) \<le> 2)
      (?scalars @ text_filled ''base_assets'' JStr (qc_base_assets b) @ text_filled ''feeds'' aggregator_feed_text (qc_feeds b)
       @ text_filled ''assets_cfg'' aggregator_asset_text (qc_assets_cfg b))"
    using ok list_all_weaken [OF chars.filled_clean, of "qc_base_assets b" "''base_assets''"] afeed.filled_clean [of "qc_feeds b" "''feeds''"]
      aasset.filled_clean [of "qc_assets_cfg b" "''assets_cfg''"]
    by (simp add: aggregator_body_ok_def filled_ok_def utf8_ascii_text numeral_2_eq_2)
  then show "json_clean (aggregator_config_text b)" "json_depth (aggregator_config_text b) \<le> 3"
    using object_clean [OF members] by (simp_all add: aggregator_config_text_def)
  show "read_struct aggregator_config_fields (aggregator_config_text b) zero_aggregator_config_body = Some b"
    using ok unfolding aggregator_body_ok_def filled_ok_def
    by (cases b) (simp add: aggregator_config_text_def read_struct_def foldO_append zero_aggregator_config_body_def
      read_member_exact [OF field_names(4) [unfolded aggregator_config_fields_def]] aggregator_config_fields_def via_def
      chars.filled_member [OF field_names(4) [unfolded aggregator_config_fields_def]] afeed.filled_member [OF field_names(4) [unfolded aggregator_config_fields_def]] aasset.filled_member [OF field_names(4) [unfolded aggregator_config_fields_def]])
qed (simp add: aggregator_config_text_def)

definition price_body_ok :: "feed_round_price_body \<Rightarrow> bool" where
  "price_body_ok b \<longleftrightarrow> in_bits 64 (rb_index b) \<and> utf8_text (rb_price_raw b)"

interpretation rprice: json_codec feed_round_price_text "read_struct feed_round_price_fields" zero_feed_round_price_body price_body_ok 1
  by unfold_locales
    (simp_all add: feed_round_price_text_def price_body_ok_def utf8_ascii_text read_struct_def feed_round_price_fields_def
      read_member_exact [OF field_names(5) [unfolded feed_round_price_fields_def]] via_def zero_feed_round_price_body_def)

definition round_body_ok :: "feed_round_body \<Rightarrow> bool" where
  "round_body_ok b \<longleftrightarrow> in_bits 64 (rb_timestamp_ms b) \<and> list_all price_body_ok (elements (rb_prices b))"

interpretation round: json_codec feed_round_text "read_struct feed_round_fields" zero_feed_round_body round_body_ok 3
proof
  fix b
  assume ok: "round_body_ok b"
  then have members: "list_all (\<lambda>m. utf8_text (fst m) \<and> json_clean (snd m) \<and> json_depth (snd m) \<le> 2)
      [(''timestamp_ms'', text_int (rb_timestamp_ms b)), (''prices'', text_slice feed_round_price_text (rb_prices b))]"
    using rprice.slice(1,2) [of "rb_prices b"] by (simp add: round_body_ok_def utf8_ascii_text numeral_2_eq_2)
  then show "json_clean (feed_round_text b)" "json_depth (feed_round_text b) \<le> 3"
    using object_clean [OF members] by (simp_all add: feed_round_text_def)
  show "read_struct feed_round_fields (feed_round_text b) zero_feed_round_body = Some b"
    using ok unfolding round_body_ok_def
    by (cases b) (simp add: feed_round_text_def read_struct_def zero_feed_round_body_def feed_round_fields_def via_def rprice.slice(3)
      read_member_exact [OF field_names(6) [unfolded feed_round_fields_def]])
qed (simp add: feed_round_text_def)

definition feed_body_ok :: "feed_config_body \<Rightarrow> bool" where
  "feed_body_ok b \<longleftrightarrow> in_bits 64 (fc_last_round_ms b) \<and> filled_ok round_body_ok (fc_rounds b)"

interpretation feed: json_codec feed_config_text "read_struct feed_config_fields" zero_feed_config_body feed_body_ok 5
proof
  fix b
  assume ok: "feed_body_ok b"
  then have members: "list_all (\<lambda>m. utf8_text (fst m) \<and> json_clean (snd m) \<and> json_depth (snd m) \<le> 4)
      ([(''last_round_ms'', text_int (fc_last_round_ms b))] @ text_filled ''rounds'' feed_round_text (fc_rounds b))"
    using round.filled_clean [of "fc_rounds b" "''rounds''"] by (simp add: feed_body_ok_def filled_ok_def utf8_ascii_text)
  then show "json_clean (feed_config_text b)" "json_depth (feed_config_text b) \<le> 5"
    using object_clean [OF members] by (simp_all add: feed_config_text_def)
  show "read_struct feed_config_fields (feed_config_text b) zero_feed_config_body = Some b"
    using ok unfolding feed_body_ok_def filled_ok_def
    by (cases b) (simp add: feed_config_text_def read_struct_def foldO_append zero_feed_config_body_def feed_config_fields_def via_def
      read_member_exact [OF field_names(7) [unfolded feed_config_fields_def]]
      round.filled_member [OF field_names(7) [unfolded feed_config_fields_def]])
qed (simp add: feed_config_text_def)

definition oracle_body_ok :: "oracle_config_body \<Rightarrow> bool" where
  "oracle_body_ok b \<longleftrightarrow> in_bits 32 (oc_decimals b) \<and> list_all asset_body_ok (elements (oc_assets b))
     \<and> (case oc_aggregator b of None \<Rightarrow> True | Some a \<Rightarrow> aggregator_body_ok a)
     \<and> (case oc_feed b of None \<Rightarrow> True | Some f \<Rightarrow> feed_body_ok f)"

interpretation oconfig: json_codec oracle_config_text "read_struct oracle_config_fields" zero_oracle_config_body oracle_body_ok 6
proof
  fix b
  assume ok: "oracle_body_ok b"
  then have parts: "\<And>a. oc_aggregator b = Some a \<Longrightarrow> aggregator_body_ok a" "\<And>f. oc_feed b = Some f \<Longrightarrow> feed_body_ok f"
    "list_all asset_body_ok (elements (oc_assets b))" by (simp_all add: oracle_body_ok_def)
  have members: "list_all (\<lambda>m. utf8_text (fst m) \<and> json_clean (snd m) \<and> json_depth (snd m) \<le> 5)
      ([(''decimals'', text_int (oc_decimals b)), (''assets'', text_slice oracle_asset_text (oc_assets b))]
       @ text_present ''aggregator'' aggregator_config_text (oc_aggregator b) @ text_present ''feed'' feed_config_text (oc_feed b))"
    using asset.slice(1,2) [OF parts(3)] list_all_weaken [OF aggregator.present_clean [of "oc_aggregator b" "''aggregator''"],
      of "\<lambda>m. utf8_text (fst m) \<and> json_clean (snd m) \<and> json_depth (snd m) \<le> 5"] feed.present_clean [of "oc_feed b" "''feed''"] parts
    by (simp add: utf8_ascii_text)
  then show "json_clean (oracle_config_text b)" "json_depth (oracle_config_text b) \<le> 6"
    using object_clean [OF members] by (simp_all add: oracle_config_text_def split: option.split)
  show "read_struct oracle_config_fields (oracle_config_text b) zero_oracle_config_body = Some b"
    using ok parts
    by (cases b) (simp add: oracle_body_ok_def oracle_config_text_def read_struct_def foldO_append zero_oracle_config_body_def oracle_config_fields_def via_def
      asset.slice(3) read_member_exact [OF field_names(8) [unfolded oracle_config_fields_def]]
      aggregator.present_member [OF field_names(8) [unfolded oracle_config_fields_def]]
      feed.present_member [OF field_names(8) [unfolded oracle_config_fields_def]])
qed (simp add: oracle_config_text_def)

definition oprice_body_ok :: "oracle_price_body \<Rightarrow> bool" where
  "oprice_body_ok b \<longleftrightarrow> utf8_text (pb_oracle_id b) \<and> in_bits 64 (pb_asset_index b) \<and> utf8_text (pb_price_raw b)"

interpretation oprice: json_codec oracle_price_text "read_struct oracle_price_fields" zero_oracle_price_body oprice_body_ok 1
  by unfold_locales
    (simp_all add: oracle_price_text_def oprice_body_ok_def utf8_ascii_text read_struct_def oracle_price_fields_def
      read_member_exact [OF field_names(9) [unfolded oracle_price_fields_def]] via_def zero_oracle_price_body_def)

definition ref_ok :: "string option \<Rightarrow> bool" where
  "ref_ok ref \<longleftrightarrow> (case ref of None \<Rightarrow> True | Some s \<Rightarrow> utf8_text s)"

lemma text_ref:
  "ref_ok ref \<Longrightarrow> json_clean (text_ref ref)" "json_depth (text_ref ref) = 0" "read_pointer read_string '''' (text_ref ref) None = Some ref"
  by (auto simp: ref_ok_def text_ref_def read_pointer_def split: option.split)

definition pool_body_ok :: "pool_config_body \<Rightarrow> bool" where
  "pool_body_ok b \<longleftrightarrow> ref_ok (pc_oracle b) \<and> ref_ok (pc_backstop b) \<and> utf8_text (pc_status b) \<and> utf8_text (pc_take_rate b) \<and> utf8_text (pc_wasm_hash b)"

interpretation pool: json_codec pool_config_text "read_struct pool_config_fields" zero_pool_config_body pool_body_ok 1
  by unfold_locales
    (simp_all add: pool_config_text_def pool_body_ok_def utf8_ascii_text read_struct_def pool_config_fields_def text_ref
      read_member_exact [OF field_names(10) [unfolded pool_config_fields_def]] via_def zero_pool_config_body_def)

definition reserve_body_ok :: "reserve_config_body \<Rightarrow> bool" where
  "reserve_body_ok b \<longleftrightarrow> list_all utf8_text [rc_pool_id b, rc_asset_id b, rc_c_factor b, rc_l_factor b, rc_util_target b, rc_max_util b,
     rc_r_base b, rc_r_one b, rc_r_two b, rc_r_three b, rc_supply_cap b, rc_reactivity b, rc_supply_emis_eps b, rc_supply_emis_expiration b,
     rc_borrow_emis_eps b, rc_borrow_emis_expiration b] \<and> in_bits 32 (rc_index b) \<and> in_bits 32 (rc_decimals b)"

interpretation reserve: json_codec reserve_config_text "read_struct reserve_config_fields" zero_reserve_config_body reserve_body_ok 1
  by unfold_locales
    (simp_all add: reserve_config_text_def reserve_body_ok_def utf8_ascii_text read_struct_def reserve_config_fields_def
      read_member_exact [OF field_names(11) [unfolded reserve_config_fields_def]] via_def zero_reserve_config_body_def)

section \<open>The configuration part of a state\<close>

text \<open>What the payload of a reserve says of it; the index of a stored reserve counts as known.\<close>

definition seeded_reserve :: "reserve_state \<Rightarrow> reserve_state" where
  "seeded_reserve r = zero_reserve_state\<lparr>rs_ReserveIndex := rs_ReserveIndex r, rs_ReserveIndexKnown := True, rs_AssetID := rs_AssetID r,
     rs_AssetDecimals := rs_AssetDecimals r, rs_CFactorRaw := rs_CFactorRaw r, rs_LFactorRaw := rs_LFactorRaw r,
     rs_UtilTargetRaw := rs_UtilTargetRaw r, rs_MaxUtilRaw := rs_MaxUtilRaw r, rs_RBaseRaw := rs_RBaseRaw r, rs_ROneRaw := rs_ROneRaw r,
     rs_RTwoRaw := rs_RTwoRaw r, rs_RThreeRaw := rs_RThreeRaw r, rs_SupplyCapRaw := rs_SupplyCapRaw r, rs_ReactivityRaw := rs_ReactivityRaw r,
     rs_Enabled := rs_Enabled r, rs_SupplyEmisEPSRaw := rs_SupplyEmisEPSRaw r, rs_SupplyEmisExpirationRaw := rs_SupplyEmisExpirationRaw r,
     rs_BorrowEmisEPSRaw := rs_BorrowEmisEPSRaw r, rs_BorrowEmisExpirationRaw := rs_BorrowEmisExpirationRaw r\<rparr>"

definition seeded_pool :: "blend_pool_state \<Rightarrow> blend_pool_state" where
  "seeded_pool p = zero_blend_pool_state\<lparr>bp_ContractID := bp_ContractID p, bp_OracleContract := bp_OracleContract p,
     bp_BackstopContract := bp_BackstopContract p, bp_PoolStatus := bp_PoolStatus p, bp_BackstopTakeRate := bp_BackstopTakeRate p,
     bp_WasmHash := bp_WasmHash p, bp_Reserves := map seeded_reserve (bp_Reserves p)\<rparr>"

definition seeded_oracle :: "oracle_state \<Rightarrow> oracle_state" where
  "seeded_oracle o' = zero_oracle_state\<lparr>os_ContractID := os_ContractID o', os_Decimals := os_Decimals o', os_Assets := os_Assets o',
     os_Prices := os_Prices o'\<rparr>"

definition config_part :: "ledger_state \<Rightarrow> ledger_state" where
  "config_part st = zero_ledger_state\<lparr>ls_Pools := map seeded_pool (ls_Pools st), ls_Oracles := map seeded_oracle (ls_Oracles st),
     ls_OracleAggregators := ls_OracleAggregators st, ls_PriceFeeds := ls_PriceFeeds st\<rparr>"

text \<open>The entities of a state that have a record, and what the record says.\<close>

datatype config_entity = EPool blend_pool_state | EReserve string reserve_state | EOracle oracle_state
  | EPrice string oracle_index_price | EAggregator oracle_aggregator_state | EFeed price_feed_state

definition config_entities :: "ledger_state \<Rightarrow> config_entity list" where
  "config_entities st = map EPool (ls_Pools st) @ concat (map (\<lambda>p. map (EReserve (bp_ContractID p)) (bp_Reserves p)) (ls_Pools st))
     @ map EOracle (ls_Oracles st) @ concat (map (\<lambda>o'. map (EPrice (os_ContractID o')) (os_Prices o')) (ls_Oracles st))
     @ map EAggregator (ls_OracleAggregators st) @ map EFeed (ls_PriceFeeds st)"

definition price_body :: "string \<Rightarrow> oracle_index_price \<Rightarrow> oracle_price_body" where
  "price_body cid p = \<lparr>pb_oracle_id = cid, pb_asset_index = oi_Index p, pb_price_raw = oi_PriceRaw p\<rparr>"

fun entity_entry :: "config_entity \<Rightarrow> string \<times> string \<times> string" where
  "entity_entry (EPool p) = (kindPool, bp_ContractID p, marshalPoolBody p)"
| "entity_entry (EReserve cid r) = (kindReserve, cid @ ''|'' @ rs_AssetID r, marshalReserveBody cid r)"
| "entity_entry (EOracle o') = (kindOracle, os_ContractID o', marshalOracleBody o')"
| "entity_entry (EPrice cid p) = (kindOraclePrice, cid @ ''|'' @ show_int (oi_Index p), mustMarshal (oracle_price_text (price_body cid p)))"
| "entity_entry (EAggregator a) = (kindOracle, og_ContractID a, marshalAggregatorBody a)"
| "entity_entry (EFeed f) = (kindOracle, pf_ContractID f, marshalFeedBody f)"

text \<open>Texts are UTF-8 and integers fit.\<close>

fun entity_ok :: "config_entity \<Rightarrow> bool" where
  "entity_ok (EPool p) = pool_body_ok (pool_body p)"
| "entity_ok (EReserve cid r) = reserve_body_ok (reserve_body cid r)"
| "entity_ok (EOracle o') = oracle_body_ok (oracle_body o')"
| "entity_ok (EPrice cid p) = oprice_body_ok (price_body cid p)"
| "entity_ok (EAggregator a) = oracle_body_ok (aggregator_body a)"
| "entity_ok (EFeed f) = oracle_body_ok (feed_body f)"

text \<open>The slices are in the order the decoder gives them.\<close>

fun entity_sorted :: "config_entity \<Rightarrow> bool" where
  "entity_sorted (EPool p) = sorted_by (\<lambda>r. (rs_ReserveIndex r, rs_AssetID r)) (bp_Reserves p)"
| "entity_sorted (EOracle o') = (sorted_by (\<lambda>a. (oa_Index a, oa_AssetID a)) (os_Assets o') \<and> sorted_by oi_Index (os_Prices o'))"
| "entity_sorted (EAggregator a) = (sorted_by gf_Index (og_Feeds a) \<and> sorted_by ga_AssetID (og_Assets a))"
| "entity_sorted (EFeed f) = (sorted_by (\<lambda>a. (fa_Index a, fa_AssetKey a)) (pf_Assets f) \<and> sorted_by fr_TimestampMs (pf_Rounds f))"
| "entity_sorted _ = True"

definition config_sorted :: "ledger_state \<Rightarrow> bool" where
  "config_sorted st \<longleftrightarrow> sorted_by bp_ContractID (ls_Pools st) \<and> sorted_by os_ContractID (ls_Oracles st)
     \<and> sorted_by og_ContractID (ls_OracleAggregators st) \<and> sorted_by pf_ContractID (ls_PriceFeeds st)
     \<and> list_all entity_sorted (config_entities st)"

section \<open>One record\<close>

fun entity_effect :: "config_entity \<Rightarrow> config_seed \<Rightarrow> config_seed" where
  "entity_effect (EPool p) s = s\<lparr>sd_pools := gm_set (bp_ContractID p) ((seeded_pool p)\<lparr>bp_Reserves := []\<rparr>) (sd_pools s)\<rparr>"
| "entity_effect (EReserve cid r) s = s\<lparr>sd_reserves := gm_append cid (seeded_reserve r) (sd_reserves s)\<rparr>"
| "entity_effect (EOracle o') s = s\<lparr>sd_oracles := sd_oracles s @ [(seeded_oracle o')\<lparr>os_Prices := []\<rparr>]\<rparr>"
| "entity_effect (EPrice cid p) s = s\<lparr>sd_prices := gm_append cid p (sd_prices s)\<rparr>"
| "entity_effect (EAggregator a) s = s\<lparr>sd_aggregators := sd_aggregators s @ [a]\<rparr>"
| "entity_effect (EFeed f) s = s\<lparr>sd_feeds := sd_feeds s @ [f]\<rparr>"

lemma sorted_by_id: "sorted_by key xs \<Longrightarrow> sort_key key xs = xs"
  by (simp add: sorted_by_def sorted_sort_id sort_key_id_if_sorted)

lemma kinds_differ: "kindOracle \<noteq> kindOraclePrice" "kindOracle \<noteq> kindPool" "kindOracle \<noteq> kindReserve" "kindOraclePrice \<noteq> kindPool"
    "kindOraclePrice \<noteq> kindReserve" "kindPool \<noteq> kindReserve"
  by (simp_all add: kindOracle_def kindOraclePrice_def kindPool_def kindReserve_def)

lemma elements_appended [simp]: "elements (appended xs) = xs"
  by (simp add: elements_def appended_def)

text \<open>A record is made of its fields.\<close>

lemma record_etas:
  "\<lparr>oa_AssetID = oa_AssetID a, oa_Index = oa_Index a\<rparr> = a"
  "\<lparr>oi_Index = oi_Index p, oi_PriceRaw = oi_PriceRaw p\<rparr> = p"
  "\<lparr>gf_Index = gf_Index f, gf_ContractID = gf_ContractID f, gf_Decimals = gf_Decimals f, gf_ResolutionS = gf_ResolutionS f\<rparr> = f"
  "\<lparr>ga_AssetID = ga_AssetID x, ga_FeedAssetKey = ga_FeedAssetKey x, ga_OracleIndex = ga_OracleIndex x, ga_MaxDev = ga_MaxDev x\<rparr> = x"
  "\<lparr>fa_AssetKey = fa_AssetKey y, fa_Index = fa_Index y\<rparr> = y"
  "\<lparr>fp_Index = fp_Index q, fp_PriceRaw = fp_PriceRaw q\<rparr> = q"
  "\<lparr>fr_TimestampMs = fr_TimestampMs r, fr_Prices = fr_Prices r\<rparr> = r"
  "\<lparr>og_ContractID = og_ContractID g, og_Decimals = og_Decimals g, og_MaxAgeS = og_MaxAgeS g, og_BaseKey = og_BaseKey g,
    og_BaseAssets = og_BaseAssets g, og_Feeds = og_Feeds g, og_Assets = og_Assets g\<rparr> = g"
  "\<lparr>pf_ContractID = pf_ContractID h, pf_Decimals = pf_Decimals h, pf_LastRoundMs = pf_LastRoundMs h, pf_Assets = pf_Assets h,
    pf_Rounds = pf_Rounds h\<rparr> = h"
  by simp_all

lemma hydrate_pool_body: "hydrate_pool (bp_ContractID p) (pool_body p) = (seeded_pool p)\<lparr>bp_Reserves := []\<rparr>"
  by (simp add: hydrate_pool_def pool_body_def seeded_pool_def optionalRef_def refOrEmpty_def zero_blend_pool_state_def)

lemma hydrate_reserve_body: "hydrate_reserve (reserve_body cid r) = seeded_reserve r"
  by (simp add: hydrate_reserve_def reserve_body_def seeded_reserve_def)

lemma hydrate_oracle_body:
  "sorted_by (\<lambda>a. (oa_Index a, oa_AssetID a)) (os_Assets o') \<Longrightarrow>
    add_oracle (os_ContractID o') (oracle_body o') s = entity_effect (EOracle o') s"
  by (simp add: add_oracle_def oracle_body_def zero_oracle_config_body_def hydrate_oracle_def seeded_oracle_def zero_oracle_state_def
    elements_def sort_key_mapped comp_def sorted_by_id record_etas)

lemma hydrate_aggregator_body:
  "entity_sorted (EAggregator a) \<Longrightarrow> add_oracle (og_ContractID a) (aggregator_body a) s = entity_effect (EAggregator a) s"
  by (simp add: add_oracle_def aggregator_body_def zero_oracle_config_body_def hydrateAggregator_def sort_key_mapped comp_def sorted_by_id record_etas)

lemma hydrate_feed_body:
  "entity_sorted (EFeed f) \<Longrightarrow> add_oracle (pf_ContractID f) (feed_body f) s = entity_effect (EFeed f) s"
  by (simp add: add_oracle_def feed_body_def zero_oracle_config_body_def hydrateFeed_def sort_key_mapped comp_def sorted_by_id record_etas)

lemma hydrate_entity:
  assumes "entity_ok e" and "entity_sorted e" and "(cr_Kind r, cr_EntityKey r, cr_Payload r) = entity_entry e" and "\<not> cr_Removed r"
  shows "hydrate_record r s = Some (entity_effect e s)"
proof -
  have kinds: "kindOracle \<noteq> kindOraclePrice" "kindOracle \<noteq> kindPool" "kindOracle \<noteq> kindReserve" "kindOraclePrice \<noteq> kindPool"
    "kindOraclePrice \<noteq> kindReserve" "kindPool \<noteq> kindReserve" by (rule kinds_differ)+
  note read = pool.unmarshal_text reserve.unmarshal_text oconfig.unmarshal_text oprice.unmarshal_text
  show ?thesis
  proof (cases e)
    case (EReserve cid x)
    have "rc_pool_id (reserve_body cid x) = cid" by (simp add: reserve_body_def)
    with EReserve show ?thesis
      using assms kinds [symmetric] by (simp add: hydrate_record_def marshalReserveBody_def mustMarshal_def read hydrate_reserve_body)
  next
    case (EOracle o')
    then show ?thesis using assms by (simp add: hydrate_record_def marshalOracleBody_def mustMarshal_def read hydrate_oracle_body)
  next
    case (EAggregator x)
    then show ?thesis
      using assms hydrate_aggregator_body [of x s] by (simp add: hydrate_record_def marshalAggregatorBody_def mustMarshal_def read)
  next
    case (EFeed f)
    then show ?thesis using assms hydrate_feed_body [of f s] by (simp add: hydrate_record_def marshalFeedBody_def mustMarshal_def read)
  qed (use assms kinds [symmetric] in \<open>simp_all add: hydrate_record_def marshalPoolBody_def mustMarshal_def read hydrate_pool_body price_body_def
      record_etas\<close>)
qed

section \<open>All records\<close>

lemma permuted_preimage: "mset ys = mset (map f xs) \<Longrightarrow> \<exists>xs'. mset xs' = mset xs \<and> ys = map f xs'"
proof (induction ys arbitrary: xs)
  case (Cons y ys)
  then have "y \<in> set (map f xs)" by (metis list.set_intros(1) set_mset_mset)
  then obtain x where x: "x \<in> set xs" "y = f x" by auto
  then obtain us vs where xs: "xs = us @ x # vs" by (meson split_list)
  then have "mset ys = mset (map f (us @ vs))" using Cons.prems x(2) by simp
  from Cons.IH [OF this] obtain xs' where "mset xs' = mset (us @ vs)" "ys = map f xs'" by blast
  then show ?case using x(2) xs by (intro exI [of _ "x # xs'"]) simp
qed simp

definition record_entry :: "config_record \<Rightarrow> string \<times> string \<times> string" where
  "record_entry r = (cr_Kind r, cr_EntityKey r, cr_Payload r)"

lemma hydrate_entities:
  assumes "map record_entry (filter (\<lambda>r. \<not> cr_Removed r) rs) = map entity_entry es" and "list_all entity_ok es" and "list_all entity_sorted es"
  shows "foldO hydrate_record rs s = Some (run entity_effect es s)"
  using assms
proof (induction rs arbitrary: es s)
  case (Cons r rs)
  show ?case
  proof (cases "cr_Removed r")
    case True
    then show ?thesis using Cons.IH [of es s] Cons.prems by (simp add: hydrate_record_def)
  next
    case False
    then obtain e es' where es: "es = e # es'" "record_entry r = entity_entry e"
      and rest: "map record_entry (filter (\<lambda>r. \<not> cr_Removed r) rs) = map entity_entry es'"
      using Cons.prems(1) by (cases es) simp_all
    have "hydrate_record r s = Some (entity_effect e s)"
      using hydrate_entity [of e r s] es Cons.prems(2,3) False by (simp add: record_entry_def)
    then show ?thesis using Cons.IH [OF rest, of "entity_effect e s"] Cons.prems(2,3) es(1) by simp
  qed
qed simp

text \<open>The entities of a kind.\<close>

definition entity_pools :: "config_entity list \<Rightarrow> blend_pool_state list" where
  "entity_pools es = List.map_filter (\<lambda>e. case e of EPool p \<Rightarrow> Some p | _ \<Rightarrow> None) es"

definition reserves_of :: "string \<Rightarrow> config_entity list \<Rightarrow> reserve_state list" where
  "reserves_of cid es = List.map_filter (\<lambda>e. case e of EReserve c r \<Rightarrow> if c = cid then Some r else None | _ \<Rightarrow> None) es"

definition oracles_of :: "config_entity list \<Rightarrow> oracle_state list" where
  "oracles_of es = List.map_filter (\<lambda>e. case e of EOracle x \<Rightarrow> Some x | _ \<Rightarrow> None) es"

definition prices_of :: "string \<Rightarrow> config_entity list \<Rightarrow> oracle_index_price list" where
  "prices_of cid es = List.map_filter (\<lambda>e. case e of EPrice c p \<Rightarrow> if c = cid then Some p else None | _ \<Rightarrow> None) es"

definition aggregators_of :: "config_entity list \<Rightarrow> oracle_aggregator_state list" where
  "aggregators_of es = List.map_filter (\<lambda>e. case e of EAggregator a \<Rightarrow> Some a | _ \<Rightarrow> None) es"

definition feeds_of :: "config_entity list \<Rightarrow> price_feed_state list" where
  "feeds_of es = List.map_filter (\<lambda>e. case e of EFeed f \<Rightarrow> Some f | _ \<Rightarrow> None) es"

lemmas of_defs = entity_pools_def reserves_of_def oracles_of_def prices_of_def aggregators_of_def feeds_of_def

lemma listed_append: "listed (gm_append k v m) k' = (if k' = k then listed m k @ [v] else listed m k')"
  by (simp add: listed_def gm_append_def gm_simps)

lemma run_effect:
  "sd_pools (run entity_effect es s) = gm.load bp_ContractID (\<lambda>p. (seeded_pool p)\<lparr>bp_Reserves := []\<rparr>) (entity_pools es) (sd_pools s)"
  "listed (sd_reserves (run entity_effect es s)) cid = listed (sd_reserves s) cid @ map seeded_reserve (reserves_of cid es)"
  "sd_oracles (run entity_effect es s) = sd_oracles s @ map (\<lambda>x. (seeded_oracle x)\<lparr>os_Prices := []\<rparr>) (oracles_of es)"
  "listed (sd_prices (run entity_effect es s)) cid = listed (sd_prices s) cid @ prices_of cid es"
  "sd_aggregators (run entity_effect es s) = sd_aggregators s @ aggregators_of es"
  "sd_feeds (run entity_effect es s) = sd_feeds s @ feeds_of es"
proof (induction es arbitrary: s)
  case (Cons e es)
  case 1 show ?case by (cases e) (simp_all add: Cons.IH of_defs List.map_filter_simps)
  case 2 show ?case by (cases e) (auto simp: Cons.IH of_defs List.map_filter_simps listed_append)
  case 3 show ?case by (cases e) (simp_all add: Cons.IH of_defs List.map_filter_simps)
  case 4 show ?case by (cases e) (auto simp: Cons.IH of_defs List.map_filter_simps listed_append)
  case 5 show ?case by (cases e) (simp_all add: Cons.IH of_defs List.map_filter_simps)
  case 6 show ?case by (cases e) (simp_all add: Cons.IH of_defs List.map_filter_simps)
qed (simp_all add: of_defs List.map_filter_simps)

lemma map_filter_app: "List.map_filter f (xs @ ys) = List.map_filter f xs @ List.map_filter f ys"
  by (simp add: List.map_filter_def)

lemma map_filter_map: "List.map_filter f (map g xs) = List.map_filter (\<lambda>x. f (g x)) xs"
  by (simp add: List.map_filter_def comp_def filter_map)

lemma map_filter_concat: "List.map_filter f (concat xss) = concat (map (List.map_filter f) xss)"
  by (induction xss) (simp_all add: map_filter_app List.map_filter_simps)

lemma map_filter_const: "List.map_filter (\<lambda>x. Some x) xs = xs" "List.map_filter (\<lambda>x. None) xs = []"
  by (simp_all add: List.map_filter_def)

lemma concat_nothing: "concat (map (\<lambda>x. []) xs) = []"
  by (induction xs) simp_all

lemma of_entities:
  "entity_pools (config_entities st) = ls_Pools st" "oracles_of (config_entities st) = ls_Oracles st"
  "aggregators_of (config_entities st) = ls_OracleAggregators st" "feeds_of (config_entities st) = ls_PriceFeeds st"
  "reserves_of cid (config_entities st) = concat (map (\<lambda>p. if bp_ContractID p = cid then bp_Reserves p else []) (ls_Pools st))"
  "prices_of cid (config_entities st) = concat (map (\<lambda>x. if os_ContractID x = cid then os_Prices x else []) (ls_Oracles st))"
proof -
  have pick: "List.map_filter (\<lambda>x. if P then Some x else None) xs = (if P then xs else [])" for P and xs :: "'a list"
    by (simp add: map_filter_const)
  note simps = concat_nothing of_defs config_entities_def map_filter_app map_filter_map map_filter_concat map_filter_const comp_def pick
  show "entity_pools (config_entities st) = ls_Pools st" "oracles_of (config_entities st) = ls_Oracles st"
    "aggregators_of (config_entities st) = ls_OracleAggregators st" "feeds_of (config_entities st) = ls_PriceFeeds st"
    by (simp_all add: simps)
  show "reserves_of cid (config_entities st) = concat (map (\<lambda>p. if bp_ContractID p = cid then bp_Reserves p else []) (ls_Pools st))"
    "prices_of cid (config_entities st) = concat (map (\<lambda>x. if os_ContractID x = cid then os_Prices x else []) (ls_Oracles st))"
    by (auto simp: simps intro!: arg_cong [where f = concat])
qed

lemma load_distinct:
  assumes "distinct (map key xs)" and "\<And>x. x \<in> set xs \<Longrightarrow> key x \<notin> fst ` set m"
  shows "gm.load key f xs m = m @ map (\<lambda>x. (key x, f x)) xs"
proof -
  have append: "k \<notin> fst ` set m \<Longrightarrow> gm_set k v m = m @ [(k, v)]" for k :: 'k and v :: 'v and m
    unfolding gm_set_def by (induction m) auto
  have "\<forall>x\<in>set xs. key x \<notin> fst ` set m \<Longrightarrow> distinct (map key xs) \<Longrightarrow> ?thesis"
  proof (induction xs arbitrary: m)
    case (Cons x xs)
    moreover have "\<forall>y\<in>set xs. key y \<noteq> key x" using Cons.prems(2) by simp (metis image_eqI)
    ultimately have "gm.load key f xs (m @ [(key x, f x)]) = (m @ [(key x, f x)]) @ map (\<lambda>x. (key x, f x)) xs"
      by (intro Cons.IH) (auto simp: image_iff)
    then show ?case using Cons.prems(1) by (simp add: append)
  qed simp
  then show ?thesis using assms by blast
qed

lemma concat_of_key:
  assumes "distinct (map key xs)" and "x \<in> set xs"
  shows "concat (map (\<lambda>y. if key y = key x then f y else []) xs) = f x"
proof -
  have nil: "concat (map (\<lambda>y. if key y = k then f y else []) ys) = []" if "k \<notin> key ` set ys" for k ys
    using that by (induction ys) auto
  obtain us vs where xs: "xs = us @ x # vs" using assms(2) by (meson split_list)
  then have "key x \<notin> key ` set us" "key x \<notin> key ` set vs" using assms(1) by auto
  then show ?thesis by (simp add: xs nil)
qed

lemma mset_of:
  assumes "mset es = mset es'"
  shows "mset (entity_pools es) = mset (entity_pools es')" "mset (reserves_of cid es) = mset (reserves_of cid es')"
    "mset (oracles_of es) = mset (oracles_of es')" "mset (prices_of cid es) = mset (prices_of cid es')"
    "mset (aggregators_of es) = mset (aggregators_of es')" "mset (feeds_of es) = mset (feeds_of es')"
proof -
  show "mset (entity_pools es) = mset (entity_pools es')" "mset (reserves_of cid es) = mset (reserves_of cid es')"
    "mset (oracles_of es) = mset (oracles_of es')" "mset (prices_of cid es) = mset (prices_of cid es')"
    "mset (aggregators_of es) = mset (aggregators_of es')" "mset (feeds_of es) = mset (feeds_of es')"
    using assms by (simp_all add: of_defs List.map_filter_def mset_map mset_filter)
qed

lemma sorted_by_distinct: "sorted_by key xs \<Longrightarrow> distinct (map key xs)"
  by (simp add: sorted_by_def strict_sorted_iff)

lemma permuted_sort: "mset xs = mset ys \<Longrightarrow> sorted_by key ys \<Longrightarrow> sort_key key xs = ys"
  by (metis sort_key_order_free sorted_by_distinct sorted_by_id)

lemma no_seed_empty: "listed (sd_reserves no_seed) cid = []" "listed (sd_prices no_seed) cid = []"
  by (simp_all add: no_seed_def listed_def gm.get_nil)

lemma seed_of_entities:
  assumes "config_sorted st" and "mset es = mset (config_entities st)"
  shows "seed_state (run entity_effect es no_seed) = config_part st"
proof -
  let ?s = "run entity_effect es no_seed"
  note perm = mset_of [OF assms(2), unfolded of_entities]
  have sorted: "sorted_by bp_ContractID (ls_Pools st)" "sorted_by os_ContractID (ls_Oracles st)"
    "sorted_by og_ContractID (ls_OracleAggregators st)" "sorted_by pf_ContractID (ls_PriceFeeds st)"
    using assms(1) by (simp_all add: config_sorted_def)
  have inner: "sorted_by (\<lambda>r. (rs_ReserveIndex r, rs_AssetID r)) (bp_Reserves p)" if "p \<in> set (ls_Pools st)" for p
  proof -
    have "EPool p \<in> set (config_entities st)" using that by (simp add: config_entities_def)
    with assms(1) show ?thesis by (fastforce simp: config_sorted_def list_all_iff)
  qed
  have inner': "sorted_by oi_Index (os_Prices x)" if "x \<in> set (ls_Oracles st)" for x
  proof -
    have "EOracle x \<in> set (config_entities st)" using that by (simp add: config_entities_def)
    with assms(1) show ?thesis by (fastforce simp: config_sorted_def list_all_iff)
  qed
  have reserves: "sort_key (\<lambda>r. (rs_ReserveIndex r, rs_AssetID r)) (listed (sd_reserves ?s) (bp_ContractID p)) = map seeded_reserve (bp_Reserves p)"
    if p: "p \<in> set (ls_Pools st)" for p
  proof -
    have "mset (reserves_of (bp_ContractID p) es) = mset (bp_Reserves p)"
      using perm(2) [of "bp_ContractID p"] concat_of_key [OF sorted_by_distinct [OF sorted(1)] p, of bp_Reserves] by simp
    from permuted_sort [OF this inner [OF p]] show ?thesis
      by (simp add: run_effect no_seed_empty sort_key_mapped) (simp add: seeded_reserve_def)
  qed
  have prices: "sort_key oi_Index (listed (sd_prices ?s) (os_ContractID x)) = os_Prices x" if x: "x \<in> set (ls_Oracles st)" for x
  proof -
    have "mset (prices_of (os_ContractID x) es) = mset (os_Prices x)"
      using perm(4) [of "os_ContractID x"] concat_of_key [OF sorted_by_distinct [OF sorted(2)] x, of os_Prices] by simp
    from permuted_sort [OF this inner' [OF x]] show ?thesis by (simp add: run_effect no_seed_empty)
  qed
  have ids: "distinct (map bp_ContractID (entity_pools es))"
    using perm(1) sorted_by_distinct [OF sorted(1)] by (metis mset_eq_imp_distinct_iff mset_map)
  have "sd_pools ?s = map (\<lambda>p. (bp_ContractID p, (seeded_pool p)\<lparr>bp_Reserves := []\<rparr>)) (entity_pools es)"
    using ids by (simp add: run_effect no_seed_def load_distinct)
  then have "sort_key fst (sd_pools ?s) = map (\<lambda>p. (bp_ContractID p, (seeded_pool p)\<lparr>bp_Reserves := []\<rparr>)) (ls_Pools st)"
    using permuted_sort [OF perm(1) sorted(1)] by (simp add: sort_key_mapped)
  then have pools: "ls_Pools (seed_state ?s) = map seeded_pool (ls_Pools st)"
    using reserves by (auto simp: seed_state_def seeded_pool_def zero_ledger_state_def)
  let ?with = "\<lambda>x. x\<lparr>os_Prices := sort_key oi_Index (listed (sd_prices ?s) (os_ContractID x))\<rparr>"
  have "sort_key os_ContractID (map ?with (map (\<lambda>x. (seeded_oracle x)\<lparr>os_Prices := []\<rparr>) (oracles_of es)))
      = map (\<lambda>x. ?with ((seeded_oracle x)\<lparr>os_Prices := []\<rparr>)) (ls_Oracles st)"
    using permuted_sort [OF perm(3) sorted(2)] by (simp add: sort_key_mapped comp_def) (simp add: seeded_oracle_def)
  also have "\<dots> = map seeded_oracle (ls_Oracles st)"
    using prices by (auto simp: seeded_oracle_def)
  finally have oracles: "ls_Oracles (seed_state ?s) = map seeded_oracle (ls_Oracles st)"
    by (simp add: seed_state_def run_effect(3) no_seed_def zero_ledger_state_def)
  have rest: "ls_OracleAggregators (seed_state ?s) = ls_OracleAggregators st" "ls_PriceFeeds (seed_state ?s) = ls_PriceFeeds st"
    using permuted_sort [OF perm(5) sorted(3)] permuted_sort [OF perm(6) sorted(4)]
    by (simp_all add: seed_state_def run_effect(5,6) no_seed_def zero_ledger_state_def)
  show ?thesis
    using pools oracles rest by (simp add: config_part_def seed_state_def zero_ledger_state_def)
qed

text \<open>
  C7: A restart restores the configuration: whatever the order in which the host hands back the current
  records of the entities of a state, and whatever tombstones are among them, hydration gives the
  configuration part of that state: every pool with the configuration of its reserves, every oracle
  with its asset map and prices, every aggregator and every feed with its rounds. The comment on
  HydrateConfig says that the result carries no prices; its code stitches the stored prices onto the
  oracles, and that is what is proved.
\<close>

theorem config_restores:
  assumes "config_sorted st" and "list_all entity_ok (config_entities st)"
    and "mset (map record_entry (filter (\<lambda>r. \<not> cr_Removed r) rs)) = mset (map entity_entry (config_entities st))"
  shows "bl_HydrateConfig rs = Some (config_part st)"
proof -
  obtain es where es: "mset es = mset (config_entities st)" "map record_entry (filter (\<lambda>r. \<not> cr_Removed r) rs) = map entity_entry es"
    using permuted_preimage [OF assms(3)] by blast
  then have "set es = set (config_entities st)" by (metis set_mset_mset)
  then have "list_all entity_ok es" "list_all entity_sorted es"
    using assms(1,2) by (simp_all add: config_sorted_def list_all_iff)
  from hydrate_entities [OF es(2) this] seed_of_entities [OF assms(1) es(1)] show ?thesis
    by (simp add: bl_HydrateConfig_def)
qed

text \<open>A state with a pool and its reserve, a priced oracle, an aggregator and a feed with a round, and its records in another order.\<close>

definition rt_state :: ledger_state where
  "rt_state = (lg_state [] [])\<lparr>ls_Oracles := [zero_oracle_state\<lparr>os_ContractID := ''CO'', os_Decimals := 7,
       os_Assets := [\<lparr>oa_AssetID = ''CA'', oa_Index = 1\<rparr>], os_Prices := [\<lparr>oi_Index = 1, oi_PriceRaw = ''10''\<rparr>]\<rparr>],
     ls_OracleAggregators := [\<lparr>og_ContractID = ''CG'', og_Decimals = 7, og_MaxAgeS = 900, og_BaseKey = ''USD'', og_BaseAssets = [],
       og_Feeds = [\<lparr>gf_Index = 0, gf_ContractID = ''CF'', gf_Decimals = 14, gf_ResolutionS = 300\<rparr>],
       og_Assets = [\<lparr>ga_AssetID = ''CA'', ga_FeedAssetKey = ''XLM'', ga_OracleIndex = 0, ga_MaxDev = 0\<rparr>]\<rparr>],
     ls_PriceFeeds := [\<lparr>pf_ContractID = ''CF'', pf_Decimals = 14, pf_LastRoundMs = 300000,
       pf_Assets = [\<lparr>fa_AssetKey = ''XLM'', fa_Index = 0\<rparr>],
       pf_Rounds = [\<lparr>fr_TimestampMs = 300000, fr_Prices = [\<lparr>fp_Index = 0, fp_PriceRaw = ''12''\<rparr>]\<rparr>]\<rparr>]\<rparr>"

definition rt_records :: "config_record list" where
  "rt_records = config_tombstone kindPool ''CX'' 5
     # map (\<lambda>e. case entity_entry e of (kind, key, payload) \<Rightarrow> upsert kind key 5 payload) (rev (config_entities rt_state))"

lemma rt_entries: "mset (map record_entry (filter (\<lambda>r. \<not> cr_Removed r) rt_records)) = mset (map entity_entry (config_entities rt_state))"
proof -
  have "map record_entry (filter (\<lambda>r. \<not> cr_Removed r) (map (\<lambda>e. case entity_entry e of (kind, key, payload) \<Rightarrow> upsert kind key 5 payload) es))
      = map entity_entry es" for es
    by (induction es) (simp_all add: record_entry_def upsert_def zero_config_record_def split: prod.split)
  then have "map record_entry (filter (\<lambda>r. \<not> cr_Removed r) rt_records) = map entity_entry (rev (config_entities rt_state))"
    unfolding rt_records_def config_tombstone_def by (simp del: rev_map map_map)
  then show ?thesis by (simp only: rev_map [symmetric] mset_rev)
qed

lemma rt_sorted: "config_sorted rt_state"
  by code_simp

lemma rt_ok: "list_all entity_ok (config_entities rt_state)"
  by code_simp

lemma config_restores_witness:
  "bl_HydrateConfig rt_records = Some (config_part rt_state) \<and> length (ls_Pools (config_part rt_state)) = 1"
  using config_restores [OF rt_sorted rt_ok rt_entries] by (simp add: config_part_def rt_state_def lg_state_def)

section \<open>The records of a ledger\<close>

text \<open>What a change says of which entity; the flag is that it removed the entity's key.\<close>

datatype config_id = IdOracle string | IdPool string | IdAggregator string | IdFeed string | IdReserve string string | IdPrice string int

fun set_mark :: "config_id \<Rightarrow> bool \<Rightarrow> config_dirty \<Rightarrow> config_dirty" where
  "set_mark (IdOracle k) x d = d\<lparr>cd_oracle := gm_set k x (cd_oracle d)\<rparr>"
| "set_mark (IdPool k) x d = d\<lparr>cd_pool := gm_set k x (cd_pool d)\<rparr>"
| "set_mark (IdAggregator k) x d = d\<lparr>cd_aggregator := gm_set k x (cd_aggregator d)\<rparr>"
| "set_mark (IdFeed k) x d = d\<lparr>cd_feed := gm_set k x (cd_feed d)\<rparr>"
| "set_mark (IdReserve p a) x d = d\<lparr>cd_reserve := gm_set (p, a) x (cd_reserve d)\<rparr>"
| "set_mark (IdPrice c i) x d = d\<lparr>cd_price := gm_set (c, i) x (cd_price d)\<rparr>"

fun get_mark :: "config_dirty \<Rightarrow> config_id \<Rightarrow> bool option" where
  "get_mark d (IdOracle k) = gm_get (cd_oracle d) k"
| "get_mark d (IdPool k) = gm_get (cd_pool d) k"
| "get_mark d (IdAggregator k) = gm_get (cd_aggregator d) k"
| "get_mark d (IdFeed k) = gm_get (cd_feed d) k"
| "get_mark d (IdReserve p a) = gm_get (cd_reserve d) (p, a)"
| "get_mark d (IdPrice c i) = gm_get (cd_price d) (c, i)"

definition instance_id :: "ledger_state \<Rightarrow> string \<Rightarrow> config_id option" where
  "instance_id st cid =
     (if cid \<in> pf_ContractID ` set (ls_PriceFeeds st) then Some (IdFeed cid)
      else if cid \<in> og_ContractID ` set (ls_OracleAggregators st) then Some (IdAggregator cid)
      else if cid \<in> os_ContractID ` set (ls_Oracles st) then Some (IdOracle cid)
      else if cid \<in> bp_ContractID ` set (ls_Pools st) then Some (IdPool cid) else None)"

text \<open>An emission change concerns the reserve that has the index, and never removes it.\<close>

definition emission_id :: "ledger_state \<Rightarrow> string \<Rightarrow> scval list \<Rightarrow> config_id option" where
  "emission_id st cid args =
     (case (variantU32 args, index_by bp_ContractID (ls_Pools st) cid) of
        (Some token, Some pool) \<Rightarrow> map_option (\<lambda>r. IdReserve cid (rs_AssetID r)) (config_reserve pool (token div 2)) | _ \<Rightarrow> None)"

definition change_id :: "sdk \<Rightarrow> ledger_state \<Rightarrow> string \<Rightarrow> scval \<Rightarrow> bool \<Rightarrow> (config_id \<times> bool) option" where
  "change_id S st cid key removed =
     (if key = ScKeyInstance then map_option (\<lambda>i. (i, removed)) (instance_id st cid)
      else if isOraclePriceKey key then
        (case scInt64 key of
           Some i \<Rightarrow> if cid \<in> os_ContractID ` set (ls_Oracles st) \<and> 0 \<le> i then Some (IdPrice cid i, removed) else None | None \<Rightarrow> None)
      else (case (scSymbol key, scVariant key) of
          (Some symb, _) \<Rightarrow> if symb = ''Config'' \<or> symb = ''ResList'' then Some (IdPool cid, removed) else None
        | (None, Some (variant, args)) \<Rightarrow>
            if variant = ''ResConfig'' then map_option (\<lambda>asset. (IdReserve cid asset, removed)) (variantAddress S args)
            else if variant = ''EmisConfig'' then map_option (\<lambda>i. (i, False)) (emission_id st cid args)
            else None
        | _ \<Rightarrow> None))"

definition config_change :: "sdk \<Rightarrow> ledger_state \<Rightarrow> int \<Rightarrow> contract_data_change \<Rightarrow> (config_id \<times> bool) option" where
  "config_change S st ledger ch = Option.bind (decodeScValBase64 S (cd_KeyXDR ch))
     (\<lambda>key. change_id S st (cd_ContractID ch) key (\<not> configChangeLive ch ledger))"

fun id_entry :: "ledger_state \<Rightarrow> config_id \<Rightarrow> string \<times> string \<times> string option" where
  "id_entry st (IdOracle k) = (kindOracle, k, map_option marshalOracleBody (index_by os_ContractID (ls_Oracles st) k))"
| "id_entry st (IdPool k) = (kindPool, k, map_option marshalPoolBody (index_by bp_ContractID (ls_Pools st) k))"
| "id_entry st (IdAggregator k) = (kindOracle, k, map_option marshalAggregatorBody (index_by og_ContractID (ls_OracleAggregators st) k))"
| "id_entry st (IdFeed k) = (kindOracle, k, map_option marshalFeedBody (index_by pf_ContractID (ls_PriceFeeds st) k))"
| "id_entry st (IdReserve p a) = (kindReserve, p @ ''|'' @ a, reserve_payload st (p, a))"
| "id_entry st (IdPrice c i) = (kindOraclePrice, c @ ''|'' @ show_int i, price_payload st (c, i))"

definition id_record :: "ledger_state \<Rightarrow> int \<Rightarrow> config_id \<Rightarrow> bool \<Rightarrow> config_record option" where
  "id_record st seq i removed =
     (case id_entry st i of (kind, key, payload) \<Rightarrow>
        if removed then Some (config_tombstone kind key seq) else map_option (upsert kind key seq) payload)"

text \<open>What a mark does, in one place.\<close>

definition apply_mark :: "(config_id \<times> bool) option \<Rightarrow> config_dirty \<Rightarrow> config_dirty" where
  "apply_mark m d = (case m of None \<Rightarrow> d | Some (i, x) \<Rightarrow> set_mark i x d)"

lemma apply_mark_simps [simp]:
  "apply_mark None d = d" "apply_mark (Some (i, x)) d = set_mark i x d"
  by (simp_all add: apply_mark_def)

lemma mark_instance_id: "mark_instance st cid x d = apply_mark (map_option (\<lambda>i. (i, x)) (instance_id st cid)) d"
  by (simp add: mark_instance_def instance_id_def index_by_None del: not_None_eq)

lemma mark_price_id:
  "mark_price st cid key x d = apply_mark (case scInt64 key of
     Some i \<Rightarrow> if cid \<in> os_ContractID ` set (ls_Oracles st) \<and> 0 \<le> i then Some (IdPrice cid i, x) else None | None \<Rightarrow> None) d"
  by (cases "scInt64 key") (simp_all add: mark_price_def index_by_None)

lemma mark_variant_id:
  "mark_variant S st cid variant args x d = apply_mark
     (if variant = ''ResConfig'' then map_option (\<lambda>asset. (IdReserve cid asset, x)) (variantAddress S args)
      else if variant = ''EmisConfig'' then map_option (\<lambda>i. (i, False)) (emission_id st cid args) else None) d"
  by (cases "variantAddress S args"; cases "variantU32 args"; cases "index_by bp_ContractID (ls_Pools st) cid")
    (simp_all add: mark_variant_def emission_id_def split: option.split)

lemma mark_change_id: "mark_change S st ledger ch d = apply_mark (config_change S st ledger ch) d"
proof (cases "decodeScValBase64 S (cd_KeyXDR ch)")
  case (Some key)
  then show ?thesis
    by (cases "scSymbol key"; cases "scVariant key")
      (simp_all add: mark_change_def config_change_def change_id_def Let_def mark_instance_id mark_price_id mark_variant_id split: prod.split)
qed (simp add: mark_change_def config_change_def)

lemma get_set_mark: "get_mark (set_mark i x d) j = (if j = i then Some x else get_mark d j)"
  by (cases i; cases j) (auto simp: gm_simps)

definition last_mark :: "(config_id \<times> bool) list \<Rightarrow> config_id \<Rightarrow> bool option" where
  "last_mark ms = map_of (rev ms)"

lemma get_apply_mark:
  "get_mark (apply_mark m d) i = (case m of None \<Rightarrow> get_mark d i | Some (j, x) \<Rightarrow> if i = j then Some x else get_mark d i)"
  by (simp add: apply_mark_def get_set_mark split: option.split prod.split)

lemma get_marks:
  "get_mark (run (mark_change S st ledger) changes d) i =
    (case last_mark (List.map_filter (config_change S st ledger) changes) i of None \<Rightarrow> get_mark d i | Some x \<Rightarrow> Some x)"
proof (induction changes rule: rev_induct)
  case (snoc ch changes)
  have "get_mark (run (mark_change S st ledger) (changes @ [ch]) d) i
      = get_mark (apply_mark (config_change S st ledger ch) (run (mark_change S st ledger) changes d)) i"
    by (simp add: run_append run_Cons run_Nil mark_change_id [of S st ledger ch])
  with snoc show ?case
    by (cases "config_change S st ledger ch")
      (auto simp: get_apply_mark last_mark_def map_filter_app List.map_filter_simps split: option.split)
qed (simp add: last_mark_def List.map_filter_simps run_Nil)

text \<open>Every dirty set has one mark for an entity.\<close>

definition marks_ok :: "config_dirty \<Rightarrow> bool" where
  "marks_ok d \<longleftrightarrow> gm_ok (cd_oracle d) \<and> gm_ok (cd_pool d) \<and> gm_ok (cd_aggregator d) \<and> gm_ok (cd_feed d)
     \<and> gm_ok (cd_reserve d) \<and> gm_ok (cd_price d)"

lemma marks_ok_apply: "marks_ok d \<Longrightarrow> marks_ok (apply_mark m d)"
proof -
  assume ok: "marks_ok d"
  have "marks_ok (set_mark i x d)" for i x
    using ok by (cases i) (simp_all add: marks_ok_def gm.ok_upd)
  with ok show ?thesis by (simp add: apply_mark_def split: option.split prod.split)
qed

lemma marks_ok_run: "marks_ok d \<Longrightarrow> marks_ok (run (mark_change S st ledger) changes d)"
  by (induction changes arbitrary: d) (simp_all add: run_Nil run_Cons mark_change_id marks_ok_apply)

lemma no_marks: "marks_ok no_config_dirty" "get_mark no_config_dirty i = None"
  by (simp add: marks_ok_def no_config_dirty_def gm.ok_nil) (cases i; simp add: no_config_dirty_def gm.get_nil)

lemma in_marks: "gm_ok m \<Longrightarrow> e \<in> set m \<longleftrightarrow> gm_get m (fst e) = Some (snd e)"
  using gm_get_in in_gm_get by (cases e) fastforce

lemma some_config_id:
  "(\<exists>i. P i) \<longleftrightarrow> (\<exists>k. P (IdAggregator k)) \<or> (\<exists>k. P (IdFeed k)) \<or> (\<exists>k. P (IdOracle k)) \<or> (\<exists>k. P (IdPool k))
     \<or> (\<exists>p a. P (IdReserve p a)) \<or> (\<exists>c i. P (IdPrice c i))"
  by (metis config_id.exhaust)

lemma in_dirty_records:
  assumes "marks_ok d"
  shows "r \<in> set (dirty_records st seq d) \<longleftrightarrow> (\<exists>i x. get_mark d i = Some x \<and> id_record st seq i x = Some r)"
proof -
  have records: "r \<in> set (List.map_filter (entity_record kind seq key payload) m) \<longleftrightarrow>
      (\<exists>k x. gm_get m k = Some x \<and> (if x then Some (config_tombstone kind (key k) seq) else map_option (upsert kind (key k) seq) (payload k)) = Some r)"
    if "gm_ok m" for kind key payload and m :: "('k, bool) gmap"
    using that by (simp add: in_map_filter Bex_def in_marks entity_record_def split_paired_Ex del: split_paired_All)
  show ?thesis
    using assms unfolding some_config_id marks_ok_def
    by (simp add: dirty_records_def records id_record_def split_paired_Ex)
qed

lemma id_entry_entity:
  assumes "id_entry st i = (kind, key, Some payload)"
  shows "(kind, key, payload) \<in> entity_entry ` set (config_entities st)"
proof -
  have inI: "e \<in> set (config_entities st) \<Longrightarrow> entity_entry e = (kind, key, payload) \<Longrightarrow> ?thesis" for e
    by (metis imageI)
  show ?thesis
  proof (cases i)
    case (IdReserve c a)
    with assms obtain p r where found: "index_by bp_ContractID (ls_Pools st) c = Some p" "reserveByAsset p a = Some r"
      and entry: "kind = kindReserve" "key = c @ ''|'' @ a" "payload = marshalReserveBody c r"
      by (auto simp: reserve_payload_def Option.bind_eq_Some_conv)
    have "p \<in> set (ls_Pools st)" "bp_ContractID p = c" using index_by_Some [OF found(1)] by simp_all
    moreover have "r \<in> set (bp_Reserves p)" "rs_AssetID r = a" using found(2) by (auto simp: reserveByAsset_def find_Some_iff)
    ultimately show ?thesis using entry by (intro inI [of "EReserve c r"]) (auto simp: config_entities_def)
  next
    case (IdPrice c j)
    with assms obtain x p where found: "index_by os_ContractID (ls_Oracles st) c = Some x" "find (\<lambda>p. oi_Index p = j) (os_Prices x) = Some p"
      and entry: "kind = kindOraclePrice" "key = c @ ''|'' @ show_int j"
        "payload = mustMarshal (oracle_price_text \<lparr>pb_oracle_id = c, pb_asset_index = j, pb_price_raw = oi_PriceRaw p\<rparr>)"
      by (auto simp: price_payload_def oraclePriceByIndex_def Option.bind_eq_Some_conv)
    have "x \<in> set (ls_Oracles st)" "os_ContractID x = c" using index_by_Some [OF found(1)] by simp_all
    moreover have "p \<in> set (os_Prices x)" "oi_Index p = j" using found(2) by (auto simp: find_Some_iff)
    ultimately show ?thesis using entry by (intro inI [of "EPrice c p"]) (auto simp: config_entities_def price_body_def)
  next
    case (IdOracle k)
    with assms obtain x where "x \<in> set (ls_Oracles st)" "(kind, key, payload) = (kindOracle, os_ContractID x, marshalOracleBody x)"
      by (auto dest!: index_by_Some)
    then show ?thesis by (intro inI [of "EOracle x"]) (simp_all add: config_entities_def)
  next
    case (IdPool k)
    with assms obtain x where "x \<in> set (ls_Pools st)" "(kind, key, payload) = (kindPool, bp_ContractID x, marshalPoolBody x)"
      by (auto dest!: index_by_Some)
    then show ?thesis by (intro inI [of "EPool x"]) (simp_all add: config_entities_def)
  next
    case (IdAggregator k)
    with assms obtain x where "x \<in> set (ls_OracleAggregators st)" "(kind, key, payload) = (kindOracle, og_ContractID x, marshalAggregatorBody x)"
      by (auto dest!: index_by_Some)
    then show ?thesis by (intro inI [of "EAggregator x"]) (simp_all add: config_entities_def)
  next
    case (IdFeed k)
    with assms obtain x where "x \<in> set (ls_PriceFeeds st)" "(kind, key, payload) = (kindOracle, pf_ContractID x, marshalFeedBody x)"
      by (auto dest!: index_by_Some)
    then show ?thesis by (intro inI [of "EFeed x"]) (simp_all add: config_entities_def)
  qed
qed

text \<open>Nothing but the configuration of the new state is written.\<close>

lemma records_of_entities:
  "record_entry ` {r \<in> set (bl_ConfigRecords S (Some st) changes ledger). \<not> cr_Removed r} \<subseteq> entity_entry ` set (config_entities st)"
proof -
  have "record_entry r \<in> entity_entry ` set (config_entities st)"
    if mem: "r \<in> set (dirty_records st seq (config_marks S st changes ledger))" and live: "\<not> cr_Removed r" for r seq
  proof -
    have "marks_ok (config_marks S st changes ledger)" by (simp add: config_marks_def marks_ok_run no_marks)
    then obtain i x where "id_record st seq i x = Some r" using mem by (auto simp: in_dirty_records)
    with live obtain kind key payload where entry: "id_entry st i = (kind, key, Some payload)" and r: "r = upsert kind key seq payload"
      by (auto simp: id_record_def config_tombstone_def split: if_splits prod.splits)
    then show ?thesis using id_entry_entity [OF entry] by (simp add: record_entry_def upsert_def zero_config_record_def)
  qed
  then show ?thesis by (auto simp: bl_ConfigRecords_def Let_def)
qed

text \<open>
  C8: The configuration records of a ledger come in the order of kind and key, and are exactly the records of the
  entities its changes concern: of each the last such change decides, a removed key leaves a tombstone, any other
  the entity's payload in the new state, if it is there.  So nothing but the configuration of the new state is
  written: a record that is not a tombstone has the kind, key and payload of an entity of the state. The
  price of an asset at an oracle is such an entity: the comment on ConfigRecords says that prices are
  never emitted, but its code writes a record of the price for a set_price entry.
\<close>

theorem config_records_exact:
  "sorted (map (\<lambda>r. (cr_Kind r, cr_EntityKey r)) (bl_ConfigRecords S (Some st) changes ledger))
    \<and> (r \<in> set (bl_ConfigRecords S (Some st) changes ledger) \<longleftrightarrow>
        (\<exists>i x. last_mark (List.map_filter (config_change S st ledger) changes) i = Some x
           \<and> id_record st (to_uint32 ledger) i x = Some r))
    \<and> record_entry ` {r \<in> set (bl_ConfigRecords S (Some st) changes ledger). \<not> cr_Removed r} \<subseteq> entity_entry ` set (config_entities st)"
proof -
  have "get_mark (config_marks S st changes ledger) i = last_mark (List.map_filter (config_change S st ledger) changes) i" for i
    by (simp add: config_marks_def get_marks no_marks split: option.split)
  moreover have "marks_ok (config_marks S st changes ledger)"
    by (simp add: config_marks_def marks_ok_run no_marks)
  ultimately show ?thesis using records_of_entities [of S st changes ledger] by (simp add: bl_ConfigRecords_def in_dirty_records)
qed

section \<open>The schema fits the records\<close>

text \<open>The members of the payload an SQL expression reads.\<close>

fun payload_members :: "string \<Rightarrow> string list" where
  "payload_members [] = []"
| "payload_members (c # s) =
     (let word = takeWhile (\<lambda>c. c \<noteq> CHR 0x27)
      in if take 11 (c # s) = ''payload->>'' @ [CHR 0x27] then [word (drop 11 (c # s))]
         else if take 10 (c # s) = ''payload->'' @ [CHR 0x27] then [word (drop 10 (c # s))] else [])
     @ payload_members s"

definition object_names :: "json \<Rightarrow> string list" where
  "object_names v = (case v of JObj ms \<Rightarrow> map fst ms | _ \<Rightarrow> [])"

text \<open>Every column reads a member, and only members the payload has; every index is on columns of its table.\<close>

definition columns_read :: "config_table_schema \<Rightarrow> json \<Rightarrow> bool" where
  "columns_read t v \<longleftrightarrow> list_all (\<lambda>ms. ms \<noteq> [] \<and> list_all (\<lambda>m. m \<in> set (object_names v)) ms)
     (map (\<lambda>c. payload_members (cg_Expr c)) (cs_Generated t))"

definition table_ok :: "config_table_schema \<Rightarrow> bool" where
  "table_ok t \<longleftrightarrow> distinct (map cg_Name (cs_Generated t))
     \<and> list_all (\<lambda>i. list_all (\<lambda>c. c \<in> set (map cg_Name (cs_Generated t))) (ci_Columns i)) (cs_Indexes t)"

lemma columns_members:
  "map (\<lambda>c. payload_members (cg_Expr c)) (cs_Generated oracle_table) = [[''decimals''], [''assets'', ''assets'']]"
  "map (\<lambda>c. payload_members (cg_Expr c)) (cs_Generated oracle_price_table) = [[''oracle_id''], [''asset_index''], [''price_raw'']]"
  "map (\<lambda>c. payload_members (cg_Expr c)) (cs_Generated pool_table) = [[''status''], [''take_rate''], [''oracle''], [''backstop'']]"
  "map (\<lambda>c. payload_members (cg_Expr c)) (cs_Generated reserve_table) = [[''pool_id''], [''asset_id''], [''index''], [''c_factor''], [''l_factor''],
     [''util_target''], [''max_util''], [''r_base''], [''r_one''], [''r_two''], [''r_three''], [''supply_cap''], [''reactivity''], [''enabled''],
     [''supply_emis_eps''], [''supply_emis_expiration''], [''borrow_emis_eps''], [''borrow_emis_expiration'']]"
  by code_simp+

lemma schema_tables:
  "distinct (map cs_Kind bl_ConfigSchema)" "distinct (map cs_Table bl_ConfigSchema)" "list_all table_ok bl_ConfigSchema"
  "map cs_Kind bl_ConfigSchema = [kindOracle, kindOraclePrice, kindPool, kindReserve]"
  by code_simp+

lemma columns_present:
  "columns_read oracle_table (oracle_config_text b)" "columns_read oracle_price_table (oracle_price_text b')"
  "columns_read pool_table (pool_config_text b'')" "columns_read reserve_table (reserve_config_text b''')"
  unfolding columns_read_def columns_members
  by (simp_all add: object_names_def oracle_config_text_def oracle_price_text_def pool_config_text_def reserve_config_text_def)

lemma id_record_kind: "id_record st seq i x = Some r \<Longrightarrow> cr_Kind r \<in> {kindOracle, kindOraclePrice, kindPool, kindReserve}"
  by (cases i) (auto simp: id_record_def config_tombstone_def upsert_def zero_config_record_def split: if_splits)

text \<open>
  C40: The schema fits the records: kinds and tables are distinct, every index is on generated columns of
  its table, every generated column reads members the payloads of its kind always have, and every
  record, tombstones included, has a kind with a table.
\<close>

theorem schema_fits_records:
  "distinct (map cs_Kind bl_ConfigSchema) \<and> distinct (map cs_Table bl_ConfigSchema) \<and> list_all table_ok bl_ConfigSchema
   \<and> columns_read oracle_table (oracle_config_text b) \<and> columns_read oracle_price_table (oracle_price_text b')
   \<and> columns_read pool_table (pool_config_text b'') \<and> columns_read reserve_table (reserve_config_text b''')
   \<and> cr_Kind ` set (bl_ConfigRecords S (Some st) changes ledger) \<subseteq> set (map cs_Kind bl_ConfigSchema)"
proof -
  have "cr_Kind r \<in> set (map cs_Kind bl_ConfigSchema)"
    if mem: "r \<in> set (dirty_records st seq (config_marks S st changes ledger))" for r seq
  proof -
    have "marks_ok (config_marks S st changes ledger)" by (simp add: config_marks_def marks_ok_run no_marks)
    with mem obtain i x where "id_record st seq i x = Some r" by (auto simp: in_dirty_records)
    then show ?thesis unfolding schema_tables(4) using id_record_kind by fastforce
  qed
  then have "cr_Kind ` set (bl_ConfigRecords S (Some st) changes ledger) \<subseteq> set (map cs_Kind bl_ConfigSchema)"
    by (auto simp: bl_ConfigRecords_def Let_def)
  then show ?thesis by (simp add: schema_tables(1-3) columns_present)
qed

section \<open>A lapsed reserve\<close>

text \<open>The reserve of an asset is there and archived.\<close>

definition archived_reserve :: "string \<Rightarrow> string \<Rightarrow> bl_builder \<Rightarrow> bool" where
  "archived_reserve cid asset b \<longleftrightarrow> (case gm_get (b_pools b) cid of
     None \<Rightarrow> False | Some p \<Rightarrow> (case gm_get (pb_reserves p) asset of None \<Rightarrow> False | Some r \<Rightarrow> rs_Archived r))"

lemma get_named: "gm_get (named_reserves m) k = map_option (\<lambda>r. if rs_AssetID r = '''' then r\<lparr>rs_AssetID := k\<rparr> else r) (gm_get m k)"
  by (induction m) (auto simp: named_reserves_def gm_get_def)

lemma archived_delta [simp]: "archived_reserve cid asset (addDelta typ key live st ledger b) = archived_reserve cid asset b"
  by (simp add: archived_reserve_def addDelta_def)

lemma archived_put: "archived_reserve cid asset (putPool i p b) =
  (if i = cid then (case gm_get (pb_reserves p) asset of None \<Rightarrow> False | Some r \<Rightarrow> rs_Archived r) else archived_reserve cid asset b)"
  by (simp add: archived_reserve_def putPool_def gm.get_upd)

lemma archived_append:
  assumes "archived_reserve cid asset b"
  shows "archived_reserve cid asset (appendUserPositions ledger u b)"
proof (cases "gm_get (b_pools b) (pp_poolContract u)")
  case (Some p)
  have "pp_poolContract u = cid \<Longrightarrow> \<exists>r. gm_get (pb_reserves p) asset = Some r \<and> rs_Archived r"
    using assms Some by (auto simp: archived_reserve_def split: option.splits)
  then show ?thesis
    using assms Some by (auto simp: appendUserPositions_def Let_def archived_put get_named)
qed (use assms in \<open>simp add: appendUserPositions_def\<close>)

lemma archived_users: "archived_reserve cid asset b \<Longrightarrow> archived_reserve cid asset (appendPoolUsers c ledger b)"
proof -
  have "archived_reserve cid asset b \<Longrightarrow> archived_reserve cid asset (run (appendUserPositions ledger) us b)" for us
    by (induction us arbitrary: b) (simp_all add: archived_append)
  then show "archived_reserve cid asset b \<Longrightarrow> archived_reserve cid asset (appendPoolUsers c ledger b)"
    by (simp add: appendPoolUsers_def)
qed

lemma archived_lapse:
  assumes "gm_get (b_pools b) (cd_ContractID ch) \<noteq> None" and "\<not> isExplicitOnChainDelete (cd_ChangeType ch)"
  shows "archived_reserve (cd_ContractID ch) asset (reserve_delete S f ch asset ledger b)"
  using assms by (auto simp: reserve_delete_def Let_def reserve_write_def reserve_delta_def archived_put get_named
    putReserve_def gm.get_upd intro!: archived_users)

text \<open>
  C9: A lapse forgets a reserve: when the configuration entry of a reserve lapses or is evicted, which is not a
  removal on chain, the decoder keeps the reserve, archived, but the configuration records of the ledger
  hold its tombstone, so that a restart has no reserve for the positions of its holders.
\<close>

theorem lapsed_reserve_forgotten:
  assumes "decodeScValBase64 S (cd_KeyXDR ch) = Some (ScVec (Some [ScSym ''ResConfig'', ScAddress (AddrContract a)]))"
    and "\<not> configChangeLive ch ledger" and "\<not> isExplicitOnChainDelete (cd_ChangeType ch)" and "strkey_ok S"
    and "gm_get (b_pools b) (cd_ContractID ch) \<noteq> None"
    and "cd_ContractID ch \<notin> b_ownedFeeds b \<union> b_ownedComets b \<union> b_ownedAssets b"
  shows "archived_reserve (cd_ContractID ch) (sdk_strkey_contract S a) (bl_apply S D ledger ch b)
    \<and> config_tombstone kindReserve (cd_ContractID ch @ ''|'' @ sdk_strkey_contract S a) (to_uint32 ledger)
      \<in> set (bl_ConfigRecords S (Some st) [ch] ledger)"
proof
  let ?asset = "sdk_strkey_contract S a" and ?key = "ScVec (Some [ScSym ''ResConfig'', ScAddress (AddrContract a)])"
  have "?asset \<noteq> ''''" using assms(4) by (metis list.distinct(1) strkey_ok_def)
  then have variant: "variantAddress S [ScAddress (AddrContract a)] = Some ?asset"
    by (simp add: variantAddress_def scAddress_def scValAddress_def)
  have key: "scSymbol ?key = None" "scVariant ?key = Some (''ResConfig'', [ScAddress (AddrContract a)])" "\<not> isOraclePriceKey ?key"
    by (simp_all add: scSymbol_def scVariant_def isOraclePriceKey_def)
  have "\<not> entry_live ch ledger" using assms(2) by (auto simp: entry_live_def configChangeLive_def split: if_splits)
  then have "bl_apply S D ledger ch b = reserve_delete S applyReserveConfig ch ?asset ledger b"
    using assms(1,6) by (simp add: bl_apply_def applyDelete_def key variant delete_variant_def if_ok_def Let_def)
  then show "archived_reserve (cd_ContractID ch) ?asset (bl_apply S D ledger ch b)" using archived_lapse assms(3,5) by metis
  have "config_change S st ledger ch = Some (IdReserve (cd_ContractID ch) ?asset, True)"
    using assms(1,2) by (simp add: config_change_def change_id_def key variant)
  then have "get_mark (config_marks S st [ch] ledger) (IdReserve (cd_ContractID ch) ?asset) = Some True"
    unfolding config_marks_def get_marks by (simp add: last_mark_def List.map_filter_simps)
  moreover have "marks_ok (config_marks S st [ch] ledger)" unfolding config_marks_def by (intro marks_ok_run no_marks)
  ultimately show "config_tombstone kindReserve (cd_ContractID ch @ ''|'' @ ?asset) (to_uint32 ledger)
      \<in> set (bl_ConfigRecords S (Some st) [ch] ledger)"
    by (auto simp: bl_ConfigRecords_def in_dirty_records id_record_def intro!: exI [of _ "IdReserve (cd_ContractID ch) ?asset"] exI [of _ True])
qed

text \<open>The reserve of the example pool lapses at ledger 9.\<close>

definition ls_sdk :: sdk where
  "ls_sdk = example_sdk [([CHR 0x00, CHR 0x00, CHR 0x00], ScVec (Some [ScSym ''ResConfig'', ScAddress (AddrContract ''A'')]))] []"

definition ls_change :: contract_data_change where
  "ls_change = zero_contract_data_change\<lparr>cd_ContractID := ''CP'', cd_KeyXDR := ''AAAA'', cd_Live := True, cd_ValueXDR := Some ''AAAA'', cd_LiveUntilLedgerSeq := Some 8, cd_ChangeType := ''LedgerEntryUpdated''\<rparr>"

lemma ls_key: "decodeScValBase64 ls_sdk (cd_KeyXDR ls_change) = Some (ScVec (Some [ScSym ''ResConfig'', ScAddress (AddrContract ''A'')]))"
  by code_simp

lemma lapsed_reserve_forgotten_witness:
  "archived_reserve ''CP'' ''C41'' (bl_apply ls_sdk rat_decimal 9 ls_change (lg_loaded 9 []))
    \<and> config_tombstone kindReserve ''CP|C41'' 9 \<in> set (bl_ConfigRecords ls_sdk (Some (lg_state [] [])) [ls_change] 9)"
proof -
  have "\<not> configChangeLive ls_change 9" "\<not> isExplicitOnChainDelete (cd_ChangeType ls_change)" by code_simp+
  moreover have "strkey_ok ls_sdk" by (simp add: ls_sdk_def example_sdk_ok)
  moreover have "gm_get (b_pools (lg_loaded 9 [])) (cd_ContractID ls_change) \<noteq> None"
    by (simp add: lg_loaded_def ls_change_def gm_get_def)
  moreover have "cd_ContractID ls_change \<notin> b_ownedFeeds (lg_loaded 9 []) \<union> b_ownedComets (lg_loaded 9 []) \<union> b_ownedAssets (lg_loaded 9 [])"
    by (simp add: lg_loaded_def newBlendStateBuilder_def)
  moreover have "sdk_strkey_contract ls_sdk ''A'' = ''C41''" "to_uint32 9 = 9" "cd_ContractID ls_change = ''CP''" by code_simp+
  ultimately show ?thesis
    using lapsed_reserve_forgotten [OF ls_key, of 9 "lg_loaded 9 []" rat_decimal "lg_state [] []"] by simp
qed

end
