(* ===== verification/Discovery.thy ===== *)
theory Discovery
  imports Stellar
begin

text \<open>
  Pool discovery (src/blend/discovery, src/aquarius/discovery) and the deploy-ledger table
  (src/deployments.go).  Discovery scans the contract events of a ledger's close meta.  The XDR of
  the meta is decoded by the SDK, and the table is parsed by a TOML package: both are arguments.
\<close>

section \<open>Close meta\<close>

datatype event_type = EvSystem | EvContract | EvDiagnostic

record meta_event =
  me_Type :: event_type
  me_ContractId :: "string option"
  me_V0 :: "(scval list \<times> scval) option"

text \<open>The two layouts with events, each with the nil pointers the code tests for, and the others.\<close>

datatype tx_meta = MetaV3 "meta_event list option" | MetaV4 "meta_event list list option" | MetaOther

record close_meta =
  lm_LedgerSeq :: w32
  lm_Txs :: "(string \<times> tx_meta) list"

definition contractEventsFromMeta :: "tx_meta \<Rightarrow> meta_event list" where
  "contractEventsFromMeta m =
     (case m of
        MetaV3 es \<Rightarrow> (case es of None \<Rightarrow> [] | Some es \<Rightarrow> es)
      | MetaV4 ops \<Rightarrow> (case ops of None \<Rightarrow> [] | Some ops \<Rightarrow> concat ops)
      | MetaOther \<Rightarrow> [])"

text \<open>The events of all transactions in order, each with the hash of its transaction.\<close>

definition meta_events :: "close_meta \<Rightarrow> (string \<times> meta_event) list" where
  "meta_events meta = concat (map (\<lambda>(h, m). map (\<lambda>e. (hex_encode h, e)) (contractEventsFromMeta m)) (lm_Txs meta))"

section \<open>Blend: deploys of a pool factory\<close>

record discovered_pool =
  dp_PoolID :: string
  dp_FactoryID :: string
  dp_LedgerSeq :: int
  dp_TxHash :: string

definition PoolFactoryDeployTopic :: string where
  "PoolFactoryDeployTopic = ''deploy''"

definition topic_symbol :: "scval \<Rightarrow> string" where
  "topic_symbol v = (case v of ScSym s \<Rightarrow> s | ScStr s \<Rightarrow> s | _ \<Rightarrow> '''')"

definition event_address :: "sdk \<Rightarrow> scval \<Rightarrow> string" where
  "event_address S v = (case v of ScAddress (AddrAccount b) \<Rightarrow> sdk_strkey_account S b | ScAddress (AddrContract b) \<Rightarrow> sdk_strkey_contract S b | _ \<Rightarrow> '''')"

definition validContractAddress :: "sdk \<Rightarrow> string \<Rightarrow> bool" where
  "validContractAddress S a = sdk_valid_contract S a"

definition decodePoolFactoryDeploy :: "sdk \<Rightarrow> string set \<Rightarrow> meta_event \<Rightarrow> discovered_pool option" where
  "decodePoolFactoryDeploy S factories e =
     (case (me_ContractId e, me_V0 e) of
        (Some c, Some (topics, v)) \<Rightarrow>
          (let factory = sdk_strkey_contract S c; pool = event_address S v in
           if me_Type e = EvContract \<and> factory \<in> factories \<and> map topic_symbol topics = [PoolFactoryDeployTopic] \<and> validContractAddress S pool
           then Some \<lparr>dp_PoolID = pool, dp_FactoryID = factory, dp_LedgerSeq = 0, dp_TxHash = ''''\<rparr> else None)
      | _ \<Rightarrow> None)"

text \<open>The first deploy of a pool stays.\<close>

definition see_deploy :: "sdk \<Rightarrow> string set \<Rightarrow> int \<Rightarrow> string \<times> meta_event \<Rightarrow> (string, discovered_pool) gmap \<Rightarrow> (string, discovered_pool) gmap" where
  "see_deploy S factories seq e seen =
     (case decodePoolFactoryDeploy S factories (snd e) of
        None \<Rightarrow> seen
      | Some p \<Rightarrow> if gm_get seen (dp_PoolID p) \<noteq> None then seen
                  else gm_set (dp_PoolID p) (p\<lparr>dp_LedgerSeq := seq, dp_TxHash := fst e\<rparr>) seen)"

definition bl_DiscoverPools :: "sdk \<Rightarrow> string set \<Rightarrow> close_meta \<Rightarrow> discovered_pool list" where
  "bl_DiscoverPools S factories meta =
     (if factories = {} then []
      else sort_key dp_PoolID (map snd (run (see_deploy S factories (uint (lm_LedgerSeq meta))) (meta_events meta) [])))"

definition bl_DiscoverPoolsFromMeta :: "sdk \<Rightarrow> (string \<Rightarrow> close_meta option) \<Rightarrow> string set \<Rightarrow> string \<Rightarrow> string + discovered_pool list" where
  "bl_DiscoverPoolsFromMeta S decode factories raw =
     (if factories = {} then Inr []
      else (case decode raw of
          None \<Rightarrow> Inl ''discover pools: decode LedgerCloseMeta'' | Some meta \<Rightarrow> Inr (bl_DiscoverPools S factories meta)))"

section \<open>Aquarius: pools a router announces\<close>

record discovered_amm =
  da_PoolID :: string
  da_RouterID :: string
  da_TxHash :: string
  da_LedgerSeq :: int

text \<open>The first text that is not empty.\<close>

definition first_text :: "string list \<Rightarrow> string" where
  "first_text xs = (case dropWhile (\<lambda>s. s = '''') xs of [] \<Rightarrow> '''' | s # _ \<Rightarrow> s)"

fun findContract :: "sdk \<Rightarrow> string \<Rightarrow> scval \<Rightarrow> string" where
  "findContract S x (ScAddress (AddrContract b)) = (let s = sdk_strkey_contract S b in if s \<noteq> x then s else '''')"
| "findContract S x (ScVec (Some vs)) = first_text (map (findContract S x) vs)"
| "findContract S x (ScMap (Some ms)) = first_text (map (\<lambda>(k, v). findContract S x v) ms)"
| "findContract S x _ = ''''"

definition pool_announcements :: "string list" where
  "pool_announcements = [''add_pool'', ''pool_created'', ''init_pool'', ''deploy'']"

definition aq_announced :: "sdk \<Rightarrow> string set \<Rightarrow> meta_event \<Rightarrow> discovered_amm option" where
  "aq_announced S routers e =
     (case (me_ContractId e, me_V0 e) of
        (Some c, Some (topic # topics, v)) \<Rightarrow>
          (let router = sdk_strkey_contract S c;
               name = to_lower (case get_sym topic of None \<Rightarrow> '''' | Some s \<Rightarrow> s);
               found = findContract S router v;
               pool = (if found = '''' then first_text (map (findContract S router) topics) else found) in
           if me_Type e = EvContract \<and> router \<in> routers \<and> name \<in> set pool_announcements \<and> pool \<noteq> ''''
           then Some \<lparr>da_PoolID = pool, da_RouterID = router, da_TxHash = '''', da_LedgerSeq = 0\<rparr> else None)
      | _ \<Rightarrow> None)"

text \<open>Here the last announcement of a pool counts.\<close>

definition see_announced :: "sdk \<Rightarrow> string set \<Rightarrow> int \<Rightarrow> string \<times> meta_event \<Rightarrow> (string, discovered_amm) gmap \<Rightarrow> (string, discovered_amm) gmap" where
  "see_announced S routers seq e seen =
     (case aq_announced S routers (snd e) of
        None \<Rightarrow> seen | Some p \<Rightarrow> gm_set (da_PoolID p) (p\<lparr>da_LedgerSeq := seq, da_TxHash := fst e\<rparr>) seen)"

definition aq_DiscoverPools :: "sdk \<Rightarrow> string set \<Rightarrow> close_meta \<Rightarrow> discovered_amm list" where
  "aq_DiscoverPools S routers meta =
     sort_key da_PoolID (map snd (run (see_announced S routers (uint (lm_LedgerSeq meta))) (meta_events meta) []))"

definition aq_DiscoverPoolsFromMeta :: "sdk \<Rightarrow> (string \<Rightarrow> close_meta option) \<Rightarrow> string set \<Rightarrow> string \<Rightarrow> string + discovered_amm list" where
  "aq_DiscoverPoolsFromMeta S decode routers raw =
     (case decode raw of None \<Rightarrow> Inl ''aquarius discovery'' | Some meta \<Rightarrow> Inr (aq_DiscoverPools S routers meta))"

section \<open>The deploy-ledger table\<close>

record deploy_pin =
  pin_Network :: string
  pin_ContractID :: string
  pin_Role :: string
  pin_DeployLedger :: "int option"
  pin_Source :: string
  pin_Notes :: string

text \<open>The first row of a contract decides, also when it is uncurated.\<close>

definition DeployLedger :: "deploy_pin list \<Rightarrow> string \<Rightarrow> string \<Rightarrow> int option" where
  "DeployLedger pins network contract =
     Option.bind (find (\<lambda>p. pin_Network p = network \<and> pin_ContractID p = contract) pins) pin_DeployLedger"

section \<open>What discovery finds\<close>

text \<open>The deploys and the announcements of a ledger, in the order of its events.\<close>

definition deploys :: "sdk \<Rightarrow> string set \<Rightarrow> close_meta \<Rightarrow> discovered_pool list" where
  "deploys S factories meta = List.map_filter (\<lambda>(tx, e). map_option (\<lambda>p. p\<lparr>dp_LedgerSeq := uint (lm_LedgerSeq meta), dp_TxHash := tx\<rparr>)
     (decodePoolFactoryDeploy S factories e)) (meta_events meta)"

definition announcements :: "sdk \<Rightarrow> string set \<Rightarrow> close_meta \<Rightarrow> discovered_amm list" where
  "announcements S routers meta = List.map_filter (\<lambda>(tx, e). map_option (\<lambda>p. p\<lparr>da_LedgerSeq := uint (lm_LedgerSeq meta), da_TxHash := tx\<rparr>)
     (aq_announced S routers e)) (meta_events meta)"

lemma run_first:
  assumes "keyed key m" and "\<And>e m. step e m = (case f e of None \<Rightarrow> m | Some p \<Rightarrow> if gm_get m (key p) \<noteq> None then m else gm_set (key p) p m)"
  shows "keyed key (run step es m) \<and> gm_get (run step es m) k
    = (case gm_get m k of Some p \<Rightarrow> Some p | None \<Rightarrow> find (\<lambda>p. key p = k) (List.map_filter f es))"
  using assms(1)
proof (induction es arbitrary: m)
  case (Cons e es)
  have "keyed key (step e m)" using Cons.prems by (auto simp: assms(2) split: option.split)
  from Cons.IH [OF this] show ?case
    by (auto simp: run_Cons List.map_filter_simps assms(2) gm.get_upd split: option.split)
qed (simp add: run_Nil List.map_filter_simps split: option.split)

lemma find_snoc: "find P (xs @ [y]) = (case find P xs of Some x \<Rightarrow> Some x | None \<Rightarrow> if P y then Some y else None)"
  by (induction xs) simp_all

lemma run_last:
  assumes "keyed key m" and "\<And>e m. step e m = (case f e of None \<Rightarrow> m | Some p \<Rightarrow> gm_set (key p) p m)"
  shows "keyed key (run step es m) \<and> gm_get (run step es m) k
    = (case find (\<lambda>p. key p = k) (rev (List.map_filter f es)) of Some p \<Rightarrow> Some p | None \<Rightarrow> gm_get m k)"
  using assms(1)
proof (induction es arbitrary: m)
  case (Cons e es)
  have "keyed key (step e m)" using Cons.prems by (auto simp: assms(2) split: option.split)
  from Cons.IH [OF this] show ?case
    by (auto simp: find_snoc run_Cons List.map_filter_simps assms(2) gm.get_upd split: option.split)
qed (simp add: run_Nil List.map_filter_simps split: option.split)

lemma in_output:
  assumes "keyed key m"
  shows "p \<in> set (sort_key key (map snd m)) \<longleftrightarrow> gm_get m (key p) = Some p"
  using assms by (force simp: keyed_def dest: gm_get_in in_gm_get)

lemma listed_once:
  assumes "\<And>k. keyed key m \<and> gm_get m k = f k"
  shows "sorted_by key (sort_key key (map snd m)) \<and> (p \<in> set (sort_key key (map snd m)) \<longleftrightarrow> f (key p) = Some p)"
proof -
  have "keyed key m" "gm_get m (key p) = f (key p)" using assms by blast+
  then show ?thesis using sorted_by_output [of key m] in_output [of key m p] by simp
qed

text \<open>
  C38: Discovery lists each pool once, in the order of the ids: with Blend a pool is listed with its first
  deploy in the ledger, with Aquarius with its last announcement, and nothing else is listed.
\<close>

theorem discovery_exact:
  "sorted_by dp_PoolID (bl_DiscoverPools S factories meta)
   \<and> (p \<in> set (bl_DiscoverPools S factories meta) \<longleftrightarrow> find (\<lambda>q. dp_PoolID q = dp_PoolID p) (deploys S factories meta) = Some p)
   \<and> sorted_by da_PoolID (aq_DiscoverPools S routers meta)
   \<and> (r \<in> set (aq_DiscoverPools S routers meta) \<longleftrightarrow> find (\<lambda>q. da_PoolID q = da_PoolID r) (rev (announcements S routers meta)) = Some r)"
proof -
  have first: "keyed dp_PoolID (run (see_deploy S factories (uint (lm_LedgerSeq meta))) (meta_events meta) [])
      \<and> gm_get (run (see_deploy S factories (uint (lm_LedgerSeq meta))) (meta_events meta) []) k
        = find (\<lambda>q. dp_PoolID q = k) (deploys S factories meta)" for k
    using run_first [of dp_PoolID "[]" "see_deploy S factories (uint (lm_LedgerSeq meta))" "\<lambda>(tx, e). map_option
        (\<lambda>p. p\<lparr>dp_LedgerSeq := uint (lm_LedgerSeq meta), dp_TxHash := tx\<rparr>) (decodePoolFactoryDeploy S factories e)"]
    by (simp add: deploys_def gm.get_nil see_deploy_def split_def option.case_eq_if option.map_sel)
  have last: "keyed da_PoolID (run (see_announced S routers (uint (lm_LedgerSeq meta))) (meta_events meta) [])
      \<and> gm_get (run (see_announced S routers (uint (lm_LedgerSeq meta))) (meta_events meta) []) k
        = find (\<lambda>q. da_PoolID q = k) (rev (announcements S routers meta))" for k
    using run_last [of da_PoolID "[]" "see_announced S routers (uint (lm_LedgerSeq meta))" "\<lambda>(tx, e). map_option
        (\<lambda>p. p\<lparr>da_LedgerSeq := uint (lm_LedgerSeq meta), da_TxHash := tx\<rparr>) (aq_announced S routers e)"]
    by (simp add: announcements_def gm.get_nil see_announced_def split_def option.case_eq_if option.map_sel)
  have none: "factories = {} \<Longrightarrow> deploys S factories meta = []"
    by (simp add: deploys_def decodePoolFactoryDeploy_def List.map_filter_def filter_empty_conv split: option.split prod.split)
  have "sorted_by dp_PoolID (bl_DiscoverPools S factories meta)
      \<and> (p \<in> set (bl_DiscoverPools S factories meta) \<longleftrightarrow> find (\<lambda>q. dp_PoolID q = dp_PoolID p) (deploys S factories meta) = Some p)"
  proof (cases "factories = {}")
    case True
    then show ?thesis using none by (simp add: bl_DiscoverPools_def sorted_by_def)
  next
    case False
    show ?thesis unfolding bl_DiscoverPools_def if_not_P [OF False] by (rule listed_once [OF first])
  qed
  then show ?thesis
    using listed_once [OF last, of r] unfolding aq_DiscoverPools_def by simp
qed

section \<open>Which contract an announcement is about\<close>

text \<open>The contracts a value mentions, from left to right; keys of maps do not count.\<close>

fun contracts_in :: "scval \<Rightarrow> string list" where
  "contracts_in (ScAddress (AddrContract b)) = [b]"
| "contracts_in (ScVec (Some vs)) = concat (map contracts_in vs)"
| "contracts_in (ScMap (Some ms)) = concat (map (\<lambda>(k, v). contracts_in v) ms)"
| "contracts_in _ = []"

lemma first_text_Cons: "first_text (x # xs) = (if x = '''' then first_text xs else x)"
  by (simp add: first_text_def)

lemma first_text_append: "first_text (xs @ ys) = (if first_text xs = '''' then first_text ys else first_text xs)"
proof (induction xs)
  case (Cons x xs)
  then show ?case by (auto simp: first_text_Cons)
qed (simp add: first_text_def)

lemma first_text_concat: "first_text (concat xss) = first_text (map first_text xss)"
  by (induction xss) (simp_all add: first_text_append first_text_Cons)

definition others :: "sdk \<Rightarrow> string \<Rightarrow> scval \<Rightarrow> string list" where
  "others S x v = filter (\<lambda>s. s \<noteq> x) (map (sdk_strkey_contract S) (contracts_in v))"

lemma others_concat: "filter (\<lambda>s. s \<noteq> x) (map (sdk_strkey_contract S) (concat (map contracts_in vs))) = concat (map (others S x) vs)"
  by (induction vs) (simp_all add: others_def)

lemma findContract_first: "findContract S x v = first_text (others S x v)"
proof (induction S x v rule: findContract.induct)
  case (2 S x vs)
  then have "map (findContract S x) vs = map (\<lambda>v. first_text (others S x v)) vs" by (intro map_cong) auto
  then show ?case
    by (simp only: findContract.simps others_def [of S x "ScVec (Some vs)"] contracts_in.simps others_concat first_text_concat map_map comp_def)
next
  case (3 S x ms)
  have texts: "map (\<lambda>(k, v). findContract S x v) ms = map (\<lambda>v. first_text (others S x v)) (map snd ms)"
    using 3 by (auto simp: split_def)
  have ids: "concat (map (\<lambda>(k, v). contracts_in v) ms) = concat (map contracts_in (map snd ms))"
    by (simp add: split_def comp_def)
  have "findContract S x (ScMap (Some ms)) = first_text (concat (map (others S x) (map snd ms)))"
    by (simp only: findContract.simps texts first_text_concat) (simp add: comp_def)
  then show ?case by (simp only: others_def [of S x "ScMap (Some ms)"] contracts_in.simps ids others_concat)
qed (auto simp: others_def first_text_def Let_def)

lemma announced_pool:
  "(if findContract S x v = '''' then first_text (map (findContract S x) topics) else findContract S x v)
    = first_text (concat (map (others S x) (v # topics)))"
proof -
  have "findContract S x = (\<lambda>v. first_text (others S x v))" by (rule ext) (rule findContract_first)
  then show ?thesis by (simp add: first_text_concat first_text_append comp_def)
qed

lemma first_filled: "'''' \<notin> set xs \<Longrightarrow> first_text xs = s \<and> s \<noteq> '''' \<longleftrightarrow> (\<exists>rest. xs = s # rest)"
  by (cases xs) (auto simp: first_text_def)

text \<open>
  C39: A router's event announces the first contract other than the router that its data mentions, else the
  first its topics after the name do; there is an announcement exactly when there is such a contract,
  the event is a contract event of a router of the set and its name is one of the four, in any case.
\<close>

theorem announcement_found:
  assumes "strkey_ok S"
  shows "aq_announced S routers e = Some p \<longleftrightarrow>
    (\<exists>c name topics v pool rest. e = \<lparr>me_Type = EvContract, me_ContractId = Some c, me_V0 = Some (ScSym name # topics, v)\<rparr>
       \<and> sdk_strkey_contract S c \<in> routers \<and> to_lower name \<in> {''add_pool'', ''pool_created'', ''init_pool'', ''deploy''}
       \<and> concat (map (others S (sdk_strkey_contract S c)) (v # topics)) = pool # rest
       \<and> p = \<lparr>da_PoolID = pool, da_RouterID = sdk_strkey_contract S c, da_TxHash = '''', da_LedgerSeq = 0\<rparr>)"
proof -
  have "'''' \<notin> set (others S x v)" for x v
    using assms by (auto simp: others_def strkey_ok_def) (metis list.distinct(1))
  then have filled: "'''' \<notin> set (concat (map (others S x) vs))" for x vs by simp
  note found = first_filled [OF filled]
  obtain k c b where e: "e = \<lparr>me_Type = k, me_ContractId = c, me_V0 = b\<rparr>" by (cases e)
  show ?thesis
  proof (cases "\<exists>i t ts v. c = Some i \<and> b = Some (t # ts, v)")
    case True
    then obtain i t ts v where parts: "c = Some i" "b = Some (t # ts, v)" by blast
    let ?r = "sdk_strkey_contract S i"
    have "aq_announced S routers e = Some p \<longleftrightarrow> k = EvContract \<and> ?r \<in> routers
        \<and> to_lower (case get_sym t of None \<Rightarrow> '''' | Some s \<Rightarrow> s) \<in> set pool_announcements
        \<and> (\<exists>pool. (first_text (concat (map (others S ?r) (v # ts))) = pool \<and> pool \<noteq> '''')
             \<and> p = \<lparr>da_PoolID = pool, da_RouterID = ?r, da_TxHash = '''', da_LedgerSeq = 0\<rparr>)"
      by (auto simp: aq_announced_def e parts announced_pool Let_def)
    then show ?thesis unfolding found
      by (cases t) (auto simp: e parts pool_announcements_def to_lower_def)
  next
    case False
    then have "aq_announced S routers e = None" by (auto simp: aq_announced_def e split: option.split list.split)
    then show ?thesis using False by (auto simp: e)
  qed
qed

definition dv_event :: meta_event where
  "dv_event = \<lparr>me_Type = EvContract, me_ContractId = Some ''r'',
     me_V0 = Some ([ScSym ''Add_Pool'', ScAddress (AddrContract ''q'')],
       ScMap (Some [(ScSym ''from'', ScAddress (AddrContract ''r'')), (ScSym ''pool'', ScVec (Some [ScU32 1, ScAddress (AddrContract ''p'')]))]))\<rparr>"

lemma announcement_found_witness:
  "aq_announced (example_sdk [] []) {''C72''} dv_event
    = Some \<lparr>da_PoolID = ''C70'', da_RouterID = ''C72'', da_TxHash = '''', da_LedgerSeq = 0\<rparr>"
proof -
  have "sdk_strkey_contract (example_sdk [] []) ''r'' = ''C72'' \<and> to_lower ''Add_Pool'' = ''add_pool''"
    and "concat (map (others (example_sdk [] []) ''C72'')
        [ScMap (Some [(ScSym ''from'', ScAddress (AddrContract ''r'')), (ScSym ''pool'', ScVec (Some [ScU32 1, ScAddress (AddrContract ''p'')]))]),
         ScAddress (AddrContract ''q'')]) = [''C70'', ''C71'']"
    by code_simp+
  then show ?thesis
    by (intro iffD2 [OF announcement_found [OF example_sdk_ok]] exI) (auto simp: dv_event_def)
qed

end
