(* ===== verification/Spec2Isabelle.thy ===== *)
theory Spec2Isabelle
  imports Soroswap Fxdao Aquarius_Transform Aquarius_Config Blend_Wire Blend_Projection Blend_Restart Discovery
begin

text \<open>
  A model of the Stellar protocol adapters of this repository: the Go packages under src/ that
  turn one ledger's contract-data changes and events into protocol state and output rows.

  The program. Every adapter (src/blend, src/soroswap, src/fxdao, src/aquarius) keeps a small
  registry (which contracts it owns, what the last ledger touched), decodes the changes of a
  ledger on top of the state it decoded before (\<open>DecodeState\<close>), and projects state and events to
  rows (\<open>Transform\<close>). The types they exchange are those of src/bindings/types.go.

  Theories.
  \<^item> Prelude: Go maps as association lists (the locale of their laws is interpreted on them), runs
    of a step over a list, sorted output, early-exit loops and index tables.
  \<^item> GoLib, GoText: the parts of Go's standard library the sources use: wrap-around conversions,
    decimal numerals, base64, hex, SHA-256, JSON rendering, RFC 3339 times.
  \<^item> Bindings, Blend_Types: the records and enumerations of src/bindings and src/blend/contracts.
  \<^item> Stellar: the XDR values of the Stellar SDK as a datatype. What the SDK does (unmarshalling,
    the strkey text of addresses) is a record of functions, a parameter of every decoder; the one
    law used is that strkeys contain no vertical bar.
  \<^item> Soroswap: src/soroswap in full: discovery, decoder, pro-rata decomposition, transform.
  \<^item> Fxdao: src/fxdao in full: vault decoder, dirty set, transform.
  \<^item> Aquarius_Math, Aquarius_State, Aquarius_Transform: src/aquarius: tick prices, range principal and
    reward accrual; the decoder with its seeds, removals and the token array a discarded copy shares
    with the stored pool (the parameter \<open>G\<close> says whether growing a slice stays inside its array,
    which Go's runtime decides); rows and the event vocabulary.
  \<^item> Blend_Decimal: src/blend/decimal.go over a decimal library. The library (shopspring/decimal)
    is a record of operations; \<open>decimal_ok\<close> states its documented arithmetic and rendering, and
    \<open>rat_decimal\<close> is an implementation on rational numbers that satisfies it.
  \<^item> Blend_Rates: src/blend/config.go and the pool and reserve normalization of
    src/blend/math.go, with the integer specification of the contract it refines.
  \<^item> Blend_Valuation: the rest of src/blend/math.go: computeState and the temporary-state rows.
  \<^item> Blend_Risk, Blend_Summary: what the valuation guarantees: which accounts get a summary, when it
    fails, what health factors, totals and liquidation prices mean, the lifecycle of auctions.
  \<^item> GoJson, Blend_Events: encoding/json as far as the decoder uses it, and src/blend/decode.go with
    the readers of contract values at the end of src/blend/state.go. The text of a number after its
    passage through float64 and the order of a map range are parameters.
  \<^item> Blend_Adapter: src/blend/adapter.go: registry, events of a ledger, tombstones, transform and the
    projections of a dirty set; of the strategies it sees the row lookup the incremental one offers.
  \<^item> Blend_Wire, Blend_Emission: what the event path and the output promise.
  \<^item> Blend_Entries, Blend_Feeds, Blend_Builder, Blend_Apply, Blend_Ledger: src/blend/state.go with
    state_reflector.go and state_comet.go: the entries of pools, reserves, positions, backstops and
    auctions; price feeds and the aggregators over them, and Comet pools; the builder that holds them;
    the effect of one live or removed entry on it; loading the prior state, building the next, and the
    reports of what a ledger touched. \<open>decodeBlendState\<close> is the decoder and what the paranoid strategy of
    state_strategy.go runs. Its value is None when the walk over a feed does not return. Its parameter
    \<open>J\<close> is the JSON text of a delta, by which deltas are sorted last.
  \<^item> Blend_Prices: when the decoder returns, which price an aggregator serves, and why the rounds a feed
    carries to the next ledger are enough.
  \<^item> Blend_Tracking: the builder invariant (every map under the identities of its entries, the reserve
    indexes the published ones) and the step relation of every operation, lifted to the run over a
    ledger by the locale of Prelude.
  \<^item> Blend_Reports, Blend_Dirty: sorted slices, every leg of a holder accounted for, dirty sets and
    temporary changes that name everything that changed; an example ledger for the witnesses.
  \<^item> Blend_Incremental: src/blend/state_incremental.go, the incremental strategy of state_strategy.go: the
    carried builder and the cache of position rows. A pointer to a cached entry is the key of the entry,
    a pointer to a ledger state an address with the content behind it; the knobs its tests set to pin
    one part of it to the reference are off, so the full rebuild they select is not modelled.
  \<^item> Blend_Cache, Blend_Parity: the cache as a function of the builder: binary search, insertion and
    removal of keys, the loop over the dirty holders; over any run of the strategy the next state is
    the full build of the builder the changes were applied to.
  \<^item> Blend_Projection: the rows of a projection are those of the full pass for the dirty pairs, from
    the scan of the state and from the lookup of the incremental strategy.
  \<^item> GoMarshal: json.Marshal and json.Unmarshal on structs: the reader of a struct is the list of its
    fields, and the locale \<open>json_codec\<close> says of a type what makes its text read back as it was.
  \<^item> Blend_Config: src/blend/config_state.go: the schema of the configuration tables, the records a
    ledger writes with the JSON text of every payload, and hydration.
  \<^item> Blend_Restart: every payload is read as it was written (one interpretation of \<open>json_codec\<close> for each
    body); hydration of the records of a state restores its configuration; the records of a ledger
    are those of the entities its changes concern; the columns of the schema are in the payloads; the
    tombstone of a lapsed reserve against the archived reserve the decoder keeps.
  \<^item> Aquarius_Config: src/aquarius/config_state.go: whole pools as JSON, and their restoration.
  \<^item> Discovery: src/blend/discovery, src/aquarius/discovery and the lookup of src/deployments.go:
    which pools the contract events of a ledger's close meta announce.

  Not modelled. The TOML parser that reads the rows of src/deployments.go, the XDR decoding of a
  close meta (both arguments), the embedded test data of src/blend/fixtures.go, and the texts of the
  errors of encoding/json. The other packages hold no code but interfaces. The copy of a prior state
  through JSON (cloneState) is the identity: that it would replace invalid UTF-8 is left out.

  Conventions. A Go struct is a record with the fields of the source behind a short prefix, an
  error return is the left of a sum, a nil pointer is None, a Go map is an association list where
  its content is iterated and a partial map where it is only looked up. Where Go leaves an order
  open (map iteration, an unstable sort), the definitions fix one: entries in the order of insertion,
  sorts stable. Blend_Reports shows that the slices of a decoded Blend ledger have no ties, so that any other
  order gives the same, except position rows of a blob that reads one reserve index twice.

  Termination. Loops are folds over the lists the source ranges over. The recursions with a measure
  are those on digits and blocks in GoLib; only the JSON parser of GoJson runs on fuel, twice the
  length of its text, and every call spends a character for at most two units of it. The walk
  over the rounds of a price feed may not end (its step is a decoded number that can wrap to zero), so
  \<open>walk_back\<close> is a partial function into option, and Blend_Prices says when it has a value.
\<close>

end
